(* ===== verification/Py_Prelude.thy ===== *)
theory Py_Prelude
  imports Complex_Main "HOL-Library.AList" "HOL-Library.List_Lexorder" "HOL-Library.Char_ord"
begin

text \<open>
  Shared vocabulary of the development: the part of Python's built-in types that the platform
  uses, and the generic lemmas about it.

  \<^item> A \<^verbatim>\<open>str\<close> is a \<^typ>\<open>string\<close> whose characters are its code points (Latin-1, code points below
    256), so \<^verbatim>\<open>len\<close> is \<^const>\<open>length\<close>; \<open>utf8_length\<close> is the size of its UTF-8 encoding.
  \<^item> A JSON-like value (request bodies, YAML documents, audit payloads, token claims) is a \<open>pyval\<close>.
    A \<^verbatim>\<open>float\<close> is a rational or one of the three non-finite values that \<^verbatim>\<open>json.loads\<close> accepts.
  \<^item> A \<^verbatim>\<open>dict\<close> is an association list in insertion order: \<^const>\<open>map_of\<close> reads it,
    \<^const>\<open>AList.update\<close> is \<^verbatim>\<open>d[k] = v\<close> (an existing key keeps its position, a new one goes last)
    and \<^const>\<open>AList.delete\<close> is \<^verbatim>\<open>del d[k]\<close>.
  \<^item> A function that may raise returns a sum, \<^const>\<open>Inl\<close> the exception.
\<close>

named_theorems py_simps \<open>definitions of Python's primitives, unfolded on demand\<close>
named_theorems scope_simps \<open>definitions of the tenant and workspace checks\<close>

type_synonym ('e, 'a) result = "'e + 'a"
type_synonym ('k, 'v) dict = "('k \<times> 'v) list"

section \<open>Values\<close>

datatype pyfloat = Finite rat | PosInf | NegInf | NaN

datatype pyval =
    VNone
  | VBool bool
  | VInt int
  | VFloat pyfloat
  | VStr string
  | VList "pyval list"
  | VDict "(string \<times> pyval) list"

type_synonym pydict = "(string \<times> pyval) list"

text \<open>\<^verbatim>\<open>isinstance(v, str)\<close>, \<^verbatim>\<open>isinstance(v, dict)\<close>, \<^verbatim>\<open>isinstance(v, int)\<close> (a \<^verbatim>\<open>bool\<close> is an \<^verbatim>\<open>int\<close>).\<close>

fun as_str :: "pyval \<Rightarrow> string option" where
  "as_str (VStr s) = Some s"
| "as_str _ = None"

fun as_dict :: "pyval \<Rightarrow> pydict option" where
  "as_dict (VDict d) = Some d"
| "as_dict _ = None"

fun as_list :: "pyval \<Rightarrow> pyval list option" where
  "as_list (VList xs) = Some xs"
| "as_list _ = None"

fun as_int :: "pyval \<Rightarrow> int option" where
  "as_int (VInt i) = Some i"
| "as_int (VBool b) = Some (if b then 1 else 0)"
| "as_int _ = None"

fun as_bool :: "pyval \<Rightarrow> bool option" where
  "as_bool (VBool b) = Some b"
| "as_bool _ = None"

text \<open>\<^verbatim>\<open>isinstance(v, (int, float))\<close>.\<close>

fun as_num :: "pyval \<Rightarrow> pyfloat option" where
  "as_num (VInt i) = Some (Finite (of_int i))"
| "as_num (VBool b) = Some (Finite (if b then 1 else 0))"
| "as_num (VFloat f) = Some f"
| "as_num _ = None"

text \<open>Python's comparisons on numbers: every comparison with a NaN is false.\<close>

fun num_le :: "pyfloat \<Rightarrow> pyfloat \<Rightarrow> bool" where
  "num_le NaN _ = False"
| "num_le _ NaN = False"
| "num_le NegInf _ = True"
| "num_le _ PosInf = True"
| "num_le (Finite a) (Finite b) = (a \<le> b)"
| "num_le PosInf _ = False"
| "num_le (Finite a) NegInf = False"

fun num_eq :: "pyfloat \<Rightarrow> pyfloat \<Rightarrow> bool" where
  "num_eq (Finite a) (Finite b) = (a = b)"
| "num_eq PosInf PosInf = True"
| "num_eq NegInf NegInf = True"
| "num_eq _ _ = False"

definition num_less :: "pyfloat \<Rightarrow> pyfloat \<Rightarrow> bool" where
  "num_less a b \<longleftrightarrow> num_le a b \<and> \<not> num_eq a b"

text \<open>\<^verbatim>\<open>t <= 0 or t > limit\<close>, the check of the time-outs: it is false of a NaN.\<close>

definition timeout_invalid :: "pyfloat \<Rightarrow> rat \<Rightarrow> bool" where
  "timeout_invalid t limit \<longleftrightarrow> num_le t (Finite 0) \<or> num_less (Finite limit) t"

text \<open>
  \<^verbatim>\<open>a == b\<close> where \<open>b\<close> is \<^verbatim>\<open>None\<close>, a \<^verbatim>\<open>str\<close>, a \<^verbatim>\<open>bool\<close> or a number: numbers and booleans compare
  by value, so \<^verbatim>\<open>1 == True\<close>.
\<close>

fun scalar_eq :: "pyval \<Rightarrow> pyval \<Rightarrow> bool" where
  "scalar_eq VNone VNone = True"
| "scalar_eq (VStr s) (VStr t) = (s = t)"
| "scalar_eq a b = (case (as_num a, as_num b) of (Some x, Some y) \<Rightarrow> num_eq x y | _ \<Rightarrow> False)"

lemma as_str_Some [simp]: "as_str v = Some s \<longleftrightarrow> v = VStr s" "Some s = as_str v \<longleftrightarrow> v = VStr s"
  by (cases v; auto)+

lemma as_dict_Some [simp]: "as_dict v = Some d \<longleftrightarrow> v = VDict d" "Some d = as_dict v \<longleftrightarrow> v = VDict d"
  by (cases v; auto)+

lemma as_list_Some [simp]: "as_list v = Some d \<longleftrightarrow> v = VList d" "Some d = as_list v \<longleftrightarrow> v = VList d"
  by (cases v; auto)+

lemma as_bool_Some [simp]: "as_bool v = Some d \<longleftrightarrow> v = VBool d" "Some d = as_bool v \<longleftrightarrow> v = VBool d"
  by (cases v; auto)+

text \<open>\<^verbatim>\<open>bool(v)\<close>.\<close>

fun truthy :: "pyval \<Rightarrow> bool" where
  "truthy VNone = False"
| "truthy (VBool b) = b"
| "truthy (VInt i) = (i \<noteq> 0)"
| "truthy (VFloat f) = (f \<noteq> Finite 0)"
| "truthy (VStr s) = (s \<noteq> [])"
| "truthy (VList xs) = (xs \<noteq> [])"
| "truthy (VDict d) = (d \<noteq> [])"

text \<open>\<^verbatim>\<open>d.get(k)\<close> and \<^verbatim>\<open>d.get(k, default)\<close>.\<close>

definition dget :: "pydict \<Rightarrow> string \<Rightarrow> pyval" where
  "dget d k = (case map_of d k of None \<Rightarrow> VNone | Some v \<Rightarrow> v)"

definition dget_default :: "pydict \<Rightarrow> string \<Rightarrow> pyval \<Rightarrow> pyval" where
  "dget_default d k v = (case map_of d k of None \<Rightarrow> v | Some w \<Rightarrow> w)"

definition str_or_none :: "string option \<Rightarrow> pyval" where
  "str_or_none x = (case x of None \<Rightarrow> VNone | Some s \<Rightarrow> VStr s)"

text \<open>
  What \<^verbatim>\<open>json.loads(json.dumps(v, sort_keys=True))\<close> gives back: the same value with the keys of every
  dictionary in code point order.
\<close>

primrec canon :: "pyval \<Rightarrow> pyval" where
  "canon VNone = VNone"
| "canon (VBool b) = VBool b"
| "canon (VInt i) = VInt i"
| "canon (VFloat f) = VFloat f"
| "canon (VStr s) = VStr s"
| "canon (VList xs) = VList (map canon xs)"
| "canon (VDict d) = VDict (sort_key fst (map (map_prod id canon) d))"

definition canon_dict :: "pydict \<Rightarrow> pydict" where
  "canon_dict d = sort_key fst (map (map_prod id canon) d)"

section \<open>Strings\<close>

text \<open>\<^verbatim>\<open>str.isspace\<close> on one Latin-1 code point, and \<^verbatim>\<open>strip\<close>, \<^verbatim>\<open>rstrip(c)\<close>, \<^verbatim>\<open>lower\<close>.\<close>

definition code :: "char \<Rightarrow> nat" where
  "code c = of_char c"

definition is_space :: "char \<Rightarrow> bool" where
  "is_space c \<longleftrightarrow> (let n = code c in (9 \<le> n \<and> n \<le> 13) \<or> (28 \<le> n \<and> n \<le> 32) \<or> n = 133 \<or> n = 160)"

definition lstrip :: "string \<Rightarrow> string" where
  "lstrip s = dropWhile is_space s"

definition strip :: "string \<Rightarrow> string" where
  "strip s = rev (dropWhile is_space (rev (dropWhile is_space s)))"

definition rstrip_char :: "char \<Rightarrow> string \<Rightarrow> string" where
  "rstrip_char c s = rev (dropWhile (\<lambda>x. x = c) (rev s))"

text \<open>\<^verbatim>\<open>not s.strip()\<close>.\<close>

definition blank :: "string \<Rightarrow> bool" where
  "blank s \<longleftrightarrow> strip s = []"

definition lower_char :: "char \<Rightarrow> char" where
  "lower_char c = (let n = code c in
     if (65 \<le> n \<and> n \<le> 90) \<or> (192 \<le> n \<and> n \<le> 222 \<and> n \<noteq> 215) then char_of (n + 32) else c)"

definition lower :: "string \<Rightarrow> string" where
  "lower s = map lower_char s"

definition utf8_length :: "string \<Rightarrow> nat" where
  "utf8_length s = sum_list (map (\<lambda>c. if code c < 128 then 1 else 2) s)"

definition startswith :: "string \<Rightarrow> string \<Rightarrow> bool" where
  "startswith s p \<longleftrightarrow> take (length p) s = p"

definition endswith :: "string \<Rightarrow> string \<Rightarrow> bool" where
  "endswith s p \<longleftrightarrow> length p \<le> length s \<and> drop (length s - length p) s = p"

text \<open>\<^verbatim>\<open>p in s\<close> on strings.\<close>

fun contains :: "string \<Rightarrow> string \<Rightarrow> bool" where
  "contains [] p = (p = [])"
| "contains (c # s) p = (startswith (c # s) p \<or> contains s p)"

text \<open>\<^verbatim>\<open>s.split(c)\<close>: always at least one part, empty parts kept.\<close>

fun split_on :: "char \<Rightarrow> string \<Rightarrow> string list" where
  "split_on c [] = [[]]"
| "split_on c (x # xs) =
     (if x = c then [] # split_on c xs
      else (case split_on c xs of [] \<Rightarrow> [[x]] | p # ps \<Rightarrow> (x # p) # ps))"

text \<open>\<^verbatim>\<open>s.split()\<close>: maximal runs of non-space characters.\<close>

fun split_ws_aux :: "string \<Rightarrow> string \<Rightarrow> string list" where
  "split_ws_aux acc [] = (if acc = [] then [] else [rev acc])"
| "split_ws_aux acc (x # xs) =
     (if is_space x then (if acc = [] then split_ws_aux [] xs else rev acc # split_ws_aux [] xs)
      else split_ws_aux (x # acc) xs)"

definition split_ws :: "string \<Rightarrow> string list" where
  "split_ws s = split_ws_aux [] s"

text \<open>\<^verbatim>\<open>s.partition(c)\<close> without the separator itself: the parts before and after the first \<open>c\<close>.\<close>

fun partition_on :: "char \<Rightarrow> string \<Rightarrow> string \<times> string" where
  "partition_on c [] = ([], [])"
| "partition_on c (x # xs) =
     (if x = c then ([], xs) else (let (a, b) = partition_on c xs in (x # a, b)))"

text \<open>Character classes of the regular expressions in the source.\<close>

definition is_digit :: "char \<Rightarrow> bool" where
  "is_digit c \<longleftrightarrow> 48 \<le> code c \<and> code c \<le> 57"

definition is_lower :: "char \<Rightarrow> bool" where
  "is_lower c \<longleftrightarrow> 97 \<le> code c \<and> code c \<le> 122"

definition is_upper :: "char \<Rightarrow> bool" where
  "is_upper c \<longleftrightarrow> 65 \<le> code c \<and> code c \<le> 90"

definition is_alnum :: "char \<Rightarrow> bool" where
  "is_alnum c \<longleftrightarrow> is_digit c \<or> is_lower c \<or> is_upper c"

text \<open>\<^verbatim>\<open>re.fullmatch(r"[first][rest]{lo,hi}", s)\<close> for two character classes.\<close>

definition match_head_tail ::
    "(char \<Rightarrow> bool) \<Rightarrow> (char \<Rightarrow> bool) \<Rightarrow> nat \<Rightarrow> nat \<Rightarrow> string \<Rightarrow> bool" where
  "match_head_tail p q lo hi s \<longleftrightarrow>
     (case s of [] \<Rightarrow> False
      | c # cs \<Rightarrow> p c \<and> list_all q cs \<and> lo \<le> length cs \<and> length cs \<le> hi)"

text \<open>
  \<^verbatim>\<open>int(s)\<close>: surrounding white space, one sign, digits with single underscores between them, at
  most 4300 digits; \<^const>\<open>None\<close> is the \<^verbatim>\<open>ValueError\<close>.
\<close>

fun digits_value :: "nat \<Rightarrow> bool \<Rightarrow> string \<Rightarrow> nat option" where
  "digits_value n prev [] = (if prev then Some n else None)"
| "digits_value n prev (c # cs) =
     (if is_digit c then digits_value (10 * n + (code c - 48)) True cs
      else if c = CHR ''_'' \<and> prev then digits_value n False cs
      else None)"

definition py_int :: "string \<Rightarrow> int option" where
  "py_int s =
     (let t = strip s;
          (sg, body) = (case t of [] \<Rightarrow> (1, [])
             | c # cs \<Rightarrow> if c = CHR ''-'' then (-1, cs) else if c = CHR ''+'' then (1, cs) else (1, t))
      in if length (filter is_digit body) > 4300 then None
         else map_option (\<lambda>n. sg * int n) (digits_value 0 False body))"

text \<open>\<^verbatim>\<open>str(n)\<close> for an \<^verbatim>\<open>int\<close>.\<close>

fun nat_digits :: "nat \<Rightarrow> string" where
  "nat_digits n = (if n < 10 then [char_of (48 + n)] else nat_digits (n div 10) @ [char_of (48 + n mod 10)])"

declare nat_digits.simps [simp del]

definition int_str :: "int \<Rightarrow> string" where
  "int_str i = (if i < 0 then CHR ''-'' # nat_digits (nat (- i)) else nat_digits (nat i))"

text \<open>\<^verbatim>\<open>str(v)\<close>; the text of floats, lists and dictionaries is a parameter.\<close>

fun py_str :: "(pyval \<Rightarrow> string) \<Rightarrow> pyval \<Rightarrow> string" where
  "py_str rep (VStr s) = s"
| "py_str rep (VInt i) = int_str i"
| "py_str rep (VBool b) = (if b then ''True'' else ''False'')"
| "py_str rep VNone = ''None''"
| "py_str rep v = rep v"

section \<open>Lemmas\<close>

lemma code_char_of: "n < 256 \<Longrightarrow> code (char_of n) = n"
  by (simp add: code_def)

lemma code_less [simp]: "code c < 256"
  by (simp add: code_def)

lemma char_of_code [simp]: "char_of (code c) = c"
  by (simp add: code_def)

lemma char_eq_code: "c = d \<longleftrightarrow> code c = code d"
  by (simp add: code_def)

lemma dropWhile_fixed: "xs \<noteq> [] \<Longrightarrow> \<not> P (hd xs) \<Longrightarrow> dropWhile P xs = xs"
  by (cases xs) auto

lemma all_dropWhile_iff: "(\<forall>x\<in>set (dropWhile P xs). P x) \<longleftrightarrow> (\<forall>x\<in>set xs. P x)"
  by (induction xs) auto

lemma blank_iff: "blank s \<longleftrightarrow> (\<forall>c\<in>set s. is_space c)"
  unfolding blank_def strip_def rev_is_Nil_conv dropWhile_eq_Nil_conv set_rev by (rule all_dropWhile_iff)

lemma blank_Nil [simp]: "blank []"
  by (simp add: blank_iff)

lemma not_blank_nonempty: "\<not> blank s \<Longrightarrow> s \<noteq> []"
  by auto

lemma length_strip_le: "length (strip s) \<le> length s"
proof -
  have "length (strip s) \<le> length (dropWhile is_space s)"
    by (simp add: strip_def) (metis length_dropWhile_le length_rev)
  then show ?thesis
    by (meson length_dropWhile_le order_trans)
qed

lemma strip_fixed:
  assumes "s \<noteq> []" "\<not> is_space (hd s)" "\<not> is_space (last s)"
  shows "strip s = s"
proof -
  have "dropWhile is_space s = s"
    using assms by (intro dropWhile_fixed)
  moreover have "dropWhile is_space (rev s) = rev s"
    using assms by (intro dropWhile_fixed) (simp_all add: hd_rev)
  ultimately show ?thesis by (simp add: strip_def)
qed

lemma strip_idem [simp]: "strip (strip s) = strip s"
proof (cases "strip s = []")
  case True
  then show ?thesis by (simp only: True) (simp add: strip_def)
next
  case False
  let ?u = "dropWhile is_space s" and ?w = "dropWhile is_space (rev (dropWhile is_space s))"
  from False have ne: "?w \<noteq> []" by (simp add: strip_def)
  then have l: "\<not> is_space (hd ?w)" by (rule hd_dropWhile)
  obtain pre where "rev ?u = pre @ ?w" by (metis takeWhile_dropWhile_id)
  then have u: "?u = rev ?w @ rev pre" by (metis rev_append rev_rev_ident)
  have une: "?u \<noteq> []" using ne by (auto simp del: dropWhile_eq_Nil_conv)
  have "hd ?u = hd (rev ?w)"
    by (subst u) (simp add: ne del: dropWhile_eq_Nil_conv)
  moreover have "\<not> is_space (hd ?u)" using une by (rule hd_dropWhile)
  ultimately have "\<not> is_space (hd (rev ?w))" by (simp only: not_False_eq_True)
  then have "strip (rev ?w) = rev ?w"
    using ne l by (intro strip_fixed) (auto simp: last_rev)
  then show ?thesis by (simp add: strip_def)
qed

lemma blank_strip [simp]: "blank (strip s) = blank s"
  by (simp add: blank_def)

lemma match_head_tail_nonempty: "match_head_tail p q lo hi s \<Longrightarrow> s \<noteq> []"
  by (auto simp: match_head_tail_def)

lemma match_head_tail_length: "match_head_tail p q lo hi s \<Longrightarrow> Suc lo \<le> length s \<and> length s \<le> Suc hi"
  by (auto simp: match_head_tail_def split: list.splits)

lemma split_on_nonempty [simp]: "split_on c s \<noteq> []"
  by (induction s) (auto split: list.splits)

lemma split_on_no_sep: "p \<in> set (split_on c s) \<Longrightarrow> c \<notin> set p"
  by (induction s arbitrary: p) (auto split: list.splits if_splits)

lemma split_on_append: "c \<notin> set a \<Longrightarrow> split_on c (a @ c # b) = a # split_on c b"
  by (induction a) auto

lemma split_on_single: "c \<notin> set a \<Longrightarrow> split_on c a = [a]"
  by (induction a) auto

lemma split_on_subset: "p \<in> set (split_on c s) \<Longrightarrow> set p \<subseteq> set s"
proof (induction s arbitrary: p)
  case (Cons a s)
  then obtain q qs where q: "split_on c s = q # qs" by (cases "split_on c s") auto
  then have "set x \<subseteq> set s" if "x = q \<or> x \<in> set qs" for x using Cons.IH [of x] that by auto
  then show ?case using Cons.prems q by (fastforce split: if_splits)
qed simp

lemma map_of_update [simp]: "map_of (AList.update k v al) = (map_of al)(k \<mapsto> v)"
  by (rule update_conv')

lemma map_of_delete [simp]: "map_of (AList.delete k al) = (map_of al)(k := None)"
  by (rule delete_conv')

lemma distinct_map_fst_update:
  "distinct (map fst al) \<Longrightarrow> distinct (map fst (AList.update k v al))"
  by (rule distinct_update)

lemma dget_Cons [simp]: "dget ((k, v) # d) k' = (if k' = k then v else dget d k')"
  by (simp add: dget_def)

lemma dget_Nil [simp]: "dget [] k = VNone"
  by (simp add: dget_def)

lemma map_of_sort_key_fst:
  assumes "distinct (map fst xs)"
  shows "map_of (sort_key fst xs) = map_of xs"
proof -
  have "distinct (map fst (sort_key fst xs))"
    using assms by (metis distinct_map distinct_sort set_sort)
  then show ?thesis
    using assms map_of_inject_set by (metis set_sort)
qed

lemma map_of_map_prod: "map_of (map (map_prod id f) xs) k = map_option f (map_of xs k)"
  by (induction xs) auto

lemma dget_canon_dict:
  assumes "distinct (map fst d)"
  shows "dget (canon_dict d) k = canon (dget d k)"
proof -
  have "distinct (map fst (map (map_prod id canon) d))"
    using assms by (simp add: comp_def)
  then have "map_of (canon_dict d) = map_of (map (map_prod id canon) d)"
    unfolding canon_dict_def by (rule map_of_sort_key_fst)
  then show ?thesis
    by (auto simp: dget_def map_of_map_prod split: option.splits)
qed

lemma canon_VStr_iff [simp]: "canon v = VStr s \<longleftrightarrow> v = VStr s" "VStr s = canon v \<longleftrightarrow> v = VStr s"
  by (cases v; auto)+

lemma blank_append [simp]: "blank (a @ b) \<longleftrightarrow> blank a \<and> blank b"
  by (auto simp: blank_iff)

lemma blank_Cons [simp]: "blank (c # s) \<longleftrightarrow> is_space c \<and> blank s"
  by (simp add: blank_iff)

lemma startswith_append [simp]: "startswith (p @ s) p"
  by (simp add: startswith_def)

lemma startswith_drop_iff: "startswith t p \<and> drop (length p) t = r \<longleftrightarrow> t = p @ r"
  unfolding startswith_def by (metis append_eq_conv_conj append_take_drop_id)

lemma num_le_trans: "num_le a b \<Longrightarrow> num_le b c \<Longrightarrow> num_le a c"
  by (cases a; cases b; cases c) auto

end
