(* ===== verification/Py_Datetime.thy ===== *)
theory Py_Datetime
  imports Py_Prelude "HOL-Library.Monad_Syntax"
begin

text \<open>
  The part of Python's \<^verbatim>\<open>datetime\<close> module the program uses. An instant (an aware UTC datetime) is the
  number of microseconds since 0001-01-01T00:00:00 UTC; a \<open>datetime\<close> value is its wall-clock reading on
  the same scale with its UTC offset in microseconds (\<^const>\<open>None\<close> for a naive value). The civil calendar
  follows \<^verbatim>\<open>_ymd2ord\<close> and \<^verbatim>\<open>_ord2ymd\<close> of CPython; \<open>iso_utc\<close> is \<^verbatim>\<open>astimezone(UTC).isoformat()\<close>; \<open>fromiso\<close>
  is \<^verbatim>\<open>datetime.fromisoformat\<close> on the extended calendar format (the compact and the week-date forms
  that newer Python versions also accept are outside the model and rejected).
\<close>

type_synonym instant = int

record datetime =
  dt_wall :: int
  dt_offset :: "int option"

definition dt_instant :: "datetime \<Rightarrow> instant option" where
  "dt_instant d = map_option (\<lambda>off. dt_wall d - off) (dt_offset d)"

section \<open>The civil calendar\<close>

definition is_leap :: "nat \<Rightarrow> bool" where
  "is_leap y \<longleftrightarrow> y mod 4 = 0 \<and> (y mod 100 \<noteq> 0 \<or> y mod 400 = 0)"

definition days_in_month :: "bool \<Rightarrow> nat \<Rightarrow> nat" where
  "days_in_month leap m = (if m = 2 then (if leap then 29 else 28) else if m \<in> {4, 6, 9, 11} then 30 else 31)"

fun days_before_month :: "bool \<Rightarrow> nat \<Rightarrow> nat" where
  "days_before_month leap 0 = 0"
| "days_before_month leap (Suc m) = (if m = 0 then 0 else days_before_month leap m + days_in_month leap m)"

definition days_before_year :: "nat \<Rightarrow> nat" where
  "days_before_year y = (y - 1) * 365 + (y - 1) div 4 - (y - 1) div 100 + (y - 1) div 400"

text \<open>Days since 0001-01-01, which is day 0 here and ordinal 1 in Python.\<close>

definition ymd2days :: "nat \<Rightarrow> nat \<Rightarrow> nat \<Rightarrow> nat" where
  "ymd2days y m d = days_before_year y + days_before_month (is_leap y) m + (d - 1)"

text \<open>The month and the day within it of the \<open>n\<close>-th day of a year.\<close>

function month_day :: "bool \<Rightarrow> nat \<Rightarrow> nat \<Rightarrow> nat \<times> nat" where
  "month_day leap m n =
     (if m \<ge> 12 \<or> n < days_in_month leap m then (m, n + 1)
      else month_day leap (Suc m) (n - days_in_month leap m))"
  by pat_completeness auto
termination by (relation "measure (\<lambda>(_, m, _). 12 - m)") auto

declare month_day.simps [simp del]

definition days2ymd :: "nat \<Rightarrow> nat \<times> nat \<times> nat" where
  "days2ymd n =
     (let n400 = n div 146097; r400 = n mod 146097;
          n100 = r400 div 36524; r100 = r400 mod 36524;
          n4 = r100 div 1461; r4 = r100 mod 1461;
          n1 = r4 div 365; r1 = r4 mod 365;
          y = n400 * 400 + n100 * 100 + n4 * 4 + n1 + 1
      in if n1 = 4 \<or> n100 = 4 then (y - 1, 12, 31)
         else (case month_day (is_leap y) 1 r1 of (m, d) \<Rightarrow> (y, m, d)))"

lemma days_before_year_cycle:
  assumes "b < 4" "c < 25" "d < 4"
  shows "days_before_year (400 * a + 100 * b + 4 * c + d + 1) = 146097 * a + 36524 * b + 1461 * c + 365 * d"
proof -
  have "(400 * a + 100 * b + 4 * c + d) div 4 = 100 * a + 25 * b + c" using assms by simp
  moreover have "(400 * a + 100 * b + 4 * c + d) div 100 = 4 * a + b" using assms by simp
  moreover have "(400 * a + 100 * b + 4 * c + d) div 400 = a" using assms by simp
  ultimately show ?thesis by (simp add: days_before_year_def)
qed

lemma mod_zero_iff_eq: "0 < x \<Longrightarrow> x \<le> m \<Longrightarrow> (x mod m = 0) = (x = (m::nat))"
  by (cases "x = m") auto

lemma is_leap_cycle:
  assumes "b < 4" "c < 25" "d < 4"
  shows "is_leap (400 * a + 100 * b + 4 * c + d + 1) \<longleftrightarrow> d = 3 \<and> (c \<noteq> 24 \<or> b = 3)"
proof -
  have s4: "400 * a + 100 * b + 4 * c + d + 1 = (d + 1) + (100 * a + 25 * b + c) * 4" by simp
  have s100: "400 * a + 100 * b + 4 * c + d + 1 = (4 * c + d + 1) + (4 * a + b) * 100" by simp
  have s400: "400 * a + 100 * b + 4 * c + d + 1 = (100 * b + 4 * c + d + 1) + a * 400" by simp
  have "((400 * a + 100 * b + 4 * c + d + 1) mod 4 = 0) = (d + 1 = 4)"
    unfolding s4 mod_mult_self1 using assms by (intro mod_zero_iff_eq) auto
  moreover have "((400 * a + 100 * b + 4 * c + d + 1) mod 100 = 0) = (4 * c + d + 1 = 100)"
    unfolding s100 mod_mult_self1 using assms by (intro mod_zero_iff_eq) auto
  moreover have "((400 * a + 100 * b + 4 * c + d + 1) mod 400 = 0) = (100 * b + 4 * c + d + 1 = 400)"
    unfolding s400 mod_mult_self1 using assms by (intro mod_zero_iff_eq) auto
  moreover have "d + 1 = 4 \<longleftrightarrow> d = 3" by simp
  moreover have c100: "4 * c + d + 1 = 100 \<longleftrightarrow> d = 3 \<and> c = 24" using assms by presburger
  moreover have "100 * b + 4 * c + d + 1 = 400 \<longleftrightarrow> 4 * c + d + 1 = 100 \<and> b = 3" using assms by linarith
  ultimately show ?thesis unfolding is_leap_def by argo
qed

text \<open>The months of a year: the day that is found lies in its month and is the \<open>n\<close>-th of the year.\<close>

lemma days_in_month_pos: "0 < days_in_month leap m"
  by (simp add: days_in_month_def)

lemma days_before_month_13: "days_before_month leap 12 + 31 = (if leap then 366 else 365)"
  by (simp add: eval_nat_numeral days_in_month_def)

lemma month_day_correct:
  assumes "month_day leap m n = (m', d')" "1 \<le> m" "m \<le> 12"
    and "days_before_month leap m + n < (if leap then 366 else 365)"
  shows "m \<le> m' \<and> m' \<le> 12 \<and> 1 \<le> d' \<and> d' \<le> days_in_month leap m' \<and>
    days_before_month leap m' + (d' - 1) = days_before_month leap m + n"
  using assms
proof (induction leap m n arbitrary: m' d' rule: month_day.induct)
  case (1 leap m n)
  show ?case
  proof (cases "n < days_in_month leap m")
    case True
    with 1 show ?thesis by (auto simp: month_day.simps)
  next
    case False
    have "m \<noteq> 12"
    proof
      assume "m = 12"
      with "1.prems"(4) False days_before_month_13 [of leap] show False by (auto simp: days_in_month_def)
    qed
    with "1.prems" have m: "m < 12" by simp
    with "1.prems"(1) False have "month_day leap (Suc m) (n - days_in_month leap m) = (m', d')"
      by (subst (asm) month_day.simps) simp
    moreover have "days_before_month leap (Suc m) + (n - days_in_month leap m) = days_before_month leap m + n"
      using False "1.prems"(2) by simp
    ultimately show ?thesis
      using "1.IH" [of m' d'] m False "1.prems"(4) by (simp del: days_before_month.simps)
  qed
qed

lemma days2ymd_correct:
  assumes "days2ymd n = (y, m, d)"
  shows "1 \<le> y \<and> 1 \<le> m \<and> m \<le> 12 \<and> 1 \<le> d \<and> d \<le> days_in_month (is_leap y) m \<and> ymd2days y m d = n"
proof -
  define a r where "a = n div 146097" and "r = n mod 146097"
  define b s where "b = r div 36524" and "s = r mod 36524"
  define c t where "c = s div 1461" and "t = s mod 1461"
  define e u where "e = t div 365" and "u = t mod 365"
  have n: "n = 146097 * a + r" "r = 36524 * b + s" "s = 1461 * c + t" "t = 365 * e + u"
    by (simp_all add: a_def r_def b_def s_def c_def t_def e_def u_def)
  have lt: "r < 146097" "s < 36524" "t < 1461" "u < 365"
    by (simp_all add: r_def s_def t_def u_def)
  have le: "b \<le> 4" "c \<le> 24" "e \<le> 4"
    using n lt by linarith+
  have eq: "days2ymd n = (if e = 4 \<or> b = 4 then (400 * a + 100 * b + 4 * c + e, 12, 31)
      else (case month_day (is_leap (400 * a + 100 * b + 4 * c + e + 1)) 1 u of
        (m, d) \<Rightarrow> (400 * a + 100 * b + 4 * c + e + 1, m, d)))"
    by (simp add: days2ymd_def Let_def a_def r_def b_def s_def c_def t_def e_def u_def mult.commute)
  consider "b = 4" | "b < 4" "e = 4" | "b < 4" "e < 4" using le by linarith
  then show ?thesis
  proof cases
    case 1
    then have "s = 0" using n lt by linarith
    then have z: "c = 0" "e = 0" "u = 0" using n by auto
    have y: "y = 400 * a + 100 * 3 + 4 * 24 + 3 + 1" "m = 12" "d = 31" using assms eq 1 z by auto
    have "is_leap y" unfolding y by (subst is_leap_cycle) auto
    moreover have "days_before_year y = 146097 * a + 36524 * 3 + 1461 * 24 + 365 * 3"
      unfolding y by (subst days_before_year_cycle) auto
    ultimately show ?thesis
      using n 1 z y days_before_month_13 [of True] by (simp add: ymd2days_def days_in_month_def)
  next
    case 2
    then have u: "u = 0" using n lt by linarith
    have c: "c \<noteq> 24" using n lt 2 u by linarith
    have y: "y = 400 * a + 100 * b + 4 * c + 3 + 1" "m = 12" "d = 31" using assms eq 2 by auto
    have "is_leap y" unfolding y by (subst is_leap_cycle) (use 2 le c in auto)
    moreover have "days_before_year y = 146097 * a + 36524 * b + 1461 * c + 365 * 3"
      unfolding y by (subst days_before_year_cycle) (use 2 le in auto)
    ultimately show ?thesis
      using n 2 u y days_before_month_13 [of True] by (simp add: ymd2days_def days_in_month_def)
  next
    case 3
    with assms eq have md: "month_day (is_leap y) 1 u = (m, d)" and y: "y = 400 * a + 100 * b + 4 * c + e + 1"
      by (auto split: prod.splits)
    have dy: "days_before_year y = 146097 * a + 36524 * b + 1461 * c + 365 * e"
      unfolding y by (rule days_before_year_cycle) (use 3 le in auto)
    have "days_before_month (is_leap y) 1 + u < (if is_leap y then 366 else 365)" using lt(4) by simp
    from month_day_correct [OF md _ _ this]
    have "1 \<le> m \<and> m \<le> 12 \<and> 1 \<le> d \<and> d \<le> days_in_month (is_leap y) m \<and>
        days_before_month (is_leap y) m + (d - 1) = u" by simp
    moreover from this have "ymd2days y m d = n" using n dy unfolding ymd2days_def by linarith
    ultimately show ?thesis using y by simp
  qed
qed

lemma days2ymd_year_bound:
  assumes "days2ymd n = (y, m, d)" "n < 3652059"
  shows "y \<le> 9999"
proof (rule ccontr)
  assume "\<not> y \<le> 9999"
  then have k: "9999 \<le> y - 1" by simp
  have "(y - 1) div 100 = (y - 1) div 4 div 25" by (simp add: div_mult2_eq [symmetric])
  moreover have "2499 \<le> (y - 1) div 4" "24 \<le> (y - 1) div 400" using div_le_mono [OF k, of 4] div_le_mono [OF k, of 400] by auto
  moreover have "2400 \<le> q - q div 25" if "2499 \<le> q" for q :: nat
  proof -
    have "25 * (q div 25) \<le> q" by simp
    with that show ?thesis by linarith
  qed
  ultimately have "2400 \<le> (y - 1) div 4 - (y - 1) div 100" "24 \<le> (y - 1) div 400"
    by simp_all
  moreover have "3652059 \<le> k * 365 + a - b + c" if "9999 \<le> k" "2400 \<le> a - b" "24 \<le> c" for a b c k :: nat
    using that by linarith
  ultimately have "3652059 \<le> days_before_year y"
    unfolding days_before_year_def using k by blast
  moreover have "days_before_year y \<le> n"
    using days2ymd_correct [OF assms(1)] by (simp add: ymd2days_def)
  ultimately show False using assms(2) by simp
qed


section \<open>Writing and reading the ISO format\<close>

definition day_us :: int where "day_us = 86400000000"

text \<open>The instants \<^verbatim>\<open>datetime\<close> can represent: the years 1 to 9999.\<close>

definition valid_instant :: "instant \<Rightarrow> bool" where
  "valid_instant t \<longleftrightarrow> 0 \<le> t \<and> t < 3652059 * day_us"

fun pad :: "nat \<Rightarrow> nat \<Rightarrow> string" where
  "pad 0 n = []"
| "pad (Suc k) n = pad k (n div 10) @ [char_of (48 + n mod 10)]"

definition iso_time :: "nat \<Rightarrow> string" where
  "iso_time us = pad 2 (us div 3600000000) @ '':'' @ pad 2 (us div 60000000 mod 60) @ '':'' @
     pad 2 (us div 1000000 mod 60) @ (if us mod 1000000 = 0 then [] else ''.'' @ pad 6 (us mod 1000000))"

definition iso_utc :: "instant \<Rightarrow> string" where
  "iso_utc t = (case days2ymd (nat (t div day_us)) of
     (y, m, d) \<Rightarrow> pad 4 y @ ''-'' @ pad 2 m @ ''-'' @ pad 2 d @ ''T'' @ iso_time (nat (t mod day_us)) @ ''+00:00'')"

fun read_digits :: "nat \<Rightarrow> nat \<Rightarrow> string \<Rightarrow> (nat \<times> string) option" where
  "read_digits acc 0 s = Some (acc, s)"
| "read_digits acc (Suc k) [] = None"
| "read_digits acc (Suc k) (c # cs) =
     (if is_digit c then read_digits (10 * acc + (code c - 48)) k cs else None)"

definition read_sep :: "char set \<Rightarrow> string \<Rightarrow> string option" where
  "read_sep cs s = (case s of [] \<Rightarrow> None | x # xs \<Rightarrow> if x \<in> cs then Some xs else None)"

text \<open>The fraction of a second: digits beyond the sixth are cut off.\<close>

definition read_frac :: "string \<Rightarrow> (nat \<times> string) option" where
  "read_frac s = (case read_sep {CHR ''.'', CHR '',''} s of
     None \<Rightarrow> Some (0, s)
   | Some s' \<Rightarrow> let ds = takeWhile is_digit s' in
       if ds = [] then None
       else map_option (\<lambda>(n, _). (n, dropWhile is_digit s')) (read_digits 0 6 (take 6 (ds @ ''000000''))))"

definition time_us :: "nat \<Rightarrow> nat \<Rightarrow> nat \<Rightarrow> nat \<Rightarrow> nat" where
  "time_us h mi s us = ((h * 60 + mi) * 60 + s) * 1000000 + us"

text \<open>\<^verbatim>\<open>HH[:MM[:SS[.ffffff]]]\<close> with its range checks, in microseconds.\<close>

definition read_time :: "string \<Rightarrow> (nat \<times> string) option" where
  "read_time s = do {
     (h, s) \<leftarrow> read_digits 0 2 s;
     if \<not> h < 24 then None else
     case read_sep {CHR '':''} s of
       None \<Rightarrow> Some (time_us h 0 0 0, s)
     | Some s \<Rightarrow> do {
         (mi, s) \<leftarrow> read_digits 0 2 s;
         if \<not> mi < 60 then None else
         case read_sep {CHR '':''} s of
           None \<Rightarrow> Some (time_us h mi 0 0, s)
         | Some s \<Rightarrow> do {
             (sec, s) \<leftarrow> read_digits 0 2 s;
             if \<not> sec < 60 then None else do {
             (us, s) \<leftarrow> read_frac s;
             Some (time_us h mi sec us, s)}}}}"

definition read_zone :: "string \<Rightarrow> int option option" where
  "read_zone s = (case s of [] \<Rightarrow> Some None
     | c # cs \<Rightarrow>
         if c = CHR ''Z'' \<and> cs = [] then Some (Some 0)
         else if c \<in> {CHR ''+'', CHR ''-''} then do {
           (us, rest) \<leftarrow> read_time cs;
           if rest = [] then Some (Some ((if c = CHR ''-'' then -1 else 1) * int us)) else None }
         else None)"

definition read_date :: "string \<Rightarrow> (nat \<times> string) option" where
  "read_date s = do {
     (y, s) \<leftarrow> read_digits 0 4 s;
     s \<leftarrow> read_sep {CHR ''-''} s;
     (m, s) \<leftarrow> read_digits 0 2 s;
     s \<leftarrow> read_sep {CHR ''-''} s;
     (d, s) \<leftarrow> read_digits 0 2 s;
     if 1 \<le> y \<and> 1 \<le> m \<and> m \<le> 12 \<and> 1 \<le> d \<and> d \<le> days_in_month (is_leap y) m
     then Some (ymd2days y m d, s) else None }"

text \<open>\<^verbatim>\<open>datetime.fromisoformat\<close>; \<^const>\<open>None\<close> is the \<^verbatim>\<open>ValueError\<close>.\<close>

definition fromiso :: "string \<Rightarrow> datetime option" where
  "fromiso s = do {
     (days, s) \<leftarrow> read_date s;
     case s of
       [] \<Rightarrow> Some \<lparr>dt_wall = int days * day_us, dt_offset = None\<rparr>
     | _ # s \<Rightarrow> do {
         (us, s) \<leftarrow> read_time s;
         off \<leftarrow> read_zone s;
         Some \<lparr>dt_wall = int days * day_us + int us, dt_offset = off\<rparr>}}"

section \<open>The round trip\<close>

lemma digit_char: "n < 10 \<Longrightarrow> is_digit (char_of (48 + n)) \<and> code (char_of (48 + n)) = 48 + n"
  by (simp add: is_digit_def code_def)

lemma read_digits_pad_aux:
  "n < 10 ^ k \<Longrightarrow> read_digits acc (k + j) (pad k n @ s) = read_digits (acc * 10 ^ k + n) j s"
proof (induction k arbitrary: n s j)
  case (Suc k)
  have "read_digits acc (Suc k + j) (pad (Suc k) n @ s) =
      read_digits acc (k + Suc j) (pad k (n div 10) @ char_of (48 + n mod 10) # s)"
    by simp
  also have "\<dots> = read_digits (acc * 10 ^ k + n div 10) (Suc j) (char_of (48 + n mod 10) # s)"
    using Suc.prems by (intro Suc.IH) (simp add: less_mult_imp_div_less)
  also have "\<dots> = read_digits (10 * (acc * 10 ^ k + n div 10) + n mod 10) j s"
    using digit_char [of "n mod 10"] by simp
  also have "10 * (acc * 10 ^ k + n div 10) + n mod 10 = acc * 10 ^ Suc k + n" by simp
  finally show ?case .
qed simp

lemma read_digits_pad: "n < 10 ^ k \<Longrightarrow> read_digits 0 k (pad k n @ s) = Some (n, s)"
  using read_digits_pad_aux [of n k 0 0 s] by simp

lemma pad_digits: "list_all is_digit (pad k n)"
  by (induction k arbitrary: n) (auto simp: digit_char)

lemma length_pad [simp]: "length (pad k n) = k"
  by (induction k arbitrary: n) auto

lemma takeWhile_pad: "takeWhile is_digit (pad k n @ c # s) = pad k n" if "\<not> is_digit c"
  using that pad_digits [of k n] by (simp add: takeWhile_append2 list_all_iff)

lemma dropWhile_pad: "dropWhile is_digit (pad k n @ c # s) = c # s" if "\<not> is_digit c"
  using that pad_digits [of k n] by (simp add: dropWhile_append2 list_all_iff)

lemma read_sep_append [simp]: "c \<in> cs \<Longrightarrow> read_sep cs (c # s) = Some s"
  "c \<notin> cs \<Longrightarrow> read_sep cs (c # s) = None"
  by (auto simp: read_sep_def)

lemma plus_not_digit: "\<not> is_digit CHR ''+''"
  by (simp add: is_digit_def code_def)

lemma read_frac_pad:
  assumes "n < 1000000"
  shows "read_frac (''.'' @ pad 6 n @ CHR ''+'' # s) = Some (n, CHR ''+'' # s)"
proof -
  have "pad 6 n \<noteq> []" by (metis length_pad list.size(3) zero_neq_numeral)
  moreover have "take 6 (pad 6 n @ ''000000'') = pad 6 n" by simp
  ultimately show ?thesis
    using assms read_digits_pad [of n 6 "[]"] by (simp add: read_frac_def takeWhile_pad dropWhile_pad plus_not_digit)
qed

lemma read_frac_none: "read_frac (CHR ''+'' # s) = Some (0, CHR ''+'' # s)"
  by (simp add: read_frac_def)

lemma time_us_split: "time_us (us div 3600000000) (us div 60000000 mod 60) (us div 1000000 mod 60) (us mod 1000000) = us"
proof -
  have "us div 60000000 = us div 1000000 div 60" "us div 3600000000 = us div 1000000 div 60 div 60"
    by (simp_all add: div_mult2_eq [symmetric])
  then show ?thesis by (simp add: time_us_def)
qed

lemma read_time_iso:
  assumes "us < 86400000000"
  shows "read_time (iso_time us @ CHR ''+'' # s) = Some (us, CHR ''+'' # s)"
proof -
  have b: "us div 3600000000 < 24" "us div 60000000 mod 60 < 60" "us div 1000000 mod 60 < 60" "us mod 1000000 < 1000000"
    using assms by (auto simp: div_less_iff_less_mult)
  have f: "read_frac ((if us mod 1000000 = 0 then [] else ''.'' @ pad 6 (us mod 1000000)) @ CHR ''+'' # s) =
      Some (us mod 1000000, CHR ''+'' # s)"
    using read_frac_pad [OF b(4)] read_frac_none by simp
  have "read_digits 0 2 (pad 2 n @ t) = Some (n, t)" if "n < 60" for n t
    by (rule read_digits_pad) (use that in simp)
  with b f show ?thesis
    by (simp add: read_time_def iso_time_def time_us_split [of us])
qed

lemma read_zone_utc: "read_zone ''+00:00'' = Some (Some 0)"
  by (simp add: read_zone_def read_time_def numeral_2_eq_2 is_digit_def code_def read_sep_def time_us_def)

lemma read_date_iso:
  assumes "days2ymd n = (y, m, d)" "n < 3652059"
  shows "read_date (pad 4 y @ ''-'' @ pad 2 m @ ''-'' @ pad 2 d @ s) = Some (n, s)"
proof -
  have ok: "1 \<le> y" "1 \<le> m" "m \<le> 12" "1 \<le> d" "d \<le> days_in_month (is_leap y) m" "ymd2days y m d = n"
    using days2ymd_correct [OF assms(1)] by simp_all
  have "days_in_month (is_leap y) m < 100" by (simp add: days_in_month_def)
  with ok have "y < 10 ^ 4" "m < 10 ^ 2" "d < 10 ^ 2"
    using days2ymd_year_bound [OF assms] by simp_all
  then show ?thesis
    using ok by (simp add: read_date_def read_digits_pad)
qed

lemma fromiso_iso_utc:
  assumes "valid_instant t"
  shows "fromiso (iso_utc t) = Some \<lparr>dt_wall = t, dt_offset = Some 0\<rparr>"
proof -
  obtain y m d where ymd: "days2ymd (nat (t div day_us)) = (y, m, d)" by (rule prod_cases3)
  have t: "0 \<le> t" "t < 3652059 * day_us" using assms by (simp_all add: valid_instant_def)
  then have days: "nat (t div day_us) < 3652059" by (simp add: day_us_def nat_less_iff)
  have us: "nat (t mod day_us) < 86400000000" by (simp add: day_us_def nat_less_iff)
  have "int (nat (t div day_us)) * day_us + int (nat (t mod day_us)) = t"
    using t by (simp add: day_us_def pos_imp_zdiv_nonneg_iff)
  moreover have "iso_utc t = pad 4 y @ ''-'' @ pad 2 m @ ''-'' @ pad 2 d @ CHR ''T'' # iso_time (nat (t mod day_us)) @ ''+00:00''"
    by (simp add: iso_utc_def ymd)
  ultimately show ?thesis
    using read_date_iso [OF ymd days] read_time_iso [OF us] read_zone_utc by (simp add: fromiso_def)
qed

end
