(* ===== verification/Cron_Expressions.thy ===== *)
theory Cron_Expressions
  imports Py_Datetime
begin

text \<open>
  \<^verbatim>\<open>CronExpression\<close> of \<^verbatim>\<open>packages/scheduler/schedule.py\<close>: parsing the five fields into sets of allowed
  values (lists here, only membership is used) and matching a wall-clock time against them.
\<close>

datatype cron_error = Bad_arity | Bad_item | Bad_int | Bad_step | Out_of_range | Empty_field

text \<open>\<^verbatim>\<open>range(start, end + 1, step)\<close> for a positive step.\<close>

definition range_step :: "int \<Rightarrow> int \<Rightarrow> int \<Rightarrow> int list" where
  "range_step start stop step = filter (\<lambda>x. (x - start) mod step = 0) [start..stop]"

text \<open>\<^verbatim>\<open>int(text)\<close> inside the parser.\<close>

definition cron_int :: "string \<Rightarrow> (cron_error, int) result" where
  "cron_int s = (case py_int s of None \<Rightarrow> Inl Bad_int | Some i \<Rightarrow> Inr i)"

text \<open>The bounds an item's base denotes.\<close>

definition item_bounds :: "string \<Rightarrow> int \<Rightarrow> int \<Rightarrow> (cron_error, int \<times> int) result" where
  "item_bounds base lo hi =
     (if base = ''*'' then Inr (lo, hi)
      else if CHR ''-'' \<in> set base
      then (let (start_text, end_text) = partition_on (CHR ''-'') base
            in case cron_int start_text of Inl e \<Rightarrow> Inl e
               | Inr a \<Rightarrow> (case cron_int end_text of Inl e \<Rightarrow> Inl e | Inr b \<Rightarrow> Inr (a, b)))
      else (case cron_int base of Inl e \<Rightarrow> Inl e | Inr a \<Rightarrow> Inr (a, a)))"

definition parse_item :: "string \<Rightarrow> int \<Rightarrow> int \<Rightarrow> (cron_error, int list) result" where
  "parse_item item lo hi =
     (if item = [] \<or> length (filter (\<lambda>c. c = CHR ''/'') item) > 1 then Inl Bad_item
      else let (base, step_text) = partition_on (CHR ''/'') item
      in case (if step_text = [] then Inr 1 else cron_int step_text) of
           Inl e \<Rightarrow> Inl e
         | Inr step \<Rightarrow>
             if step \<le> 0 then Inl Bad_step
             else (case item_bounds base lo hi of
                 Inl e \<Rightarrow> Inl e
               | Inr (start, stop) \<Rightarrow>
                   if start < lo \<or> stop > hi \<or> start > stop then Inl Out_of_range
                   else Inr (range_step start stop step)))"

fun parse_items :: "string list \<Rightarrow> int \<Rightarrow> int \<Rightarrow> (cron_error, int list) result" where
  "parse_items [] lo hi = Inr []"
| "parse_items (i # is) lo hi =
     (case parse_item i lo hi of Inl e \<Rightarrow> Inl e
      | Inr vs \<Rightarrow> (case parse_items is lo hi of Inl e \<Rightarrow> Inl e | Inr ws \<Rightarrow> Inr (vs @ ws)))"

definition parse_field :: "string \<Rightarrow> int \<times> int \<Rightarrow> (cron_error, int list) result" where
  "parse_field field limits =
     (case parse_items (split_on (CHR '','') field) (fst limits) (snd limits) of
        Inl e \<Rightarrow> Inl e
      | Inr vs \<Rightarrow> if vs = [] then Inl Empty_field else Inr vs)"

definition cron_limits :: "(int \<times> int) list" where
  "cron_limits = [(0, 59), (0, 23), (1, 31), (1, 12), (0, 6)]"

fun parse_fields :: "(string \<times> (int \<times> int)) list \<Rightarrow> (cron_error, int list list) result" where
  "parse_fields [] = Inr []"
| "parse_fields ((f, l) # rest) =
     (case parse_field f l of Inl e \<Rightarrow> Inl e
      | Inr v \<Rightarrow> (case parse_fields rest of Inl e \<Rightarrow> Inl e | Inr vs \<Rightarrow> Inr (v # vs)))"

definition cron_expression :: "string \<Rightarrow> (cron_error, int list list) result" where
  "cron_expression expression =
     (let fields = split_ws expression
      in if length fields \<noteq> 5 then Inl Bad_arity else parse_fields (zip fields cron_limits))"

text \<open>
  The minute, hour, day, month and weekday (Monday is 0) of a wall-clock reading in microseconds since
  0001-01-01, which was a Monday.
\<close>

definition wall_fields :: "int \<Rightarrow> int list" where
  "wall_fields w =
     (let days = w div day_us; us = w mod day_us
      in case days2ymd (nat days) of (y, m, d) \<Rightarrow>
           [us div 60000000 mod 60, us div 3600000000, int d, int m, days mod 7])"

definition cron_matches :: "int list list \<Rightarrow> int \<Rightarrow> bool" where
  "cron_matches values w = list_all (\<lambda>(candidate, allowed). candidate \<in> set allowed) (zip (wall_fields w) values)"

section \<open>Lemmas\<close>

lemma range_step_bounds: "x \<in> set (range_step a b s) \<Longrightarrow> a \<le> x \<and> x \<le> b"
  by (simp add: range_step_def)

lemma range_step_start: "a \<le> b \<Longrightarrow> a \<in> set (range_step a b s)"
  by (simp add: range_step_def)

lemma parse_item_bounds:
  assumes "parse_item i lo hi = Inr vs"
  shows "vs \<noteq> [] \<and> (\<forall>v\<in>set vs. lo \<le> v \<and> v \<le> hi)"
proof -
  obtain a b s where "vs = range_step a b s" "lo \<le> a" "b \<le> hi" "a \<le> b"
    using assms by (auto simp: parse_item_def Let_def split: if_splits sum.splits prod.splits)
  with range_step_start [of a b s] show ?thesis by (fastforce dest: range_step_bounds)
qed

lemma parse_items_iff:
  "parse_items is lo hi = Inr vs \<Longrightarrow>
   set vs = {v. \<exists>i\<in>set is. \<exists>ws. parse_item i lo hi = Inr ws \<and> v \<in> set ws} \<and> (\<forall>i\<in>set is. \<exists>ws. parse_item i lo hi = Inr ws)"
proof (induction "is" arbitrary: vs)
  case (Cons i "is")
  then obtain ws us where *: "parse_item i lo hi = Inr ws" "parse_items is lo hi = Inr us" "vs = ws @ us"
    by (auto split: sum.splits)
  show ?case using Cons.IH [OF *(2)] *(1,3) by auto
qed simp

lemma parse_field_ok:
  assumes "parse_field f (lo, hi) = Inr vs"
  shows "vs \<noteq> [] \<and> (\<forall>v\<in>set vs. lo \<le> v \<and> v \<le> hi) \<and>
    set vs = {v. \<exists>i\<in>set (split_on (CHR '','') f). \<exists>ws. parse_item i lo hi = Inr ws \<and> v \<in> set ws}"
proof -
  have p: "parse_items (split_on (CHR '','') f) lo hi = Inr vs" "vs \<noteq> []"
    using assms by (auto simp: parse_field_def split: sum.splits if_splits)
  show ?thesis using parse_items_iff [OF p(1)] p(2) parse_item_bounds by fastforce
qed

lemma parse_fields_ok:
  "parse_fields fls = Inr vss \<Longrightarrow> length vss = length fls \<and>
   (\<forall>k<length fls. parse_field (fst (fls ! k)) (snd (fls ! k)) = Inr (vss ! k))"
proof (induction fls arbitrary: vss)
  case (Cons fl fls)
  obtain f l where fl: "fl = (f, l)" by (rule prod.exhaust)
  with Cons.prems obtain v vs where *: "parse_field f l = Inr v" "parse_fields fls = Inr vs" "vss = v # vs"
    by (auto split: sum.splits)
  show ?case using Cons.IH [OF *(2)] * fl by (auto simp: less_Suc_eq_0_disj)
qed simp

section \<open>Properties\<close>

text \<open>
  A cron expression that is accepted is well formed: it has five fields; the values of each field are
  not empty, lie within the limits of that field, and are exactly the values of its comma-separated items.
\<close>

lemma cron_expression_ok:
  assumes "cron_expression e = Inr values" "k < 5"
  shows "length values = 5 \<and> values ! k \<noteq> [] \<and>
    set (values ! k) \<subseteq> {fst (cron_limits ! k)..snd (cron_limits ! k)} \<and>
    set (values ! k) = {v. \<exists>item\<in>set (split_on (CHR '','') (split_ws e ! k)).
       \<exists>ws. parse_item item (fst (cron_limits ! k)) (snd (cron_limits ! k)) = Inr ws \<and> v \<in> set ws}"
proof -
  have len: "length (split_ws e) = 5" and p: "parse_fields (zip (split_ws e) cron_limits) = Inr values"
    using assms(1) by (auto simp: cron_expression_def Let_def split: if_splits)
  have lims: "length cron_limits = 5" by (simp add: cron_limits_def)
  have "parse_field (split_ws e ! k) (cron_limits ! k) = Inr (values ! k)" "length values = 5"
    using parse_fields_ok [OF p] len lims assms(2) by simp_all
  with parse_field_ok [of "split_ws e ! k" "fst (cron_limits ! k)" "snd (cron_limits ! k)"] show ?thesis
    by (auto simp: subset_iff)
qed

lemma demo_cron:
  "cron_expression ''0 9 * * 0-4'' = Inr [[0], [9], [1..31], [1..12], [0..4]]"
proof -
  have "split_ws ''0 9 * * 0-4'' = [''0'', ''9'', ''*'', ''*'', ''0-4'']"
    by (simp add: split_ws_def is_space_def code_def)
  then show ?thesis
    by (simp add: cron_expression_def cron_limits_def parse_field_def parse_item_def item_bounds_def cron_int_def py_int_def
        strip_def is_space_def code_def is_digit_def range_step_def upto.simps)
qed

lemma cron_expression_ok_witness:
  "cron_expression ''0 9 * * 0-4'' = Inr [[0], [9], [1..31], [1..12], [0..4]] \<and>
   set [9 :: int] \<subseteq> {fst (cron_limits ! 1)..snd (cron_limits ! 1)}"
proof -
  have "set ([[0], [9], [1..31], [1..12], [0..4]] ! 1) \<subseteq> {fst (cron_limits ! 1)..snd (cron_limits ! 1)}"
    by (rule cron_expression_ok [OF demo_cron, THEN conjunct2, THEN conjunct2, THEN conjunct1]) simp
  then show ?thesis using demo_cron by simp
qed

end
