(* ===== verification/Schedule_Definitions.thy ===== *)
theory Schedule_Definitions
  imports Cron_Expressions
begin

text \<open>
  \<^verbatim>\<open>ScheduleDefinition\<close> of \<^verbatim>\<open>packages/scheduler/schedule.py\<close> with its \<^verbatim>\<open>scheduled_for\<close>, and \<^verbatim>\<open>load_schedule\<close>
  from the decoded YAML document. The time zone database (\<^verbatim>\<open>zoneinfo\<close>) is a parameter: a \<open>zone\<close> gives
  the UTC offset at an instant, and the offset of a wall-clock reading with \<^verbatim>\<open>fold=0\<close>; looking up an unknown
  name fails. Two datetimes with the same zone compare by their wall clocks, as Python does.
\<close>

record zone =
  zn_offset_at :: "instant \<Rightarrow> int"
  zn_offset_local :: "int \<Rightarrow> int"

type_synonym tzdata = "string \<Rightarrow> zone option"

datatype schedule_error = ValueError string | TypeError string | KeyError string

record schedule_definition =
  sd_id :: string
  sd_version :: string
  sd_agent :: string
  sd_schedule_type :: string
  sd_timezone_name :: string
  sd_expression :: "string option"
  sd_at :: "string option"
  sd_interval_seconds :: "int option"
  sd_max_runtime_seconds :: int
  sd_max_concurrency :: int
  sd_retry_limit :: int
  sd_catch_up :: bool
  sd_permissions_mode :: string
  sd_query :: "string option"
  sd_order_id :: "string option"
  sd_allow_external_processing :: bool
  sd_expires_at :: "string option"
  sd_notify_channel :: "string option"
  sd_notify_only_if :: string

definition timezone :: "tzdata \<Rightarrow> schedule_definition \<Rightarrow> (schedule_error, zone) result" where
  "timezone tz d = (case tz (sd_timezone_name d) of
     None \<Rightarrow> Inl (ValueError (''unknown schedule timezone: '' @ sd_timezone_name d)) | Some z \<Rightarrow> Inr z)"

text \<open>\<^verbatim>\<open>not value\<close> for a \<^verbatim>\<open>str | None\<close>.\<close>

definition falsy :: "string option \<Rightarrow> bool" where
  "falsy x \<longleftrightarrow> x = None \<or> x = Some []"

definition minute_us :: int where "minute_us = 60000000"

text \<open>1970-01-01T00:00:00Z, day 719162.\<close>

definition epoch :: instant where "epoch = 719162 * day_us"

text \<open>\<^verbatim>\<open>int(x)\<close> truncates toward zero.\<close>

definition trunc_div :: "int \<Rightarrow> int \<Rightarrow> int" where
  "trunc_div a b = (if 0 \<le> a then a div b else - ((- a) div b))"

definition one_shot_slot :: "zone \<Rightarrow> string \<Rightarrow> instant \<Rightarrow> (schedule_error, instant option) result" where
  "one_shot_slot z at_text now =
     (case fromiso at_text of
        None \<Rightarrow> Inl (ValueError ''Invalid isoformat string'')
      | Some target \<Rightarrow>
          (case dt_offset target of
             None \<Rightarrow> Inr (if dt_wall target \<le> now + zn_offset_at z now
                          then Some (dt_wall target - zn_offset_local z (dt_wall target)) else None)
           | Some off \<Rightarrow> Inr (if dt_wall target - off \<le> now then Some (dt_wall target - off) else None)))"

definition interval_slot :: "int \<Rightarrow> instant \<Rightarrow> instant" where
  "interval_slot seconds now =
     (let elapsed = trunc_div (now - epoch) 1000000 in epoch + (elapsed - elapsed mod seconds) * 1000000)"

text \<open>The minute-by-minute search; the first argument is the number of iterations left.\<close>

fun next_match :: "nat \<Rightarrow> int list list \<Rightarrow> int \<Rightarrow> int option" where
  "next_match 0 values cursor = None"
| "next_match (Suc n) values cursor =
     (if cron_matches values cursor then Some cursor else next_match n values (cursor + minute_us))"

definition cron_iterations :: nat where "cron_iterations = 60 * 24 * 366"

text \<open>
  The first whole minute not before the local time. If that is the local time itself no minute is added,
  and the reading keeps its \<^verbatim>\<open>fold\<close>, so it is the instant \<open>now\<close>.
\<close>

definition first_cursor :: "int \<Rightarrow> int" where
  "first_cursor w = (let c = w - w mod minute_us in if c < w then c + minute_us else c)"

definition cron_slot :: "zone \<Rightarrow> string \<Rightarrow> instant \<Rightarrow> (schedule_error, instant option) result" where
  "cron_slot z expression now =
     (case cron_expression expression of
        Inl e \<Rightarrow> Inl (ValueError ''invalid cron expression'')
      | Inr values \<Rightarrow>
          let local_now = now + zn_offset_at z now
          in case next_match cron_iterations values (first_cursor local_now) of
               None \<Rightarrow> Inl (ValueError ''cron expression has no occurrence within one year'')
             | Some w \<Rightarrow> Inr (Some (if w = local_now then now else w - zn_offset_local z w)))"

definition scheduled_for ::
    "tzdata \<Rightarrow> schedule_definition \<Rightarrow> instant \<Rightarrow> (schedule_error, instant option) result" where
  "scheduled_for tz d now =
     (case timezone tz d of Inl e \<Rightarrow> Inl e
      | Inr z \<Rightarrow>
          if sd_schedule_type d = ''one_shot''
          then (if falsy (sd_at d) then Inl (ValueError ''one_shot schedule requires at'')
                else one_shot_slot z (the (sd_at d)) now)
          else if sd_schedule_type d = ''interval''
          then (case sd_interval_seconds d of
                  None \<Rightarrow> Inl (ValueError ''interval schedule requires interval_seconds'')
                | Some n \<Rightarrow> if n = 0 then Inl (ValueError ''interval schedule requires interval_seconds'')
                            else Inr (Some (interval_slot n now)))
          else if sd_schedule_type d = ''cron''
          then (if falsy (sd_expression d) then Inl (ValueError ''cron schedule requires expression'')
                else cron_slot z (the (sd_expression d)) now)
          else Inl (ValueError (''unsupported schedule type: '' @ sd_schedule_type d)))"

section \<open>load_schedule\<close>

text \<open>\<^verbatim>\<open>int(v)\<close>.\<close>

fun py_to_int :: "pyval \<Rightarrow> (schedule_error, int) result" where
  "py_to_int (VInt i) = Inr i"
| "py_to_int (VBool b) = Inr (if b then 1 else 0)"
| "py_to_int (VStr s) = (case py_int s of None \<Rightarrow> Inl (ValueError ''invalid literal for int()'') | Some i \<Rightarrow> Inr i)"
| "py_to_int (VFloat (Finite r)) = Inr (if 0 \<le> r then \<lfloor>r\<rfloor> else \<lceil>r\<rceil>)"
| "py_to_int (VFloat _) = Inl (ValueError ''cannot convert float to integer'')"
| "py_to_int _ = Inl (TypeError ''int() argument must be a string or a number'')"

text \<open>\<^verbatim>\<open>raw.get(k) or {}\<close>.\<close>

definition section_of :: "pydict \<Rightarrow> string \<Rightarrow> pyval" where
  "section_of raw k = (if truthy (dget raw k) then dget raw k else VDict [])"

definition required_str :: "(pyval \<Rightarrow> string) \<Rightarrow> pydict \<Rightarrow> string \<Rightarrow> (schedule_error, string) result" where
  "required_str rep d k = (case map_of d k of None \<Rightarrow> Inl (KeyError k) | Some v \<Rightarrow> Inr (py_str rep v))"

text \<open>
  The constructor call. The fields \<^verbatim>\<open>expression\<close>, \<^verbatim>\<open>at\<close>, \<^verbatim>\<open>seconds\<close> and \<^verbatim>\<open>expires_at\<close> are stored as
  they come; a value of another type than the annotated one is outside the model and read as absent.
\<close>

definition build_schedule ::
    "(pyval \<Rightarrow> string) \<Rightarrow> pydict \<Rightarrow> pydict \<Rightarrow> pydict \<Rightarrow> pydict \<Rightarrow> pydict \<Rightarrow> (schedule_error, schedule_definition) result" where
  "build_schedule rep raw schedule run permissions notify =
     (case required_str rep raw ''id'' of Inl e \<Rightarrow> Inl e | Inr i \<Rightarrow>
      case required_str rep raw ''version'' of Inl e \<Rightarrow> Inl e | Inr version \<Rightarrow>
      case required_str rep raw ''agent'' of Inl e \<Rightarrow> Inl e | Inr agent \<Rightarrow>
      case required_str rep schedule ''type'' of Inl e \<Rightarrow> Inl e | Inr ty \<Rightarrow>
      case py_to_int (dget_default run ''max_runtime_seconds'' (VInt 300)) of Inl e \<Rightarrow> Inl e | Inr runtime \<Rightarrow>
      case py_to_int (dget_default run ''max_concurrency'' (VInt 1)) of Inl e \<Rightarrow> Inl e | Inr concurrency \<Rightarrow>
      case py_to_int (dget_default run ''retry_limit'' (VInt 0)) of Inl e \<Rightarrow> Inl e | Inr retries \<Rightarrow>
      Inr \<lparr>sd_id = i, sd_version = version, sd_agent = agent, sd_schedule_type = ty,
           sd_timezone_name = py_str rep (dget_default schedule ''timezone'' (VStr ''UTC'')),
           sd_expression = as_str (dget schedule ''expression''), sd_at = as_str (dget schedule ''at''),
           sd_interval_seconds = as_int (dget schedule ''seconds''),
           sd_max_runtime_seconds = runtime, sd_max_concurrency = concurrency, sd_retry_limit = retries,
           sd_catch_up = truthy (dget_default run ''catch_up'' (VBool False)),
           sd_permissions_mode = py_str rep (dget_default permissions ''mode'' (VStr ''read_only'')),
           sd_query = as_str (dget run ''query''), sd_order_id = as_str (dget run ''order_id''),
           sd_allow_external_processing = (dget run ''allow_external_processing'' = VBool True),
           sd_expires_at = as_str (dget schedule ''expires_at''),
           sd_notify_channel = (if dget notify ''channel'' = VNone then None else Some (py_str rep (dget notify ''channel''))),
           sd_notify_only_if = py_str rep (dget_default notify ''only_if'' (VStr ''finding_or_failure''))\<rparr>)"

definition optional_str :: "pydict \<Rightarrow> string \<Rightarrow> bool" where
  "optional_str d k \<longleftrightarrow> dget d k = VNone \<or> as_str (dget d k) \<noteq> None"

definition load_schedule :: "(pyval \<Rightarrow> string) \<Rightarrow> pyval \<Rightarrow> (schedule_error, schedule_definition) result" where
  "load_schedule rep document =
     (case as_dict document of None \<Rightarrow> Inl (TypeError ''schedule must be a mapping'')
      | Some raw \<Rightarrow>
          (case (as_dict (section_of raw ''schedule''), as_dict (section_of raw ''run''),
                 as_dict (section_of raw ''permissions''), as_dict (section_of raw ''notify'')) of
             (Some schedule, Some run, Some permissions, Some notify) \<Rightarrow>
               if \<not> optional_str run ''query'' then Inl (TypeError ''run.query must be a string'')
               else if \<not> optional_str run ''order_id'' then Inl (TypeError ''run.order_id must be a string'')
               else if as_bool (dget_default run ''allow_external_processing'' (VBool False)) = None
               then Inl (TypeError ''run.allow_external_processing must be a boolean'')
               else build_schedule rep raw schedule run permissions notify
           | _ \<Rightarrow> Inl (TypeError ''schedule, run, permissions and notify must be mappings'')))"


section \<open>Lemmas\<close>

lemma first_cursor_ok:
  "w \<le> first_cursor w" "first_cursor w < w + minute_us" "first_cursor w mod minute_us = 0"
  by (auto simp: first_cursor_def Let_def minute_us_def)

lemma cursor_Suc: "c + int (Suc k) * minute_us = c + minute_us + int k * minute_us"
  by (simp add: algebra_simps)

lemma next_match_Some:
  "next_match n values c = Some w \<longleftrightarrow>
     (\<exists>k<n. w = c + int k * minute_us \<and> cron_matches values w \<and> (\<forall>j<k. \<not> cron_matches values (c + int j * minute_us)))"
proof (induction n arbitrary: c)
  case (Suc n)
  show ?case
    by (cases "cron_matches values c") (auto simp: Ex_less_Suc2 All_less_Suc2 cursor_Suc Suc.IH simp del: of_nat_Suc)
qed simp

lemma next_match_None: "next_match n values c = None \<longleftrightarrow> (\<forall>k<n. \<not> cron_matches values (c + int k * minute_us))"
  by (induction n arbitrary: c) (auto simp: All_less_Suc2 cursor_Suc simp del: of_nat_Suc)

text \<open>The whole minutes from a whole minute on are the cursors of the search.\<close>

lemma whole_minute_cursor:
  assumes "c mod minute_us = 0" "v mod minute_us = 0" "c \<le> v"
  obtains k where "v = c + int k * minute_us"
proof -
  have "minute_us dvd v - c" using assms(1,2) by (simp add: dvd_eq_mod_eq_0 mod_diff_cong [of v _ 0 c 0, simplified])
  then obtain q where q: "v - c = minute_us * q" by blast
  with assms(3) have "0 \<le> minute_us * q" by simp
  then have "0 \<le> q" by (simp add: minute_us_def zero_le_mult_iff)
  with q show thesis using that [of "nat q"] by (simp add: algebra_simps)
qed

lemma first_cursor_least:
  assumes "w \<le> v" "v mod minute_us = 0"
  shows "first_cursor w \<le> v"
proof (rule ccontr)
  assume "\<not> first_cursor w \<le> v"
  then obtain k where "first_cursor w = v + int k * minute_us" "v < first_cursor w"
    using whole_minute_cursor [OF assms(2) first_cursor_ok(3)] by (metis linorder_le_cases linorder_not_le)
  then have "v + minute_us \<le> first_cursor w" by (cases k) (auto simp: minute_us_def)
  with first_cursor_ok(2) [of w] assms(1) show False by simp
qed

lemma interval_slot_ok:
  assumes "0 < n" "epoch \<le> now"
  shows "interval_slot n now \<le> now" "now < interval_slot n now + n * 1000000"
    "(interval_slot n now - epoch) mod (n * 1000000) = 0"
proof -
  define e where "e = (now - epoch) div 1000000"
  have e: "trunc_div (now - epoch) 1000000 = e" using assms by (simp add: trunc_div_def e_def)
  have b: "e * 1000000 \<le> now - epoch" "now - epoch < (e + 1) * 1000000" unfolding e_def by simp_all
  have s: "interval_slot n now = epoch + (e - e mod n) * 1000000" by (simp add: interval_slot_def e)
  have m: "0 \<le> e mod n" "e mod n < n" using assms by simp_all
  show "interval_slot n now \<le> now" "now < interval_slot n now + n * 1000000"
    unfolding s using b m by (auto simp: algebra_simps)
  have "e - e mod n = (e div n) * n" by (simp add: minus_mod_eq_div_mult)
  then have "interval_slot n now - epoch = (e div n) * (n * 1000000)" unfolding s by simp
  then show "(interval_slot n now - epoch) mod (n * 1000000) = 0" by simp
qed

lemma interval_slot_epoch: "0 < n \<Longrightarrow> epoch \<le> now \<Longrightarrow> epoch \<le> interval_slot n now"
  by (simp add: interval_slot_def trunc_div_def Let_def zmod_le_nonneg_dividend pos_imp_zdiv_nonneg_iff)

lemma multiples_close:
  fixes a b c m :: int
  assumes "(a - c) mod m = 0" "(b - c) mod m = 0" "a < b + m" "b < a + m"
  shows "a = b"
proof -
  obtain p q where pq: "a - c = m * p" "b - c = m * q" using assms(1,2) by (meson dvdE mod_0_imp_dvd)
  then have d: "a - b = m * (p - q)" by (simp add: algebra_simps)
  have m: "0 < m" using assms(3,4) by simp
  have "m * (p - q) < m * 1" "m * (- 1) < m * (p - q)" unfolding d [symmetric] using assms(3,4) by linarith+
  then have "p - q < 1" "- 1 < p - q" using m by (simp_all only: mult_less_cancel_left_pos)
  then have "p - q = 0" by linarith
  then show ?thesis using d by simp
qed

section \<open>Properties\<close>

text \<open>
  Interval schedules partition time: from 1970 on, the slot of an instant is a multiple of the interval
  since the epoch, is not after the instant, and less than one interval before it; so two instants have the
  same slot exactly when no multiple of the interval lies between them.
\<close>

lemma interval_schedule_slots:
  assumes "tz (sd_timezone_name d) = Some z" "sd_schedule_type d = ''interval''" "sd_interval_seconds d = Some n" "0 < n" "epoch \<le> now"
  shows "\<exists>slot. scheduled_for tz d now = Inr (Some slot) \<and> slot \<le> now \<and> now < slot + n * 1000000 \<and>
    (slot - epoch) mod (n * 1000000) = 0 \<and>
    (\<forall>now'. slot \<le> now' \<and> now' < slot + n * 1000000 \<longrightarrow> scheduled_for tz d now' = Inr (Some slot))"
proof -
  have eq: "scheduled_for tz d t = Inr (Some (interval_slot n t))" for t
    using assms by (simp add: scheduled_for_def timezone_def)
  let ?slot = "interval_slot n now"
  note ok = interval_slot_ok [OF assms(4,5)]
  have "epoch \<le> ?slot" by (rule interval_slot_epoch [OF assms(4,5)])
  have const: "interval_slot n t = ?slot" if "?slot \<le> t" "t < ?slot + n * 1000000" for t
  proof -
    have "epoch \<le> t" using that(1) \<open>epoch \<le> ?slot\<close> by simp
    note ok' = interval_slot_ok [OF assms(4) this]
    show ?thesis
      by (rule multiples_close [OF ok'(3) ok(3) le_less_trans [OF ok'(1) that(2)] le_less_trans [OF that(1) ok'(2)]])
  qed
  show ?thesis unfolding eq by (rule exI [of _ ?slot], intro conjI allI impI refl ok) (metis const)
qed

text \<open>
  The cron search is exact: a cron schedule fires at the first whole minute, by the zone's wall clock,
  that is not before the local time and matches the expression; the search fails exactly when no whole
  minute of the next 366 days matches. In a zone with a fixed offset the slot is never before \<^verbatim>\<open>now\<close>.
\<close>

lemma cron_slot_next:
  assumes "cron_expression e = Inr values"
  shows "(\<forall>slot. cron_slot z e now = Inr (Some slot) \<longrightarrow>
      (\<exists>w. now + zn_offset_at z now \<le> w \<and> w mod minute_us = 0 \<and> cron_matches values w \<and>
        (\<forall>v. now + zn_offset_at z now \<le> v \<and> v < w \<and> v mod minute_us = 0 \<longrightarrow> \<not> cron_matches values v) \<and>
        slot = (if w = now + zn_offset_at z now then now else w - zn_offset_local z w) \<and>
        ((\<forall>t. zn_offset_at z t = off \<and> zn_offset_local z t = off) \<longrightarrow> now \<le> slot))) \<and>
    ((\<exists>err. cron_slot z e now = Inl err) =
      (\<forall>k<cron_iterations. \<not> cron_matches values (first_cursor (now + zn_offset_at z now) + int k * minute_us)))"
proof -
  let ?l = "now + zn_offset_at z now"
  let ?c = "first_cursor ?l"
  have "\<exists>w. ?l \<le> w \<and> w mod minute_us = 0 \<and> cron_matches values w \<and>
        (\<forall>v. ?l \<le> v \<and> v < w \<and> v mod minute_us = 0 \<longrightarrow> \<not> cron_matches values v) \<and>
        slot = (if w = ?l then now else w - zn_offset_local z w) \<and>
        ((\<forall>t. zn_offset_at z t = off \<and> zn_offset_local z t = off) \<longrightarrow> now \<le> slot)"
    if s: "cron_slot z e now = Inr (Some slot)" for slot
  proof -
    obtain w where "next_match cron_iterations values ?c = Some w" and slot: "slot = (if w = ?l then now else w - zn_offset_local z w)"
      using s assms by (auto simp: cron_slot_def Let_def split: option.splits)
    then obtain k where k: "w = ?c + int k * minute_us" "cron_matches values w"
        "\<forall>j<k. \<not> cron_matches values (?c + int j * minute_us)"
      by (auto simp: next_match_Some)
    have "?l \<le> w" using k(1) first_cursor_ok(1) [of ?l] by (simp add: minute_us_def)
    moreover have "w mod minute_us = 0" using k(1) first_cursor_ok(3) [of ?l] by simp
    moreover have "\<not> cron_matches values v" if v: "?l \<le> v" "v < w" "v mod minute_us = 0" for v
    proof -
      have "?c \<le> v" by (rule first_cursor_least [OF v(1,3)])
      then obtain j where j: "v = ?c + int j * minute_us" by (rule whole_minute_cursor [OF first_cursor_ok(3) v(3)])
      with v(2) k(1) have "j < k" by (simp add: minute_us_def)
      with j k(3) show ?thesis by simp
    qed
    ultimately show ?thesis using k(2) slot by (intro exI [of _ w]) auto
  qed
  moreover have "(\<exists>err. cron_slot z e now = Inl err) = (next_match cron_iterations values ?c = None)"
    using assms by (auto simp: cron_slot_def Let_def split: option.splits)
  ultimately show ?thesis unfolding next_match_None by blast
qed


section \<open>Concrete schedules\<close>

definition utc_zone :: zone where
  "utc_zone = \<lparr>zn_offset_at = \<lambda>_. 0, zn_offset_local = \<lambda>_. 0\<rparr>"

definition demo_interval :: schedule_definition where
  "demo_interval = \<lparr>sd_id = ''s1'', sd_version = ''1'', sd_agent = ''customer-service-agent'', sd_schedule_type = ''interval'',
     sd_timezone_name = ''UTC'', sd_expression = None, sd_at = None, sd_interval_seconds = Some 60,
     sd_max_runtime_seconds = 300, sd_max_concurrency = 1, sd_retry_limit = 0, sd_catch_up = False,
     sd_permissions_mode = ''read_only'', sd_query = Some ''Where?'', sd_order_id = Some ''SO-1'',
     sd_allow_external_processing = False, sd_expires_at = None, sd_notify_channel = None,
     sd_notify_only_if = ''finding_or_failure''\<rparr>"

lemma interval_schedule_slots_witness:
  "\<exists>slot. scheduled_for (\<lambda>_. Some utc_zone) demo_interval (epoch + 90000000) = Inr (Some slot) \<and> slot \<le> epoch + 90000000 \<and>
     epoch + 90000000 < slot + 60 * 1000000"
  using interval_schedule_slots [of "\<lambda>_. Some utc_zone" demo_interval utc_zone 60 "epoch + 90000000"]
  by (simp add: demo_interval_def) blast

lemma demo_cron_now: "cron_matches [[0], [9], [1..31], [1..12], [0..4]] 32400000000"
  by (simp add: cron_matches_def wall_fields_def day_us_def Let_def days2ymd_def month_day.simps days_in_month_def is_leap_def)

lemma cron_slot_next_witness:
  "\<exists>slot. cron_slot utc_zone ''0 9 * * 0-4'' 32400000000 = Inr (Some slot) \<and> 32400000000 \<le> slot"
proof -
  let ?n = "32400000000 :: int"
  have "first_cursor (?n + zn_offset_at utc_zone ?n) + int 0 * minute_us = ?n"
    by (simp add: first_cursor_def minute_us_def utc_zone_def)
  then have "\<not> (\<forall>k<cron_iterations. \<not> cron_matches [[0], [9], [1..31], [1..12], [0..4]]
      (first_cursor (?n + zn_offset_at utc_zone ?n) + int k * minute_us))"
    using demo_cron_now by (metis cron_iterations_def mult_pos_pos zero_less_numeral)
  with cron_slot_next [OF demo_cron, of utc_zone ?n 0] obtain slot where s: "cron_slot utc_zone ''0 9 * * 0-4'' ?n = Inr (Some slot)"
    by (auto simp: cron_slot_def demo_cron Let_def split: option.splits)
  have "\<forall>t. zn_offset_at utc_zone t = 0 \<and> zn_offset_local utc_zone t = 0" by (simp add: utc_zone_def)
  with cron_slot_next [OF demo_cron, of utc_zone ?n 0] s show ?thesis by blast
qed

end
