(* ===== verification/Scheduler_Core.thy ===== *)
theory Scheduler_Core
  imports Schedule_Definitions
begin

text \<open>
  The \<^verbatim>\<open>Scheduler\<close> of \<^verbatim>\<open>packages/scheduler/schedule.py\<close>: registered definitions, the run history keyed by
  idempotency key, paused and cancelled sets and the active counts. The executor is a function on a state
  of the world \<open>'w\<close> that returns the message or \<^const>\<open>None\<close> for an exception. A \<open>trigger_env\<close> holds the
  clock readings of one call and, for the retry loop, whether another thread has cancelled the run before
  the \<open>n\<close>-th attempt.
\<close>

datatype schedule_status =
  S_SUCCEEDED | S_FAILED | S_SKIPPED | S_PAUSED | S_EXPIRED | S_BLOCKED | S_CANCELLED

record schedule_run =
  sn_schedule_id :: string
  sn_idempotency_key :: string
  sn_scheduled_for :: string
  sn_started_at :: string
  sn_finished_at :: string
  sn_status :: schedule_status
  sn_attempts :: nat
  sn_message :: string
  sn_notification_sent :: bool
  sn_notification_error :: "string option"

type_synonym notifier = "string \<Rightarrow> schedule_definition \<Rightarrow> schedule_run \<Rightarrow> string option"
type_synonym 'w executor = "schedule_definition \<Rightarrow> string \<Rightarrow> 'w \<Rightarrow> string option \<times> 'w"

record scheduler =
  sc_definitions :: "(string, schedule_definition) dict"
  sc_history :: "(string, schedule_run) dict"
  sc_paused :: "string set"
  sc_active :: "(string, int) dict"
  sc_cancelled :: "string set"

record trigger_env =
  te_started :: instant
  te_finished :: "nat \<Rightarrow> instant"
  te_cancelled :: "nat \<Rightarrow> bool"

definition scheduler_init :: scheduler where
  "scheduler_init = \<lparr>sc_definitions = [], sc_history = [], sc_paused = {}, sc_active = [], sc_cancelled = {}\<rparr>"

definition register :: "tzdata \<Rightarrow> schedule_definition \<Rightarrow> scheduler \<Rightarrow> (schedule_error, scheduler) result" where
  "register tz d s =
     (if (case map_of (sc_definitions s) (sd_id d) of None \<Rightarrow> False | Some old \<Rightarrow> sd_version old \<noteq> sd_version d)
      then Inl (ValueError ''schedule replacement requires an explicit version migration'')
      else if sd_max_concurrency d \<le> 0 \<or> sd_retry_limit d < 0
      then Inl (ValueError ''invalid schedule concurrency or retry limit'')
      else if sd_notify_only_if d \<notin> {''always'', ''finding_or_failure'', ''failure''}
      then Inl (ValueError ''invalid schedule notification condition'')
      else if (case sd_notify_channel d of None \<Rightarrow> False | Some c \<Rightarrow> blank c \<or> length c > 64)
      then Inl (ValueError ''invalid schedule notification channel'')
      else case timezone tz d of Inl e \<Rightarrow> Inl e
      | Inr _ \<Rightarrow>
          if sd_schedule_type d = ''cron'' \<and> \<not> falsy (sd_expression d) \<and>
             (\<exists>e. cron_expression (the (sd_expression d)) = Inl e)
          then Inl (ValueError ''invalid cron expression'')
          else Inr (s\<lparr>sc_definitions := AList.update (sd_id d) d (sc_definitions s)\<rparr>))"

definition require :: "string \<Rightarrow> scheduler \<Rightarrow> (schedule_error, schedule_definition) result" where
  "require sid s = (case map_of (sc_definitions s) sid of
     None \<Rightarrow> Inl (KeyError (''unknown schedule: '' @ sid)) | Some d \<Rightarrow> Inr d)"

definition pause :: "string \<Rightarrow> scheduler \<Rightarrow> (schedule_error, scheduler) result" where
  "pause sid s = (case require sid s of Inl e \<Rightarrow> Inl e | Inr _ \<Rightarrow> Inr (s\<lparr>sc_paused := insert sid (sc_paused s)\<rparr>))"

definition resume :: "string \<Rightarrow> scheduler \<Rightarrow> (schedule_error, scheduler) result" where
  "resume sid s = (case require sid s of Inl e \<Rightarrow> Inl e | Inr _ \<Rightarrow> Inr (s\<lparr>sc_paused := sc_paused s - {sid}\<rparr>))"

definition cancel :: "string \<Rightarrow> scheduler \<Rightarrow> (schedule_error, scheduler) result" where
  "cancel key s =
     (if key = [] \<or> length key > 256 then Inl (ValueError ''invalid schedule idempotency key'')
      else Inr (s\<lparr>sc_cancelled := insert key (sc_cancelled s)\<rparr>))"

definition history :: "string option \<Rightarrow> scheduler \<Rightarrow> schedule_run list" where
  "history sid s =
     (let values = map snd (sc_history s);
          chosen = (case sid of None \<Rightarrow> values | Some i \<Rightarrow> filter (\<lambda>r. sn_schedule_id r = i) values)
      in sort_key sn_started_at chosen)"

definition slot_key :: "string \<Rightarrow> instant \<Rightarrow> string" where
  "slot_key sid slot = sid @ '':'' @ iso_utc slot"

text \<open>\<^verbatim>\<open>_record\<close>.\<close>

definition record_run ::
    "string \<Rightarrow> schedule_status \<Rightarrow> instant \<Rightarrow> instant \<Rightarrow> nat \<Rightarrow> string \<Rightarrow> instant \<Rightarrow> scheduler \<Rightarrow> schedule_run \<times> scheduler" where
  "record_run sid status started finished attempts message scheduled s =
     (let r = \<lparr>sn_schedule_id = sid, sn_idempotency_key = slot_key sid scheduled, sn_scheduled_for = iso_utc scheduled,
               sn_started_at = iso_utc started, sn_finished_at = iso_utc finished, sn_status = status,
               sn_attempts = attempts, sn_message = message, sn_notification_sent = False,
               sn_notification_error = None\<rparr>
      in (r, s\<lparr>sc_history := AList.update (slot_key sid scheduled) r (sc_history s)\<rparr>))"

text \<open>\<^verbatim>\<open>_notify\<close>.\<close>

definition should_notify :: "schedule_definition \<Rightarrow> schedule_run \<Rightarrow> bool \<Rightarrow> bool" where
  "should_notify d r finding \<longleftrightarrow>
     sd_notify_only_if d = ''always'' \<or>
     (sd_notify_only_if d = ''finding_or_failure'' \<and> (finding \<or> sn_status r \<in> {S_FAILED, S_BLOCKED})) \<or>
     (sd_notify_only_if d = ''failure'' \<and> sn_status r \<in> {S_FAILED, S_BLOCKED})"

definition notify ::
    "notifier option \<Rightarrow> schedule_definition \<Rightarrow> schedule_run \<Rightarrow> bool \<Rightarrow> scheduler \<Rightarrow> schedule_run \<times> scheduler" where
  "notify sink d r finding s =
     (case (sink, sd_notify_channel d) of
        (Some send, Some channel) \<Rightarrow>
          if \<not> should_notify d r finding then (r, s)
          else let updated = (case send channel d r of
                     Some exc \<Rightarrow> r\<lparr>sn_notification_error := Some exc\<rparr>
                   | None \<Rightarrow> r\<lparr>sn_notification_sent := True\<rparr>)
               in (updated, s\<lparr>sc_history := AList.update (sn_idempotency_key r) updated (sc_history s)\<rparr>)
      | _ \<Rightarrow> (r, s))"

text \<open>The retry loop; the first argument bounds the iterations that are left.\<close>

fun retry_loop ::
    "nat \<Rightarrow> notifier option \<Rightarrow> trigger_env \<Rightarrow> schedule_definition \<Rightarrow> string \<Rightarrow> 'w executor \<Rightarrow> bool \<Rightarrow> string \<Rightarrow> instant \<Rightarrow> nat \<Rightarrow>
     scheduler \<Rightarrow> 'w \<Rightarrow> (schedule_error, schedule_run) result \<times> scheduler \<times> 'w" where
  "retry_loop 0 sink env d sid ex finding key scheduled attempts s w =
     (Inl (ValueError ''RuntimeError: scheduler reached an invalid terminal state''), s, w)"
| "retry_loop (Suc n) sink env d sid ex finding key scheduled attempts s w =
     (let s = (if te_cancelled env attempts then s\<lparr>sc_cancelled := insert key (sc_cancelled s)\<rparr> else s)
      in if key \<in> sc_cancelled s
         then (case record_run sid S_CANCELLED (te_started env) (te_finished env attempts) attempts
                      ''schedule was cancelled'' scheduled s of (r, s') \<Rightarrow> (Inr r, s', w))
         else case ex d key w of
           (Some message, w') \<Rightarrow>
             (case record_run sid S_SUCCEEDED (te_started env) (te_finished env (Suc attempts)) (Suc attempts)
                     message scheduled s of
                (r, s1) \<Rightarrow> (case notify sink d r finding s1 of (r', s2) \<Rightarrow> (Inr r', s2, w')))
         | (None, w') \<Rightarrow>
             if int (Suc attempts) > sd_retry_limit d
             then (case record_run sid S_FAILED (te_started env) (te_finished env (Suc attempts)) (Suc attempts)
                          ''scheduled execution failed after retry limit'' scheduled s of
                     (r, s1) \<Rightarrow> (case notify sink d r False s1 of (r', s2) \<Rightarrow> (Inr r', s2, w')))
             else retry_loop n sink env d sid ex finding key scheduled (Suc attempts) s w')"

definition active_count :: "scheduler \<Rightarrow> string \<Rightarrow> int" where
  "active_count s sid = (case map_of (sc_active s) sid of None \<Rightarrow> 0 | Some n \<Rightarrow> n)"

definition enter :: "string \<Rightarrow> scheduler \<Rightarrow> scheduler" where
  "enter sid s = s\<lparr>sc_active := AList.update sid (active_count s sid + 1) (sc_active s)\<rparr>"

text \<open>The \<^verbatim>\<open>finally\<close> clause.\<close>

definition leave :: "string \<Rightarrow> scheduler \<Rightarrow> scheduler" where
  "leave sid s = (if active_count s sid - 1 = 0 then s\<lparr>sc_active := AList.delete sid (sc_active s)\<rparr>
     else s\<lparr>sc_active := AList.update sid (active_count s sid - 1) (sc_active s)\<rparr>)"

text \<open>Whether the definition's expiry has passed.\<close>

definition has_expired :: "tzdata \<Rightarrow> schedule_definition \<Rightarrow> instant \<Rightarrow> (schedule_error, bool) result" where
  "has_expired tz d now =
     (if falsy (sd_expires_at d) then Inr False
      else case fromiso (the (sd_expires_at d)) of
        None \<Rightarrow> Inl (ValueError ''Invalid isoformat string'')
      | Some e \<Rightarrow>
          (case dt_offset e of
             Some off \<Rightarrow> Inr (dt_wall e - off \<le> now)
           | None \<Rightarrow> (case timezone tz d of Inl err \<Rightarrow> Inl err
               | Inr z \<Rightarrow> Inr (dt_wall e - zn_offset_local z (dt_wall e) \<le> now))))"

definition trigger_slot ::
    "notifier option \<Rightarrow> trigger_env \<Rightarrow> schedule_definition \<Rightarrow> string \<Rightarrow> 'w executor \<Rightarrow> bool \<Rightarrow> instant \<Rightarrow> scheduler \<Rightarrow> 'w \<Rightarrow>
     (schedule_error, schedule_run) result \<times> scheduler \<times> 'w" where
  "trigger_slot sink env d sid ex finding scheduled s w =
     (let key = slot_key sid scheduled;
          plain = (\<lambda>status message. case record_run sid status (te_started env) (te_started env) 0 message scheduled s of
                     (r, s') \<Rightarrow> (Inr r, s', w))
      in case map_of (sc_history s) key of
           Some r \<Rightarrow> (Inr r, s, w)
         | None \<Rightarrow>
             if key \<in> sc_cancelled s then plain S_CANCELLED ''schedule was cancelled''
             else if active_count s sid \<ge> sd_max_concurrency d then plain S_SKIPPED ''concurrency limit reached''
             else (case retry_loop (nat (sd_retry_limit d + 1)) sink env d sid ex finding key scheduled 0 (enter sid s) w of
                 (res, s', w') \<Rightarrow> (res, leave sid s', w')))"

definition trigger ::
    "tzdata \<Rightarrow> notifier option \<Rightarrow> trigger_env \<Rightarrow> string \<Rightarrow> instant \<Rightarrow> 'w executor \<Rightarrow> bool \<Rightarrow> bool \<Rightarrow> scheduler \<Rightarrow> 'w \<Rightarrow>
     (schedule_error, schedule_run) result \<times> scheduler \<times> 'w" where
  "trigger tz sink env sid now ex approval_granted finding s w =
     (case require sid s of Inl e \<Rightarrow> (Inl e, s, w)
      | Inr d \<Rightarrow>
          let plain = (\<lambda>status message. case record_run sid status (te_started env) (te_started env) 0 message now s of
                         (r, s') \<Rightarrow> (Inr r, s', w))
          in if sid \<in> sc_paused s then plain S_PAUSED ''schedule is paused''
             else if sd_permissions_mode d \<noteq> ''read_only'' \<and> \<not> approval_granted
             then plain S_BLOCKED ''scheduled write requires explicit approval''
             else case has_expired tz d now of
               Inl e \<Rightarrow> (Inl e, s, w)
             | Inr True \<Rightarrow> plain S_EXPIRED ''schedule has expired''
             | Inr False \<Rightarrow>
                 (case scheduled_for tz d now of
                    Inl e \<Rightarrow> (Inl e, s, w)
                  | Inr None \<Rightarrow> plain S_SKIPPED ''not due''
                  | Inr (Some scheduled) \<Rightarrow> trigger_slot sink env d sid ex finding scheduled s w))"


section \<open>Lemmas\<close>

lemma record_run_simps:
  "map_of (sc_history (snd (record_run sid st a b n m slot s))) = (map_of (sc_history s))(slot_key sid slot \<mapsto> fst (record_run sid st a b n m slot s))"
  "sc_definitions (snd (record_run sid st a b n m slot s)) = sc_definitions s"
  "sc_active (snd (record_run sid st a b n m slot s)) = sc_active s"
  "sn_idempotency_key (fst (record_run sid st a b n m slot s)) = slot_key sid slot"
  "sn_status (fst (record_run sid st a b n m slot s)) = st" "sn_attempts (fst (record_run sid st a b n m slot s)) = n"
  by (simp_all add: record_run_def Let_def)

lemma notify_simps:
  "map_of (sc_history s) (sn_idempotency_key r) = Some r \<Longrightarrow>
     map_of (sc_history (snd (notify sink d r f s))) = (map_of (sc_history s))(sn_idempotency_key r \<mapsto> fst (notify sink d r f s))"
  "sc_definitions (snd (notify sink d r f s)) = sc_definitions s"
  "sc_active (snd (notify sink d r f s)) = sc_active s"
  "sn_idempotency_key (fst (notify sink d r f s)) = sn_idempotency_key r"
  "sn_status (fst (notify sink d r f s)) = sn_status r" "sn_attempts (fst (notify sink d r f s)) = sn_attempts r"
  by (auto simp: notify_def Let_def split: option.splits if_splits)

declare retry_loop.simps [simp del]

text \<open>A world that counts the calls of the executor.\<close>

definition counted :: "'w executor \<Rightarrow> (nat \<times> 'w) executor" where
  "counted ex d key w = (case ex d key (snd w) of (r, w') \<Rightarrow> (r, Suc (fst w), w'))"

text \<open>
  What the retry loop does: it returns a run that is recorded under its key and nothing else in the history
  changes; the active counts are untouched; the executor is called once per attempt.
\<close>

definition loop_result ::
    "string \<Rightarrow> nat \<Rightarrow> nat \<Rightarrow> scheduler \<Rightarrow> nat \<times> 'w \<Rightarrow> schedule_run \<Rightarrow> scheduler \<Rightarrow> nat \<times> 'w \<Rightarrow> bool" where
  "loop_result key n attempts s w r s' w' \<longleftrightarrow>
     map_of (sc_history s') = (map_of (sc_history s))(key \<mapsto> r) \<and> sc_active s' = sc_active s \<and>
     sc_definitions s' = sc_definitions s \<and> sn_idempotency_key r = key \<and>
     sn_attempts r + fst w = attempts + fst w' \<and> fst w \<le> fst w' \<and> fst w' \<le> fst w + n \<and>
     sn_status r \<in> {S_SUCCEEDED, S_FAILED, S_CANCELLED} \<and> (sn_status r = S_FAILED \<longrightarrow> fst w' = fst w + n)"

lemma retry_loop_ok:
  "0 < n \<Longrightarrow> key = slot_key sid slot \<Longrightarrow> int (attempts + n) = sd_retry_limit d + 1 \<Longrightarrow>
   \<exists>r s' w'. retry_loop n sink env d sid (counted ex) finding key slot attempts s w = (Inr r, s', w') \<and>
     loop_result key n attempts s w r s' w'"
proof (induction n arbitrary: attempts s w)
  case (Suc n)
  let ?s = "if te_cancelled env attempts then s\<lparr>sc_cancelled := insert key (sc_cancelled s)\<rparr> else s"
  have hist: "sc_history ?s = sc_history s" "sc_active ?s = sc_active s" "sc_definitions ?s = sc_definitions s" by simp_all
  obtain out w1 where ex: "ex d key (snd w) = (out, w1)" by (rule prod.exhaust)
  then have ex': "counted ex d key w = (out, Suc (fst w), w1)" by (simp add: counted_def)
  show ?case
  proof (cases "key \<in> sc_cancelled ?s")
    case True
    obtain r s1 where r: "record_run sid S_CANCELLED (te_started env) (te_finished env attempts) attempts
        ''schedule was cancelled'' slot ?s = (r, s1)" by (rule prod.exhaust)
    then have "retry_loop (Suc n) sink env d sid (counted ex) finding key slot attempts s w = (Inr r, s1, w)"
      using True by (simp del: if_split add: retry_loop.simps(2) Let_def)
    moreover have "map_of (sc_history s1) = (map_of (sc_history s))(key \<mapsto> r)" "sc_active s1 = sc_active s"
      "sc_definitions s1 = sc_definitions s" "sn_idempotency_key r = key" "sn_status r = S_CANCELLED" "sn_attempts r = attempts"
      using record_run_simps [of sid S_CANCELLED "te_started env" "te_finished env attempts" attempts
          "''schedule was cancelled''" slot ?s] Suc.prems(2) unfolding r hist by simp_all
    ultimately show ?thesis
      by (intro exI [of _ r] exI [of _ s1] exI [of _ w]) (simp add: loop_result_def del: fun_upd_apply)
  next
    case False
    define st where "st = (if out = None then S_FAILED else S_SUCCEEDED)"
    define msg where "msg = (case out of None \<Rightarrow> ''scheduled execution failed after retry limit'' | Some m \<Rightarrow> m)"
    define f where "f = (if out = None then False else finding)"
    obtain r s1 where r: "record_run sid st (te_started env) (te_finished env (Suc attempts)) (Suc attempts) msg slot ?s = (r, s1)"
      by (rule prod.exhaust)
    obtain r2 s2 where r2: "notify sink d r f s1 = (r2, s2)" by (rule prod.exhaust)
    have 1: "map_of (sc_history s1) = (map_of (sc_history s))(key \<mapsto> r)" "sc_active s1 = sc_active s"
      "sc_definitions s1 = sc_definitions s" "sn_idempotency_key r = key" "sn_status r = st" "sn_attempts r = Suc attempts"
      using record_run_simps [of sid st "te_started env" "te_finished env (Suc attempts)" "Suc attempts" msg slot ?s] Suc.prems(2)
      unfolding r hist by simp_all
    have 2: "map_of (sc_history s2) = (map_of (sc_history s))(key \<mapsto> r2)" "sc_active s2 = sc_active s"
      "sc_definitions s2 = sc_definitions s" "sn_idempotency_key r2 = key" "sn_status r2 = st" "sn_attempts r2 = Suc attempts"
      using notify_simps [where sink = sink and d = d and r = r and f = f and s = s1] 1 unfolding r2 by simp_all
    show ?thesis
    proof (cases "out = None \<and> n \<noteq> 0")
      case retry: True
      then have "\<not> int (Suc attempts) > sd_retry_limit d" using Suc.prems(3) by simp
      then have step: "retry_loop (Suc n) sink env d sid (counted ex) finding key slot attempts s w =
          retry_loop n sink env d sid (counted ex) finding key slot (Suc attempts) ?s (Suc (fst w), w1)"
        using False retry by (simp del: if_split add: retry_loop.simps(2) Let_def ex')
      have "int (Suc attempts + n) = sd_retry_limit d + 1" using Suc.prems(3) by simp
      from Suc.IH [OF _ Suc.prems(2) this, of ?s "(Suc (fst w), w1)"] retry obtain r' s' w' where l:
        "retry_loop n sink env d sid (counted ex) finding key slot (Suc attempts) ?s (Suc (fst w), w1) = (Inr r', s', w')"
        "loop_result key n (Suc attempts) ?s (Suc (fst w), w1) r' s' w'"
        by (auto simp del: if_split)
      have "loop_result key (Suc n) attempts s w r' s' w'"
        using l(2) unfolding loop_result_def hist by (simp del: fun_upd_apply)
      with l(1) show ?thesis unfolding step by blast
    next
      case last: False
      have lim: "int (Suc attempts) > sd_retry_limit d \<longleftrightarrow> n = 0" using Suc.prems(3) by auto
      have "retry_loop (Suc n) sink env d sid (counted ex) finding key slot attempts s w = (Inr r2, s2, (Suc (fst w), w1))"
        using False last lim r r2 unfolding st_def msg_def f_def
        by (cases out) (simp_all del: if_split add: retry_loop.simps(2) Let_def ex')
      then show ?thesis
        using 2 last unfolding st_def loop_result_def
        by (intro exI [of _ r2] exI [of _ s2] exI [of _ "(Suc (fst w), w1)"]) (auto simp del: fun_upd_apply)
    qed
  qed
qed simp


text \<open>Recording, notifying and the retry loop never drop a key from the history.\<close>

lemma record_run_keeps:
  "record_run sid st a b n m slot s = (r, s') \<Longrightarrow> map_of (sc_history s) k \<noteq> None \<Longrightarrow> map_of (sc_history s') k \<noteq> None"
  by (auto simp: record_run_def Let_def)

lemma notify_keeps:
  "notify sink d r f s = (r', s') \<Longrightarrow> map_of (sc_history s) k \<noteq> None \<Longrightarrow> map_of (sc_history s') k \<noteq> None"
  by (auto simp: notify_def Let_def split: option.splits if_splits)

lemma retry_loop_keeps:
  "retry_loop n sink env d sid ex finding key slot attempts s w = (res, s', w') \<Longrightarrow>
   map_of (sc_history s) k \<noteq> None \<Longrightarrow> map_of (sc_history s') k \<noteq> None"
proof (induction n arbitrary: attempts s w)
  case (Suc n)
  let ?s = "if te_cancelled env attempts then s\<lparr>sc_cancelled := insert key (sc_cancelled s)\<rparr> else s"
  have k: "map_of (sc_history ?s) k \<noteq> None" using Suc.prems(2) by simp
  obtain out w1 where ex: "ex d key w = (out, w1)" by (rule prod.exhaust)
  note unfolded = Suc.prems(1) [unfolded retry_loop.simps(2) Let_def ex prod.case]
  show ?case
  proof (cases "key \<in> sc_cancelled ?s")
    case True
    with unfolded show ?thesis
      by (auto simp del: if_split not_None_eq split: prod.splits dest!: record_run_keeps [OF _ k])
  next
    case False
    show ?thesis
    proof (cases "out = None \<and> \<not> int (Suc attempts) > sd_retry_limit d")
      case True
      with unfolded False have "retry_loop n sink env d sid ex finding key slot (Suc attempts) ?s w1 = (res, s', w')"
        by (simp del: if_split)
      then show ?thesis using k by (rule Suc.IH)
    next
      case last: False
      with unfolded False obtain st f m b r1 s1 r2 where
        "record_run sid st (te_started env) b (Suc attempts) m slot ?s = (r1, s1)" "notify sink d r1 f s1 = (r2, s')"
        by (cases out) (auto simp del: if_split split: prod.splits)
      then show ?thesis using k record_run_keeps notify_keeps by metis
    qed
  qed
qed (simp add: retry_loop.simps)

lemma leave_enter_simps [simp]:
  "sc_history (leave sid s) = sc_history s" "sc_history (enter sid s) = sc_history s"
  "sc_definitions (leave sid s) = sc_definitions s" "sc_definitions (enter sid s) = sc_definitions s"
  "sc_cancelled (enter sid s) = sc_cancelled s"
  by (simp_all add: leave_def enter_def)

lemma trigger_keeps:
  assumes "trigger tz sink env sid now ex appr finding s w = (res, s', w')" "map_of (sc_history s) k \<noteq> None"
  shows "map_of (sc_history s') k \<noteq> None"
proof -
  have "map_of (sc_history s2) k \<noteq> None" if "trigger_slot sink env d sid ex finding slot s w = (res2, s2, w2)" for d slot res2 s2 w2
    using that assms(2)
    by (auto simp: trigger_slot_def Let_def simp del: not_None_eq split: option.splits if_splits prod.splits
        dest!: record_run_keeps retry_loop_keeps [where k = k])
  with assms show ?thesis
    by (auto simp: trigger_def Let_def simp del: not_None_eq split: option.splits if_splits prod.splits sum.splits bool.splits
        dest!: record_run_keeps)
qed

text \<open>One operation on the scheduler by any caller, with the world the executors act on.\<close>

inductive scheduler_step :: "tzdata \<Rightarrow> scheduler \<times> 'w \<Rightarrow> scheduler \<times> 'w \<Rightarrow> bool" for tz where
  register: "register tz d s = Inr s' \<Longrightarrow> scheduler_step tz (s, w) (s', w)"
| pause: "pause sid s = Inr s' \<Longrightarrow> scheduler_step tz (s, w) (s', w)"
| resume: "resume sid s = Inr s' \<Longrightarrow> scheduler_step tz (s, w) (s', w)"
| cancel: "cancel key s = Inr s' \<Longrightarrow> scheduler_step tz (s, w) (s', w)"
| trigger: "trigger tz sink env sid now ex appr finding s w = (res, s', w') \<Longrightarrow> scheduler_step tz (s, w) (s', w')"

lemma scheduler_step_keeps:
  assumes "scheduler_step tz a b" "map_of (sc_history (fst a)) k \<noteq> None"
  shows "map_of (sc_history (fst b)) k \<noteq> None"
  using assms
proof (cases rule: scheduler_step.cases)
  case (register d s s' w)
  then have "sc_history s' = sc_history s" by (auto simp: register_def split: if_splits sum.splits)
  with register assms(2) show ?thesis by simp
qed (auto simp: pause_def resume_def cancel_def simp del: not_None_eq split: sum.splits if_splits dest: trigger_keeps)

lemma scheduler_steps_keep:
  assumes "(scheduler_step tz)\<^sup>*\<^sup>* a b" "map_of (sc_history (fst a)) k \<noteq> None"
  shows "map_of (sc_history (fst b)) k \<noteq> None"
  using assms by (induction rule: rtranclp_induct) (simp_all add: scheduler_step_keeps del: not_None_eq)

lemma trigger_known_slot:
  assumes "require sid s = Inr d" "scheduled_for tz d now = Inr (Some slot)" "map_of (sc_history s) (slot_key sid slot) \<noteq> None"
  shows "snd (snd (trigger tz sink env sid now ex appr finding s w)) = w"
  using assms by (auto simp: trigger_def trigger_slot_def Let_def split: prod.splits sum.splits bool.splits)

text \<open>When the executor was called, the run went through the retry loop of its slot.\<close>

lemma trigger_executed:
  assumes t: "trigger tz sink env sid now (counted ex) appr finding s w = (Inr r, s', w')" and called: "w' \<noteq> w"
  obtains d slot s1 where "require sid s = Inr d" "scheduled_for tz d now = Inr (Some slot)" "sid \<notin> sc_paused s"
    "sd_permissions_mode d = ''read_only'' \<or> appr" "has_expired tz d now = Inr False"
    "map_of (sc_history s) (slot_key sid slot) = None" "slot_key sid slot \<notin> sc_cancelled s"
    "active_count s sid < sd_max_concurrency d" "0 \<le> sd_retry_limit d" "s' = leave sid s1"
    "loop_result (slot_key sid slot) (nat (sd_retry_limit d + 1)) 0 (enter sid s) w r s1 w'"
proof -
  obtain d slot where d: "require sid s = Inr d" "scheduled_for tz d now = Inr (Some slot)" "sid \<notin> sc_paused s"
    "sd_permissions_mode d = ''read_only'' \<or> appr" "has_expired tz d now = Inr False"
    and slot: "trigger_slot sink env d sid (counted ex) finding slot s w = (Inr r, s', w')"
    using t called
    by (auto simp: trigger_def Let_def split: sum.splits if_splits prod.splits bool.splits option.splits)
  from slot called have k: "map_of (sc_history s) (slot_key sid slot) = None" "slot_key sid slot \<notin> sc_cancelled s"
    "active_count s sid < sd_max_concurrency d"
    by (auto simp: trigger_slot_def Let_def split: option.splits if_splits prod.splits)
  then obtain s1 where l: "retry_loop (nat (sd_retry_limit d + 1)) sink env d sid (counted ex) finding (slot_key sid slot) slot 0
      (enter sid s) w = (Inr r, s1, w')" "s' = leave sid s1"
    using slot by (auto simp: trigger_slot_def Let_def split: prod.splits)
  then have pos: "0 < nat (sd_retry_limit d + 1)"
    by (cases "nat (sd_retry_limit d + 1)") (auto simp: retry_loop.simps)
  then have "0 \<le> sd_retry_limit d" by simp
  moreover from this have "loop_result (slot_key sid slot) (nat (sd_retry_limit d + 1)) 0 (enter sid s) w r s1 w'"
    using retry_loop_ok [OF pos refl, where attempts = 0 and d = d and sid = sid and slot = slot and sink = sink and env = env
        and ex = ex and finding = finding and s = "enter sid s" and w = w] l(1) by auto
  ultimately show thesis using that d k l(2) by blast
qed

section \<open>Properties\<close>

text \<open>
  C29. Each slot is executed at most once: after a trigger that called the executor for a slot, no sequence
  of operations on the scheduler leads to a state in which triggering the schedule for the same slot calls
  an executor again.
\<close>

theorem slot_executed_once:
  assumes "trigger tz sink env sid now (counted ex) appr finding s w = (Inr r, s1, w1)" "w1 \<noteq> w"
    and "(scheduler_step tz)\<^sup>*\<^sup>* (s1, w1) (s2, w2)"
    and "require sid s2 = Inr d2" "scheduled_for tz d2 now2 = Inr (Some slot2)" "slot_key sid slot2 = sn_idempotency_key r"
  shows "snd (snd (trigger tz sink2 env2 sid now2 ex2 appr2 finding2 s2 w2)) = w2"
proof (rule trigger_known_slot [OF assms(4,5)])
  have "map_of (sc_history s1) (sn_idempotency_key r) \<noteq> None"
    by (rule trigger_executed [OF assms(1,2)]) (auto simp: loop_result_def)
  with scheduler_steps_keep [OF assms(3)] assms(6) show "map_of (sc_history s2) (slot_key sid slot2) \<noteq> None" by auto
qed

text \<open>
  C38. One trigger calls the executor at most \<^verbatim>\<open>retry_limit + 1\<close> times: when it calls it at all, the run it
  returns is recorded under the slot's key with the number of calls as its attempts, it has succeeded,
  failed or been cancelled, it has failed only after exactly \<^verbatim>\<open>retry_limit + 1\<close> calls, and the active
  counts are as before.
\<close>

theorem trigger_attempts:
  assumes "trigger tz sink env sid now (counted ex) appr finding s w = (Inr r, s', w')" "w' \<noteq> w"
  shows "\<exists>d. require sid s = Inr d \<and> int (fst w') \<le> int (fst w) + sd_retry_limit d + 1 \<and> fst w' = fst w + sn_attempts r \<and>
    map_of (sc_history s') (sn_idempotency_key r) = Some r \<and> sn_status r \<in> {S_SUCCEEDED, S_FAILED, S_CANCELLED} \<and>
    (sn_status r = S_FAILED \<longrightarrow> int (sn_attempts r) = sd_retry_limit d + 1) \<and> active_count s' = active_count s"
proof -
  obtain d slot s1 where *: "require sid s = Inr d" "0 \<le> sd_retry_limit d" "s' = leave sid s1"
    "loop_result (slot_key sid slot) (nat (sd_retry_limit d + 1)) 0 (enter sid s) w r s1 w'"
    using trigger_executed [OF assms] by blast
  have act: "sc_active s1 = sc_active (enter sid s)" using *(4) by (simp add: loop_result_def)
  have "active_count (leave sid s1) x = active_count s x" for x
    using act by (simp add: leave_def active_count_def enter_def)
  then have "active_count s' = active_count s" using *(3) by auto
  with * show ?thesis by (intro exI [of _ d]) (auto simp: loop_result_def)
qed

text \<open>
  The gates of a trigger: the executor is called only for a registered schedule that is not paused, has
  not expired, is due, is below its concurrency limit, whose slot is neither recorded nor cancelled, and
  that is read-only or was explicitly approved.
\<close>

lemma trigger_gates:
  assumes "trigger tz sink env sid now (counted ex) appr finding s w = (Inr r, s', w')" "w' \<noteq> w"
  shows "\<exists>d slot. map_of (sc_definitions s) sid = Some d \<and> sid \<notin> sc_paused s \<and>
    (sd_permissions_mode d = ''read_only'' \<or> appr) \<and> has_expired tz d now = Inr False \<and>
    scheduled_for tz d now = Inr (Some slot) \<and> map_of (sc_history s) (slot_key sid slot) = None \<and>
    slot_key sid slot \<notin> sc_cancelled s \<and> active_count s sid < sd_max_concurrency d"
  by (rule trigger_executed [OF assms]) (auto simp: require_def split: option.splits)

text \<open>
  A refusal uses up its slot: if a write schedule is triggered without approval at an instant that is
  itself the slot, then triggering it again at that instant with approval returns the blocked run, and the
  executor is not called.
\<close>

lemma blocked_trigger_consumes_slot:
  assumes "require sid s = Inr d" "sid \<notin> sc_paused s" "sd_permissions_mode d \<noteq> ''read_only''"
    and "has_expired tz d now = Inr False" "scheduled_for tz d now = Inr (Some now)"
    and "trigger tz sink env sid now ex False finding s w = (Inr r, s1, w1)"
  shows "sn_status r = S_BLOCKED \<and> trigger tz sink env' sid now ex True finding s1 w1 = (Inr r, s1, w)"
proof -
  have 1: "record_run sid S_BLOCKED (te_started env) (te_started env) 0 ''scheduled write requires explicit approval'' now s = (r, s1)"
    "w1 = w"
    using assms by (auto simp: trigger_def Let_def split: prod.splits)
  have "sn_status r = S_BLOCKED" "map_of (sc_history s1) (slot_key sid now) = Some r" "sc_paused s1 = sc_paused s"
    "sc_definitions s1 = sc_definitions s"
    using 1(1) by (auto simp: record_run_def Let_def)
  with assms(1-5) 1(2) show ?thesis by (simp add: trigger_def trigger_slot_def require_def)
qed


section \<open>Concrete triggers\<close>

definition demo_tz :: tzdata where "demo_tz = (\<lambda>_. Some utc_zone)"

definition demo_tenv :: trigger_env where
  "demo_tenv = \<lparr>te_started = epoch, te_finished = \<lambda>_. epoch, te_cancelled = \<lambda>_. False\<rparr>"

definition demo_scheduler :: "schedule_definition \<Rightarrow> scheduler" where
  "demo_scheduler d = \<lparr>sc_definitions = [(''s1'', d)], sc_history = [], sc_paused = {}, sc_active = [], sc_cancelled = {}\<rparr>"

definition demo_ex :: "unit executor" where "demo_ex = (\<lambda>_ _ w. (Some ''done'', w))"

lemma demo_slot: "scheduled_for demo_tz demo_interval epoch = Inr (Some epoch)"
  "scheduled_for demo_tz (demo_interval\<lparr>sd_permissions_mode := ''write''\<rparr>) epoch = Inr (Some epoch)"
  by (simp_all add: scheduled_for_def timezone_def demo_tz_def demo_interval_def interval_slot_def trunc_div_def)

lemma demo_require: "require ''s1'' (demo_scheduler d) = Inr d"
  by (simp add: require_def demo_scheduler_def)

lemma demo_paused: "sc_paused (demo_scheduler d) = {}"
  by (simp add: demo_scheduler_def)

lemma demo_trigger:
  obtains r s1 where "trigger demo_tz None demo_tenv ''s1'' epoch (counted demo_ex) False False (demo_scheduler demo_interval) (0, ()) =
      (Inr r, s1, (1, ()))" "sn_idempotency_key r = slot_key ''s1'' epoch" "require ''s1'' s1 = Inr demo_interval"
proof -
  have d: "sd_permissions_mode demo_interval = ''read_only''" "sd_expires_at demo_interval = None" "sd_retry_limit demo_interval = 0"
    "sd_max_concurrency demo_interval = 1" "sd_notify_channel demo_interval = None"
    by (simp_all add: demo_interval_def)
  have "\<exists>r s1. trigger demo_tz None demo_tenv ''s1'' epoch (counted demo_ex) False False (demo_scheduler demo_interval) (0, ()) =
      (Inr r, s1, (1, ())) \<and> sn_idempotency_key r = slot_key ''s1'' epoch \<and> require ''s1'' s1 = Inr demo_interval"
    by (simp add: trigger_def demo_require d has_expired_def falsy_def demo_slot trigger_slot_def Let_def retry_loop.simps
        counted_def demo_ex_def record_run_def notify_def enter_def leave_def active_count_def require_def demo_scheduler_def
        demo_tenv_def)
  then show thesis using that by blast
qed

theorem slot_executed_once_witness:
  "\<exists>r s1. trigger demo_tz None demo_tenv ''s1'' epoch (counted demo_ex) False False (demo_scheduler demo_interval) (0, ()) =
      (Inr r, s1, (1, ())) \<and>
    snd (snd (trigger demo_tz None demo_tenv ''s1'' epoch (counted demo_ex) False False s1 (1, ()))) = (1, ())"
proof -
  obtain r s1 where t: "trigger demo_tz None demo_tenv ''s1'' epoch (counted demo_ex) False False (demo_scheduler demo_interval) (0, ()) =
      (Inr r, s1, (1, ()))" "sn_idempotency_key r = slot_key ''s1'' epoch" "require ''s1'' s1 = Inr demo_interval"
    by (rule demo_trigger)
  have "snd (snd (trigger demo_tz None demo_tenv ''s1'' epoch (counted demo_ex) False False s1 (1, ()))) = (1, ())"
    by (rule slot_executed_once [OF t(1) _ rtranclp.rtrancl_refl t(3) demo_slot(1)]) (simp_all add: t(2))
  with t(1) show ?thesis by blast
qed

theorem trigger_attempts_witness:
  "\<exists>r s1. trigger demo_tz None demo_tenv ''s1'' epoch (counted demo_ex) False False (demo_scheduler demo_interval) (0, ()) =
      (Inr r, s1, (1, ())) \<and> sn_attempts r = 1 \<and> active_count s1 = active_count (demo_scheduler demo_interval)"
proof -
  obtain r s1 where t: "trigger demo_tz None demo_tenv ''s1'' epoch (counted demo_ex) False False (demo_scheduler demo_interval) (0, ()) =
      (Inr r, s1, (1, ()))"
    by (rule demo_trigger)
  from trigger_attempts [OF t] t show ?thesis by auto
qed

lemma trigger_gates_witness:
  "\<exists>r s1. trigger demo_tz None demo_tenv ''s1'' epoch (counted demo_ex) False False (demo_scheduler demo_interval) (0, ()) =
      (Inr r, s1, (1, ())) \<and> ''s1'' \<notin> sc_paused (demo_scheduler demo_interval)"
proof -
  obtain r s1 where t: "trigger demo_tz None demo_tenv ''s1'' epoch (counted demo_ex) False False (demo_scheduler demo_interval) (0, ()) =
      (Inr r, s1, (1, ()))"
    by (rule demo_trigger)
  from trigger_gates [OF t] t show ?thesis by auto
qed

lemma blocked_trigger_consumes_slot_witness:
  "\<exists>r s1. trigger demo_tz None demo_tenv ''s1'' epoch (counted demo_ex) True False s1 (0, ()) = (Inr r, s1, (0, ())) \<and> sn_status r = S_BLOCKED"
proof -
  let ?d = "demo_interval\<lparr>sd_permissions_mode := ''write''\<rparr>"
  obtain r s1 w1 where t: "trigger demo_tz None demo_tenv ''s1'' epoch (counted demo_ex) False False (demo_scheduler ?d) (0, ()) =
      (Inr r, s1, w1)"
    by (simp add: trigger_def demo_require demo_paused record_run_def Let_def)
  have w1: "w1 = (0, ())" using t by (simp add: trigger_def demo_require demo_paused record_run_def Let_def)
  have "has_expired demo_tz ?d epoch = Inr False" by (simp add: has_expired_def falsy_def demo_interval_def)
  from blocked_trigger_consumes_slot [OF demo_require _ _ this demo_slot(2) t, of demo_tenv] w1 show ?thesis
    by (auto simp: demo_paused)
qed

end
