(* ===== verification/Blob_Stores.thy ===== *)
theory Blob_Stores
  imports Py_Prelude
begin

text \<open>
  The blob adapters of \<^verbatim>\<open>packages/attachments/blob.py\<close>. Bytes are strings. The file system and the S3 client are
  parameters, records of the calls that the source makes; what the theorems need of them is stated as named
  laws over the contents that the caller can observe. A path is the list of its parts.
\<close>

datatype blob_error = BlobStorageError string | BlobUncaught string

section \<open>Keys\<close>

definition safe_key_char :: "char \<Rightarrow> bool" where
  "safe_key_char c \<longleftrightarrow> is_alnum c \<or> c = CHR ''.'' \<or> c = CHR ''_'' \<or> c = CHR ''/'' \<or> c = CHR ''-''"

definition safe_key :: "string \<Rightarrow> bool" where
  "safe_key s \<longleftrightarrow> 1 \<le> length s \<and> length s \<le> 512 \<and> list_all safe_key_char s"

definition to_slash :: "string \<Rightarrow> string" where
  "to_slash s = map (\<lambda>c. if c = CHR 0x5C then CHR ''/'' else c) s"

definition dot_part :: "string \<Rightarrow> bool" where
  "dot_part p \<longleftrightarrow> p = [] \<or> p = ''.'' \<or> p = ''..''"

definition validate_key :: "string \<Rightarrow> (blob_error, string) result" where
  "validate_key key =
     (let normalized = to_slash key in
      if \<not> safe_key normalized \<or> startswith normalized ''/'' \<or> list_ex dot_part (split_on CHR ''/'' normalized)
      then Inl (BlobStorageError ''storage key is invalid'')
      else Inr normalized)"

section \<open>The interface\<close>

type_synonym path = "string list"

record 'b blob_ops =
  bo_storage_id :: string
  bo_put :: "string \<Rightarrow> string \<Rightarrow> string \<Rightarrow> 'b \<Rightarrow> (blob_error, unit) result \<times> 'b"
  bo_read :: "string \<Rightarrow> int \<Rightarrow> 'b \<Rightarrow> (blob_error, string) result"
  bo_delete :: "string \<Rightarrow> 'b \<Rightarrow> (blob_error, unit) result \<times> 'b"
  bo_local_path :: "(string \<Rightarrow> 'b \<Rightarrow> (blob_error, path) result) option"
  bo_healthcheck :: "'b \<Rightarrow> bool"

section \<open>FilesystemBlobStore\<close>

text \<open>
  \<open>fs_resolve\<close> is \<^verbatim>\<open>Path.resolve\<close>, which follows symbolic links; \<open>fs_write_new\<close> opens with mode \<^verbatim>\<open>xb\<close>, writes, flushes and
  syncs. \<^const>\<open>None\<close> and \<^term>\<open>False\<close> stand for an \<^verbatim>\<open>OSError\<close>.
\<close>

record 'f file_system =
  fs_resolve :: "path \<Rightarrow> 'f \<Rightarrow> path option"
  fs_mkdir :: "path \<Rightarrow> 'f \<Rightarrow> bool \<times> 'f"
  fs_write_new :: "path \<Rightarrow> string \<Rightarrow> 'f \<Rightarrow> bool \<times> 'f"
  fs_replace :: "path \<Rightarrow> path \<Rightarrow> 'f \<Rightarrow> bool \<times> 'f"
  fs_unlink :: "path \<Rightarrow> 'f \<Rightarrow> bool \<times> 'f"
  fs_is_symlink :: "path \<Rightarrow> 'f \<Rightarrow> bool"
  fs_is_file :: "path \<Rightarrow> 'f \<Rightarrow> bool"
  fs_exists :: "path \<Rightarrow> 'f \<Rightarrow> bool"
  fs_is_dir :: "path \<Rightarrow> 'f \<Rightarrow> bool"
  fs_read :: "path \<Rightarrow> 'f \<Rightarrow> string option"

definition below :: "path \<Rightarrow> path \<Rightarrow> bool" where
  "below base p \<longleftrightarrow> take (length base) p = base"

definition blob_init :: "'f file_system \<Rightarrow> path \<Rightarrow> 'f \<Rightarrow> (blob_error, path) result \<times> 'f" where
  "blob_init fs base f =
     (case fs_resolve fs base f of
        None \<Rightarrow> (Inl (BlobUncaught ''OSError''), f)
      | Some r \<Rightarrow> (case fs_mkdir fs r f of
            (False, f') \<Rightarrow> (Inl (BlobUncaught ''OSError''), f')
          | (True, f') \<Rightarrow> (Inr r, f')))"

definition blob_path :: "'f file_system \<Rightarrow> path \<Rightarrow> string \<Rightarrow> 'f \<Rightarrow> (blob_error, path) result" where
  "blob_path fs base key f =
     (case validate_key key of
        Inl e \<Rightarrow> Inl e
      | Inr k \<Rightarrow> (case fs_resolve fs (base @ split_on CHR ''/'' k) f of
            None \<Rightarrow> Inl (BlobUncaught ''OSError'')
          | Some p \<Rightarrow> if below base p then Inr p
                      else Inl (BlobStorageError ''storage key escaped configured root'')))"

text \<open>\<open>hex\<close> is \<^verbatim>\<open>os.urandom(12).hex()\<close>.\<close>

definition temporary_path :: "string \<Rightarrow> path \<Rightarrow> path" where
  "temporary_path hex target = butlast target @ [''.'' @ last target @ ''.'' @ hex @ ''.tmp'']"

definition put_failed :: "'f file_system \<Rightarrow> path \<Rightarrow> 'f \<Rightarrow> (blob_error, unit) result \<times> 'f" where
  "put_failed fs temporary f =
     (case fs_unlink fs temporary f of
        (False, f') \<Rightarrow> (Inl (BlobUncaught ''OSError''), f')
      | (True, f') \<Rightarrow> (Inl (BlobStorageError ''filesystem blob write failed''), f'))"

definition fs_blob_put :: "'f file_system \<Rightarrow> path \<Rightarrow> string \<Rightarrow> string \<Rightarrow> string \<Rightarrow> string \<Rightarrow> 'f \<Rightarrow> (blob_error, unit) result \<times> 'f" where
  "fs_blob_put fs base hex key data content_type f =
     (case blob_path fs base key f of
        Inl e \<Rightarrow> (Inl e, f)
      | Inr target \<Rightarrow> (case fs_mkdir fs (butlast target) f of
            (False, f1) \<Rightarrow> (Inl (BlobUncaught ''OSError''), f1)
          | (True, f1) \<Rightarrow>
              let temporary = temporary_path hex target in
              (case fs_write_new fs temporary data f1 of
                 (False, f2) \<Rightarrow> put_failed fs temporary f2
               | (True, f2) \<Rightarrow> (case fs_replace fs temporary target f2 of
                     (False, f3) \<Rightarrow> put_failed fs temporary f3
                   | (True, f3) \<Rightarrow> (Inr (), f3)))))"

definition fs_blob_read :: "'f file_system \<Rightarrow> path \<Rightarrow> string \<Rightarrow> int \<Rightarrow> 'f \<Rightarrow> (blob_error, string) result" where
  "fs_blob_read fs base key max_bytes f =
     (case blob_path fs base key f of
        Inl e \<Rightarrow> Inl e
      | Inr p \<Rightarrow>
          if fs_is_symlink fs p f \<or> \<not> fs_is_file fs p f then Inl (BlobStorageError ''filesystem blob is unavailable'')
          else (case fs_read fs p f of
              None \<Rightarrow> Inl (BlobStorageError ''filesystem blob read failed'')
            | Some data \<Rightarrow>
                if int (length data) > max_bytes then Inl (BlobStorageError ''blob exceeds the configured read limit'')
                else Inr data))"

definition fs_blob_delete :: "'f file_system \<Rightarrow> path \<Rightarrow> string \<Rightarrow> 'f \<Rightarrow> (blob_error, unit) result \<times> 'f" where
  "fs_blob_delete fs base key f =
     (case blob_path fs base key f of
        Inl e \<Rightarrow> (Inl e, f)
      | Inr p \<Rightarrow>
          if fs_exists fs p f \<and> (fs_is_symlink fs p f \<or> \<not> fs_is_file fs p f)
          then (Inl (BlobStorageError ''filesystem blob is not a regular file''), f)
          else (case fs_unlink fs p f of
              (False, f') \<Rightarrow> (Inl (BlobStorageError ''filesystem blob delete failed''), f')
            | (True, f') \<Rightarrow> (Inr (), f')))"

definition fs_local_path :: "'f file_system \<Rightarrow> path \<Rightarrow> string \<Rightarrow> 'f \<Rightarrow> (blob_error, path) result" where
  "fs_local_path fs base key f =
     (case blob_path fs base key f of
        Inl e \<Rightarrow> Inl e
      | Inr p \<Rightarrow>
          if fs_is_symlink fs p f \<or> \<not> fs_is_file fs p f then Inl (BlobStorageError ''filesystem blob is unavailable'')
          else Inr p)"

definition filesystem_blob_ops :: "'f file_system \<Rightarrow> path \<Rightarrow> string \<Rightarrow> 'f blob_ops" where
  "filesystem_blob_ops fs base hex =
     \<lparr>bo_storage_id = ''filesystem'', bo_put = fs_blob_put fs base hex, bo_read = fs_blob_read fs base,
      bo_delete = fs_blob_delete fs base, bo_local_path = Some (fs_local_path fs base), bo_healthcheck = fs_is_dir fs base\<rparr>"

section \<open>S3BlobStore\<close>

text \<open>
  The client's calls: \<^term>\<open>False\<close> and \<^const>\<open>None\<close> stand for any exception. \<open>s3_get\<close> gives what \<^verbatim>\<open>Body.read(amount)\<close> returns.
\<close>

record s3_object =
  so_bucket :: string
  so_key :: string
  so_body :: string
  so_content_type :: string
  so_encryption :: string
  so_kms_key_id :: "string option"

record 'r s3_client =
  s3_put :: "s3_object \<Rightarrow> 'r \<Rightarrow> bool \<times> 'r"
  s3_get :: "string \<Rightarrow> string \<Rightarrow> nat \<Rightarrow> 'r \<Rightarrow> string option"
  s3_delete :: "string \<Rightarrow> string \<Rightarrow> 'r \<Rightarrow> bool \<times> 'r"
  s3_head :: "string \<Rightarrow> 'r \<Rightarrow> bool"

record s3_store =
  st_bucket :: string
  st_prefix :: string
  st_kms_key_id :: "string option"

definition strip_slash :: "string \<Rightarrow> string" where
  "strip_slash s = rstrip_char CHR ''/'' (dropWhile (\<lambda>c. c = CHR ''/'') s)"

definition line_break :: "char \<Rightarrow> bool" where
  "line_break c \<longleftrightarrow> code c = 13 \<or> code c = 10"

definition s3_init :: "string \<Rightarrow> string \<Rightarrow> string option \<Rightarrow> (string, s3_store) result" where
  "s3_init bucket prefix kms =
     (if bucket = [] \<or> length bucket > 255 \<or> list_ex line_break bucket then Inl ''object-storage bucket is invalid''
      else if strip_slash prefix \<noteq> [] \<and> \<not> safe_key (strip_slash prefix) then Inl ''object-storage prefix is invalid''
      else if (case kms of None \<Rightarrow> False | Some k \<Rightarrow> blank k \<or> length k > 512) then Inl ''KMS key id is invalid''
      else Inr \<lparr>st_bucket = bucket, st_prefix = strip_slash prefix, st_kms_key_id = map_option strip kms\<rparr>)"

definition object_key :: "s3_store \<Rightarrow> string \<Rightarrow> (blob_error, string) result" where
  "object_key st key =
     (case validate_key key of
        Inl e \<Rightarrow> Inl e
      | Inr k \<Rightarrow> Inr (if st_prefix st \<noteq> [] then st_prefix st @ ''/'' @ k else k))"

definition s3_blob_put :: "'r s3_client \<Rightarrow> s3_store \<Rightarrow> string \<Rightarrow> string \<Rightarrow> string \<Rightarrow> 'r \<Rightarrow> (blob_error, unit) result \<times> 'r" where
  "s3_blob_put c st key data content_type r =
     (case object_key st key of
        Inl e \<Rightarrow> (Inl e, r)
      | Inr k \<Rightarrow>
          (case s3_put c \<lparr>so_bucket = st_bucket st, so_key = k, so_body = data, so_content_type = content_type,
                so_encryption = (if st_kms_key_id st \<noteq> None then ''aws:kms'' else ''AES256''),
                so_kms_key_id = st_kms_key_id st\<rparr> r of
             (False, r') \<Rightarrow> (Inl (BlobStorageError ''object-storage blob write failed''), r')
           | (True, r') \<Rightarrow> (Inr (), r')))"

definition s3_blob_read :: "'r s3_client \<Rightarrow> s3_store \<Rightarrow> string \<Rightarrow> int \<Rightarrow> 'r \<Rightarrow> (blob_error, string) result" where
  "s3_blob_read c st key max_bytes r =
     (case object_key st key of
        Inl _ \<Rightarrow> Inl (BlobStorageError ''object-storage blob read failed'')
      | Inr k \<Rightarrow> (case s3_get c (st_bucket st) k (nat (max_bytes + 1)) r of
            None \<Rightarrow> Inl (BlobStorageError ''object-storage blob read failed'')
          | Some data \<Rightarrow>
              if int (length data) > max_bytes then Inl (BlobStorageError ''object-storage blob exceeds the read limit'')
              else Inr data))"

definition s3_blob_delete :: "'r s3_client \<Rightarrow> s3_store \<Rightarrow> string \<Rightarrow> 'r \<Rightarrow> (blob_error, unit) result \<times> 'r" where
  "s3_blob_delete c st key r =
     (case object_key st key of
        Inl _ \<Rightarrow> (Inl (BlobStorageError ''object-storage blob delete failed''), r)
      | Inr k \<Rightarrow> (case s3_delete c (st_bucket st) k r of
            (False, r') \<Rightarrow> (Inl (BlobStorageError ''object-storage blob delete failed''), r')
          | (True, r') \<Rightarrow> (Inr (), r')))"

definition s3_blob_ops :: "'r s3_client \<Rightarrow> s3_store \<Rightarrow> 'r blob_ops" where
  "s3_blob_ops c st =
     \<lparr>bo_storage_id = ''s3'', bo_put = s3_blob_put c st, bo_read = s3_blob_read c st,
      bo_delete = s3_blob_delete c st, bo_local_path = None, bo_healthcheck = s3_head c (st_bucket st)\<rparr>"

section \<open>Keys stay below the directory\<close>

text \<open>\<^verbatim>\<open>os.path.normpath\<close> on the parts of an absolute path: the reading of \<^verbatim>\<open>.\<close> and \<^verbatim>\<open>..\<close> without symbolic links.\<close>

fun normpath :: "path \<Rightarrow> path \<Rightarrow> path" where
  "normpath acc [] = acc"
| "normpath acc (p # ps) =
     (if p = [] \<or> p = ''.'' then normpath acc ps else if p = ''..'' then normpath (butlast acc) ps else normpath (acc @ [p]) ps)"

lemma normpath_plain: "list_all (\<lambda>p. \<not> dot_part p) ps \<Longrightarrow> normpath acc ps = acc @ ps"
  by (induction ps arbitrary: acc) (auto simp: dot_part_def)

lemma validate_key_Inr:
  "validate_key key = Inr k \<longleftrightarrow> k = to_slash key \<and> safe_key k \<and> \<not> startswith k ''/'' \<and> list_all (\<lambda>p. \<not> dot_part p) (split_on CHR ''/'' k)"
  by (auto simp: validate_key_def Let_def list_ex_iff list_all_iff)

lemma to_slash_fixed: "safe_key s \<Longrightarrow> to_slash s = s"
proof -
  assume "safe_key s"
  then have "c \<noteq> CHR 0x5C" if "c \<in> set s" for c
    using that by (auto simp: safe_key_def list_all_iff safe_key_char_def is_alnum_def is_digit_def is_lower_def is_upper_def code_def)
  then show ?thesis unfolding to_slash_def by (intro map_idI) auto
qed

lemma split_on_inject: "split_on c s = split_on c t \<Longrightarrow> s = t"
proof (induction s arbitrary: t)
  case Nil
  then show ?case by (cases t) (auto split: list.splits if_splits)
next
  case (Cons x s)
  then show ?case by (cases t) (auto split: list.splits if_splits)
qed

lemma below_append: "below base (base @ ps)"
  by (simp add: below_def)

lemma below_butlast: "below base p \<Longrightarrow> p \<noteq> base \<Longrightarrow> below base (butlast p @ [x])"
  unfolding below_def
  by (metis append_butlast_last_id append_take_drop_id butlast_append take_append append_Nil2 append_assoc
      append_eq_conv_conj butlast.simps(1))

section \<open>Contracts\<close>

text \<open>
  \<open>fc f p\<close> is the content of the regular file at \<open>p\<close>. The frame laws hold of any file system; the other laws
  describe a directory without symbolic links below it, where a call that returns has done its work.
\<close>

definition fs_frame :: "'f file_system \<Rightarrow> ('f \<Rightarrow> path \<Rightarrow> string option) \<Rightarrow> bool" where
  "fs_frame fs fc \<longleftrightarrow>
     (\<forall>p f. fc (snd (fs_mkdir fs p f)) = fc f) \<and>
     (\<forall>p d f q. q \<noteq> p \<longrightarrow> fc (snd (fs_write_new fs p d f)) q = fc f q) \<and>
     (\<forall>p p' f q. q \<noteq> p \<and> q \<noteq> p' \<longrightarrow> fc (snd (fs_replace fs p p' f)) q = fc f q) \<and>
     (\<forall>p f q. q \<noteq> p \<longrightarrow> fc (snd (fs_unlink fs p f)) q = fc f q) \<and>
     (\<forall>p f d. fs_read fs p f = Some d \<longrightarrow> fc f p = Some d)"

definition fs_works :: "'f file_system \<Rightarrow> ('f \<Rightarrow> path \<Rightarrow> string option) \<Rightarrow> path \<Rightarrow> bool" where
  "fs_works fs fc base \<longleftrightarrow>
     (\<forall>ps f. ps \<noteq> [] \<and> list_all (\<lambda>p. \<not> dot_part p) ps \<longrightarrow> fs_resolve fs (base @ ps) f = Some (base @ ps)) \<and>
     (\<forall>p d f. fst (fs_write_new fs p d f) \<longrightarrow> fc (snd (fs_write_new fs p d f)) p = Some d) \<and>
     (\<forall>p p' f. fst (fs_replace fs p p' f) \<longrightarrow> fc (snd (fs_replace fs p p' f)) p' = fc f p) \<and>
     (\<forall>p f. fst (fs_unlink fs p f) \<longrightarrow> fc (snd (fs_unlink fs p f)) p = None)"

lemma fs_frameD:
  assumes "fs_frame fs fc"
  shows "fs_mkdir fs p f = (ok, f') \<Longrightarrow> fc f' = fc f"
    "fs_write_new fs p d f = (ok, f') \<Longrightarrow> q \<noteq> p \<Longrightarrow> fc f' q = fc f q"
    "fs_replace fs p p' f = (ok, f') \<Longrightarrow> q \<noteq> p \<Longrightarrow> q \<noteq> p' \<Longrightarrow> fc f' q = fc f q"
    "fs_unlink fs p f = (ok, f') \<Longrightarrow> q \<noteq> p \<Longrightarrow> fc f' q = fc f q"
    "fs_read fs p f = Some d \<Longrightarrow> fc f p = Some d"
  using assms unfolding fs_frame_def by (metis snd_conv)+

lemma fs_worksD:
  assumes "fs_works fs fc base"
  shows "ps \<noteq> [] \<Longrightarrow> list_all (\<lambda>p. \<not> dot_part p) ps \<Longrightarrow> fs_resolve fs (base @ ps) f = Some (base @ ps)"
    "fs_write_new fs p d f = (True, f') \<Longrightarrow> fc f' p = Some d"
    "fs_replace fs p p' f = (True, f') \<Longrightarrow> fc f' p' = fc f p"
    "fs_unlink fs p f = (True, f') \<Longrightarrow> fc f' p = None"
proof -
  have r: "\<forall>ps f. ps \<noteq> [] \<and> list_all (\<lambda>p. \<not> dot_part p) ps \<longrightarrow> fs_resolve fs (base @ ps) f = Some (base @ ps)"
    and w: "\<forall>p d f. fst (fs_write_new fs p d f) \<longrightarrow> fc (snd (fs_write_new fs p d f)) p = Some d"
    and m: "\<forall>p p' f. fst (fs_replace fs p p' f) \<longrightarrow> fc (snd (fs_replace fs p p' f)) p' = fc f p"
    and u: "\<forall>p f. fst (fs_unlink fs p f) \<longrightarrow> fc (snd (fs_unlink fs p f)) p = None"
    using assms unfolding fs_works_def by blast+
  show "ps \<noteq> [] \<Longrightarrow> list_all (\<lambda>p. \<not> dot_part p) ps \<Longrightarrow> fs_resolve fs (base @ ps) f = Some (base @ ps)"
    using r by blast
  show "fs_write_new fs p d f = (True, f') \<Longrightarrow> fc f' p = Some d" using w by (metis fst_conv snd_conv)
  show "fs_replace fs p p' f = (True, f') \<Longrightarrow> fc f' p' = fc f p" using m by (metis fst_conv snd_conv)
  show "fs_unlink fs p f = (True, f') \<Longrightarrow> fc f' p = None" using u by (metis fst_conv snd_conv)
qed

definition blob_key :: "string \<Rightarrow> bool" where
  "blob_key k \<longleftrightarrow> validate_key k = Inr k \<and> hd (last (split_on CHR ''/'' k)) \<noteq> CHR ''.''"

definition blob_put_law :: "'b blob_ops \<Rightarrow> ('b \<Rightarrow> string \<Rightarrow> string option) \<Rightarrow> bool" where
  "blob_put_law ops content \<longleftrightarrow> (\<forall>k d ct b res b'. blob_key k \<and> bo_put ops k d ct b = (res, b') \<longrightarrow>
     (\<forall>k'. blob_key k' \<and> k' \<noteq> k \<longrightarrow> content b' k' = content b k') \<and> (res = Inr () \<longrightarrow> content b' k = Some d))"

definition blob_read_law :: "'b blob_ops \<Rightarrow> ('b \<Rightarrow> string \<Rightarrow> string option) \<Rightarrow> bool" where
  "blob_read_law ops content \<longleftrightarrow> (\<forall>k n b d. blob_key k \<and> bo_read ops k n b = Inr d \<longrightarrow>
     content b k = Some d \<and> int (length d) \<le> n)"

definition blob_delete_law :: "'b blob_ops \<Rightarrow> ('b \<Rightarrow> string \<Rightarrow> string option) \<Rightarrow> bool" where
  "blob_delete_law ops content \<longleftrightarrow> (\<forall>k b res b'. blob_key k \<and> bo_delete ops k b = (res, b') \<longrightarrow>
     (\<forall>k'. blob_key k' \<and> k' \<noteq> k \<longrightarrow> content b' k' = content b k') \<and> (res = Inr () \<longrightarrow> content b' k = None))"

definition blob_laws :: "'b blob_ops \<Rightarrow> ('b \<Rightarrow> string \<Rightarrow> string option) \<Rightarrow> bool" where
  "blob_laws ops content \<longleftrightarrow> blob_put_law ops content \<and> blob_read_law ops content \<and> blob_delete_law ops content"

lemma blob_put_lawD:
  assumes "blob_laws ops content" "bo_put ops k d ct b = (res, b')" "blob_key k"
  shows "blob_key k' \<Longrightarrow> k' \<noteq> k \<Longrightarrow> content b' k' = content b k'" "res = Inr () \<Longrightarrow> content b' k = Some d"
  using assms unfolding blob_laws_def blob_put_law_def by simp_all

lemma blob_read_lawD:
  assumes "blob_laws ops content" "bo_read ops k n b = Inr d" "blob_key k"
  shows "content b k = Some d" "int (length d) \<le> n"
  using assms unfolding blob_laws_def blob_read_law_def by simp_all

lemma blob_delete_lawD:
  assumes "blob_laws ops content" "bo_delete ops k b = (res, b')" "blob_key k"
  shows "blob_key k' \<Longrightarrow> k' \<noteq> k \<Longrightarrow> content b' k' = content b k'" "res = Inr () \<Longrightarrow> content b' k = None"
  using assms unfolding blob_laws_def blob_delete_law_def by simp_all

section \<open>The adapters meet the contract\<close>

definition fs_content :: "('f \<Rightarrow> path \<Rightarrow> string option) \<Rightarrow> path \<Rightarrow> 'f \<Rightarrow> string \<Rightarrow> string option" where
  "fs_content fc base f k = fc f (base @ split_on CHR ''/'' k)"

lemma blob_path_key:
  assumes "fs_works fs fc base" "blob_key k"
  shows "blob_path fs base k f = Inr (base @ split_on CHR ''/'' k)"
proof -
  have v: "validate_key k = Inr k" using assms(2) by (simp add: blob_key_def)
  then have "list_all (\<lambda>p. \<not> dot_part p) (split_on CHR ''/'' k)" using validate_key_Inr by blast
  then show ?thesis
    using fs_worksD(1) [OF assms(1), of "split_on CHR ''/'' k" f] by (simp add: blob_path_def v below_append)
qed

lemma temporary_not_key:
  assumes "blob_key k'"
  shows "base @ split_on CHR ''/'' k' \<noteq> temporary_path hex p"
proof
  assume "base @ split_on CHR ''/'' k' = temporary_path hex p"
  then have "last (split_on CHR ''/'' k') = ''.'' @ last p @ ''.'' @ hex @ ''.tmp''"
    by (metis last_appendR last_snoc split_on_nonempty temporary_path_def)
  then show False using assms by (simp add: blob_key_def)
qed

lemma put_failed_frame:
  assumes "fs_frame fs fc" "put_failed fs t f = (res, f')"
  shows "res \<noteq> Inr ()" "q \<noteq> t \<Longrightarrow> fc f' q = fc f q"
  using assms(2) fs_frameD(4) [OF assms(1)] by (auto simp: put_failed_def split: prod.splits bool.splits)

lemma fs_put_frame:
  assumes "fs_frame fs fc" "fs_blob_put fs base hex key data ct f = (res, f')"
    and "\<And>p. blob_path fs base key f = Inr p \<Longrightarrow> q \<noteq> p \<and> q \<noteq> temporary_path hex p"
  shows "fc f' q = fc f q"
proof (cases "blob_path fs base key f")
  case (Inr p)
  note q = assms(3) [OF Inr]
  show ?thesis
    using assms(2) Inr q fs_frameD [OF assms(1)] put_failed_frame(2) [OF assms(1)]
    by (auto simp: fs_blob_put_def Let_def split: prod.splits bool.splits)
qed (use assms(2) in \<open>simp add: fs_blob_put_def\<close>)

lemma fs_put_ok:
  assumes "fs_frame fs fc" "fs_works fs fc base" "blob_key k" "fs_blob_put fs base hex k data ct f = (Inr (), f')"
  shows "fs_content fc base f' k = Some data"
proof -
  let ?t = "base @ split_on CHR ''/'' k"
  obtain f1 f2 where s: "fs_mkdir fs (butlast ?t) f = (True, f1)" "fs_write_new fs (temporary_path hex ?t) data f1 = (True, f2)"
      "fs_replace fs (temporary_path hex ?t) ?t f2 = (True, f')"
    using assms(4) put_failed_frame(1) [OF assms(1)] unfolding fs_blob_put_def blob_path_key [OF assms(2,3)] Let_def
    by (fastforce split: prod.splits bool.splits)
  show ?thesis
    using fs_worksD(2) [OF assms(2) s(2)] fs_worksD(3) [OF assms(2) s(3)] by (simp add: fs_content_def)
qed

lemma fs_delete_frame:
  assumes "fs_frame fs fc" "fs_blob_delete fs base key f = (res, f')" "\<And>p. blob_path fs base key f = Inr p \<Longrightarrow> q \<noteq> p"
  shows "fc f' q = fc f q"
  using assms(2,3) fs_frameD(4) [OF assms(1)]
  by (auto simp: fs_blob_delete_def split: sum.splits prod.splits bool.splits if_splits)

lemma filesystem_blob_laws:
  assumes "fs_frame fs fc" "fs_works fs fc base"
  shows "blob_laws (filesystem_blob_ops fs base hex) (fs_content fc base)"
  unfolding blob_laws_def
proof (intro conjI)
  show "blob_put_law (filesystem_blob_ops fs base hex) (fs_content fc base)"
    unfolding blob_put_law_def
  proof (intro allI impI conjI; elim conjE)
    fix k d ct f res f' k'
    assume k: "blob_key k" and p: "bo_put (filesystem_blob_ops fs base hex) k d ct f = (res, f')"
    then have p: "fs_blob_put fs base hex k d ct f = (res, f')" by (simp add: filesystem_blob_ops_def)
    show "res = Inr () \<Longrightarrow> fs_content fc base f' k = Some d" using fs_put_ok [OF assms k] p by blast
    show "blob_key k' \<Longrightarrow> k' \<noteq> k \<Longrightarrow> fs_content fc base f' k' = fs_content fc base f k'"
      unfolding fs_content_def
      by (rule fs_put_frame [OF assms(1) p]) (auto simp: blob_path_key [OF assms(2) k] temporary_not_key dest: split_on_inject)
  qed
  show "blob_read_law (filesystem_blob_ops fs base hex) (fs_content fc base)"
    using fs_frameD(5) [OF assms(1)] unfolding blob_read_law_def
    by (auto simp: filesystem_blob_ops_def fs_blob_read_def blob_path_key [OF assms(2)] fs_content_def split: if_splits option.splits)
  show "blob_delete_law (filesystem_blob_ops fs base hex) (fs_content fc base)"
    unfolding blob_delete_law_def
  proof (intro allI impI conjI; elim conjE)
    fix k f res f' k'
    assume k: "blob_key k" and d: "bo_delete (filesystem_blob_ops fs base hex) k f = (res, f')"
    then have d: "fs_blob_delete fs base k f = (res, f')" by (simp add: filesystem_blob_ops_def)
    show "res = Inr () \<Longrightarrow> fs_content fc base f' k = None"
      using d fs_worksD(4) [OF assms(2)]
      by (auto simp: fs_blob_delete_def blob_path_key [OF assms(2) k] fs_content_def split: prod.splits bool.splits if_splits)
    show "blob_key k' \<Longrightarrow> k' \<noteq> k \<Longrightarrow> fs_content fc base f' k' = fs_content fc base f k'"
      unfolding fs_content_def
      by (rule fs_delete_frame [OF assms(1) d]) (auto simp: blob_path_key [OF assms(2) k] dest: split_on_inject)
  qed
qed

text \<open>
  The client's contract: \<open>objects r bucket key\<close> is the stored body. A failed call may have had its effect or not,
  on its own key only; a read returns the first bytes of the body.
\<close>

definition s3_laws :: "'r s3_client \<Rightarrow> ('r \<Rightarrow> string \<Rightarrow> string \<Rightarrow> string option) \<Rightarrow> bool" where
  "s3_laws c objects \<longleftrightarrow>
     (\<forall>ob r b k. (b, k) \<noteq> (so_bucket ob, so_key ob) \<longrightarrow> objects (snd (s3_put c ob r)) b k = objects r b k) \<and>
     (\<forall>ob r. fst (s3_put c ob r) \<longrightarrow> objects (snd (s3_put c ob r)) (so_bucket ob) (so_key ob) = Some (so_body ob)) \<and>
     (\<forall>b k n r d. s3_get c b k n r = Some d \<longrightarrow> (\<exists>body. objects r b k = Some body \<and> d = take n body)) \<and>
     (\<forall>b0 k0 r b k. (b, k) \<noteq> (b0, k0) \<longrightarrow> objects (snd (s3_delete c b0 k0 r)) b k = objects r b k) \<and>
     (\<forall>b k r. fst (s3_delete c b k r) \<longrightarrow> objects (snd (s3_delete c b k r)) b k = None)"

definition s3_content :: "('r \<Rightarrow> string \<Rightarrow> string \<Rightarrow> string option) \<Rightarrow> s3_store \<Rightarrow> 'r \<Rightarrow> string \<Rightarrow> string option" where
  "s3_content objects st r k = objects r (st_bucket st) (projr (object_key st k))"

lemma s3_lawsD:
  assumes "s3_laws c objects"
  shows "s3_put c ob r = (ok, r') \<Longrightarrow> k \<noteq> so_key ob \<Longrightarrow> objects r' b k = objects r b k"
    "s3_put c ob r = (True, r') \<Longrightarrow> objects r' (so_bucket ob) (so_key ob) = Some (so_body ob)"
    "s3_get c b k n r = Some d \<Longrightarrow> \<exists>body. objects r b k = Some body \<and> d = take n body"
    "s3_delete c b0 k0 r = (ok, r') \<Longrightarrow> k \<noteq> k0 \<Longrightarrow> objects r' b k = objects r b k"
    "s3_delete c b k r = (True, r') \<Longrightarrow> objects r' b k = None"
proof -
  note laws = assms [unfolded s3_laws_def]
  note 1 = laws [THEN conjunct1] and 2 = laws [THEN conjunct2, THEN conjunct1]
    and 3 = laws [THEN conjunct2, THEN conjunct2, THEN conjunct1]
    and 4 = laws [THEN conjunct2, THEN conjunct2, THEN conjunct2, THEN conjunct1]
    and 5 = laws [THEN conjunct2, THEN conjunct2, THEN conjunct2, THEN conjunct2]
  show "s3_put c ob r = (ok, r') \<Longrightarrow> k \<noteq> so_key ob \<Longrightarrow> objects r' b k = objects r b k"
    using 1 [rule_format, of b k ob r] by auto
  show "s3_put c ob r = (True, r') \<Longrightarrow> objects r' (so_bucket ob) (so_key ob) = Some (so_body ob)"
    using 2 [rule_format, of ob r] by auto
  show "s3_get c b k n r = Some d \<Longrightarrow> \<exists>body. objects r b k = Some body \<and> d = take n body" using 3 by blast
  show "s3_delete c b0 k0 r = (ok, r') \<Longrightarrow> k \<noteq> k0 \<Longrightarrow> objects r' b k = objects r b k"
    using 4 [rule_format, of b k b0 k0 r] by auto
  show "s3_delete c b k r = (True, r') \<Longrightarrow> objects r' b k = None"
    using 5 [rule_format, of b k r] by auto
qed

lemma s3_blob_laws:
  assumes "s3_laws c objects"
  shows "blob_laws (s3_blob_ops c st) (s3_content objects st)"
proof -
  obtain p where p: "\<And>k. blob_key k \<Longrightarrow> object_key st k = Inr (p @ k)"
    by (rule that [of "if st_prefix st \<noteq> [] then st_prefix st @ ''/'' else []"]) (simp add: object_key_def blob_key_def)
  note S = s3_lawsD [OF assms]
  have "blob_put_law (s3_blob_ops c st) (s3_content objects st)"
    unfolding blob_put_law_def
  proof (intro allI impI conjI; elim conjE)
    fix k d ct r res r' k'
    assume k: "blob_key k" and put: "bo_put (s3_blob_ops c st) k d ct r = (res, r')"
    define ob where "ob = \<lparr>so_bucket = st_bucket st, so_key = p @ k, so_body = d, so_content_type = ct,
        so_encryption = (if st_kms_key_id st \<noteq> None then ''aws:kms'' else ''AES256''), so_kms_key_id = st_kms_key_id st\<rparr>"
    then have ob: "so_bucket ob = st_bucket st" "so_key ob = p @ k" "so_body ob = d" by simp_all
    obtain ok r1 where s: "s3_put c ob r = (ok, r1)" by fastforce
    then have ok: "s3_put c ob r = (ok, r')" "res = Inr () \<Longrightarrow> ok"
      using put by (auto simp: s3_blob_ops_def s3_blob_put_def p [OF k] simp flip: ob_def simp del: not_None_eq split: bool.splits)
    show "res = Inr () \<Longrightarrow> s3_content objects st r' k = Some d"
      using S(2) [of ob r r'] ob ok by (simp add: s3_content_def p [OF k])
    show "blob_key k' \<Longrightarrow> k' \<noteq> k \<Longrightarrow> s3_content objects st r' k' = s3_content objects st r k'"
      using S(1) [OF ok(1), of "p @ k'"] ob(2) by (simp add: s3_content_def p)
  qed
  moreover have "blob_delete_law (s3_blob_ops c st) (s3_content objects st)"
    using S(4,5) unfolding blob_delete_law_def
    by (auto simp: s3_blob_ops_def s3_blob_delete_def s3_content_def p split: prod.splits bool.splits)
  moreover have "blob_read_law (s3_blob_ops c st) (s3_content objects st)"
    unfolding blob_read_law_def
  proof (intro allI impI; elim conjE)
    fix k n r d assume k: "blob_key k" and rd: "bo_read (s3_blob_ops c st) k n r = Inr d"
    then have g: "s3_get c (st_bucket st) (p @ k) (nat (n + 1)) r = Some d" and n: "int (length d) \<le> n"
      by (auto simp: s3_blob_ops_def s3_blob_read_def p [OF k] split: option.splits if_splits)
    obtain body where b: "objects r (st_bucket st) (p @ k) = Some body" "d = take (nat (n + 1)) body" using S(3) [OF g] by blast
    then have "d = body" using n by auto
    then show "s3_content objects st r k = Some d \<and> int (length d) \<le> n" using b n by (simp add: s3_content_def p [OF k])
  qed
  ultimately show ?thesis by (simp add: blob_laws_def)
qed

section \<open>Properties\<close>

lemma blob_path_below: "blob_path fs base key f = Inr p \<Longrightarrow> below base p"
  by (auto simp: blob_path_def split: sum.splits option.splits if_splits)

lemma blob_path_not_base:
  "blob_path fs base key f = Inr p \<Longrightarrow> \<forall>ps g. ps \<noteq> [] \<longrightarrow> fs_resolve fs (base @ ps) g \<noteq> Some base \<Longrightarrow> p \<noteq> base"
  by (auto simp: blob_path_def split: sum.splits option.splits if_splits)


text \<open>A file system without links that keeps its files in a dictionary.\<close>

definition toy_fs :: "(path, string) dict file_system" where
  "toy_fs = \<lparr>fs_resolve = (\<lambda>p f. Some p), fs_mkdir = (\<lambda>p f. (True, f)),
     fs_write_new = (\<lambda>p d f. if map_of f p = None then (True, AList.update p d f) else (False, f)),
     fs_replace = (\<lambda>p p' f. case map_of f p of None \<Rightarrow> (False, f) | Some d \<Rightarrow> (True, AList.update p' d (if p = p' then f else AList.delete p f))),
     fs_unlink = (\<lambda>p f. (True, AList.delete p f)), fs_is_symlink = (\<lambda>p f. False),
     fs_is_file = (\<lambda>p f. map_of f p \<noteq> None), fs_exists = (\<lambda>p f. map_of f p \<noteq> None),
     fs_is_dir = (\<lambda>p f. True), fs_read = (\<lambda>p f. map_of f p)\<rparr>"

lemma toy_fs_frame: "fs_frame toy_fs map_of"
  by (auto simp: fs_frame_def toy_fs_def split: option.splits)

lemma toy_fs_works: "fs_works toy_fs map_of base"
  by (auto simp: fs_works_def toy_fs_def split: option.splits)


end
