(* ===== verification/Runtime_Models.thy ===== *)
theory Runtime_Models
  imports Py_Prelude
begin

text \<open>
  The typed contracts of \<^verbatim>\<open>packages/agent_runtime/models.py\<close>: the two enumerations with their string
  values, and one record per frozen dataclass. A field annotated \<^verbatim>\<open>str | None\<close> is an option; a field
  annotated \<^verbatim>\<open>dict[str, Any]\<close> or read through \<^verbatim>\<open>isinstance\<close> is a \<^typ>\<open>pyval\<close> or a \<^typ>\<open>pydict\<close>.
\<close>

datatype tool_risk = READ | WRITE | EXTERNAL_SEND | DESTRUCTIVE

fun risk_value :: "tool_risk \<Rightarrow> string" where
  "risk_value READ = ''read''"
| "risk_value WRITE = ''write''"
| "risk_value EXTERNAL_SEND = ''external_send''"
| "risk_value DESTRUCTIVE = ''destructive''"

datatype run_status = SUCCEEDED | PARTIAL_SUCCESS | BLOCKED | FAILED | CANCELLED

fun run_status_value :: "run_status \<Rightarrow> string" where
  "run_status_value SUCCEEDED = ''succeeded''"
| "run_status_value PARTIAL_SUCCESS = ''partial_success''"
| "run_status_value BLOCKED = ''blocked''"
| "run_status_value FAILED = ''failed''"
| "run_status_value CANCELLED = ''cancelled''"

text \<open>The inverse look-ups \<^verbatim>\<open>ToolRisk(text)\<close> and \<^verbatim>\<open>RunStatus(text)\<close>; \<^const>\<open>None\<close> is the \<^verbatim>\<open>ValueError\<close>.\<close>

definition tool_risk_of :: "string \<Rightarrow> tool_risk option" where
  "tool_risk_of s = find (\<lambda>r. risk_value r = s) [READ, WRITE, EXTERNAL_SEND, DESTRUCTIVE]"

definition run_status_of :: "string \<Rightarrow> run_status option" where
  "run_status_of s =
     find (\<lambda>r. run_status_value r = s) [SUCCEEDED, PARTIAL_SUCCESS, BLOCKED, FAILED, CANCELLED]"

record identity_context =
  user_id :: string
  workspace_id :: string
  tenant_id :: string
  role :: string

record tool_definition =
  td_name :: string
  td_risk :: tool_risk
  td_description :: string

record tool_call_request =
  tc_request_id :: string
  tc_trace_id :: string
  tc_run_id :: string
  tc_identity :: identity_context
  tc_tool_name :: string
  tc_arguments :: pydict
  tc_idempotency_key :: string

record tool_result =
  tr_success :: bool
  tr_data :: pyval
  tr_source_id :: "string option"
  tr_observed_at :: "string option"
  tr_external_ref :: "string option"
  tr_workspace_id :: "string option"
  tr_tenant_id :: "string option"
  tr_error :: "string option"

text \<open>\<^verbatim>\<open>ToolResult(success=False, error=...)\<close> with the dataclass defaults.\<close>

definition tool_failure :: "string \<Rightarrow> tool_result" where
  "tool_failure e = \<lparr>tr_success = False, tr_data = VDict [], tr_source_id = None,
     tr_observed_at = None, tr_external_ref = None, tr_workspace_id = None,
     tr_tenant_id = None, tr_error = Some e\<rparr>"

record policy_decision =
  pd_outcome :: string
  pd_reason :: string
  pd_tool_name :: string
  pd_risk :: "tool_risk option"

record audit_event =
  ev_type :: string
  ev_request_id :: string
  ev_trace_id :: string
  ev_run_id :: string
  ev_workspace_id :: string
  ev_agent_id :: string
  ev_payload :: pydict
  ev_created_at :: string

text \<open>The property \<^verbatim>\<open>AuditEvent.tenant_id\<close>: only a non-blank string counts as a tenant claim.\<close>

definition ev_tenant_id :: "audit_event \<Rightarrow> string option" where
  "ev_tenant_id e = (case as_str (dget (ev_payload e) ''tenant_id'') of
      None \<Rightarrow> None | Some s \<Rightarrow> if blank s then None else Some s)"

record run_result =
  rr_status :: run_status
  rr_run_id :: string
  rr_trace_id :: string
  rr_agent_id :: string
  rr_message :: string
  rr_source_id :: "string option"
  rr_observed_at :: "string option"
  rr_external_ref :: "string option"

section \<open>Lemmas\<close>

lemma risk_value_inject [simp]: "risk_value a = risk_value b \<longleftrightarrow> a = b"
  by (cases a; cases b; simp)

lemma run_status_value_inject [simp]: "run_status_value a = run_status_value b \<longleftrightarrow> a = b"
  by (cases a; cases b; simp)

lemma tool_risk_of_value [simp]: "tool_risk_of (risk_value r) = Some r"
  by (cases r) (simp_all add: tool_risk_of_def)

lemma run_status_of_value [simp]: "run_status_of (run_status_value r) = Some r"
  by (cases r) (simp_all add: run_status_of_def)

lemma tool_failure_simps [simp]:
  "tr_success (tool_failure e) = False" "tr_error (tool_failure e) = Some e"
  by (simp_all add: tool_failure_def)

lemma ev_tenant_id_Some_iff:
  "ev_tenant_id e = Some t \<longleftrightarrow> dget (ev_payload e) ''tenant_id'' = VStr t \<and> \<not> blank t"
  by (auto simp: ev_tenant_id_def split: option.splits if_splits)

end
