(* ===== verification/Py_Json.thy ===== *)
theory Py_Json
  imports Py_Prelude
begin

text \<open>
  \<^verbatim>\<open>json.dumps\<close> with \<^verbatim>\<open>separators=(",", ":")\<close> and \<^verbatim>\<open>ensure_ascii=False\<close>, as the approval digests, the signed
  tokens and the durable stores write it. The text of a \<^verbatim>\<open>float\<close> (\<^verbatim>\<open>float.__repr__\<close>) is a parameter.
  \<^verbatim>\<open>sort_keys=True\<close> is \<^const>\<open>canon\<close> before printing.
\<close>

text \<open>
  What \<^verbatim>\<open>json.loads\<close> may do, where it is a parameter: give a value, raise one of the decoding errors, or
  raise another exception (an integer with too many digits is a plain \<^verbatim>\<open>ValueError\<close>).
\<close>

datatype json_outcome = JValue pyval | JDecodeError | JOtherError

definition hex_digit :: "nat \<Rightarrow> char" where
  "hex_digit n = (if n < 10 then char_of (48 + n) else char_of (87 + n))"

definition json_char :: "char \<Rightarrow> string" where
  "json_char c =
     (let n = code c in
      if n = 34 then [CHR 92, CHR 34]
      else if n = 92 then [CHR 92, CHR 92]
      else if n = 10 then [CHR 92, CHR ''n'']
      else if n = 13 then [CHR 92, CHR ''r'']
      else if n = 9 then [CHR 92, CHR ''t'']
      else if n = 8 then [CHR 92, CHR ''b'']
      else if n = 12 then [CHR 92, CHR ''f'']
      else if n < 32 then CHR 92 # ''u00'' @ [hex_digit (n div 16), hex_digit (n mod 16)]
      else [c])"

definition json_string :: "string \<Rightarrow> string" where
  "json_string s = [CHR 34] @ concat (map json_char s) @ [CHR 34]"

fun join :: "string \<Rightarrow> string list \<Rightarrow> string" where
  "join sep [] = []"
| "join sep [x] = x"
| "join sep (x # y # ys) = x @ sep @ join sep (y # ys)"

primrec json_dumps :: "(pyfloat \<Rightarrow> string) \<Rightarrow> pyval \<Rightarrow> string" where
  "json_dumps fr VNone = ''null''"
| "json_dumps fr (VBool b) = (if b then ''true'' else ''false'')"
| "json_dumps fr (VInt i) = int_str i"
| "json_dumps fr (VFloat f) = fr f"
| "json_dumps fr (VStr s) = json_string s"
| "json_dumps fr (VList xs) = ''['' @ join '','' (map (json_dumps fr) xs) @ '']''"
| "json_dumps fr (VDict d) =
     ''{'' @ join '','' (map (\<lambda>(k, t). json_string k @ '':'' @ t) (map (map_prod id (json_dumps fr)) d)) @ ''}''"

text \<open>
  The default \<^verbatim>\<open>ensure_ascii=True\<close> also escapes every character outside the printable ASCII range, which only occur inside
  string literals.
\<close>

definition json_dumps_ascii :: "(pyfloat \<Rightarrow> string) \<Rightarrow> pyval \<Rightarrow> string" where
  "json_dumps_ascii fr v =
     concat (map (\<lambda>c. let n = code c in
        if n < 127 then [c] else CHR 92 # ''u00'' @ [hex_digit (n div 16), hex_digit (n mod 16)]) (json_dumps fr v))"

text \<open>Sorting the keys is idempotent: what was read back is written as it was.\<close>

lemma insort_key_map_fst:
  "insort_key fst (map_prod id f y) (map (map_prod id f) ys) = map (map_prod id f) (insort_key fst y ys)"
  by (induction ys) auto

lemma sort_key_map_fst:
  "sort_key fst (map (map_prod id f) xs) = map (map_prod id f) (sort_key fst xs)"
  by (induction xs) (simp_all add: insort_key_map_fst [unfolded id_def])

lemma sort_key_idem: "sort_key f (sort_key f xs) = sort_key f xs"
  by (simp add: sort_key_id_if_sorted)

lemma canon_idem [simp]: "canon (canon v) = canon v"
proof (induction v)
  case (VDict d)
  have "map (map_prod id (canon \<circ> canon)) d = map (map_prod id canon) d"
    by (rule map_cong) (use VDict in \<open>auto simp: snds.simps\<close>)
  then show ?case by (simp add: sort_key_map_fst sort_key_idem prod.map_comp flip: map_map) (simp add: prod.map_comp)
qed auto

lemma canon_dict_idem [simp]: "canon_dict (canon_dict d) = canon_dict d"
  using canon_idem [of "VDict d"] by (simp add: canon_dict_def)

end
