(* ===== verification/Py_Base64.thy ===== *)
theory Py_Base64
  imports Py_Prelude
begin

text \<open>
  The part of \<^verbatim>\<open>base64\<close> and \<^verbatim>\<open>binascii\<close> that the token checks and the vision adapter use. A \<^verbatim>\<open>bytes\<close>
  value is a \<^typ>\<open>string\<close>, one character per byte. The decoder is the one of \<^verbatim>\<open>binascii.a2b_base64\<close>
  outside its strict mode: it skips every character outside the alphabet, stops at the padding that
  completes a quad and fails when the data ends inside a quad. The theorem of the theory is the round
  trip with the encoder, with and without padding.
\<close>

definition b64_value :: "char \<Rightarrow> nat option" where
  "b64_value c =
     (if is_upper c then Some (code c - 65)
      else if is_lower c then Some (code c - 71)
      else if is_digit c then Some (code c + 4)
      else if c = CHR ''+'' then Some 62
      else if c = CHR ''/'' then Some 63
      else None)"

text \<open>
  The decoding loop: \<open>q\<close> is the position in the quad, \<open>l\<close> the bits left over from the last character,
  \<open>p\<close> the number of padding characters just seen.
\<close>

fun a2b_base64 :: "nat \<Rightarrow> nat \<Rightarrow> nat \<Rightarrow> string \<Rightarrow> string option" where
  "a2b_base64 q l p [] = (if q = 0 then Some [] else None)"
| "a2b_base64 q l p (c # cs) =
     (if c = CHR ''='' then
        (if 2 \<le> q \<and> 4 \<le> q + (p + 1) then Some []
         else a2b_base64 q l (if 2 \<le> q then p + 1 else p) cs)
      else (case b64_value c of
          None \<Rightarrow> a2b_base64 q l p cs
        | Some v \<Rightarrow>
            if q = 0 then a2b_base64 1 v 0 cs
            else if q = 1 then
              map_option ((#) (char_of (l * 4 + v div 16))) (a2b_base64 2 (v mod 16) 0 cs)
            else if q = 2 then
              map_option ((#) (char_of (l * 16 + v div 4))) (a2b_base64 3 (v mod 4) 0 cs)
            else map_option ((#) (char_of (l * 64 + v))) (a2b_base64 0 0 0 cs)))"

definition urlsafe_char :: "char \<Rightarrow> char" where
  "urlsafe_char c = (if c = CHR ''-'' then CHR ''+'' else if c = CHR ''_'' then CHR ''/'' else c)"

definition urlsafe_b64decode :: "string \<Rightarrow> string option" where
  "urlsafe_b64decode s = a2b_base64 0 0 0 (map urlsafe_char s)"

text \<open>\<^verbatim>\<open>base64.b64encode\<close>, and the URL-safe alphabet.\<close>

definition b64_char :: "nat \<Rightarrow> char" where
  "b64_char v = (if v < 26 then char_of (v + 65) else if v < 52 then char_of (v + 71)
     else if v < 62 then char_of (v - 4) else if v = 62 then CHR ''+'' else CHR ''/'')"

fun b64encode :: "string \<Rightarrow> string" where
  "b64encode [] = []"
| "b64encode [a] = [b64_char (code a div 4), b64_char (code a mod 4 * 16), CHR ''='', CHR ''='']"
| "b64encode [a, b] = [b64_char (code a div 4), b64_char (code a mod 4 * 16 + code b div 16),
     b64_char (code b mod 16 * 4), CHR ''='']"
| "b64encode (a # b # c # bs) =
     [b64_char (code a div 4), b64_char (code a mod 4 * 16 + code b div 16),
      b64_char (code b mod 16 * 4 + code c div 64), b64_char (code c mod 64)] @ b64encode bs"

definition to_urlsafe :: "char \<Rightarrow> char" where
  "to_urlsafe c = (if c = CHR ''+'' then CHR ''-'' else if c = CHR ''/'' then CHR ''_'' else c)"

definition urlsafe_b64encode :: "string \<Rightarrow> string" where
  "urlsafe_b64encode s = map to_urlsafe (b64encode s)"

section \<open>The round trip\<close>

lemma b64_char_code:
  "v < 64 \<Longrightarrow> code (b64_char v) =
     (if v < 26 then v + 65 else if v < 52 then v + 71 else if v < 62 then v - 4 else if v = 62 then 43 else 47)"
  by (simp add: b64_char_def code_char_of) (simp add: code_def)

lemma literal_codes:
  "code CHR ''+'' = 43" "code CHR ''/'' = 47" "code CHR ''='' = 61" "code CHR ''-'' = 45"
  "code CHR ''_'' = 95" "code CHR ''.'' = 46"
  by (simp_all add: code_def)

lemma to_urlsafe_code:
  "code (to_urlsafe c) = (if code c = 43 then 45 else if code c = 47 then 95 else code c)"
  by (simp add: to_urlsafe_def char_eq_code literal_codes)

lemma b64_value_char [simp]: "v < 64 \<Longrightarrow> b64_value (b64_char v) = Some v"
  by (auto simp: b64_value_def is_upper_def is_lower_def is_digit_def char_eq_code literal_codes b64_char_code)

lemma b64_char_not_pad [simp]: "v < 64 \<Longrightarrow> b64_char v \<noteq> CHR ''=''"
  by (auto simp: char_eq_code literal_codes b64_char_code)

lemma urlsafe_to_urlsafe [simp]: "v < 64 \<Longrightarrow> urlsafe_char (to_urlsafe (b64_char v)) = b64_char v"
  unfolding urlsafe_char_def char_eq_code [of "to_urlsafe (b64_char v)"] to_urlsafe_code
  by (auto simp: char_eq_code literal_codes to_urlsafe_code b64_char_code)

lemma to_urlsafe_plain [simp]:
  "v < 64 \<Longrightarrow> to_urlsafe (b64_char v) \<noteq> CHR ''=''" "v < 64 \<Longrightarrow> to_urlsafe (b64_char v) \<noteq> CHR ''.''"
  "v < 64 \<Longrightarrow> code (to_urlsafe (b64_char v)) < 128"
  by (auto simp: char_eq_code literal_codes to_urlsafe_code b64_char_code)

text \<open>The four values of a quad are below 64, and put together they give the bytes back.\<close>

lemma code_div: "code a div 4 < 64" "code a div 16 < 16" "code a div 64 < 4"
  by (rule less_mult_imp_div_less, simp)+

lemma quad_bounds [simp]:
  "code a div 4 < 64" "code a mod 4 * 16 < 64" "code a mod 4 * 16 + code b div 16 < 64"
  "code b mod 16 * 4 < 64" "code b mod 16 * 4 + code c div 64 < 64" "code c mod 64 < 64"
proof -
  have d: "code a div 4 < 64" "code b div 16 < 16" "code c div 64 < 4"
    by (rule code_div)+
  have m: "code a mod 4 < 4" "code b mod 16 < 16" "code c mod 64 < 64" by simp_all
  show "code a div 4 < 64" "code a mod 4 * 16 < 64" "code a mod 4 * 16 + code b div 16 < 64"
    "code b mod 16 * 4 < 64" "code b mod 16 * 4 + code c div 64 < 64" "code c mod 64 < 64"
    using d m by linarith+
qed

lemma quad_bytes [simp]:
  "code b div 16 div 16 = 0" "code b div 16 mod 16 = code b div 16"
  "code c div 64 div 4 = 0" "code c div 64 mod 4 = code c div 64"
proof -
  have "code b div 16 < 16" "code c div 64 < 4"
    by (rule code_div)+
  then show "code b div 16 div 16 = 0" "code b div 16 mod 16 = code b div 16"
    "code c div 64 div 4 = 0" "code c div 64 mod 4 = code c div 64"
    by simp_all
qed

lemma a2b_b64encode: "a2b_base64 0 0 0 (b64encode bs) = Some bs"
  by (induction bs rule: b64encode.induct) simp_all

lemma map_urlsafe_encode: "map urlsafe_char (urlsafe_b64encode bs) = b64encode bs"
  unfolding urlsafe_b64encode_def
  by (induction bs rule: b64encode.induct) (simp_all, simp_all add: urlsafe_char_def to_urlsafe_def)

lemma urlsafe_b64_round_trip: "urlsafe_b64decode (urlsafe_b64encode bs) = Some bs"
  by (simp add: urlsafe_b64decode_def map_urlsafe_encode a2b_b64encode)

text \<open>
  Tokens carry the text without its padding. The padding depends only on the length, so
  \<^verbatim>\<open>"=" * (-len(segment) % 4)\<close> restores it.
\<close>

definition with_padding :: "string \<Rightarrow> string" where
  "with_padding s = s @ replicate (nat (- int (length s) mod 4)) CHR ''=''"

definition segment_text :: "string \<Rightarrow> bool" where
  "segment_text d \<longleftrightarrow> (\<forall>c\<in>set d. c \<noteq> CHR ''='' \<and> c \<noteq> CHR ''.'' \<and> code c < 128)"

lemma four_dvd: "4 dvd Suc (Suc (Suc (Suc 0)))"
  by presburger

lemma dropWhile_padding: "dropWhile (\<lambda>x. x = c) (replicate k c @ xs) = dropWhile (\<lambda>x. x = c) xs"
  by (induction k) auto

lemma urlsafe_b64encode_shape:
  "\<exists>d k. urlsafe_b64encode bs = d @ replicate k CHR ''='' \<and> k < 4 \<and> segment_text d \<and> 4 dvd length d + k"
proof (induction bs rule: b64encode.induct)
  case 1
  then show ?case by (intro exI [of _ "[]"] exI [of _ 0]) (simp add: urlsafe_b64encode_def segment_text_def)
next
  case (2 a)
  then show ?case
    by (intro exI [of _ "map to_urlsafe [b64_char (code a div 4), b64_char (code a mod 4 * 16)]"] exI [of _ "Suc (Suc 0)"])
      (simp add: urlsafe_b64encode_def segment_text_def to_urlsafe_def [of "CHR ''=''"] four_dvd)
next
  case (3 a b)
  then show ?case
    by (intro exI [of _ "map to_urlsafe [b64_char (code a div 4), b64_char (code a mod 4 * 16 + code b div 16),
        b64_char (code b mod 16 * 4)]"] exI [of _ 1])
      (simp add: urlsafe_b64encode_def segment_text_def to_urlsafe_def [of "CHR ''=''"] four_dvd)
next
  case (4 a b c bs)
  then obtain d k where d: "urlsafe_b64encode bs = d @ replicate k CHR ''=''" "k < 4" "segment_text d"
    "4 dvd length d + k" by blast
  obtain q where q: "segment_text q" "length q = 4"
      "urlsafe_b64encode (a # b # c # bs) = q @ urlsafe_b64encode bs"
    by (rule that [of "map to_urlsafe [b64_char (code a div 4), b64_char (code a mod 4 * 16 + code b div 16),
        b64_char (code b mod 16 * 4 + code c div 64), b64_char (code c mod 64)]"])
      (simp_all add: segment_text_def urlsafe_b64encode_def)
  have "4 dvd length (q @ d) + k" using d(4) unfolding length_append q(2) by presburger
  moreover have "segment_text (q @ d)" using d(3) q(1) by (auto simp: segment_text_def)
  ultimately show ?case using d(1,2) q(3) by (metis append.assoc)
qed

lemma unpadded_shape:
  "\<exists>d. rstrip_char CHR ''='' (urlsafe_b64encode bs) = d \<and> segment_text d \<and> with_padding d = urlsafe_b64encode bs"
proof -
  obtain d k where d: "urlsafe_b64encode bs = d @ replicate k CHR ''=''" "k < 4" "segment_text d"
    "4 dvd length d + k" using urlsafe_b64encode_shape by blast
  have "dropWhile (\<lambda>x. x = CHR ''='') (rev d) = rev d"
    using d(3) by (cases "rev d") (auto simp: segment_text_def dest: arg_cong [where f = set])
  then have r: "rstrip_char CHR ''='' (urlsafe_b64encode bs) = d"
    unfolding d(1) rstrip_char_def by (simp add: dropWhile_padding)
  have "- int (length d) mod 4 = int k"
    using d(2,4) by presburger
  then have "with_padding d = urlsafe_b64encode bs" by (simp add: with_padding_def d(1))
  with r d(3) show ?thesis by blast
qed

lemma unpadded_round_trip:
  "urlsafe_b64decode (with_padding (rstrip_char CHR ''='' (urlsafe_b64encode bs))) = Some bs"
  using unpadded_shape [of bs] by (auto simp: urlsafe_b64_round_trip)

end
