(* ===== verification/Outbound_Endpoints.thy ===== *)
theory Outbound_Endpoints
  imports Py_Prelude
begin

text \<open>
  The outbound endpoint checks of \<^verbatim>\<open>packages/agent_runtime/network.py\<close>, over a model of the part of
  \<^verbatim>\<open>urllib.parse\<close> and \<^verbatim>\<open>ipaddress\<close> that they use (Python 3.11): \<^verbatim>\<open>urlparse\<close> and the properties
  \<^verbatim>\<open>hostname\<close>, \<^verbatim>\<open>username\<close>, \<^verbatim>\<open>password\<close> and \<^verbatim>\<open>port\<close> of its result, \<^verbatim>\<open>urlunparse\<close>, the parser of dotted IPv4
  addresses and \<^verbatim>\<open>IPv4Address.is_global\<close>. The parser of IPv6 literals is the parameter \<open>ip6\<close>: it gives
  \<^const>\<open>None\<close> for a text that is no IPv6 address and otherwise the value of \<^verbatim>\<open>is_global\<close>.
  The theorems show that the URL an adapter ends up calling names an approved, public host.
\<close>

type_synonym ip6_parser = "string \<Rightarrow> bool option"

section \<open>URLs\<close>

record parsed_url =
  pu_scheme :: string
  pu_netloc :: string
  pu_path :: string
  pu_query :: string
  pu_fragment :: string

definition is_alpha :: "char \<Rightarrow> bool" where
  "is_alpha c \<longleftrightarrow> is_lower c \<or> is_upper c"

definition is_hex :: "char \<Rightarrow> bool" where
  "is_hex c \<longleftrightarrow> is_digit c \<or> (97 \<le> code c \<and> code c \<le> 102) \<or> (65 \<le> code c \<and> code c \<le> 70)"

text \<open>Leading control characters and spaces go; tabs and line ends go everywhere.\<close>

definition unsafe_url_char :: "char \<Rightarrow> bool" where
  "unsafe_url_char c \<longleftrightarrow> code c \<in> {9, 10, 13}"

definition url_sanitize :: "string \<Rightarrow> string" where
  "url_sanitize url = filter (\<lambda>c. \<not> unsafe_url_char c) (dropWhile (\<lambda>c. code c \<le> 32) url)"

definition scheme_char :: "char \<Rightarrow> bool" where
  "scheme_char c \<longleftrightarrow> is_alnum c \<or> c \<in> {CHR ''+'', CHR ''-'', CHR ''.''}"

definition split_scheme :: "string \<Rightarrow> string \<times> string" where
  "split_scheme url =
     (let p = takeWhile (\<lambda>c. c \<noteq> CHR '':'') url in
      if CHR '':'' \<in> set url \<and> p \<noteq> [] \<and> is_alpha (hd p) \<and> list_all scheme_char p
      then (lower p, drop (length p + 1) url) else ([], url))"

definition netloc_char :: "char \<Rightarrow> bool" where
  "netloc_char c \<longleftrightarrow> c \<notin> {CHR ''/'', CHR ''?'', CHR ''#''}"

definition split_netloc :: "string \<Rightarrow> string \<times> string" where
  "split_netloc url =
     (if startswith url ''//'' then (takeWhile netloc_char (drop 2 url), dropWhile netloc_char (drop 2 url))
      else ([], url))"

text \<open>\<^verbatim>\<open>s.rpartition(c)[2]\<close>, and the part before the last \<open>c\<close>.\<close>

definition after_last :: "char \<Rightarrow> string \<Rightarrow> string" where
  "after_last c s = rev (takeWhile (\<lambda>x. x \<noteq> c) (rev s))"

definition before_last :: "char \<Rightarrow> string \<Rightarrow> string" where
  "before_last c s = (if c \<in> set s then take (length s - length (after_last c s) - 1) s else [])"

text \<open>\<^verbatim>\<open>_check_bracketed_host\<close>: an IPvFuture text or an IPv6 literal.\<close>

definition ipvfuture :: "string \<Rightarrow> bool" where
  "ipvfuture h \<longleftrightarrow> (let t = drop 1 h; x = takeWhile is_hex t; r = dropWhile is_hex t in
     x \<noteq> [] \<and> length r \<ge> 2 \<and> hd r = CHR ''.'')"

definition check_bracketed_host :: "ip6_parser \<Rightarrow> string \<Rightarrow> bool" where
  "check_bracketed_host ip6 h \<longleftrightarrow> (if startswith h ''v'' then ipvfuture h else ip6 h \<noteq> None)"

definition netloc_ok :: "ip6_parser \<Rightarrow> string \<Rightarrow> bool" where
  "netloc_ok ip6 n \<longleftrightarrow>
     (CHR ''['' \<in> set n \<longleftrightarrow> CHR '']'' \<in> set n) \<and>
     (CHR ''['' \<in> set n \<longrightarrow>
        check_bracketed_host ip6 (fst (partition_on CHR '']'' (snd (partition_on CHR ''['' n)))))"

text \<open>The \<^verbatim>\<open>;parameters\<close> of the last segment are split off the path.\<close>

definition uses_params :: "string list" where
  "uses_params = [[], ''ftp'', ''hdl'', ''prospero'', ''http'', ''imap'', ''https'', ''shttp'', ''rtsp'',
     ''rtspu'', ''sip'', ''sips'', ''mms'', ''sftp'', ''tel'']"

definition strip_params :: "string \<Rightarrow> string" where
  "strip_params path =
     (let seg = after_last CHR ''/'' path in
      take (length path - length seg) path @ takeWhile (\<lambda>c. c \<noteq> CHR '';'') seg)"

definition urlparse :: "ip6_parser \<Rightarrow> string \<Rightarrow> parsed_url option" where
  "urlparse ip6 text =
     (let (scheme, r1) = split_scheme (url_sanitize text);
          (netloc, r2) = split_netloc r1;
          (r3, fragment) = partition_on CHR ''#'' r2;
          (path, query) = partition_on CHR ''?'' r3
      in if \<not> netloc_ok ip6 netloc then None
         else Some \<lparr>pu_scheme = scheme, pu_netloc = netloc,
           pu_path = (if scheme \<in> set uses_params then strip_params path else path),
           pu_query = query, pu_fragment = fragment\<rparr>)"

definition hostinfo :: "string \<Rightarrow> string \<times> string" where
  "hostinfo netloc =
     (let h = after_last CHR ''@'' netloc in
      if CHR ''['' \<in> set h
      then (let (hostname, rest) = partition_on CHR '']'' (snd (partition_on CHR ''['' h)) in
            (hostname, snd (partition_on CHR '':'' rest)))
      else partition_on CHR '':'' h)"

text \<open>\<^verbatim>\<open>parsed.hostname or ""\<close>: the zone of a scoped address is not lower-cased.\<close>

definition pu_hostname :: "parsed_url \<Rightarrow> string" where
  "pu_hostname u =
     (let h = fst (hostinfo (pu_netloc u));
          a = takeWhile (\<lambda>c. c \<noteq> CHR ''%'') h
      in lower a @ drop (length a) h)"

definition pu_username :: "parsed_url \<Rightarrow> string" where
  "pu_username u = fst (partition_on CHR '':'' (before_last CHR ''@'' (pu_netloc u)))"

definition pu_password :: "parsed_url \<Rightarrow> string" where
  "pu_password u = snd (partition_on CHR '':'' (before_last CHR ''@'' (pu_netloc u)))"

text \<open>\<^verbatim>\<open>parsed.port\<close>: \<^term>\<open>Inl ()\<close> is the \<^verbatim>\<open>ValueError\<close>.\<close>

definition pu_port :: "parsed_url \<Rightarrow> (unit, int option) result" where
  "pu_port u =
     (let p = snd (hostinfo (pu_netloc u)) in
      if p = [] then Inr None
      else if \<not> list_all is_digit p then Inl ()
      else (case py_int p of None \<Rightarrow> Inl ()
            | Some n \<Rightarrow> if 0 \<le> n \<and> n \<le> 65535 then Inr (Some n) else Inl ()))"

text \<open>\<^verbatim>\<open>urlunparse(("https", netloc, path, "", "", ""))\<close>.\<close>

definition https_url :: "string \<Rightarrow> string \<Rightarrow> string" where
  "https_url netloc path =
     ''https://'' @ netloc @ (if path \<noteq> [] \<and> hd path \<noteq> CHR ''/'' then CHR ''/'' # path else path)"

section \<open>Hosts\<close>

definition ipv4_octet :: "string \<Rightarrow> int option" where
  "ipv4_octet s =
     (if s = [] \<or> \<not> list_all is_digit s \<or> length s > 3 \<or> (s \<noteq> ''0'' \<and> hd s = CHR ''0'') then None
      else (case digits_value 0 False s of None \<Rightarrow> None | Some n \<Rightarrow> if n \<le> 255 then Some (int n) else None))"

text \<open>The integer value of a dotted address.\<close>

definition ipv4 :: "int \<Rightarrow> int \<Rightarrow> int \<Rightarrow> int \<Rightarrow> int" where
  "ipv4 a b c d = ((a * 256 + b) * 256 + c) * 256 + d"

definition ipv4_address :: "string \<Rightarrow> int option" where
  "ipv4_address s =
     (case map ipv4_octet (split_on CHR ''.'' s) of
        [Some a, Some b, Some c, Some d] \<Rightarrow> Some (ipv4 a b c d)
      | _ \<Rightarrow> None)"

text \<open>A network is its base address and prefix length.\<close>

definition in_network :: "int \<Rightarrow> int \<times> nat \<Rightarrow> bool" where
  "in_network a n \<longleftrightarrow> a div 2 ^ (32 - snd n) = fst n div 2 ^ (32 - snd n)"

definition private_networks :: "(int \<times> nat) list" where
  "private_networks =
     [(ipv4 0 0 0 0, 8), (ipv4 10 0 0 0, 8), (ipv4 127 0 0 0, 8), (ipv4 169 254 0 0, 16),
      (ipv4 172 16 0 0, 12), (ipv4 192 0 0 0, 24), (ipv4 192 0 0 170, 31), (ipv4 192 0 2 0, 24),
      (ipv4 192 168 0 0, 16), (ipv4 198 18 0 0, 15), (ipv4 198 51 100 0, 24), (ipv4 203 0 113 0, 24),
      (ipv4 240 0 0 0, 4), (ipv4 255 255 255 255, 32)]"

definition private_exceptions :: "(int \<times> nat) list" where
  "private_exceptions = [(ipv4 192 0 0 9, 32), (ipv4 192 0 0 10, 32)]"

definition ipv4_global :: "int \<Rightarrow> bool" where
  "ipv4_global a \<longleftrightarrow> \<not> in_network a (ipv4 100 64 0 0, 10) \<and>
     \<not> (list_ex (in_network a) private_networks \<and> \<not> list_ex (in_network a) private_exceptions)"

definition blocked_hostnames :: "string list" where
  "blocked_hostnames = [''localhost'', ''localhost.localdomain'', ''metadata'',
     ''metadata.google.internal'', ''instance-data.ec2.internal'']"

definition is_disallowed_host :: "ip6_parser \<Rightarrow> string \<Rightarrow> bool" where
  "is_disallowed_host ip6 host =
     (let normalized = lower (rstrip_char CHR ''.'' host) in
      if normalized \<in> set blocked_hostnames \<or> endswith normalized ''.localhost'' then True
      else (case ipv4_address normalized of
          Some a \<Rightarrow> \<not> ipv4_global a
        | None \<Rightarrow> (case ip6 normalized of Some g \<Rightarrow> \<not> g | None \<Rightarrow> False)))"

section \<open>Endpoints\<close>

text \<open>The set comprehension over the allowlist.\<close>

definition approved_hosts :: "string list \<Rightarrow> string list" where
  "approved_hosts allowed = map (\<lambda>h. rstrip_char CHR ''.'' (lower (strip h))) (filter (\<lambda>h. \<not> blank h) allowed)"

definition validated_https_endpoint ::
    "ip6_parser \<Rightarrow> string \<Rightarrow> string list \<Rightarrow> string \<Rightarrow> string \<Rightarrow> (string, string) result" where
  "validated_https_endpoint ip6 endpoint allowed label default_path =
     (case urlparse ip6 endpoint of
        None \<Rightarrow> Inl ''Invalid IPv6 URL''
      | Some parsed \<Rightarrow>
          let host = rstrip_char CHR ''.'' (lower (pu_hostname parsed)) in
          if pu_scheme parsed \<noteq> ''https'' \<or> host = [] \<or> host \<notin> set (approved_hosts allowed)
             \<or> is_disallowed_host ip6 host
          then Inl (label @ '' endpoint must be HTTPS, public and match an approved host'')
          else if pu_username parsed \<noteq> [] \<or> pu_password parsed \<noteq> [] \<or> pu_query parsed \<noteq> []
             \<or> pu_fragment parsed \<noteq> []
          then Inl (label @ '' endpoint must not embed credentials or query values'')
          else (case pu_port parsed of
              Inl _ \<Rightarrow> Inl (label @ '' endpoint port is invalid'')
            | Inr port \<Rightarrow>
                if (case port of None \<Rightarrow> False | Some p \<Rightarrow> \<not> (1 \<le> p \<and> p \<le> 65535))
                then Inl (label @ '' endpoint port is invalid'')
                else
                  let netloc = (case port of None \<Rightarrow> host | Some p \<Rightarrow> host @ '':'' @ int_str p);
                      path = (if pu_path parsed = [] then default_path else pu_path parsed);
                      trimmed = rstrip_char CHR ''/'' path
                  in Inr (https_url netloc (if trimmed = [] then ''/'' else trimmed))))"

section \<open>Lemmas on the parser\<close>

lemma partition_on_fst: "fst (partition_on c s) = takeWhile (\<lambda>x. x \<noteq> c) s"
  by (induction s) (auto split: prod.splits)

lemma partition_on_no_sep: "c \<notin> set s \<Longrightarrow> partition_on c s = (s, [])"
  by (induction s) auto

lemma partition_on_append: "c \<notin> set a \<Longrightarrow> partition_on c (a @ c # b) = (a, b)"
  by (induction a) auto

lemma after_last_subset: "set (after_last c s) \<subseteq> set s"
  by (auto simp: after_last_def dest: set_takeWhileD)

lemma after_last_no_sep: "c \<notin> set (after_last c s)"
  by (auto simp: after_last_def dest: set_takeWhileD)

lemma after_last_fixed: "c \<notin> set s \<Longrightarrow> after_last c s = s"
  unfolding after_last_def by (subst takeWhile_eq_all_conv [THEN iffD2]) auto

lemma rstrip_char_subset: "set (rstrip_char c s) \<subseteq> set s"
  by (auto simp: rstrip_char_def dest: set_dropWhileD)

lemma rstrip_char_prefix: "\<exists>t. s = rstrip_char c s @ t"
  unfolding rstrip_char_def by (metis rev_append rev_rev_ident takeWhile_dropWhile_id)

lemma code_lower_char: "code (lower_char c) < 97 \<Longrightarrow> lower_char c = c"
  by (auto simp: lower_char_def Let_def code_char_of split: if_splits)

lemma lower_char_idem [simp]: "lower_char (lower_char c) = lower_char c"
proof (cases "lower_char c = c")
  case False
  then have "lower_char c = char_of (code c + 32)" and
    b: "(65 \<le> code c \<and> code c \<le> 90) \<or> (192 \<le> code c \<and> code c \<le> 222)"
    by (auto simp: lower_char_def Let_def split: if_splits)
  moreover from b have "code (char_of (code c + 32) :: char) = code c + 32"
    by (intro code_char_of) auto
  ultimately show ?thesis using b by (auto simp: lower_char_def [of "char_of (code c + 32)"] Let_def)
qed simp

lemma lower_idem [simp]: "lower (lower s) = lower s"
  by (simp add: lower_def comp_def)

lemma lower_append: "lower (a @ b) = lower a @ lower b"
  by (simp add: lower_def)

lemma lower_rstrip: "lower s = s \<Longrightarrow> lower (rstrip_char c s) = rstrip_char c s"
  by (metis rstrip_char_prefix lower_append append_eq_append_conv lower_def length_map)

text \<open>Characters that the second reading of a URL does not interpret.\<close>

definition plain_host_char :: "char \<Rightarrow> bool" where
  "plain_host_char c \<longleftrightarrow> netloc_char c \<and> \<not> unsafe_url_char c \<and>
     c \<notin> {CHR '':'', CHR ''@'', CHR ''['', CHR '']''}"

definition plain_path :: "string \<Rightarrow> bool" where
  "plain_path p \<longleftrightarrow> p \<noteq> [] \<and> hd p = CHR ''/'' \<and>
     (\<forall>c\<in>set p. c \<noteq> CHR ''?'' \<and> c \<noteq> CHR ''#'' \<and> \<not> unsafe_url_char c)"

lemma plain_host_lower: "plain_host_char c \<Longrightarrow> plain_host_char (lower_char c)"
proof (cases "lower_char c = c")
  case False
  assume "plain_host_char c"
  have "97 \<le> code (lower_char c)" using False code_lower_char by (meson not_le)
  then show ?thesis
    by (auto simp: plain_host_char_def netloc_char_def unsafe_url_char_def code_def)
qed simp

lemma url_sanitize_subset: "set (url_sanitize e) \<subseteq> {c \<in> set e. \<not> unsafe_url_char c}"
  by (auto simp: url_sanitize_def dest: set_dropWhileD)

lemma split_scheme_subset: "set (snd (split_scheme e)) \<subseteq> set e"
  by (auto simp: split_scheme_def Let_def dest: in_set_dropD)

lemma split_netloc_subset: "set (fst (split_netloc e)) \<subseteq> set e" "set (snd (split_netloc e)) \<subseteq> set e"
  by (auto simp: split_netloc_def dest!: set_takeWhileD set_dropWhileD in_set_dropD)

lemma urlparse_Some:
  assumes "urlparse ip6 e = Some u"
  shows "pu_scheme u = fst (split_scheme (url_sanitize e))"
    and "pu_netloc u = fst (split_netloc (snd (split_scheme (url_sanitize e))))"
    and "netloc_ok ip6 (pu_netloc u)"
    and "\<exists>p. p = takeWhile (\<lambda>c. c \<noteq> CHR ''?'') (takeWhile (\<lambda>c. c \<noteq> CHR ''#'')
           (snd (split_netloc (snd (split_scheme (url_sanitize e)))))) \<and>
         pu_path u = (if pu_scheme u \<in> set uses_params then strip_params p else p)"
  using assms by (auto simp: urlparse_def Let_def partition_on_fst [symmetric] simp del: set_simps
      split: prod.splits if_splits)

lemma urlparse_netloc_chars:
  assumes "urlparse ip6 e = Some u" "CHR ''['' \<notin> set e" "c \<in> set (pu_netloc u)"
  shows "netloc_char c \<and> \<not> unsafe_url_char c \<and> c \<noteq> CHR ''['' \<and> c \<noteq> CHR '']''"
proof -
  have sub: "set (pu_netloc u) \<subseteq> {c \<in> set e. \<not> unsafe_url_char c}"
    unfolding urlparse_Some(2) [OF assms(1)]
    using split_netloc_subset(1) split_scheme_subset url_sanitize_subset by (meson order_trans)
  then have nb: "CHR ''['' \<notin> set (pu_netloc u)" using assms(2) by auto
  then have "CHR '']'' \<notin> set (pu_netloc u)"
    using urlparse_Some(3) [OF assms(1)] by (simp add: netloc_ok_def)
  moreover have "netloc_char c"
    using assms(3) unfolding urlparse_Some(2) [OF assms(1)]
    by (auto simp: split_netloc_def dest: set_takeWhileD split: if_splits)
  ultimately show ?thesis using sub nb assms(3) by auto
qed

lemma pu_hostname_chars:
  assumes "urlparse ip6 e = Some u" "CHR ''['' \<notin> set e" "c \<in> set (lower (pu_hostname u))"
  shows "plain_host_char c"
proof -
  let ?h = "fst (hostinfo (pu_netloc u))"
  have nb: "CHR ''['' \<notin> set (after_last CHR ''@'' (pu_netloc u))"
    using urlparse_netloc_chars [OF assms(1,2)] after_last_subset by blast
  then have h: "?h = takeWhile (\<lambda>x. x \<noteq> CHR '':'') (after_last CHR ''@'' (pu_netloc u))"
    by (simp add: hostinfo_def partition_on_fst)
  have plain: "plain_host_char x" if "x \<in> set ?h" for x
  proof -
    have x: "x \<in> set (after_last CHR ''@'' (pu_netloc u))" "x \<noteq> CHR '':''"
      using that unfolding h by (auto dest: set_takeWhileD)
    then have "x \<in> set (pu_netloc u)" "x \<noteq> CHR ''@''"
      using after_last_subset after_last_no_sep by blast+
    then show ?thesis
      using urlparse_netloc_chars [OF assms(1,2)] x by (auto simp: plain_host_char_def)
  qed
  obtain x where x: "x \<in> set ?h" "c = lower_char x"
    using assms(3) by (auto simp: pu_hostname_def Let_def lower_def dest: set_takeWhileD in_set_dropD)
  then show ?thesis using plain plain_host_lower by blast
qed

lemma strip_params_Nil [simp]: "strip_params [] = []"
  by (simp add: strip_params_def after_last_def)

lemma strip_params_plain:
  assumes "plain_path p" shows "plain_path (strip_params p)"
proof -
  let ?seg = "after_last CHR ''/'' p"
  obtain q where p: "p = CHR ''/'' # q" using assms by (cases p) (auto simp: plain_path_def)
  have "?seg \<noteq> p" using after_last_no_sep [of "CHR ''/''" p] p by (metis list.set_intros(1))
  moreover have "length ?seg \<le> length p" unfolding after_last_def
    by (metis length_rev length_takeWhile_le)
  moreover have "length ?seg = length p \<Longrightarrow> ?seg = p" unfolding after_last_def
    by (metis length_rev rev_rev_ident takeWhile_eq_take take_all_iff le_refl)
  ultimately have "take (length p - length ?seg) p = CHR ''/'' # take (length p - length ?seg - 1) q"
    using p by (metis diff_is_0_eq le_neq_implies_less not_le take_Cons')
  then have "hd (strip_params p) = CHR ''/''" "strip_params p \<noteq> []"
    by (simp_all add: strip_params_def Let_def)
  moreover have "set (strip_params p) \<subseteq> set p"
    using after_last_subset by (auto simp: strip_params_def Let_def dest: in_set_takeD set_takeWhileD)
  ultimately show ?thesis using assms by (auto simp: plain_path_def)
qed

lemma hd_path:
  assumes "\<not> netloc_char (hd r)"
    and "takeWhile (\<lambda>c. c \<noteq> CHR ''?'') (takeWhile (\<lambda>c. c \<noteq> CHR ''#'') r) \<noteq> []"
  shows "hd (takeWhile (\<lambda>c. c \<noteq> CHR ''?'') (takeWhile (\<lambda>c. c \<noteq> CHR ''#'') r)) = CHR ''/''"
  using assms by (cases r) (auto simp: netloc_char_def split: if_splits)

lemma urlparse_path:
  assumes "urlparse ip6 e = Some u" "pu_netloc u \<noteq> []" "pu_path u \<noteq> []"
  shows "plain_path (pu_path u)"
proof -
  let ?r1 = "snd (split_scheme (url_sanitize e))"
  let ?p = "takeWhile (\<lambda>c. c \<noteq> CHR ''?'') (takeWhile (\<lambda>c. c \<noteq> CHR ''#'') (snd (split_netloc ?r1)))"
  have sp: "pu_path u = (if pu_scheme u \<in> set uses_params then strip_params ?p else ?p)"
    using urlparse_Some(4) [OF assms(1)] by blast
  have r2: "snd (split_netloc ?r1) = dropWhile netloc_char (drop 2 ?r1)"
    using assms(2) unfolding urlparse_Some(2) [OF assms(1)] by (auto simp: split_netloc_def split: if_splits)
  have ne: "?p \<noteq> []" using assms(3) strip_params_Nil unfolding sp by (metis (no_types, lifting))
  then have ne2: "dropWhile netloc_char (drop 2 ?r1) \<noteq> []" by (auto simp only: r2 takeWhile.simps)
  have "\<not> netloc_char (hd (dropWhile netloc_char (drop 2 ?r1)))" using ne2 by (rule hd_dropWhile)
  then have hd: "hd ?p = CHR ''/''" using ne unfolding r2 by (rule hd_path)
  have "set ?p \<subseteq> set (snd (split_netloc ?r1))" by (auto dest!: set_takeWhileD)
  also have "\<dots> \<subseteq> {c \<in> set e. \<not> unsafe_url_char c}"
    using split_netloc_subset(2) split_scheme_subset url_sanitize_subset by (meson order_trans)
  finally have "set ?p \<subseteq> {c \<in> set e. \<not> unsafe_url_char c}" .
  moreover have "\<forall>c\<in>set ?p. c \<noteq> CHR ''?'' \<and> c \<noteq> CHR ''#''" by (auto dest!: set_takeWhileD)
  ultimately have "plain_path ?p" using hd ne unfolding plain_path_def by blast
  then show ?thesis using sp strip_params_plain by auto
qed

lemma nat_digits_nonempty: "nat_digits n \<noteq> []"
  by (subst nat_digits.simps) simp

lemma nat_digits_chars: "c \<in> set (nat_digits n) \<Longrightarrow> is_digit c"
proof (induction n rule: nat_digits.induct)
  case (1 n)
  have d: "is_digit (char_of (48 + m))" if "m < 10" for m :: nat
    using that by (simp add: is_digit_def code_char_of)
  show ?case
  proof (cases "n < 10")
    case True
    then show ?thesis using 1(2) d by (simp add: nat_digits.simps [of n])
  next
    case False
    then have "c \<in> set (nat_digits (n div 10)) \<or> c = char_of (48 + n mod 10)"
      using 1(2) by (auto simp: nat_digits.simps [of n])
    then show ?thesis using 1(1) [OF False] d by auto
  qed
qed

lemma digit_plain: "is_digit c \<Longrightarrow> plain_host_char c"
  by (auto simp: is_digit_def plain_host_char_def netloc_char_def unsafe_url_char_def code_def)

text \<open>The text after the host in a network location: nothing, or a port.\<close>

definition port_text :: "string \<Rightarrow> bool" where
  "port_text t \<longleftrightarrow> t = [] \<or> (\<exists>p. 1 \<le> p \<and> p \<le> (65535 :: int) \<and> t = CHR '':'' # int_str p)"

lemma port_text_shape:
  assumes "port_text t"
  shows "t = [] \<or> (\<exists>d. t = CHR '':'' # d \<and> (\<forall>c\<in>set d. is_digit c))"
  using assms by (auto simp: port_text_def int_str_def dest: nat_digits_chars)

lemma netloc_reading:
  assumes "\<forall>c\<in>set host. plain_host_char c" "port_text t"
  shows "netloc_ok ip6 (host @ t)" "fst (hostinfo (host @ t)) = host"
    "CHR ''@'' \<notin> set (host @ t)" "\<forall>c\<in>set (host @ t). netloc_char c \<and> \<not> unsafe_url_char c"
proof -
  have ch: "c = CHR '':'' \<or> plain_host_char c" if "c \<in> set (host @ t)" for c
    using that assms(1) port_text_shape [OF assms(2)] digit_plain by auto
  have colon: "netloc_char CHR '':''" "\<not> unsafe_url_char CHR '':''"
    by (simp_all add: netloc_char_def unsafe_url_char_def code_def)
  show n: "CHR ''@'' \<notin> set (host @ t)" using ch by (auto simp: plain_host_char_def)
  show "\<forall>c\<in>set (host @ t). netloc_char c \<and> \<not> unsafe_url_char c"
    using ch colon unfolding plain_host_char_def by metis
  have b: "CHR ''['' \<notin> set (host @ t)" "CHR '']'' \<notin> set (host @ t)"
    using ch by (auto simp: plain_host_char_def)
  then show "netloc_ok ip6 (host @ t)" by (simp add: netloc_ok_def)
  have "CHR '':'' \<notin> set host" using assms(1) by (auto simp: plain_host_char_def)
  then have "fst (partition_on CHR '':'' (host @ t)) = host"
    using port_text_shape [OF assms(2)] by (auto simp: partition_on_append partition_on_no_sep)
  then show "fst (hostinfo (host @ t)) = host"
    using b n by (simp add: hostinfo_def after_last_fixed)
qed

lemma takeWhile_netloc:
  assumes "\<forall>c\<in>set n. netloc_char c" "plain_path path"
  shows "takeWhile netloc_char (n @ path) = n" "dropWhile netloc_char (n @ path) = path"
proof -
  obtain q where "path = CHR ''/'' # q" using assms(2) by (cases path) (auto simp: plain_path_def)
  then show "takeWhile netloc_char (n @ path) = n" "dropWhile netloc_char (n @ path) = path"
    using assms(1) by (simp_all add: netloc_char_def)
qed

text \<open>The URL built from a host, a port and a path reads back as exactly those.\<close>

lemma urlparse_built:
  assumes h: "\<forall>c\<in>set host. plain_host_char c" and l: "lower host = host" and t: "port_text t"
    and p: "plain_path path"
  shows "\<exists>u. urlparse ip6 (''https://'' @ host @ t @ path) = Some u \<and> pu_scheme u = ''https'' \<and>
     pu_hostname u = host \<and> pu_username u = [] \<and> pu_password u = [] \<and> pu_query u = [] \<and> pu_fragment u = []"
proof -
  let ?n = "host @ t" and ?url = "''https://'' @ host @ t @ path"
  note n = netloc_reading [OF h t]
  have "\<forall>c\<in>set ?url. \<not> unsafe_url_char c"
    using n(4) p by (auto simp: plain_path_def unsafe_url_char_def code_def)
  then have "filter (\<lambda>c. \<not> unsafe_url_char c) ?url = ?url" by (subst filter_id_conv) auto
  moreover have "dropWhile (\<lambda>c. code c \<le> 32) ?url = ?url" by (simp add: code_def)
  ultimately have "url_sanitize ?url = ?url" by (simp only: url_sanitize_def)
  then have s: "split_scheme (url_sanitize ?url) = (''https'', ''//'' @ ?n @ path)"
    by (simp add: split_scheme_def lower_def lower_char_def code_def is_alpha_def is_lower_def
        scheme_char_def is_alnum_def char_of_def)
  have r: "split_netloc (''//'' @ ?n @ path) = (?n, path)"
    using n(4) p takeWhile_netloc [of ?n path] by (simp add: split_netloc_def startswith_def)
  have q: "CHR ''#'' \<notin> set path" "CHR ''?'' \<notin> set path" using p by (auto simp: plain_path_def)
  have "urlparse ip6 ?url = Some \<lparr>pu_scheme = ''https'', pu_netloc = ?n,
      pu_path = strip_params path, pu_query = [], pu_fragment = []\<rparr>"
    unfolding urlparse_def s by (simp add: r [simplified] q partition_on_no_sep n(1) uses_params_def)
  moreover have "lower (takeWhile (\<lambda>c. c \<noteq> CHR ''%'') host) @ dropWhile (\<lambda>c. c \<noteq> CHR ''%'') host = host"
    using l by (metis append_eq_append_conv length_map lower_append lower_def takeWhile_dropWhile_id)
  ultimately show ?thesis
    using n(2,3) by (simp add: pu_hostname_def pu_username_def pu_password_def before_last_def
        dropWhile_eq_drop [symmetric])
qed

section \<open>Properties\<close>

text \<open>
  What an accepted endpoint gives: the scheme is HTTPS, the host is non-empty, approved and public, and
  the URL is put together from the host, the port and the path alone.
\<close>

lemma validated_https_endpoint_Inr:
  assumes "validated_https_endpoint ip6 endpoint allowed label default_path = Inr url"
  obtains u t path where "urlparse ip6 endpoint = Some u"
    "rstrip_char CHR ''.'' (lower (pu_hostname u)) \<noteq> []"
    "rstrip_char CHR ''.'' (lower (pu_hostname u)) \<in> set (approved_hosts allowed)"
    "\<not> is_disallowed_host ip6 (rstrip_char CHR ''.'' (lower (pu_hostname u)))"
    "port_text t" "path = rstrip_char CHR ''/'' (if pu_path u = [] then default_path else pu_path u)"
    "url = https_url (rstrip_char CHR ''.'' (lower (pu_hostname u)) @ t) (if path = [] then ''/'' else path)"
proof -
  obtain u port where u: "urlparse ip6 endpoint = Some u" "pu_port u = Inr port"
    using assms by (auto simp: validated_https_endpoint_def Let_def split: option.splits sum.splits if_splits)
  define t where "t = (case port of None \<Rightarrow> [] | Some p \<Rightarrow> '':'' @ int_str p)"
  have "port_text t" "url = https_url (rstrip_char CHR ''.'' (lower (pu_hostname u)) @ t)
      (let path = rstrip_char CHR ''/'' (if pu_path u = [] then default_path else pu_path u)
       in if path = [] then ''/'' else path)"
    using assms u
    by (auto simp: validated_https_endpoint_def Let_def t_def port_text_def split: option.splits if_splits)
  moreover have "rstrip_char CHR ''.'' (lower (pu_hostname u)) \<noteq> []"
    "rstrip_char CHR ''.'' (lower (pu_hostname u)) \<in> set (approved_hosts allowed)"
    "\<not> is_disallowed_host ip6 (rstrip_char CHR ''.'' (lower (pu_hostname u)))"
    using assms u by (auto simp: validated_https_endpoint_def Let_def split: if_splits)
  ultimately show thesis using u(1) that unfolding Let_def by blast
qed

lemma plain_path_trimmed:
  assumes "plain_path p"
  shows "plain_path (if rstrip_char CHR ''/'' p = [] then ''/'' else rstrip_char CHR ''/'' p)"
proof -
  obtain t where "p = rstrip_char CHR ''/'' p @ t" using rstrip_char_prefix by blast
  then have "rstrip_char CHR ''/'' p \<noteq> [] \<Longrightarrow> hd (rstrip_char CHR ''/'' p) = hd p"
    by (metis hd_append2)
  then show ?thesis
    using assms rstrip_char_subset [of "CHR ''/''" p]
    by (auto simp: plain_path_def unsafe_url_char_def code_def)
qed

lemma pu_hostname_netloc: "pu_netloc u = [] \<Longrightarrow> pu_hostname u = []"
  by (simp add: pu_hostname_def hostinfo_def after_last_def Let_def lower_def)


text \<open>A concrete adapter configuration, with no IPv6 literal in play.\<close>

definition no_ip6 :: ip6_parser where
  "no_ip6 s = None"

lemma demo_endpoint: "validated_https_endpoint no_ip6 ''https://MCP.example.com./rpc/'' [''mcp.example.com''] ''MCP'' ''/''
    = Inr ''https://mcp.example.com/rpc''"
  by code_simp

lemma plain_root: "plain_path ''/''"
  by (simp add: plain_path_def unsafe_url_char_def code_def)


text \<open>The dotted text of an IPv4 address.\<close>

definition dotted :: "nat \<Rightarrow> nat \<Rightarrow> nat \<Rightarrow> nat \<Rightarrow> string" where
  "dotted a b c d = nat_digits a @ ''.'' @ nat_digits b @ ''.'' @ nat_digits c @ ''.'' @ nat_digits d"

lemma digits_value_snoc:
  assumes "\<forall>c\<in>set xs. is_digit c" "xs \<noteq> []" "k < 10"
  shows "digits_value acc p (xs @ [char_of (48 + k)]) = map_option (\<lambda>m. 10 * m + k) (digits_value acc p xs)"
  using assms
proof (induction xs arbitrary: acc p)
  case (Cons x xs)
  have "is_digit (char_of (48 + k))" using Cons.prems(3) by (simp add: is_digit_def code_char_of)
  with Cons show ?case by (cases "xs = []") (auto simp: code_char_of)
qed simp

lemma digits_value_nat_digits: "digits_value 0 False (nat_digits n) = Some n"
proof (induction n rule: nat_digits.induct)
  case (1 n)
  show ?case
  proof (cases "n < 10")
    case True
    then show ?thesis by (simp add: nat_digits.simps [of n] is_digit_def code_char_of)
  next
    case False
    have "nat_digits n = nat_digits (n div 10) @ [char_of (48 + n mod 10)]"
      using False by (subst nat_digits.simps) simp
    then show ?thesis
      using 1 [OF False] digits_value_snoc [of "nat_digits (n div 10)" "n mod 10"] nat_digits_chars
      by (auto simp: nat_digits_nonempty)
  qed
qed

lemma nat_digits_hd: "0 < n \<Longrightarrow> hd (nat_digits n) \<noteq> CHR ''0''"
proof (induction n rule: nat_digits.induct)
  case (1 n)
  have "char_of (48 + n) \<noteq> CHR ''0''" if "n < 10" "0 < n"
  proof
    assume "char_of (48 + n) = CHR ''0''"
    then have "code (char_of (48 + n)) = 48" by (simp add: code_def)
    then show False using that by (simp add: code_char_of)
  qed
  with 1 show ?case by (subst nat_digits.simps) (auto simp: nat_digits_nonempty)
qed

lemma nat_digits_length: "n < 10 ^ k \<Longrightarrow> 0 < k \<Longrightarrow> length (nat_digits n) \<le> k"
proof (induction k arbitrary: n)
  case (Suc k)
  then show ?case by (cases "k = 0"; subst nat_digits.simps) (auto simp: div_less_iff_less_mult mult.commute)
qed simp

lemma ipv4_octet_digits: "n \<le> 255 \<Longrightarrow> ipv4_octet (nat_digits n) = Some (int n)"
proof -
  assume n: "n \<le> 255"
  then have "length (nat_digits n) \<le> 3" by (intro nat_digits_length) auto
  moreover have "nat_digits n = ''0'' \<or> hd (nat_digits n) \<noteq> CHR ''0''"
    using nat_digits_hd [of n] by (cases "n = 0") (auto simp: nat_digits.simps [of 0] char_of_def)
  ultimately show ?thesis
    using n nat_digits_chars by (auto simp: ipv4_octet_def nat_digits_nonempty list_all_iff digits_value_nat_digits)
qed

lemma nat_digits_no_dot: "CHR ''.'' \<notin> set (nat_digits n)"
  using nat_digits_chars [of "CHR ''.''" n] by (auto simp: is_digit_def code_def)

lemma ipv4_address_dotted:
  "\<lbrakk>a \<le> 255; b \<le> 255; c \<le> 255; d \<le> 255\<rbrakk> \<Longrightarrow>
     ipv4_address (dotted a b c d) = Some (ipv4 (int a) (int b) (int c) (int d))"
  by (simp add: ipv4_address_def dotted_def split_on_append split_on_single nat_digits_no_dot ipv4_octet_digits)

lemma dotted_chars: "x \<in> set (dotted a b c d) \<Longrightarrow> is_digit x \<or> x = CHR ''.''"
  by (auto simp: dotted_def dest: nat_digits_chars)

lemma dotted_last: "is_digit (last (dotted a b c d))"
  using nat_digits_chars [OF last_in_set [OF nat_digits_nonempty [of d]]]
  by (simp add: dotted_def nat_digits_nonempty)

lemma lower_dotted: "lower (dotted a b c d) = dotted a b c d"
proof -
  have "lower_char x = x" if "x \<in> set (dotted a b c d)" for x
    using dotted_chars [OF that] by (auto simp: lower_char_def is_digit_def Let_def code_def)
  then show ?thesis by (simp add: lower_def map_idI)
qed

lemma rstrip_dotted: "rstrip_char CHR ''.'' (dotted a b c d) = dotted a b c d"
proof -
  have "last (dotted a b c d) \<noteq> CHR ''.''" using dotted_last [of a b c d] by (auto simp: is_digit_def code_def)
  moreover have "dotted a b c d \<noteq> []" by (simp add: dotted_def)
  ultimately show ?thesis
    unfolding rstrip_char_def by (subst dropWhile_fixed) (auto simp: hd_rev)
qed

lemma is_disallowed_dotted:
  assumes "a \<le> 255" "b \<le> 255" "c \<le> 255" "d \<le> 255"
    and "\<not> ipv4_global (ipv4 (int a) (int b) (int c) (int d))"
  shows "is_disallowed_host ip6 (dotted a b c d)"
  using assms by (simp add: is_disallowed_host_def Let_def lower_dotted rstrip_dotted ipv4_address_dotted)

lemma ipv4_div:
  fixes a b c d :: int
  assumes "0 \<le> a" "0 \<le> b" "b \<le> 255" "0 \<le> c" "c \<le> 255" "0 \<le> d" "d \<le> 255"
  shows "ipv4 a b c d div 2 ^ 16 = a * 256 + b" "ipv4 a b c d div 2 ^ 24 = a"
    "ipv4 a b c d div 2 ^ 20 = a * 16 + b div 16" "ipv4 a b c d div 2 ^ 22 = a * 4 + b div 64"
    "ipv4 a b c d div 2 ^ 28 = a div 16"
proof -
  have two: "ipv4 a b c d div 2 ^ 16 = a * 256 + b"
    using assms by (simp add: ipv4_def)
  have step: "ipv4 a b c d div 2 ^ (16 + k) = (a * 256 + b) div 2 ^ k" for k
    by (simp only: power_add zdiv_zmult2_eq two zero_le_power zero_le_numeral)
  show "ipv4 a b c d div 2 ^ 16 = a * 256 + b" by (rule two)
  show "ipv4 a b c d div 2 ^ 24 = a" using step [of 8] assms by simp
  show "ipv4 a b c d div 2 ^ 20 = a * 16 + b div 16" using step [of 4] assms by simp
  show "ipv4 a b c d div 2 ^ 22 = a * 4 + b div 64" using step [of 6] assms by simp
  show "ipv4 a b c d div 2 ^ 28 = a div 16" using step [of 12] assms by simp
qed

text \<open>The address ranges that must stay out of reach, by their first two octets.\<close>

definition private_range :: "nat \<Rightarrow> nat \<Rightarrow> bool" where
  "private_range a b \<longleftrightarrow> a \<in> {0, 10, 127} \<or> (a = 169 \<and> b = 254) \<or> (a = 172 \<and> 16 \<le> b \<and> b \<le> 31) \<or>
     (a = 192 \<and> b = 168) \<or> (a = 100 \<and> 64 \<le> b \<and> b \<le> 127) \<or> 240 \<le> a"

lemma not_globalI:
  assumes "(n, k) \<in> set private_networks" "x div 2 ^ (32 - k) = n div 2 ^ (32 - k)"
    and "x \<noteq> ipv4 192 0 0 9" "x \<noteq> ipv4 192 0 0 10"
  shows "\<not> ipv4_global x"
proof -
  have "list_ex (in_network x) private_networks"
    unfolding list_ex_iff using assms(1,2) by (intro bexI [of _ "(n, k)"]) (simp_all add: in_network_def)
  moreover have "\<not> list_ex (in_network x) private_exceptions"
    using assms(3,4) by (simp add: private_exceptions_def in_network_def)
  ultimately show ?thesis by (simp add: ipv4_global_def)
qed

lemma power_numeral_unfold:
  "(2 :: int) ^ 16 = 65536" "(2 :: int) ^ 24 = 16777216" "(2 :: int) ^ 20 = 1048576"
  "(2 :: int) ^ 22 = 4194304" "(2 :: int) ^ 28 = 268435456"
  by simp_all

lemma private_range_not_global:
  assumes "private_range a b" "a \<le> 255" "b \<le> 255" "c \<le> 255" "d \<le> 255"
  shows "\<not> ipv4_global (ipv4 (int a) (int b) (int c) (int d))"
proof -
  let ?x = "ipv4 (int a) (int b) (int c) (int d)"
  have "0 \<le> int a" "0 \<le> int b" "int b \<le> 255" "0 \<le> int c" "int c \<le> 255" "0 \<le> int d" "int d \<le> 255"
    using assms(3-5) by simp_all
  note D = ipv4_div [OF this]
  have dv: "?x div 65536 = int a * 256 + int b" "?x div 16777216 = int a"
    "?x div 1048576 = int a * 16 + int b div 16" "?x div 4194304 = int a * 4 + int b div 64"
    "?x div 268435456 = int a div 16"
    using D(1) D(2) D(3) D(4) D(5) by (simp_all only: power_numeral_unfold)
  have exc: "?x \<noteq> ipv4 192 0 0 9" "?x \<noteq> ipv4 192 0 0 10" if ab: "a \<noteq> 192 \<or> b = 168"
  proof -
    have "a = 192 \<and> b = 0" if "int a * 256 + int b = 49152"
      using that assms(3) by presburger
    then have ne: "?x div 65536 \<noteq> 49152" using ab dv(1) by auto
    have "ipv4 192 0 0 9 div 65536 = 49152" "ipv4 192 0 0 10 div 65536 = 49152"
      by (simp_all add: ipv4_def)
    then show "?x \<noteq> ipv4 192 0 0 9" "?x \<noteq> ipv4 192 0 0 10" using ne by metis+
  qed
  consider "a = 0" | "a = 10" | "a = 127" | "a = 169" "b = 254" | "a = 172" "16 \<le> b" "b \<le> 31"
    | "a = 192" "b = 168" | "a = 100" "64 \<le> b" "b \<le> 127" | "240 \<le> a"
    using assms(1) by (auto simp: private_range_def)
  then show ?thesis
  proof cases
    case 1
    then show ?thesis using dv(2) exc
      by (intro not_globalI [of "ipv4 0 0 0 0" 8]) (simp_all add: private_networks_def ipv4_def [of 0 0 0 0])
  next
    case 2
    then show ?thesis using dv(2) exc
      by (intro not_globalI [of "ipv4 10 0 0 0" 8]) (simp_all add: private_networks_def ipv4_def [of 10 0 0 0])
  next
    case 3
    then show ?thesis using dv(2) exc
      by (intro not_globalI [of "ipv4 127 0 0 0" 8]) (simp_all add: private_networks_def ipv4_def [of 127 0 0 0])
  next
    case 4
    then show ?thesis using dv(1) exc
      by (intro not_globalI [of "ipv4 169 254 0 0" 16]) (simp_all add: private_networks_def ipv4_def [of 169 254 0 0])
  next
    case 5
    then have "int b div 16 = 1" by simp
    then show ?thesis using 5 dv(3) exc
      by (intro not_globalI [of "ipv4 172 16 0 0" 12]) (simp_all add: private_networks_def ipv4_def [of 172 16 0 0])
  next
    case 6
    then show ?thesis using dv(1) exc
      by (intro not_globalI [of "ipv4 192 168 0 0" 16]) (simp_all add: private_networks_def ipv4_def [of 192 168 0 0])
  next
    case 7
    then have "int b div 64 = 1" by simp
    then show ?thesis using 7 dv(4) by (simp add: ipv4_global_def in_network_def ipv4_def [of 100 64 0 0])
  next
    case 8
    then have "int a div 16 = 15" using assms(2) by simp
    then show ?thesis using 8 dv(5) exc
      by (intro not_globalI [of "ipv4 240 0 0 0" 4]) (simp_all add: private_networks_def ipv4_def [of 240 0 0 0])
  qed
qed

text \<open>
  Whatever the allowlist says, an adapter is never pointed at an internal IPv4 address: for every
  address of the loopback, private, link-local (cloud metadata), carrier-grade NAT and reserved ranges the
  endpoint check refuses every URL whose host is that address, with or without a trailing dot.\<close>

lemma private_ipv4_refused:
  assumes "private_range a b" "a \<le> 255" "b \<le> 255" "c \<le> 255" "d \<le> 255"
    and "urlparse ip6 endpoint = Some u"
    and "rstrip_char CHR ''.'' (lower (pu_hostname u)) = dotted a b c d"
  shows "validated_https_endpoint ip6 endpoint allowed label default_path =
     Inl (label @ '' endpoint must be HTTPS, public and match an approved host'')"
proof -
  have "is_disallowed_host ip6 (dotted a b c d)"
    using assms(1-5) private_range_not_global by (intro is_disallowed_dotted) auto
  then show ?thesis using assms(6,7) by (simp add: validated_https_endpoint_def Let_def)
qed

definition metadata_url :: parsed_url where
  "metadata_url = \<lparr>pu_scheme = ''https'', pu_netloc = ''169.254.169.254.'', pu_path = ''/latest'',
     pu_query = [], pu_fragment = []\<rparr>"

lemma private_ipv4_refused_witness:
  "validated_https_endpoint no_ip6 ''https://169.254.169.254./latest'' [''169.254.169.254''] ''MCP'' ''/'' =
     Inl (''MCP'' @ '' endpoint must be HTTPS, public and match an approved host'')"
proof (rule private_ipv4_refused [of 169 254 169 254 no_ip6 _ metadata_url])
  show "urlparse no_ip6 ''https://169.254.169.254./latest'' = Some metadata_url" by code_simp
  show "rstrip_char CHR ''.'' (lower (pu_hostname metadata_url)) = dotted 169 254 169 254" by code_simp
qed (simp_all add: private_range_def)

text \<open>A parser that knows one public IPv6 address.\<close>

definition one_ip6 :: ip6_parser where
  "one_ip6 s = (if s = ''2606:4700::1111'' then Some True else None)"

text \<open>
  An IPv6 literal loses its brackets in the sanitised URL: the host of the accepted endpoint is the
  address, and the URL that is returned for it names another host and no valid port.\<close>

lemma ipv6_endpoint_loses_brackets:
  "validated_https_endpoint one_ip6 ''https://[2606:4700::1111]/rpc'' [''2606:4700::1111''] ''MCP'' ''/'' =
       Inr ''https://2606:4700::1111/rpc'' \<and>
     (\<exists>u. urlparse one_ip6 ''https://2606:4700::1111/rpc'' = Some u \<and> pu_hostname u = ''2606'' \<and> pu_port u = Inl ())"
proof (rule conjI)
  show "validated_https_endpoint one_ip6 ''https://[2606:4700::1111]/rpc'' [''2606:4700::1111''] ''MCP'' ''/'' =
     Inr ''https://2606:4700::1111/rpc''" by code_simp
  let ?w = "\<lparr>pu_scheme = ''https'', pu_netloc = ''2606:4700::1111'', pu_path = ''/rpc'',
     pu_query = [], pu_fragment = []\<rparr>"
  have "urlparse one_ip6 ''https://2606:4700::1111/rpc'' = Some ?w \<and> pu_hostname ?w = ''2606'' \<and> pu_port ?w = Inl ()"
    by code_simp
  then show "\<exists>u. urlparse one_ip6 ''https://2606:4700::1111/rpc'' = Some u \<and> pu_hostname u = ''2606'' \<and> pu_port u = Inl ()"
    by blast
qed

end
