(* ===== verification/Claims_Auth.thy ===== *)
theory Claims_Auth
  imports Runtime_Models Py_Json Py_Base64 Outbound_Endpoints
begin

text \<open>
  The bearer token checks of \<^verbatim>\<open>packages/agent_runtime/auth.py\<close>: the shared claim checks, the HS256
  authenticator and the OIDC authenticator with its JWKS cache.

  Parameters, because their code is not part of the platform: \<open>json_loads\<close> (a value, a decoding error
  that the caller catches, or another exception such as the one for an over-long integer), \<open>hmac\<close>
  (HMAC-SHA256 of a key and a message), \<open>rsa_verify\<close> (the \<^verbatim>\<open>cryptography\<close> package), the HTTP transport and
  the clock. The n-th reading of the clock and the n-th HTTP request have each their own answer, so a
  token check sees time pass and keys rotate between its steps.

  An exception that is not an \<^verbatim>\<open>AuthenticationError\<close> is \<open>Uncaught\<close>: the API turns the first kind into
  status 401 and does not handle the second.
\<close>

datatype auth_error = AuthenticationError string | Uncaught string

section \<open>Segments and claims\<close>

definition ascii_text :: "string \<Rightarrow> bool" where
  "ascii_text s \<longleftrightarrow> (\<forall>c\<in>set s. code c < 128)"

definition decode_segment :: "string \<Rightarrow> (auth_error, string) result" where
  "decode_segment segment =
     (if \<not> ascii_text segment then Inl (AuthenticationError ''malformed token encoding'')
      else (case urlsafe_b64decode (with_padding segment) of
          None \<Rightarrow> Inl (AuthenticationError ''malformed token encoding'')
        | Some b \<Rightarrow> Inr b))"

definition json_segment :: "(string \<Rightarrow> json_outcome) \<Rightarrow> string \<Rightarrow> (auth_error, pydict) result" where
  "json_segment json_loads segment =
     (case decode_segment segment of
        Inl e \<Rightarrow> Inl e
      | Inr raw \<Rightarrow>
          (case json_loads raw of
             JDecodeError \<Rightarrow> Inl (AuthenticationError ''malformed token JSON'')
           | JOtherError \<Rightarrow> Inl (Uncaught ''ValueError'')
           | JValue v \<Rightarrow>
               (case as_dict v of
                  None \<Rightarrow> Inl (AuthenticationError ''token segment must be a JSON object'')
                | Some d \<Rightarrow> Inr d)))"

definition claim_text :: "pydict \<Rightarrow> string \<Rightarrow> (auth_error, string) result" where
  "claim_text claims name =
     (case as_str (dget claims name) of
        None \<Rightarrow> Inl (AuthenticationError (''token claim '' @ name @ '' is required''))
      | Some v \<Rightarrow>
          if blank v \<or> length v > 256
          then Inl (AuthenticationError (''token claim '' @ name @ '' is required''))
          else Inr (strip v))"

record claim_names =
  cn_workspace :: string
  cn_tenant :: string
  cn_role :: string

definition default_claim_names :: claim_names where
  "default_claim_names = \<lparr>cn_workspace = ''workspace_id'', cn_tenant = ''tenant_id'', cn_role = ''role''\<rparr>"

definition audience_ok :: "string option \<Rightarrow> pyval \<Rightarrow> bool" where
  "audience_ok audience v =
     (case audience of None \<Rightarrow> True
      | Some a \<Rightarrow> v = VStr a \<or> (case as_list v of None \<Rightarrow> False | Some xs \<Rightarrow> VStr a \<in> set xs))"

text \<open>The four claims in the order the constructor call evaluates them.\<close>

definition identity_claims :: "claim_names \<Rightarrow> pydict \<Rightarrow> (auth_error, identity_context) result" where
  "identity_claims cn claims =
     (case claim_text claims ''sub'' of Inl e \<Rightarrow> Inl e | Inr u \<Rightarrow>
     (case claim_text claims (cn_workspace cn) of Inl e \<Rightarrow> Inl e | Inr w \<Rightarrow>
     (case claim_text claims (cn_tenant cn) of Inl e \<Rightarrow> Inl e | Inr t \<Rightarrow>
     (case claim_text claims (cn_role cn) of Inl e \<Rightarrow> Inl e | Inr r \<Rightarrow>
        Inr \<lparr>user_id = u, workspace_id = w, tenant_id = t, role = r\<rparr>))))"

definition identity_from_claims ::
    "rat \<Rightarrow> string option \<Rightarrow> string option \<Rightarrow> claim_names \<Rightarrow> pydict \<Rightarrow> (auth_error, identity_context) result" where
  "identity_from_claims now issuer audience cn claims =
     (if (case issuer of None \<Rightarrow> False | Some i \<Rightarrow> dget claims ''iss'' \<noteq> VStr i)
      then Inl (AuthenticationError ''token issuer is not trusted'')
      else if \<not> audience_ok audience (dget claims ''aud'')
      then Inl (AuthenticationError ''token audience is not trusted'')
      else (case as_num (dget claims ''exp'') of
          None \<Rightarrow> Inl (AuthenticationError ''token is expired or has no expiry'')
        | Some expiry \<Rightarrow>
            if num_le expiry (Finite now)
            then Inl (AuthenticationError ''token is expired or has no expiry'')
            else if dget claims ''nbf'' \<noteq> VNone \<and>
              (case as_num (dget claims ''nbf'') of None \<Rightarrow> True | Some nbf \<Rightarrow> num_less (Finite now) nbf)
            then Inl (AuthenticationError ''token is not active'')
            else identity_claims cn claims))"

section \<open>HS256\<close>

text \<open>The UTF-8 encoding of a Latin-1 text.\<close>

definition utf8_encode :: "string \<Rightarrow> string" where
  "utf8_encode s = concat (map (\<lambda>c. let n = code c in
     if n < 128 then [c] else [char_of (192 + n div 64), char_of (128 + n mod 64)]) s)"

record hs256_authenticator =
  hs_secret :: string
  hs_issuer :: "string option"
  hs_audience :: "string option"

definition hs256_init :: "string \<Rightarrow> string option \<Rightarrow> string option \<Rightarrow> (string, hs256_authenticator) result" where
  "hs256_init secret issuer audience =
     (if length (utf8_encode secret) < 32 then Inl ''JWT secret must contain at least 32 UTF-8 bytes''
      else Inr \<lparr>hs_secret = utf8_encode secret, hs_issuer = issuer, hs_audience = audience\<rparr>)"

text \<open>\<^verbatim>\<open>header.get("typ") not in {None, "JWT"}\<close>: a list or a dictionary is not hashable.\<close>

definition typ_check :: "pydict \<Rightarrow> (auth_error, bool) result" where
  "typ_check header =
     (if as_list (dget header ''typ'') \<noteq> None \<or> as_dict (dget header ''typ'') \<noteq> None
      then Inl (Uncaught ''TypeError'')
      else Inr (dget header ''typ'' = VNone \<or> dget header ''typ'' = VStr ''JWT''))"

definition header_check :: "string \<Rightarrow> pydict \<Rightarrow> (auth_error, unit) result" where
  "header_check alg header =
     (if dget header ''alg'' \<noteq> VStr alg
      then Inl (AuthenticationError (''only '' @ alg @ '' JWT tokens are accepted''))
      else (case typ_check header of
          Inl e \<Rightarrow> Inl e
        | Inr ok \<Rightarrow> if ok then Inr () else Inl (AuthenticationError (''only '' @ alg @ '' JWT tokens are accepted''))))"

text \<open>The three segments of \<^verbatim>\<open>Bearer a.b.c\<close>, shared by both authenticators.\<close>

definition bearer_segments :: "string option \<Rightarrow> (auth_error, string \<times> string \<times> string) result" where
  "bearer_segments authorization =
     (case authorization of
        None \<Rightarrow> Inl (AuthenticationError ''Bearer authentication is required'')
      | Some text \<Rightarrow>
          if text = [] \<or> \<not> startswith text ''Bearer '' then
            Inl (AuthenticationError ''Bearer authentication is required'')
          else (case split_on CHR ''.'' (drop 7 text) of
              [a, b, c] \<Rightarrow> if a = [] \<or> b = [] \<or> c = [] then Inl (AuthenticationError ''malformed bearer token'')
                           else Inr (a, b, c)
            | _ \<Rightarrow> Inl (AuthenticationError ''malformed bearer token'')))"

definition hs256_authenticate ::
    "(string \<Rightarrow> json_outcome) \<Rightarrow> (string \<Rightarrow> string \<Rightarrow> string) \<Rightarrow> rat \<Rightarrow> hs256_authenticator \<Rightarrow> string option \<Rightarrow>
     (auth_error, identity_context) result" where
  "hs256_authenticate json_loads hmac now a authorization =
     (case bearer_segments authorization of Inl e \<Rightarrow> Inl e | Inr (h, p, s) \<Rightarrow>
     (case json_segment json_loads h of Inl e \<Rightarrow> Inl e | Inr header \<Rightarrow>
     (case header_check ''HS256'' header of Inl e \<Rightarrow> Inl e | Inr _ \<Rightarrow>
        if \<not> ascii_text (h @ ''.'' @ p) then Inl (AuthenticationError ''malformed bearer token'')
        else (case decode_segment s of Inl e \<Rightarrow> Inl e | Inr actual \<Rightarrow>
          if actual \<noteq> hmac (hs_secret a) (h @ ''.'' @ p)
          then Inl (AuthenticationError ''invalid bearer signature'')
          else (case json_segment json_loads p of Inl e \<Rightarrow> Inl e | Inr claims \<Rightarrow>
            identity_from_claims now (hs_issuer a) (hs_audience a) default_claim_names claims)))))"

section \<open>OIDC with a JWKS cache\<close>

datatype rsa_outcome = RsaValid | RsaInvalidSignature | RsaRejected

record auth_env =
  ae_ip6 :: ip6_parser
  ae_json_loads :: "string \<Rightarrow> json_outcome"
  ae_clock :: "nat \<Rightarrow> rat"
  ae_open :: "nat \<Rightarrow> string \<Rightarrow> string option"
  ae_cryptography :: bool
  ae_rsa_verify :: "nat \<Rightarrow> nat \<Rightarrow> string \<Rightarrow> string \<Rightarrow> rsa_outcome"
  ae_repr :: "pyval \<Rightarrow> string"

record jwks_config =
  jc_issuer :: string
  jc_audience :: "string option"
  jc_timeout_seconds :: rat
  jc_cache_seconds :: int
  jc_names :: claim_names
  jc_approved_hosts :: "string list"
  jc_fetcher :: "(nat \<Rightarrow> pyval) option"

text \<open>
  The mutable fields, and two ghost counters: how often the clock was read and how many requests were
  sent.
\<close>

record jwks_state =
  js_jwks_uri :: "string option"
  js_keys :: "(string, pydict) dict"
  js_cache_expires_at :: rat
  js_ticks :: nat
  js_requests :: nat

definition validate_endpoint :: "auth_env \<Rightarrow> string list \<Rightarrow> string \<Rightarrow> (string, string) result" where
  "validate_endpoint env approved endpoint = validated_https_endpoint (ae_ip6 env) endpoint approved ''OIDC'' ''/''"

definition oidc_hosts :: "string list \<Rightarrow> string list" where
  "oidc_hosts allowed = map (\<lambda>h. lower (strip h)) (filter (\<lambda>h. \<not> blank h) allowed)"

definition jwks_init ::
    "auth_env \<Rightarrow> string \<Rightarrow> string option \<Rightarrow> string list \<Rightarrow> string option \<Rightarrow> rat \<Rightarrow> int \<Rightarrow> claim_names \<Rightarrow>
     (nat \<Rightarrow> pyval) option \<Rightarrow> (string, jwks_config \<times> jwks_state) result" where
  "jwks_init env issuer audience allowed jwks_uri timeout cache names fetcher =
     (case urlparse (ae_ip6 env) issuer of
        None \<Rightarrow> Inl ''Invalid IPv6 URL''
      | Some parsed \<Rightarrow>
          let host = lower (pu_hostname parsed); approved = oidc_hosts allowed in
          if pu_scheme parsed \<noteq> ''https'' \<or> host = [] \<or> host \<notin> set approved
          then Inl ''OIDC issuer must be HTTPS and match an approved host''
          else if pu_username parsed \<noteq> [] \<or> pu_password parsed \<noteq> [] \<or> pu_query parsed \<noteq> [] \<or> pu_fragment parsed \<noteq> []
          then Inl ''OIDC issuer must not embed credentials or query values''
          else if timeout \<le> 0 \<or> timeout > 30 then Inl ''OIDC timeout must be between 0 and 30 seconds''
          else if cache \<le> 0 \<or> cache > 86400 then Inl ''OIDC JWKS cache must be between 1 and 86400 seconds''
          else
            let config = \<lparr>jc_issuer = rstrip_char CHR ''/'' issuer, jc_audience = audience,
                  jc_timeout_seconds = timeout, jc_cache_seconds = cache, jc_names = names,
                  jc_approved_hosts = approved, jc_fetcher = fetcher\<rparr>;
                state = \<lambda>uri. \<lparr>js_jwks_uri = uri, js_keys = [], js_cache_expires_at = 0,
                  js_ticks = 0, js_requests = 0\<rparr>
            in (case jwks_uri of
                  None \<Rightarrow> Inr (config, state None)
                | Some u \<Rightarrow>
                    if u = [] then Inr (config, state None)
                    else (case validate_endpoint env approved u of
                        Inl e \<Rightarrow> Inl e
                      | Inr uri \<Rightarrow> Inr (config, state (Some uri)))))"

definition read_clock :: "auth_env \<Rightarrow> jwks_state \<Rightarrow> rat \<times> jwks_state" where
  "read_clock env st = (ae_clock env (js_ticks st), st\<lparr>js_ticks := js_ticks st + 1\<rparr>)"

definition max_oidc_bytes :: nat where
  "max_oidc_bytes = 1024 * 1024"

definition fetch_json ::
    "auth_env \<Rightarrow> jwks_state \<Rightarrow> string \<Rightarrow> (auth_error, pydict) result \<times> jwks_state" where
  "fetch_json env st endpoint =
     (let st' = st\<lparr>js_requests := js_requests st + 1\<rparr> in
      (case ae_open env (js_requests st) endpoint of
         None \<Rightarrow> (Inl (AuthenticationError ''OIDC discovery or JWKS request failed''), st')
       | Some full \<Rightarrow>
           let raw = take (max_oidc_bytes + 1) full in
           if length raw > max_oidc_bytes
           then (Inl (AuthenticationError ''OIDC discovery or JWKS response exceeded the limit''), st')
           else (case ae_json_loads env raw of
               JDecodeError \<Rightarrow> (Inl (AuthenticationError ''OIDC discovery or JWKS returned invalid JSON''), st')
             | JOtherError \<Rightarrow> (Inl (Uncaught ''ValueError''), st')
             | JValue v \<Rightarrow> (case as_dict v of
                 None \<Rightarrow> (Inl (AuthenticationError ''OIDC discovery or JWKS response must be an object''), st')
               | Some d \<Rightarrow> (Inr d, st')))))"

definition discovery_jwks_uri ::
    "auth_env \<Rightarrow> jwks_config \<Rightarrow> jwks_state \<Rightarrow> (auth_error, string) result \<times> jwks_state" where
  "discovery_jwks_uri env cfg st =
     (case fetch_json env st (jc_issuer cfg @ ''/.well-known/openid-configuration'') of
        (Inl e, st1) \<Rightarrow> (Inl e, st1)
      | (Inr body, st1) \<Rightarrow>
          if dget body ''issuer'' \<noteq> VStr (jc_issuer cfg)
          then (Inl (AuthenticationError ''OIDC discovery issuer does not match configuration''), st1)
          else (case as_str (dget body ''jwks_uri'') of
              None \<Rightarrow> (Inl (AuthenticationError ''OIDC discovery has no JWKS URI''), st1)
            | Some u \<Rightarrow> (case validate_endpoint env (jc_approved_hosts cfg) u of
                  Inl e \<Rightarrow> (Inl (Uncaught ''ValueError''), st1)
                | Inr uri \<Rightarrow> (Inr uri, st1\<lparr>js_jwks_uri := Some uri\<rparr>))))"

text \<open>The loop over the key set: a later key with the same id replaces an earlier one.\<close>

definition trusted_key :: "pyval \<Rightarrow> (string \<times> pydict) option" where
  "trusted_key item =
     (case as_dict item of None \<Rightarrow> None
      | Some d \<Rightarrow>
          if dget d ''kty'' \<noteq> VStr ''RSA'' then None
          else (case as_str (dget d ''kid'') of None \<Rightarrow> None
            | Some k \<Rightarrow> if k \<noteq> [] \<and> dget_default d ''alg'' (VStr ''RS256'') = VStr ''RS256'' then Some (k, d) else None))"

fun collect_keys :: "(string, pydict) dict \<Rightarrow> pyval list \<Rightarrow> (string, pydict) dict" where
  "collect_keys keys [] = keys"
| "collect_keys keys (item # items) =
     (case trusted_key item of
        None \<Rightarrow> collect_keys keys items
      | Some (k, d) \<Rightarrow> collect_keys (AList.update k d keys) items)"

definition jwks_body ::
    "auth_env \<Rightarrow> jwks_config \<Rightarrow> jwks_state \<Rightarrow> (auth_error, pyval) result \<times> jwks_state" where
  "jwks_body env cfg st =
     (case jc_fetcher cfg of
        Some f \<Rightarrow> (Inr (f (js_requests st)), st\<lparr>js_requests := js_requests st + 1\<rparr>)
      | None \<Rightarrow>
          (case (case js_jwks_uri st of Some u \<Rightarrow> (Inr u, st) | None \<Rightarrow> discovery_jwks_uri env cfg st) of
             (Inl e, st1) \<Rightarrow> (Inl e, st1)
           | (Inr uri, st1) \<Rightarrow> map_prod (map_sum id VDict) id (fetch_json env st1 uri)))"

definition refresh_keys ::
    "auth_env \<Rightarrow> jwks_config \<Rightarrow> jwks_state \<Rightarrow> (auth_error, unit) result \<times> jwks_state" where
  "refresh_keys env cfg st =
     (case jwks_body env cfg st of
        (Inl e, st1) \<Rightarrow> (Inl e, st1)
      | (Inr body, st1) \<Rightarrow>
          (case as_dict body of
             None \<Rightarrow> (Inl (AuthenticationError ''OIDC JWKS response is invalid''), st1)
           | Some b \<Rightarrow>
               (case as_list (dget b ''keys'') of
                  None \<Rightarrow> (Inl (AuthenticationError ''OIDC JWKS response is invalid''), st1)
                | Some items \<Rightarrow>
                    let keys = collect_keys [] items in
                    if keys = [] then (Inl (AuthenticationError ''OIDC JWKS contains no trusted RSA keys''), st1)
                    else (let (now, st2) = read_clock env (st1\<lparr>js_keys := keys\<rparr>) in
                      (Inr (), st2\<lparr>js_cache_expires_at := now + of_int (jc_cache_seconds cfg)\<rparr>)))))"

definition key_for ::
    "auth_env \<Rightarrow> jwks_config \<Rightarrow> jwks_state \<Rightarrow> string \<Rightarrow> (auth_error, pydict) result \<times> jwks_state" where
  "key_for env cfg st kid =
     (let (now, st0) = read_clock env st in
      (case (if now \<ge> js_cache_expires_at st then refresh_keys env cfg st0 else (Inr (), st0)) of
         (Inl e, st1) \<Rightarrow> (Inl e, st1)
       | (Inr _, st1) \<Rightarrow>
           (case map_of (js_keys st1) kid of
              Some key \<Rightarrow> (Inr key, st1)
            | None \<Rightarrow>
                (case refresh_keys env cfg st1 of
                   (Inl e, st2) \<Rightarrow> (Inl e, st2)
                 | (Inr _, st2) \<Rightarrow>
                     (case map_of (js_keys st2) kid of
                        None \<Rightarrow> (Inl (AuthenticationError ''token signing key is not trusted''), st2)
                      | Some key \<Rightarrow> (Inr key, st2))))))"

text \<open>\<^verbatim>\<open>int.from_bytes(b, "big")\<close>.\<close>

definition int_from_bytes :: "string \<Rightarrow> nat" where
  "int_from_bytes b = foldl (\<lambda>n c. 256 * n + code c) 0 b"

definition jwk_number :: "auth_env \<Rightarrow> pydict \<Rightarrow> string \<Rightarrow> nat option" where
  "jwk_number env jwk name =
     (case map_of jwk name of None \<Rightarrow> None
      | Some v \<Rightarrow> (case decode_segment (py_str (ae_repr env) v) of Inl _ \<Rightarrow> None | Inr b \<Rightarrow> Some (int_from_bytes b)))"

definition verify_signature ::
    "auth_env \<Rightarrow> pydict \<Rightarrow> string \<Rightarrow> string \<Rightarrow> (auth_error, unit) result" where
  "verify_signature env jwk signed signature =
     (if \<not> ae_cryptography env
      then Inl (AuthenticationError ''cryptography is required for OIDC RS256 authentication'')
      else (case (jwk_number env jwk ''n'', jwk_number env jwk ''e'') of
          (Some modulus, Some exponent) \<Rightarrow>
            (case ae_rsa_verify env exponent modulus signed signature of
               RsaValid \<Rightarrow> Inr ()
             | RsaInvalidSignature \<Rightarrow> Inl (Uncaught ''InvalidSignature'')
             | RsaRejected \<Rightarrow> Inl (AuthenticationError ''OIDC token signature is invalid''))
        | _ \<Rightarrow> Inl (AuthenticationError ''OIDC token signature is invalid'')))"

definition token_kid :: "pydict \<Rightarrow> (auth_error, string) result" where
  "token_kid header =
     (case as_str (dget header ''kid'') of
        None \<Rightarrow> Inl (AuthenticationError ''token key id is required'')
      | Some k \<Rightarrow> if k = [] \<or> length k > 256 then Inl (AuthenticationError ''token key id is required'') else Inr k)"

definition jwks_claims ::
    "auth_env \<Rightarrow> jwks_config \<Rightarrow> jwks_state \<Rightarrow> string \<Rightarrow> (auth_error, identity_context) result \<times> jwks_state" where
  "jwks_claims env cfg st p =
     (case json_segment (ae_json_loads env) p of
        Inl e \<Rightarrow> (Inl e, st)
      | Inr claims \<Rightarrow>
          let (now, st') = read_clock env st in
          (identity_from_claims now (Some (jc_issuer cfg)) (jc_audience cfg) (jc_names cfg) claims, st'))"

definition jwks_authenticate ::
    "auth_env \<Rightarrow> jwks_config \<Rightarrow> jwks_state \<Rightarrow> string option \<Rightarrow>
     (auth_error, identity_context) result \<times> jwks_state" where
  "jwks_authenticate env cfg st authorization =
     (case bearer_segments authorization of Inl e \<Rightarrow> (Inl e, st) | Inr (h, p, s) \<Rightarrow>
     (case json_segment (ae_json_loads env) h of Inl e \<Rightarrow> (Inl e, st) | Inr header \<Rightarrow>
     (case header_check ''RS256'' header of Inl e \<Rightarrow> (Inl e, st) | Inr _ \<Rightarrow>
     (case token_kid header of Inl e \<Rightarrow> (Inl e, st) | Inr kid \<Rightarrow>
        if \<not> ascii_text (h @ ''.'' @ p) then (Inl (AuthenticationError ''malformed bearer token''), st)
        else (case key_for env cfg st kid of
            (Inl e, st1) \<Rightarrow> (Inl e, st1)
          | (Inr key, st1) \<Rightarrow>
              (case decode_segment s of Inl e \<Rightarrow> (Inl e, st1) | Inr signature \<Rightarrow>
              (case verify_signature env key (h @ ''.'' @ p) signature of
                 Inl e \<Rightarrow> (Inl e, st1)
               | Inr _ \<Rightarrow> jwks_claims env cfg st1 p)))))))"

section \<open>Lemmas\<close>

lemma split_on_Cons_iff:
  "split_on c s = a # b # r \<longleftrightarrow> (\<exists>t. s = a @ c # t \<and> c \<notin> set a \<and> split_on c t = b # r)"
  (is "?l \<longleftrightarrow> ?r")
proof
  show "?l \<Longrightarrow> ?r"
  proof (induction s arbitrary: a)
    case (Cons x s)
    show ?case
    proof (cases "x = c")
      case True
      then show ?thesis using Cons.prems by auto
    next
      case False
      then obtain a' where "split_on c s = a' # b # r" "a = x # a'"
        using Cons.prems by (auto split: list.splits)
      then show ?thesis using Cons.IH False by fastforce
    qed
  qed simp
  show "?r \<Longrightarrow> ?l" by (auto simp: split_on_append)
qed

lemma split_on_single_iff: "split_on c s = [a] \<longleftrightarrow> s = a \<and> c \<notin> set a"
proof
  show "split_on c s = [a] \<Longrightarrow> s = a \<and> c \<notin> set a"
    by (induction s arbitrary: a) (auto split: list.splits if_splits)
qed (simp add: split_on_single)

lemma split_on_three_iff:
  "split_on c t = [h, p, s] \<longleftrightarrow> t = h @ c # p @ c # s \<and> c \<notin> set h \<and> c \<notin> set p \<and> c \<notin> set s"
  unfolding split_on_Cons_iff split_on_single_iff by auto

text \<open>A bearer text with three non-empty segments.\<close>

definition bearer_token :: "string \<Rightarrow> string \<Rightarrow> string \<Rightarrow> string" where
  "bearer_token h p s = ''Bearer '' @ h @ ''.'' @ p @ ''.'' @ s"

definition segments_ok :: "string \<Rightarrow> string \<Rightarrow> string \<Rightarrow> bool" where
  "segments_ok h p s \<longleftrightarrow> h \<noteq> [] \<and> p \<noteq> [] \<and> s \<noteq> [] \<and>
     CHR ''.'' \<notin> set h \<and> CHR ''.'' \<notin> set p \<and> CHR ''.'' \<notin> set s"

lemma bearer_segments_iff:
  "bearer_segments a = Inr (h, p, s) \<longleftrightarrow> a = Some (bearer_token h p s) \<and> segments_ok h p s"
proof (cases a)
  case (Some t)
  have pre: "startswith t ''Bearer '' \<and> drop 7 t = h @ CHR ''.'' # p @ CHR ''.'' # s \<longleftrightarrow>
      t = bearer_token h p s"
    using startswith_drop_iff [of t "''Bearer ''" "h @ CHR ''.'' # p @ CHR ''.'' # s"]
    by (simp add: bearer_token_def numeral_eq_Suc)
  have "bearer_segments a = Inr (h, p, s) \<longleftrightarrow>
      startswith t ''Bearer '' \<and> split_on CHR ''.'' (drop 7 t) = [h, p, s] \<and> h \<noteq> [] \<and> p \<noteq> [] \<and> s \<noteq> []"
    by (auto simp: bearer_segments_def Some startswith_def split: list.splits)
  then show ?thesis
    using pre by (auto simp: split_on_three_iff segments_ok_def Some)
qed (simp add: bearer_segments_def)

text \<open>What the claims of a token must say to give an identity.\<close>

definition claims_valid :: "rat \<Rightarrow> string option \<Rightarrow> string option \<Rightarrow> pydict \<Rightarrow> bool" where
  "claims_valid now issuer audience claims \<longleftrightarrow>
     (\<forall>i. issuer = Some i \<longrightarrow> dget claims ''iss'' = VStr i) \<and>
     (\<forall>a. audience = Some a \<longrightarrow> dget claims ''aud'' = VStr a \<or>
        (\<exists>xs. dget claims ''aud'' = VList xs \<and> VStr a \<in> set xs)) \<and>
     (\<exists>x. as_num (dget claims ''exp'') = Some x \<and> \<not> num_le x (Finite now)) \<and>
     (dget claims ''nbf'' = VNone \<or> (\<exists>y. as_num (dget claims ''nbf'') = Some y \<and> \<not> num_less (Finite now) y))"

definition good_claim :: "pydict \<Rightarrow> string \<Rightarrow> string \<Rightarrow> bool" where
  "good_claim claims name s \<longleftrightarrow> (\<exists>v. dget claims name = VStr v \<and> \<not> blank v \<and> length v \<le> 256 \<and> s = strip v)"

definition claims_identity :: "claim_names \<Rightarrow> pydict \<Rightarrow> identity_context \<Rightarrow> bool" where
  "claims_identity cn claims i \<longleftrightarrow> good_claim claims ''sub'' (user_id i) \<and>
     good_claim claims (cn_workspace cn) (workspace_id i) \<and> good_claim claims (cn_tenant cn) (tenant_id i) \<and>
     good_claim claims (cn_role cn) (role i)"

lemma claim_text_iff: "claim_text claims name = Inr s \<longleftrightarrow> good_claim claims name s"
  by (auto simp: claim_text_def good_claim_def split: option.splits)

lemma identity_claims_iff: "identity_claims cn claims = Inr i \<longleftrightarrow> claims_identity cn claims i"
proof -
  have "identity_claims cn claims = Inr i \<longleftrightarrow>
      claim_text claims ''sub'' = Inr (user_id i) \<and> claim_text claims (cn_workspace cn) = Inr (workspace_id i) \<and>
      claim_text claims (cn_tenant cn) = Inr (tenant_id i) \<and> claim_text claims (cn_role cn) = Inr (role i)"
    by (cases i) (auto simp: identity_claims_def split: sum.splits)
  then show ?thesis by (simp add: claim_text_iff claims_identity_def)
qed

lemma audience_ok_iff:
  "audience_ok audience v \<longleftrightarrow>
     (\<forall>a. audience = Some a \<longrightarrow> v = VStr a \<or> (\<exists>xs. v = VList xs \<and> VStr a \<in> set xs))"
  by (auto simp: audience_ok_def split: option.splits)

lemma identity_from_claims_iff:
  "identity_from_claims now issuer audience cn claims = Inr i \<longleftrightarrow>
     claims_valid now issuer audience claims \<and> claims_identity cn claims i"
  by (auto simp: identity_from_claims_def claims_valid_def audience_ok_iff [symmetric]
      identity_claims_iff [symmetric] split: option.splits if_splits)

lemma header_check_iff:
  "header_check alg header = Inr () \<longleftrightarrow>
     dget header ''alg'' = VStr alg \<and> (dget header ''typ'' = VNone \<or> dget header ''typ'' = VStr ''JWT'')"
  by (auto simp: header_check_def typ_check_def split: sum.splits)

lemma json_segment_iff:
  "json_segment json_loads seg = Inr d \<longleftrightarrow>
     (\<exists>raw. decode_segment seg = Inr raw \<and> json_loads raw = JValue (VDict d))"
  by (auto simp: json_segment_def split: sum.splits json_outcome.splits option.splits)

lemma decode_unpadded: "decode_segment (rstrip_char CHR ''='' (urlsafe_b64encode bs)) = Inr bs"
  using unpadded_shape [of bs]
  by (auto simp: decode_segment_def ascii_text_def segment_text_def urlsafe_b64_round_trip)

section \<open>Properties of the HS256 authenticator\<close>

text \<open>
  C14. An HS256 token gives an identity exactly when it has three non-empty segments, its header asks for
  HS256, its last segment is the HMAC of the first two under the configured secret, its claims name the
  configured issuer and audience, it is unexpired and active, and the four identity claims are non-blank
  and bounded; the identity is those four claims and nothing else.\<close>

theorem hs256_authenticate_iff:
  "hs256_authenticate json_loads hmac now a authorization = Inr i \<longleftrightarrow>
     (\<exists>h p s header claims raw_header raw_claims.
        authorization = Some (bearer_token h p s) \<and> segments_ok h p s \<and> ascii_text (h @ ''.'' @ p) \<and>
        decode_segment h = Inr raw_header \<and> json_loads raw_header = JValue (VDict header) \<and>
        dget header ''alg'' = VStr ''HS256'' \<and> (dget header ''typ'' = VNone \<or> dget header ''typ'' = VStr ''JWT'') \<and>
        decode_segment s = Inr (hmac (hs_secret a) (h @ ''.'' @ p)) \<and>
        decode_segment p = Inr raw_claims \<and> json_loads raw_claims = JValue (VDict claims) \<and>
        claims_valid now (hs_issuer a) (hs_audience a) claims \<and> claims_identity default_claim_names claims i)"
  (is "?l \<longleftrightarrow> ?r")
proof -
  have "?l \<longleftrightarrow> (\<exists>h p s header claims. bearer_segments authorization = Inr (h, p, s) \<and>
      json_segment json_loads h = Inr header \<and> header_check ''HS256'' header = Inr () \<and>
      ascii_text (h @ ''.'' @ p) \<and> decode_segment s = Inr (hmac (hs_secret a) (h @ ''.'' @ p)) \<and>
      json_segment json_loads p = Inr claims \<and>
      identity_from_claims now (hs_issuer a) (hs_audience a) default_claim_names claims = Inr i)"
    by (auto simp: hs256_authenticate_def split: sum.splits if_splits)
  also have "\<dots> \<longleftrightarrow> ?r"
    unfolding bearer_segments_iff json_segment_iff header_check_iff identity_from_claims_iff by blast
  finally show ?thesis .
qed

text \<open>A token as an issuer builds it: base64url without padding, joined by dots.\<close>

definition b64url :: "string \<Rightarrow> string" where
  "b64url bs = rstrip_char CHR ''='' (urlsafe_b64encode bs)"

definition mint_hs256 :: "(string \<Rightarrow> string \<Rightarrow> string) \<Rightarrow> string \<Rightarrow> string \<Rightarrow> string \<Rightarrow> string" where
  "mint_hs256 hmac secret header claims =
     bearer_token (b64url header) (b64url claims) (b64url (hmac secret (b64url header @ ''.'' @ b64url claims)))"

lemma b64url_segment: "segment_text (b64url bs)"
  using unpadded_shape [of bs] by (auto simp: b64url_def)

lemma b64url_plain: "CHR ''.'' \<notin> set (b64url bs)" "ascii_text (b64url bs)"
  using b64url_segment [of bs] by (auto simp: segment_text_def ascii_text_def)

lemma b64url_nonempty: "bs \<noteq> [] \<Longrightarrow> b64url bs \<noteq> []"
proof
  assume "bs \<noteq> []" "b64url bs = []"
  then have "decode_segment [] = Inr bs" using decode_unpadded [of bs] by (simp add: b64url_def)
  then show False using \<open>bs \<noteq> []\<close>
    by (simp add: decode_segment_def ascii_text_def with_padding_def urlsafe_b64decode_def)
qed

lemma mint_segments:
  "\<lbrakk>h \<noteq> []; c \<noteq> []; s \<noteq> []\<rbrakk> \<Longrightarrow> segments_ok (b64url h) (b64url c) (b64url s)"
  by (simp add: segments_ok_def b64url_nonempty b64url_plain)

text \<open>
  C19. Round trip: a token minted from a header and claims with the configured secret is accepted, and the
  identity is the one in the claims, for every content of the claims that is valid at the time.\<close>

theorem hs256_mint_round_trip:
  assumes "raw_header \<noteq> []" "raw_claims \<noteq> []" "\<And>k m. length (hmac k m) = 32"
    and "json_loads raw_header = JValue (VDict header)" "json_loads raw_claims = JValue (VDict claims)"
    and "dget header ''alg'' = VStr ''HS256''" "dget header ''typ'' = VStr ''JWT''"
  shows "hs256_authenticate json_loads hmac now a (Some (mint_hs256 hmac (hs_secret a) raw_header raw_claims)) =
     identity_from_claims now (hs_issuer a) (hs_audience a) default_claim_names claims"
proof -
  let ?h = "b64url raw_header" and ?c = "b64url raw_claims"
  let ?s = "b64url (hmac (hs_secret a) (?h @ ''.'' @ ?c))"
  have "hmac (hs_secret a) (?h @ ''.'' @ ?c) \<noteq> []" using assms(3) by (metis list.size(3) zero_neq_numeral)
  then have "bearer_segments (Some (mint_hs256 hmac (hs_secret a) raw_header raw_claims)) = Inr (?h, ?c, ?s)"
    using assms(1,2) mint_segments by (simp add: bearer_segments_iff mint_hs256_def)
  moreover have "json_segment json_loads ?h = Inr header" "json_segment json_loads ?c = Inr claims"
    using assms(4,5) decode_unpadded by (auto simp: json_segment_iff b64url_def)
  moreover have "header_check ''HS256'' header = Inr ()" using assms(6,7) by (simp add: header_check_iff)
  moreover have "ascii_text (?h @ ''.'' @ ?c)"
    using b64url_plain(2) [of raw_header] b64url_plain(2) [of raw_claims] by (auto simp: ascii_text_def code_def)
  moreover have "decode_segment ?s = Inr (hmac (hs_secret a) (?h @ ''.'' @ ?c))"
    using decode_unpadded by (simp add: b64url_def)
  ultimately show ?thesis by (simp add: hs256_authenticate_def)
qed

text \<open>A token world for the witnesses: a constant digest and a decoder that knows two texts.\<close>

definition demo_header :: pydict where
  "demo_header = [(''alg'', VStr ''HS256''), (''typ'', VStr ''JWT'')]"

definition demo_claims :: pydict where
  "demo_claims = [(''sub'', VStr ''user-a''), (''workspace_id'', VStr ''workspace-a''),
     (''tenant_id'', VStr '' tenant-a ''), (''role'', VStr ''customer''), (''exp'', VInt 100)]"

definition demo_loads :: "string \<Rightarrow> json_outcome" where
  "demo_loads raw = (if raw = ''h'' then JValue (VDict demo_header)
     else if raw = ''c'' then JValue (VDict demo_claims) else JDecodeError)"

definition demo_hmac :: "string \<Rightarrow> string \<Rightarrow> string" where
  "demo_hmac k m = take 32 (m @ k @ replicate 32 CHR ''x'')"

definition demo_hs256 :: hs256_authenticator where
  "demo_hs256 = \<lparr>hs_secret = replicate 32 CHR ''s'', hs_issuer = None, hs_audience = None\<rparr>"

theorem hs256_mint_round_trip_witness:
  "hs256_authenticate demo_loads demo_hmac 50 demo_hs256
     (Some (mint_hs256 demo_hmac (hs_secret demo_hs256) ''h'' ''c'')) =
   Inr \<lparr>user_id = ''user-a'', workspace_id = ''workspace-a'', tenant_id = ''tenant-a'', role = ''customer''\<rparr>"
proof -
  have "hs256_authenticate demo_loads demo_hmac 50 demo_hs256
      (Some (mint_hs256 demo_hmac (hs_secret demo_hs256) ''h'' ''c'')) =
    identity_from_claims 50 (hs_issuer demo_hs256) (hs_audience demo_hs256) default_claim_names demo_claims"
    by (rule hs256_mint_round_trip [where header = demo_header])
      (simp_all add: demo_hmac_def demo_loads_def demo_header_def)
  also have "\<dots> = Inr \<lparr>user_id = ''user-a'', workspace_id = ''workspace-a'', tenant_id = ''tenant-a'', role = ''customer''\<rparr>"
    by (simp add: identity_from_claims_def demo_hs256_def demo_claims_def audience_ok_def identity_claims_def
        claim_text_def default_claim_names_def blank_def strip_def is_space_def code_def)
  finally show ?thesis .
qed

text \<open>
  A token whose expiry is the number NaN (which \<^verbatim>\<open>json.loads\<close> reads) never expires: the comparison
  with the clock is false at every time.\<close>

lemma nan_expiry_never_expires:
  assumes "dget claims ''exp'' = VFloat NaN" "dget claims ''nbf'' = VNone"
  shows "identity_from_claims now None None cn claims = identity_claims cn claims"
  using assms by (simp add: identity_from_claims_def audience_ok_def)

section \<open>Properties of the OIDC authenticator\<close>

text \<open>Every cached key is an RSA key for RS256 stored under its own id.\<close>

definition keys_trusted :: "jwks_state \<Rightarrow> bool" where
  "keys_trusted st \<longleftrightarrow> (\<forall>k d. map_of (js_keys st) k = Some d \<longrightarrow> trusted_key (VDict d) = Some (k, d))"

lemma trusted_key_dict: "trusted_key v = Some (k, d) \<Longrightarrow> v = VDict d"
  by (auto simp: trusted_key_def split: option.splits if_splits)

lemma collect_keys_trusted:
  assumes "\<forall>k d. map_of keys k = Some d \<longrightarrow> trusted_key (VDict d) = Some (k, d)"
  shows "map_of (collect_keys keys items) k = Some d \<Longrightarrow> trusted_key (VDict d) = Some (k, d)"
  using assms
proof (induction items arbitrary: keys)
  case (Cons item items)
  show ?case
  proof (cases "trusted_key item")
    case None
    then show ?thesis using Cons by simp
  next
    case (Some kd)
    obtain k' d' where kd: "kd = (k', d')" by (cases kd)
    have "trusted_key (VDict d') = Some (k', d')" using Some kd trusted_key_dict [of item k' d'] by simp
    then have "\<forall>k d. map_of (AList.update k' d' keys) k = Some d \<longrightarrow> trusted_key (VDict d) = Some (k, d)"
      using Cons.prems(2) by auto
    then show ?thesis using Cons.IH Cons.prems(1) Some kd by auto
  qed
qed simp

text \<open>How each step changes the state, as a relation between the two states.\<close>

definition auth_frame :: "nat \<Rightarrow> jwks_state \<Rightarrow> jwks_state \<Rightarrow> bool" where
  "auth_frame n st st' \<longleftrightarrow> js_requests st \<le> js_requests st' \<and> js_requests st' \<le> js_requests st + n \<and>
     (keys_trusted st \<longrightarrow> keys_trusted st') \<and> (js_jwks_uri st \<noteq> None \<longrightarrow> js_jwks_uri st' = js_jwks_uri st)"

lemma auth_frame_refl: "auth_frame 0 st st"
  by (simp add: auth_frame_def)

lemma auth_frame_trans: "auth_frame m a b \<Longrightarrow> auth_frame n b c \<Longrightarrow> auth_frame (m + n) a c"
  by (auto simp: auth_frame_def)

lemma auth_frame_mono: "auth_frame m a b \<Longrightarrow> m \<le> n \<Longrightarrow> auth_frame n a b"
  by (auto simp: auth_frame_def)

lemma fetch_json_state: "snd (fetch_json env st url) = st\<lparr>js_requests := js_requests st + 1\<rparr>"
  by (simp add: fetch_json_def Let_def split: option.split json_outcome.split)

lemma fetch_json_frame: "fetch_json env st url = (r, st') \<Longrightarrow> auth_frame 1 st st'"
  using fetch_json_state [of env st url] by (auto simp: auth_frame_def keys_trusted_def)

lemma discovery_frame:
  assumes "discovery_jwks_uri env cfg st = (r, st')" "js_jwks_uri st = None"
  shows "auth_frame 1 st st'" "r = Inr uri \<Longrightarrow> js_jwks_uri st' = Some uri"
  using assms fetch_json_state [of env st "jc_issuer cfg @ ''/.well-known/openid-configuration''"]
  by (auto simp: discovery_jwks_uri_def auth_frame_def keys_trusted_def
      split: prod.splits sum.splits option.splits if_splits)

text \<open>The requests of one refresh: one, or two when the key set's address is not known yet.\<close>

definition refresh_cost :: "jwks_config \<Rightarrow> jwks_state \<Rightarrow> nat" where
  "refresh_cost cfg st = (if jc_fetcher cfg = None \<and> js_jwks_uri st = None then 2 else 1)"

lemma jwks_body_frame:
  assumes "jwks_body env cfg st = (r, st')"
  shows "auth_frame (refresh_cost cfg st) st st'"
    "r = Inr b \<Longrightarrow> jc_fetcher cfg = None \<Longrightarrow> js_jwks_uri st' \<noteq> None"
proof -
  show "auth_frame (refresh_cost cfg st) st st'"
  proof (cases "jc_fetcher cfg")
    case (Some f)
    then show ?thesis using assms by (auto simp: jwks_body_def auth_frame_def keys_trusted_def refresh_cost_def)
  next
    case None
    show ?thesis
    proof (cases "js_jwks_uri st")
      case (Some u)
      then show ?thesis
        using assms None fetch_json_frame [of env st u]
        by (cases "fetch_json env st u") (auto simp: jwks_body_def refresh_cost_def)
    next
      case N: None
      obtain r1 st1 where d: "discovery_jwks_uri env cfg st = (r1, st1)" by fastforce
      note f1 = discovery_frame(1) [OF d N]
      show ?thesis
      proof (cases r1)
        case (Inl e)
        then show ?thesis using assms None N d f1 by (auto simp: jwks_body_def refresh_cost_def intro: auth_frame_mono)
      next
        case (Inr uri)
        obtain r2 st2 where f: "fetch_json env st1 uri = (r2, st2)" by fastforce
        have "auth_frame (1 + 1) st st2" using f1 fetch_json_frame [OF f] by (rule auth_frame_trans)
        moreover have "st' = st2" using assms None N d Inr f by (simp add: jwks_body_def)
        ultimately show ?thesis using None N by (simp add: refresh_cost_def numeral_2_eq_2)
      qed
    qed
  qed
  show "js_jwks_uri st' \<noteq> None" if rb: "r = Inr b" and nf: "jc_fetcher cfg = None"
  proof (cases "js_jwks_uri st")
    case (Some u)
    then show ?thesis using assms nf fetch_json_state [of env st u]
      by (cases "fetch_json env st u") (auto simp: jwks_body_def)
  next
    case N: None
    obtain r1 st1 where d: "discovery_jwks_uri env cfg st = (r1, st1)" by fastforce
    then obtain uri where u: "r1 = Inr uri" using assms rb nf N by (cases r1) (auto simp: jwks_body_def)
    then have "js_jwks_uri st1 = Some uri" using discovery_frame(2) [OF d N] by simp
    then show ?thesis using assms nf N d u fetch_json_state [of env st1 uri]
      by (cases "fetch_json env st1 uri") (auto simp: jwks_body_def)
  qed
qed

lemma refresh_keys_frame:
  assumes "refresh_keys env cfg st = (r, st')"
  shows "auth_frame (refresh_cost cfg st) st st'" "r = Inr () \<Longrightarrow> refresh_cost cfg st' = 1"
proof -
  obtain rb st1 where b: "jwks_body env cfg st = (rb, st1)" by fastforce
  note f = jwks_body_frame(1) [OF b]
  consider (fail) e where "r = Inl e" "st' = st1"
    | (ok) body items where "rb = Inr body" "r = Inr ()" "js_keys st' = collect_keys [] items"
        "js_requests st' = js_requests st1" "js_jwks_uri st' = js_jwks_uri st1"
    using assms b by (auto simp: refresh_keys_def read_clock_def Let_def split: sum.splits option.splits if_splits)
  then show "auth_frame (refresh_cost cfg st) st st'"
  proof cases
    case ok
    have "keys_trusted st'" using collect_keys_trusted [of "[]"] ok(3) by (simp add: keys_trusted_def)
    then show ?thesis using f ok(4,5) by (simp add: auth_frame_def)
  qed (use f in simp)
  assume "r = Inr ()"
  then have "rb = Inr body \<Longrightarrow> js_jwks_uri st' = js_jwks_uri st1" "\<exists>body. rb = Inr body" for body
    using assms b by (auto simp: refresh_keys_def read_clock_def Let_def split: sum.splits option.splits if_splits)
  then show "refresh_cost cfg st' = 1"
    using jwks_body_frame(2) [OF b] unfolding refresh_cost_def by (metis (no_types, lifting))
qed


lemma key_for_frame:
  assumes "key_for env cfg st kid = (r, st')"
  shows "auth_frame 3 st st'"
    "r = Inr key \<Longrightarrow> map_of (js_keys st') kid = Some key"
    "ae_clock env (js_ticks st) < js_cache_expires_at st \<Longrightarrow> map_of (js_keys st) kid = Some key' \<Longrightarrow>
       r = Inr key' \<and> js_requests st' = js_requests st"
proof -
  define st0 where "st0 = st\<lparr>js_ticks := js_ticks st + 1\<rparr>"
  let ?fresh = "ae_clock env (js_ticks st) \<ge> js_cache_expires_at st"
  have f0: "auth_frame 0 st st0" by (simp add: auth_frame_def st0_def keys_trusted_def)
  have c0: "refresh_cost cfg st0 \<le> 2" by (simp add: refresh_cost_def)
  obtain r1 st1 where s1: "(if ?fresh then refresh_keys env cfg st0 else (Inr (), st0)) = (r1, st1)"
    by fastforce
  obtain r2 st2 where s2: "refresh_keys env cfg st1 = (r2, st2)" by fastforce
  have kf: "key_for env cfg st kid = (case r1 of Inl e \<Rightarrow> (Inl e, st1) | Inr _ \<Rightarrow>
      (case map_of (js_keys st1) kid of Some key \<Rightarrow> (Inr key, st1) | None \<Rightarrow>
        (case r2 of Inl e \<Rightarrow> (Inl e, st2) | Inr _ \<Rightarrow>
          (case map_of (js_keys st2) kid of
             None \<Rightarrow> (Inl (AuthenticationError ''token signing key is not trusted''), st2)
           | Some key \<Rightarrow> (Inr key, st2)))))"
    unfolding key_for_def read_clock_def Let_def case_prod_conv st0_def [symmetric] s1
    by (simp add: s2 split: sum.split option.split)
  have f1: "auth_frame 2 st st1"
    using s1 f0 auth_frame_trans [OF f0 refresh_keys_frame(1) [of env cfg st0 r1 st1]] c0
    by (auto split: if_splits intro: auth_frame_mono)
  have f2: "auth_frame 3 st st2" if "r1 = Inr ()"
  proof (cases ?fresh)
    case True
    then have "refresh_cost cfg st1 = 1" using s1 that refresh_keys_frame(2) [of env cfg st0 r1 st1] by simp
    then show ?thesis using auth_frame_trans [OF f1 refresh_keys_frame(1) [OF s2]] by simp
  next
    case False
    then have "st1 = st0" using s1 by simp
    then have "auth_frame (0 + refresh_cost cfg st1) st st2"
      using auth_frame_trans [OF f0] refresh_keys_frame(1) [OF s2] by metis
    moreover have "refresh_cost cfg st1 \<le> 2" by (simp add: refresh_cost_def)
    ultimately show ?thesis by (auto intro: auth_frame_mono)
  qed
  have f1': "auth_frame 3 st st1" using f1 by (rule auth_frame_mono) simp
  show "auth_frame 3 st st'"
    using assms f1' f2 unfolding kf by (auto split: sum.splits option.splits)
  show "map_of (js_keys st') kid = Some key" if "r = Inr key"
    using assms that unfolding kf by (auto split: sum.splits option.splits)
  show "r = Inr key' \<and> js_requests st' = js_requests st"
    if "ae_clock env (js_ticks st) < js_cache_expires_at st" "map_of (js_keys st) kid = Some key'"
  proof -
    have "r1 = Inr ()" "st1 = st0" using s1 that(1) by auto
    then show ?thesis using assms that(2) unfolding kf by (auto simp: st0_def)
  qed
qed

lemma verify_signature_iff:
  "verify_signature env jwk signed sg = Inr () \<longleftrightarrow> ae_cryptography env \<and>
     (\<exists>n e. jwk_number env jwk ''n'' = Some n \<and> jwk_number env jwk ''e'' = Some e \<and>
        ae_rsa_verify env e n signed sg = RsaValid)"
  by (auto simp: verify_signature_def split: option.splits rsa_outcome.splits)

text \<open>What an accepted OIDC token must be, apart from its key.\<close>

definition oidc_token ::
    "auth_env \<Rightarrow> string option \<Rightarrow> string \<Rightarrow> string \<Rightarrow> string \<Rightarrow> pydict \<Rightarrow> string \<Rightarrow> bool" where
  "oidc_token env authorization h p s header kid \<longleftrightarrow>
     authorization = Some (bearer_token h p s) \<and> segments_ok h p s \<and> ascii_text (h @ ''.'' @ p) \<and>
     json_segment (ae_json_loads env) h = Inr header \<and> header_check ''RS256'' header = Inr () \<and>
     token_kid header = Inr kid"

lemma jwks_authenticate_token:
  assumes "oidc_token env authorization h p s header kid"
  shows "jwks_authenticate env cfg st authorization =
     (case key_for env cfg st kid of
        (Inl e, st1) \<Rightarrow> (Inl e, st1)
      | (Inr key, st1) \<Rightarrow>
          (case decode_segment s of Inl e \<Rightarrow> (Inl e, st1) | Inr sg \<Rightarrow>
          (case verify_signature env key (h @ ''.'' @ p) sg of
             Inl e \<Rightarrow> (Inl e, st1)
           | Inr _ \<Rightarrow> jwks_claims env cfg st1 p)))"
proof -
  have "bearer_segments authorization = Inr (h, p, s)"
    using assms by (simp add: oidc_token_def bearer_segments_iff)
  then show ?thesis using assms by (simp add: jwks_authenticate_def oidc_token_def)
qed

lemma jwks_authenticate_no_token:
  assumes "\<nexists>h p s header kid. oidc_token env authorization h p s header kid"
  shows "\<exists>e. jwks_authenticate env cfg st authorization = (Inl e, st)"
proof -
  have "\<nexists>h p s header kid. bearer_segments authorization = Inr (h, p, s) \<and> ascii_text (h @ ''.'' @ p) \<and>
      json_segment (ae_json_loads env) h = Inr header \<and> header_check ''RS256'' header = Inr () \<and>
      token_kid header = Inr kid"
    using assms unfolding oidc_token_def bearer_segments_iff by blast
  then show ?thesis by (auto simp: jwks_authenticate_def split: sum.splits)
qed

lemma jwks_claims_state: "jwks_claims env cfg st p = (r, st') \<Longrightarrow> js_keys st' = js_keys st \<and>
    js_requests st' = js_requests st \<and> auth_frame 0 st st'"
  by (auto simp: jwks_claims_def read_clock_def Let_def auth_frame_def keys_trusted_def split: sum.splits)

text \<open>
  C15. An OIDC identity is granted only for an RS256 token whose signature the RSA check accepts under a key
  of the key set: an RSA key for RS256 published under the token's own key id, not a key the token brings.
  The claims come from the signed segment, name the configured issuer and audience, are unexpired, and are
  the identity.\<close>

theorem oidc_authenticate_sound:
  assumes "jwks_authenticate env cfg st authorization = (Inr i, st')" "keys_trusted st"
  shows "\<exists>h p s header kid key n e sg claims now.
     oidc_token env authorization h p s header kid \<and> map_of (js_keys st') kid = Some key \<and>
     trusted_key (VDict key) = Some (kid, key) \<and> jwk_number env key ''n'' = Some n \<and> jwk_number env key ''e'' = Some e \<and>
     decode_segment s = Inr sg \<and> ae_rsa_verify env e n (h @ ''.'' @ p) sg = RsaValid \<and>
     json_segment (ae_json_loads env) p = Inr claims \<and>
     claims_valid now (Some (jc_issuer cfg)) (jc_audience cfg) claims \<and> claims_identity (jc_names cfg) claims i"
proof -
  obtain h p s header kid where t: "oidc_token env authorization h p s header kid"
    using assms(1) jwks_authenticate_no_token [of env authorization cfg st] by (metis Inl_Inr_False prod.inject)
  obtain key st1 where k: "key_for env cfg st kid = (Inr key, st1)"
    using assms(1) jwks_authenticate_token [OF t, of cfg st] by (auto split: prod.splits sum.splits)
  obtain sg where s: "decode_segment s = Inr sg" "verify_signature env key (h @ ''.'' @ p) sg = Inr ()"
      "jwks_claims env cfg st1 p = (Inr i, st')"
    using assms(1) jwks_authenticate_token [OF t, of cfg st] k by (auto split: sum.splits)
  obtain claims where c: "json_segment (ae_json_loads env) p = Inr claims"
      "identity_from_claims (ae_clock env (js_ticks st1)) (Some (jc_issuer cfg)) (jc_audience cfg)
         (jc_names cfg) claims = Inr i"
    using s(3) by (auto simp: jwks_claims_def read_clock_def split: sum.splits)
  have "map_of (js_keys st') kid = Some key"
    using key_for_frame(2) [OF k] jwks_claims_state [OF s(3)] by simp
  moreover have "keys_trusted st1" using key_for_frame(1) [OF k] assms(2) by (simp add: auth_frame_def)
  then have "trusted_key (VDict key) = Some (kid, key)"
    using key_for_frame(2) [OF k] by (simp add: keys_trusted_def)
  ultimately show ?thesis
    using t s c unfolding verify_signature_iff identity_from_claims_iff by blast
qed

text \<open>
  One check sends at most three HTTP requests (discovery, the key set, and one more key set for an
  unknown key id), and none at all while the cache is fresh and holds the key: a caller cannot use tokens
  to make the service flood the identity provider within one check. The cache only ever holds trusted keys.\<close>

lemma oidc_requests_bounded:
  assumes "jwks_authenticate env cfg st authorization = (r, st')"
  shows "js_requests st' \<le> js_requests st + 3 \<and> (keys_trusted st \<longrightarrow> keys_trusted st') \<and>
     (ae_clock env (js_ticks st) < js_cache_expires_at st \<and>
      (\<forall>h p s header kid. oidc_token env authorization h p s header kid \<longrightarrow> map_of (js_keys st) kid \<noteq> None) \<longrightarrow>
      js_requests st' = js_requests st)"
proof (cases "\<exists>h p s header kid. oidc_token env authorization h p s header kid")
  case False
  then show ?thesis using assms jwks_authenticate_no_token [of env authorization cfg st] by auto
next
  case True
  then obtain h p s header kid where t: "oidc_token env authorization h p s header kid" by blast
  obtain rk st1 where k: "key_for env cfg st kid = (rk, st1)" by fastforce
  have "st' = st1 \<or> (\<exists>q. jwks_claims env cfg st1 p = (q, st'))"
    using assms jwks_authenticate_token [OF t, of cfg st] k by (auto split: sum.splits)
  then have e: "js_requests st' = js_requests st1" "keys_trusted st1 \<longrightarrow> keys_trusted st'"
    using jwks_claims_state by (auto simp: auth_frame_def)
  have "js_requests st1 = js_requests st"
    if "ae_clock env (js_ticks st) < js_cache_expires_at st" "map_of (js_keys st) kid \<noteq> None"
    using key_for_frame(3) [OF k that(1)] that(2) by auto
  then show ?thesis using key_for_frame(1) [OF k] e t by (auto simp: auth_frame_def)
qed

text \<open>
  A well-formed token with a forged signature does not give an authentication error: the exception of
  the RSA check is none of those the code catches, so the API answers it as an internal error.\<close>

lemma forged_oidc_signature_uncaught:
  assumes "oidc_token env authorization h p s header kid" "key_for env cfg st kid = (Inr key, st1)"
    and "decode_segment s = Inr sg" "ae_cryptography env"
    and "jwk_number env key ''n'' = Some n" "jwk_number env key ''e'' = Some e"
    and "ae_rsa_verify env e n (h @ ''.'' @ p) sg = RsaInvalidSignature"
  shows "jwks_authenticate env cfg st authorization = (Inl (Uncaught ''InvalidSignature''), st1)"
  using assms(2-) by (simp add: jwks_authenticate_token [OF assms(1)] verify_signature_def)

text \<open>An identity provider with one key, and a token it signed.\<close>

definition demo_jwk :: pydict where
  "demo_jwk = [(''kty'', VStr ''RSA''), (''kid'', VStr ''k1''), (''n'', VStr ''Dw''), (''e'', VStr ''Aw'')]"

definition demo_oidc_loads :: "string \<Rightarrow> json_outcome" where
  "demo_oidc_loads raw =
     (if raw = ''h'' then JValue (VDict [(''alg'', VStr ''RS256''), (''kid'', VStr ''k1'')])
      else if raw = ''c'' then JValue (VDict ((''iss'', VStr ''https://idp.example.com'') # demo_claims))
      else JDecodeError)"

definition demo_oidc_env :: auth_env where
  "demo_oidc_env = \<lparr>ae_ip6 = no_ip6, ae_json_loads = demo_oidc_loads, ae_clock = (\<lambda>n. 50), ae_open = (\<lambda>n u. None),
     ae_cryptography = True,
     ae_rsa_verify = (\<lambda>e n m sg. if sg = ''g'' then RsaValid else RsaInvalidSignature), ae_repr = (\<lambda>v. [])\<rparr>"

definition demo_oidc :: jwks_config where
  "demo_oidc = \<lparr>jc_issuer = ''https://idp.example.com'', jc_audience = None, jc_timeout_seconds = 5,
     jc_cache_seconds = 300, jc_names = default_claim_names, jc_approved_hosts = [''idp.example.com''],
     jc_fetcher = Some (\<lambda>n. VDict [(''keys'', VList [VDict demo_jwk])])\<rparr>"

definition demo_oidc_start :: jwks_state where
  "demo_oidc_start = \<lparr>js_jwks_uri = None, js_keys = [], js_cache_expires_at = 0, js_ticks = 0, js_requests = 0\<rparr>"

definition demo_oidc_end :: jwks_state where
  "demo_oidc_end = \<lparr>js_jwks_uri = None, js_keys = [(''k1'', demo_jwk)], js_cache_expires_at = 350,
     js_ticks = 3, js_requests = 1\<rparr>"

definition demo_oidc_identity :: identity_context where
  "demo_oidc_identity = \<lparr>user_id = ''user-a'', workspace_id = ''workspace-a'', tenant_id = ''tenant-a'', role = ''customer''\<rparr>"

lemma demo_oidc_run:
  "jwks_authenticate demo_oidc_env demo_oidc demo_oidc_start (Some (bearer_token ''aA'' ''Yw'' ''Zw'')) =
     (Inr demo_oidc_identity, demo_oidc_end)"
  by code_simp

lemma demo_oidc_forged:
  "fst (jwks_authenticate demo_oidc_env demo_oidc demo_oidc_start (Some (bearer_token ''aA'' ''Yw'' ''eA''))) =
     Inl (Uncaught ''InvalidSignature'')"
  by code_simp

theorem oidc_authenticate_sound_witness:
  "\<exists>h p s header kid key n e sg claims now.
     oidc_token demo_oidc_env (Some (bearer_token ''aA'' ''Yw'' ''Zw'')) h p s header kid \<and>
     map_of (js_keys demo_oidc_end) kid = Some key \<and>
     trusted_key (VDict key) = Some (kid, key) \<and> jwk_number demo_oidc_env key ''n'' = Some n \<and> jwk_number demo_oidc_env key ''e'' = Some e \<and>
     decode_segment s = Inr sg \<and> ae_rsa_verify demo_oidc_env e n (h @ ''.'' @ p) sg = RsaValid \<and>
     json_segment (ae_json_loads demo_oidc_env) p = Inr claims \<and>
     claims_valid now (Some (jc_issuer demo_oidc)) (jc_audience demo_oidc) claims \<and>
     claims_identity (jc_names demo_oidc) claims demo_oidc_identity"
  by (rule oidc_authenticate_sound [OF demo_oidc_run]) (simp add: keys_trusted_def demo_oidc_start_def)

lemma oidc_requests_bounded_witness:
  "js_requests demo_oidc_end \<le> js_requests demo_oidc_start + 3 \<and> keys_trusted demo_oidc_end"
proof -
  have "keys_trusted demo_oidc_start" by (simp add: keys_trusted_def demo_oidc_start_def)
  then show ?thesis using oidc_requests_bounded [OF demo_oidc_run] by blast
qed

end
