(* ===== verification/Contract_Validation.thy ===== *)
theory Contract_Validation
  imports Blob_Stores Schedule_Definitions Claims_Auth
begin

text \<open>
  The fail-closed checks of extension contracts, from \<^verbatim>\<open>packages/contracts/validation.py\<close>: agent manifests, skills,
  MCP configurations, schedules, plugins and the whole repository. A validator collects issues; \<^const>\<open>Inl\<close> carries the
  class of an exception that escapes it. The YAML and JSON decoders and the file system are parameters. Documents
  are \<open>pyval\<close>s: their dictionaries have string keys and YAML timestamps are outside the model.
\<close>

section \<open>Reports and file access\<close>

record validation_report =
  rp_kind :: string
  rp_path :: string
  rp_issues :: "string list"

definition report_valid :: "validation_report \<Rightarrow> bool" where
  "report_valid r \<longleftrightarrow> rp_issues r = []"

definition report_as_dict :: "validation_report \<Rightarrow> pydict" where
  "report_as_dict r =
     [(''kind'', VStr (rp_kind r)), (''path'', VStr (rp_path r)), (''valid'', VBool (report_valid r)),
      (''issues'', VList (map VStr (rp_issues r)))]"

text \<open>
  Reading a document: \<open>Refused\<close> carries the text of an exception that the code turns into an issue, \<open>Raises\<close> the class
  of one it does not catch (\<^verbatim>\<open>UnicodeDecodeError\<close>).
\<close>

datatype 'a file_outcome = Loaded 'a | Refused string | Raises string

text \<open>
  \<open>cf_resolve\<close> is \<^verbatim>\<open>Path.resolve\<close>; \<open>cf_rglob\<close> and \<open>cf_glob\<close> give the paths of \<^verbatim>\<open>rglob\<close> and \<^verbatim>\<open>glob\<close> in the order of
  the directory, \<open>cf_safe_load\<close> is \<^verbatim>\<open>yaml.safe_load\<close> on a string.
\<close>

record contract_fs =
  cf_read_yaml :: "path \<Rightarrow> pyval file_outcome"
  cf_read_json :: "path \<Rightarrow> pyval file_outcome"
  cf_read_text :: "path \<Rightarrow> string file_outcome"
  cf_read_bytes :: "path \<Rightarrow> (string, string) result"
  cf_safe_load :: "string \<Rightarrow> pyval file_outcome"
  cf_resolve :: "path \<Rightarrow> (string, path) result"
  cf_is_file :: "path \<Rightarrow> bool"
  cf_is_dir :: "path \<Rightarrow> bool"
  cf_exists :: "path \<Rightarrow> bool"
  cf_rglob :: "path \<Rightarrow> string \<Rightarrow> path list"
  cf_glob :: "path \<Rightarrow> string \<Rightarrow> path list"

text \<open>The parts of a path and back, as in \<^verbatim>\<open>pathlib\<close>: the first part of an absolute path is the root.\<close>

definition as_posix :: "path \<Rightarrow> string" where
  "as_posix p = (case p of [] \<Rightarrow> ''.'' | r # ps \<Rightarrow> if r = ''/'' then ''/'' @ join ''/'' ps else join ''/'' p)"

definition path_parts :: "string \<Rightarrow> path" where
  "path_parts s = (if startswith s ''/'' then [''/''] else []) @ filter (\<lambda>p. p \<noteq> [] \<and> p \<noteq> ''.'') (split_on CHR ''/'' s)"

definition base_report :: "string \<Rightarrow> path \<Rightarrow> string list \<Rightarrow> validation_report" where
  "base_report kind p issues = \<lparr>rp_kind = kind, rp_path = as_posix p, rp_issues = issues\<rparr>"

text \<open>Statements that follow each other append their issues; the first exception ends the validator.\<close>

type_synonym checked = "(string, string list) result"

fun and_then :: "checked \<Rightarrow> checked \<Rightarrow> checked" where
  "and_then (Inl e) _ = Inl e"
| "and_then (Inr xs) (Inl e) = Inl e"
| "and_then (Inr xs) (Inr ys) = Inr (xs @ ys)"

definition in_order :: "checked list \<Rightarrow> checked" where
  "in_order cs = foldr and_then cs (Inr [])"

definition issue_if :: "bool \<Rightarrow> string \<Rightarrow> checked" where
  "issue_if b msg = Inr (if b then [msg] else [])"

text \<open>\<^verbatim>\<open>v not in {...}\<close> for a set of strings: a list or a dictionary cannot be hashed.\<close>

definition issue_unless_in :: "pyval \<Rightarrow> string list \<Rightarrow> string \<Rightarrow> checked" where
  "issue_unless_in v allowed msg =
     (case v of VList _ \<Rightarrow> Inl ''TypeError'' | VDict _ \<Rightarrow> Inl ''TypeError''
      | VStr s \<Rightarrow> issue_if (s \<notin> set allowed) msg | _ \<Rightarrow> Inr [msg])"

section \<open>Field checks\<close>

definition id_char :: "char \<Rightarrow> bool" where
  "id_char c \<longleftrightarrow> is_lower c \<or> is_digit c"

definition id_re :: "string \<Rightarrow> bool" where
  "id_re s = match_head_tail id_char (\<lambda>c. id_char c \<or> c = CHR ''-'') 1 62 s"

definition digits :: "string \<Rightarrow> bool" where
  "digits s \<longleftrightarrow> s \<noteq> [] \<and> list_all is_digit s"

definition semver_re :: "string \<Rightarrow> bool" where
  "semver_re s =
     (let (core, pre) = partition_on CHR ''-'' s in
      (case split_on CHR ''.'' core of [a, b, c] \<Rightarrow> digits a \<and> digits b \<and> digits c | _ \<Rightarrow> False) \<and>
      (CHR ''-'' \<in> set s \<longrightarrow> pre \<noteq> [] \<and> list_all (\<lambda>c. is_alnum c \<or> c = CHR ''.'' \<or> c = CHR ''-'') pre))"

definition tool_name_re :: "string \<Rightarrow> bool" where
  "tool_name_re s \<longleftrightarrow> s \<noteq> [] \<and> list_all (\<lambda>c. is_lower c \<or> is_digit c \<or> c = CHR ''_'' \<or> c = CHR ''.'' \<or> c = CHR ''-'') s"

definition risk_values :: "string list" where
  "risk_values = [''read'', ''write'', ''external_send'', ''destructive'']"

definition transport_values :: "string list" where
  "transport_values = [''in_memory'', ''stdio'', ''streamable_http'']"

definition max_text :: int where "max_text = 4000"

definition require_mapping :: "pyval \<Rightarrow> string \<Rightarrow> (string, pydict) result" where
  "require_mapping v name = (case v of VDict d \<Rightarrow> Inr d | _ \<Rightarrow> Inl (name @ '' must be a mapping''))"

definition require_string :: "pydict \<Rightarrow> string \<Rightarrow> int \<Rightarrow> string list \<times> string option" where
  "require_string d name max_length =
     (case dget d name of
        VStr s \<Rightarrow>
          if blank s then ([name @ '' must be a non-empty string''], None)
          else (if int (length s) > max_length then [name @ '' exceeds '' @ int_str max_length @ '' characters''] else [], Some (strip s))
      | _ \<Rightarrow> ([name @ '' must be a non-empty string''], None))"

definition require_strings :: "pydict \<Rightarrow> string list \<Rightarrow> int \<Rightarrow> checked" where
  "require_strings d names max_length = Inr (concat (map (\<lambda>n. fst (require_string d n max_length)) names))"

definition check_id_and_version :: "pydict \<Rightarrow> checked" where
  "check_id_and_version d =
     (let (es, identifier) = require_string d ''id'' 63; (es', version) = require_string d ''version'' 64 in
      Inr (es @ (case identifier of Some i \<Rightarrow>
                   if i \<noteq> [] \<and> \<not> id_re i then [''id must contain lowercase letters, numbers and hyphens only''] else [] | None \<Rightarrow> [])
           @ es' @ (case version of Some v \<Rightarrow>
                   if v \<noteq> [] \<and> \<not> semver_re v then [''version must use semantic-version format''] else [] | None \<Rightarrow> [])))"

definition non_blank_string :: "pyval \<Rightarrow> bool" where
  "non_blank_string v = (case v of VStr s \<Rightarrow> \<not> blank s | _ \<Rightarrow> False)"

definition validate_list_of_strings :: "pydict \<Rightarrow> string \<Rightarrow> bool \<Rightarrow> string list \<times> string list" where
  "validate_list_of_strings d name required =
     (case dget d name of
        VNone \<Rightarrow> if required then ([name @ '' must be a list of non-empty strings''], []) else ([], [])
      | VList xs \<Rightarrow> if list_all non_blank_string xs then ([], map (\<lambda>v. case v of VStr s \<Rightarrow> strip s | _ \<Rightarrow> []) xs)
                    else ([name @ '' must be a list of non-empty strings''], [])
      | _ \<Rightarrow> ([name @ '' must be a list of non-empty strings''], []))"

text \<open>
  \<^verbatim>\<open>_contained_file\<close> and \<^verbatim>\<open>_contained_file_or_directory\<close> share their steps and differ in the last check and in
  the texts.
\<close>

definition contained ::
    "contract_fs \<Rightarrow> (path \<Rightarrow> bool) \<Rightarrow> string \<Rightarrow> string \<Rightarrow> string \<Rightarrow> path \<Rightarrow> pyval \<Rightarrow> string \<Rightarrow> (string, string list \<times> path option) result" where
  "contained cf found stay escapes missing base relative name =
     (case relative of
        VStr s \<Rightarrow>
          if blank s then Inr ([name @ '' must be a relative path''], None)
          else if startswith s ''/'' \<or> ''..'' \<in> set (path_parts s) then Inr ([name @ stay], None)
          else (case cf_resolve cf base of Inl e \<Rightarrow> Inl e
            | Inr resolved_base \<Rightarrow> (case cf_resolve cf (base @ path_parts s) of Inl e \<Rightarrow> Inl e
              | Inr resolved \<Rightarrow>
                  if \<not> below resolved_base resolved then Inr ([name @ escapes], None)
                  else if \<not> found resolved then Inr ([name @ missing], None)
                  else Inr ([], Some resolved)))
      | _ \<Rightarrow> Inr ([name @ '' must be a relative path''], None))"

definition contained_file :: "contract_fs \<Rightarrow> path \<Rightarrow> pyval \<Rightarrow> string \<Rightarrow> (string, string list \<times> path option) result" where
  "contained_file cf =
     contained cf (cf_is_file cf) '' must remain inside its contract directory'' '' escapes its contract directory''
       '' does not point to a readable file''"

definition contained_file_or_directory :: "contract_fs \<Rightarrow> path \<Rightarrow> pyval \<Rightarrow> string \<Rightarrow> (string, string list \<times> path option) result" where
  "contained_file_or_directory cf =
     contained cf (cf_exists cf) '' must stay inside plugin directory'' '' escapes plugin directory'' '' does not exist''"

section \<open>Agent manifests\<close>

text \<open>The common start of a validator: a document that cannot be loaded, or is not a mapping, is the only issue.\<close>

definition with_mapping :: "pyval file_outcome \<Rightarrow> string \<Rightarrow> string \<Rightarrow> (pydict \<Rightarrow> checked) \<Rightarrow> checked" where
  "with_mapping doc cannot name checks =
     (case doc of
        Raises e \<Rightarrow> Inl e
      | Refused msg \<Rightarrow> Inr [cannot @ msg]
      | Loaded raw \<Rightarrow> (case require_mapping raw name of Inl issue \<Rightarrow> Inr [issue] | Inr d \<Rightarrow> checks d))"

definition cannot_load :: "string \<Rightarrow> path \<Rightarrow> string" where
  "cannot_load what p = ''cannot load '' @ what @ '' '' @ as_posix p @ '': ''"

definition allow_list :: "pydict \<Rightarrow> string \<Rightarrow> checked" where
  "allow_list d name =
     (case dget d name of
        VNone \<Rightarrow> Inr []
      | VDict inner \<Rightarrow> Inr (fst (validate_list_of_strings inner ''allow'' False))
      | _ \<Rightarrow> Inr [name @ '' must be a mapping with an allow list''])"

definition approval_section :: "pyval \<Rightarrow> checked" where
  "approval_section v =
     (case v of
        VDict approval \<Rightarrow>
          let missing = filter (\<lambda>k. k \<notin> set (map fst approval)) [''destructive'', ''external_send'', ''read'', ''write''] in
          and_then (issue_if (missing \<noteq> []) (''approval is missing: '' @ join '', '' missing))
            (in_order (map (\<lambda>(key, value).
               if key \<in> set risk_values
               then issue_unless_in value [''auto'', ''required'', ''deny''] (''approval.'' @ key @ '' must be auto, required or deny'')
               else Inr []) approval))
      | _ \<Rightarrow> Inr [''approval must explicitly define read/write/external_send/destructive''])"

definition limits_section :: "pyval \<Rightarrow> checked" where
  "limits_section v =
     (case v of
        VDict limits \<Rightarrow>
          in_order (map (\<lambda>key. issue_if (case as_int (dget limits key) of Some i \<Rightarrow> i \<le> 0 | None \<Rightarrow> True)
            (''limits.'' @ key @ '' must be a positive integer'')) [''max_steps'', ''max_runtime_seconds''])
      | _ \<Rightarrow> Inr [''limits must be a mapping''])"

definition agent_checks :: "contract_fs \<Rightarrow> path \<Rightarrow> pydict \<Rightarrow> checked" where
  "agent_checks cf manifest_path d =
     in_order
      [require_strings d [''id'', ''version'', ''name'', ''description'', ''instructions''] max_text,
       check_id_and_version d,
       map_sum id fst (contained_file cf (butlast manifest_path) (dget d ''instructions'') ''instructions''),
       allow_list d ''skills'', allow_list d ''mcp'', approval_section (dget d ''approval''), limits_section (dget d ''limits'')]"

definition validate_agent_manifest :: "contract_fs \<Rightarrow> path \<Rightarrow> (string, validation_report) result" where
  "validate_agent_manifest cf p =
     map_sum id (base_report ''agent'' p)
       (with_mapping (cf_read_yaml cf p) (cannot_load ''YAML'' p) ''manifest'' (agent_checks cf p))"

section \<open>Skills\<close>

text \<open>\<^verbatim>\<open>s.find(p, i)\<close>; \<^const>\<open>None\<close> is \<^verbatim>\<open>-1\<close>.\<close>

fun find_sub :: "string \<Rightarrow> string \<Rightarrow> nat \<Rightarrow> nat option" where
  "find_sub [] p i = (if p = [] then Some i else None)"
| "find_sub (c # s) p i = (if startswith (c # s) p then Some i else find_sub s p (i + 1))"

definition str_find :: "string \<Rightarrow> string \<Rightarrow> nat \<Rightarrow> nat option" where
  "str_find s p i = find_sub (drop i s) p i"

definition newline :: char where "newline = CHR 0x0A"

definition skill_frontmatter :: "contract_fs \<Rightarrow> string \<Rightarrow> checked" where
  "skill_frontmatter cf content =
     (case str_find content (newline # ''---'') 4 of
        None \<Rightarrow> Inr [''skill frontmatter is not closed'']
      | Some closing \<Rightarrow>
          (case cf_safe_load cf (drop 4 (take closing content)) of
             Raises e \<Rightarrow> Inl e
           | Refused msg \<Rightarrow> Inr [''invalid skill frontmatter: '' @ msg]
           | Loaded frontmatter \<Rightarrow>
               and_then
                 (case require_mapping frontmatter ''frontmatter'' of
                    Inl issue \<Rightarrow> Inr [issue]
                  | Inr d \<Rightarrow> and_then (require_strings d [''name''] 63) (require_strings d [''description''] 1000))
                 (issue_if (blank (drop (closing + 4) content)) ''skill body must not be empty'')))"

definition skill_checks :: "contract_fs \<Rightarrow> path \<Rightarrow> checked" where
  "skill_checks cf p =
     (case cf_read_text cf p of
        Raises e \<Rightarrow> Inl e
      | Refused msg \<Rightarrow> Inr [''cannot read skill: '' @ msg]
      | Loaded content \<Rightarrow>
          and_then (issue_if (length content > 64 * 1024) ''skill exceeds 64 KiB'')
            (if \<not> startswith content (''---'' @ [newline]) then Inr [''skill must start with YAML frontmatter'']
             else skill_frontmatter cf content))"

definition validate_skill :: "contract_fs \<Rightarrow> path \<Rightarrow> (string, validation_report) result" where
  "validate_skill cf p = map_sum id (base_report ''skill'' p) (skill_checks cf p)"

section \<open>MCP configurations\<close>

text \<open>\<open>rep\<close> is \<^verbatim>\<open>repr\<close>. The names of accepted tools are collected in \<open>seen\<close>.\<close>

definition list_of :: "(pyval \<Rightarrow> bool) \<Rightarrow> pyval \<Rightarrow> bool" where
  "list_of q v = (case v of VList xs \<Rightarrow> list_all q xs | _ \<Rightarrow> False)"

definition is_str :: "pyval \<Rightarrow> bool" where
  "is_str v \<longleftrightarrow> as_str v \<noteq> None"

definition tool_name_check :: "string \<Rightarrow> pyval \<Rightarrow> string list \<Rightarrow> string list \<times> string list" where
  "tool_name_check server_id name seen =
     (case name of
        VStr s \<Rightarrow>
          if \<not> tool_name_re s then ([''server '' @ server_id @ '' has an invalid tool name''], seen)
          else if s \<in> set seen then ([''duplicate tool name: '' @ s], seen)
          else ([], s # seen)
      | _ \<Rightarrow> ([''server '' @ server_id @ '' has an invalid tool name''], seen))"

definition tool_checks :: "(pyval \<Rightarrow> string) \<Rightarrow> pydict \<Rightarrow> checked" where
  "tool_checks rep tool =
     (let name = ''tool '' @ rep (dget tool ''name'') in
      in_order
       [issue_unless_in (dget tool ''risk'') risk_values (name @ '' has an invalid risk class''),
        issue_if (\<not> list_of is_str (dget tool ''allow_roles'')) (name @ '' must declare allow_roles''),
        issue_if (as_bool (dget tool ''external_write'') = None) (name @ '' must declare external_write'')])"

fun tools_loop :: "(pyval \<Rightarrow> string) \<Rightarrow> string \<Rightarrow> pyval list \<Rightarrow> string list \<Rightarrow> checked \<times> string list" where
  "tools_loop rep server_id [] seen = (Inr [], seen)"
| "tools_loop rep server_id (VDict tool # tools) seen =
     (let (es, seen') = tool_name_check server_id (dget tool ''name'') seen;
          (rest, seen'') = tools_loop rep server_id tools seen'
      in (and_then (and_then (Inr es) (tool_checks rep tool)) rest, seen''))"
| "tools_loop rep server_id (_ # tools) seen =
     (let (rest, seen') = tools_loop rep server_id tools seen
      in (and_then (Inr [''server '' @ server_id @ '' has a malformed tool'']) rest, seen'))"

definition server_checks :: "(pyval \<Rightarrow> string) \<Rightarrow> string \<Rightarrow> pyval \<Rightarrow> string list \<Rightarrow> checked \<times> string list" where
  "server_checks rep server_id server seen =
     (let id_issue = issue_if (\<not> id_re server_id) (''server id '' @ rep (VStr server_id) @ '' is invalid'') in
      case server of
        VDict d \<Rightarrow>
          let transport = issue_unless_in (dget d ''transport'') transport_values (''server '' @ server_id @ '' has unsupported transport'');
              (rest, seen') = (case dget d ''tools'' of
                  VList (t # ts) \<Rightarrow> tools_loop rep server_id (t # ts) seen
                | _ \<Rightarrow> (Inr [''server '' @ server_id @ '' must declare tools''], seen))
          in (and_then id_issue (and_then transport rest), seen')
      | _ \<Rightarrow> (and_then id_issue (Inr [''server '' @ server_id @ '' must be a mapping'']), seen))"

fun servers_loop :: "(pyval \<Rightarrow> string) \<Rightarrow> pydict \<Rightarrow> string list \<Rightarrow> checked" where
  "servers_loop rep [] seen = Inr []"
| "servers_loop rep ((server_id, server) # servers) seen =
     (let (issues, seen') = server_checks rep server_id server seen
      in and_then issues (servers_loop rep servers seen'))"

definition mcp_checks :: "(pyval \<Rightarrow> string) \<Rightarrow> pydict \<Rightarrow> checked" where
  "mcp_checks rep d =
     (case dget d ''servers'' of
        VDict (s # ss) \<Rightarrow> servers_loop rep (s # ss) []
      | _ \<Rightarrow> Inr [''servers must be a non-empty mapping''])"

definition validate_mcp_config :: "(pyval \<Rightarrow> string) \<Rightarrow> contract_fs \<Rightarrow> path \<Rightarrow> (string, validation_report) result" where
  "validate_mcp_config rep cf p =
     map_sum id (base_report ''mcp'' p)
       (with_mapping (cf_read_yaml cf p) (cannot_load ''YAML'' p) ''config'' (mcp_checks rep))"

section \<open>Schedules\<close>

definition schedule_section :: "pyval \<Rightarrow> checked" where
  "schedule_section v =
     (case v of
        VDict s \<Rightarrow>
          in_order
           [issue_unless_in (dget s ''type'') [''one_shot'', ''interval'', ''cron''] ''schedule.type must be one_shot, interval or cron'',
            issue_if (dget s ''type'' = VStr ''cron'' \<and>
                (case dget s ''expression'' of VStr e \<Rightarrow> length (split_ws e) \<noteq> 5 | _ \<Rightarrow> True))
              ''cron schedule.expression must contain five fields'',
            issue_if (dget s ''type'' = VStr ''interval'' \<and>
                (case as_int (dget s ''seconds'') of Some i \<Rightarrow> i \<le> 0 | None \<Rightarrow> True))
              ''interval schedule.seconds must be a positive integer'',
            issue_if (\<not> non_blank_string (dget_default s ''timezone'' (VStr ''UTC''))) ''schedule.timezone must be a non-empty string'']
      | _ \<Rightarrow> Inr [''schedule must be a mapping''])"

definition bounded_string :: "int \<Rightarrow> pyval \<Rightarrow> bool" where
  "bounded_string n v = (case v of VStr s \<Rightarrow> \<not> blank s \<and> int (length s) \<le> n | _ \<Rightarrow> False)"

definition run_section :: "pyval \<Rightarrow> checked" where
  "run_section v =
     (case v of
        VDict r \<Rightarrow>
          in_order
           [in_order (map (\<lambda>key. issue_if (case as_int (dget r key) of Some i \<Rightarrow> i < 0 | None \<Rightarrow> True)
              (''run.'' @ key @ '' must be a non-negative integer'')) [''max_runtime_seconds'', ''max_concurrency'', ''retry_limit'']),
            issue_if (scalar_eq (dget_default r ''max_concurrency'' (VInt 0)) (VInt 0)) ''run.max_concurrency must be greater than zero'',
            issue_unless_in (dget_default r ''mode'' (VStr ''isolated'')) [''isolated'', ''shared''] ''run.mode must be isolated or shared'',
            issue_if (dget r ''query'' \<noteq> VNone \<and> \<not> bounded_string 4000 (dget r ''query''))
              ''run.query must be a non-empty string of at most 4000 characters'',
            issue_if (dget r ''order_id'' \<noteq> VNone \<and> \<not> bounded_string 128 (dget r ''order_id''))
              ''run.order_id must be a non-empty string of at most 128 characters'',
            issue_if (dget r ''allow_external_processing'' \<noteq> VNone \<and> as_bool (dget r ''allow_external_processing'') = None)
              ''run.allow_external_processing must be a boolean'']
      | _ \<Rightarrow> Inr [''run must be a mapping''])"

definition permissions_section :: "pyval \<Rightarrow> checked" where
  "permissions_section v =
     (let msg = ''permissions.mode must be read_only or approved_write'' in
      case v of VDict p \<Rightarrow> issue_unless_in (dget p ''mode'') [''read_only'', ''approved_write''] msg | _ \<Rightarrow> Inr [msg])"

definition notify_section :: "pyval \<Rightarrow> checked" where
  "notify_section v =
     (case v of
        VDict n \<Rightarrow>
          and_then
            (issue_if (dget n ''channel'' \<noteq> VNone \<and> \<not> bounded_string 64 (dget n ''channel''))
              ''notify.channel must be a non-empty string of at most 64 characters'')
            (issue_unless_in (dget_default n ''only_if'' (VStr ''finding_or_failure'')) [''always'', ''finding_or_failure'', ''failure'']
              ''notify.only_if must be always, finding_or_failure or failure'')
      | _ \<Rightarrow> Inr [''notify must be a mapping''])"

definition schedule_checks :: "pydict \<Rightarrow> checked" where
  "schedule_checks d =
     in_order
      [require_strings d [''id'', ''version'', ''agent''] 128, check_id_and_version d, schedule_section (dget d ''schedule''),
       run_section (dget d ''run''), permissions_section (dget d ''permissions''),
       notify_section (dget_default d ''notify'' (VDict []))]"

definition validate_schedule :: "contract_fs \<Rightarrow> path \<Rightarrow> (string, validation_report) result" where
  "validate_schedule cf p =
     map_sum id (base_report ''schedule'' p)
       (with_mapping (cf_read_yaml cf p) (cannot_load ''YAML'' p) ''schedule'' schedule_checks)"

section \<open>Plugins\<close>

text \<open>\<open>sha\<close> is \<^verbatim>\<open>hashlib.sha256(data).hexdigest()\<close>; the updates of one digest hash the concatenation.\<close>

definition file_digest :: "(string \<Rightarrow> string) \<Rightarrow> contract_fs \<Rightarrow> path \<Rightarrow> (string, string) result" where
  "file_digest sha cf p = map_sum id sha (cf_read_bytes cf p)"

definition hashed_files :: "contract_fs \<Rightarrow> path \<Rightarrow> path list" where
  "hashed_files cf root_dir = sort (filter (\<lambda>p. cf_is_file cf p \<and> ''.git'' \<notin> set p) (cf_rglob cf root_dir ''*''))"

fun digest_input :: "(string \<Rightarrow> string) \<Rightarrow> contract_fs \<Rightarrow> path \<Rightarrow> path list \<Rightarrow> (string, string) result" where
  "digest_input sha cf root_dir [] = Inr []"
| "digest_input sha cf root_dir (p # ps) =
     (if \<not> below root_dir p then Inl ''ValueError'' else
      case file_digest sha cf p of Inl e \<Rightarrow> Inl e
      | Inr h \<Rightarrow> map_sum id (\<lambda>rest. utf8_encode (as_posix (drop (length root_dir) p)) @ h @ rest) (digest_input sha cf root_dir ps))"

definition plugin_integrity :: "(string \<Rightarrow> string) \<Rightarrow> contract_fs \<Rightarrow> path \<Rightarrow> (string, string) result" where
  "plugin_integrity sha cf plugin_dir =
     (case cf_resolve cf plugin_dir of Inl e \<Rightarrow> Inl e
      | Inr root_dir \<Rightarrow> map_sum id sha (digest_input sha cf root_dir (hashed_files cf root_dir)))"

definition nested_issues :: "(path \<Rightarrow> (string, validation_report) result) \<Rightarrow> path list \<Rightarrow> checked" where
  "nested_issues validate ps =
     in_order (map (\<lambda>p. map_sum id (\<lambda>r. map (\<lambda>issue. last p @ '': '' @ issue) (rp_issues r)) (validate p)) ps)"

definition plugin_directory :: "contract_fs \<Rightarrow> path \<Rightarrow> pydict \<Rightarrow> string \<Rightarrow> (path \<Rightarrow> checked) \<Rightarrow> checked" where
  "plugin_directory cf plugin_dir d name inner =
     (if dget d name = VNone then Inr []
      else (case contained_file_or_directory cf plugin_dir (dget d name) name of
          Inl e \<Rightarrow> Inl e
        | Inr (es, None) \<Rightarrow> Inr es
        | Inr (es, Some target) \<Rightarrow>
            and_then (Inr es) (if \<not> cf_is_dir cf target then Inr [name @ '' must point to a directory''] else inner target)))"

definition plugin_permissions :: "pyval \<Rightarrow> checked" where
  "plugin_permissions v =
     (case v of
        VDict p \<Rightarrow> in_order (map (\<lambda>key. issue_if (\<not> list_of is_str (dget_default p key (VList [])))
          (''permissions.'' @ key @ '' must be a list of strings'')) [''network'', ''tools''])
      | _ \<Rightarrow> Inr [''permissions must be a mapping''])"

definition plugin_checks :: "(pyval \<Rightarrow> string) \<Rightarrow> contract_fs \<Rightarrow> path \<Rightarrow> pydict \<Rightarrow> checked" where
  "plugin_checks rep cf plugin_dir d =
     in_order
      [require_strings d [''name'', ''version'', ''description'', ''publisher''] 200,
       issue_if (case dget d ''name'' of VStr s \<Rightarrow> \<not> id_re s | _ \<Rightarrow> False) ''name must contain lowercase letters, numbers and hyphens only'',
       issue_if (case dget d ''version'' of VStr s \<Rightarrow> \<not> semver_re s | _ \<Rightarrow> False) ''version must use semantic-version format'',
       plugin_directory cf plugin_dir d ''skills''
         (\<lambda>target. nested_issues (validate_skill cf) (sort (cf_rglob cf target ''SKILL.md''))),
       plugin_directory cf plugin_dir d ''mcp''
         (\<lambda>target. nested_issues (validate_mcp_config rep cf) (sort (cf_glob cf target ''*.yaml'' @ cf_glob cf target ''*.yml''))),
       plugin_permissions (dget d ''permissions''),
       issue_if (\<not> list_of is_str (dget_default d ''dependencies'' (VList []))) ''dependencies must be a list of strings'']"

definition plugin_manifest :: "path \<Rightarrow> path" where
  "plugin_manifest plugin_dir = plugin_dir @ [''.codex-plugin'', ''plugin.json'']"

definition validate_plugin :: "(pyval \<Rightarrow> string) \<Rightarrow> contract_fs \<Rightarrow> path \<Rightarrow> (string, validation_report) result" where
  "validate_plugin rep cf plugin_dir =
     map_sum id (base_report ''plugin'' plugin_dir)
       (if \<not> cf_is_dir cf plugin_dir then Inr [''plugin directory does not exist'']
        else with_mapping (cf_read_json cf (plugin_manifest plugin_dir)) (cannot_load ''JSON'' (plugin_manifest plugin_dir))
               ''plugin manifest'' (plugin_checks rep cf plugin_dir))"

section \<open>The repository\<close>

fun collect_reports :: "(string, validation_report) result list \<Rightarrow> (string, validation_report list) result" where
  "collect_reports [] = Inr []"
| "collect_reports (Inl e # rs) = Inl e"
| "collect_reports (Inr r # rs) = map_sum id (Cons r) (collect_reports rs)"

definition validate_repository :: "(pyval \<Rightarrow> string) \<Rightarrow> contract_fs \<Rightarrow> path \<Rightarrow> (string, validation_report list) result" where
  "validate_repository rep cf root_dir =
     (case cf_resolve cf root_dir of Inl e \<Rightarrow> Inl e
      | Inr repository \<Rightarrow>
          collect_reports
            (map (validate_agent_manifest cf) (sort (cf_glob cf repository ''agents/*/agent.yaml'')) @
             map (validate_skill cf) (sort (cf_glob cf repository ''.agents/skills/*/SKILL.md'')) @
             (if cf_exists cf (repository @ [''mcp'', ''servers.yaml'']) then [validate_mcp_config rep cf (repository @ [''mcp'', ''servers.yaml''])] else []) @
             map (validate_schedule cf) (sort (cf_glob cf repository ''schedules/*.yaml'') @ sort (cf_glob cf repository ''schedules/*.yml'')) @
             map (validate_plugin rep cf) (filter (cf_is_dir cf) (sort (cf_glob cf repository ''plugins/*'')))))"

section \<open>Reports without issues\<close>

named_theorems no_issue_simps \<open>when a check reports nothing\<close>

lemma and_then_clean [no_issue_simps]: "and_then a b = Inr [] \<longleftrightarrow> a = Inr [] \<and> b = Inr []"
  by (cases a; cases b) auto

lemma in_order_clean [no_issue_simps]: "in_order cs = Inr [] \<longleftrightarrow> (\<forall>c\<in>set cs. c = Inr [])"
  by (induction cs) (auto simp: in_order_def and_then_clean)

lemma issue_if_clean [no_issue_simps]: "issue_if b msg = Inr [] \<longleftrightarrow> \<not> b"
  by (simp add: issue_if_def)

lemma issue_unless_in_clean [no_issue_simps]: "issue_unless_in v allowed msg = Inr [] \<longleftrightarrow> (\<exists>s\<in>set allowed. v = VStr s)"
  by (cases v) (auto simp: issue_unless_in_def issue_if_def)

lemma non_blank_string_iff [no_issue_simps]: "non_blank_string v \<longleftrightarrow> (\<exists>s. v = VStr s \<and> \<not> blank s)"
  by (cases v) (auto simp: non_blank_string_def)

lemma bounded_string_iff [no_issue_simps]: "bounded_string n v \<longleftrightarrow> (\<exists>s. v = VStr s \<and> \<not> blank s \<and> int (length s) \<le> n)"
  by (cases v) (auto simp: bounded_string_def)

lemma require_string_clean [no_issue_simps]:
  "fst (require_string d name n) = [] \<longleftrightarrow> (\<exists>s. dget d name = VStr s \<and> \<not> blank s \<and> int (length s) \<le> n)"
  by (cases "dget d name") (auto simp: require_string_def)

lemma require_strings_clean [no_issue_simps]:
  "require_strings d names n = Inr [] \<longleftrightarrow> (\<forall>name\<in>set names. \<exists>s. dget d name = VStr s \<and> \<not> blank s \<and> int (length s) \<le> n)"
  by (auto simp: require_strings_def require_string_clean)

lemma check_id_and_version_clean [no_issue_simps]:
  "check_id_and_version d = Inr [] \<longleftrightarrow>
     (\<exists>i v. dget d ''id'' = VStr i \<and> int (length i) \<le> 63 \<and> id_re (strip i) \<and>
            dget d ''version'' = VStr v \<and> int (length v) \<le> 64 \<and> semver_re (strip v))"
proof -
  have "id_re [] = False" "semver_re [] = False" by (simp_all add: id_re_def match_head_tail_def semver_re_def)
  then show ?thesis
    by (cases "dget d ''id''"; cases "dget d ''version''")
       (auto simp: check_id_and_version_def require_string_def blank_def split: if_splits)
qed

lemma with_mapping_clean:
  "with_mapping doc cannot name checks = Inr [] \<Longrightarrow> \<exists>d. doc = Loaded (VDict d) \<and> checks d = Inr []"
  by (auto simp: with_mapping_def require_mapping_def split: file_outcome.splits pyval.splits)

lemma map_sum_report:
  "map_sum id (base_report kind p) c = Inr report \<Longrightarrow> c = Inr (rp_issues report)"
  by (cases c) (auto simp: base_report_def)

text \<open>What the sections of a schedule without issues hold.\<close>

lemma schedule_section_clean:
  "schedule_section v = Inr [] \<Longrightarrow> \<exists>s. v = VDict s \<and> (\<exists>ty\<in>{''one_shot'', ''interval'', ''cron''}. dget s ''type'' = VStr ty) \<and>
     (dget s ''type'' = VStr ''cron'' \<longrightarrow> (\<exists>e. dget s ''expression'' = VStr e \<and> length (split_ws e) = 5)) \<and>
     (dget s ''type'' = VStr ''interval'' \<longrightarrow> (\<exists>n. as_int (dget s ''seconds'') = Some n \<and> 0 < n)) \<and>
     (\<exists>z. dget_default s ''timezone'' (VStr ''UTC'') = VStr z \<and> \<not> blank z)"
  by (cases v)
     (simp_all add: schedule_section_def no_issue_simps not_le split: pyval.splits option.splits)

lemma as_int_zero: "as_int v = Some 0 \<Longrightarrow> scalar_eq v (VInt 0)"
  by (cases v) (auto split: if_splits)

lemma dget_default_present: "dget d k \<noteq> VNone \<Longrightarrow> dget_default d k v = dget d k"
  by (simp add: dget_def dget_default_def split: option.splits)

lemma run_section_clean:
  assumes "run_section v = Inr []"
  shows "\<exists>r a b c. v = VDict r \<and> as_int (dget r ''max_runtime_seconds'') = Some a \<and> 0 \<le> a \<and>
     as_int (dget r ''max_concurrency'') = Some b \<and> 0 < b \<and> as_int (dget r ''retry_limit'') = Some c \<and> 0 \<le> c \<and>
     (dget r ''query'' = VNone \<or> bounded_string 4000 (dget r ''query'')) \<and>
     (dget r ''order_id'' = VNone \<or> bounded_string 128 (dget r ''order_id'')) \<and>
     (dget r ''allow_external_processing'' = VNone \<or> (\<exists>b. dget r ''allow_external_processing'' = VBool b))"
proof (cases v)
  case (VDict r)
  let ?nat = "\<lambda>key. \<exists>a. as_int (dget r key) = Some a \<and> 0 \<le> a"
  have n: "?nat ''max_runtime_seconds'' \<and> ?nat ''max_concurrency'' \<and> ?nat ''retry_limit''"
    and z: "\<not> scalar_eq (dget_default r ''max_concurrency'' (VInt 0)) (VInt 0)"
    and q: "dget r ''query'' = VNone \<or> bounded_string 4000 (dget r ''query'')"
      "dget r ''order_id'' = VNone \<or> bounded_string 128 (dget r ''order_id'')"
    and x: "dget r ''allow_external_processing'' = VNone \<or> (\<exists>b. dget r ''allow_external_processing'' = VBool b)"
    using assms VDict
    by (simp_all add: run_section_def in_order_clean issue_if_clean not_less split: option.splits)
  from n obtain b where b: "as_int (dget r ''max_concurrency'') = Some b" "0 \<le> b" by blast
  then have "dget r ''max_concurrency'' \<noteq> VNone" by auto
  with z b as_int_zero have "b \<noteq> 0" by (auto simp: dget_default_present)
  with n q x b VDict show ?thesis by fastforce
qed (use assms in \<open>simp_all add: run_section_def\<close>)

lemma permissions_section_clean:
  "permissions_section v = Inr [] \<Longrightarrow> \<exists>p m. v = VDict p \<and> dget p ''mode'' = VStr m \<and> m \<in> {''read_only'', ''approved_write''}"
  by (cases v) (auto simp: permissions_section_def no_issue_simps)

lemma notify_section_clean:
  "notify_section v = Inr [] \<Longrightarrow> \<exists>n m. v = VDict n \<and> (dget n ''channel'' = VNone \<or> bounded_string 64 (dget n ''channel'')) \<and>
     dget_default n ''only_if'' (VStr ''finding_or_failure'') = VStr m \<and> m \<in> {''always'', ''finding_or_failure'', ''failure''}"
  by (cases v) (simp_all add: notify_section_def and_then_clean issue_if_clean issue_unless_in_clean, blast)

section \<open>Schedules that pass the check can be loaded\<close>

text \<open>What the scheduler relies on, as bounds and enumerations over a loaded definition.\<close>

definition well_formed_schedule :: "schedule_definition \<Rightarrow> bool" where
  "well_formed_schedule s \<longleftrightarrow>
     id_re (strip (sd_id s)) \<and> semver_re (strip (sd_version s)) \<and> \<not> blank (sd_agent s) \<and>
     sd_schedule_type s \<in> {''one_shot'', ''interval'', ''cron''} \<and>
     (sd_schedule_type s = ''cron'' \<longrightarrow> (\<exists>e. sd_expression s = Some e \<and> length (split_ws e) = 5)) \<and>
     (sd_schedule_type s = ''interval'' \<longrightarrow> (\<exists>n. sd_interval_seconds s = Some n \<and> 0 < n)) \<and>
     \<not> blank (sd_timezone_name s) \<and> 0 \<le> sd_max_runtime_seconds s \<and> 0 < sd_max_concurrency s \<and> 0 \<le> sd_retry_limit s \<and>
     sd_permissions_mode s \<in> {''read_only'', ''approved_write''} \<and>
     (\<forall>q. sd_query s = Some q \<longrightarrow> \<not> blank q \<and> length q \<le> 4000) \<and>
     (\<forall>o'. sd_order_id s = Some o' \<longrightarrow> \<not> blank o' \<and> length o' \<le> 128) \<and>
     (\<forall>c. sd_notify_channel s = Some c \<longrightarrow> \<not> blank c \<and> length c \<le> 64) \<and>
     sd_notify_only_if s \<in> {''always'', ''finding_or_failure'', ''failure''}"

lemma py_to_int_of_as_int: "as_int v = Some i \<Longrightarrow> py_to_int v = Inr i"
  by (cases v) auto

lemma py_to_int_default: "as_int (dget d k) = Some i \<Longrightarrow> py_to_int (dget_default d k v) = Inr i"
  by (cases "dget d k = VNone") (simp_all add: py_to_int_of_as_int dget_default_present)

lemma dget_VStr_required: "dget d k = VStr s \<Longrightarrow> required_str rep d k = Inr s"
  by (auto simp: dget_def required_str_def split: option.splits)

lemma dget_nonempty: "dget d k \<noteq> VNone \<Longrightarrow> d \<noteq> []"
  by (auto simp: dget_def)

lemma section_of_VDict: "dget raw k = VDict d \<Longrightarrow> section_of raw k = VDict d"
  by (simp add: section_of_def)

lemma section_of_default: "dget_default raw k (VDict []) = VDict d \<Longrightarrow> section_of raw k = VDict d"
  by (auto simp: section_of_def dget_def dget_default_def split: option.splits)

lemma bounded_string_optional: "dget d k = VNone \<or> bounded_string n (dget d k) \<Longrightarrow> optional_str d k"
  by (auto simp: optional_str_def bounded_string_iff)

lemma built_schedule:
  assumes "required_str rep raw ''id'' = Inr i" "required_str rep raw ''version'' = Inr v" "required_str rep raw ''agent'' = Inr a"
    and "required_str rep sc ''type'' = Inr ty" "py_to_int (dget_default run ''max_runtime_seconds'' (VInt 300)) = Inr mr"
    and "py_to_int (dget_default run ''max_concurrency'' (VInt 1)) = Inr mc" "py_to_int (dget_default run ''retry_limit'' (VInt 0)) = Inr rl"
    and "dget_default sc ''timezone'' (VStr ''UTC'') = VStr z" "dget_default pm ''mode'' (VStr ''read_only'') = VStr m"
    and "dget_default nt ''only_if'' (VStr ''finding_or_failure'') = VStr oi"
  shows "\<exists>s. build_schedule rep raw sc run pm nt = Inr s \<and> sd_id s = i \<and> sd_version s = v \<and> sd_agent s = a \<and> sd_schedule_type s = ty \<and>
      sd_timezone_name s = z \<and> sd_expression s = as_str (dget sc ''expression'') \<and> sd_interval_seconds s = as_int (dget sc ''seconds'') \<and>
      sd_max_runtime_seconds s = mr \<and> sd_max_concurrency s = mc \<and> sd_retry_limit s = rl \<and> sd_permissions_mode s = m \<and>
      sd_query s = as_str (dget run ''query'') \<and> sd_order_id s = as_str (dget run ''order_id'') \<and> sd_notify_only_if s = oi \<and>
      sd_notify_channel s = (if dget nt ''channel'' = VNone then None else Some (py_str rep (dget nt ''channel'')))"
  unfolding build_schedule_def assms sum.case py_str.simps by (rule exI, rule conjI, rule refl, simp)

lemma clean_schedule_loads:
  assumes "schedule_checks raw = Inr []"
    and "\<And>run. dget raw ''run'' = VDict run \<Longrightarrow> map_of run ''allow_external_processing'' \<noteq> Some VNone"
  shows "\<exists>s. load_schedule rep (VDict raw) = Inr s \<and> well_formed_schedule s"
proof -
  from assms(1) have parts: "require_strings raw [''id'', ''version'', ''agent''] 128 = Inr []" "check_id_and_version raw = Inr []"
      "schedule_section (dget raw ''schedule'') = Inr []" "run_section (dget raw ''run'') = Inr []"
      "permissions_section (dget raw ''permissions'') = Inr []" "notify_section (dget_default raw ''notify'' (VDict [])) = Inr []"
    by (simp_all add: schedule_checks_def in_order_clean)
  from parts(2) obtain i v where iv: "dget raw ''id'' = VStr i" "id_re (strip i)" "dget raw ''version'' = VStr v" "semver_re (strip v)"
    by (auto simp: check_id_and_version_clean)
  from parts(1) obtain a where a: "dget raw ''agent'' = VStr a" "\<not> blank a" by (auto simp: require_strings_clean)
  from schedule_section_clean [OF parts(3)] obtain sc ty z where sc: "dget raw ''schedule'' = VDict sc" "dget sc ''type'' = VStr ty"
      "ty \<in> {''one_shot'', ''interval'', ''cron''}"
      "ty = ''cron'' \<longrightarrow> (\<exists>e. dget sc ''expression'' = VStr e \<and> length (split_ws e) = 5)"
      "ty = ''interval'' \<longrightarrow> (\<exists>n. as_int (dget sc ''seconds'') = Some n \<and> 0 < n)"
      "dget_default sc ''timezone'' (VStr ''UTC'') = VStr z" "\<not> blank z"
    by auto
  from run_section_clean [OF parts(4)] obtain run mr mc rl where run: "dget raw ''run'' = VDict run"
      "as_int (dget run ''max_runtime_seconds'') = Some mr" "0 \<le> mr" "as_int (dget run ''max_concurrency'') = Some mc" "0 < mc"
      "as_int (dget run ''retry_limit'') = Some rl" "0 \<le> rl"
      and q: "dget run ''query'' = VNone \<or> bounded_string 4000 (dget run ''query'')"
      and o': "dget run ''order_id'' = VNone \<or> bounded_string 128 (dget run ''order_id'')"
      and x: "dget run ''allow_external_processing'' = VNone \<or> (\<exists>b. dget run ''allow_external_processing'' = VBool b)"
    by blast
  from permissions_section_clean [OF parts(5)] obtain pm m where pm: "dget raw ''permissions'' = VDict pm" "dget pm ''mode'' = VStr m"
      "m \<in> {''read_only'', ''approved_write''}" by blast
  from notify_section_clean [OF parts(6)] obtain nt oi where nt: "dget_default raw ''notify'' (VDict []) = VDict nt"
      and ch: "dget nt ''channel'' = VNone \<or> bounded_string 64 (dget nt ''channel'')"
      and oi: "dget_default nt ''only_if'' (VStr ''finding_or_failure'') = VStr oi" "oi \<in> {''always'', ''finding_or_failure'', ''failure''}"
    by blast
  have sections: "section_of raw ''schedule'' = VDict sc" "section_of raw ''run'' = VDict run"
      "section_of raw ''permissions'' = VDict pm" "section_of raw ''notify'' = VDict nt"
    using sc(1) run(1) pm(1) nt by (simp_all add: section_of_VDict section_of_default)
  have ints: "py_to_int (dget_default run ''max_runtime_seconds'' (VInt 300)) = Inr mr"
      "py_to_int (dget_default run ''max_concurrency'' (VInt 1)) = Inr mc" "py_to_int (dget_default run ''retry_limit'' (VInt 0)) = Inr rl"
    using run(2,4,6) by (simp_all add: py_to_int_default)
  have mode: "dget_default pm ''mode'' (VStr ''read_only'') = VStr m" using pm(2) by (simp add: dget_default_present)
  have ext: "as_bool (dget_default run ''allow_external_processing'' (VBool False)) \<noteq> None"
    using x assms(2) [OF run(1)] by (auto simp: dget_def dget_default_def split: option.splits)
  obtain s where s: "build_schedule rep raw sc run pm nt = Inr s" and ids: "sd_id s = i" "sd_version s = v" "sd_agent s = a" "sd_schedule_type s = ty"
      and times: "sd_timezone_name s = z" "sd_expression s = as_str (dget sc ''expression'')" "sd_interval_seconds s = as_int (dget sc ''seconds'')"
      and bounds: "sd_max_runtime_seconds s = mr" "sd_max_concurrency s = mc" "sd_retry_limit s = rl" "sd_permissions_mode s = m"
      and rest: "sd_query s = as_str (dget run ''query'')" "sd_order_id s = as_str (dget run ''order_id'')" "sd_notify_only_if s = oi"
        "sd_notify_channel s = (if dget nt ''channel'' = VNone then None else Some (py_str rep (dget nt ''channel'')))"
    using built_schedule [where rep = rep, OF dget_VStr_required [OF iv(1)] dget_VStr_required [OF iv(3)] dget_VStr_required [OF a(1)]
        dget_VStr_required [OF sc(2)] ints sc(6) mode oi(1)] by (elim exE conjE) (rule that)
  have "well_formed_schedule s"
    unfolding well_formed_schedule_def ids times bounds rest
  proof (intro conjI)
    show "ty = ''cron'' \<longrightarrow> (\<exists>e. as_str (dget sc ''expression'') = Some e \<and> length (split_ws e) = 5)" using sc(4) by simp
    show "\<forall>c. (if dget nt ''channel'' = VNone then None else Some (py_str rep (dget nt ''channel''))) = Some c \<longrightarrow> \<not> blank c \<and> length c \<le> 64"
      using ch by (auto simp: bounded_string_iff)
    show "\<forall>q. as_str (dget run ''query'') = Some q \<longrightarrow> \<not> blank q \<and> length q \<le> 4000" using q by (auto simp: bounded_string_iff)
    show "\<forall>o'. as_str (dget run ''order_id'') = Some o' \<longrightarrow> \<not> blank o' \<and> length o' \<le> 128" using o' by (auto simp: bounded_string_iff)
  qed (fact iv a sc run pm oi)+
  have "load_schedule rep (VDict raw) = build_schedule rep raw sc run pm nt"
    using sections ext bounded_string_optional [OF q] bounded_string_optional [OF o'] by (auto simp: load_schedule_def)
  with s \<open>well_formed_schedule s\<close> show ?thesis by simp
qed

text \<open>
  C35. A schedule whose report is empty is one the scheduler can load: its document is a mapping, and unless its run section
  sets \<^verbatim>\<open>allow_external_processing\<close> to an explicit null, \<^verbatim>\<open>load_schedule\<close> returns a definition with a valid
  identifier and version, a known schedule type with the field it needs, non-negative limits, at least one concurrent
  run, a known permission mode and bounded texts.\<close>

theorem valid_schedule_loads:
  assumes "validate_schedule cf p = Inr report" "report_valid report"
  shows "\<exists>raw. cf_read_yaml cf p = Loaded (VDict raw) \<and>
    ((\<forall>run. dget raw ''run'' = VDict run \<longrightarrow> map_of run ''allow_external_processing'' \<noteq> Some VNone) \<longrightarrow>
     (\<exists>s. load_schedule rep (VDict raw) = Inr s \<and> well_formed_schedule s))"
proof -
  from assms have "with_mapping (cf_read_yaml cf p) (cannot_load ''YAML'' p) ''schedule'' schedule_checks = Inr []"
    by (auto simp: validate_schedule_def report_valid_def dest: map_sum_report)
  from with_mapping_clean [OF this] clean_schedule_loads show ?thesis by metis
qed

section \<open>MCP configurations that pass the check\<close>

text \<open>The tools a configuration declares, in the order of the document.\<close>

definition declared_tools :: "pyval \<Rightarrow> pyval list" where
  "declared_tools server = (case server of VDict d \<Rightarrow> (case dget d ''tools'' of VList ts \<Rightarrow> ts | _ \<Rightarrow> []) | _ \<Rightarrow> [])"

definition sound_tool :: "pyval \<Rightarrow> bool" where
  "sound_tool v = (case v of
     VDict t \<Rightarrow> (\<exists>n r. dget t ''name'' = VStr n \<and> tool_name_re n \<and> dget t ''risk'' = VStr r \<and> tool_risk_of r \<noteq> None) \<and>
       list_of is_str (dget t ''allow_roles'') \<and> as_bool (dget t ''external_write'') \<noteq> None
   | _ \<Rightarrow> False)"

definition tool_name_of :: "pyval \<Rightarrow> string" where
  "tool_name_of v = (case v of VDict t \<Rightarrow> (case dget t ''name'' of VStr n \<Rightarrow> n | _ \<Rightarrow> []) | _ \<Rightarrow> [])"

lemma risk_values_known: "r \<in> set risk_values \<Longrightarrow> tool_risk_of r \<noteq> None"
  by (auto simp: risk_values_def tool_risk_of_def)

lemma tool_name_check_clean:
  "tool_name_check sid v seen = ([], seen') \<Longrightarrow> \<exists>n. v = VStr n \<and> tool_name_re n \<and> n \<notin> set seen \<and> seen' = n # seen"
  by (auto simp: tool_name_check_def split: pyval.splits if_splits)

lemma tools_loop_clean:
  "tools_loop rep sid ts seen = (Inr [], seen') \<Longrightarrow>
     list_all sound_tool ts \<and> distinct (map tool_name_of ts) \<and> set (map tool_name_of ts) \<inter> set seen = {} \<and>
     set seen' = set (map tool_name_of ts) \<union> set seen"
proof (induction rep sid ts seen arbitrary: seen' rule: tools_loop.induct)
  case (2 rep sid tool tools seen)
  obtain es s1 where n: "tool_name_check sid (dget tool ''name'') seen = (es, s1)" by (rule prod.exhaust)
  obtain rest s2 where r: "tools_loop rep sid tools s1 = (rest, s2)" by (rule prod.exhaust)
  from "2.prems" n r have clean: "es = []" "tool_checks rep tool = Inr []" "rest = Inr []" "seen' = s2"
    by (auto simp: and_then_clean)
  from n clean(1) tool_name_check_clean obtain nm where nm: "dget tool ''name'' = VStr nm" "tool_name_re nm" "nm \<notin> set seen" "s1 = nm # seen"
    by metis
  have "sound_tool (VDict tool)"
    using clean(2) nm(1,2) risk_values_known by (auto simp: sound_tool_def tool_checks_def Let_def no_issue_simps)
  moreover have "tool_name_of (VDict tool) = nm" using nm(1) by (simp add: tool_name_of_def)
  ultimately show ?case using "2.IH" [OF n [symmetric] refl, of s2] r clean(3,4) nm by auto
qed (auto simp: and_then_clean split: prod.splits)

lemma server_checks_clean:
  assumes "server_checks rep sid server seen = (Inr [], seen')"
  shows "id_re sid \<and> (\<exists>d t. server = VDict d \<and> dget d ''transport'' = VStr t \<and> t \<in> set transport_values) \<and> declared_tools server \<noteq> [] \<and>
    list_all sound_tool (declared_tools server) \<and> distinct (map tool_name_of (declared_tools server)) \<and>
    set (map tool_name_of (declared_tools server)) \<inter> set seen = {} \<and> set seen' = set (map tool_name_of (declared_tools server)) \<union> set seen"
proof (cases server)
  case (VDict d)
  with assms obtain t ts where tools: "dget d ''tools'' = VList (t # ts)"
    by (auto simp: server_checks_def Let_def no_issue_simps split: pyval.splits list.splits prod.splits)
  obtain rest s1 where loop: "tools_loop rep sid (t # ts) seen = (rest, s1)" by (rule prod.exhaust)
  with assms VDict tools have "rest = Inr []" "s1 = seen'" "id_re sid" "\<exists>tr\<in>set transport_values. dget d ''transport'' = VStr tr"
    by (auto simp: server_checks_def Let_def no_issue_simps)
  with VDict tools tools_loop_clean [of rep sid "t # ts" seen seen'] loop show ?thesis
    by (auto simp: declared_tools_def)
qed (use assms in \<open>auto simp: server_checks_def Let_def no_issue_simps\<close>)

lemma servers_loop_clean:
  "servers_loop rep servers seen = Inr [] \<Longrightarrow>
     list_all (\<lambda>(sid, server). id_re sid \<and> declared_tools server \<noteq> []) servers \<and>
     list_all sound_tool (concat (map (declared_tools \<circ> snd) servers)) \<and>
     distinct (map tool_name_of (concat (map (declared_tools \<circ> snd) servers))) \<and>
     set (map tool_name_of (concat (map (declared_tools \<circ> snd) servers))) \<inter> set seen = {}"
proof (induction rep servers seen rule: servers_loop.induct)
  case (2 rep sid server servers seen)
  obtain c s1 where c: "server_checks rep sid server seen = (c, s1)" by (rule prod.exhaust)
  with "2.prems" have "c = Inr []" "servers_loop rep servers s1 = Inr []" by (auto simp: and_then_clean)
  with server_checks_clean c "2.IH" [OF c [symmetric] refl] have a:
      "id_re sid" "declared_tools server \<noteq> []" "list_all sound_tool (declared_tools server)"
      "distinct (map tool_name_of (declared_tools server))" "set (map tool_name_of (declared_tools server)) \<inter> set seen = {}"
      "set s1 = set (map tool_name_of (declared_tools server)) \<union> set seen"
    and b: "list_all (\<lambda>(sid, server). id_re sid \<and> declared_tools server \<noteq> []) servers"
      "list_all sound_tool (concat (map (declared_tools \<circ> snd) servers))"
      "distinct (map tool_name_of (concat (map (declared_tools \<circ> snd) servers)))"
      "set (map tool_name_of (concat (map (declared_tools \<circ> snd) servers))) \<inter> set s1 = {}"
    by blast+
  show ?case using a b by (simp add: comp_def) blast
qed simp

text \<open>
  An MCP configuration whose report is empty declares at least one server, each with a valid identifier and at least
  one tool; every declared tool has a valid name, a risk class of the runtime's enumeration, a list of roles and an
  explicit write flag; and no tool name is declared twice, across all servers.\<close>

lemma valid_mcp_config_sound:
  assumes "validate_mcp_config rep cf p = Inr report" "report_valid report"
  shows "\<exists>d servers. cf_read_yaml cf p = Loaded (VDict d) \<and> dget d ''servers'' = VDict servers \<and> servers \<noteq> [] \<and>
    list_all (\<lambda>(sid, server). id_re sid \<and> declared_tools server \<noteq> []) servers \<and>
    list_all sound_tool (concat (map (declared_tools \<circ> snd) servers)) \<and>
    distinct (map tool_name_of (concat (map (declared_tools \<circ> snd) servers)))"
proof -
  from assms have "with_mapping (cf_read_yaml cf p) (cannot_load ''YAML'' p) ''config'' (mcp_checks rep) = Inr []"
    by (auto simp: validate_mcp_config_def report_valid_def dest: map_sum_report)
  from with_mapping_clean [OF this] obtain d where d: "cf_read_yaml cf p = Loaded (VDict d)" "mcp_checks rep d = Inr []" by blast
  from d(2) obtain s ss where s: "dget d ''servers'' = VDict (s # ss)" "servers_loop rep (s # ss) [] = Inr []"
    by (auto simp: mcp_checks_def split: pyval.splits list.splits)
  with d(1) servers_loop_clean [OF s(2)] show ?thesis by blast
qed

section \<open>Contained files\<close>

text \<open>A path that is accepted resolves below the resolved directory of its contract, whatever the file system.\<close>

lemma contained_below:
  assumes "contained cf found stay escapes missing base relative name = Inr (es, Some q)"
  shows "es = [] \<and> found q \<and> (\<exists>b. cf_resolve cf base = Inr b \<and> below b q)"
  using assms by (auto simp: contained_def split: pyval.splits if_splits sum.splits)

text \<open>The parts of an accepted relative path never climb, so without symbolic links the join itself stays below.\<close>

lemma contained_no_dot_dot:
  assumes "contained cf found stay escapes missing base relative name = Inr (es, Some q)"
  shows "\<exists>s. relative = VStr s \<and> cf_resolve cf (base @ path_parts s) = Inr q \<and> normpath [] (base @ path_parts s) = normpath [] base @ path_parts s"
proof -
  from assms obtain s where s: "relative = VStr s" "\<not> startswith s ''/''" "''..'' \<notin> set (path_parts s)" "cf_resolve cf (base @ path_parts s) = Inr q"
    by (auto simp: contained_def split: pyval.splits if_splits sum.splits)
  have app: "normpath acc (xs @ ys) = normpath (normpath acc xs) ys" for acc xs ys
    by (induction xs arbitrary: acc) auto
  have "list_all (\<lambda>p. \<not> dot_part p) (path_parts s)"
    using s(2,3) by (auto simp: path_parts_def list_all_iff dot_part_def)
  with s app show ?thesis by (simp add: normpath_plain)
qed

section \<open>The integrity digest\<close>

lemma digest_input_determines:
  assumes "\<forall>s. length (sha s) = 64"
    and "map (drop (length r)) ps = map (drop (length r')) ps'"
    and "digest_input sha cf r ps = Inr x" "digest_input sha cf' r' ps' = Inr x"
  shows "list_all2 (\<lambda>p p'. \<exists>a b. cf_read_bytes cf p = Inr a \<and> cf_read_bytes cf' p' = Inr b \<and> sha a = sha b) ps ps'"
  using assms(2-4)
proof (induction ps arbitrary: ps' x)
  case (Cons p ps)
  then obtain p' qs where ps': "ps' = p' # qs" "drop (length r) p = drop (length r') p'" "map (drop (length r)) ps = map (drop (length r')) qs"
    by (cases ps') auto
  let ?u = "utf8_encode (as_posix (drop (length r) p))"
  from Cons.prems(2) obtain a y where a: "cf_read_bytes cf p = Inr a" "digest_input sha cf r ps = Inr y" "x = ?u @ sha a @ y"
    by (cases "cf_read_bytes cf p"; cases "digest_input sha cf r ps") (auto simp: file_digest_def split: if_splits)
  from Cons.prems(3) ps' obtain b z where b: "cf_read_bytes cf' p' = Inr b" "digest_input sha cf' r' qs = Inr z" "x = ?u @ sha b @ z"
    by (cases "cf_read_bytes cf' p'"; cases "digest_input sha cf' r' qs") (auto simp: file_digest_def split: if_splits)
  from a(3) b(3) assms(1) have "sha a = sha b" "y = z" by auto
  with a b ps' Cons.IH [OF ps'(3) a(2)] show ?case by auto
qed auto

text \<open>
  The integrity digest of a plugin pins the bytes of every file: two directories with the same relative file paths and
  the same digest hold the same bytes, file by file, unless SHA-256 gave the same digest for two different inputs that
  were hashed, the contents of two files at the same path or the two lists of names and file digests.\<close>

lemma plugin_integrity_detects_change:
  assumes "\<forall>s. length (sha s) = 64"
    and "cf_resolve cf dir = Inr r" "cf_resolve cf' dir' = Inr r'"
    and "map (drop (length r)) (hashed_files cf r) = map (drop (length r')) (hashed_files cf' r')"
    and "plugin_integrity sha cf dir = Inr h" "plugin_integrity sha cf' dir' = Inr h"
  shows "map (cf_read_bytes cf) (hashed_files cf r) = map (cf_read_bytes cf') (hashed_files cf' r') \<or>
    (\<exists>i a b. i < length (hashed_files cf r) \<and> cf_read_bytes cf (hashed_files cf r ! i) = Inr a \<and>
       cf_read_bytes cf' (hashed_files cf' r' ! i) = Inr b \<and> a \<noteq> b \<and> sha a = sha b) \<or>
    (\<exists>x y. digest_input sha cf r (hashed_files cf r) = Inr x \<and> digest_input sha cf' r' (hashed_files cf' r') = Inr y \<and>
       x \<noteq> y \<and> sha x = sha y)"
proof -
  from assms(2,5) obtain x where x: "digest_input sha cf r (hashed_files cf r) = Inr x" "h = sha x"
    by (cases "digest_input sha cf r (hashed_files cf r)") (auto simp: plugin_integrity_def)
  from assms(3,6) obtain y where y: "digest_input sha cf' r' (hashed_files cf' r') = Inr y" "h = sha y"
    by (cases "digest_input sha cf' r' (hashed_files cf' r')") (auto simp: plugin_integrity_def)
  show ?thesis
  proof (cases "x = y")
    case True
    from digest_input_determines [OF assms(1,4) x(1)] y(1) True
    have all: "list_all2 (\<lambda>p p'. \<exists>a b. cf_read_bytes cf p = Inr a \<and> cf_read_bytes cf' p' = Inr b \<and> sha a = sha b)
        (hashed_files cf r) (hashed_files cf' r')" by simp
    show ?thesis
    proof (cases "map (cf_read_bytes cf) (hashed_files cf r) = map (cf_read_bytes cf') (hashed_files cf' r')")
      case False
      with all list_all2_lengthD [OF all] obtain i where i: "i < length (hashed_files cf r)"
          "cf_read_bytes cf (hashed_files cf r ! i) \<noteq> cf_read_bytes cf' (hashed_files cf' r' ! i)"
        by (auto simp: list_eq_iff_nth_eq)
      with all list_all2_nthD [OF all] show ?thesis by metis
    qed simp
  qed (use x y in blast)
qed

text \<open>
  The converse fails when the names differ: names and digests are concatenated without separators, so a plugin of two
  files has the digest of another plugin with one file, whose name contains the digest of the missing one.
\<close>

definition tree_fs :: "path \<Rightarrow> (path \<times> string) list \<Rightarrow> contract_fs" where
  "tree_fs dir files =
     \<lparr>cf_read_yaml = \<lambda>_. Refused ''OSError'', cf_read_json = \<lambda>_. Refused ''OSError'', cf_read_text = \<lambda>_. Refused ''OSError'',
      cf_read_bytes = \<lambda>p. (case map_of files p of None \<Rightarrow> Inl ''OSError'' | Some x \<Rightarrow> Inr x), cf_safe_load = \<lambda>_. Refused ''YAMLError'',
      cf_resolve = Inr, cf_is_file = \<lambda>p. p \<in> set (map fst files), cf_is_dir = \<lambda>p. p = dir, cf_exists = \<lambda>p. p = dir \<or> p \<in> set (map fst files),
      cf_rglob = \<lambda>_ _. map fst files, cf_glob = \<lambda>_ _. []\<rparr>"

lemma utf8_encode_ascii: "list_all (\<lambda>c. code c < 128) s \<Longrightarrow> utf8_encode s = s"
  by (induction s) (auto simp: utf8_encode_def Let_def)

lemma plugin_integrity_ambiguous:
  assumes "list_all (\<lambda>c. code c < 128) (sha x)"
  shows "plugin_integrity sha (tree_fs [''/'', ''p''] [([''/'', ''p'', ''a''], x), ([''/'', ''p'', ''b''], y)]) [''/'', ''p''] =
    plugin_integrity sha (tree_fs [''/'', ''p''] [([''/'', ''p'', ''a'' @ sha x @ ''b''], y)]) [''/'', ''p'']"
proof -
  have "utf8_encode (''a'' @ sha x @ ''b'') = ''a'' @ sha x @ ''b''"
    using assms by (intro utf8_encode_ascii) (simp add: code_def)
  moreover have "hashed_files (tree_fs [''/'', ''p''] [([''/'', ''p'', ''a''], x), ([''/'', ''p'', ''b''], y)]) [''/'', ''p''] =
      [[''/'', ''p'', ''a''], [''/'', ''p'', ''b'']]"
    by (simp add: hashed_files_def tree_fs_def) 
  moreover have "hashed_files (tree_fs [''/'', ''p''] [([''/'', ''p'', ''a'' @ sha x @ ''b''], y)]) [''/'', ''p''] = [[''/'', ''p'', ''a'' @ sha x @ ''b'']]"
    by (simp add: hashed_files_def tree_fs_def)
  ultimately show ?thesis
    by (simp add: plugin_integrity_def tree_fs_def file_digest_def below_def as_posix_def utf8_encode_ascii code_def)
qed

section \<open>Concrete contracts\<close>

definition demo_schedule :: pydict where
  "demo_schedule =
     [(''id'', VStr ''daily-report''), (''version'', VStr ''1.0.0''), (''agent'', VStr ''sales-agent''),
      (''schedule'', VDict [(''type'', VStr ''interval''), (''seconds'', VInt 3600)]),
      (''run'', VDict [(''max_runtime_seconds'', VInt 300), (''max_concurrency'', VInt 1), (''retry_limit'', VInt 2)]),
      (''permissions'', VDict [(''mode'', VStr ''read_only'')])]"

definition demo_null_schedule :: pydict where
  "demo_null_schedule =
     [(''id'', VStr ''daily-report''), (''version'', VStr ''1.0.0''), (''agent'', VStr ''sales-agent''),
      (''schedule'', VDict [(''type'', VStr ''interval''), (''seconds'', VInt 3600)]),
      (''run'', VDict [(''max_runtime_seconds'', VInt 300), (''max_concurrency'', VInt 1), (''retry_limit'', VInt 2),
         (''allow_external_processing'', VNone)]),
      (''permissions'', VDict [(''mode'', VStr ''read_only'')])]"

definition yaml_fs :: "pyval \<Rightarrow> contract_fs" where
  "yaml_fs doc = (tree_fs [] [])\<lparr>cf_read_yaml := \<lambda>_. Loaded doc\<rparr>"

lemma demo_schedule_checks: "schedule_checks demo_schedule = Inr []" "schedule_checks demo_null_schedule = Inr []"
  by code_simp+

theorem valid_schedule_loads_witness:
  "\<exists>s. load_schedule (\<lambda>_. []) (VDict demo_schedule) = Inr s \<and> well_formed_schedule s"
proof -
  have v: "validate_schedule (yaml_fs (VDict demo_schedule)) [''s.yaml''] = Inr (base_report ''schedule'' [''s.yaml''] [])"
    by (simp add: validate_schedule_def yaml_fs_def with_mapping_def require_mapping_def demo_schedule_checks)
  from valid_schedule_loads [OF v, of "\<lambda>_. []"] show ?thesis
    by (auto simp: report_valid_def base_report_def yaml_fs_def demo_schedule_def dget_def)
qed

text \<open>The exception: the validator accepts an explicit null where the loader insists on a boolean.\<close>

lemma null_processing_validates_but_fails:
  "validate_schedule (yaml_fs (VDict demo_null_schedule)) [''s.yaml''] = Inr (base_report ''schedule'' [''s.yaml''] []) \<and>
   load_schedule rep (VDict demo_null_schedule) = Inl (TypeError ''run.allow_external_processing must be a boolean'')"
proof (intro conjI)
  show "validate_schedule (yaml_fs (VDict demo_null_schedule)) [''s.yaml''] = Inr (base_report ''schedule'' [''s.yaml''] [])"
    by (simp add: validate_schedule_def yaml_fs_def with_mapping_def require_mapping_def demo_schedule_checks)
  show "load_schedule rep (VDict demo_null_schedule) = Inl (TypeError ''run.allow_external_processing must be a boolean'')"
    by (simp add: load_schedule_def demo_null_schedule_def section_of_def dget_def dget_default_def optional_str_def)
qed

text \<open>A value that cannot be hashed escapes the validator as an exception instead of becoming an issue.\<close>

lemma unhashable_mode_raises:
  "validate_schedule (yaml_fs (VDict (AList.update ''permissions'' (VDict [(''mode'', VList [])]) demo_schedule))) p = Inl ''TypeError''"
proof -
  have "schedule_checks (AList.update ''permissions'' (VDict [(''mode'', VList [])]) demo_schedule) = Inl ''TypeError''" by code_simp
  then show ?thesis by (simp add: validate_schedule_def yaml_fs_def with_mapping_def require_mapping_def)
qed

definition demo_mcp_config :: pydict where
  "demo_mcp_config =
     [(''servers'', VDict [(''erp'', VDict [(''transport'', VStr ''in_memory''), (''tools'', VList
        [VDict [(''name'', VStr ''erp.get_order_status''), (''risk'', VStr ''read''), (''allow_roles'', VList [VStr ''customer'']), (''external_write'', VBool False)],
         VDict [(''name'', VStr ''erp.refund''), (''risk'', VStr ''write''), (''allow_roles'', VList [VStr ''support'']), (''external_write'', VBool True)]])])])]"

lemma valid_mcp_config_sound_witness:
  "list_all sound_tool (concat (map (declared_tools \<circ> snd) [(''erp'', dget (case dget demo_mcp_config ''servers'' of VDict s \<Rightarrow> s | _ \<Rightarrow> []) ''erp'')]))"
proof -
  have c: "mcp_checks (\<lambda>_. []) demo_mcp_config = Inr []" by code_simp
  have "validate_mcp_config (\<lambda>_. []) (yaml_fs (VDict demo_mcp_config)) [''m.yaml''] = Inr (base_report ''mcp'' [''m.yaml''] [])"
    by (simp add: validate_mcp_config_def yaml_fs_def with_mapping_def require_mapping_def c)
  from valid_mcp_config_sound [OF this] show ?thesis
    by (auto simp: report_valid_def base_report_def yaml_fs_def demo_mcp_config_def dget_def)
qed

text \<open>A stand-in for the digest with its length, for the concrete runs.\<close>

definition pad64 :: "string \<Rightarrow> string" where
  "pad64 s = take 64 (s @ replicate 64 CHR ''0'')"

lemma plugin_integrity_detects_change_witness:
  "plugin_integrity pad64 (tree_fs [''/'', ''p''] [([''/'', ''p'', ''a''], ''x'')]) [''/'', ''p''] \<noteq>
   plugin_integrity pad64 (tree_fs [''/'', ''q''] [([''/'', ''q'', ''a''], ''y'')]) [''/'', ''q'']"
proof
  let ?p = "tree_fs [''/'', ''p''] [([''/'', ''p'', ''a''], ''x'')]" and ?q = "tree_fs [''/'', ''q''] [([''/'', ''q'', ''a''], ''y'')]"
  have f: "hashed_files ?p [''/'', ''p''] = [[''/'', ''p'', ''a'']]" "hashed_files ?q [''/'', ''q''] = [[''/'', ''q'', ''a'']]"
    by (simp_all add: hashed_files_def tree_fs_def)
  have r: "cf_resolve ?p [''/'', ''p''] = Inr [''/'', ''p'']" "cf_resolve ?q [''/'', ''q''] = Inr [''/'', ''q'']" by (simp_all add: tree_fs_def)
  have d: "digest_input pad64 ?p [''/'', ''p''] [[''/'', ''p'', ''a'']] = Inr (''a'' @ pad64 ''x'')"
      "digest_input pad64 ?q [''/'', ''q''] [[''/'', ''q'', ''a'']] = Inr (''a'' @ pad64 ''y'')"
    by (simp_all add: tree_fs_def file_digest_def below_def as_posix_def utf8_encode_ascii code_def)
  have len: "\<forall>s. length (pad64 s) = 64" by (simp add: pad64_def min_def)
  assume "plugin_integrity pad64 ?p [''/'', ''p''] = plugin_integrity pad64 ?q [''/'', ''q'']"
  moreover obtain h where h: "plugin_integrity pad64 ?p [''/'', ''p''] = Inr h" using f r d by (simp add: plugin_integrity_def)
  ultimately have "plugin_integrity pad64 ?q [''/'', ''q''] = Inr h" by simp
  from plugin_integrity_detects_change [OF len r _ h this] show False
    using f d by (simp add: tree_fs_def pad64_def)
qed

end
