(* ===== verification/Py_Datetime_Order.thy ===== *)
theory Py_Datetime_Order
  imports Py_Datetime
begin

text \<open>
  The stores compare timestamps as text (\<^verbatim>\<open>created_at < ?\<close>, \<^verbatim>\<open>ORDER BY created_at\<close>, sorting by
  \<^verbatim>\<open>started_at\<close>). This theory shows that the code point order of the UTC ISO texts is the order of the
  instants, although the fraction of a second is left out when it is zero.
\<close>

section \<open>Lexicographic order of fixed-width fields\<close>

lemma append_less_iff:
  fixes x y :: string
  assumes "length u = length v"
  shows "u @ x < v @ y \<longleftrightarrow> u < v \<or> (u = v \<and> x < y)"
  using assms by (induction u v rule: list_induct2) auto

lemma digit_less_iff: "i < 10 \<Longrightarrow> j < 10 \<Longrightarrow> (char_of (48 + i) :: char) < char_of (48 + j) \<longleftrightarrow> i < (j :: nat)"
  by (simp add: less_char_def)

lemma digit_eq_iff: "i < 10 \<Longrightarrow> j < 10 \<Longrightarrow> (char_of (48 + i) :: char) = char_of (48 + j) \<longleftrightarrow> i = (j :: nat)"
proof -
  assume "i < 10" "j < 10"
  then have "code (char_of (48 + i)) = 48 + i" "code (char_of (48 + j)) = 48 + j" by (simp_all add: code_char_of)
  then show ?thesis by (metis add_left_cancel)
qed

lemma div_mod_less_iff: "a < b \<longleftrightarrow> a div k < b div k \<or> (a div k = b div k \<and> a mod k < b mod (k :: nat))"
proof (cases "a div k = b div k")
  case True
  then have "a < b \<longleftrightarrow> a mod k < b mod k"
    by (metis add_less_cancel_left div_mult_mod_eq)
  then show ?thesis using True by simp
next
  case False
  have "a div k < b div k \<Longrightarrow> a < b" by (meson div_le_mono leD leI)
  moreover have "a < b \<Longrightarrow> a div k \<le> b div k" by (simp add: div_le_mono)
  ultimately show ?thesis using False by linarith
qed

lemma pad_less_eq:
  assumes "m < 10 ^ k" "n < 10 ^ k"
  shows "(pad k m < pad k n \<longleftrightarrow> m < n) \<and> (pad k m = pad k n \<longleftrightarrow> m = n)"
  using assms
proof (induction k arbitrary: m n)
  case (Suc k)
  have "m div 10 < 10 ^ k" "n div 10 < 10 ^ k" using Suc.prems by (simp_all add: less_mult_imp_div_less mult.commute)
  then have ih: "pad k (m div 10) < pad k (n div 10) \<longleftrightarrow> m div 10 < n div 10"
    "pad k (m div 10) = pad k (n div 10) \<longleftrightarrow> m div 10 = n div 10" using Suc.IH by blast+
  have l: "pad (Suc k) m < pad (Suc k) n \<longleftrightarrow> m div 10 < n div 10 \<or> (m div 10 = n div 10 \<and> m mod 10 < n mod 10)"
    by (simp add: append_less_iff ih digit_less_iff)
  have e: "pad (Suc k) m = pad (Suc k) n \<longleftrightarrow> m div 10 = n div 10 \<and> m mod 10 = n mod 10"
    by (simp add: ih digit_eq_iff)
  have "m = n \<longleftrightarrow> m div 10 = n div 10 \<and> m mod 10 = n mod 10" by (metis div_mult_mod_eq)
  then show ?case using l e div_mod_less_iff [of m n 10] by simp
qed simp

lemma pad_append_less:
  "m < 10 ^ k \<Longrightarrow> n < 10 ^ k \<Longrightarrow> pad k m @ x < pad k n @ y \<longleftrightarrow> m < n \<or> (m = n \<and> x < (y :: string))"
  by (simp add: append_less_iff pad_less_eq)

lemma pad_fields_less:
  "m < 100 \<Longrightarrow> n < 100 \<Longrightarrow> pad 2 m @ x < pad 2 n @ y \<longleftrightarrow> m < n \<or> (m = n \<and> x < (y :: string))"
  "m < 10000 \<Longrightarrow> n < 10000 \<Longrightarrow> pad 4 m @ x < pad 4 n @ y \<longleftrightarrow> m < n \<or> (m = n \<and> x < (y :: string))"
  using pad_append_less [of m 2 n x y] pad_append_less [of m 4 n x y] by simp_all

section \<open>The calendar\<close>

lemma leap_count_step:
  fixes a b c a' b' c' k l :: nat
  assumes "a' + b' + c = a + b + c' + l" "c \<le> a" "c' \<le> a'"
  shows "Suc k * 365 + a' - c' + b' = k * 365 + a - c + b + (365 + l)"
  using assms by simp

lemma days_before_year_Suc:
  assumes "1 \<le> y"
  shows "days_before_year (Suc y) = days_before_year y + (if is_leap y then 366 else 365)"
proof -
  obtain k where y: "y = Suc k" using assms by (cases y) auto
  have d: "k div 100 \<le> k div 4" by (rule div_le_mono2) simp_all
  have i: "Suc k mod 100 = 0 \<Longrightarrow> Suc k mod 4 = 0" "Suc k mod 400 = 0 \<Longrightarrow> Suc k mod 100 = 0"
    using dvd_trans [of 4 100 "Suc k"] dvd_trans [of 100 400 "Suc k"] by (simp_all add: mod_eq_0_iff_dvd)
  have s: "(Suc k div 4) + (Suc k div 400) + k div 100 = k div 4 + k div 400 + Suc k div 100 + (if is_leap (Suc k) then 1 else 0)"
    using i unfolding is_leap_def div_Suc by (cases "Suc k mod 4 = 0"; cases "Suc k mod 100 = 0"; cases "Suc k mod 400 = 0") simp_all
  have d': "Suc k div 100 \<le> Suc k div 4" by (rule div_le_mono2) simp_all
  show ?thesis using leap_count_step [OF s d d', of k] unfolding y days_before_year_def
    by (simp only: diff_Suc_1 split: if_splits) simp_all
qed

lemma days_before_year_mono: "1 \<le> y \<Longrightarrow> y < y' \<Longrightarrow> days_before_year y + (if is_leap y then 366 else 365) \<le> days_before_year y'"
proof (induction y')
  case (Suc n)
  show ?case
  proof (cases "y = n")
    case False
    then have "days_before_year y + (if is_leap y then 366 else 365) \<le> days_before_year n" "1 \<le> n"
      using Suc by simp_all
    then show ?thesis using days_before_year_Suc [of n] by simp
  qed (use Suc days_before_year_Suc in simp)
qed simp

lemma days_before_month_mono: "1 \<le> m \<Longrightarrow> m < m' \<Longrightarrow> days_before_month l m + days_in_month l m \<le> days_before_month l m'"
proof (induction m')
  case (Suc n)
  then show ?case by (cases "m = n") auto
qed simp

lemma days_before_month_year:
  "1 \<le> m \<Longrightarrow> m \<le> 12 \<Longrightarrow> days_before_month l m + days_in_month l m \<le> (if l then 366 else 365)"
proof -
  assume m: "1 \<le> m" "m \<le> 12"
  have "days_before_month l m + days_in_month l m \<le> days_before_month l 12 + 31"
    using days_before_month_mono [of m 12 l] m by (cases "m = 12") (auto simp: days_in_month_def simp del: days_before_month.simps)
  then show ?thesis using days_before_month_13 [of l] by simp
qed

definition ymd_less :: "nat \<times> nat \<times> nat \<Rightarrow> nat \<times> nat \<times> nat \<Rightarrow> bool" where
  "ymd_less a b \<longleftrightarrow> (case (a, b) of ((y, m, d), (y', m', d')) \<Rightarrow>
     y < y' \<or> (y = y' \<and> (m < m' \<or> (m = m' \<and> d < d'))))"

lemma ymd2days_less:
  assumes "ymd_less (y, m, d) (y', m', d')" "1 \<le> y" "1 \<le> m" "m \<le> 12" "1 \<le> d" "d \<le> days_in_month (is_leap y) m"
  shows "ymd2days y m d < ymd2days y' m' d'"
proof -
  have year: "days_before_month (is_leap y) m + (d - 1) < (if is_leap y then 366 else 365)"
    using days_before_month_year [OF assms(3,4), of "is_leap y"] assms(5,6) by (auto split: if_splits)
  consider "y < y'" | "y = y'" "m < m'" | "y = y'" "m = m'" "d < d'" using assms(1) by (auto simp: ymd_less_def)
  then show ?thesis
  proof cases
    case 1
    then show ?thesis using days_before_year_mono [OF assms(2) 1] year unfolding ymd2days_def by linarith
  next
    case 2
    then show ?thesis
      using days_before_month_mono [OF assms(3), of m' "is_leap y"] assms(5,6) unfolding ymd2days_def by simp
  next
    case 3
    then show ?thesis using assms(5) by (simp add: ymd2days_def)
  qed
qed

lemma days2ymd_less_iff: "ymd_less (days2ymd n) (days2ymd n') \<longleftrightarrow> n < n'"
proof -
  obtain y m d where a: "days2ymd n = (y, m, d)" by (rule prod_cases3)
  obtain y' m' d' where b: "days2ymd n' = (y', m', d')" by (rule prod_cases3)
  note A = days2ymd_correct [OF a] and B = days2ymd_correct [OF b]
  have "ymd_less (y, m, d) (y', m', d') \<Longrightarrow> n < n'" using ymd2days_less A B by metis
  moreover have "ymd_less (y', m', d') (y, m, d) \<Longrightarrow> n' < n" using ymd2days_less A B by metis
  moreover have "ymd_less (y, m, d) (y', m', d') \<or> ymd_less (y', m', d') (y, m, d) \<or> (y, m, d) = (y', m', d')"
    by (auto simp: ymd_less_def)
  ultimately show ?thesis using a b A B by auto
qed

section \<open>The order of the texts\<close>

lemma fraction_less:
  "f < 1000000 \<Longrightarrow> g < 1000000 \<Longrightarrow>
     (if f = 0 then [] else ''.'' @ pad 6 f) @ ''+00:00'' < (if g = 0 then [] else ''.'' @ pad 6 g) @ ''+00:00'' \<longleftrightarrow> f < g"
  using pad_append_less [of f 6 g "''+00:00''" "''+00:00''"] by (auto simp: less_char_def)

lemma iso_time_less:
  assumes "a < 86400000000" "b < 86400000000"
  shows "iso_time a @ ''+00:00'' < iso_time b @ ''+00:00'' \<longleftrightarrow> a < b"
proof -
  let ?h = "\<lambda>n :: nat. n div 3600000000" and ?m = "\<lambda>n :: nat. n div 60000000 mod 60"
    and ?s = "\<lambda>n :: nat. n div 1000000 mod 60" and ?f = "\<lambda>n :: nat. n mod 1000000"
  have h: "?h n < 100" if "n < 86400000000" for n using that by simp
  have m: "?m n < 100" "?s n < 100" "?f n < 1000000" for n
    using mod_less_divisor [of 60 "n div 60000000"] mod_less_divisor [of 60 "n div 1000000"] by simp_all
  have split: "a < b \<longleftrightarrow> ?h a < ?h b \<or> (?h a = ?h b \<and> (?m a < ?m b \<or> (?m a = ?m b \<and>
      (?s a < ?s b \<or> (?s a = ?s b \<and> ?f a < ?f b)))))"
  proof -
    have d: "n div 1000000 div 60 = n div 60000000" "n div 60000000 div 60 = ?h n" for n :: nat
      by (simp_all add: div_mult2_eq [symmetric])
    have 1: "a < b \<longleftrightarrow> a div 1000000 < b div 1000000 \<or> (a div 1000000 = b div 1000000 \<and> ?f a < ?f b)"
      by (rule div_mod_less_iff)
    have 2: "a div 1000000 < b div 1000000 \<longleftrightarrow> a div 60000000 < b div 60000000 \<or> (a div 60000000 = b div 60000000 \<and> ?s a < ?s b)"
      using div_mod_less_iff [of "a div 1000000" "b div 1000000" 60] unfolding d .
    have 3: "a div 60000000 < b div 60000000 \<longleftrightarrow> ?h a < ?h b \<or> (?h a = ?h b \<and> ?m a < ?m b)"
      using div_mod_less_iff [of "a div 60000000" "b div 60000000" 60] unfolding d .
    have e2: "a div 1000000 = b div 1000000 \<longleftrightarrow> a div 60000000 = b div 60000000 \<and> ?s a = ?s b"
      using d by (metis div_mult_mod_eq)
    have e3: "a div 60000000 = b div 60000000 \<longleftrightarrow> ?h a = ?h b \<and> ?m a = ?m b"
      using d by (metis div_mult_mod_eq)
    show ?thesis unfolding 1 2 e2 3 e3 by blast
  qed
  have "iso_time a @ ''+00:00'' < iso_time b @ ''+00:00'' \<longleftrightarrow> ?h a < ?h b \<or> (?h a = ?h b \<and> (?m a < ?m b \<or> (?m a = ?m b \<and>
      (?s a < ?s b \<or> (?s a = ?s b \<and> ?f a < ?f b)))))"
    using fraction_less [OF m(3) m(3), of a b]
    by (simp add: iso_time_def pad_fields_less h [OF assms(1)] h [OF assms(2)] m del: if_split split del: if_split)
  then show ?thesis using split by simp
qed

lemma iso_utc_less_iff:
  assumes "valid_instant a" "valid_instant b"
  shows "iso_utc a < iso_utc b \<longleftrightarrow> a < b"
proof -
  obtain y m d where A: "days2ymd (nat (a div day_us)) = (y, m, d)" by (rule prod_cases3)
  obtain y' m' d' where B: "days2ymd (nat (b div day_us)) = (y', m', d')" by (rule prod_cases3)
  have n: "0 \<le> a" "0 \<le> b" "nat (a div day_us) < 3652059" "nat (b div day_us) < 3652059"
    using assms by (auto simp: valid_instant_def day_us_def)
  have dm: "d \<le> 31" "d' \<le> 31"
    using days2ymd_correct [OF A] days2ymd_correct [OF B] by (auto simp: days_in_month_def split: if_splits)
  have b: "y < 10000" "y' < 10000" "m < 100" "m' < 100" "d < 100" "d' < 100"
    using days2ymd_year_bound [OF A n(3)] days2ymd_year_bound [OF B n(4)] days2ymd_correct [OF A] days2ymd_correct [OF B] dm
    by auto
  have t: "nat (x mod day_us) < 86400000000" for x by (simp add: day_us_def nat_less_iff)
  have "iso_utc a < iso_utc b \<longleftrightarrow> ymd_less (y, m, d) (y', m', d') \<or>
      ((y, m, d) = (y', m', d') \<and> nat (a mod day_us) < nat (b mod day_us))"
    using iso_time_less [OF t t, of a b] by (simp add: iso_utc_def A B pad_fields_less b ymd_less_def) blast
  also have "\<dots> \<longleftrightarrow> nat (a div day_us) < nat (b div day_us) \<or>
      (nat (a div day_us) = nat (b div day_us) \<and> nat (a mod day_us) < nat (b mod day_us))"
    using days2ymd_less_iff [of "nat (a div day_us)" "nat (b div day_us)"]
      days2ymd_correct [OF A] days2ymd_correct [OF B] A B by auto
  also have "\<dots> \<longleftrightarrow> nat a < nat b"
    using div_mod_less_iff [of "nat a" "nat b" "nat day_us"] n(1,2)
    by (simp add: nat_div_distrib nat_mod_distrib day_us_def)
  also have "\<dots> \<longleftrightarrow> a < b" using n(1,2) by auto
  finally show ?thesis .
qed

end
