(* ===== verification/Plugin_Registry.thy ===== *)
theory Plugin_Registry
  imports Contract_Validation Py_Datetime_Order
begin

text \<open>
  The review-gated registry of local plugins, from \<^verbatim>\<open>packages/plugins/registry.py\<close>. The file system is a parameter with
  an abstract state; each of its calls returns the class of the exception it raised, or success. \<^verbatim>\<open>json.loads\<close>, SHA-256,
  the clock and \<^verbatim>\<open>uuid4\<close> are parameters too.
\<close>

section \<open>State and parameters\<close>

datatype plugin_error = PluginInstallError string | PluginUncaught string

text \<open>A \<^verbatim>\<open>PluginRecord\<close> checks no types: what is read back from the registry file is kept as it is.\<close>

record plugin_record =
  pr_name :: pyval
  pr_version :: pyval
  pr_publisher :: pyval
  pr_integrity_sha256 :: pyval
  pr_installed_at :: pyval
  pr_source :: pyval
  pr_review_status :: pyval
  pr_requested_tools :: pyval
  pr_requested_network :: pyval
  pr_dependencies :: pyval

text \<open>\<open>pf_view\<close> is reading the file system in a state.\<close>

record 'f plugin_fs =
  pf_view :: "'f \<Rightarrow> contract_fs"
  pf_is_symlink :: "path \<Rightarrow> 'f \<Rightarrow> bool"
  pf_mtime :: "path \<Rightarrow> 'f \<Rightarrow> rat"
  pf_mkdir :: "path \<Rightarrow> 'f \<Rightarrow> (string, unit) result \<times> 'f"
  pf_move :: "path \<Rightarrow> path \<Rightarrow> 'f \<Rightarrow> (string, unit) result \<times> 'f"
  pf_copytree :: "path \<Rightarrow> path \<Rightarrow> 'f \<Rightarrow> (string, unit) result \<times> 'f"
  pf_replace :: "path \<Rightarrow> path \<Rightarrow> 'f \<Rightarrow> (string, unit) result \<times> 'f"
  pf_rmtree :: "path \<Rightarrow> 'f \<Rightarrow> (string, unit) result \<times> 'f"
  pf_write_text :: "path \<Rightarrow> string \<Rightarrow> 'f \<Rightarrow> (string, unit) result \<times> 'f"
  pf_append_text :: "path \<Rightarrow> string \<Rightarrow> 'f \<Rightarrow> (string, unit) result \<times> 'f"

text \<open>
  \<open>pe_stamp\<close> is \<^verbatim>\<open>strftime('%Y%m%d%H%M%S')\<close>; \<open>pe_uuid\<close> and \<open>pe_uuid'\<close> are the two \<^verbatim>\<open>uuid4().hex\<close> of a call; \<open>pe_rep\<close> is \<^verbatim>\<open>repr\<close>.
\<close>

record plugin_env =
  pe_sha :: "string \<Rightarrow> string"
  pe_loads :: "string \<Rightarrow> json_outcome"
  pe_rep :: "pyval \<Rightarrow> string"
  pe_float :: "pyfloat \<Rightarrow> string"
  pe_stamp :: string
  pe_uuid :: string
  pe_uuid' :: string
  pe_now :: instant
  pe_event_now :: instant

text \<open>Statements in sequence, where the first exception ends the call.\<close>

definition io_bind :: "('e, 'a) result \<times> 'f \<Rightarrow> ('a \<Rightarrow> 'f \<Rightarrow> ('e, 'b) result \<times> 'f) \<Rightarrow> ('e, 'b) result \<times> 'f" where
  "io_bind m k = (case m of (Inl e, f) \<Rightarrow> (Inl e, f) | (Inr x, f) \<Rightarrow> k x f)"

definition os_call :: "(string, unit) result \<times> 'f \<Rightarrow> (plugin_error, unit) result \<times> 'f" where
  "os_call m = (map_sum PluginUncaught id (fst m), snd m)"

section \<open>Paths\<close>

definition rollback_root :: "path \<Rightarrow> path" where
  "rollback_root root_dir = root_dir @ [''.rollback'']"

definition registry_path :: "path \<Rightarrow> path" where
  "registry_path root_dir = root_dir @ [''registry.json'']"

definition registry_tmp :: "path \<Rightarrow> path" where
  "registry_tmp root_dir = root_dir @ [''registry.tmp'']"

definition events_path :: "path \<Rightarrow> path" where
  "events_path root_dir = root_dir @ [''events.jsonl'']"

text \<open>\<^verbatim>\<open>base / s\<close>: an absolute operand replaces the base.\<close>

definition join_path :: "path \<Rightarrow> string \<Rightarrow> path" where
  "join_path base s = (if startswith s ''/'' then path_parts s else base @ path_parts s)"

text \<open>\<^verbatim>\<open>(self.root / name).resolve()\<close> and \<^verbatim>\<open>_assert_contained\<close>.\<close>

definition destination_of :: "'f plugin_fs \<Rightarrow> path \<Rightarrow> string \<Rightarrow> 'f \<Rightarrow> (plugin_error, path) result" where
  "destination_of pf root_dir name f =
     (case cf_resolve (pf_view pf f) (join_path root_dir name) of
        Inl e \<Rightarrow> Inl (PluginUncaught e)
      | Inr destination \<Rightarrow>
          if below root_dir destination then Inr destination
          else Inl (PluginInstallError ''Plugin path escapes registry root''))"

section \<open>Records and events\<close>

definition record_as_dict :: "plugin_record \<Rightarrow> pydict" where
  "record_as_dict r =
     [(''name'', pr_name r), (''version'', pr_version r), (''publisher'', pr_publisher r), (''integrity_sha256'', pr_integrity_sha256 r),
      (''installed_at'', pr_installed_at r), (''source'', pr_source r), (''review_status'', pr_review_status r),
      (''requested_tools'', pr_requested_tools r), (''requested_network'', pr_requested_network r), (''dependencies'', pr_dependencies r)]"

definition record_required :: "string list" where
  "record_required = [''name'', ''version'', ''publisher'', ''integrity_sha256'', ''installed_at'', ''source'', ''review_status'']"

definition record_optional :: "string list" where
  "record_optional = [''requested_tools'', ''requested_network'', ''dependencies'']"

text \<open>\<^verbatim>\<open>PluginRecord(**v)\<close>: an unknown or a missing keyword, or a value that is no mapping, is a \<^verbatim>\<open>TypeError\<close>.\<close>

definition record_of_dict :: "pyval \<Rightarrow> (plugin_error, plugin_record) result" where
  "record_of_dict v =
     (case v of
        VDict d \<Rightarrow>
          if list_all (\<lambda>k. k \<in> set record_required \<union> set record_optional) (map fst d) \<and> list_all (\<lambda>k. k \<in> set (map fst d)) record_required
          then Inr \<lparr>pr_name = dget d ''name'', pr_version = dget d ''version'', pr_publisher = dget d ''publisher'',
            pr_integrity_sha256 = dget d ''integrity_sha256'', pr_installed_at = dget d ''installed_at'', pr_source = dget d ''source'',
            pr_review_status = dget d ''review_status'', pr_requested_tools = dget_default d ''requested_tools'' (VList []),
            pr_requested_network = dget_default d ''requested_network'' (VList []), pr_dependencies = dget_default d ''dependencies'' (VList [])\<rparr>
          else Inl (PluginUncaught ''TypeError'')
      | _ \<Rightarrow> Inl (PluginUncaught ''TypeError''))"

text \<open>\<^verbatim>\<open>json.dumps(v, indent=2)\<close> from a depth on, and the escapes of \<^verbatim>\<open>ensure_ascii\<close>.\<close>

definition indent_at :: "nat \<Rightarrow> string" where
  "indent_at n = newline # replicate (2 * n) CHR '' ''"

primrec json_pretty :: "(pyfloat \<Rightarrow> string) \<Rightarrow> pyval \<Rightarrow> nat \<Rightarrow> string" where
  "json_pretty fr VNone = (\<lambda>n. ''null'')"
| "json_pretty fr (VBool b) = (\<lambda>n. if b then ''true'' else ''false'')"
| "json_pretty fr (VInt i) = (\<lambda>n. int_str i)"
| "json_pretty fr (VFloat x) = (\<lambda>n. fr x)"
| "json_pretty fr (VStr s) = (\<lambda>n. json_string s)"
| "json_pretty fr (VList xs) = (\<lambda>n. if xs = [] then ''[]'' else
     ''['' @ indent_at (n + 1) @ join ('','' @ indent_at (n + 1)) (map (\<lambda>g. g (n + 1)) (map (json_pretty fr) xs)) @ indent_at n @ '']'')"
| "json_pretty fr (VDict d) = (\<lambda>n. if d = [] then ''{}'' else
     ''{'' @ indent_at (n + 1) @ join ('','' @ indent_at (n + 1)) (map (\<lambda>(k, g). json_string k @ '': '' @ g (n + 1)) (map (map_prod id (json_pretty fr)) d))
       @ indent_at n @ ''}'')"

definition escape_ascii :: "string \<Rightarrow> string" where
  "escape_ascii s = concat (map (\<lambda>c. let n = code c in
     if n < 127 then [c] else CHR 92 # ''u00'' @ [hex_digit (n div 16), hex_digit (n mod 16)]) s)"

definition read_records :: "'f plugin_fs \<Rightarrow> plugin_env \<Rightarrow> path \<Rightarrow> 'f \<Rightarrow> (plugin_error, pydict) result" where
  "read_records pf env root_dir f =
     (case cf_read_text (pf_view pf f) (registry_path root_dir) of
        Raises e \<Rightarrow> Inl (PluginUncaught e)
      | Refused msg \<Rightarrow> Inl (PluginInstallError (''cannot read Plugin registry: '' @ msg))
      | Loaded content \<Rightarrow> (case pe_loads env content of
            JDecodeError \<Rightarrow> Inl (PluginInstallError ''cannot read Plugin registry: JSONDecodeError'')
          | JOtherError \<Rightarrow> Inl (PluginUncaught ''ValueError'')
          | JValue (VDict d) \<Rightarrow> Inr d
          | JValue _ \<Rightarrow> Inl (PluginInstallError ''Plugin registry is malformed'')))"

definition records_text :: "plugin_env \<Rightarrow> pydict \<Rightarrow> string" where
  "records_text env records = escape_ascii (json_pretty (pe_float env) (canon (VDict records)) 0) @ [newline]"

definition write_records :: "'f plugin_fs \<Rightarrow> plugin_env \<Rightarrow> path \<Rightarrow> pydict \<Rightarrow> 'f \<Rightarrow> (plugin_error, unit) result \<times> 'f" where
  "write_records pf env root_dir records f =
     io_bind (os_call (pf_write_text pf (registry_tmp root_dir) (records_text env records) f))
       (\<lambda>_ f1. os_call (pf_replace pf (registry_tmp root_dir) (registry_path root_dir) f1))"

definition event_text :: "plugin_env \<Rightarrow> string \<Rightarrow> string \<Rightarrow> string \<Rightarrow> string \<Rightarrow> string" where
  "event_text env action name version actor =
     escape_ascii (''{'' @ join '', '' (map (\<lambda>(k, v). json_string k @ '': '' @ json_string v)
       [(''action'', action), (''actor'', actor), (''created_at'', iso_utc (pe_event_now env)), (''name'', name), (''version'', version)]) @ ''}'')
     @ [newline]"

definition append_event ::
    "'f plugin_fs \<Rightarrow> plugin_env \<Rightarrow> path \<Rightarrow> string \<Rightarrow> string \<Rightarrow> string \<Rightarrow> string \<Rightarrow> 'f \<Rightarrow> (plugin_error, unit) result \<times> 'f" where
  "append_event pf env root_dir action name version actor f =
     os_call (pf_append_text pf (events_path root_dir) (event_text env action name version actor) f)"

definition plugin_init :: "'f plugin_fs \<Rightarrow> plugin_env \<Rightarrow> path \<Rightarrow> 'f \<Rightarrow> (plugin_error, path) result \<times> 'f" where
  "plugin_init pf env base f =
     (case cf_resolve (pf_view pf f) base of
        Inl e \<Rightarrow> (Inl (PluginUncaught e), f)
      | Inr root_dir \<Rightarrow>
          io_bind (os_call (pf_mkdir pf root_dir f)) (\<lambda>_ f1.
          io_bind (os_call (pf_mkdir pf (rollback_root root_dir) f1)) (\<lambda>_ f2.
          if cf_exists (pf_view pf f2) (registry_path root_dir) then (Inr root_dir, f2)
          else io_bind (write_records pf env root_dir [] f2) (\<lambda>_ f3. (Inr root_dir, f3)))))"

fun records_of :: "pydict \<Rightarrow> (plugin_error, plugin_record list) result" where
  "records_of [] = Inr []"
| "records_of ((_, v) # d) =
     (case record_of_dict v of Inl e \<Rightarrow> Inl e | Inr r \<Rightarrow> map_sum id (Cons r) (records_of d))"

definition list_installed :: "'f plugin_fs \<Rightarrow> plugin_env \<Rightarrow> path \<Rightarrow> 'f \<Rightarrow> (plugin_error, plugin_record list) result" where
  "list_installed pf env root_dir f =
     (case read_records pf env root_dir f of Inl e \<Rightarrow> Inl e | Inr records \<Rightarrow> records_of (sort_key fst records))"

section \<open>Installation\<close>

definition assert_safe_source :: "'f plugin_fs \<Rightarrow> path \<Rightarrow> 'f \<Rightarrow> (plugin_error, unit) result" where
  "assert_safe_source pf source f =
     (if \<not> cf_is_dir (pf_view pf f) source then Inl (PluginInstallError ''Plugin source must be a directory'')
      else if list_ex (\<lambda>p. pf_is_symlink pf p f) (cf_rglob (pf_view pf f) source ''*'')
      then Inl (PluginInstallError ''Plugin symlinks are not allowed'')
      else Inr ())"

definition read_manifest :: "'f plugin_fs \<Rightarrow> path \<Rightarrow> 'f \<Rightarrow> (plugin_error, pydict) result" where
  "read_manifest pf dir f =
     (case cf_read_json (pf_view pf f) (plugin_manifest dir) of
        Loaded (VDict d) \<Rightarrow> Inr d
      | Loaded _ \<Rightarrow> Inl (PluginUncaught ''TypeError'')
      | Refused e \<Rightarrow> Inl (PluginUncaught e)
      | Raises e \<Rightarrow> Inl (PluginUncaught e))"

text \<open>The checks before anything is written, and what they read: the manifest and the digest.\<close>

definition reviewed_source ::
    "'f plugin_fs \<Rightarrow> plugin_env \<Rightarrow> path \<Rightarrow> string \<Rightarrow> string option \<Rightarrow> 'f \<Rightarrow> (plugin_error, pydict \<times> string) result" where
  "reviewed_source pf env source approved_by expected f =
     (case assert_safe_source pf source f of Inl e \<Rightarrow> Inl e | Inr _ \<Rightarrow>
      if blank approved_by then Inl (PluginInstallError ''Plugin installation requires an explicit reviewer'')
      else (case validate_plugin (pe_rep env) (pf_view pf f) source of
          Inl e \<Rightarrow> Inl (PluginUncaught e)
        | Inr report \<Rightarrow>
            if \<not> report_valid report
            then Inl (PluginInstallError (''Plugin validation failed: '' @ join ''; '' (rp_issues report)))
            else (case read_manifest pf source f of Inl e \<Rightarrow> Inl e
              | Inr manifest \<Rightarrow> (case plugin_integrity (pe_sha env) (pf_view pf f) source of
                    Inl e \<Rightarrow> Inl (PluginUncaught e)
                  | Inr integrity \<Rightarrow>
                      if expected \<noteq> None \<and> expected \<noteq> Some integrity
                      then Inl (PluginInstallError ''Plugin integrity does not match the expected digest'')
                      else Inr (manifest, integrity)))))"

definition manifest_str :: "plugin_env \<Rightarrow> pydict \<Rightarrow> string \<Rightarrow> (plugin_error, string) result" where
  "manifest_str env d k =
     (case map_of d k of None \<Rightarrow> Inl (PluginUncaught ''KeyError'') | Some v \<Rightarrow> Inr (py_str (pe_rep env) v))"

text \<open>\<^verbatim>\<open>list(v)\<close>.\<close>

fun py_list :: "pyval \<Rightarrow> (plugin_error, pyval) result" where
  "py_list (VList xs) = Inr (VList xs)"
| "py_list (VStr s) = Inr (VList (map (\<lambda>c. VStr [c]) s))"
| "py_list (VDict d) = Inr (VList (map (\<lambda>(k, _). VStr k) d))"
| "py_list _ = Inl (PluginUncaught ''TypeError'')"

definition permission_list :: "pydict \<Rightarrow> string \<Rightarrow> (plugin_error, pyval) result" where
  "permission_list d key =
     (case dget_default d ''permissions'' (VDict []) of
        VDict p \<Rightarrow> py_list (dget_default p key (VList []))
      | _ \<Rightarrow> Inl (PluginUncaught ''AttributeError''))"

text \<open>The constructor call of \<^verbatim>\<open>PluginRecord\<close>, its arguments in their order.\<close>

definition make_record ::
    "plugin_env \<Rightarrow> pydict \<Rightarrow> string \<Rightarrow> string \<Rightarrow> (plugin_error, string) result \<Rightarrow> path \<Rightarrow> string \<Rightarrow> (plugin_error, plugin_record) result" where
  "make_record env d name version integrity source status =
     (case manifest_str env d ''publisher'' of Inl e \<Rightarrow> Inl e | Inr publisher \<Rightarrow>
      case integrity of Inl e \<Rightarrow> Inl e | Inr digest \<Rightarrow>
      case permission_list d ''tools'' of Inl e \<Rightarrow> Inl e | Inr tools \<Rightarrow>
      case permission_list d ''network'' of Inl e \<Rightarrow> Inl e | Inr network \<Rightarrow>
      case py_list (dget_default d ''dependencies'' (VList [])) of Inl e \<Rightarrow> Inl e | Inr dependencies \<Rightarrow>
      Inr \<lparr>pr_name = VStr name, pr_version = VStr version, pr_publisher = VStr publisher, pr_integrity_sha256 = VStr digest,
        pr_installed_at = VStr (iso_utc (pe_now env)), pr_source = VStr (as_posix source), pr_review_status = VStr status,
        pr_requested_tools = tools, pr_requested_network = network, pr_dependencies = dependencies\<rparr>)"

definition register_plugin ::
    "'f plugin_fs \<Rightarrow> plugin_env \<Rightarrow> path \<Rightarrow> pydict \<Rightarrow> string \<Rightarrow> string \<Rightarrow> string \<Rightarrow> string \<Rightarrow> plugin_record \<Rightarrow> 'f \<Rightarrow>
     (plugin_error, plugin_record) result \<times> 'f" where
  "register_plugin pf env root_dir records action name version actor r f =
     io_bind (write_records pf env root_dir (AList.update name (VDict (record_as_dict r)) records) f) (\<lambda>_ f1.
     io_bind (append_event pf env root_dir action name version actor f1) (\<lambda>_ f2. (Inr r, f2)))"

definition rollback_path :: "plugin_env \<Rightarrow> path \<Rightarrow> string \<Rightarrow> path" where
  "rollback_path env root_dir name = rollback_root root_dir @ [name @ ''-'' @ pe_stamp env @ ''-'' @ pe_uuid env]"

definition staging_path :: "plugin_env \<Rightarrow> path \<Rightarrow> string \<Rightarrow> path" where
  "staging_path env root_dir name = root_dir @ [''.staging-'' @ name @ ''-'' @ pe_uuid' env]"

text \<open>The \<^verbatim>\<open>except\<close> clause: the staging copy is removed and the old version is moved back, then the exception goes on.\<close>

definition undo_install :: "'f plugin_fs \<Rightarrow> path \<Rightarrow> path option \<Rightarrow> path \<Rightarrow> string \<Rightarrow> 'f \<Rightarrow> (plugin_error, unit) result \<times> 'f" where
  "undo_install pf staging backup destination e f =
     io_bind (if cf_exists (pf_view pf f) staging then os_call (pf_rmtree pf staging f) else (Inr (), f)) (\<lambda>_ f1.
     io_bind (case backup of
         Some b \<Rightarrow> if \<not> cf_exists (pf_view pf f1) destination then os_call (pf_move pf b destination f1) else (Inr (), f1)
       | None \<Rightarrow> (Inr (), f1)) (\<lambda>_ f2. (Inl (PluginUncaught e), f2)))"

definition copy_in_place :: "'f plugin_fs \<Rightarrow> path \<Rightarrow> path \<Rightarrow> path option \<Rightarrow> path \<Rightarrow> 'f \<Rightarrow> (plugin_error, unit) result \<times> 'f" where
  "copy_in_place pf source staging backup destination f =
     (case pf_copytree pf source staging f of
        (Inl e, f1) \<Rightarrow> undo_install pf staging backup destination e f1
      | (Inr _, f1) \<Rightarrow> (case pf_replace pf staging destination f1 of
            (Inl e, f2) \<Rightarrow> undo_install pf staging backup destination e f2
          | (Inr _, f2) \<Rightarrow> (Inr (), f2)))"

definition install_reviewed ::
    "'f plugin_fs \<Rightarrow> plugin_env \<Rightarrow> path \<Rightarrow> path \<Rightarrow> string \<Rightarrow> pydict \<Rightarrow> string \<Rightarrow> string \<Rightarrow> string \<Rightarrow> path \<Rightarrow> 'f \<Rightarrow>
     (plugin_error, plugin_record) result \<times> 'f" where
  "install_reviewed pf env root_dir source approved_by manifest integrity name version destination f =
     (let backup = (if cf_exists (pf_view pf f) destination then Some (rollback_path env root_dir name) else None) in
      io_bind (case backup of Some b \<Rightarrow> os_call (pf_move pf destination b f) | None \<Rightarrow> (Inr (), f)) (\<lambda>_ f1.
      io_bind (copy_in_place pf source (staging_path env root_dir name) backup destination f1) (\<lambda>_ f2.
      case read_records pf env root_dir f2 of Inl e \<Rightarrow> (Inl e, f2) | Inr records \<Rightarrow>
      case make_record env manifest name version (Inr integrity) source (''approved:'' @ strip approved_by) of
        Inl e \<Rightarrow> (Inl e, f2)
      | Inr r \<Rightarrow> register_plugin pf env root_dir records ''install'' name version (strip approved_by) r f2)))"

definition plugin_install ::
    "'f plugin_fs \<Rightarrow> plugin_env \<Rightarrow> path \<Rightarrow> path \<Rightarrow> string \<Rightarrow> string option \<Rightarrow> 'f \<Rightarrow> (plugin_error, plugin_record) result \<times> 'f" where
  "plugin_install pf env root_dir source approved_by expected f =
     (case cf_resolve (pf_view pf f) source of Inl e \<Rightarrow> (Inl (PluginUncaught e), f) | Inr source_path \<Rightarrow>
      case reviewed_source pf env source_path approved_by expected f of Inl e \<Rightarrow> (Inl e, f) | Inr (manifest, integrity) \<Rightarrow>
      case manifest_str env manifest ''name'' of Inl e \<Rightarrow> (Inl e, f) | Inr name \<Rightarrow>
      case manifest_str env manifest ''version'' of Inl e \<Rightarrow> (Inl e, f) | Inr version \<Rightarrow>
      case destination_of pf root_dir name f of Inl e \<Rightarrow> (Inl e, f) | Inr destination \<Rightarrow>
      install_reviewed pf env root_dir source_path approved_by manifest integrity name version destination f)"

section \<open>Rollback and removal\<close>

text \<open>The latest first; \<^verbatim>\<open>sorted(..., reverse=True)\<close> keeps the order of equal keys.\<close>

definition rollback_candidates :: "'f plugin_fs \<Rightarrow> path \<Rightarrow> string \<Rightarrow> 'f \<Rightarrow> path list" where
  "rollback_candidates pf root_dir name f =
     sort_key (\<lambda>p. - pf_mtime pf p f)
       (filter (\<lambda>p. \<not> contains (last p) ''-current-'') (cf_glob (pf_view pf f) (rollback_root root_dir) (name @ ''-*'')))"

definition current_path :: "plugin_env \<Rightarrow> path \<Rightarrow> string \<Rightarrow> path" where
  "current_path env root_dir name = join_path (rollback_root root_dir) (name @ ''-current-'' @ pe_uuid env)"

definition restore ::
    "'f plugin_fs \<Rightarrow> plugin_env \<Rightarrow> path \<Rightarrow> string \<Rightarrow> path \<Rightarrow> path \<Rightarrow> 'f \<Rightarrow> (plugin_error, plugin_record) result \<times> 'f" where
  "restore pf env root_dir name candidate destination f =
     io_bind (if cf_exists (pf_view pf f) destination then os_call (pf_move pf destination (current_path env root_dir name) f) else (Inr (), f)) (\<lambda>_ f1.
     io_bind (os_call (pf_copytree pf candidate destination f1)) (\<lambda>_ f2.
     case read_manifest pf destination f2 of Inl e \<Rightarrow> (Inl e, f2) | Inr manifest \<Rightarrow>
     case manifest_str env manifest ''version'' of Inl e \<Rightarrow> (Inl e, f2) | Inr version \<Rightarrow>
     case make_record env manifest name version
         (map_sum PluginUncaught id (plugin_integrity (pe_sha env) (pf_view pf f2) destination)) destination ''rollback-approved'' of
       Inl e \<Rightarrow> (Inl e, f2)
     | Inr r \<Rightarrow> (case read_records pf env root_dir f2 of Inl e \<Rightarrow> (Inl e, f2)
         | Inr records \<Rightarrow> register_plugin pf env root_dir records ''rollback'' name version ''rollback-approved'' r f2)))"

definition plugin_rollback :: "'f plugin_fs \<Rightarrow> plugin_env \<Rightarrow> path \<Rightarrow> string \<Rightarrow> 'f \<Rightarrow> (plugin_error, plugin_record) result \<times> 'f" where
  "plugin_rollback pf env root_dir name f =
     (case destination_of pf root_dir name f of Inl e \<Rightarrow> (Inl e, f)
      | Inr destination \<Rightarrow> (case rollback_candidates pf root_dir name f of
            [] \<Rightarrow> (Inl (PluginInstallError (''no rollback version is available for '' @ name)), f)
          | candidate # _ \<Rightarrow> restore pf env root_dir name candidate destination f))"

definition removed_path :: "plugin_env \<Rightarrow> path \<Rightarrow> string \<Rightarrow> path" where
  "removed_path env root_dir name = join_path (rollback_root root_dir) (name @ ''-removed-'' @ pe_stamp env @ ''-'' @ pe_uuid env)"

definition plugin_remove :: "'f plugin_fs \<Rightarrow> plugin_env \<Rightarrow> path \<Rightarrow> string \<Rightarrow> string \<Rightarrow> 'f \<Rightarrow> (plugin_error, unit) result \<times> 'f" where
  "plugin_remove pf env root_dir name approved_by f =
     (if blank approved_by then (Inl (PluginInstallError ''Plugin removal requires an explicit reviewer''), f)
      else (case destination_of pf root_dir name f of Inl e \<Rightarrow> (Inl e, f)
        | Inr destination \<Rightarrow>
            if \<not> cf_is_dir (pf_view pf f) destination then (Inl (PluginInstallError (''installed Plugin was not found: '' @ name)), f)
            else io_bind (os_call (pf_move pf destination (removed_path env root_dir name) f)) (\<lambda>_ f1.
              case read_records pf env root_dir f1 of Inl e \<Rightarrow> (Inl e, f1)
              | Inr records \<Rightarrow>
                  io_bind (write_records pf env root_dir (AList.delete name records) f1) (\<lambda>_ f2.
                  append_event pf env root_dir ''remove'' name ''unknown'' (strip approved_by) f2))))"

section \<open>Laws of the file system\<close>

text \<open>
  \<open>fc f p\<close> is the content of the regular file at \<open>p\<close>. The frame: a call changes files below the paths it is given, and a
  copy only below its target. A call that returns has done its work. Both hold of paths without symbolic links.
\<close>

definition pf_frame :: "'f plugin_fs \<Rightarrow> ('f \<Rightarrow> path \<Rightarrow> string option) \<Rightarrow> bool" where
  "pf_frame pf fc \<longleftrightarrow>
     (\<forall>p f. fc (snd (pf_mkdir pf p f)) = fc f) \<and>
     (\<forall>a b f q. \<not> below a q \<and> \<not> below b q \<longrightarrow> fc (snd (pf_move pf a b f)) q = fc f q) \<and>
     (\<forall>a b f q. \<not> below b q \<longrightarrow> fc (snd (pf_copytree pf a b f)) q = fc f q) \<and>
     (\<forall>a b f q. \<not> below a q \<and> \<not> below b q \<longrightarrow> fc (snd (pf_replace pf a b f)) q = fc f q) \<and>
     (\<forall>a f q. \<not> below a q \<longrightarrow> fc (snd (pf_rmtree pf a f)) q = fc f q) \<and>
     (\<forall>a s f q. \<not> below a q \<longrightarrow> fc (snd (pf_write_text pf a s f)) q = fc f q) \<and>
     (\<forall>a s f q. \<not> below a q \<longrightarrow> fc (snd (pf_append_text pf a s f)) q = fc f q)"

definition pf_copies :: "'f plugin_fs \<Rightarrow> ('f \<Rightarrow> path \<Rightarrow> string option) \<Rightarrow> bool" where
  "pf_copies pf fc \<longleftrightarrow>
     (\<forall>a b f f' q. \<not> below a b \<longrightarrow> pf_copytree pf a b f = (Inr (), f') \<longrightarrow> fc f' (b @ q) = fc f (a @ q)) \<and>
     (\<forall>a b f f' q. pf_replace pf a b f = (Inr (), f') \<longrightarrow> fc f' (b @ q) = fc f (a @ q))"

lemma pf_frameD:
  assumes "pf_frame pf fc"
  shows "fc (snd (pf_mkdir pf p f)) = fc f"
    "\<not> below a q \<Longrightarrow> \<not> below b q \<Longrightarrow> fc (snd (pf_move pf a b f)) q = fc f q"
    "\<not> below b q \<Longrightarrow> fc (snd (pf_copytree pf a b f)) q = fc f q"
    "\<not> below a q \<Longrightarrow> \<not> below b q \<Longrightarrow> fc (snd (pf_replace pf a b f)) q = fc f q"
    "\<not> below a q \<Longrightarrow> fc (snd (pf_rmtree pf a f)) q = fc f q"
    "\<not> below a q \<Longrightarrow> fc (snd (pf_write_text pf a s f)) q = fc f q"
    "\<not> below a q \<Longrightarrow> fc (snd (pf_append_text pf a s f)) q = fc f q"
  using assms unfolding pf_frame_def by simp_all

lemma io_bind_Inr: "io_bind m k = (Inr y, f') \<longleftrightarrow> (\<exists>x f1. m = (Inr x, f1) \<and> k x f1 = (Inr y, f'))"
  by (auto simp: io_bind_def split: prod.splits sum.splits)

lemma os_call_Inr: "os_call m = (Inr u, f') \<longleftrightarrow> m = (Inr (), f')"
  by (cases m; cases "fst m") (auto simp: os_call_def)

lemma snd_os_call [simp]: "snd (os_call m) = snd m"
  by (simp add: os_call_def)

text \<open>The content of one file before and after a call.\<close>

definition holds_at :: "('f \<Rightarrow> path \<Rightarrow> string option) \<Rightarrow> path \<Rightarrow> string option \<Rightarrow> 'a \<times> 'f \<Rightarrow> bool" where
  "holds_at fc q c m \<longleftrightarrow> fc (snd m) q = c"

lemma holds_at_bind:
  assumes "holds_at fc q c m" "\<And>x f1. fc f1 q = c \<Longrightarrow> holds_at fc q c (k x f1)"
  shows "holds_at fc q c (io_bind m k)"
  using assms by (cases m; cases "fst m") (auto simp: io_bind_def holds_at_def)

lemma holds_at_Pair [simp]: "holds_at fc q c (x, f) \<longleftrightarrow> fc f q = c"
  by (simp add: holds_at_def)

lemma holds_at_os_call [simp]: "holds_at fc q c (os_call m) = holds_at fc q c m"
  by (simp add: holds_at_def)

lemma below_trans: "below a b \<Longrightarrow> below b q \<Longrightarrow> below a q"
  by (metis append_take_drop_id append_eq_conv_conj below_def append_assoc)

lemma below_snoc: "below (a @ x) q \<Longrightarrow> below a q"
  using below_trans below_append by blast

lemma below_same: "below (a @ [x]) (a @ y # q) \<longleftrightarrow> y = x"
  by (auto simp: below_def)

lemma registry_files_below [simp]:
  "below root_dir (registry_tmp root_dir)" "below root_dir (registry_path root_dir)" "below root_dir (events_path root_dir)"
  "below root_dir (rollback_root root_dir)" "below root_dir (staging_path env root_dir name)" "below root_dir (rollback_path env root_dir name)"
  by (simp_all add: registry_tmp_def registry_path_def events_path_def rollback_root_def staging_path_def rollback_path_def below_append)

section \<open>Nothing outside the registry is touched\<close>

lemma frame_holds_at:
  assumes "pf_frame pf fc" "fc f q = c"
  shows "\<not> below a q \<Longrightarrow> \<not> below b q \<Longrightarrow> holds_at fc q c (pf_move pf a b f)"
    "\<not> below b q \<Longrightarrow> holds_at fc q c (pf_copytree pf a b f)"
    "\<not> below a q \<Longrightarrow> \<not> below b q \<Longrightarrow> holds_at fc q c (pf_replace pf a b f)"
    "\<not> below a q \<Longrightarrow> holds_at fc q c (pf_rmtree pf a f)"
    "\<not> below a q \<Longrightarrow> holds_at fc q c (pf_write_text pf a s f)"
    "\<not> below a q \<Longrightarrow> holds_at fc q c (pf_append_text pf a s f)"
  using pf_frameD [OF assms(1)] assms(2) by (simp_all add: holds_at_def)

lemma write_records_keeps:
  assumes "pf_frame pf fc" "\<not> below (registry_tmp root_dir) q" "\<not> below (registry_path root_dir) q" "fc f q = c"
  shows "holds_at fc q c (write_records pf env root_dir records f)"
  unfolding write_records_def using assms by (auto intro!: holds_at_bind frame_holds_at)

lemma append_event_keeps:
  assumes "pf_frame pf fc" "\<not> below (events_path root_dir) q" "fc f q = c"
  shows "holds_at fc q c (append_event pf env root_dir action name version actor f)"
  unfolding append_event_def using assms by (auto intro!: frame_holds_at)

lemma register_keeps:
  assumes "pf_frame pf fc" "\<not> below (registry_tmp root_dir) q" "\<not> below (registry_path root_dir) q" "\<not> below (events_path root_dir) q"
    and "fc f q = c"
  shows "holds_at fc q c (register_plugin pf env root_dir records action name version actor r f)"
  unfolding register_plugin_def using assms by (auto intro!: holds_at_bind write_records_keeps append_event_keeps)

lemma undo_install_keeps:
  assumes "pf_frame pf fc" "\<not> below staging q" "\<not> below destination q" "\<forall>b. backup = Some b \<longrightarrow> \<not> below b q" "fc f q = c"
  shows "holds_at fc q c (undo_install pf staging backup destination e f)"
  unfolding undo_install_def using assms by (auto intro!: holds_at_bind frame_holds_at split: option.splits)

lemma copy_in_place_keeps:
  assumes "pf_frame pf fc" "\<not> below staging q" "\<not> below destination q" "\<forall>b. backup = Some b \<longrightarrow> \<not> below b q" "fc f q = c"
  shows "holds_at fc q c (copy_in_place pf source staging backup destination f)"
proof -
  obtain r f1 where c: "pf_copytree pf source staging f = (r, f1)" by (rule prod.exhaust)
  with frame_holds_at(2) [OF assms(1,5,2), of source] have f1: "fc f1 q = c" by simp
  obtain r' f2 where p: "pf_replace pf staging destination f1 = (r', f2)" by (rule prod.exhaust)
  with frame_holds_at(3) [OF assms(1) f1 assms(2,3)] have f2: "fc f2 q = c" by simp
  show ?thesis using c p f1 f2 undo_install_keeps [OF assms(1-4)] by (cases r; cases r') (simp_all add: copy_in_place_def)
qed

lemma outside_registry:
  assumes "\<not> below root_dir q"
  shows "\<not> below (registry_tmp root_dir) q" "\<not> below (registry_path root_dir) q" "\<not> below (events_path root_dir) q"
    "\<not> below (staging_path env root_dir name) q" "\<not> below (rollback_path env root_dir name) q" "below root_dir d \<Longrightarrow> \<not> below d q"
  using assms below_trans registry_files_below by blast+

lemma install_reviewed_keeps:
  assumes "pf_frame pf fc" "\<not> below root_dir q" "below root_dir destination" "fc f q = c"
  shows "holds_at fc q c (install_reviewed pf env root_dir source approved_by manifest integrity name version destination f)"
  unfolding install_reviewed_def Let_def using assms outside_registry [OF assms(2)]
  by (auto intro!: holds_at_bind frame_holds_at copy_in_place_keeps register_keeps split: option.splits sum.splits)

lemma destination_below: "destination_of pf root_dir name f = Inr d \<Longrightarrow> below root_dir d"
  by (auto simp: destination_of_def split: sum.splits if_splits)

lemma install_keeps:
  assumes "pf_frame pf fc" "\<not> below root_dir q" "fc f q = c"
  shows "holds_at fc q c (plugin_install pf env root_dir source approved_by expected f)"
  unfolding plugin_install_def using assms
  by (auto intro!: install_reviewed_keeps dest: destination_below split: sum.splits prod.splits)

text \<open>The names of the backup copies are safe for plugin names and for hexadecimal and decimal suffixes.\<close>

definition plain_env :: "plugin_env \<Rightarrow> bool" where
  "plain_env env \<longleftrightarrow> list_all is_alnum (pe_uuid env) \<and> list_all is_alnum (pe_uuid' env) \<and> list_all is_digit (pe_stamp env)"

lemma split_on_absent: "c \<notin> set s \<Longrightarrow> split_on c s = [s]"
  by (induction s) auto

lemma join_path_plain:
  assumes "s \<noteq> []" "CHR ''/'' \<notin> set s" "s \<noteq> ''.''"
  shows "join_path base s = base @ [s]"
proof -
  have "\<not> startswith s ''/''" using assms(1,2) by (cases s) (auto simp: startswith_def)
  then show ?thesis using assms by (simp add: join_path_def path_parts_def split_on_absent)
qed

lemma id_re_chars: "id_re s \<Longrightarrow> CHR ''/'' \<notin> set s \<and> CHR ''.'' \<notin> set s \<and> s \<noteq> []"
  by (cases s) (auto simp: id_re_def match_head_tail_def id_char_def is_lower_def is_digit_def code_def list_all_iff)

lemma alnum_no_slash: "list_all is_alnum s \<Longrightarrow> CHR ''/'' \<notin> set s" "list_all is_digit s \<Longrightarrow> CHR ''/'' \<notin> set s"
  by (auto simp: list_all_iff is_alnum_def is_digit_def is_lower_def is_upper_def code_def)

lemma backup_paths:
  assumes "plain_env env" "id_re name"
  shows "current_path env root_dir name = rollback_root root_dir @ [name @ ''-current-'' @ pe_uuid env]"
    "removed_path env root_dir name = rollback_root root_dir @ [name @ ''-removed-'' @ pe_stamp env @ ''-'' @ pe_uuid env]"
  using assms id_re_chars [of name] alnum_no_slash(1) [of "pe_uuid env"] alnum_no_slash(2) [of "pe_stamp env"]
  unfolding current_path_def removed_path_def plain_env_def by (intro join_path_plain; auto)+

lemma restore_keeps:
  assumes "pf_frame pf fc" "\<not> below root_dir q" "below root_dir destination" "below root_dir (current_path env root_dir name)" "fc f q = c"
  shows "holds_at fc q c (restore pf env root_dir name candidate destination f)"
  unfolding restore_def using assms outside_registry [OF assms(2)]
  by (auto intro!: holds_at_bind frame_holds_at register_keeps split: sum.splits)

lemma rollback_keeps:
  assumes "pf_frame pf fc" "\<not> below root_dir q" "below root_dir (current_path env root_dir name)" "fc f q = c"
  shows "holds_at fc q c (plugin_rollback pf env root_dir name f)"
  unfolding plugin_rollback_def using assms
  by (auto intro!: restore_keeps dest: destination_below split: sum.splits list.splits)

lemma remove_keeps:
  assumes "pf_frame pf fc" "\<not> below root_dir q" "below root_dir (removed_path env root_dir name)" "fc f q = c"
  shows "holds_at fc q c (plugin_remove pf env root_dir name approved_by f)"
proof (cases "destination_of pf root_dir name f")
  case (Inr d)
  from outside_registry(6) [OF assms(2) destination_below [OF Inr]] have "\<not> below d q" .
  with Inr assms outside_registry [OF assms(2)] show ?thesis unfolding plugin_remove_def
    by (auto intro!: holds_at_bind frame_holds_at write_records_keeps append_event_keeps split: sum.splits)
qed (use assms in \<open>simp add: plugin_remove_def\<close>)


section \<open>What is installed is what was reviewed\<close>

lemma valid_plugin_name:
  assumes "validate_plugin rep cf dir = Inr report" "report_valid report"
  shows "\<exists>d n v p. cf_read_json cf (plugin_manifest dir) = Loaded (VDict d) \<and> dget d ''name'' = VStr n \<and> id_re n \<and>
    dget d ''version'' = VStr v \<and> semver_re v \<and> dget d ''publisher'' = VStr p"
proof -
  from assms have "cf_is_dir cf dir" and
    "with_mapping (cf_read_json cf (plugin_manifest dir)) (cannot_load ''JSON'' (plugin_manifest dir)) ''plugin manifest'' (plugin_checks rep cf dir) = Inr []"
    by (auto simp: validate_plugin_def report_valid_def base_report_def split: if_splits dest: map_sum_report)
  from with_mapping_clean [OF this(2)] obtain d where d: "cf_read_json cf (plugin_manifest dir) = Loaded (VDict d)" "plugin_checks rep cf dir d = Inr []"
    by blast
  from d(2) have "require_strings d [''name'', ''version'', ''description'', ''publisher''] 200 = Inr []"
    "\<not> (case dget d ''name'' of VStr s \<Rightarrow> \<not> id_re s | _ \<Rightarrow> False)" "\<not> (case dget d ''version'' of VStr s \<Rightarrow> \<not> semver_re s | _ \<Rightarrow> False)"
    by (simp_all add: plugin_checks_def in_order_clean issue_if_clean)
  with d(1) show ?thesis by (auto simp: require_strings_clean)
qed

lemma reviewed_source_Inr:
  assumes "reviewed_source pf env source approved_by expected f = Inr (manifest, integrity)"
  shows "assert_safe_source pf source f = Inr () \<and> \<not> blank approved_by \<and>
    (\<exists>report. validate_plugin (pe_rep env) (pf_view pf f) source = Inr report \<and> report_valid report) \<and>
    plugin_integrity (pe_sha env) (pf_view pf f) source = Inr integrity \<and> (expected = None \<or> expected = Some integrity) \<and>
    (\<exists>n. manifest_str env manifest ''name'' = Inr n \<and> id_re n)"
proof -
  from assms obtain report where r: "assert_safe_source pf source f = Inr ()" "\<not> blank approved_by"
      "validate_plugin (pe_rep env) (pf_view pf f) source = Inr report" "report_valid report"
      "read_manifest pf source f = Inr manifest" "plugin_integrity (pe_sha env) (pf_view pf f) source = Inr integrity"
      "expected = None \<or> expected = Some integrity"
    by (auto simp: reviewed_source_def split: sum.splits if_splits)
  from valid_plugin_name [OF r(3,4)] r(5) obtain n where "dget manifest ''name'' = VStr n" "id_re n"
    by (auto simp: read_manifest_def)
  then have "manifest_str env manifest ''name'' = Inr n" by (auto simp: manifest_str_def dget_def split: option.splits)
  with r \<open>id_re n\<close> show ?thesis by blast
qed

lemma below_apart: "\<not> below a b \<Longrightarrow> \<not> below b a \<Longrightarrow> \<not> below (a @ x) (b @ q)"
proof
  assume n: "\<not> below a b" "\<not> below b a" and b: "below (a @ x) (b @ q)"
  then obtain z where "b @ q = a @ x @ z" unfolding below_def by (metis append_assoc append_take_drop_id)
  then consider u where "b = a @ u" | u where "a = b @ u" by (auto simp: append_eq_append_conv2)
  then show False by cases (use n below_append in \<open>blast+\<close>)
qed

lemma copy_in_place_Inr:
  assumes "copy_in_place pf source staging backup destination f = (Inr u, f')"
  shows "\<exists>f1. pf_copytree pf source staging f = (Inr (), f1) \<and> pf_replace pf staging destination f1 = (Inr (), f')"
proof -
  have "undo_install pf staging backup destination e g \<noteq> (Inr u, f')" for e g
    by (auto simp: undo_install_def io_bind_Inr)
  then show ?thesis using assms by (auto simp: copy_in_place_def split: prod.splits sum.splits)
qed

lemma install_reviewed_Inr:
  assumes "install_reviewed pf env root_dir source approved_by manifest integrity name version destination f = (Inr r, f')"
  shows "\<exists>f1 f2 f3 records. (f1 = f \<or> (\<exists>u. pf_move pf destination (rollback_path env root_dir name) f = (u, f1))) \<and>
    pf_copytree pf source (staging_path env root_dir name) f1 = (Inr (), f2) \<and>
    pf_replace pf (staging_path env root_dir name) destination f2 = (Inr (), f3) \<and>
    make_record env manifest name version (Inr integrity) source (''approved:'' @ strip approved_by) = Inr r \<and>
    register_plugin pf env root_dir records ''install'' name version (strip approved_by) r f3 = (Inr r, f')"
proof -
  from assms obtain backup f1 f3 where f: "(f1 = f \<or> (\<exists>u. pf_move pf destination (rollback_path env root_dir name) f = (u, f1)))"
      "copy_in_place pf source (staging_path env root_dir name) backup destination f1 = (Inr (), f3)"
      and rest: "(case read_records pf env root_dir f3 of Inl e \<Rightarrow> (Inl e, f3) | Inr records \<Rightarrow>
        case make_record env manifest name version (Inr integrity) source (''approved:'' @ strip approved_by) of Inl e \<Rightarrow> (Inl e, f3)
        | Inr r \<Rightarrow> register_plugin pf env root_dir records ''install'' name version (strip approved_by) r f3) = (Inr r, f')"
    by (auto simp: install_reviewed_def Let_def io_bind_Inr os_call_Inr split: if_splits)
  from rest obtain records r' where r': "make_record env manifest name version (Inr integrity) source (''approved:'' @ strip approved_by) = Inr r'"
      "register_plugin pf env root_dir records ''install'' name version (strip approved_by) r' f3 = (Inr r, f')"
    by (auto split: sum.splits)
  moreover from r'(2) have "r' = r" by (auto simp: register_plugin_def io_bind_Inr)
  ultimately show ?thesis using f copy_in_place_Inr [OF f(2)] by blast
qed

lemma make_record_Inr:
  "make_record env d name version (Inr digest) source status = Inr r \<Longrightarrow>
     pr_name r = VStr name \<and> pr_version r = VStr version \<and> pr_integrity_sha256 r = VStr digest \<and> pr_review_status r = VStr status \<and>
     pr_source r = VStr (as_posix source)"
  by (auto simp: make_record_def split: sum.splits)

lemma id_re_not_special:
  assumes "id_re name"
  shows "name \<noteq> ''registry.tmp'' \<and> name \<noteq> ''registry.json'' \<and> name \<noteq> ''events.jsonl'' \<and> name \<noteq> ''.rollback'' \<and> name \<noteq> ''.'' \<and>
    name \<noteq> ''.staging-'' @ name @ x"
  using id_re_chars [OF assms] by auto

lemma installed_bytes:
  assumes "pf_frame pf fc" "pf_copies pf fc" "id_re name" "\<not> below root_dir src" "\<not> below src root_dir"
    and "install_reviewed pf env root_dir src approved_by manifest integrity name version (root_dir @ [name]) f = (Inr r, f')"
  shows "fc f' (root_dir @ name # q) = fc f (src @ q)"
proof -
  let ?st = "staging_path env root_dir name"
  from install_reviewed_Inr [OF assms(6)] obtain f1 f2 f3 records where
      f1: "f1 = f \<or> (\<exists>u. pf_move pf (root_dir @ [name]) (rollback_path env root_dir name) f = (u, f1))"
      and f2: "pf_copytree pf src ?st f1 = (Inr (), f2)" and f3: "pf_replace pf ?st (root_dir @ [name]) f2 = (Inr (), f3)"
      and f': "register_plugin pf env root_dir records ''install'' name version (strip approved_by) r f3 = (Inr r, f')"
    by blast
  have "\<not> below (registry_tmp root_dir) (root_dir @ name # q)" "\<not> below (registry_path root_dir) (root_dir @ name # q)"
      "\<not> below (events_path root_dir) (root_dir @ name # q)"
    using id_re_not_special [OF assms(3)] by (simp_all add: registry_tmp_def registry_path_def events_path_def below_same)
  from register_keeps [OF assms(1) this refl]
  have "holds_at fc (root_dir @ name # q) (fc f3 (root_dir @ name # q)) (register_plugin pf env root_dir records ''install'' name version (strip approved_by) r f3)" .
  with f' have "fc f' (root_dir @ name # q) = fc f3 (root_dir @ name # q)" by simp
  also have "\<dots> = fc f2 (?st @ q)" using assms(2) f3 by (fastforce simp: pf_copies_def)
  also have "\<dots> = fc f1 (src @ q)"
  proof -
    have "\<not> below src ?st"
      using below_apart [OF assms(5,4), of "[]"] by (simp add: staging_path_def)
    then show ?thesis using assms(2) f2 by (auto simp: pf_copies_def)
  qed
  also have "\<dots> = fc f (src @ q)"
  proof -
    have "\<not> below (root_dir @ [name]) (src @ q)" "\<not> below (rollback_path env root_dir name) (src @ q)"
      using below_apart [OF assms(4,5), of "[name]" q] below_apart [OF assms(4,5), of "''.rollback'' # [name @ ''-'' @ pe_stamp env @ ''-'' @ pe_uuid env]" q]
      by (simp_all add: rollback_path_def rollback_root_def)
    then show ?thesis using f1 pf_frameD(2) [OF assms(1)] by (metis snd_conv)
  qed
  finally show ?thesis .
qed

text \<open>
  C36. Only reviewed plugins are installed, and what is installed is what was reviewed: when an installation returns, a
  reviewer was named, the source is a directory without symbolic links, its validation found no issue and its digest is
  the expected one; the record names the plugin, that digest and the reviewer; and every file of the installed plugin
  holds the bytes of the same file of the source.\<close>

theorem installed_plugin_is_reviewed_source:
  assumes "pf_frame pf fc" "pf_copies pf fc"
    and "\<And>name. id_re name \<Longrightarrow> cf_resolve (pf_view pf f) (root_dir @ [name]) = Inr (root_dir @ [name])"
    and "cf_resolve (pf_view pf f) source = Inr src" "\<not> below root_dir src" "\<not> below src root_dir"
    and "plugin_install pf env root_dir source approved_by expected f = (Inr r, f')"
  shows "\<exists>name digest. \<not> blank approved_by \<and> assert_safe_source pf src f = Inr () \<and>
    (\<exists>report. validate_plugin (pe_rep env) (pf_view pf f) src = Inr report \<and> report_valid report) \<and>
    plugin_integrity (pe_sha env) (pf_view pf f) src = Inr digest \<and> (expected = None \<or> expected = Some digest) \<and>
    id_re name \<and> pr_name r = VStr name \<and> pr_integrity_sha256 r = VStr digest \<and> pr_review_status r = VStr (''approved:'' @ strip approved_by) \<and>
    (\<forall>q. fc f' (root_dir @ name # q) = fc f (src @ q))"
proof -
  from assms(4,7) obtain manifest digest where s: "reviewed_source pf env src approved_by expected f = Inr (manifest, digest)"
    by (auto simp: plugin_install_def split: sum.splits)
  from reviewed_source_Inr [OF s] obtain name where name: "manifest_str env manifest ''name'' = Inr name" "id_re name" by blast
  from id_re_chars [OF name(2)] id_re_not_special [OF name(2)] have "join_path root_dir name = root_dir @ [name]" by (intro join_path_plain) auto
  with assms(3) [OF name(2)] have d: "destination_of pf root_dir name f = Inr (root_dir @ [name])" by (simp add: destination_of_def below_append)
  from assms(4,7) s name d obtain version where
    i: "install_reviewed pf env root_dir src approved_by manifest digest name version (root_dir @ [name]) f = (Inr r, f')"
    by (auto simp: plugin_install_def split: sum.splits)
  from install_reviewed_Inr [OF i] make_record_Inr reviewed_source_Inr [OF s] installed_bytes [OF assms(1,2) name(2) assms(5,6) i] name(2)
  show ?thesis by blast
qed

section \<open>A file system of regular files\<close>

text \<open>
  Files without links in a list; directories are the proper prefixes of their paths. \<open>loads\<close> decodes the JSON documents.
  The pattern of \<^verbatim>\<open>glob\<close> is a prefix followed by a star.
\<close>

type_synonym files = "(path \<times> string) list"

definition shifted :: "path \<Rightarrow> path \<Rightarrow> files \<Rightarrow> files" where
  "shifted a b f = map (\<lambda>(p, c). (b @ drop (length a) p, c)) (filter (\<lambda>(p, c). below a p) f)"

definition children :: "path \<Rightarrow> files \<Rightarrow> path list" where
  "children d f = remdups (map (\<lambda>(p, c). take (length d + 1) p) (filter (\<lambda>(p, c). below d p \<and> p \<noteq> d) f))"

definition files_view :: "(string \<Rightarrow> json_outcome) \<Rightarrow> files \<Rightarrow> contract_fs" where
  "files_view loads f =
     \<lparr>cf_read_yaml = \<lambda>_. Refused ''OSError'',
      cf_read_json = \<lambda>p. (case map_of f p of None \<Rightarrow> Refused ''FileNotFoundError'' | Some c \<Rightarrow>
        (case loads c of JValue v \<Rightarrow> Loaded v | JDecodeError \<Rightarrow> Refused ''JSONDecodeError'' | JOtherError \<Rightarrow> Raises ''ValueError'')),
      cf_read_text = \<lambda>p. (case map_of f p of None \<Rightarrow> Refused ''FileNotFoundError'' | Some c \<Rightarrow> Loaded c),
      cf_read_bytes = \<lambda>p. (case map_of f p of None \<Rightarrow> Inl ''FileNotFoundError'' | Some c \<Rightarrow> Inr c), cf_safe_load = \<lambda>_. Refused ''YAMLError'',
      cf_resolve = \<lambda>p. Inr (normpath [] p), cf_is_file = \<lambda>p. map_of f p \<noteq> None,
      cf_is_dir = \<lambda>p. children p f \<noteq> [], cf_exists = \<lambda>p. map_of f p \<noteq> None \<or> children p f \<noteq> [],
      cf_rglob = \<lambda>p _. map fst (filter (\<lambda>(q, c). below p q \<and> q \<noteq> p) f),
      cf_glob = \<lambda>p pattern. filter (\<lambda>q. startswith (last q) (butlast pattern)) (children p f)\<rparr>"

definition files_fs :: "(string \<Rightarrow> json_outcome) \<Rightarrow> files plugin_fs" where
  "files_fs loads =
     \<lparr>pf_view = files_view loads, pf_is_symlink = \<lambda>_ _. False, pf_mtime = \<lambda>_ _. 0, pf_mkdir = \<lambda>_ f. (Inr (), f),
      pf_move = \<lambda>a b f. (Inr (), shifted a b f @ filter (\<lambda>(p, c). \<not> below a p \<and> \<not> below b p) f),
      pf_copytree = \<lambda>a b f. (Inr (), shifted a b f @ filter (\<lambda>(p, c). \<not> below b p) f),
      pf_replace = \<lambda>a b f. (Inr (), shifted a b f @ filter (\<lambda>(p, c). \<not> below a p \<and> \<not> below b p) f),
      pf_rmtree = \<lambda>a f. (Inr (), filter (\<lambda>(p, c). \<not> below a p) f),
      pf_write_text = \<lambda>a s f. (Inr (), AList.update a s f),
      pf_append_text = \<lambda>a s f. (Inr (), AList.update a ((case map_of f a of None \<Rightarrow> [] | Some t \<Rightarrow> t) @ s) f)\<rparr>"

lemma map_of_shifted: "map_of (shifted a b f) (b @ q) = map_of f (a @ q)"
proof (induction f)
  case (Cons x f)
  obtain p c where x: "x = (p, c)" by (rule prod.exhaust)
  have "below a p \<Longrightarrow> drop (length a) p = q \<longleftrightarrow> p = a @ q"
    by (auto simp: below_def) (metis append_take_drop_id)
  moreover have "\<not> below a p \<Longrightarrow> p \<noteq> a @ q" using below_append by blast
  ultimately show ?case using Cons x by (auto simp: shifted_def)
qed (simp add: shifted_def)

lemma map_of_shifted_outside: "\<not> below b q \<Longrightarrow> map_of (shifted a b f) q = None"
  by (induction f) (auto simp: shifted_def below_append)

lemma map_of_filter_path: "map_of (filter (\<lambda>(p, c). P p) f) q = (if P q then map_of f q else None)"
  by (induction f) auto

lemma below_refl [simp]: "below q q"
  by (simp add: below_def)

lemma files_fs_frame: "pf_frame (files_fs loads) map_of"
proof -
  have u: "map_of (AList.update a s f) q = map_of f q" if "\<not> below a q" for a s f q using that by auto
  show ?thesis
    by (simp add: pf_frame_def files_fs_def map_add_def map_of_shifted_outside map_of_filter_path u)
qed

lemma files_fs_copies: "pf_copies (files_fs loads) map_of"
  by (auto simp: pf_copies_def files_fs_def map_add_def map_of_shifted map_of_filter_path below_append split: option.splits)

lemma files_fs_view [simp]: "pf_view (files_fs loads) = files_view loads" "pf_is_symlink (files_fs loads) = (\<lambda>_ _. False)"
  by (simp_all add: files_fs_def)

lemma io_succeeds: "io_bind (Inr x, f) k = k x f"
  by (simp add: io_bind_def)

lemma files_register: "\<exists>f'. register_plugin (files_fs loads) env root_dir records action name version actor r f = (Inr r, f')"
  by (simp add: register_plugin_def write_records_def append_event_def io_bind_def os_call_def files_fs_def)

section \<open>Concrete runs\<close>

definition demo_manifest :: pydict where
  "demo_manifest = [(''name'', VStr ''demo-plugin''), (''version'', VStr ''1.0.0''), (''description'', VStr ''d''), (''publisher'', VStr ''acme''),
     (''permissions'', VDict [(''tools'', VList [VStr ''erp.get_order_status''])])]"

definition demo_json :: "string \<Rightarrow> json_outcome" where
  "demo_json s = (if s = ''M'' then JValue (VDict demo_manifest) else JValue (VDict []))"

definition demo_files :: files where
  "demo_files = [([''/'', ''src'', ''p'', ''.codex-plugin'', ''plugin.json''], ''M''), ([''/'', ''src'', ''p'', ''a''], ''x''),
     ([''/'', ''srv'', ''registry.json''], ''R''), ([''/'', ''etc''], ''s'')]"

definition demo_plugin_env :: plugin_env where
  "demo_plugin_env = \<lparr>pe_sha = pad64, pe_loads = demo_json, pe_rep = \<lambda>_. [], pe_float = \<lambda>_. [], pe_stamp = ''20260101'', pe_uuid = ''a1'',
     pe_uuid' = ''b2'', pe_now = 0, pe_event_now = 0\<rparr>"

lemma demo_review:
  "\<exists>d. reviewed_source (files_fs demo_json) demo_plugin_env [''/'', ''src'', ''p''] ''alice'' None demo_files = Inr (demo_manifest, d)"
proof -
  let ?v = "files_view demo_json demo_files" and ?p = "[''/'', ''src'', ''p'']"
  have read: "cf_read_json ?v (plugin_manifest ?p) = Loaded (VDict demo_manifest)"
    by (simp add: files_view_def demo_files_def plugin_manifest_def demo_json_def)
  have files: "cf_rglob ?v ?p x = [[''/'', ''src'', ''p'', ''.codex-plugin'', ''plugin.json''], [''/'', ''src'', ''p'', ''a'']]" for x
    by (simp add: files_view_def demo_files_def below_def)
  have dir: "cf_is_dir ?v ?p" by (simp add: files_view_def demo_files_def children_def below_def)
  have "plugin_checks (\<lambda>_. []) ?v ?p demo_manifest = Inr []"
  proof -
    have "require_strings demo_manifest [''name'', ''version'', ''description'', ''publisher''] 200 = Inr []" "id_re ''demo-plugin''" "semver_re ''1.0.0''"
      by code_simp+
    then show ?thesis
      by (simp add: plugin_checks_def in_order_clean issue_if_clean plugin_directory_def plugin_permissions_def demo_manifest_def dget_def
          dget_default_def list_of_def is_str_def)
  qed
  then have "validate_plugin (\<lambda>_. []) ?v ?p = Inr (base_report ''plugin'' ?p [])"
    using read dir by (simp add: validate_plugin_def with_mapping_def require_mapping_def)
  moreover obtain d where "plugin_integrity pad64 ?v ?p = Inr d"
  proof -
    have "hashed_files ?v ?p = [[''/'', ''src'', ''p'', ''.codex-plugin'', ''plugin.json''], [''/'', ''src'', ''p'', ''a'']]"
      using files by (simp add: hashed_files_def) (simp add: files_view_def demo_files_def)
    moreover have "cf_resolve ?v ?p = Inr ?p" by (simp add: files_view_def)
    ultimately show ?thesis using that by (simp add: plugin_integrity_def below_def file_digest_def files_view_def demo_files_def)
  qed
  moreover have "\<not> blank ''alice''" by code_simp
  ultimately show ?thesis using read dir
    by (simp add: reviewed_source_def assert_safe_source_def files read_manifest_def report_valid_def base_report_def demo_plugin_env_def
        list_ex_iff)
qed

lemma demo_install_returns:
  "\<exists>r f'. plugin_install (files_fs demo_json) demo_plugin_env [''/'', ''srv''] [''/'', ''src'', ''p''] ''alice'' None demo_files = (Inr r, f')"
proof -
  obtain d where d: "reviewed_source (files_fs demo_json) demo_plugin_env [''/'', ''src'', ''p''] ''alice'' None demo_files = Inr (demo_manifest, d)"
    using demo_review by blast
  let ?root = "[''/'', ''srv'']" and ?dest = "[''/'', ''srv'', ''demo-plugin'']" and ?src = "[''/'', ''src'', ''p'']"
  have dest: "destination_of (files_fs demo_json) ?root ''demo-plugin'' demo_files = Inr ?dest"
  proof -
    have "join_path ?root ''demo-plugin'' = ?dest" by code_simp
    then show ?thesis by (simp add: destination_of_def files_view_def below_def)
  qed
  have fresh: "\<not> cf_exists (files_view demo_json demo_files) ?dest" by (simp add: files_view_def demo_files_def children_def below_def)
  obtain f2 where f2: "copy_in_place (files_fs demo_json) ?src (staging_path demo_plugin_env ?root ''demo-plugin'') None ?dest demo_files = (Inr (), f2)"
    by (simp add: copy_in_place_def files_fs_def)
  have "holds_at map_of (registry_path ?root) (Some ''R'') (Inr () :: (plugin_error, unit) result, f2)"
    unfolding f2 [symmetric]
    by (rule copy_in_place_keeps [OF files_fs_frame])
       (simp_all add: staging_path_def registry_path_def below_def demo_files_def)
  then have "read_records (files_fs demo_json) demo_plugin_env ?root f2 = Inr []"
    by (simp add: read_records_def files_view_def demo_plugin_env_def demo_json_def)
  moreover obtain r where "make_record demo_plugin_env demo_manifest ''demo-plugin'' ''1.0.0'' (Inr d) ?src (''approved:'' @ strip ''alice'') = Inr r"
    by (simp add: make_record_def demo_manifest_def manifest_str_def permission_list_def dget_default_def)
  moreover have "manifest_str demo_plugin_env demo_manifest ''name'' = Inr ''demo-plugin''" "manifest_str demo_plugin_env demo_manifest ''version'' = Inr ''1.0.0''"
    by (simp_all add: demo_manifest_def manifest_str_def)
  moreover have "cf_resolve (files_view demo_json demo_files) ?src = Inr ?src" by (simp add: files_view_def)
  ultimately show ?thesis using d dest fresh f2
    by (simp add: plugin_install_def install_reviewed_def io_succeeds) (use files_register in blast)
qed

theorem installed_plugin_is_reviewed_source_witness:
  "\<exists>r f' name. plugin_install (files_fs demo_json) demo_plugin_env [''/'', ''srv''] [''/'', ''src'', ''p''] ''alice'' None demo_files = (Inr r, f') \<and>
     pr_name r = VStr name \<and> pr_review_status r = VStr ''approved:alice'' \<and> map_of f' [''/'', ''srv'', name, ''a''] = Some ''x''"
proof -
  obtain r f' where i: "plugin_install (files_fs demo_json) demo_plugin_env [''/'', ''srv''] [''/'', ''src'', ''p''] ''alice'' None demo_files = (Inr r, f')"
    using demo_install_returns by blast
  have "cf_resolve (pf_view (files_fs demo_json) demo_files) ([''/'', ''srv''] @ [name]) = Inr ([''/'', ''srv''] @ [name])" if "id_re name" for name
    using id_re_chars [OF that] by (auto simp: files_view_def)
  moreover have "cf_resolve (pf_view (files_fs demo_json) demo_files) [''/'', ''src'', ''p''] = Inr [''/'', ''src'', ''p'']"
    "\<not> below [''/'', ''srv''] [''/'', ''src'', ''p'']" "\<not> below [''/'', ''src'', ''p''] [''/'', ''srv'']"
    by (simp_all add: files_fs_def files_view_def below_def)
  ultimately obtain name where "pr_name r = VStr name" "pr_review_status r = VStr (''approved:'' @ strip ''alice'')"
      "\<forall>q. map_of f' ([''/'', ''srv''] @ name # q) = map_of demo_files ([''/'', ''src'', ''p''] @ q)"
    using installed_plugin_is_reviewed_source [OF files_fs_frame files_fs_copies _ _ _ _ i] by blast
  moreover have "strip ''alice'' = ''alice''" by code_simp
  moreover have "map_of demo_files ([''/'', ''src'', ''p''] @ [''a'']) = Some ''x''" by (simp add: demo_files_def)
  ultimately have "pr_name r = VStr name" "pr_review_status r = VStr ''approved:alice''" "map_of f' ([''/'', ''srv''] @ name # [''a'']) = Some ''x''"
    by (metis append_Cons append_Nil)+
  with i show ?thesis by auto
qed


text \<open>
  The candidates of a rollback are chosen by prefix, so a plugin whose name extends another's is among them: the rollback of
  \<^verbatim>\<open>demo\<close> restores the files of \<^verbatim>\<open>demo-plugin\<close> and records them as \<^verbatim>\<open>demo\<close>.
\<close>

lemma rollback_takes_other_plugin:
  "rollback_candidates (files_fs demo_json) [''/'', ''srv''] ''demo''
     [([''/'', ''srv'', ''.rollback'', ''demo-plugin-20260101-a1'', ''.codex-plugin'', ''plugin.json''], ''M''), ([''/'', ''srv'', ''registry.json''], ''R'')] =
     [[''/'', ''srv'', ''.rollback'', ''demo-plugin-20260101-a1'']]"
proof -
  have "contains ''demo-plugin-20260101-a1'' ''-current-'' = False" by code_simp
  then show ?thesis
    by (simp add: rollback_candidates_def files_fs_def files_view_def children_def rollback_root_def below_def startswith_def)
qed

text \<open>
  A removal checks the resolved path of the plugin but builds the name of the backup from the text it was given: a
  name with \<^verbatim>\<open>..\<close> parts that resolves to a plugin of the registry has its backup outside of the registry.
\<close>

lemma removal_backup_escapes:
  "destination_of (files_fs loads) [''/'', ''srv'', ''plugins''] ''../../srv/plugins/y'' f = Inr [''/'', ''srv'', ''plugins'', ''y''] \<and>
   \<not> below [''/'', ''srv'', ''plugins''] (normpath [] (removed_path demo_plugin_env [''/'', ''srv'', ''plugins''] ''../../srv/plugins/y''))"
proof -
  have "join_path [''/'', ''srv'', ''plugins''] ''../../srv/plugins/y'' = [''/'', ''srv'', ''plugins'', ''..'', ''..'', ''srv'', ''plugins'', ''y'']"
    "normpath [] (removed_path demo_plugin_env [''/'', ''srv'', ''plugins''] ''../../srv/plugins/y'') =
      [''/'', ''srv'', ''srv'', ''plugins'', ''y-removed-20260101-a1'']"
    by code_simp+
  then show ?thesis by (simp add: destination_of_def files_fs_def files_view_def below_def)
qed

end
