(* ===== verification/Release_Tools.thy ===== *)
theory Release_Tools
  imports Plugin_Registry
begin

text \<open>
  The command-line tools around the platform: \<^verbatim>\<open>services/cli.py\<close> (contract validation, doctor, plugin registry),
  \<^verbatim>\<open>scripts/release_gate.py\<close>, \<^verbatim>\<open>scripts/check_release_version.py\<close> and \<^verbatim>\<open>scripts/check_secrets.py\<close>. An exit status is the
  integer that \<^verbatim>\<open>main\<close> returns; \<^const>\<open>Inl\<close> carries the class of an exception that ends the process. The parsed arguments, the
  CSV reader, the TOML reader, git and the file system are parameters; the regular expressions are written out over a
  small matcher.
\<close>

section \<open>services/cli.py\<close>

definition repository_valid :: "validation_report list \<Rightarrow> bool" where
  "repository_valid reports \<longleftrightarrow> reports \<noteq> [] \<and> list_all report_valid reports"

definition validate_command :: "(pyval \<Rightarrow> string) \<Rightarrow> contract_fs \<Rightarrow> path \<Rightarrow> (string, pyval \<times> int) result" where
  "validate_command rep cf root_dir =
     (case validate_repository rep cf root_dir of Inl e \<Rightarrow> Inl e
      | Inr reports \<Rightarrow>
          let valid = repository_valid reports in
          Inr (VDict [(''valid'', VBool valid), (''reports'', VList (map (\<lambda>r. VDict (report_as_dict r)) reports))], if valid then 0 else 1))"

text \<open>The handler \<^verbatim>\<open>validate_agents\<close> of the API answers the same document.\<close>

definition validate_agents :: "(pyval \<Rightarrow> string) \<Rightarrow> contract_fs \<Rightarrow> path \<Rightarrow> (string, pyval) result" where
  "validate_agents rep cf root_dir =
     (case validate_repository rep cf root_dir of Inl e \<Rightarrow> Inl e
      | Inr reports \<Rightarrow>
          Inr (VDict [(''valid'', VBool (reports \<noteq> [] \<and> list_all report_valid reports)), (''reports'', VList (map (\<lambda>r. VDict (report_as_dict r)) reports))]))"

definition doctor_command :: "string \<Rightarrow> (pyval \<Rightarrow> string) \<Rightarrow> contract_fs \<Rightarrow> path \<Rightarrow> (string, pyval \<times> int) result" where
  "doctor_command python rep cf root_dir =
     (case validate_repository rep cf root_dir of Inl e \<Rightarrow> Inl e
      | Inr reports \<Rightarrow>
          let checks = [(''repository'', cf_is_dir cf root_dir), (''agents_file'', cf_is_file cf (root_dir @ [''AGENTS.md''])),
                (''env_example'', cf_is_file cf (root_dir @ [''.env.example''])), (''license'', cf_is_file cf (root_dir @ [''LICENSE''])),
                (''docker_compose'', cf_is_file cf (root_dir @ [''docker-compose.yml''])), (''contracts_valid'', repository_valid reports)]
          in Inr (VDict ((''python'', VStr python) # map (map_prod id VBool) checks), if list_all snd checks then 0 else 1))"

text \<open>What a command prints: on standard output, or on standard error.\<close>

datatype printed = Out pyval | Err pyval

datatype plugin_action = PluginList | PluginInstall path string "string option"

text \<open>\<^verbatim>\<open>print(...); return 0\<close>, and the handler of \<^verbatim>\<open>PluginInstallError\<close>.\<close>

definition plugin_reply :: "(plugin_error, pyval) result \<Rightarrow> (string, printed \<times> int) result" where
  "plugin_reply r = (case r of
     Inr v \<Rightarrow> Inr (Out v, 0)
   | Inl (PluginInstallError e) \<Rightarrow> Inr (Err (VDict [(''error'', VStr e)]), 1)
   | Inl (PluginUncaught e) \<Rightarrow> Inl e)"

text \<open>The constructor of the registry stands outside the \<^verbatim>\<open>try\<close> block.\<close>

definition plugin_command :: "'f plugin_fs \<Rightarrow> plugin_env \<Rightarrow> path \<Rightarrow> plugin_action \<Rightarrow> 'f \<Rightarrow> (string, printed \<times> int) result \<times> 'f" where
  "plugin_command pf env registry action f =
     (case plugin_init pf env registry f of
        (Inl (PluginInstallError _), f1) \<Rightarrow> (Inl ''PluginInstallError'', f1)
      | (Inl (PluginUncaught e), f1) \<Rightarrow> (Inl e, f1)
      | (Inr root_dir, f1) \<Rightarrow> (case action of
          PluginList \<Rightarrow> (plugin_reply (map_sum id (\<lambda>rs. VList (map (\<lambda>r. VDict (record_as_dict r)) rs)) (list_installed pf env root_dir f1)), f1)
        | PluginInstall source approved_by expected \<Rightarrow>
            (case plugin_install pf env root_dir source approved_by expected f1 of
               (r, f2) \<Rightarrow> (plugin_reply (map_sum id (\<lambda>x. VDict (record_as_dict x)) r), f2))))"

text \<open>
  The parsed arguments; \<^const>\<open>None\<close> stands for an option that is missing or empty. \<^verbatim>\<open>parser.error\<close> exits with status 2.
\<close>

datatype cli_args = CliValidate | CliDoctor | CliPluginList path | CliPluginInstall path "path option" "string option" "string option"

definition cli_main :: "string \<Rightarrow> 'f plugin_fs \<Rightarrow> plugin_env \<Rightarrow> path \<Rightarrow> cli_args \<Rightarrow> 'f \<Rightarrow> (string, printed \<times> int) result \<times> 'f" where
  "cli_main python pf env root_dir args f =
     (case args of
        CliValidate \<Rightarrow> (map_sum id (map_prod Out id) (validate_command (pe_rep env) (pf_view pf f) root_dir), f)
      | CliDoctor \<Rightarrow> (map_sum id (map_prod Out id) (doctor_command python (pe_rep env) (pf_view pf f) root_dir), f)
      | CliPluginList registry \<Rightarrow> plugin_command pf env registry PluginList f
      | CliPluginInstall registry source approved_by expected \<Rightarrow> (case (source, approved_by) of
            (Some src, Some who) \<Rightarrow> plugin_command pf env registry (PluginInstall src who expected) f
          | _ \<Rightarrow> (Inr (Err (VStr ''plugin install requires --source and --approved-by''), 2), f)))"

section \<open>scripts/release_gate.py\<close>

text \<open>
  A row of \<^verbatim>\<open>csv.DictReader\<close>: the fields of a short row are \<^verbatim>\<open>None\<close>, and a long row has the key \<^verbatim>\<open>None\<close> for the rest.
\<close>

record evidence_row =
  er_fields :: "(string \<times> string option) list"
  er_has_rest :: bool

definition evidence_columns :: "string set" where
  "evidence_columns = {''id'', ''status'', ''scope'', ''commit'', ''command'', ''artifact'', ''notes''}"

text \<open>\<^verbatim>\<open>row.get(k, default)\<close>.\<close>

definition row_get :: "evidence_row \<Rightarrow> string \<Rightarrow> string \<Rightarrow> string option" where
  "row_get row k d = (case map_of (er_fields row) k of None \<Rightarrow> Some d | Some v \<Rightarrow> v)"

definition shown :: "string option \<Rightarrow> string" where
  "shown v = (case v of None \<Rightarrow> ''None'' | Some s \<Rightarrow> s)"

definition row_malformed :: "evidence_row \<Rightarrow> bool" where
  "row_malformed row \<longleftrightarrow> er_has_rest row \<or> set (map fst (er_fields row)) \<noteq> evidence_columns"

definition row_unresolved :: "evidence_row \<Rightarrow> bool" where
  "row_unresolved row \<longleftrightarrow> (case map_of (er_fields row) ''status'' of Some (Some s) \<Rightarrow> s \<notin> {''PASS'', ''WAIVED''} | _ \<Rightarrow> True)"

definition full_sha :: "string \<Rightarrow> bool" where
  "full_sha s \<longleftrightarrow> length s = 40 \<and> list_all (\<lambda>c. is_digit c \<or> (97 \<le> code c \<and> code c \<le> 102)) s"

text \<open>\<^verbatim>\<open>SHA.fullmatch(None)\<close> raises \<^verbatim>\<open>TypeError\<close>.\<close>

fun unbound_rows :: "(string \<Rightarrow> bool) \<Rightarrow> evidence_row list \<Rightarrow> (string, evidence_row list) result" where
  "unbound_rows ancestor [] = Inr []"
| "unbound_rows ancestor (row # rows) =
     (case row_get row ''commit'' [] of
        None \<Rightarrow> Inl ''TypeError''
      | Some commit \<Rightarrow> map_sum id (\<lambda>rest. if full_sha commit \<and> ancestor commit then rest else row # rest) (unbound_rows ancestor rows))"

definition pending_items :: "string list \<Rightarrow> string list" where
  "pending_items checklist = filter (\<lambda>l. startswith l ''- [ ]'') (map strip checklist)"

definition gate_lines :: "evidence_row list \<Rightarrow> string list \<Rightarrow> evidence_row list \<Rightarrow> evidence_row list \<Rightarrow> string list" where
  "gate_lines malformed pending unresolved unbound =
     (if malformed = [] then [] else [''release-gate: malformed evidence rows: '' @ join '', '' (map (\<lambda>r. shown (row_get r ''id'' ''<unknown>'')) malformed)]) @
     (if pending = [] then [] else [''release-gate: '' @ nat_digits (length pending) @ '' checklist item(s) remain unchecked'']) @
     (if unresolved = [] then [] else [''release-gate: unresolved evidence: '' @
        join '', '' (map (\<lambda>r. shown (row_get r ''id'' ''<unknown>'') @ ''='' @ shown (row_get r ''status'' ''<missing>'')) unresolved)]) @
     (if unbound = [] then [] else [''release-gate: evidence is not bound to a full commit SHA: '' @
        join '', '' (map (\<lambda>r. shown (row_get r ''id'' ''<unknown>'') @ ''='' @ shown (row_get r ''commit'' ''<missing>'')) unbound)])"

text \<open>The checklist is given by its lines; joining a name that is \<^verbatim>\<open>None\<close> raises. The list of texts goes to standard error, or the one line of a pass to standard output.\<close>

definition release_gate :: "(string \<Rightarrow> bool) \<Rightarrow> string list \<Rightarrow> evidence_row list \<Rightarrow> (string, string list \<times> int) result" where
  "release_gate ancestor checklist rows =
     (let pending = pending_items checklist; malformed = filter row_malformed rows; unresolved = filter row_unresolved rows in
      case unbound_rows ancestor rows of
        Inl e \<Rightarrow> Inl e
      | Inr unbound \<Rightarrow>
          if list_ex (\<lambda>row. row_get row ''id'' ''<unknown>'' = None) malformed then Inl ''TypeError''
          else if malformed \<noteq> [] \<or> pending \<noteq> [] \<or> unresolved \<noteq> [] \<or> unbound \<noteq> []
          then Inr (gate_lines malformed pending unresolved unbound, 1)
          else Inr ([''release-gate: PASS ('' @ nat_digits (length rows) @ '' evidence records, all checklist items resolved)''], 0))"

section \<open>scripts/check_release_version.py\<close>

text \<open>One number of the tag: \<^verbatim>\<open>0|[1-9]\d*\<close>.\<close>

definition version_number :: "string \<Rightarrow> bool" where
  "version_number s \<longleftrightarrow> s = ''0'' \<or> (s \<noteq> [] \<and> list_all is_digit s \<and> hd s \<noteq> CHR ''0'')"

definition tag_version :: "string \<Rightarrow> string option" where
  "tag_version tag = (case tag of [] \<Rightarrow> None
     | c # rest \<Rightarrow> if c = CHR ''v'' \<and> length (split_on CHR ''.'' rest) = 3 \<and> list_all version_number (split_on CHR ''.'' rest)
         then Some (join ''.'' (split_on CHR ''.'' rest)) else None)"

definition validate_release_tag :: "(string \<Rightarrow> string) \<Rightarrow> string \<Rightarrow> string \<Rightarrow> (string, unit) result" where
  "validate_release_tag rep tag version =
     (case tag_version (strip tag) of
        None \<Rightarrow> Inl ''release tag must be vMAJOR.MINOR.PATCH without a development suffix''
      | Some expected \<Rightarrow> if version \<noteq> expected
          then Inl (''release tag '' @ rep tag @ '' does not match package version '' @ rep version) else Inr ())"

text \<open>
  The document of \<^verbatim>\<open>pyproject.toml\<close>; \<^const>\<open>Inl\<close> is the \<^verbatim>\<open>OSError\<close>, \<^verbatim>\<open>ValueError\<close> or \<^verbatim>\<open>TOMLDecodeError\<close> that \<^verbatim>\<open>main\<close> catches. A
  \<^verbatim>\<open>project\<close> that is no table has no \<^verbatim>\<open>get\<close> and raises \<^verbatim>\<open>AttributeError\<close>.
\<close>

datatype version_error = VersionCaught string | VersionUncaught string

definition package_version :: "(string, pydict) result \<Rightarrow> (version_error, string) result" where
  "package_version document =
     (case document of Inl e \<Rightarrow> Inl (VersionCaught e)
      | Inr d \<Rightarrow> (case dget_default d ''project'' (VDict []) of
          VDict project \<Rightarrow> (case dget project ''version'' of
              VStr version \<Rightarrow> if blank version then Inl (VersionCaught ''pyproject.toml does not define project.version'') else Inr (strip version)
            | _ \<Rightarrow> Inl (VersionCaught ''pyproject.toml does not define project.version''))
        | _ \<Rightarrow> Inl (VersionUncaught ''AttributeError'')))"

definition release_version_main :: "(string \<Rightarrow> string) \<Rightarrow> (string, pydict) result \<Rightarrow> string \<Rightarrow> (string, string \<times> int) result" where
  "release_version_main rep document tag =
     (case package_version document of
        Inl (VersionUncaught e) \<Rightarrow> Inl e
      | Inl (VersionCaught e) \<Rightarrow> Inr (''release-version: FAIL ('' @ e @ '')'', 1)
      | Inr version \<Rightarrow> (case validate_release_tag rep tag version of
            Inl e \<Rightarrow> Inr (''release-version: FAIL ('' @ e @ '')'', 1)
          | Inr _ \<Rightarrow> Inr (''release-version: PASS ('' @ tag @ '' == '' @ version @ '')'', 0)))"

section \<open>scripts/check_secrets.py\<close>

text \<open>
  The constructs of the patterns: one character, a run of characters of a class with bounds, a word boundary, sequence and
  alternative. A cursor is the character before the position and the rest of the text; \<open>ends\<close> lists every position at which a
  match that starts at a cursor may end, so a pattern is found exactly when some list is not empty.
\<close>

datatype regex = Eps | Chr "char \<Rightarrow> bool" | Run "char \<Rightarrow> bool" nat "nat option" | Boundary | Seq regex regex | Alt regex regex

type_synonym cursor = "char option \<times> string"

text \<open>A word character of the Latin-1 range: \<^verbatim>\<open>str.isalnum\<close> or the underscore.\<close>

definition word_char :: "char \<Rightarrow> bool" where
  "word_char c \<longleftrightarrow> is_alnum c \<or> c = CHR ''_'' \<or> (let n = code c in n \<in> {170, 178, 179, 181, 185, 186, 188, 189, 190} \<or> (192 \<le> n \<and> n \<noteq> 215 \<and> n \<noteq> 247))"

definition at_boundary :: "cursor \<Rightarrow> bool" where
  "at_boundary c \<longleftrightarrow> (case fst c of None \<Rightarrow> False | Some x \<Rightarrow> word_char x) \<noteq> (case snd c of [] \<Rightarrow> False | x # _ \<Rightarrow> word_char x)"

definition advance :: "nat \<Rightarrow> cursor \<Rightarrow> cursor" where
  "advance k c = (if k = 0 then fst c else Some (snd c ! (k - 1)), drop k (snd c))"

fun ends :: "regex \<Rightarrow> cursor \<Rightarrow> cursor list" where
  "ends Eps c = [c]"
| "ends (Chr p) c = (case snd c of [] \<Rightarrow> [] | x # s \<Rightarrow> if p x then [(Some x, s)] else [])"
| "ends (Run p lo hi) c =
     (let n = length (takeWhile p (snd c)); m = (case hi of None \<Rightarrow> n | Some h \<Rightarrow> min h n) in map (\<lambda>k. advance k c) [lo..<Suc m])"
| "ends Boundary c = (if at_boundary c then [c] else [])"
| "ends (Seq a b) c = concat (map (ends b) (ends a c))"
| "ends (Alt a b) c = ends a c @ ends b c"

fun search_from :: "regex \<Rightarrow> char option \<Rightarrow> string \<Rightarrow> bool" where
  "search_from r prev [] = (ends r (prev, []) \<noteq> [])"
| "search_from r prev (x # s) = (ends r (prev, x # s) \<noteq> [] \<or> search_from r (Some x) s)"

definition search :: "regex \<Rightarrow> string \<Rightarrow> bool" where
  "search r text = search_from r None text"

definition lit :: "string \<Rightarrow> regex" where
  "lit s = foldr (\<lambda>x r. Seq (Chr (\<lambda>y. y = x)) r) s Eps"

text \<open>Under \<^verbatim>\<open>(?i)\<close>.\<close>

definition ilit :: "string \<Rightarrow> regex" where
  "ilit s = foldr (\<lambda>x r. Seq (Chr (\<lambda>y. lower_char y = lower_char x)) r) s Eps"

definition seqs :: "regex list \<Rightarrow> regex" where
  "seqs rs = foldr Seq rs Eps"

definition alts :: "regex list \<Rightarrow> regex" where
  "alts rs = foldr Alt (butlast rs) (last rs)"

abbreviation dquote :: char where "dquote \<equiv> CHR 0x22"
abbreviation squote :: char where "squote \<equiv> CHR 0x27"
abbreviation bslash :: char where "bslash \<equiv> CHR 0x5C"

definition private_key_pattern :: regex where
  "private_key_pattern = seqs [lit ''-----BEGIN '', Run (\<lambda>c. is_upper c \<or> c = CHR '' '') 0 None, lit ''PRIVATE KEY-----'']"

definition aws_key_pattern :: regex where
  "aws_key_pattern = seqs [Boundary, lit ''AKIA'', Run (\<lambda>c. is_digit c \<or> is_upper c) 16 (Some 16), Boundary]"

definition token_pattern :: regex where
  "token_pattern = seqs [Boundary, alts [lit ''ghp'', lit ''github_pat'', Seq (lit ''xox'') (Chr (\<lambda>c. c \<in> set ''baprs''))], lit ''_'',
     Run (\<lambda>c. is_alnum c \<or> c = CHR ''_'' \<or> c = CHR ''-'') 20 None, Boundary]"

definition assignment_pattern :: regex where
  "assignment_pattern = (let sep = Run (\<lambda>c. c = CHR ''_'' \<or> c = CHR ''-'') 0 (Some 1); quote = Chr (\<lambda>c. c = squote \<or> c = dquote) in
     seqs [Boundary, alts [seqs [ilit ''api'', sep, ilit ''key''], ilit ''secret'', ilit ''password'', seqs [ilit ''access'', sep, ilit ''token'']],
       Run is_space 0 None, Chr (\<lambda>c. c = CHR '':'' \<or> c = CHR ''=''), Run is_space 0 None, quote,
       Run (\<lambda>c. c \<noteq> squote \<and> c \<noteq> dquote \<and> code c \<noteq> 10) 12 None, quote])"

text \<open>The patterns with their source text, which is what a finding shows.\<close>

definition secret_patterns :: "(regex \<times> string) list" where
  "secret_patterns =
     [(private_key_pattern, ''-----BEGIN [A-Z ]*PRIVATE KEY-----''),
      (aws_key_pattern, bslash # ''bAKIA[0-9A-Z]{16}'' @ [bslash] @ ''b''),
      (token_pattern, bslash # ''b(?:ghp|github_pat|xox[baprs])_[A-Za-z0-9_-]{20,}'' @ [bslash] @ ''b''),
      (assignment_pattern, ''(?i)'' @ [bslash] @ ''b(?:api[_-]?key|secret|password|access[_-]?token)'' @ [bslash] @ ''s*[:=]'' @ [bslash] @ ''s*['' @
         [squote, bslash, dquote] @ '']['' @ ''^'' @ [squote, bslash, dquote, bslash] @ ''n]{12,}['' @ [squote, bslash, dquote] @ '']'')]"

text \<open>\<^verbatim>\<open>Path(path).name\<close> of a text with slashes, and \<^verbatim>\<open>suffix\<close>.\<close>

definition file_name :: "string \<Rightarrow> string" where
  "file_name p = (case filter (\<lambda>x. x \<noteq> [] \<and> x \<noteq> ''.'') (split_on CHR ''/'' p) of [] \<Rightarrow> [] | ps \<Rightarrow> last ps)"

definition file_suffix :: "string \<Rightarrow> string" where
  "file_suffix name =
     (let stem = rev (dropWhile (\<lambda>c. c \<noteq> CHR ''.'') (rev name)); ext = drop (length stem) name in
      if length stem \<le> 1 \<or> ext = [] then [] else CHR ''.'' # ext)"

definition text_suffixes :: "string list" where
  "text_suffixes = [''.py'', ''.yaml'', ''.yml'', ''.json'', ''.md'', ''.toml'', ''.txt'', ''.ini'', ''.cfg'', ''.env'']"

definition ignored_parts :: "string list" where
  "ignored_parts = [''.git'', ''.venv'', ''.venv-release'', ''venv'', ''__pycache__'', ''.data'', ''dist'', ''build'']"

definition is_scannable_path :: "string \<Rightarrow> bool" where
  "is_scannable_path p \<longleftrightarrow> (let name = file_name p in
     lower (file_suffix name) \<in> set text_suffixes \<or> endswith name ''.env.example'' \<or> name \<in> {''.env.example'', ''Dockerfile''})"

definition secret_matches :: "string \<Rightarrow> string \<Rightarrow> string list" where
  "secret_matches p text = (if \<not> is_scannable_path p then [] else map snd (filter (\<lambda>(r, _). search r text) secret_patterns))"

text \<open>
  The files of the working tree as \<^verbatim>\<open>rglob\<close> gives them below the absolute root; \<open>read\<close> gives \<^const>\<open>None\<close> for a file that cannot be
  read or decoded.
\<close>

definition working_tree_findings :: "(path \<Rightarrow> string option) \<Rightarrow> path \<Rightarrow> path list \<Rightarrow> string list" where
  "working_tree_findings read root_dir files =
     concat (map (\<lambda>p. if list_ex (\<lambda>part. part \<in> set ignored_parts) p then []
       else (case read p of None \<Rightarrow> []
         | Some text \<Rightarrow> map (\<lambda>m. as_posix (drop (length root_dir) p) @ '': matched '' @ m) (secret_matches (last p) text))) files)"

text \<open>
  The history: the object identifiers and paths of \<^verbatim>\<open>git rev-list\<close>, \<^const>\<open>Inl\<close> its failure; \<open>blob\<close> gives the decoded text of an
  object, if there is one.
\<close>

definition git_history_findings :: "(string \<Rightarrow> string option) \<Rightarrow> (string, (string \<times> string) list) result \<Rightarrow> (string, string list \<times> bool) result" where
  "git_history_findings blob objects =
     (case objects of Inl e \<Rightarrow> Inl (if blank e then ''git history enumeration failed'' else strip e)
      | Inr [] \<Rightarrow> Inr ([], False)
      | Inr os \<Rightarrow> Inr (concat (map (\<lambda>(i, p). if \<not> is_scannable_path p then []
            else (case blob i of None \<Rightarrow> [] | Some text \<Rightarrow> map (\<lambda>m. ''history:'' @ p @ '': matched '' @ m) (secret_matches p text))) os), True))"

definition check_secrets_main ::
    "(path \<Rightarrow> string option) \<Rightarrow> path \<Rightarrow> path list \<Rightarrow> (string \<Rightarrow> string option) \<Rightarrow> (string, (string \<times> string) list) result \<Rightarrow> bool \<Rightarrow> string list \<times> int" where
  "check_secrets_main read root_dir files blob objects git_history =
     (let tree = working_tree_findings read root_dir files;
          verdict = (\<lambda>found. if found \<noteq> [] then (''Potential secrets found:'' # found, 1) else ([''secret-scan: no configured secret patterns found''], 0))
      in if \<not> git_history then verdict tree
         else (case git_history_findings blob objects of
             Inl e \<Rightarrow> ([''history-scan: '' @ e], 2)
           | Inr (_, False) \<Rightarrow> ([''history-scan: no commits found''], 2)
           | Inr (history, True) \<Rightarrow> verdict (tree @ history)))"

section \<open>Validation\<close>

text \<open>The API and the command line agree on the contracts of a repository.\<close>

lemma validate_agents_as_command: "validate_agents rep cf root_dir = map_sum id fst (validate_command rep cf root_dir)"
  by (simp add: validate_agents_def validate_command_def repository_valid_def Let_def split: sum.splits)

section \<open>What a clean scan shows\<close>

lemma ends_lit:
  "ends (lit w) (prev, w @ t) = [(if w = [] then prev else Some (last w), t)]"
  "\<not> startswith s w \<Longrightarrow> ends (lit w) (prev, s) = []"
proof -
  show "ends (lit w) (prev, w @ t) = [(if w = [] then prev else Some (last w), t)]"
    by (induction w arbitrary: prev) (auto simp: lit_def)
  show "\<not> startswith s w \<Longrightarrow> ends (lit w) (prev, s) = []"
  proof (induction w arbitrary: prev s)
    case (Cons x w)
    then show ?case by (cases s) (auto simp: lit_def startswith_def)
  qed (simp add: startswith_def)
qed

lemma startswith_iff: "startswith s w \<longleftrightarrow> (\<exists>t. s = w @ t)"
  unfolding startswith_def by (metis append_eq_conv_conj append_take_drop_id)

definition last_or :: "char option \<Rightarrow> string \<Rightarrow> char option" where
  "last_or prev s = (if s = [] then prev else Some (last s))"

lemma search_from_iff: "search_from r prev s \<longleftrightarrow> (\<exists>a b. s = a @ b \<and> ends r (last_or prev a, b) \<noteq> [])"
proof (induction s arbitrary: prev)
  case (Cons x s)
  have split: "(\<exists>a b. x # s = a @ b \<and> Q a b) \<longleftrightarrow> Q [] (x # s) \<or> (\<exists>a b. s = a @ b \<and> Q (x # a) b)" for Q :: "string \<Rightarrow> string \<Rightarrow> bool"
    unfolding Cons_eq_append_conv by blast
  have "last_or prev (x # a) = last_or (Some x) a" for a by (simp add: last_or_def)
  then show ?case by (subst split) (simp add: Cons.IH last_or_def [of prev "[]"])
qed (auto simp: last_or_def)

definition word_opt :: "char option \<Rightarrow> bool" where
  "word_opt x = (case x of None \<Rightarrow> False | Some c \<Rightarrow> word_char c)"

definition is_aws_key :: "string \<Rightarrow> bool" where
  "is_aws_key k \<longleftrightarrow> length k = 20 \<and> take 4 k = ''AKIA'' \<and> list_all (\<lambda>c. is_digit c \<or> is_upper c) (drop 4 k)"

definition first_opt :: "string \<Rightarrow> char option" where
  "first_opt s = (case s of [] \<Rightarrow> None | c # _ \<Rightarrow> Some c)"

lemma ends_seqs: "ends (seqs (r # rs)) c = concat (map (ends (seqs rs)) (ends r c))" "ends (seqs []) c = [c]"
  by (simp_all add: seqs_def)

lemma at_boundary_iff: "at_boundary (prev, s) \<longleftrightarrow> word_opt prev \<noteq> word_opt (first_opt s)"
  by (simp add: at_boundary_def word_opt_def first_opt_def split: list.splits)

lemma ends_run_exact:
  "ends (Run p n (Some n)) (prev, s) = (if n \<le> length (takeWhile p s) then [advance n (prev, s)] else [])"
  by (auto simp: min_def)

lemma take_run: "n \<le> length (takeWhile p s) \<longleftrightarrow> n \<le> length s \<and> list_all p (take n s)"
proof (induction n arbitrary: s)
  case (Suc n)
  then show ?case by (cases s) auto
qed simp

lemma upper_digit_word: "is_digit c \<or> is_upper c \<Longrightarrow> word_char c"
  by (auto simp: word_char_def is_alnum_def)

lemma aws_ends:
  "ends aws_key_pattern (prev, s) \<noteq> [] \<longleftrightarrow>
     (\<exists>k post. s = k @ post \<and> is_aws_key k \<and> \<not> word_opt prev \<and> \<not> word_opt (first_opt post))"
proof -
  let ?p = "\<lambda>c. is_digit c \<or> is_upper c"
  have A: "word_char CHR ''A''" by code_simp
  have "ends aws_key_pattern (prev, s) \<noteq> [] \<longleftrightarrow>
      at_boundary (prev, s) \<and> (\<exists>t. s = ''AKIA'' @ t \<and> 16 \<le> length (takeWhile ?p t) \<and> at_boundary (advance 16 (Some CHR ''A'', t)))"
  proof (cases "startswith s ''AKIA''")
    case True
    then obtain t where t: "s = ''AKIA'' @ t" unfolding startswith_iff ..
    show ?thesis
      using ends_lit(1) [of "''AKIA''" prev t] by (auto simp: t aws_key_pattern_def ends_seqs ends_run_exact simp del: ends.simps(3))
  next
    case False
    then show ?thesis by (auto simp: aws_key_pattern_def ends_seqs ends_lit(2)) (auto simp: startswith_iff)
  qed
  also have "\<dots> \<longleftrightarrow> (\<exists>t. s = ''AKIA'' @ t \<and> \<not> word_opt prev \<and> 16 \<le> length t \<and> list_all ?p (take 16 t) \<and> \<not> word_opt (first_opt (drop 16 t)))"
  proof -
    have "at_boundary (advance 16 (Some CHR ''A'', t)) \<longleftrightarrow> \<not> word_opt (first_opt (drop 16 t))" if "16 \<le> length t" "list_all ?p (take 16 t)" for t
    proof -
      have "take 16 t ! 15 \<in> set (take 16 t)" using that(1) by (intro nth_mem) simp
      then have "?p (t ! 15)" using that(2) by (simp add: list_all_iff)
      then show ?thesis using upper_digit_word by (auto simp: advance_def at_boundary_iff word_opt_def)
    qed
    moreover have "at_boundary (prev, ''AKIA'' @ t) \<longleftrightarrow> \<not> word_opt prev" for t
      using A by (simp add: at_boundary_iff first_opt_def word_opt_def)
    ultimately show ?thesis by (auto simp: take_run)
  qed
  also have "\<dots> \<longleftrightarrow> (\<exists>k post. s = k @ post \<and> is_aws_key k \<and> \<not> word_opt prev \<and> \<not> word_opt (first_opt post))"
  proof
    assume "\<exists>t. s = ''AKIA'' @ t \<and> \<not> word_opt prev \<and> 16 \<le> length t \<and> list_all ?p (take 16 t) \<and> \<not> word_opt (first_opt (drop 16 t))"
    then obtain t where "s = ''AKIA'' @ t" "\<not> word_opt prev" "16 \<le> length t" "list_all ?p (take 16 t)" "\<not> word_opt (first_opt (drop 16 t))" by blast
    then show "\<exists>k post. s = k @ post \<and> is_aws_key k \<and> \<not> word_opt prev \<and> \<not> word_opt (first_opt post)"
      by (intro exI [of _ "''AKIA'' @ take 16 t"] exI [of _ "drop 16 t"]) (simp add: is_aws_key_def)
  next
    assume "\<exists>k post. s = k @ post \<and> is_aws_key k \<and> \<not> word_opt prev \<and> \<not> word_opt (first_opt post)"
    then obtain k post where k: "s = k @ post" "is_aws_key k" "\<not> word_opt prev" "\<not> word_opt (first_opt post)" by blast
    from k(2) have "k = ''AKIA'' @ drop 4 k" by (metis append_take_drop_id is_aws_key_def)
    with k show "\<exists>t. s = ''AKIA'' @ t \<and> \<not> word_opt prev \<and> 16 \<le> length t \<and> list_all ?p (take 16 t) \<and> \<not> word_opt (first_opt (drop 16 t))"
      by (intro exI [of _ "drop 4 k @ post"]) (simp add: is_aws_key_def)
  qed
  finally show ?thesis .
qed

text \<open>The pattern of access keys finds exactly the keys that stand as words of the text.\<close>

lemma aws_search_iff:
  "search aws_key_pattern text \<longleftrightarrow>
     (\<exists>pre k post. text = pre @ k @ post \<and> is_aws_key k \<and> \<not> word_opt (last_or None pre) \<and> \<not> word_opt (first_opt post))"
  unfolding search_def search_from_iff aws_ends by blast

text \<open>
  A clean scan: no file that is outside the ignored directories, scannable and readable holds an access key as a word, in the
  working tree and, when asked for, in the history.
\<close>

lemma clean_scan_has_no_aws_key:
  assumes "check_secrets_main read root_dir files blob objects git_history = (out, 0)"
    and "p \<in> set files" "read p = Some text" "is_scannable_path (last p)" "\<forall>part\<in>set p. part \<notin> set ignored_parts"
    and "text = pre @ k @ post" "is_aws_key k"
  shows "word_opt (last_or None pre) \<or> word_opt (first_opt post)"
proof (rule ccontr)
  assume "\<not> ?thesis"
  with assms(6,7) have "search aws_key_pattern text" unfolding aws_search_iff by blast
  moreover have "secret_patterns ! 1 \<in> set secret_patterns" "fst (secret_patterns ! 1) = aws_key_pattern"
    by (simp_all add: secret_patterns_def)
  ultimately have "snd (secret_patterns ! 1) \<in> set (secret_matches (last p) text)"
    using assms(4) by (cases "secret_patterns ! 1") (force simp: secret_matches_def)
  then have "as_posix (drop (length root_dir) p) @ '': matched '' @ snd (secret_patterns ! 1) \<in> set (working_tree_findings read root_dir files)"
    using assms(2,3,5) by (auto simp: working_tree_findings_def list_ex_iff intro!: bexI [of _ p])
  then have "working_tree_findings read root_dir files \<noteq> []" by auto
  with assms(1) show False
    by (auto simp: check_secrets_main_def Let_def split: if_splits sum.splits prod.splits bool.splits)
qed

text \<open>
  The ignored names are compared with every part of the absolute path: a repository checked out below a directory named
  \<^verbatim>\<open>build\<close> is not scanned at all, and the scan reports that nothing was found.
\<close>

lemma checkout_below_build_not_scanned:
  assumes "''build'' \<in> set root_dir" "\<forall>p\<in>set files. \<exists>q. p = root_dir @ q"
  shows "check_secrets_main read root_dir files blob objects False = ([''secret-scan: no configured secret patterns found''], 0)"
proof -
  have "list_ex (\<lambda>part. part \<in> set ignored_parts) p" if "p \<in> set files" for p
  proof -
    have "''build'' \<in> set ignored_parts" by (simp add: ignored_parts_def)
    with assms that show ?thesis unfolding list_ex_iff by (metis Un_iff set_append)
  qed
  then have "working_tree_findings read root_dir files = []" by (auto simp: working_tree_findings_def)
  then show ?thesis by (simp add: check_secrets_main_def)
qed

text \<open>
  The pattern of tokens asks for an underscore after the prefix, where the tokens that Slack issues have a hyphen: a text without an
  underscore is never found.
\<close>

lemma ends_suffix: "c' \<in> set (ends r c) \<Longrightarrow> \<exists>u. snd c = u @ snd c'"
proof (induction r arbitrary: c c')
  case (Run p lo hi)
  then obtain k where "c' = advance k c" by (auto simp: Let_def)
  then show ?case by (intro exI [of _ "take k (snd c)"]) (simp add: advance_def)
next
  case (Seq a b)
  then show ?case by simp (metis append_assoc)
qed (auto split: list.splits if_splits)

lemma seqs_Cons_nonempty: "ends (seqs (r # rs)) c \<noteq> [] \<Longrightarrow> \<exists>c'. c' \<in> set (ends r c) \<and> ends (seqs rs) c' \<noteq> []"
  by (auto simp: ends_seqs)

lemma hyphen_token_missed:
  assumes "CHR ''_'' \<notin> set text"
  shows "\<not> search token_pattern text"
proof
  let ?alts = "alts [lit ''ghp'', lit ''github_pat'', Seq (lit ''xox'') (Chr (\<lambda>c. c \<in> set ''baprs''))]"
  assume "search token_pattern text"
  then obtain a b where "text = a @ b" "ends token_pattern (last_or None a, b) \<noteq> []"
    unfolding search_def search_from_iff by blast
  then obtain c1 c c2 where "c1 \<in> set (ends Boundary (last_or None a, b))" and c: "c \<in> set (ends ?alts c1)" "c2 \<in> set (ends (lit ''_'') c)"
    unfolding token_pattern_def by (elim seqs_Cons_nonempty [elim_format] exE conjE) (rule that)
  then have "c1 = (last_or None a, b)" by (simp split: if_splits)
  with ends_suffix [OF c(1)] have "\<exists>u. b = u @ snd c" by simp
  then obtain u where u: "b = u @ snd c" ..
  from c(2) have "CHR ''_'' \<in> set (snd c)" by (cases "snd c") (simp_all add: lit_def split: if_splits)
  with u \<open>text = a @ b\<close> assms show False by simp
qed

section \<open>What a passing gate shows\<close>

lemma unbound_rows_Inr:
  "unbound_rows ancestor rows = Inr [] \<longleftrightarrow>
     (\<forall>row\<in>set rows. \<exists>commit. row_get row ''commit'' [] = Some commit \<and> full_sha commit \<and> ancestor commit)"
proof (induction rows)
  case (Cons row rows)
  show ?case
  proof (cases "row_get row ''commit'' []")
    case (Some commit)
    with Cons.IH show ?thesis by (cases "unbound_rows ancestor rows") auto
  qed simp
qed simp

text \<open>
  The gate fails closed: it exits with status 0 exactly when no item of the checklist is open and every evidence row has the
  seven columns, a resolved status and a full commit identifier that is an ancestor of the release.
\<close>

lemma release_gate_passes_iff:
  "(\<exists>out. release_gate ancestor checklist rows = Inr (out, 0)) \<longleftrightarrow>
     (\<forall>l\<in>set checklist. \<not> startswith (strip l) ''- [ ]'') \<and>
     (\<forall>row\<in>set rows. \<not> row_malformed row \<and> \<not> row_unresolved row \<and>
        (\<exists>commit. row_get row ''commit'' [] = Some commit \<and> full_sha commit \<and> ancestor commit))"
proof -
  have "(\<exists>out. release_gate ancestor checklist rows = Inr (out, 0)) \<longleftrightarrow>
      pending_items checklist = [] \<and> filter row_malformed rows = [] \<and> filter row_unresolved rows = [] \<and> unbound_rows ancestor rows = Inr []"
    by (cases "unbound_rows ancestor rows") (auto simp: release_gate_def Let_def)
  then show ?thesis unfolding unbound_rows_Inr by (auto simp: pending_items_def filter_empty_conv)
qed

text \<open>A row cut short before the commit has all its keys, so it is not malformed; matching \<^verbatim>\<open>None\<close> then raises.\<close>

lemma short_row_raises:
  assumes "map_of (er_fields row) ''commit'' = Some None"
  shows "release_gate ancestor checklist (row # rows) = Inl ''TypeError''"
  using assms by (simp add: release_gate_def row_get_def)

lemma join_split: "join [c] (split_on c s) = s"
proof (induction s)
  case (Cons x s)
  obtain p ps where "split_on c s = p # ps" by (cases "split_on c s") auto
  with Cons show ?case by (cases ps) auto
qed simp

text \<open>A tag is accepted exactly when it is the letter v and the package version, three plain numbers.\<close>

lemma validate_release_tag_iff:
  "validate_release_tag rep tag version = Inr () \<longleftrightarrow>
     strip tag = CHR ''v'' # version \<and> length (split_on CHR ''.'' version) = 3 \<and> list_all version_number (split_on CHR ''.'' version)"
  by (cases "strip tag") (auto simp: validate_release_tag_def tag_version_def join_split)

end
