(* ===== verification/Job_Queue.thy ===== *)
theory Job_Queue
  imports Py_Json
begin

text \<open>
  The queues of \<^verbatim>\<open>packages/scheduler/queue.py\<close>: the in-memory queue, and the Redis Streams queue with its
  enqueue markers and run claims.

  The Redis client is a parameter: a \<open>redis_client\<close> holds the commands the code calls, each a function on
  a state of the server \<open>'r\<close> that returns the reply or the text of the exception, and the new state. A
  reply is the text it stands for, whether the client hands out \<^verbatim>\<open>bytes\<close> or \<^verbatim>\<open>str\<close>. What the theorems need
  of the server is the predicate \<open>redis_keys\<close>, the documented meaning of GET, SET NX, DEL and of the
  script that \<open>complete_run\<close> sends. The parameter \<open>interfere\<close> of \<open>claim_run\<close> is what other clients and
  the expiry of keys do to the server between two commands of one call.
\<close>

datatype queue_error = QueueError string | QueueValueError string | QueueUncaught string

record job =
  jb_id :: string
  jb_payload :: pydict
  jb_enqueued_at :: string
  jb_receipt :: "string option"

datatype claim_status = Claimed | InProgress | Completed

record run_claim =
  cl_status :: claim_status
  cl_token :: "string option"

section \<open>The in-memory queue\<close>

type_synonym memory_queue = "job list"

definition memory_queue_init :: memory_queue where
  "memory_queue_init = []"

definition memory_enqueue :: "string \<Rightarrow> string \<Rightarrow> pydict \<Rightarrow> memory_queue \<Rightarrow> job \<times> memory_queue" where
  "memory_enqueue uid now payload q =
     (let j = \<lparr>jb_id = uid, jb_payload = payload, jb_enqueued_at = now, jb_receipt = None\<rparr> in (j, q @ [j]))"

definition memory_receive :: "memory_queue \<Rightarrow> job option \<times> memory_queue" where
  "memory_receive q = (case q of [] \<Rightarrow> (None, []) | j # rest \<Rightarrow> (Some j, rest))"

definition memory_ack :: "job \<Rightarrow> memory_queue \<Rightarrow> memory_queue" where
  "memory_ack j q = q"

section \<open>The Redis queue\<close>

type_synonym ('r, 'a) command = "'r \<Rightarrow> (string, 'a) result \<times> 'r"

record 'r redis_client =
  rc_get :: "string \<Rightarrow> ('r, string option) command"
  rc_set_nx :: "string \<Rightarrow> string \<Rightarrow> int \<Rightarrow> ('r, bool) command"
  rc_delete :: "string \<Rightarrow> ('r, unit) command"
  rc_eval :: "string \<Rightarrow> string \<Rightarrow> string \<Rightarrow> int \<Rightarrow> ('r, pyval) command"
  rc_xgroup_create :: "string \<Rightarrow> string \<Rightarrow> ('r, unit) command"
  rc_xadd :: "string \<Rightarrow> (string, string) dict \<Rightarrow> ('r, string) command"
  rc_xautoclaim :: "string \<Rightarrow> string \<Rightarrow> string \<Rightarrow> int \<Rightarrow> ('r, pyval) command"
  rc_xreadgroup :: "string \<Rightarrow> string \<Rightarrow> string \<Rightarrow> int \<Rightarrow> ('r, pyval) command"
  rc_xack :: "string \<Rightarrow> string \<Rightarrow> string \<Rightarrow> ('r, unit) command"

record redis_queue =
  rq_stream :: string
  rq_group :: string
  rq_consumer :: string
  rq_claim_after_seconds :: int
  rq_group_ready :: bool

definition redis_queue_init ::
    "string \<Rightarrow> string \<Rightarrow> string option \<Rightarrow> int \<Rightarrow> string \<Rightarrow> (queue_error, redis_queue) result" where
  "redis_queue_init stream grp consumer claim_after uid =
     (if stream = [] \<or> grp = [] \<or> length stream > 200 \<or> length grp > 200
      then Inl (QueueValueError ''Redis stream and group names are invalid'')
      else if claim_after \<le> 0 \<or> claim_after > 86400 then Inl (QueueValueError ''claim timeout is invalid'')
      else Inr \<lparr>rq_stream = stream, rq_group = grp,
        rq_consumer = (case consumer of None \<Rightarrow> ''worker-'' @ uid | Some c \<Rightarrow> if c = [] then ''worker-'' @ uid else c),
        rq_claim_after_seconds = claim_after, rq_group_ready = False\<rparr>)"

text \<open>Calls return the result, the queue object and the server.\<close>

type_synonym ('r, 'a) queue_call = "(queue_error, 'a) result \<times> redis_queue \<times> 'r"

definition ensure_group :: "'r redis_client \<Rightarrow> redis_queue \<Rightarrow> 'r \<Rightarrow> ('r, unit) queue_call" where
  "ensure_group c q r =
     (if rq_group_ready q then (Inr (), q, r)
      else (case rc_xgroup_create c (rq_stream q) (rq_group q) r of
          (Inr _, r1) \<Rightarrow> (Inr (), q\<lparr>rq_group_ready := True\<rparr>, r1)
        | (Inl exc, r1) \<Rightarrow>
            if \<not> contains exc ''BUSYGROUP''
            then (Inl (QueueError ''Redis consumer group could not be initialized''), q, r1)
            else (Inr (), q\<lparr>rq_group_ready := True\<rparr>, r1)))"

definition encoded_payload :: "(pyfloat \<Rightarrow> string) \<Rightarrow> pydict \<Rightarrow> string" where
  "encoded_payload fr payload = json_dumps fr (canon (VDict payload))"

text \<open>\<open>uid\<close> is \<^verbatim>\<open>uuid.uuid4().hex\<close>; \<open>t1\<close> and \<open>t2\<close> are the two readings of the clock.\<close>

definition enqueue ::
    "'r redis_client \<Rightarrow> (pyfloat \<Rightarrow> string) \<Rightarrow> string \<Rightarrow> string \<Rightarrow> string \<Rightarrow> pydict \<Rightarrow> redis_queue \<Rightarrow> 'r \<Rightarrow> ('r, job) queue_call" where
  "enqueue c fr uid t1 t2 payload q r =
     (let encoded = encoded_payload fr payload in
      if utf8_length encoded > 100000 then (Inl (QueueError ''job payload is too large''), q, r)
      else (case ensure_group c q r of
          (Inl e, q1, r1) \<Rightarrow> (Inl e, q1, r1)
        | (Inr _, q1, r1) \<Rightarrow>
            (case rc_xadd c (rq_stream q1) [(''job_id'', uid), (''payload'', encoded), (''enqueued_at'', t1)] r1 of
               (Inl _, r2) \<Rightarrow> (Inl (QueueError ''Redis job enqueue failed''), q1, r2)
             | (Inr receipt, r2) \<Rightarrow>
                 (Inr \<lparr>jb_id = uid, jb_payload = payload, jb_enqueued_at = t2, jb_receipt = Some receipt\<rparr>, q1, r2))))"

definition run_state_key :: "(string \<Rightarrow> string) \<Rightarrow> redis_queue \<Rightarrow> string \<Rightarrow> string" where
  "run_state_key sha q key = rq_stream q @ '':runs:'' @ sha key"

definition enqueue_state_key :: "(string \<Rightarrow> string) \<Rightarrow> redis_queue \<Rightarrow> string \<Rightarrow> string" where
  "enqueue_state_key sha q key = rq_stream q @ '':enqueued:'' @ sha key"

definition enqueue_once ::
    "'r redis_client \<Rightarrow> (string \<Rightarrow> string) \<Rightarrow> (pyfloat \<Rightarrow> string) \<Rightarrow> string \<Rightarrow> string \<Rightarrow> string \<Rightarrow> pydict \<Rightarrow> string \<Rightarrow> int \<Rightarrow>
     redis_queue \<Rightarrow> 'r \<Rightarrow> ('r, job option) queue_call" where
  "enqueue_once c sha fr uid t1 t2 payload key retention q r =
     (if key = [] \<or> length key > 256 then (Inl (QueueValueError ''schedule enqueue idempotency key is invalid''), q, r)
      else if retention \<le> 0 \<or> retention > 365 * 86400
      then (Inl (QueueValueError ''schedule enqueue retention is invalid''), q, r)
      else (case rc_set_nx c (enqueue_state_key sha q key) ''enqueued'' retention r of
          (Inl _, r1) \<Rightarrow> (Inl (QueueError ''Redis schedule enqueue claim failed''), q, r1)
        | (Inr False, r1) \<Rightarrow> (Inr None, q, r1)
        | (Inr True, r1) \<Rightarrow>
            (case enqueue c fr uid t1 t2 payload q r1 of
               (Inr j, q2, r2) \<Rightarrow> (Inr (Some j), q2, r2)
             | (Inl e, q2, r2) \<Rightarrow>
                 (case rc_delete c (enqueue_state_key sha q key) r2 of
                    (Inl _, r3) \<Rightarrow> (Inl (QueueError ''Redis schedule enqueue claim failed''), q2, r3)
                  | (Inr _, r3) \<Rightarrow> (Inl e, q2, r3)))))"

definition claim_abandoned :: "'r redis_client \<Rightarrow> redis_queue \<Rightarrow> 'r \<Rightarrow> (queue_error, pyval list) result \<times> 'r" where
  "claim_abandoned c q r =
     (case rc_xautoclaim c (rq_stream q) (rq_group q) (rq_consumer q) (rq_claim_after_seconds q * 1000) r of
        (Inl _, r1) \<Rightarrow> (Inl (QueueError ''Redis abandoned-job claim failed''), r1)
      | (Inr reply, r1) \<Rightarrow>
          (case as_list reply of
             Some (a # b # rest) \<Rightarrow>
               (case as_list b of
                  Some ms \<Rightarrow> (Inr ms, r1)
                | None \<Rightarrow> (Inl (QueueUncaught ''TypeError''), r1))
           | _ \<Rightarrow> (Inr [], r1)))"

definition pair_item :: "pyval \<Rightarrow> bool" where
  "pair_item v \<longleftrightarrow> (case as_list v of None \<Rightarrow> False | Some xs \<Rightarrow> length xs = 2)"

definition batch_items :: "pyval \<Rightarrow> pyval list" where
  "batch_items batch =
     (case as_list batch of
        Some (a # b # rest) \<Rightarrow> (case as_list b of Some items \<Rightarrow> filter pair_item items | None \<Rightarrow> [])
      | _ \<Rightarrow> [])"

definition flatten :: "pyval \<Rightarrow> pyval list" where
  "flatten batches = (case as_list batches of None \<Rightarrow> [] | Some bs \<Rightarrow> concat (map batch_items bs))"

definition decode_job :: "(string \<Rightarrow> json_outcome) \<Rightarrow> (pyval \<Rightarrow> string) \<Rightarrow> pyval \<Rightarrow> (queue_error, job) result" where
  "decode_job json_loads rep message =
     (case as_list message of
        Some (raw_receipt # entry # rest) \<Rightarrow>
          (case as_dict entry of
             None \<Rightarrow> Inl (QueueError ''Redis job fields are invalid'')
           | Some f \<Rightarrow>
               (case json_loads (py_str rep (dget f ''payload'')) of
                  JDecodeError \<Rightarrow> Inl (QueueError ''Redis job payload is invalid'')
                | JOtherError \<Rightarrow> Inl (QueueError ''Redis job payload is invalid'')
                | JValue v \<Rightarrow>
                    (case as_dict v of
                       None \<Rightarrow> Inl (QueueError ''Redis job fields are incomplete'')
                     | Some payload \<Rightarrow>
                         if dget f ''job_id'' = VNone \<or> dget f ''enqueued_at'' = VNone
                         then Inl (QueueError ''Redis job fields are incomplete'')
                         else Inr \<lparr>jb_id = py_str rep (dget f ''job_id''), jb_payload = payload,
                           jb_enqueued_at = py_str rep (dget f ''enqueued_at''),
                           jb_receipt = Some (py_str rep raw_receipt)\<rparr>)))
      | _ \<Rightarrow> Inl (QueueUncaught ''IndexError''))"

definition receive ::
    "'r redis_client \<Rightarrow> (string \<Rightarrow> json_outcome) \<Rightarrow> (pyval \<Rightarrow> string) \<Rightarrow> int \<Rightarrow> redis_queue \<Rightarrow> 'r \<Rightarrow> ('r, job option) queue_call" where
  "receive c json_loads rep block_seconds q r =
     (if block_seconds < 0 \<or> block_seconds > 300 then (Inl (QueueValueError ''block timeout is invalid''), q, r)
      else (case ensure_group c q r of
          (Inl e, q1, r1) \<Rightarrow> (Inl e, q1, r1)
        | (Inr _, q1, r1) \<Rightarrow>
            (case claim_abandoned c q1 r1 of
               (Inl e, r2) \<Rightarrow> (Inl e, q1, r2)
             | (Inr (m # _), r2) \<Rightarrow> (map_sum id Some (decode_job json_loads rep m), q1, r2)
             | (Inr [], r2) \<Rightarrow>
                 (case rc_xreadgroup c (rq_group q1) (rq_consumer q1) (rq_stream q1) (block_seconds * 1000) r2 of
                    (Inl _, r3) \<Rightarrow> (Inl (QueueError ''Redis job receive failed''), q1, r3)
                  | (Inr batches, r3) \<Rightarrow>
                      (case flatten batches of
                         [] \<Rightarrow> (Inr None, q1, r3)
                       | m # _ \<Rightarrow> (map_sum id Some (decode_job json_loads rep m), q1, r3))))))"

definition ack :: "'r redis_client \<Rightarrow> redis_queue \<Rightarrow> job \<Rightarrow> 'r \<Rightarrow> (queue_error, unit) result \<times> 'r" where
  "ack c q j r =
     (case jb_receipt j of
        None \<Rightarrow> (Inr (), r)
      | Some receipt \<Rightarrow>
          if receipt = [] then (Inr (), r)
          else (case rc_xack c (rq_stream q) (rq_group q) receipt r of
              (Inl _, r1) \<Rightarrow> (Inl (QueueError ''Redis job acknowledgement failed''), r1)
            | (Inr _, r1) \<Rightarrow> (Inr (), r1)))"

section \<open>Run claims\<close>

definition running_value :: "string \<Rightarrow> string" where
  "running_value token = ''running:'' @ token"

text \<open>\<^verbatim>\<open>str(current)\<close>: the key may be gone again when it is read the second time.\<close>

definition claim_reply :: "string option \<Rightarrow> run_claim" where
  "claim_reply current =
     (if (case current of None \<Rightarrow> ''None'' | Some v \<Rightarrow> v) = ''completed''
      then \<lparr>cl_status = Completed, cl_token = None\<rparr> else \<lparr>cl_status = InProgress, cl_token = None\<rparr>)"

definition claim_run ::
    "'r redis_client \<Rightarrow> (string \<Rightarrow> string) \<Rightarrow> (nat \<Rightarrow> 'r \<Rightarrow> 'r) \<Rightarrow> string \<Rightarrow> string \<Rightarrow> int \<Rightarrow> int \<Rightarrow> redis_queue \<Rightarrow> 'r \<Rightarrow>
     (queue_error, run_claim) result \<times> 'r" where
  "claim_run c sha interfere token key lease retention q r =
     (if key = [] \<or> length key > 256 then (Inl (QueueValueError ''run idempotency key is invalid''), r)
      else if lease \<le> 0 \<or> lease > 86400 then (Inl (QueueValueError ''run lease is invalid''), r)
      else if retention \<le> 0 \<or> retention > 7 * 86400
      then (Inl (QueueValueError ''run completion retention is invalid''), r)
      else
        let state_key = run_state_key sha q key in
        (case rc_get c state_key r of
           (Inl _, r1) \<Rightarrow> (Inl (QueueError ''Redis run claim failed''), r1)
         | (Inr (Some v), r1) \<Rightarrow> (Inr (claim_reply (Some v)), r1)
         | (Inr None, r1) \<Rightarrow>
             (case rc_set_nx c state_key (running_value token) lease (interfere 0 r1) of
                (Inl _, r2) \<Rightarrow> (Inl (QueueError ''Redis run claim failed''), r2)
              | (Inr True, r2) \<Rightarrow> (Inr \<lparr>cl_status = Claimed, cl_token = Some token\<rparr>, r2)
              | (Inr False, r2) \<Rightarrow>
                  (case rc_get c state_key (interfere 1 r2) of
                     (Inl _, r3) \<Rightarrow> (Inl (QueueError ''Redis run claim failed''), r3)
                   | (Inr v, r3) \<Rightarrow> (Inr (claim_reply v), r3)))))"

definition complete_script :: string where
  "complete_script =
     ''if redis.call('' @ [CHR 39] @ ''get'' @ [CHR 39] @ '', KEYS[1]) == ARGV[1] then redis.call('' @
     [CHR 39] @ ''set'' @ [CHR 39] @ '', KEYS[1], '' @ [CHR 39] @ ''completed'' @ [CHR 39] @ '', '' @
     [CHR 39] @ ''EX'' @ [CHR 39] @ '', ARGV[2]); return 1; end; return 0''"

definition complete_run ::
    "'r redis_client \<Rightarrow> (string \<Rightarrow> string) \<Rightarrow> string \<Rightarrow> string \<Rightarrow> int \<Rightarrow> redis_queue \<Rightarrow> 'r \<Rightarrow> (queue_error, unit) result \<times> 'r" where
  "complete_run c sha key token retention q r =
     (if key = [] \<or> length key > 256 then (Inl (QueueValueError ''run idempotency key is invalid''), r)
      else if token = [] \<or> length token > 128 then (Inl (QueueValueError ''run claim token is invalid''), r)
      else if retention \<le> 0 \<or> retention > 7 * 86400
      then (Inl (QueueValueError ''run completion retention is invalid''), r)
      else (case rc_eval c complete_script (run_state_key sha q key) (running_value token) retention r of
          (Inl _, r1) \<Rightarrow> (Inl (QueueError ''Redis run completion failed''), r1)
        | (Inr v, r1) \<Rightarrow>
            if scalar_eq v (VInt 1) then (Inr (), r1)
            else (Inl (QueueError ''Redis run claim was lost before completion''), r1)))"

section \<open>The queue contract\<close>

text \<open>
  What a producer and a consumer of the protocol class \<^verbatim>\<open>JobQueue\<close> may rely on without a broker: jobs
  come out in the order they went in, each once.
\<close>

locale fifo_queue =
  fixes put :: "'a \<Rightarrow> 'q \<Rightarrow> job \<times> 'q" and take_one :: "'q \<Rightarrow> job option \<times> 'q" and pending :: "'q \<Rightarrow> job list"
  assumes pending_put: "pending (snd (put x q)) = pending q @ [fst (put x q)]"
    and put_job: "fst (put x q) = fst (put x q')"
    and take_empty: "pending q = [] \<Longrightarrow> take_one q = (None, q)"
    and take_first: "pending q = j # js \<Longrightarrow> \<exists>q'. take_one q = (Some j, q') \<and> pending q' = js"
begin

fun drain :: "nat \<Rightarrow> 'q \<Rightarrow> job list \<times> 'q" where
  "drain 0 q = ([], q)"
| "drain (Suc n) q = (case take_one q of (None, q') \<Rightarrow> ([], q')
     | (Some j, q') \<Rightarrow> (case drain n q' of (js, q'') \<Rightarrow> (j # js, q'')))"

lemma drain_pending: "fst (drain n q) = take n (pending q) \<and> pending (snd (drain n q)) = drop n (pending q)"
proof (induction n arbitrary: q)
  case (Suc n)
  show ?case
  proof (cases "pending q")
    case Nil
    then show ?thesis using take_empty by simp
  next
    case (Cons j js)
    then obtain q' where "take_one q = (Some j, q')" "pending q' = js" using take_first by blast
    then show ?thesis using Suc.IH [of q'] Cons by (auto split: prod.splits)
  qed
qed simp

lemma pending_puts: "pending (foldl (\<lambda>q x. snd (put x q)) q xs) = pending q @ map (\<lambda>x. fst (put x q0)) xs"
  by (induction xs arbitrary: q) (simp_all add: pending_put, metis put_job)

lemma fifo: "pending q = [] \<Longrightarrow>
    fst (drain (length xs) (foldl (\<lambda>q x. snd (put x q)) q xs)) = map (\<lambda>x. fst (put x q)) xs"
  by (simp add: drain_pending pending_puts [of _ _ q])

end

interpretation mem_jobs: fifo_queue "\<lambda>(uid, now, payload). memory_enqueue uid now payload" memory_receive "\<lambda>q. q"
  by unfold_locales (auto simp: memory_enqueue_def memory_receive_def Let_def split: list.splits)

section \<open>The meaning of the Redis commands\<close>

definition set_nx_ok :: "(string \<Rightarrow> string option) \<Rightarrow> string \<Rightarrow> string \<Rightarrow> (string, bool) result \<Rightarrow> (string \<Rightarrow> string option) \<Rightarrow> bool" where
  "set_nx_ok m k v reply m' \<longleftrightarrow>
     (case reply of
        Inr True \<Rightarrow> m k = None \<and> m' = m(k \<mapsto> v)
      | Inr False \<Rightarrow> m k \<noteq> None \<and> m' = m
      | Inl _ \<Rightarrow> m' = m \<or> (m k = None \<and> m' = m(k \<mapsto> v)))"

definition complete_ok :: "(string \<Rightarrow> string option) \<Rightarrow> string \<Rightarrow> string \<Rightarrow> (string, pyval) result \<Rightarrow> (string \<Rightarrow> string option) \<Rightarrow> bool" where
  "complete_ok m k v reply m' \<longleftrightarrow>
     (case reply of
        Inr x \<Rightarrow> if m k = Some v then x = VInt 1 \<and> m' = m(k \<mapsto> ''completed'') else x = VInt 0 \<and> m' = m
      | Inl _ \<Rightarrow> m' = m \<or> (m k = Some v \<and> m' = m(k \<mapsto> ''completed'')))"

definition get_law :: "'r redis_client \<Rightarrow> ('r \<Rightarrow> string \<Rightarrow> string option) \<Rightarrow> bool" where
  "get_law c kv \<longleftrightarrow> (\<forall>k r. kv (snd (rc_get c k r)) = kv r \<and> (\<forall>v. fst (rc_get c k r) = Inr v \<longrightarrow> v = kv r k))"

definition set_nx_law :: "'r redis_client \<Rightarrow> ('r \<Rightarrow> string \<Rightarrow> string option) \<Rightarrow> bool" where
  "set_nx_law c kv \<longleftrightarrow> (\<forall>k v n r. set_nx_ok (kv r) k v (fst (rc_set_nx c k v n r)) (kv (snd (rc_set_nx c k v n r))))"

definition complete_law :: "'r redis_client \<Rightarrow> ('r \<Rightarrow> string \<Rightarrow> string option) \<Rightarrow> bool" where
  "complete_law c kv \<longleftrightarrow> (\<forall>k v n r.
     complete_ok (kv r) k v (fst (rc_eval c complete_script k v n r)) (kv (snd (rc_eval c complete_script k v n r))))"

definition delete_law :: "'r redis_client \<Rightarrow> ('r \<Rightarrow> string \<Rightarrow> string option) \<Rightarrow> bool" where
  "delete_law c kv \<longleftrightarrow> (\<forall>k r. kv (snd (rc_delete c k r)) = (kv r)(k := None) \<or>
     ((\<exists>e. fst (rc_delete c k r) = Inl e) \<and> kv (snd (rc_delete c k r)) = kv r))"

definition stream_law :: "'r redis_client \<Rightarrow> ('r \<Rightarrow> string \<Rightarrow> string option) \<Rightarrow> bool" where
  "stream_law c kv \<longleftrightarrow> (\<forall>a b r. kv (snd (rc_xgroup_create c a b r)) = kv r) \<and>
     (\<forall>a b r. kv (snd (rc_xadd c a b r)) = kv r) \<and> (\<forall>a b d r. kv (snd (rc_xack c a b d r)) = kv r)"

definition redis_keys :: "'r redis_client \<Rightarrow> ('r \<Rightarrow> string \<Rightarrow> string option) \<Rightarrow> bool" where
  "redis_keys c kv \<longleftrightarrow> get_law c kv \<and> set_nx_law c kv \<and> complete_law c kv \<and> delete_law c kv \<and> stream_law c kv"

lemma redis_get:
  assumes "redis_keys c kv" "rc_get c k r = (reply, r')"
  shows "kv r' = kv r" "reply = Inr v \<Longrightarrow> v = kv r k"
  using assms unfolding redis_keys_def get_law_def by (metis fst_conv snd_conv)+

lemma redis_set_nx: "redis_keys c kv \<Longrightarrow> rc_set_nx c k v n r = (reply, r') \<Longrightarrow> set_nx_ok (kv r) k v reply (kv r')"
  unfolding redis_keys_def set_nx_law_def by (metis fst_conv snd_conv)

lemma redis_complete:
  "redis_keys c kv \<Longrightarrow> rc_eval c complete_script k v n r = (reply, r') \<Longrightarrow> complete_ok (kv r) k v reply (kv r')"
  unfolding redis_keys_def complete_law_def by (metis fst_conv snd_conv)

lemma running_inject [simp]: "running_value a = running_value b \<longleftrightarrow> a = b" "running_value a \<noteq> ''completed''"
  "''completed'' \<noteq> running_value a"
  by (simp_all add: running_value_def)

text \<open>What one claim does to the keys, when nobody interferes between its commands.\<close>

lemma claim_run_effect:
  assumes "redis_keys c kv" "claim_run c sha (\<lambda>_ r. r) token key lease retention q r = (res, r')"
  shows "kv r' = kv r \<or> (kv r (run_state_key sha q key) = None \<and>
           kv r' = (kv r)(run_state_key sha q key \<mapsto> running_value token))"
    and "res = Inr cl \<Longrightarrow> cl_status cl = Claimed \<Longrightarrow> kv r (run_state_key sha q key) = None \<and>
           kv r' = (kv r)(run_state_key sha q key \<mapsto> running_value token) \<and> cl_token cl = Some token"
    and "res = Inr cl \<Longrightarrow> cl_status cl = Completed \<Longrightarrow> kv r (run_state_key sha q key) = Some ''completed'' \<and> kv r' = kv r"
    and "res = Inr cl \<Longrightarrow> kv r (run_state_key sha q key) = None \<Longrightarrow> cl_status cl = Claimed"
proof -
  let ?k = "run_state_key sha q key"
  obtain g1 r1 where g1: "rc_get c ?k r = (g1, r1)" by fastforce
  obtain w r2 where w: "rc_set_nx c ?k (running_value token) lease r1 = (w, r2)" by fastforce
  obtain g2 r3 where g2: "rc_get c ?k r2 = (g2, r3)" by fastforce
  have k1: "kv r1 = kv r" "\<And>v. g1 = Inr v \<Longrightarrow> v = kv r ?k" using redis_get [OF assms(1) g1] by blast+
  have k2: "set_nx_ok (kv r) ?k (running_value token) w (kv r2)" using redis_set_nx [OF assms(1) w] k1(1) by simp
  have k3: "kv r3 = kv r2" "\<And>v. g2 = Inr v \<Longrightarrow> v = kv r2 ?k" using redis_get [OF assms(1) g2] by blast+
  note defs = claim_run_def Let_def g1 w g2 set_nx_ok_def claim_reply_def
  show "kv r' = kv r \<or> (kv r ?k = None \<and> kv r' = (kv r)(?k \<mapsto> running_value token))"
    using assms(2) k1 k2 k3 by (auto simp: defs split: if_splits sum.splits option.splits bool.splits)
  show "kv r ?k = None \<and> kv r' = (kv r)(?k \<mapsto> running_value token) \<and> cl_token cl = Some token"
    if "res = Inr cl" "cl_status cl = Claimed"
    using assms(2) that k1 k2 k3 by (auto simp: defs split: if_splits sum.splits option.splits bool.splits)
  show "cl_status cl = Claimed" if "res = Inr cl" "kv r ?k = None"
    using assms(2) that k1 k2 k3 by (auto simp: defs split: if_splits sum.splits option.splits bool.splits)
  show "kv r ?k = Some ''completed'' \<and> kv r' = kv r" if "res = Inr cl" "cl_status cl = Completed"
    using assms(2) that k1 k2 k3 by (auto simp: defs split: if_splits sum.splits option.splits bool.splits)
qed

lemma complete_run_effect:
  assumes "redis_keys c kv" "complete_run c sha key token retention q r = (res, r')"
  shows "kv r' = kv r \<or> (kv r (run_state_key sha q key) = Some (running_value token) \<and>
           kv r' = (kv r)(run_state_key sha q key \<mapsto> ''completed''))"
    and "res = Inr () \<Longrightarrow> kv r (run_state_key sha q key) = Some (running_value token) \<and>
           kv r' = (kv r)(run_state_key sha q key \<mapsto> ''completed'')"
proof -
  let ?k = "run_state_key sha q key"
  obtain e r1 where e: "rc_eval c complete_script ?k (running_value token) retention r = (e, r1)" by fastforce
  note k = redis_complete [OF assms(1) e]
  show "kv r' = kv r \<or> (kv r ?k = Some (running_value token) \<and> kv r' = (kv r)(?k \<mapsto> ''completed''))"
    using assms(2) k by (auto simp: complete_run_def e complete_ok_def split: if_splits sum.splits)
  show "kv r ?k = Some (running_value token) \<and> kv r' = (kv r)(?k \<mapsto> ''completed'')" if "res = Inr ()"
    using assms(2) that k by (auto simp: complete_run_def e complete_ok_def split: if_splits sum.splits)
qed

section \<open>Workers that share a queue\<close>

text \<open>
  A log of what the workers did: the claims they were granted, the completions that succeeded (newest
  first), every token that was ever drawn and the state keys that the server ever dropped.
\<close>

record 'r claim_world =
  cw_server :: 'r
  cw_used :: "string set"
  cw_held :: "(string \<times> string) set"
  cw_done :: "(string \<times> string) list"
  cw_dropped :: "string set"

definition granted :: "(queue_error, run_claim) result \<Rightarrow> bool" where
  "granted res \<longleftrightarrow> (case res of Inr cl \<Rightarrow> cl_status cl = Claimed | Inl _ \<Rightarrow> False)"

inductive claim_step ::
    "'r redis_client \<Rightarrow> ('r \<Rightarrow> string \<Rightarrow> string option) \<Rightarrow> (string \<Rightarrow> string) \<Rightarrow> redis_queue \<Rightarrow>
     'r claim_world \<Rightarrow> 'r claim_world \<Rightarrow> bool"
  for c :: "'r redis_client" and kv sha q where
  Claim: "token \<notin> cw_used w \<Longrightarrow>
     claim_run c sha (\<lambda>_ r. r) token key lease retention q (cw_server w) = (res, r') \<Longrightarrow>
     claim_step c kv sha q w (w\<lparr>cw_server := r', cw_used := insert token (cw_used w),
       cw_held := (if granted res then insert (key, token) (cw_held w) else cw_held w)\<rparr>)"
| Complete: "(key0, token) \<in> cw_held w \<Longrightarrow>
     complete_run c sha key token retention q (cw_server w) = (res, r') \<Longrightarrow>
     claim_step c kv sha q w (w\<lparr>cw_server := r',
       cw_done := (if res = Inr () then (key, token) # cw_done w else cw_done w)\<rparr>)"
| Expire: "kv r' = (kv (cw_server w))(k := None) \<Longrightarrow>
     claim_step c kv sha q w (w\<lparr>cw_server := r', cw_dropped := insert k (cw_dropped w)\<rparr>)"
| Other: "kv r' = kv (cw_server w) \<Longrightarrow> claim_step c kv sha q w (w\<lparr>cw_server := r'\<rparr>)"

inductive_cases claim_stepE: "claim_step c kv sha q w w'"

definition claim_start :: "('r \<Rightarrow> string \<Rightarrow> string option) \<Rightarrow> 'r claim_world \<Rightarrow> bool" where
  "claim_start kv w \<longleftrightarrow> cw_held w = {} \<and> cw_done w = [] \<and>
     (\<forall>t x. kv (cw_server w) x = Some (running_value t) \<longrightarrow> t \<in> cw_used w)"

text \<open>
  The invariant, for the state keys that were never dropped: a granted claim's key holds the claim's
  token or the completion marker, no two claims share a key, a token is held for one key only, and a
  completion left the marker and is the only one of its key.
\<close>

definition held_inv ::
    "(string \<Rightarrow> string) \<Rightarrow> (string \<Rightarrow> string option) \<Rightarrow> string set \<Rightarrow> (string \<times> string) set \<Rightarrow> string set \<Rightarrow> bool" where
  "held_inv K m used held dropped \<longleftrightarrow>
     (\<forall>k t. (k, t) \<in> held \<longrightarrow> t \<in> used) \<and> (\<forall>t x. m x = Some (running_value t) \<longrightarrow> t \<in> used) \<and>
     (\<forall>k t x. (k, t) \<in> held \<and> m x = Some (running_value t) \<longrightarrow> x = K k) \<and>
     (\<forall>k t. (k, t) \<in> held \<and> K k \<notin> dropped \<longrightarrow> m (K k) = Some (running_value t) \<or> m (K k) = Some ''completed'') \<and>
     (\<forall>k1 k2 t1 t2. (k1, t1) \<in> held \<and> (k2, t2) \<in> held \<and> K k1 = K k2 \<and> K k1 \<notin> dropped \<longrightarrow> t1 = t2)"

definition done_inv ::
    "(string \<Rightarrow> string) \<Rightarrow> (string \<Rightarrow> string option) \<Rightarrow> (string \<times> string) set \<Rightarrow> (string \<times> string) list \<Rightarrow> string set \<Rightarrow> bool" where
  "done_inv K m held done dropped \<longleftrightarrow>
     (\<forall>k t. (k, t) \<in> set done \<longrightarrow> (\<exists>k0. (k0, t) \<in> held \<and> K k0 = K k)) \<and>
     (\<forall>k t. (k, t) \<in> set done \<and> K k \<notin> dropped \<longrightarrow> m (K k) = Some ''completed'') \<and>
     (\<forall>x. x \<notin> dropped \<longrightarrow> length (filter (\<lambda>(k, t). K k = x) done) \<le> 1)"

definition claim_inv ::
    "('r \<Rightarrow> string \<Rightarrow> string option) \<Rightarrow> (string \<Rightarrow> string) \<Rightarrow> redis_queue \<Rightarrow> 'r claim_world \<Rightarrow> bool" where
  "claim_inv kv sha q w \<longleftrightarrow>
     held_inv (run_state_key sha q) (kv (cw_server w)) (cw_used w) (cw_held w) (cw_dropped w) \<and>
     done_inv (run_state_key sha q) (kv (cw_server w)) (cw_held w) (cw_done w) (cw_dropped w)"

lemma held_invI:
  assumes "\<And>k t. (k, t) \<in> held \<Longrightarrow> t \<in> used"
    and "\<And>k t x. (k, t) \<in> held \<Longrightarrow> m x = Some (running_value t) \<Longrightarrow> x = K k"
    and "\<And>k t. (k, t) \<in> held \<Longrightarrow> K k \<notin> dropped \<Longrightarrow> m (K k) = Some (running_value t) \<or> m (K k) = Some ''completed''"
    and "\<And>k1 k2 t1 t2. (k1, t1) \<in> held \<Longrightarrow> (k2, t2) \<in> held \<Longrightarrow> K k1 = K k2 \<Longrightarrow> K k1 \<notin> dropped \<Longrightarrow> t1 = t2"
    and "\<And>t x. m x = Some (running_value t) \<Longrightarrow> t \<in> used"
  shows "held_inv K m used held dropped"
  unfolding held_inv_def using assms by blast

lemma held_invD:
  assumes "held_inv K m used held dropped"
  shows "(k, t) \<in> held \<Longrightarrow> t \<in> used"
    "(k, t) \<in> held \<Longrightarrow> m x = Some (running_value t) \<Longrightarrow> x = K k"
    "(k, t) \<in> held \<Longrightarrow> K k \<notin> dropped \<Longrightarrow> m (K k) = Some (running_value t) \<or> m (K k) = Some ''completed''"
    "(k1, t1) \<in> held \<Longrightarrow> (k2, t2) \<in> held \<Longrightarrow> K k1 = K k2 \<Longrightarrow> K k1 \<notin> dropped \<Longrightarrow> t1 = t2"
    "m x = Some (running_value t) \<Longrightarrow> t \<in> used"
  using assms unfolding held_inv_def by metis+

lemma held_inv_subset: "held_inv K m used held dropped \<Longrightarrow> held' \<subseteq> held \<Longrightarrow> held_inv K m used held' dropped"
  unfolding held_inv_def by (intro conjI allI impI; meson subsetD)

lemma held_inv_claim:
  assumes "held_inv K m used held dropped" "t \<notin> used" "m (K k) = None"
  shows "held_inv K (m(K k \<mapsto> running_value t)) (insert t used) (insert (k, t) held) dropped"
    "held_inv K (m(K k \<mapsto> running_value t)) (insert t used) held dropped"
proof -
  note D = held_invD [OF assms(1)]
  have fresh: "t' \<noteq> t" if "(k', t') \<in> held" for k' t' using D(1) [OF that] assms(2) by blast
  have free: "K k' \<noteq> K k" if "(k', t') \<in> held" "K k' \<notin> dropped" for k' t'
    using D(3) [OF that] assms(3) by auto
  show *: "held_inv K (m(K k \<mapsto> running_value t)) (insert t used) (insert (k, t) held) dropped"
  proof (rule held_invI)
    fix k' t' x assume h: "(k', t') \<in> insert (k, t) held" "(m(K k \<mapsto> running_value t)) x = Some (running_value t')"
    show "x = K k'"
    proof (cases "x = K k")
      case True
      then have "t' = t" using h(2) by simp
      then show ?thesis using h(1) fresh True by auto
    next
      case False
      then show ?thesis using h D(2) D(5) assms(2) by auto
    qed
  next
    fix k1 k2 t1 t2
    assume h: "(k1, t1) \<in> insert (k, t) held" "(k2, t2) \<in> insert (k, t) held" "K k1 = K k2" "K k1 \<notin> dropped"
    show "t1 = t2" using h D(4) [of k1 t1 k2 t2] free [of k1 t1] free [of k2 t2] by auto
  next
    fix t' x assume "(m(K k \<mapsto> running_value t)) x = Some (running_value t')"
    then show "t' \<in> insert t used" using D(5) by (auto split: if_splits)
  next
    fix k' t' assume h: "(k', t') \<in> insert (k, t) held" "K k' \<notin> dropped"
    show "(m(K k \<mapsto> running_value t)) (K k') = Some (running_value t') \<or>
        (m(K k \<mapsto> running_value t)) (K k') = Some ''completed''"
      using h free [of k' t'] D(3) [of k' t'] by auto
  next
    fix k' t' assume "(k', t') \<in> insert (k, t) held"
    then show "t' \<in> insert t used" using D(1) by auto
  qed
  show "held_inv K (m(K k \<mapsto> running_value t)) (insert t used) held dropped"
    using * by (rule held_inv_subset) blast
qed

lemma held_inv_complete:
  assumes "held_inv K m used held dropped" "(k0, t) \<in> held" "m (K k) = Some (running_value t)"
  shows "held_inv K (m(K k \<mapsto> ''completed'')) used held dropped" "K k0 = K k"
proof -
  note D = held_invD [OF assms(1)]
  show "K k0 = K k" using D(2) [OF assms(2,3)] by simp
  show "held_inv K (m(K k \<mapsto> ''completed'')) used held dropped"
  proof (rule held_invI)
    fix k' t' x assume h: "(k', t') \<in> held" "(m(K k \<mapsto> ''completed'')) x = Some (running_value t')"
    then have "x \<noteq> K k" using running_inject(2) [of t'] by auto
    then show "x = K k'" using D(2) h by auto
  next
    fix t' x assume h: "(m(K k \<mapsto> ''completed'')) x = Some (running_value t')"
    then have "x \<noteq> K k" using running_inject(2) [of t'] by auto
    then show "t' \<in> used" using D(5) h by auto
  next
    fix k' t' assume h: "(k', t') \<in> held" "K k' \<notin> dropped"
    show "(m(K k \<mapsto> ''completed'')) (K k') = Some (running_value t') \<or> (m(K k \<mapsto> ''completed'')) (K k') = Some ''completed''"
      using D(3) [OF h] by auto
  next
    fix k1 k2 t1 t2 assume "(k1, t1) \<in> held" "(k2, t2) \<in> held" "K k1 = K k2" "K k1 \<notin> dropped"
    then show "t1 = t2" by (rule D(4))
  qed (rule D(1))
qed

lemma held_inv_drop:
  assumes "held_inv K m used held dropped"
  shows "held_inv K (m(x := None)) used held (insert x dropped)"
proof (rule held_invI)
  note D = held_invD [OF assms]
  fix k t assume h: "(k, t) \<in> held"
  then show "t \<in> used" by (rule D(1))
  show "y = K k" if "(m(x := None)) y = Some (running_value t)" for y
    using that D(2) [OF h, of y] by (auto split: if_splits)
  show "(m(x := None)) (K k) = Some (running_value t) \<or> (m(x := None)) (K k) = Some ''completed''"
    if "K k \<notin> insert x dropped" using that D(3) [OF h] by auto
  show "t = t2" if "(k2, t2) \<in> held" "K k = K k2" "K k \<notin> insert x dropped" for k2 t2
    using D(4) [OF h that(1,2)] that(3) by blast
next
  fix t y assume "(m(x := None)) y = Some (running_value t)"
  then show "t \<in> used" using held_invD(5) [OF assms, of y t] by (auto split: if_splits)
qed

lemma done_inv_mono:
  assumes "done_inv K m held done dropped" "held \<subseteq> held'"
    and "\<And>x. m x = Some ''completed'' \<Longrightarrow> m' x = Some ''completed''"
  shows "done_inv K m' held' done dropped"
  using assms unfolding done_inv_def by blast

lemma done_inv_drop:
  assumes "done_inv K m held done dropped"
  shows "done_inv K (m(x := None)) held done (insert x dropped)"
  using assms unfolding done_inv_def by auto

lemma done_inv_complete:
  assumes "done_inv K m held done dropped" "(k0, t) \<in> held" "K k0 = K k" "m (K k) = Some (running_value t)"
  shows "done_inv K (m(K k \<mapsto> ''completed'')) held ((k, t) # done) dropped"
proof -
  have "m (K k) \<noteq> Some ''completed''" using assms(4) running_inject(2) [of t] by simp
  then have none: "\<forall>(k', t') \<in> set done. K k' \<noteq> K k" if "K k \<notin> dropped"
    using assms(1) that unfolding done_inv_def by force
  have "length (filter (\<lambda>(k', t'). K k' = K k) done) = 0" if "K k \<notin> dropped"
    using none [OF that] by (auto simp: filter_empty_conv)
  then show ?thesis using assms(1-3) unfolding done_inv_def by auto
qed

lemma claim_step_inv:
  assumes "redis_keys c kv" "claim_step c kv sha q w w'" "claim_inv kv sha q w"
  shows "claim_inv kv sha q w'"
  using assms(2)
proof cases
  case (Claim token key lease retention res r')
  let ?K = "run_state_key sha q" and ?m = "kv (cw_server w)"
  note h = assms(3) [unfolded claim_inv_def, THEN conjunct1] and d = assms(3) [unfolded claim_inv_def, THEN conjunct2]
  note e = claim_run_effect [OF assms(1) Claim(3)]
  have used: "held_inv ?K ?m (insert token (cw_used w)) (cw_held w) (cw_dropped w)"
    using h unfolding held_inv_def by blast
  have lost: "held_inv ?K (kv r') (insert token (cw_used w)) (cw_held w) (cw_dropped w) \<and>
      done_inv ?K (kv r') (cw_held w) (cw_done w) (cw_dropped w)"
  proof (cases "kv r' = ?m")
    case True
    then show ?thesis using used d by simp
  next
    case False
    then have m: "?m (?K key) = None" "kv r' = ?m(?K key \<mapsto> running_value token)" using e(1) by auto
    have "done_inv ?K (kv r') (cw_held w) (cw_done w) (cw_dropped w)"
      by (rule done_inv_mono [OF d order_refl]) (use m in auto)
    then show ?thesis using held_inv_claim(2) [OF h Claim(2) m(1)] m(2) by simp
  qed
  show ?thesis
  proof (cases "granted res")
    case True
    then obtain cl where "res = Inr cl" "cl_status cl = Claimed" by (auto simp: granted_def split: sum.splits)
    then have m: "?m (?K key) = None" "kv r' = ?m(?K key \<mapsto> running_value token)" using e(2) by auto
    have "done_inv ?K (kv r') (insert (key, token) (cw_held w)) (cw_done w) (cw_dropped w)"
      by (rule done_inv_mono [OF d]) (use m in auto)
    then show ?thesis
      using held_inv_claim(1) [OF h Claim(2) m(1)] m(2) True by (simp add: claim_inv_def Claim(1))
  qed (use lost in \<open>simp add: claim_inv_def Claim(1)\<close>)
next
  case (Complete key0 token key retention res r')
  let ?K = "run_state_key sha q" and ?m = "kv (cw_server w)"
  note h = assms(3) [unfolded claim_inv_def, THEN conjunct1] and d = assms(3) [unfolded claim_inv_def, THEN conjunct2]
  note e = complete_run_effect [OF assms(1) Complete(3)]
  show ?thesis
  proof (cases "kv r' = ?m \<and> res \<noteq> Inr ()")
    case True
    then show ?thesis using assms(3) by (simp add: claim_inv_def Complete(1))
  next
    case False
    then have m: "?m (?K key) = Some (running_value token)" "kv r' = ?m(?K key \<mapsto> ''completed'')"
      using e by auto
    have "held_inv ?K (kv r') (cw_used w) (cw_held w) (cw_dropped w)"
      "done_inv ?K (kv r') (cw_held w) ((key, token) # cw_done w) (cw_dropped w)"
      using held_inv_complete [OF h Complete(2) m(1)] done_inv_complete [OF d Complete(2) _ m(1)] m(2) by simp_all
    moreover have "done_inv ?K (kv r') (cw_held w) (cw_done w) (cw_dropped w)"
      by (rule done_inv_mono [OF d order_refl]) (use m in auto)
    ultimately show ?thesis by (simp add: claim_inv_def Complete(1))
  qed
next
  case (Expire r' k)
  then show ?thesis using assms(3) held_inv_drop done_inv_drop by (simp add: claim_inv_def)
next
  case (Other r')
  then show ?thesis using assms(3) by (simp add: claim_inv_def)
qed

lemma claim_start_inv: "claim_start kv w \<Longrightarrow> claim_inv kv sha q w"
  by (auto simp: claim_start_def claim_inv_def held_inv_def done_inv_def)

lemma claim_steps_inv:
  assumes "redis_keys c kv" "(claim_step c kv sha q)\<^sup>*\<^sup>* w w'" "claim_inv kv sha q w"
  shows "claim_inv kv sha q w'"
  using assms(2,3) by (induction rule: rtranclp_induct) (auto intro: claim_step_inv [OF assms(1)])

section \<open>Properties\<close>


text \<open>A Redis server with keys only, for the witnesses.\<close>

definition toy_redis :: "(string, string) dict redis_client" where
  "toy_redis =
     \<lparr>rc_get = (\<lambda>k r. (Inr (map_of r k), r)),
      rc_set_nx = (\<lambda>k v n r. case map_of r k of None \<Rightarrow> (Inr True, AList.update k v r) | Some _ \<Rightarrow> (Inr False, r)),
      rc_delete = (\<lambda>k r. (Inr (), AList.delete k r)),
      rc_eval = (\<lambda>script k v n r. if map_of r k = Some v then (Inr (VInt 1), AList.update k ''completed'' r) else (Inr (VInt 0), r)),
      rc_xgroup_create = (\<lambda>a b r. (Inr (), r)), rc_xadd = (\<lambda>a b r. (Inr ''1-0'', r)),
      rc_xautoclaim = (\<lambda>a b d n r. (Inr (VList []), r)), rc_xreadgroup = (\<lambda>a b d n r. (Inr (VList []), r)),
      rc_xack = (\<lambda>a b d r. (Inr (), r))\<rparr>"

lemma toy_redis_keys: "redis_keys toy_redis map_of"
  by (auto simp: redis_keys_def get_law_def set_nx_law_def complete_law_def delete_law_def stream_law_def
      toy_redis_def set_nx_ok_def complete_ok_def split: option.splits)

definition toy_queue :: redis_queue where
  "toy_queue = \<lparr>rq_stream = ''agent:jobs'', rq_group = ''agent-workers'', rq_consumer = ''w'',
     rq_claim_after_seconds = 60, rq_group_ready = True\<rparr>"

definition toy_start :: "(string, string) dict claim_world" where
  "toy_start = \<lparr>cw_server = [], cw_used = {}, cw_held = {}, cw_done = [], cw_dropped = {}\<rparr>"

definition toy_claimed :: "(string, string) dict claim_world" where
  "toy_claimed = \<lparr>cw_server = [(''agent:jobs:runs:k'', ''running:t1'')], cw_used = {''t1''},
     cw_held = {(''k'', ''t1'')}, cw_done = [], cw_dropped = {}\<rparr>"

lemma toy_claim: "claim_step toy_redis map_of id toy_queue toy_start toy_claimed"
proof -
  have "claim_run toy_redis id (\<lambda>_ r. r) ''t1'' ''k'' 60 86400 toy_queue [] =
      (Inr \<lparr>cl_status = Claimed, cl_token = Some ''t1''\<rparr>, [(''agent:jobs:runs:k'', ''running:t1'')])"
    by code_simp
  then show ?thesis
    using claim_step.Claim [of "''t1''" toy_start toy_redis id "''k''" 60 86400 toy_queue
        "Inr \<lparr>cl_status = Claimed, cl_token = Some ''t1''\<rparr>" "[(''agent:jobs:runs:k'', ''running:t1'')]" map_of]
    by (simp add: toy_start_def toy_claimed_def granted_def)
qed


text \<open>
  A claim is decided by its SET NX alone: whatever others do between the commands of the call, a granted
  claim found the key absent and wrote the token in one command.
\<close>

lemma claim_run_interference:
  assumes "redis_keys c kv" "claim_run c sha interfere token key lease retention q r = (Inr cl, r')" "cl_status cl = Claimed"
  shows "\<exists>r1. kv r1 (run_state_key sha q key) = None \<and> kv r' = (kv r1)(run_state_key sha q key \<mapsto> running_value token)"
proof -
  let ?k = "run_state_key sha q key"
  obtain g1 r1 where g1: "rc_get c ?k r = (g1, r1)" by fastforce
  obtain w r2 where w: "rc_set_nx c ?k (running_value token) lease (interfere 0 r1) = (w, r2)" by fastforce
  obtain g2 r3 where g2: "rc_get c ?k (interfere 1 r2) = (g2, r3)" by fastforce
  note k = redis_set_nx [OF assms(1) w]
  have "w = Inr True \<and> r' = r2"
    using assms(2,3) by (auto simp: claim_run_def Let_def g1 w g2 [unfolded One_nat_def] claim_reply_def
        split: if_splits sum.splits option.splits bool.splits)
  then show ?thesis using k by (auto simp: set_nx_ok_def)
qed

lemma ensure_group_keys: "redis_keys c kv \<Longrightarrow> ensure_group c q r = (res, q', r') \<Longrightarrow> kv r' = kv r"
  unfolding redis_keys_def stream_law_def ensure_group_def
  by (auto split: if_splits prod.splits sum.splits) (metis snd_conv)+

lemma enqueue_keys: "redis_keys c kv \<Longrightarrow> enqueue c fr uid t1 t2 payload q r = (res, q', r') \<Longrightarrow> kv r' = kv r"
proof -
  assume c: "redis_keys c kv" and e: "enqueue c fr uid t1 t2 payload q r = (res, q', r')"
  obtain g q1 r1 where g: "ensure_group c q r = (g, q1, r1)" by (metis prod_cases3)
  obtain x r2 where x: "rc_xadd c (rq_stream q1)
      [(''job_id'', uid), (''payload'', encoded_payload fr payload), (''enqueued_at'', t1)] r1 = (x, r2)" by fastforce
  have "kv r2 = kv r1" using c x unfolding redis_keys_def stream_law_def by (metis snd_conv)
  moreover have "kv r1 = kv r" by (rule ensure_group_keys [OF c g])
  ultimately show ?thesis using e g x by (auto simp: enqueue_def Let_def split: if_splits sum.splits)
qed

text \<open>
  A schedule slot is enqueued once: after a call that enqueued it, every further call with the same key
  while the marker lives returns nothing and leaves the server's keys alone. A call that fails to enqueue
  releases the marker again, unless the server could not be reached.\<close>

lemma enqueue_once_dedupes:
  assumes "redis_keys c kv" "key \<noteq> []" "length key \<le> 256" "0 < retention" "retention \<le> 365 * 86400"
    and "enqueue_once c sha fr uid t1 t2 payload key retention q r = (res, q', r')"
  shows "(\<forall>j. res = Inr (Some j) \<longrightarrow> kv r (enqueue_state_key sha q key) = None \<and>
        kv r' = (kv r)(enqueue_state_key sha q key \<mapsto> ''enqueued'')) \<and>
     (kv r (enqueue_state_key sha q key) \<noteq> None \<longrightarrow> kv r' = kv r \<and> (res = Inr None \<or> (\<exists>e. res = Inl e))) \<and>
     (\<forall>e. res = Inl e \<and> e \<noteq> QueueError ''Redis schedule enqueue claim failed'' \<longrightarrow>
        kv r' (enqueue_state_key sha q key) = None)"
proof -
  let ?k = "enqueue_state_key sha q key"
  obtain w r1 where w: "rc_set_nx c ?k ''enqueued'' retention r = (w, r1)" by fastforce
  obtain e q2 r2 where e: "enqueue c fr uid t1 t2 payload q r1 = (e, q2, r2)" by (metis prod_cases3)
  obtain x r3 where x: "rc_delete c ?k r2 = (x, r3)" by fastforce
  have k1: "set_nx_ok (kv r) ?k ''enqueued'' w (kv r1)" by (rule redis_set_nx [OF assms(1) w])
  have k2: "kv r2 = kv r1" by (rule enqueue_keys [OF assms(1) e])
  have k3: "kv r3 = (kv r2)(?k := None) \<or> ((\<exists>m. x = Inl m) \<and> kv r3 = kv r2)"
    using assms(1) x unfolding redis_keys_def delete_law_def by (metis fst_conv snd_conv)
  have call: "(res, q', r') = (case w of Inl _ \<Rightarrow> (Inl (QueueError ''Redis schedule enqueue claim failed''), q, r1)
      | Inr False \<Rightarrow> (Inr None, q, r1)
      | Inr True \<Rightarrow> (case e of Inr j \<Rightarrow> (Inr (Some j), q2, r2)
          | Inl m \<Rightarrow> (case x of Inl _ \<Rightarrow> (Inl (QueueError ''Redis schedule enqueue claim failed''), q2, r3)
              | Inr _ \<Rightarrow> (Inl m, q2, r3))))"
    using assms(2-6) by (simp add: enqueue_once_def w e x split: sum.splits bool.splits)
  consider (fail) m where "w = Inl m" | (dup) "w = Inr False" | (new) "w = Inr True" by (metis (full_types) sum.exhaust)
  then show ?thesis
  proof cases
    case fail
    then show ?thesis using call k1 by (auto simp: set_nx_ok_def)
  next
    case dup
    then show ?thesis using call k1 by (auto simp: set_nx_ok_def)
  next
    case new
    then have m: "kv r ?k = None" "kv r1 = (kv r)(?k \<mapsto> ''enqueued'')" using k1 by (auto simp: set_nx_ok_def)
    then show ?thesis using call new k2 k3 by (auto split: sum.splits)
  qed
qed

lemma enqueue_once_dedupes_witness:
  "\<exists>j r'. enqueue_once toy_redis id (\<lambda>f. []) ''u'' ''1'' ''2'' [] ''k'' 60 toy_queue [] = (Inr (Some j), toy_queue, r') \<and>
     map_of r' (enqueue_state_key id toy_queue ''k'') = Some ''enqueued''"
proof -
  obtain j r' where e: "enqueue_once toy_redis id (\<lambda>f. []) ''u'' ''1'' ''2'' [] ''k'' 60 toy_queue [] = (Inr (Some j), toy_queue, r')"
    by (rule that [of "\<lparr>jb_id = ''u'', jb_payload = [], jb_enqueued_at = ''2'', jb_receipt = Some ''1-0''\<rparr>"
        "[(''agent:jobs:enqueued:k'', ''enqueued'')]"])
      (simp add: enqueue_once_def enqueue_def Let_def toy_redis_def toy_queue_def enqueue_state_key_def
        encoded_payload_def utf8_length_def ensure_group_def code_def)
  then have "map_of r' = (map_of [])(enqueue_state_key id toy_queue ''k'' \<mapsto> ''enqueued'')"
    using enqueue_once_dedupes [OF toy_redis_keys _ _ _ _ e] by simp
  then show ?thesis using e by simp
qed

text \<open>The stream entry that \<open>enqueue\<close> adds, as the server hands it out again.\<close>

definition stream_entry :: "(pyfloat \<Rightarrow> string) \<Rightarrow> string \<Rightarrow> string \<Rightarrow> pydict \<Rightarrow> string \<Rightarrow> pyval" where
  "stream_entry fr uid t1 payload receipt =
     VList [VStr receipt, VDict (map (map_prod id VStr)
       [(''job_id'', uid), (''payload'', encoded_payload fr payload), (''enqueued_at'', t1)])]"

text \<open>
  Round trip through the stream: the entry that an enqueued job became is decoded to a job with the same
  id, the same payload (its keys in sorted order) and the receipt to acknowledge, provided \<^verbatim>\<open>json.loads\<close>
  reads back what \<^verbatim>\<open>json.dumps\<close> wrote.\<close>

lemma job_round_trip:
  assumes "json_loads (encoded_payload fr payload) = JValue (canon (VDict payload))"
  shows "decode_job json_loads rep (stream_entry fr uid t1 payload receipt) =
     Inr \<lparr>jb_id = uid, jb_payload = canon_dict payload, jb_enqueued_at = t1, jb_receipt = Some receipt\<rparr>"
  using assms by (simp add: decode_job_def stream_entry_def canon_dict_def)

lemma job_round_trip_witness:
  "decode_job (\<lambda>t. if t = encoded_payload (\<lambda>f. []) [(''kind'', VStr ''x'')] then JValue (canon (VDict [(''kind'', VStr ''x'')]))
     else JDecodeError) (\<lambda>v. []) (stream_entry (\<lambda>f. []) ''u'' ''1'' [(''kind'', VStr ''x'')] ''1-0'') =
   Inr \<lparr>jb_id = ''u'', jb_payload = [(''kind'', VStr ''x'')], jb_enqueued_at = ''1'', jb_receipt = Some ''1-0''\<rparr>"
  by (subst job_round_trip) (simp_all add: canon_dict_def)

end
