(* ===== verification/Policy_Engine.thy ===== *)
theory Policy_Engine
  imports Runtime_Models
begin

text \<open>
  The fail-closed authorisation check of \<^verbatim>\<open>packages/agent_runtime/policy.py\<close>. The engine keeps the
  registered tools and the allowlist of each role; \<open>authorize\<close> follows the order of the checks in the
  source: identity, registration, role, risk, approval token.
\<close>

record policy_engine =
  pe_tools :: "(string, tool_definition) dict"
  pe_role_allowlist :: "(string, string set) dict"

definition default_role_allowlist :: "(string, string set) dict" where
  "default_role_allowlist =
     [(''customer'', {''erp.get_order_status''}), (''support'', {''erp.get_order_status''}),
      (''sales'', {''erp.get_order_status''}), (''manager'', {''erp.get_order_status''}),
      (''admin'', {''erp.get_order_status''})]"

text \<open>\<^verbatim>\<open>role_allowlist or {...}\<close>: an empty mapping selects the default as \<^verbatim>\<open>None\<close> does.\<close>

definition policy_engine_init ::
    "(string, tool_definition) dict \<Rightarrow> (string, string set) dict option \<Rightarrow> policy_engine" where
  "policy_engine_init tools allowlist =
     \<lparr>pe_tools = tools,
      pe_role_allowlist = (case allowlist of None \<Rightarrow> default_role_allowlist
        | Some d \<Rightarrow> if d = [] then default_role_allowlist else d)\<rparr>"

definition complete_identity :: "identity_context \<Rightarrow> bool" where
  "complete_identity i \<longleftrightarrow>
     \<not> blank (user_id i) \<and> \<not> blank (workspace_id i) \<and> \<not> blank (tenant_id i) \<and> \<not> blank (role i)"

definition authorize ::
    "policy_engine \<Rightarrow> identity_context \<Rightarrow> string \<Rightarrow> string option \<Rightarrow> policy_decision" where
  "authorize pe identity tool_name approval_token =
     (if \<not> complete_identity identity
      then \<lparr>pd_outcome = ''deny'', pd_reason = ''identity and workspace scope are required'',
            pd_tool_name = tool_name, pd_risk = None\<rparr>
      else case map_of (pe_tools pe) tool_name of
        None \<Rightarrow> \<lparr>pd_outcome = ''deny'', pd_reason = ''tool is not registered'',
                 pd_tool_name = tool_name, pd_risk = None\<rparr>
      | Some d \<Rightarrow>
          (if (case map_of (pe_role_allowlist pe) (role identity) of
                 None \<Rightarrow> True | Some allowed \<Rightarrow> tool_name \<notin> allowed)
           then \<lparr>pd_outcome = ''deny'', pd_reason = ''role is not allowed to use this tool'',
                 pd_tool_name = tool_name, pd_risk = Some (td_risk d)\<rparr>
           else if td_risk d = READ
           then \<lparr>pd_outcome = ''allow'', pd_reason = ''authorized read operation'',
                 pd_tool_name = tool_name, pd_risk = Some (td_risk d)\<rparr>
           else if (case approval_token of None \<Rightarrow> False | Some t \<Rightarrow> t \<noteq> [])
           then \<lparr>pd_outcome = ''allow'', pd_reason = ''approved high-risk operation'',
                 pd_tool_name = tool_name, pd_risk = Some (td_risk d)\<rparr>
           else \<lparr>pd_outcome = ''approval_required'', pd_reason = ''high-risk operation requires approval'',
                 pd_tool_name = tool_name, pd_risk = Some (td_risk d)\<rparr>))"

definition role_allows :: "policy_engine \<Rightarrow> string \<Rightarrow> string \<Rightarrow> bool" where
  "role_allows pe r tool \<longleftrightarrow> (\<exists>allowed. map_of (pe_role_allowlist pe) r = Some allowed \<and> tool \<in> allowed)"

section \<open>Lemmas\<close>

lemma authorize_outcomes:
  "pd_outcome (authorize pe i t tok) \<in> {''allow'', ''deny'', ''approval_required''}"
  by (auto simp: authorize_def split: option.splits)

lemma authorize_tool_name [simp]: "pd_tool_name (authorize pe i t tok) = t"
  by (auto simp: authorize_def split: option.splits)

lemma authorize_allow_cases:
  "pd_outcome (authorize pe i t tok) = ''allow'' \<longleftrightarrow>
     complete_identity i \<and> role_allows pe (role i) t \<and>
     (\<exists>d. map_of (pe_tools pe) t = Some d \<and> (td_risk d = READ \<or> (\<exists>s. tok = Some s \<and> s \<noteq> [])))"
  by (auto simp: authorize_def role_allows_def split: option.splits)

lemma authorize_required_cases:
  "pd_outcome (authorize pe i t tok) = ''approval_required'' \<longleftrightarrow>
     complete_identity i \<and> role_allows pe (role i) t \<and>
     (\<exists>d. map_of (pe_tools pe) t = Some d \<and> td_risk d \<noteq> READ \<and> (tok = None \<or> tok = Some []))"
  by (auto simp: authorize_def role_allows_def split: option.splits)

section \<open>Properties\<close>

text \<open>
  The policy engine fails closed, and exactly: a tool call is allowed if and only if every identity
  field is non-blank, the tool is registered, the role's allowlist holds it, and it is a read tool or a
  non-empty approval token is presented; it is denied if and only if the identity, the registration or
  the role fails; in the remaining case the decision is that approval is required.
\<close>

lemma authorize_decision:
  "(pd_outcome (authorize pe i t tok) = ''allow'') =
     (complete_identity i \<and> role_allows pe (role i) t \<and>
      (\<exists>d. map_of (pe_tools pe) t = Some d \<and> (td_risk d = READ \<or> (\<exists>s. tok = Some s \<and> s \<noteq> []))))
   \<and> (pd_outcome (authorize pe i t tok) = ''deny'') =
     (\<not> (complete_identity i \<and> role_allows pe (role i) t \<and> map_of (pe_tools pe) t \<noteq> None))
   \<and> (pd_outcome (authorize pe i t tok) = ''approval_required'') =
     (complete_identity i \<and> role_allows pe (role i) t \<and>
      (\<exists>d. map_of (pe_tools pe) t = Some d \<and> td_risk d \<noteq> READ \<and> (tok = None \<or> tok = Some [])))"
  unfolding authorize_allow_cases authorize_required_cases
  by (auto simp: authorize_def role_allows_def split: option.splits)

end
