(* ===== verification/Mcp_Gateway.thy ===== *)
theory Mcp_Gateway
  imports Runtime_Models
begin

text \<open>
  The two MCP gateways: the in-memory ERP of \<^verbatim>\<open>packages/agent_runtime/mcp.py\<close> and the remote
  JSON-RPC adapter of \<^verbatim>\<open>packages/agent_runtime/mcp_http.py\<close>, and the contract of the protocol class
  \<^verbatim>\<open>McpGateway\<close> as the locale \<open>mcp_gateway\<close>, which both satisfy.

  The remote server, the HTTP transport and \<^verbatim>\<open>json.loads\<close> are parameters of the remote gateway:
  \<open>transport\<close> gives the bytes read from the response (\<^const>\<open>None\<close> for an HTTP, URL, time-out or OS
  error) and \<open>json_loads\<close> the decoded value (\<^const>\<open>None\<close> for a decoding error).
\<close>

section \<open>The in-memory gateway\<close>

record in_memory_gateway =
  mg_server_id :: string
  mg_transport :: string
  mg_orders :: "(string \<times> string, (string, string) dict) dict"
  mg_definitions :: "(string, tool_definition) dict"

definition in_memory_gateway_init ::
    "(string \<times> string, (string, string) dict) dict \<Rightarrow> in_memory_gateway" where
  "in_memory_gateway_init orders =
     \<lparr>mg_server_id = ''erp-demo'', mg_transport = ''in_memory'', mg_orders = orders,
      mg_definitions = [(''erp.get_order_status'',
        \<lparr>td_name = ''erp.get_order_status'', td_risk = READ,
         td_description = ''Return a tenant-scoped synthetic order status.''\<rparr>)]\<rparr>"

definition in_memory_health :: "in_memory_gateway \<Rightarrow> (string, string) dict" where
  "in_memory_health g =
     [(''server_id'', mg_server_id g), (''transport'', mg_transport g), (''status'', ''healthy'')]"

text \<open>\<^verbatim>\<open>re.fullmatch(r"[A-Z0-9][A-Z0-9._-]{1,63}", s)\<close>.\<close>

definition order_id_pattern :: "string \<Rightarrow> bool" where
  "order_id_pattern s = match_head_tail (\<lambda>c. is_upper c \<or> is_digit c)
     (\<lambda>c. is_upper c \<or> is_digit c \<or> c \<in> {CHR ''.'', CHR ''_'', CHR ''-''}) 1 63 s"

text \<open>\<^verbatim>\<open>set(request.arguments) == {"order_id"}\<close>.\<close>

definition order_schema :: "pydict \<Rightarrow> bool" where
  "order_schema arguments \<longleftrightarrow> set (map fst arguments) = {''order_id''}"

definition in_memory_call :: "in_memory_gateway \<Rightarrow> string \<Rightarrow> tool_call_request \<Rightarrow> tool_result" where
  "in_memory_call g now request =
     (case map_of (mg_definitions g) (tc_tool_name request) of
        None \<Rightarrow> tool_failure ''tool is not registered''
      | Some definition \<Rightarrow>
          if \<not> order_schema (tc_arguments request)
          then tool_failure ''tool arguments do not match the registered schema''
          else (case as_str (dget (tc_arguments request) ''order_id'') of
              None \<Rightarrow> tool_failure ''order_id is required''
            | Some order_id \<Rightarrow>
                if blank order_id \<or> \<not> order_id_pattern (strip order_id)
                then tool_failure ''order_id is required''
                else (case map_of (mg_orders g) (tenant_id (tc_identity request), order_id) of
                    None \<Rightarrow> tool_failure ''order was not found in the authorized tenant scope''
                  | Some order \<Rightarrow>
                      \<lparr>tr_success = True, tr_data = VDict (map (map_prod id VStr) order),
                       tr_source_id = Some (''erpnext:Sales Order:'' @ order_id),
                       tr_observed_at = Some now, tr_external_ref = Some order_id,
                       tr_workspace_id = Some (workspace_id (tc_identity request)),
                       tr_tenant_id = Some (tenant_id (tc_identity request)), tr_error = None\<rparr>)))"

section \<open>The remote gateway\<close>

record remote_gateway =
  rg_endpoint :: string
  rg_definitions :: "(string, tool_definition) dict"
  rg_bearer_token :: "string option"

text \<open>What leaves the process: the URL, the headers and the JSON body.\<close>

record remote_request =
  rq_url :: string
  rq_headers :: "(string, string) dict"
  rq_body :: pyval

definition remote_headers :: "remote_gateway \<Rightarrow> (string, string) dict" where
  "remote_headers g = (''Accept'', ''application/json'') #
     (case rg_bearer_token g of None \<Rightarrow> []
      | Some t \<Rightarrow> if t = [] then [] else [(''Authorization'', ''Bearer '' @ t)])"

definition remote_request_of :: "remote_gateway \<Rightarrow> tool_call_request \<Rightarrow> remote_request" where
  "remote_request_of g request =
     \<lparr>rq_url = rg_endpoint g,
      rq_headers =
        AList.update ''X-User-Id'' (user_id (tc_identity request))
        (AList.update ''X-Tenant-Id'' (tenant_id (tc_identity request))
        (AList.update ''X-Workspace-Id'' (workspace_id (tc_identity request))
        (AList.update ''X-Run-Id'' (tc_run_id request)
        (AList.update ''X-Trace-Id'' (tc_trace_id request)
        (AList.update ''X-Request-Id'' (tc_request_id request)
        (AList.update ''Accept'' ''application/json, text/event-stream''
        (AList.update ''Content-Type'' ''application/json'' (remote_headers g)))))))),
      rq_body = VDict [(''jsonrpc'', VStr ''2.0''), (''id'', VStr (tc_request_id request)),
        (''method'', VStr ''tools/call''),
        (''params'', VDict [(''name'', VStr (tc_tool_name request)),
                            (''arguments'', VDict (tc_arguments request))])]\<rparr>"

definition bounded_text :: "nat \<Rightarrow> pyval \<Rightarrow> string option" where
  "bounded_text n v = (case as_str v of None \<Rightarrow> None
     | Some s \<Rightarrow> if blank s \<or> length s > n then None else Some s)"

definition max_source_id :: nat where "max_source_id = 512"
definition max_observed_at :: nat where "max_observed_at = 128"
definition max_external_ref :: nat where "max_external_ref = 256"
definition max_response_bytes :: nat where "max_response_bytes = 2 * 1024 * 1024"

text \<open>
  \<^verbatim>\<open>result.get("structuredContent") or result.get("data")\<close>, then the checks on the structured result in
  the order of the source.
\<close>

definition structured_result :: "tool_call_request \<Rightarrow> pydict \<Rightarrow> tool_result" where
  "structured_result request s =
     (case bounded_text max_source_id (dget s ''source_id'') of
        None \<Rightarrow> tool_failure ''remote MCP result is missing provenance''
      | Some source_id \<Rightarrow>
     (case bounded_text max_observed_at (dget s ''observed_at'') of
        None \<Rightarrow> tool_failure ''remote MCP result is missing observed time''
      | Some observed_at \<Rightarrow>
     (case bounded_text max_external_ref (dget s ''external_ref'') of
        None \<Rightarrow> tool_failure ''remote MCP result is missing external reference''
      | Some external_ref \<Rightarrow>
          if dget s ''workspace_id'' \<noteq> VStr (workspace_id (tc_identity request))
             \<or> dget s ''tenant_id'' \<noteq> VStr (tenant_id (tc_identity request))
          then tool_failure ''remote MCP result scope does not match request''
          else (case as_dict (dget_default s ''data'' (VDict s)) of
              None \<Rightarrow> tool_failure ''remote MCP result data is invalid''
            | Some data \<Rightarrow>
                \<lparr>tr_success = True, tr_data = VDict data, tr_source_id = Some source_id,
                 tr_observed_at = Some observed_at, tr_external_ref = Some external_ref,
                 tr_workspace_id = Some (workspace_id (tc_identity request)),
                 tr_tenant_id = Some (tenant_id (tc_identity request)), tr_error = None\<rparr>))))"

definition remote_result :: "tool_call_request \<Rightarrow> pyval \<Rightarrow> tool_result" where
  "remote_result request body =
     (case as_dict body of
        None \<Rightarrow> tool_failure ''remote MCP returned an error''
      | Some b \<Rightarrow>
          if dget b ''error'' \<noteq> VNone then tool_failure ''remote MCP returned an error''
          else (case as_dict (dget b ''result'') of
              None \<Rightarrow> tool_failure ''remote MCP returned an invalid result''
            | Some r \<Rightarrow>
                (case as_dict (if truthy (dget r ''structuredContent'') then dget r ''structuredContent''
                               else dget r ''data'') of
                   None \<Rightarrow> tool_failure ''remote MCP result has no structured data''
                 | Some s \<Rightarrow> structured_result request s)))"

definition remote_call ::
    "(remote_request \<Rightarrow> string option) \<Rightarrow> (string \<Rightarrow> pyval option) \<Rightarrow> remote_gateway \<Rightarrow>
     tool_call_request \<Rightarrow> tool_result" where
  "remote_call transport json_loads g request =
     (case map_of (rg_definitions g) (tc_tool_name request) of
        None \<Rightarrow> tool_failure ''tool is not registered''
      | Some definition \<Rightarrow>
          (case transport (remote_request_of g request) of
             None \<Rightarrow> tool_failure ''remote MCP request failed''
           | Some full \<Rightarrow>
               let raw = take (max_response_bytes + 1) full in
               if length raw > max_response_bytes
               then tool_failure ''remote MCP response exceeded the response limit''
               else (case json_loads raw of
                   None \<Rightarrow> tool_failure ''remote MCP returned invalid JSON''
                 | Some body \<Rightarrow> remote_result request body)))"

section \<open>The contract\<close>

text \<open>
  What the runtime relies on: an unregistered tool never succeeds, and a successful result carries the
  workspace and tenant of the request, a dictionary and complete provenance.
\<close>

definition scoped_success :: "tool_call_request \<Rightarrow> tool_result \<Rightarrow> bool" where
  "scoped_success request r \<longleftrightarrow>
     tr_workspace_id r = Some (workspace_id (tc_identity request)) \<and>
     tr_tenant_id r = Some (tenant_id (tc_identity request)) \<and>
     (\<exists>d. tr_data r = VDict d) \<and> (\<exists>s. tr_source_id r = Some s \<and> \<not> blank s) \<and>
     tr_observed_at r \<noteq> None \<and> tr_external_ref r \<noteq> None"

locale mcp_gateway =
  fixes definitions :: "(string, tool_definition) dict"
    and call :: "tool_call_request \<Rightarrow> tool_result"
  assumes unregistered: "map_of definitions (tc_tool_name request) = None \<Longrightarrow> \<not> tr_success (call request)"
    and scoped: "tr_success (call request) \<Longrightarrow> scoped_success request (call request)"
begin

lemma success_registered: "tr_success (call request) \<Longrightarrow> map_of definitions (tc_tool_name request) \<noteq> None"
  using unregistered by blast

lemma no_cross_tenant_result:
  assumes "tr_success (call request)" "tr_tenant_id (call request) = Some t"
  shows "t = tenant_id (tc_identity request)"
  using scoped [OF assms(1)] assms(2) by (simp add: scoped_success_def)

end

lemma bounded_text_Some: "bounded_text n v = Some s \<longleftrightarrow> v = VStr s \<and> \<not> blank s \<and> length s \<le> n"
  by (auto simp: bounded_text_def split: option.splits if_splits)

lemma structured_result_scoped:
  "tr_success (structured_result request s) \<Longrightarrow> scoped_success request (structured_result request s)"
  by (auto simp: structured_result_def scoped_success_def
      dest: bounded_text_Some [THEN iffD1] split: option.splits if_splits)

lemma structured_result_bounds:
  assumes "tr_success (structured_result request s)"
  shows "\<exists>src obs ext. tr_source_id (structured_result request s) = Some src \<and> length src \<le> max_source_id \<and>
     tr_observed_at (structured_result request s) = Some obs \<and> \<not> blank obs \<and> length obs \<le> max_observed_at \<and>
     tr_external_ref (structured_result request s) = Some ext \<and> \<not> blank ext \<and> length ext \<le> max_external_ref"
  using assms by (auto simp: structured_result_def
      dest: bounded_text_Some [THEN iffD1] split: option.splits if_splits)

lemma remote_call_success_structured:
  "tr_success (remote_call transport json_loads g request) \<Longrightarrow>
     \<exists>s. remote_call transport json_loads g request = structured_result request s"
  by (auto simp: remote_call_def remote_result_def Let_def split: option.splits if_splits)

lemma remote_result_scoped:
  "tr_success (remote_result request body) \<Longrightarrow> scoped_success request (remote_result request body)"
  by (auto simp: remote_result_def structured_result_scoped split: option.splits if_splits)

text \<open>The one successful branch of the in-memory call.\<close>

definition order_result :: "tool_call_request \<Rightarrow> string \<Rightarrow> string \<Rightarrow> (string, string) dict \<Rightarrow> tool_result" where
  "order_result request now oid order =
     \<lparr>tr_success = True, tr_data = VDict (map (map_prod id VStr) order),
      tr_source_id = Some (''erpnext:Sales Order:'' @ oid),
      tr_observed_at = Some now, tr_external_ref = Some oid,
      tr_workspace_id = Some (workspace_id (tc_identity request)),
      tr_tenant_id = Some (tenant_id (tc_identity request)), tr_error = None\<rparr>"

definition found_order :: "in_memory_gateway \<Rightarrow> tool_call_request \<Rightarrow> string \<Rightarrow> (string, string) dict \<Rightarrow> bool" where
  "found_order g request oid order \<longleftrightarrow>
     map_of (mg_definitions g) (tc_tool_name request) \<noteq> None \<and>
     order_schema (tc_arguments request) \<and>
     dget (tc_arguments request) ''order_id'' = VStr oid \<and> order_id_pattern (strip oid) \<and>
     map_of (mg_orders g) (tenant_id (tc_identity request), oid) = Some order"

lemma order_id_pattern_not_blank: "order_id_pattern (strip oid) \<Longrightarrow> \<not> blank oid"
  by (auto simp: order_id_pattern_def blank_def dest: match_head_tail_nonempty)

lemma in_memory_call_found:
  "found_order g request oid order \<Longrightarrow> in_memory_call g now request = order_result request now oid order"
  by (auto simp: found_order_def in_memory_call_def order_result_def order_id_pattern_not_blank)

lemma in_memory_call_not_found:
  assumes "\<nexists>oid order. found_order g request oid order"
  shows "\<not> tr_success (in_memory_call g now request)"
proof (cases "map_of (mg_definitions g) (tc_tool_name request) = None \<or>
    \<not> order_schema (tc_arguments request)")
  case True
  then show ?thesis by (auto simp: in_memory_call_def split: option.split)
next
  case False
  with assms show ?thesis
    unfolding found_order_def by (auto simp: in_memory_call_def split: option.split)
qed

text \<open>The part of the order book that belongs to one tenant.\<close>

definition only_tenant :: "string \<Rightarrow> in_memory_gateway \<Rightarrow> in_memory_gateway" where
  "only_tenant t g = g\<lparr>mg_orders := filter (\<lambda>((t', _), _). t' = t) (mg_orders g)\<rparr>"

lemma map_of_filter_tenant:
  "map_of (filter (\<lambda>((t', _), _). t' = t) xs) (t, oid) = map_of xs (t, oid)"
  by (induction xs) auto

lemma in_memory_call_only_tenant:
  "in_memory_call (only_tenant (tenant_id (tc_identity request)) g) now request = in_memory_call g now request"
  unfolding in_memory_call_def only_tenant_def by (simp add: map_of_filter_tenant split: option.split)

lemma order_result_scoped: "scoped_success request (order_result request now oid order)"
  by (simp add: scoped_success_def order_result_def is_space_def code_def)

interpretation mem_gw: mcp_gateway "mg_definitions g" "in_memory_call g now"
proof unfold_locales
  show "\<not> tr_success (in_memory_call g now request)"
    if "map_of (mg_definitions g) (tc_tool_name request) = None" for request
    using that by (simp add: in_memory_call_def)
  show "scoped_success request (in_memory_call g now request)"
    if "tr_success (in_memory_call g now request)" for request
    using that in_memory_call_not_found in_memory_call_found order_result_scoped by metis
qed

interpretation remote_gw: mcp_gateway "rg_definitions g" "remote_call transport json_loads g"
proof unfold_locales
  show "\<not> tr_success (remote_call transport json_loads g request)"
    if "map_of (rg_definitions g) (tc_tool_name request) = None" for request
    using that by (simp add: remote_call_def)
  show "scoped_success request (remote_call transport json_loads g request)"
    if "tr_success (remote_call transport json_loads g request)" for request
    using that by (auto simp: remote_call_def Let_def remote_result_scoped split: option.splits if_splits)
qed

section \<open>Properties\<close>

text \<open>
  Tenant isolation of the in-memory ERP: a call succeeds exactly when the tool is registered, the
  only argument is a well-formed \<^verbatim>\<open>order_id\<close> and the order exists under the caller's own tenant, and the
  data returned is that order; the orders of other tenants never influence the result.
\<close>

lemma in_memory_call_tenant_isolation:
  "tr_success (in_memory_call g now request) =
     (map_of (mg_definitions g) (tc_tool_name request) \<noteq> None \<and>
      order_schema (tc_arguments request) \<and>
      (\<exists>oid order. dget (tc_arguments request) ''order_id'' = VStr oid \<and>
         order_id_pattern (strip oid) \<and>
         map_of (mg_orders g) (tenant_id (tc_identity request), oid) = Some order \<and>
         tr_data (in_memory_call g now request) = VDict (map (map_prod id VStr) order) \<and>
         tr_external_ref (in_memory_call g now request) = Some oid)) \<and>
   in_memory_call (only_tenant (tenant_id (tc_identity request)) g) now request =
     in_memory_call g now request" (is "?iff \<and> ?frame")
proof
  have res: "tr_success (in_memory_call g now request)"
    "tr_data (in_memory_call g now request) = VDict (map (map_prod id VStr) order)"
    "tr_external_ref (in_memory_call g now request) = Some oid"
    if "found_order g request oid order" for oid order
    using in_memory_call_found [OF that] by (simp_all add: order_result_def)
  show ?iff
    using in_memory_call_not_found [of g request now] res unfolding found_order_def by blast
  show ?frame by (rule in_memory_call_only_tenant)
qed

text \<open>
  Whatever the remote MCP server answers, a successful result of the remote gateway is for a
  registered tool and carries the workspace and tenant of the authenticated request, a dictionary of
  data and non-blank provenance within the length limits.
\<close>

lemma remote_call_scope:
  assumes "tr_success (remote_call transport json_loads g request)"
  shows "map_of (rg_definitions g) (tc_tool_name request) \<noteq> None \<and>
    scoped_success request (remote_call transport json_loads g request) \<and>
    (\<exists>src obs ext. tr_source_id (remote_call transport json_loads g request) = Some src \<and>
       length src \<le> 512 \<and>
       tr_observed_at (remote_call transport json_loads g request) = Some obs \<and>
       \<not> blank obs \<and> length obs \<le> 128 \<and>
       tr_external_ref (remote_call transport json_loads g request) = Some ext \<and>
       \<not> blank ext \<and> length ext \<le> 256)"
proof -
  obtain s where "remote_call transport json_loads g request = structured_result request s"
    using remote_call_success_structured [OF assms] by blast
  with structured_result_bounds [of request s] remote_gw.success_registered [OF assms] remote_gw.scoped [OF assms]
    assms show ?thesis
    by (simp add: max_source_id_def max_observed_at_def max_external_ref_def)
qed

definition demo_request :: tool_call_request where
  "demo_request = \<lparr>tc_request_id = ''req-1'', tc_trace_id = ''trace-1'', tc_run_id = ''run-1'',
     tc_identity = \<lparr>user_id = ''u1'', workspace_id = ''w1'', tenant_id = ''t1'', role = ''support''\<rparr>,
     tc_tool_name = ''erp.get_order_status'', tc_arguments = [(''order_id'', VStr ''SO-1'')],
     tc_idempotency_key = ''k''\<rparr>"

definition demo_remote :: remote_gateway where
  "demo_remote = \<lparr>rg_endpoint = ''https://mcp.example.com/'',
     rg_definitions = mg_definitions (in_memory_gateway_init []), rg_bearer_token = None\<rparr>"

definition demo_body :: pyval where
  "demo_body = VDict [(''result'', VDict [(''structuredContent'', VDict
     [(''source_id'', VStr ''erp''), (''observed_at'', VStr ''2026''), (''external_ref'', VStr ''SO-1''),
      (''workspace_id'', VStr ''w1''), (''tenant_id'', VStr ''t1''), (''status'', VStr ''open'')])])]"

lemma demo_remote_call_success:
  "tr_success (remote_call (\<lambda>_. Some ''{}'') (\<lambda>_. Some demo_body) demo_remote demo_request)"
  by (simp add: remote_call_def remote_result_def structured_result_def demo_remote_def demo_body_def
      demo_request_def in_memory_gateway_init_def bounded_text_def is_space_def code_def
      max_source_id_def max_observed_at_def max_external_ref_def max_response_bytes_def dget_default_def)

lemma remote_call_scope_witness:
  "tr_success (remote_call (\<lambda>_. Some ''{}'') (\<lambda>_. Some demo_body) demo_remote demo_request) \<and>
   scoped_success demo_request (remote_call (\<lambda>_. Some ''{}'') (\<lambda>_. Some demo_body) demo_remote demo_request)"
  using remote_call_scope [OF demo_remote_call_success] demo_remote_call_success by blast

end
