(* ===== verification/Trace_Records.thy ===== *)
theory Trace_Records
  imports Py_Prelude
begin

text \<open>
  The span record of \<^verbatim>\<open>packages/observability/tracing.py\<close> and its validation. Constructing a
  \<^verbatim>\<open>TraceRecord\<close> runs \<^verbatim>\<open>__post_init__\<close>, which raises on an unbounded or privacy-sensitive record;
  \<open>trace_post_init\<close> gives the name of the exception class, \<^const>\<open>None\<close> when the record is accepted.
\<close>

record trace_record =
  tr_trace_id :: string
  tr_span_id :: string
  tr_name :: string
  tr_start :: int
  tr_end :: int
  tr_parent_span_id :: "string option"
  tr_attributes :: pydict

text \<open>\<^verbatim>\<open>_SAFE_ATTRIBUTE_KEY\<close>: \<^verbatim>\<open>^[A-Za-z][A-Za-z0-9_.-]{0,127}$\<close>.\<close>

definition safe_attribute_key :: "string \<Rightarrow> bool" where
  "safe_attribute_key = match_head_tail (\<lambda>c. is_lower c \<or> is_upper c)
     (\<lambda>c. is_alnum c \<or> c \<in> {CHR ''_'', CHR ''.'', CHR ''-''}) 0 127"

text \<open>\<^verbatim>\<open>_SENSITIVE_ATTRIBUTE_KEY\<close>, searched anywhere in the key and ignoring case.\<close>

definition sensitive_words :: "string list" where
  "sensitive_words = [''token'', ''secret'', ''password'', ''authorization'', ''credential'',
     ''apikey'', ''api_key'', ''api-key'', ''prompt'', ''image'', ''content'']"

definition sensitive_attribute_key :: "string \<Rightarrow> bool" where
  "sensitive_attribute_key k \<longleftrightarrow> (\<exists>w\<in>set sensitive_words. contains (lower k) w)"

text \<open>\<^verbatim>\<open>len(str(value))\<close> for the three admitted value types.\<close>

fun attribute_length :: "pyval \<Rightarrow> nat option" where
  "attribute_length (VStr s) = Some (length s)"
| "attribute_length (VInt i) = Some (length (int_str i))"
| "attribute_length (VBool b) = Some (if b then 4 else 5)"
| "attribute_length _ = None"

fun attribute_errors :: "pydict \<Rightarrow> string option" where
  "attribute_errors [] = None"
| "attribute_errors ((k, v) # d) =
     (case attribute_length v of
        None \<Rightarrow> Some ''TypeError''
      | Some n \<Rightarrow>
          if \<not> safe_attribute_key k \<or> sensitive_attribute_key k \<or> n > 256 then Some ''ValueError''
          else attribute_errors d)"

definition trace_post_init :: "trace_record \<Rightarrow> string option" where
  "trace_post_init r =
     (if tr_trace_id r = [] \<or> length (tr_trace_id r) > 128 then Some ''ValueError''
      else if tr_span_id r = [] \<or> length (tr_span_id r) > 128 then Some ''ValueError''
      else if tr_name r = [] \<or> length (tr_name r) > 128 then Some ''ValueError''
      else if tr_start r \<le> 0 \<or> tr_end r < tr_start r then Some ''ValueError''
      else attribute_errors (tr_attributes r))"

section \<open>Properties\<close>

lemma attribute_errors_None_iff:
  "attribute_errors d = None \<longleftrightarrow>
     (\<forall>(k, v)\<in>set d. safe_attribute_key k \<and> \<not> sensitive_attribute_key k \<and>
        (\<exists>n. attribute_length v = Some n \<and> n \<le> 256))"
  by (induction d rule: attribute_errors.induct) (auto split: option.splits)

text \<open>
  A span record is accepted exactly when its identifiers and name are non-empty and at most 128
  characters long, its time span is positive and ordered, and every attribute has a safe key that
  contains none of the sensitive words in any letter case and a text, integer or boolean value of at
  most 256 characters: no credential, token, prompt, image or content field can be exported.
\<close>

lemma trace_post_init_accepts_iff:
  "trace_post_init r = None \<longleftrightarrow>
     1 \<le> length (tr_trace_id r) \<and> length (tr_trace_id r) \<le> 128 \<and>
     1 \<le> length (tr_span_id r) \<and> length (tr_span_id r) \<le> 128 \<and>
     1 \<le> length (tr_name r) \<and> length (tr_name r) \<le> 128 \<and>
     0 < tr_start r \<and> tr_start r \<le> tr_end r \<and>
     list_all (\<lambda>(k, v). safe_attribute_key k \<and> \<not> list_ex (contains (lower k)) sensitive_words \<and>
        (\<exists>n. attribute_length v = Some n \<and> n \<le> 256)) (tr_attributes r)"
  by (auto simp: trace_post_init_def attribute_errors_None_iff list_all_iff list_ex_iff
      sensitive_attribute_key_def Suc_le_eq not_le)

end
