(* ===== verification/Audit_Log.thy ===== *)
theory Audit_Log
  imports Runtime_Models
begin

text \<open>
  The append-only audit log of \<^verbatim>\<open>packages/agent_runtime/audit.py\<close>: the SQLite event table and the
  \<^verbatim>\<open>AuditLog\<close> facade. A row keeps the event, whose payload column holds the JSON text written with
  \<^verbatim>\<open>sort_keys\<close> (here its decoded value, \<^const>\<open>canon_dict\<close> of the payload), the tenant column derived
  from the payload when the row is written, and the autoincremented sequence number. The contract of
  the protocol class \<^verbatim>\<open>EventStore\<close> is the locale \<open>event_store\<close>.
\<close>

record audit_row =
  ar_sequence :: nat
  ar_event :: audit_event
  ar_tenant_id :: "string option"

record audit_table =
  at_rows :: "audit_row list"
  at_next :: nat

definition empty_table :: audit_table where
  "empty_table = \<lparr>at_rows = [], at_next = 1\<rparr>"

definition canon_event :: "audit_event \<Rightarrow> audit_event" where
  "canon_event e = e\<lparr>ev_payload := canon_dict (ev_payload e)\<rparr>"

text \<open>
  \<^verbatim>\<open>_ensure_tenant_column\<close>: rows written before the column existed have a NULL tenant, which is
  filled from the payload when that names a non-blank tenant.
\<close>

definition repair_tenant :: "audit_row \<Rightarrow> audit_row" where
  "repair_tenant r = (case ar_tenant_id r of
       Some _ \<Rightarrow> r
     | None \<Rightarrow> (case as_str (dget (ev_payload (ar_event r)) ''tenant_id'') of
         None \<Rightarrow> r
       | Some s \<Rightarrow> if blank s then r else r\<lparr>ar_tenant_id := Some s\<rparr>))"

definition ensure_tenant_column :: "audit_table \<Rightarrow> audit_table" where
  "ensure_tenant_column t = t\<lparr>at_rows := map repair_tenant (at_rows t)\<rparr>"

definition sqlite_append :: "audit_event \<Rightarrow> audit_table \<Rightarrow> audit_table" where
  "sqlite_append e t =
     \<lparr>at_rows = at_rows t @ [\<lparr>ar_sequence = at_next t, ar_event = canon_event e,
                              ar_tenant_id = ev_tenant_id e\<rparr>],
      at_next = Suc (at_next t)\<rparr>"

text \<open>\<^verbatim>\<open>if trace_id: clauses.append("trace_id = ?")\<close>: no clause for \<^verbatim>\<open>None\<close> and none for an empty string.\<close>

definition clause :: "string option \<Rightarrow> string option \<Rightarrow> bool" where
  "clause wanted column = (case wanted of None \<Rightarrow> True | Some w \<Rightarrow> w = [] \<or> column = Some w)"

definition sqlite_list_events ::
    "string option \<Rightarrow> string option \<Rightarrow> string option \<Rightarrow> string option \<Rightarrow> audit_table \<Rightarrow> audit_event list" where
  "sqlite_list_events trace run ws tenant t =
     map ar_event (filter (\<lambda>r. clause trace (Some (ev_trace_id (ar_event r))) \<and>
         clause run (Some (ev_run_id (ar_event r))) \<and>
         clause ws (Some (ev_workspace_id (ar_event r))) \<and>
         clause tenant (ar_tenant_id r))
       (sort_key ar_sequence (at_rows t)))"

section \<open>The facade\<close>

record audit_log =
  al_events :: "audit_event list"
  al_store :: "audit_table option"

definition audit_append :: "audit_event \<Rightarrow> audit_log \<Rightarrow> audit_log" where
  "audit_append e l = l\<lparr>al_events := al_events l @ [e],
     al_store := map_option (sqlite_append e) (al_store l)\<rparr>"

definition matches :: "string option \<Rightarrow> string \<Rightarrow> bool" where
  "matches wanted v = (case wanted of None \<Rightarrow> True | Some w \<Rightarrow> v = w)"

definition audit_list_events ::
    "string option \<Rightarrow> string option \<Rightarrow> string option \<Rightarrow> string option \<Rightarrow> audit_log \<Rightarrow> audit_event list" where
  "audit_list_events trace run ws tenant l =
     (let events = (case al_store l of
          Some t \<Rightarrow> sqlite_list_events trace run ws tenant t
        | None \<Rightarrow> filter (\<lambda>e. matches trace (ev_trace_id e) \<and> matches run (ev_run_id e) \<and>
                      matches ws (ev_workspace_id e)) (al_events l))
      in case tenant of None \<Rightarrow> events
         | Some w \<Rightarrow> filter (\<lambda>e. dget (ev_payload e) ''tenant_id'' = VStr w) events)"

text \<open>\<^verbatim>\<open>AuditLog.healthcheck\<close>: the probe of the store, if it has one; an exception counts as unhealthy.\<close>

datatype probe = No_probe | Probe_returns bool | Probe_raises

definition audit_healthcheck :: "probe option \<Rightarrow> bool" where
  "audit_healthcheck store = (case store of None \<Rightarrow> True
     | Some No_probe \<Rightarrow> True | Some (Probe_returns b) \<Rightarrow> b | Some Probe_raises \<Rightarrow> False)"

section \<open>The contract of an event store\<close>

definition event_matches ::
    "string option \<Rightarrow> string option \<Rightarrow> string option \<Rightarrow> string option \<Rightarrow> audit_event \<Rightarrow> bool" where
  "event_matches trace run ws tenant e \<longleftrightarrow>
     clause trace (Some (ev_trace_id e)) \<and> clause run (Some (ev_run_id e)) \<and>
     clause ws (Some (ev_workspace_id e)) \<and> clause tenant (ev_tenant_id e)"

locale event_store =
  fixes empty :: 's
    and append :: "audit_event \<Rightarrow> 's \<Rightarrow> 's"
    and list_events :: "string option \<Rightarrow> string option \<Rightarrow> string option \<Rightarrow> string option \<Rightarrow> 's \<Rightarrow> audit_event list"
    and events :: "'s \<Rightarrow> audit_event list"
    and invar :: "'s \<Rightarrow> bool"
  assumes events_empty: "events empty = []"
    and invar_empty: "invar empty"
    and events_append: "events (append e s) = events s @ [canon_event e]"
    and invar_append: "invar s \<Longrightarrow> distinct (map fst (ev_payload e)) \<Longrightarrow> invar (append e s)"
    and list_events_eq: "invar s \<Longrightarrow> list_events t r w n s = filter (event_matches t r w n) (events s)"
begin

definition append_all :: "audit_event list \<Rightarrow> 's \<Rightarrow> 's" where
  "append_all es s = fold append es s"

lemma events_append_all: "events (append_all es s) = events s @ map canon_event es"
  by (induction es arbitrary: s) (auto simp: append_all_def events_append)

lemma invar_append_all:
  "invar s \<Longrightarrow> (\<And>e. e \<in> set es \<Longrightarrow> distinct (map fst (ev_payload e))) \<Longrightarrow> invar (append_all es s)"
  by (induction es arbitrary: s) (auto simp: append_all_def invar_append)

lemma list_append_all:
  assumes "\<And>e. e \<in> set es \<Longrightarrow> distinct (map fst (ev_payload e))"
  shows "list_events t r w n (append_all es empty) = filter (event_matches t r w n) (map canon_event es)"
  using assms by (simp add: list_events_eq invar_append_all invar_empty events_append_all events_empty)

lemma append_only:
  assumes "invar s" "distinct (map fst (ev_payload e))"
  shows "\<exists>suffix. list_events t r w n (append e s) = list_events t r w n s @ suffix \<and> set suffix \<subseteq> {canon_event e}"
  using assms by (auto simp: list_events_eq invar_append events_append)

end

definition table_ok :: "audit_table \<Rightarrow> bool" where
  "table_ok t \<longleftrightarrow> sorted (map ar_sequence (at_rows t)) \<and>
     (\<forall>r\<in>set (at_rows t). ar_sequence r < at_next t \<and> ar_tenant_id r = ev_tenant_id (ar_event r))"

lemma canon_event_simps [simp]:
  "ev_type (canon_event e) = ev_type e" "ev_request_id (canon_event e) = ev_request_id e"
  "ev_trace_id (canon_event e) = ev_trace_id e" "ev_run_id (canon_event e) = ev_run_id e"
  "ev_workspace_id (canon_event e) = ev_workspace_id e" "ev_agent_id (canon_event e) = ev_agent_id e"
  "ev_payload (canon_event e) = canon_dict (ev_payload e)"
  by (simp_all add: canon_event_def)

lemma as_str_canon [simp]: "as_str (canon v) = as_str v"
  by (cases v) auto

lemma ev_tenant_id_canon [simp]:
  "distinct (map fst (ev_payload e)) \<Longrightarrow> ev_tenant_id (canon_event e) = ev_tenant_id e"
  by (simp add: ev_tenant_id_def dget_canon_dict)

lemma table_ok_append:
  "table_ok t \<Longrightarrow> distinct (map fst (ev_payload e)) \<Longrightarrow> table_ok (sqlite_append e t)"
  by (auto simp: table_ok_def sqlite_append_def sorted_append order.strict_implies_order less_Suc_eq)

lemma sqlite_list_events_eq:
  assumes "table_ok t"
  shows "sqlite_list_events tr run ws tenant t =
    filter (event_matches tr run ws tenant) (map ar_event (at_rows t))"
proof -
  have "sort_key ar_sequence (at_rows t) = at_rows t"
    using assms by (simp add: table_ok_def sorted_sort_id sort_key_id_if_sorted)
  moreover have "filter (\<lambda>r. clause tr (Some (ev_trace_id (ar_event r))) \<and>
         clause run (Some (ev_run_id (ar_event r))) \<and>
         clause ws (Some (ev_workspace_id (ar_event r))) \<and>
         clause tenant (ar_tenant_id r)) (at_rows t) =
      filter (event_matches tr run ws tenant \<circ> ar_event) (at_rows t)"
    using assms by (intro filter_cong) (auto simp: table_ok_def event_matches_def)
  ultimately show ?thesis
    by (simp add: sqlite_list_events_def filter_map)
qed

interpretation sqlite_events: event_store empty_table sqlite_append sqlite_list_events
  "\<lambda>t. map ar_event (at_rows t)" table_ok
  by unfold_locales
    (auto simp: empty_table_def table_ok_append sqlite_list_events_eq, auto simp: sqlite_append_def table_ok_def)

section \<open>Logs built by appending\<close>

definition audit_log_of :: "audit_table option \<Rightarrow> audit_event list \<Rightarrow> audit_log" where
  "audit_log_of store es = fold audit_append es \<lparr>al_events = [], al_store = store\<rparr>"

lemma fold_audit_append:
  "fold audit_append es l = l\<lparr>al_events := al_events l @ es,
     al_store := map_option (fold sqlite_append es) (al_store l)\<rparr>"
  by (induction es arbitrary: l) (auto simp: audit_append_def option.map_comp comp_def option.map_id option.map_id0)

lemma clause_Some_iff: "wanted \<noteq> Some [] \<Longrightarrow> clause wanted (Some v) = matches wanted v"
  by (auto simp: clause_def matches_def split: option.splits)

lemma tenant_clause_iff:
  "\<not> blank t \<Longrightarrow> clause (Some t) (ev_tenant_id e) \<longleftrightarrow> dget (ev_payload e) ''tenant_id'' = VStr t"
  by (auto simp: clause_def ev_tenant_id_Some_iff)

lemma event_matches_canon [simp]:
  "distinct (map fst (ev_payload e)) \<Longrightarrow> event_matches a b c d (canon_event e) = event_matches a b c d e"
  by (simp add: event_matches_def)

lemma repair_tenant_simps [simp]:
  "ar_sequence (repair_tenant r) = ar_sequence r" "ar_event (repair_tenant r) = ar_event r"
  "repair_tenant (repair_tenant r) = repair_tenant r"
  by (auto simp: repair_tenant_def split: option.splits if_splits)

lemma repair_tenant_agrees [simp]:
  "ar_tenant_id r = None \<Longrightarrow> ar_tenant_id (repair_tenant r) = ev_tenant_id (ar_event r)"
  "ar_tenant_id r = ev_tenant_id (ar_event r) \<Longrightarrow> ar_tenant_id (repair_tenant r) = ev_tenant_id (ar_event r)"
  by (auto simp: repair_tenant_def ev_tenant_id_def split: option.splits if_splits)

lemma store_events:
  assumes "\<forall>e\<in>set es. distinct (map fst (ev_payload e))"
  shows "sqlite_list_events tr run ws n (fold sqlite_append es empty_table) =
    map canon_event (filter (event_matches tr run ws n) es)"
proof -
  have "sqlite_list_events tr run ws n (fold sqlite_append es empty_table) =
      filter (event_matches tr run ws n) (map canon_event es)"
    using assms sqlite_events.list_append_all [of es tr run ws n]
    by (simp add: sqlite_events.append_all_def)
  also have "\<dots> = map canon_event (filter (event_matches tr run ws n) es)"
    using assms by (induction es) auto
  finally show ?thesis .
qed

section \<open>Properties\<close>


definition demo_event :: "string \<Rightarrow> audit_event" where
  "demo_event t = \<lparr>ev_type = ''run.created'', ev_request_id = ''req'', ev_trace_id = ''trace'',
     ev_run_id = ''run'', ev_workspace_id = ''w1'', ev_agent_id = ''a'',
     ev_payload = [(''tenant_id'', VStr t), (''intent'', VStr ''x'')], ev_created_at = ''now''\<rparr>"


text \<open>
  Opening a database written before the tenant column existed repairs it: if every row's tenant
  column is empty or already agrees with its payload, then after the migration every row's column agrees
  with its payload, no event is lost, changed or reordered, and running the migration again changes
  nothing.
\<close>

lemma ensure_tenant_column_repairs:
  assumes "sorted (map ar_sequence (at_rows t))"
    and "\<forall>r\<in>set (at_rows t). ar_sequence r < at_next t \<and>
           ar_tenant_id r \<in> {None, ev_tenant_id (ar_event r)}"
  shows "table_ok (ensure_tenant_column t) \<and>
    map ar_event (at_rows (ensure_tenant_column t)) = map ar_event (at_rows t) \<and>
    ensure_tenant_column (ensure_tenant_column t) = ensure_tenant_column t"
  using assms by (auto simp: table_ok_def ensure_tenant_column_def comp_def)

definition legacy_table :: audit_table where
  "legacy_table = \<lparr>at_rows = [\<lparr>ar_sequence = 1, ar_event = demo_event ''t1'', ar_tenant_id = None\<rparr>], at_next = 2\<rparr>"

lemma ensure_tenant_column_repairs_witness:
  "table_ok (ensure_tenant_column legacy_table) \<and>
   map ar_tenant_id (at_rows (ensure_tenant_column legacy_table)) = [Some ''t1'']"
proof -
  have "sorted (map ar_sequence (at_rows legacy_table))"
    "\<forall>r\<in>set (at_rows legacy_table). ar_sequence r < at_next legacy_table \<and>
       ar_tenant_id r \<in> {None, ev_tenant_id (ar_event r)}"
    by (simp_all add: legacy_table_def)
  from ensure_tenant_column_repairs [OF this] show ?thesis
    by (simp add: table_ok_def ensure_tenant_column_def repair_tenant_def legacy_table_def demo_event_def ev_tenant_id_def
        is_space_def code_def)
qed

end
