(* ===== verification/Agent_Runtime.thy ===== *)
theory Agent_Runtime
  imports Policy_Engine Mcp_Gateway Trace_Records Audit_Log
begin

text \<open>
  The Customer Service Agent of \<^verbatim>\<open>packages/agent_runtime/runtime.py\<close>: one call of
  \<^verbatim>\<open>AgentRuntime.run\<close> from the request to its terminal audit event.

  The collaborators the runtime is constructed with are the fields of \<open>agent_runtime\<close>: the policy
  engine, the gateway's \<^verbatim>\<open>call\<close> (which may raise), the optional trace exporter and the optional model
  provider. What one call reads from its environment is a \<open>call_env\<close>: the identifiers drawn from
  \<^verbatim>\<open>uuid4\<close>, the clock readings, the span identifiers and the SHA-256 function; \<open>ce_utc n\<close> is the
  reading of \<^verbatim>\<open>utc_now()\<close> for the \<open>n\<close>-th audit event of the call.
\<close>

text \<open>\<^verbatim>\<open>ModelCompletion\<close>; a field that is not a \<^verbatim>\<open>str\<close> is \<^const>\<open>None\<close>.\<close>

record model_completion =
  mc_provider :: "string option"
  mc_model :: "string option"
  mc_text :: "string option"

text \<open>
  What \<^verbatim>\<open>ModelProvider.complete\<close> may do: return a completion or another object, raise
  \<^verbatim>\<open>ModelProviderError\<close> (or a subclass, by its class name) or raise anything else.
\<close>

datatype provider_outcome =
    Completion model_completion
  | Not_a_completion
  | Model_provider_error string
  | Other_exception string

record model_provider =
  mp_provider_id :: string
  mp_model :: string
  mp_complete :: "string \<Rightarrow> (string, string) dict \<Rightarrow> string \<Rightarrow> string \<Rightarrow> string \<Rightarrow> provider_outcome"

type_synonym exporter = "trace_record \<Rightarrow> string option"

record agent_runtime =
  art_policy :: policy_engine
  art_call :: "tool_call_request \<Rightarrow> string + tool_result"
  art_exporter :: "exporter option"
  art_model :: "model_provider option"

record call_env =
  ce_request_uuid :: string
  ce_trace_uuid :: string
  ce_run_uuid :: string
  ce_utc :: "nat \<Rightarrow> string"
  ce_sha256 :: "string \<Rightarrow> string"
  ce_tool_span :: string
  ce_tool_started :: int
  ce_tool_ended :: int
  ce_model_span :: string
  ce_model_started :: int
  ce_model_ended :: int

text \<open>The identifiers every event of the call carries.\<close>

record run_ctx =
  rc_request_id :: string
  rc_trace_id :: string
  rc_run_id :: string
  rc_identity :: identity_context

definition agent_id :: string where "agent_id = ''customer-service-agent''"
definition tool_name :: string where "tool_name = ''erp.get_order_status''"
definition max_status_length :: nat where "max_status_length = 256"

text \<open>\<^verbatim>\<open>self._audit.append(AuditEvent(...))\<close>; the counter is the number of events of this call.\<close>

type_synonym rt_state = "audit_log \<times> nat"

definition emit :: "call_env \<Rightarrow> run_ctx \<Rightarrow> string \<Rightarrow> pydict \<Rightarrow> rt_state \<Rightarrow> rt_state" where
  "emit env ctx event_type payload s =
     (audit_append \<lparr>ev_type = event_type, ev_request_id = rc_request_id ctx,
        ev_trace_id = rc_trace_id ctx, ev_run_id = rc_run_id ctx,
        ev_workspace_id = workspace_id (rc_identity ctx), ev_agent_id = agent_id,
        ev_payload = payload, ev_created_at = ce_utc env (snd s)\<rparr> (fst s),
      Suc (snd s))"

definition tenant_entry :: "run_ctx \<Rightarrow> string \<times> pyval" where
  "tenant_entry ctx = (''tenant_id'', VStr (tenant_id (rc_identity ctx)))"

text \<open>\<^verbatim>\<open>_finish\<close>.\<close>

definition finish ::
    "call_env \<Rightarrow> run_ctx \<Rightarrow> run_status \<Rightarrow> string \<Rightarrow> rt_state \<Rightarrow> (string + run_result) \<times> rt_state" where
  "finish env ctx status message s =
     (Inr \<lparr>rr_status = status, rr_run_id = rc_run_id ctx, rr_trace_id = rc_trace_id ctx,
           rr_agent_id = agent_id, rr_message = message, rr_source_id = None,
           rr_observed_at = None, rr_external_ref = None\<rparr>,
      emit env ctx (''run.'' @ run_status_value status) [(''message'', VStr message), tenant_entry ctx] s)"

text \<open>
  \<^verbatim>\<open>_export_tool_span\<close> and \<^verbatim>\<open>_export_model_span\<close>: building the record and exporting it both happen
  inside the \<^verbatim>\<open>try\<close>; a failure of either is kept as an audit event and not propagated.
\<close>

definition export_span ::
    "exporter option \<Rightarrow> call_env \<Rightarrow> run_ctx \<Rightarrow> string \<Rightarrow> trace_record \<Rightarrow> rt_state \<Rightarrow> rt_state" where
  "export_span exporter env ctx tool r s =
     (case exporter of None \<Rightarrow> s
      | Some ex \<Rightarrow>
          (case (case trace_post_init r of Some e \<Rightarrow> Some e | None \<Rightarrow> ex r) of
             None \<Rightarrow> s
           | Some e \<Rightarrow> emit env ctx ''trace.export_failed''
               [(''error_type'', VStr e), tenant_entry ctx, (''tool'', VStr tool)] s))"

definition workspace_hash :: "call_env \<Rightarrow> run_ctx \<Rightarrow> string" where
  "workspace_hash env ctx = take 16 (ce_sha256 env (workspace_id (rc_identity ctx)))"

definition export_tool_span ::
    "exporter option \<Rightarrow> call_env \<Rightarrow> run_ctx \<Rightarrow> bool \<Rightarrow> rt_state \<Rightarrow> rt_state" where
  "export_tool_span exporter env ctx success =
     export_span exporter env ctx tool_name
       \<lparr>tr_trace_id = rc_trace_id ctx, tr_span_id = ce_tool_span env, tr_name = ''agent.tool'',
        tr_start = ce_tool_started env, tr_end = ce_tool_ended env, tr_parent_span_id = None,
        tr_attributes = [(''request_id'', VStr (rc_request_id ctx)), (''run_id'', VStr (rc_run_id ctx)),
          (''tool'', VStr tool_name), (''success'', VBool success),
          (''workspace_hash'', VStr (workspace_hash env ctx))]\<rparr>"

definition export_model_span ::
    "exporter option \<Rightarrow> call_env \<Rightarrow> run_ctx \<Rightarrow> string \<Rightarrow> string \<Rightarrow> bool \<Rightarrow> rt_state \<Rightarrow> rt_state" where
  "export_model_span exporter env ctx provider model success =
     export_span exporter env ctx ''model''
       \<lparr>tr_trace_id = rc_trace_id ctx, tr_span_id = ce_model_span env, tr_name = ''agent.model'',
        tr_start = ce_model_started env, tr_end = ce_model_ended env, tr_parent_span_id = None,
        tr_attributes = [(''request_id'', VStr (rc_request_id ctx)), (''run_id'', VStr (rc_run_id ctx)),
          (''provider'', VStr provider), (''model'', VStr model), (''success'', VBool success),
          (''workspace_hash'', VStr (workspace_hash env ctx))]\<rparr>"

text \<open>The conjunction \<^verbatim>\<open>provenance_verified\<close>.\<close>

definition result_data :: "tool_result \<Rightarrow> pydict" where
  "result_data r = (case as_dict (tr_data r) of None \<Rightarrow> [] | Some d \<Rightarrow> d)"

definition nonblank :: "string option \<Rightarrow> bool" where
  "nonblank x = (case x of None \<Rightarrow> False | Some s \<Rightarrow> \<not> blank s)"

definition returned_status :: "tool_result \<Rightarrow> string option" where
  "returned_status r = as_str (dget (result_data r) ''status'')"

definition provenance_verified :: "identity_context \<Rightarrow> string \<Rightarrow> tool_result \<Rightarrow> bool" where
  "provenance_verified identity requested r \<longleftrightarrow>
     tr_success r \<and> tr_workspace_id r = Some (workspace_id identity) \<and>
     tr_tenant_id r = Some (tenant_id identity) \<and> tr_external_ref r = Some requested \<and>
     nonblank (tr_source_id r) \<and> nonblank (tr_observed_at r) \<and>
     dget (result_data r) ''order_id'' = VStr requested \<and>
     (case returned_status r of None \<Rightarrow> False | Some s \<Rightarrow> \<not> blank s \<and> length s \<le> max_status_length) \<and>
     (dget (result_data r) ''tenant_id'' = VNone \<or>
      dget (result_data r) ''tenant_id'' = VStr (tenant_id identity))"

definition verified_message :: "string \<Rightarrow> tool_result \<Rightarrow> string" where
  "verified_message requested r = ''Order '' @ requested @ '' is '' @
     (case returned_status r of None \<Rightarrow> ''None'' | Some s \<Rightarrow> s) @ ''. Observed at '' @
     (case tr_observed_at r of None \<Rightarrow> ''None'' | Some s \<Rightarrow> s) @ ''.''"

text \<open>The checks on what the provider returned.\<close>

definition valid_completion :: "model_completion \<Rightarrow> (string \<times> string \<times> string) option" where
  "valid_completion c = (case (mc_provider c, mc_model c, mc_text c) of
       (Some p, Some m, Some t) \<Rightarrow>
         if blank p \<or> blank m \<or> blank t \<or> length t > 32000 then None else Some (p, m, t)
     | _ \<Rightarrow> None)"

text \<open>
  The model step after a verified tool result: consent, the provider call, and one of the three audit
  events. \<^const>\<open>Inl\<close> is an exception other than \<^verbatim>\<open>ModelProviderError\<close>, which escapes \<^verbatim>\<open>run\<close>.
\<close>

definition model_failed ::
    "agent_runtime \<Rightarrow> model_provider \<Rightarrow> call_env \<Rightarrow> run_ctx \<Rightarrow> string \<Rightarrow> string \<Rightarrow> rt_state \<Rightarrow>
     (string + run_status \<times> string) \<times> rt_state" where
  "model_failed rt mp env ctx error_type verified s =
     (Inr (PARTIAL_SUCCESS, verified @ '' Model explanation is unavailable.''),
      emit env ctx ''model.failed'' [(''provider'', VStr (mp_provider_id mp)),
          (''error_type'', VStr error_type), tenant_entry ctx]
        (export_model_span (art_exporter rt) env ctx (mp_provider_id mp) (mp_model mp) False s))"

definition model_step ::
    "agent_runtime \<Rightarrow> call_env \<Rightarrow> run_ctx \<Rightarrow> string \<Rightarrow> string \<Rightarrow> bool \<Rightarrow> tool_result \<Rightarrow> rt_state \<Rightarrow>
     (string + run_status \<times> string) \<times> rt_state" where
  "model_step rt env ctx query requested allow r s =
     (let verified = verified_message requested r in
      case art_model rt of
        None \<Rightarrow> (Inr (SUCCEEDED, verified), s)
      | Some mp \<Rightarrow>
          if \<not> allow
          then (Inr (SUCCEEDED, verified @ '' Model explanation was not requested.''),
                emit env ctx ''model.blocked'' [(''provider'', VStr (mp_provider_id mp)),
                  (''reason'', VStr ''external_processing_consent_required''),
                  (''external_processing_consent'', VBool False), tenant_entry ctx] s)
          else (case mp_complete mp query
                  [(''order_id'', requested),
                   (''status'', case returned_status r of None \<Rightarrow> ''None'' | Some x \<Rightarrow> x),
                   (''source_id'', case tr_source_id r of None \<Rightarrow> [] | Some x \<Rightarrow> x),
                   (''observed_at'', case tr_observed_at r of None \<Rightarrow> [] | Some x \<Rightarrow> x)]
                  (rc_request_id ctx) (rc_trace_id ctx) (rc_run_id ctx) of
              Other_exception e \<Rightarrow> (Inl e, s)
            | Model_provider_error e \<Rightarrow> model_failed rt mp env ctx e verified s
            | Not_a_completion \<Rightarrow> model_failed rt mp env ctx ''ModelProviderError'' verified s
            | Completion c \<Rightarrow>
                (case valid_completion c of
                   None \<Rightarrow> model_failed rt mp env ctx ''ModelProviderError'' verified s
                 | Some (p, m, t) \<Rightarrow>
                     (Inr (SUCCEEDED, verified @ [CHR 0x0A, CHR 0x0A] @ ''Model explanation (unverified): '' @ t),
                      export_model_span (art_exporter rt) env ctx p m True
                        (emit env ctx ''model.completed'' [(''provider'', VStr p), (''model'', VStr m),
                           (''external_processing_consent'', VBool True), tenant_entry ctx] s)))))"

text \<open>After an allowed policy decision: the tool call, the provenance check, the model step, the end.\<close>

definition tool_request :: "run_ctx \<Rightarrow> string \<Rightarrow> tool_call_request" where
  "tool_request ctx order_id =
     \<lparr>tc_request_id = rc_request_id ctx, tc_trace_id = rc_trace_id ctx, tc_run_id = rc_run_id ctx,
      tc_identity = rc_identity ctx, tc_tool_name = tool_name,
      tc_arguments = [(''order_id'', VStr (strip order_id))],
      tc_idempotency_key = rc_run_id ctx @ '':'' @ tool_name @ '':'' @ strip order_id\<rparr>"

definition tool_completed_payload :: "run_ctx \<Rightarrow> string \<Rightarrow> tool_result \<Rightarrow> pydict" where
  "tool_completed_payload ctx requested r =
     [(''tool'', VStr tool_name), (''success'', VBool (tr_success r)),
      (''source_id'', str_or_none (tr_source_id r)), (''external_ref'', str_or_none (tr_external_ref r)),
      (''error'', str_or_none (tr_error r)),
      (''provenance_verified'', VBool (provenance_verified (rc_identity ctx) requested r)),
      tenant_entry ctx]"

text \<open>The tool span and the \<^verbatim>\<open>tool.completed\<close> event.\<close>

definition tool_completed ::
    "agent_runtime \<Rightarrow> call_env \<Rightarrow> run_ctx \<Rightarrow> string \<Rightarrow> tool_result \<Rightarrow> rt_state \<Rightarrow> rt_state" where
  "tool_completed rt env ctx requested r s =
     emit env ctx ''tool.completed'' (tool_completed_payload ctx requested r)
       (export_tool_span (art_exporter rt) env ctx (tr_success r) s)"

definition run_tool ::
    "agent_runtime \<Rightarrow> call_env \<Rightarrow> run_ctx \<Rightarrow> string \<Rightarrow> string \<Rightarrow> bool \<Rightarrow> rt_state \<Rightarrow>
     (string + run_result) \<times> rt_state" where
  "run_tool rt env ctx query order_id allow s =
     (case art_call rt (tool_request ctx order_id) of
        Inl e \<Rightarrow> (Inl e, s)
      | Inr r \<Rightarrow>
          let requested = strip order_id;
              s2 = tool_completed rt env ctx requested r s
          in if \<not> tr_success r
             then finish env ctx FAILED ''The order status could not be verified at this time.'' s2
             else if \<not> provenance_verified (rc_identity ctx) requested r
             then finish env ctx FAILED ''The ERP result failed provenance verification.'' s2
             else (case model_step rt env ctx query requested allow r s2 of
                 (Inl e, s3) \<Rightarrow> (Inl e, s3)
               | (Inr (status, message), s3) \<Rightarrow>
                   (Inr \<lparr>rr_status = status, rr_run_id = rc_run_id ctx, rr_trace_id = rc_trace_id ctx,
                         rr_agent_id = agent_id, rr_message = message, rr_source_id = tr_source_id r,
                         rr_observed_at = tr_observed_at r, rr_external_ref = tr_external_ref r\<rparr>,
                    emit env ctx (''run.'' @ run_status_value status)
                      [(''source_id'', str_or_none (tr_source_id r)),
                       (''external_ref'', str_or_none (tr_external_ref r)), tenant_entry ctx] s3)))"

definition or_default :: "string option \<Rightarrow> string \<Rightarrow> string" where
  "or_default x d = (case x of None \<Rightarrow> d | Some s \<Rightarrow> if s = [] then d else s)"

definition run_ctx_of ::
    "call_env \<Rightarrow> identity_context \<Rightarrow> string option \<Rightarrow> string option \<Rightarrow> run_ctx" where
  "run_ctx_of env identity request_id trace_id =
     \<lparr>rc_request_id = or_default request_id (''req-'' @ ce_request_uuid env),
      rc_trace_id = or_default trace_id (''trace-'' @ ce_trace_uuid env),
      rc_run_id = ''run-'' @ ce_run_uuid env, rc_identity = identity\<rparr>"

text \<open>The \<^verbatim>\<open>run.created\<close> and \<^verbatim>\<open>policy.decided\<close> events.\<close>

definition run_created :: "call_env \<Rightarrow> run_ctx \<Rightarrow> pyval \<Rightarrow> audit_log \<Rightarrow> rt_state" where
  "run_created env ctx query audit =
     emit env ctx ''run.created''
       [(''query_length'', VInt (case as_str query of None \<Rightarrow> 0 | Some q \<Rightarrow> int (length q))),
        (''intent'', VStr ''order_status''), tenant_entry ctx] (audit, 0)"

definition policy_decided :: "call_env \<Rightarrow> run_ctx \<Rightarrow> policy_decision \<Rightarrow> rt_state \<Rightarrow> rt_state" where
  "policy_decided env ctx decision s =
     emit env ctx ''policy.decided''
       [(''tool'', VStr tool_name), (''outcome'', VStr (pd_outcome decision)),
        (''reason'', VStr (pd_reason decision)),
        (''risk'', case pd_risk decision of None \<Rightarrow> VNone | Some r \<Rightarrow> VStr (risk_value r)),
        tenant_entry ctx] s"

definition run_body ::
    "agent_runtime \<Rightarrow> call_env \<Rightarrow> run_ctx \<Rightarrow> pyval \<Rightarrow> string option \<Rightarrow> bool \<Rightarrow> rt_state \<Rightarrow>
     (string + run_result) \<times> rt_state" where
  "run_body rt env ctx query order_id allow s =
     (case (as_str query, order_id) of
        (Some q, Some oid) \<Rightarrow>
          if blank q then finish env ctx BLOCKED ''A non-empty customer request is required.'' s
          else if blank oid
          then finish env ctx BLOCKED
                 ''Please provide an order ID so the authorized ERP record can be checked.'' s
          else
            let decision = authorize (art_policy rt) (rc_identity ctx) tool_name None;
                s1 = policy_decided env ctx decision s
            in if pd_outcome decision \<noteq> ''allow''
               then finish env ctx BLOCKED
                      ''This request is not authorized for the requested operation.'' s1
               else run_tool rt env ctx q oid allow s1
      | (None, _) \<Rightarrow> finish env ctx BLOCKED ''A non-empty customer request is required.'' s
      | (Some q, None) \<Rightarrow>
          if blank q then finish env ctx BLOCKED ''A non-empty customer request is required.'' s
          else finish env ctx BLOCKED
                 ''Please provide an order ID so the authorized ERP record can be checked.'' s)"

definition run ::
    "agent_runtime \<Rightarrow> call_env \<Rightarrow> pyval \<Rightarrow> identity_context \<Rightarrow> string option \<Rightarrow> string option \<Rightarrow>
     string option \<Rightarrow> bool \<Rightarrow> audit_log \<Rightarrow> (string + run_result) \<times> audit_log" where
  "run rt env query identity order_id request_id trace_id allow audit =
     (let ctx = run_ctx_of env identity request_id trace_id;
          out = run_body rt env ctx query order_id allow (run_created env ctx query audit)
      in (fst out, fst (snd out)))"

section \<open>The audit trail of one call\<close>

lemma dget_tenant_entry [simp]:
  "dget (tenant_entry ctx # d) k = (if k = ''tenant_id'' then VStr (tenant_id (rc_identity ctx)) else dget d k)"
  by (simp add: tenant_entry_def)

text \<open>An event of the call: its identifiers, workspace and tenant claim are those of the context.\<close>

definition ctx_event :: "run_ctx \<Rightarrow> audit_event \<Rightarrow> bool" where
  "ctx_event ctx e \<longleftrightarrow> ev_request_id e = rc_request_id ctx \<and> ev_trace_id e = rc_trace_id ctx \<and>
     ev_run_id e = rc_run_id ctx \<and> ev_workspace_id e = workspace_id (rc_identity ctx) \<and>
     ev_agent_id e = agent_id \<and> dget (ev_payload e) ''tenant_id'' = VStr (tenant_id (rc_identity ctx))"

definition terminal_types :: "string list" where
  "terminal_types = map (\<lambda>st. ''run.'' @ run_status_value st) [SUCCEEDED, PARTIAL_SUCCESS, BLOCKED, FAILED, CANCELLED]"

definition terminal :: "audit_event \<Rightarrow> bool" where
  "terminal e \<longleftrightarrow> ev_type e \<in> set terminal_types"

text \<open>The log grows by non-terminal events of the call.\<close>

definition steps :: "run_ctx \<Rightarrow> rt_state \<Rightarrow> rt_state \<Rightarrow> bool" where
  "steps ctx s s' \<longleftrightarrow>
     (\<exists>es. fst s' = fold audit_append es (fst s) \<and> (\<forall>e\<in>set es. ctx_event ctx e \<and> \<not> terminal e))"

lemma steps_refl [simp, intro]: "steps ctx s s"
  unfolding steps_def by (intro exI [of _ "[]"]) simp

lemma steps_trans [trans]:
  assumes "steps ctx s s'" "steps ctx s' s''"
  shows "steps ctx s s''"
proof -
  from assms obtain es es' where
    "fst s' = fold audit_append es (fst s)" "\<forall>e\<in>set es. ctx_event ctx e \<and> \<not> terminal e"
    "fst s'' = fold audit_append es' (fst s')" "\<forall>e\<in>set es'. ctx_event ctx e \<and> \<not> terminal e"
    unfolding steps_def by blast
  then show ?thesis
    unfolding steps_def by (intro exI [of _ "es @ es'"]) auto
qed

lemma not_terminal_type [simp]:
  "ty \<in> {''run.created'', ''policy.decided'', ''tool.completed'', ''model.blocked'', ''model.failed'',
     ''model.completed'', ''trace.export_failed''} \<Longrightarrow> ty \<notin> set terminal_types"
  by (auto simp: terminal_types_def)

lemma steps_emit:
  assumes "dget payload ''tenant_id'' = VStr (tenant_id (rc_identity ctx))"
    and "ty \<in> {''run.created'', ''policy.decided'', ''tool.completed'', ''model.blocked'', ''model.failed'',
     ''model.completed'', ''trace.export_failed''}"
  shows "steps ctx s (emit env ctx ty payload s)"
proof -
  have "ty \<notin> set terminal_types"
    using assms(2) by (rule not_terminal_type)
  then show ?thesis
    unfolding steps_def emit_def using assms(1)
    by (auto simp: ctx_event_def terminal_def intro!: exI [of _ "[_]"])
qed

lemma steps_export_span: "steps ctx s (export_span exporter env ctx tool r s)"
  unfolding export_span_def
  by (auto split: option.split intro!: steps_emit)

lemmas steps_spans = steps_export_span export_tool_span_def export_model_span_def

lemma steps_export_tool_span: "steps ctx s (export_tool_span exporter env ctx b s)"
  unfolding export_tool_span_def by (rule steps_export_span)

lemma steps_export_model_span: "steps ctx s (export_model_span exporter env ctx p m b s)"
  unfolding export_model_span_def by (rule steps_export_span)

lemma steps_model_failed: "steps ctx s (snd (model_failed rt mp env ctx e v s))"
  unfolding model_failed_def snd_conv
  by (rule steps_trans [OF steps_export_model_span steps_emit]) simp_all

lemma steps_model_completed:
  "steps ctx s (export_model_span ex env ctx p m True
     (emit env ctx ''model.completed'' [(''provider'', VStr p), (''model'', VStr m),
        (''external_processing_consent'', VBool True), tenant_entry ctx] s))"
  by (rule steps_trans [OF steps_emit steps_export_model_span]) simp_all

lemma steps_model_step: "steps ctx s (snd (model_step rt env ctx q requested allow r s))"
  unfolding model_step_def Let_def
  by (auto simp: steps_model_failed steps_model_completed intro!: steps_emit
      split: option.split provider_outcome.split prod.split)

text \<open>Every call that returns ends with exactly one terminal event.\<close>

definition ended :: "run_ctx \<Rightarrow> rt_state \<Rightarrow> (string + run_result) \<times> rt_state \<Rightarrow> bool" where
  "ended ctx s out \<longleftrightarrow>
     (\<forall>r. fst out = Inr r \<longrightarrow>
        (\<exists>s' e. steps ctx s s' \<and> fst (snd out) = audit_append e (fst s') \<and> ctx_event ctx e \<and>
           ev_type e = ''run.'' @ run_status_value (rr_status r) \<and> rr_run_id r = rc_run_id ctx \<and>
           rr_trace_id r = rc_trace_id ctx \<and> rr_agent_id r = agent_id))"

lemma ended_steps: "steps ctx s s' \<Longrightarrow> ended ctx s' out \<Longrightarrow> ended ctx s out"
  unfolding ended_def by (meson steps_trans)

lemma endedI:
  assumes "steps ctx s s'" "dget p ''tenant_id'' = VStr (tenant_id (rc_identity ctx))"
    and "ty = ''run.'' @ run_status_value (rr_status r)"
    and "rr_run_id r = rc_run_id ctx" "rr_trace_id r = rc_trace_id ctx" "rr_agent_id r = agent_id"
  shows "ended ctx s (Inr r, emit env ctx ty p s')"
proof -
  obtain e where "fst (emit env ctx ty p s') = audit_append e (fst s')" "ctx_event ctx e" "ev_type e = ty"
    using assms(2) by (simp add: emit_def ctx_event_def)
  with assms show ?thesis
    unfolding ended_def fst_conv snd_conv by (intro allI impI exI [of _ s'] exI [of _ e]) auto
qed

lemma ended_finish: "ended ctx s (finish env ctx st m s)"
  unfolding finish_def by (rule endedI) auto

lemma steps_tool_completed: "steps ctx s (tool_completed rt env ctx requested r s)"
  unfolding tool_completed_def
  by (rule steps_trans [OF steps_export_tool_span steps_emit])
    (simp_all add: tool_completed_payload_def)

lemma ended_model:
  "ended ctx s (case model_step rt env ctx q requested allow r s of
       (Inl e, s3) \<Rightarrow> (Inl e, s3)
     | (Inr (status, message), s3) \<Rightarrow>
         (Inr \<lparr>rr_status = status, rr_run_id = rc_run_id ctx, rr_trace_id = rc_trace_id ctx,
               rr_agent_id = agent_id, rr_message = message, rr_source_id = src,
               rr_observed_at = obs, rr_external_ref = ext\<rparr>,
          emit env ctx (''run.'' @ run_status_value status) [(''source_id'', v), (''external_ref'', w), tenant_entry ctx] s3))"
proof -
  obtain res s3 where ms: "model_step rt env ctx q requested allow r s = (res, s3)"
    by (rule prod.exhaust)
  then have s3: "steps ctx s s3"
    using steps_model_step [of ctx s rt env q requested allow r] by simp
  show ?thesis
  proof (cases res)
    case (Inl e)
    then show ?thesis using ms by (simp add: ended_def)
  next
    case (Inr sm)
    then show ?thesis using ms s3 by (cases sm) (auto intro!: endedI)
  qed
qed

lemma ended_run_tool: "ended ctx s (run_tool rt env ctx q oid allow s)"
proof (cases "art_call rt (tool_request ctx oid)")
  case (Inl e)
  then show ?thesis by (simp add: run_tool_def ended_def)
next
  case (Inr r)
  let ?s2 = "tool_completed rt env ctx (strip oid) r s"
  have "ended ctx ?s2 (run_tool rt env ctx q oid allow s)"
    using Inr by (simp add: run_tool_def Let_def ended_finish ended_model)
  then show ?thesis using steps_tool_completed by (rule ended_steps [rotated])
qed

lemma steps_policy_decided: "steps ctx s (policy_decided env ctx d s)"
  unfolding policy_decided_def by (rule steps_emit) simp_all

lemma ended_run_body: "ended ctx s (run_body rt env ctx query order_id allow s)"
  unfolding run_body_def Let_def
  by (auto simp: ended_finish split: option.split
      intro: ended_steps [OF steps_policy_decided ended_finish] ended_steps [OF steps_policy_decided ended_run_tool])

section \<open>Case analysis of a call\<close>

text \<open>The request passes every gate in front of the tool.\<close>

definition admitted :: "policy_engine \<Rightarrow> pyval \<Rightarrow> identity_context \<Rightarrow> string option \<Rightarrow> bool" where
  "admitted pe query identity order_id \<longleftrightarrow>
     nonblank (as_str query) \<and> nonblank order_id \<and>
     pd_outcome (authorize pe identity tool_name None) = ''allow''"

lemma rc_identity_run_ctx_of [simp]: "rc_identity (run_ctx_of env i rq tr) = i"
  by (simp add: run_ctx_of_def)

lemma run_body_admitted:
  assumes "admitted (art_policy rt) query (rc_identity ctx) order_id"
  obtains q oid s1 where "as_str query = Some q" "order_id = Some oid" "steps ctx s s1"
    "run_body rt env ctx query order_id allow s = run_tool rt env ctx q oid allow s1"
    "\<And>rt'. art_policy rt' = art_policy rt \<Longrightarrow>
       run_body rt' env ctx query order_id allow s = run_tool rt' env ctx q oid allow s1"
proof -
  from assms obtain q oid where qo: "as_str query = Some q" "order_id = Some oid" "\<not> blank q" "\<not> blank oid"
    by (auto simp: admitted_def nonblank_def split: option.splits)
  show ?thesis
    by (rule that [OF qo(1,2) steps_policy_decided
          [of ctx s env "authorize (art_policy rt) (rc_identity ctx) tool_name None"]])
      (use assms qo in \<open>auto simp: run_body_def admitted_def Let_def\<close>)
qed

lemma run_body_blocked:
  assumes "\<not> admitted (art_policy rt) query (rc_identity ctx) order_id"
  shows "\<exists>m s1. \<forall>rt'. art_policy rt' = art_policy rt \<longrightarrow>
       run_body rt' env ctx query order_id allow s = finish env ctx BLOCKED m s1"
proof -
  let ?d = "authorize (art_policy rt) (rc_identity ctx) tool_name None"
  consider "\<not> nonblank (as_str query)" | "nonblank (as_str query)" "\<not> nonblank order_id"
    | "nonblank (as_str query)" "nonblank order_id" "pd_outcome ?d \<noteq> ''allow''"
    using assms by (auto simp: admitted_def)
  then show ?thesis
  proof cases
    case 1
    then show ?thesis
      by (intro exI [of _ "''A non-empty customer request is required.''"] exI [of _ s])
        (auto simp: run_body_def nonblank_def split: option.splits)
  next
    case 2
    then show ?thesis
      by (intro exI [of _ "''Please provide an order ID so the authorized ERP record can be checked.''"] exI [of _ s])
        (auto simp: run_body_def nonblank_def split: option.splits)
  next
    case 3
    then show ?thesis
      by (intro exI [of _ "''This request is not authorized for the requested operation.''"]
          exI [of _ "policy_decided env ctx ?d s"])
        (auto simp: run_body_def nonblank_def Let_def split: option.splits)
  qed
qed

lemma model_step_result:
  assumes "model_step rt env ctx q requested allow r s = (Inr (st, m), s')"
  shows "st \<in> {SUCCEEDED, PARTIAL_SUCCESS} \<and> startswith m (verified_message requested r)"
  using assms unfolding model_step_def model_failed_def Let_def
  by (auto simp: startswith_def split: option.splits if_splits provider_outcome.splits)

text \<open>The results of the tool stage, by the answer of the gateway.\<close>

lemma run_tool_unverified:
  assumes "art_call rt (tool_request ctx oid) = Inr r"
    and "\<not> provenance_verified (rc_identity ctx) (strip oid) r"
  obtains m where "run_tool rt env ctx q oid allow s =
    finish env ctx FAILED m (tool_completed rt env ctx (strip oid) r s)"
  using assms by (cases "tr_success r") (auto simp: run_tool_def Let_def intro: that)

lemma run_tool_verified:
  assumes "art_call rt (tool_request ctx oid) = Inr r"
    and "provenance_verified (rc_identity ctx) (strip oid) r"
    and "fst (run_tool rt env ctx q oid allow s) = Inr res"
  shows "rr_status res \<in> {SUCCEEDED, PARTIAL_SUCCESS} \<and> startswith (rr_message res) (verified_message (strip oid) r) \<and>
    rr_source_id res = tr_source_id r \<and> rr_observed_at res = tr_observed_at r \<and>
    rr_external_ref res = Some (strip oid)"
proof -
  have ok: "tr_success r" "tr_external_ref r = Some (strip oid)"
    using assms(2) by (simp_all add: provenance_verified_def)
  obtain x s3 where ms: "model_step rt env ctx q (strip oid) allow r (tool_completed rt env ctx (strip oid) r s) = (x, s3)"
    by (rule prod.exhaust)
  with assms ok obtain st m where x: "x = Inr (st, m)"
    by (cases x) (auto simp: run_tool_def Let_def)
  from model_step_result [OF ms [unfolded x]] assms ok ms x show ?thesis
    by (auto simp: run_tool_def Let_def)
qed

lemma run_tool_raises:
  "art_call rt (tool_request ctx oid) = Inl e \<Longrightarrow> run_tool rt env ctx q oid allow s = (Inl e, s)"
  by (simp add: run_tool_def)

lemma finish_status:
  "fst (finish env ctx st m s) = Inr r \<Longrightarrow> rr_status r = st"
  by (auto simp: finish_def)

text \<open>The provider's completion function replaced by another one.\<close>

definition with_complete ::
    "(string \<Rightarrow> (string, string) dict \<Rightarrow> string \<Rightarrow> string \<Rightarrow> string \<Rightarrow> provider_outcome) \<Rightarrow>
     agent_runtime \<Rightarrow> agent_runtime" where
  "with_complete f rt = rt\<lparr>art_model := map_option (\<lambda>mp. mp\<lparr>mp_complete := f\<rparr>) (art_model rt)\<rparr>"

lemma with_complete_simps [simp]:
  "art_policy (with_complete f rt) = art_policy rt" "art_call (with_complete f rt) = art_call rt"
  "art_exporter (with_complete f rt) = art_exporter rt"
  by (simp_all add: with_complete_def)

lemma model_step_no_consent:
  "model_step (with_complete f rt) env ctx q requested False r s = model_step rt env ctx q requested False r s"
  by (cases "art_model rt") (simp_all add: model_step_def with_complete_def)

lemma run_tool_no_consent: "run_tool (with_complete f rt) env ctx q oid False s = run_tool rt env ctx q oid False s"
  by (cases "art_call rt (tool_request ctx oid)")
    (simp_all add: run_tool_def tool_completed_def model_step_no_consent Let_def)

lemma run_tool_unverified_model:
  assumes "\<And>r. art_call rt (tool_request ctx oid) = Inr r \<Longrightarrow> \<not> provenance_verified (rc_identity ctx) (strip oid) r"
  shows "run_tool (with_complete f rt) env ctx q oid allow s = run_tool rt env ctx q oid allow s"
proof (cases "art_call rt (tool_request ctx oid)")
  case (Inl e)
  then show ?thesis by (simp add: run_tool_raises)
next
  case (Inr r)
  with assms show ?thesis
    by (cases "tr_success r") (simp_all add: run_tool_def Let_def tool_completed_def)
qed

section \<open>Properties\<close>

text \<open>
  C2. Nothing runs before the gates: if the query or the order id is missing or blank, or the policy
  does not allow the call, then the run is blocked, and its result and its whole audit trail are the
  same whatever the gateway, the trace exporter and the model provider would do, so none of them is
  consulted.
\<close>

theorem run_blocked_before_tools:
  assumes "\<not> admitted (art_policy rt) query identity order_id"
  shows "(\<exists>r. fst (run rt env query identity order_id rq tr allow audit) = Inr r \<and> rr_status r = BLOCKED \<and>
       rr_source_id r = None \<and> rr_external_ref r = None) \<and>
    run (rt\<lparr>art_call := call', art_exporter := exporter', art_model := model'\<rparr>) env query identity order_id rq tr
       allow audit =
    run rt env query identity order_id rq tr allow audit"
proof -
  let ?ctx = "run_ctx_of env identity rq tr"
  obtain m s1 where b: "\<And>rt'. art_policy rt' = art_policy rt \<Longrightarrow>
      run_body rt' env ?ctx query order_id allow (run_created env ?ctx query audit) = finish env ?ctx BLOCKED m s1"
    using run_body_blocked [of rt query ?ctx order_id env allow "run_created env ?ctx query audit"] assms by auto
  have 1: "run_body rt env ?ctx query order_id allow (run_created env ?ctx query audit) = finish env ?ctx BLOCKED m s1"
    by (rule b) simp
  have 2: "run_body (rt\<lparr>art_call := call', art_exporter := exporter', art_model := model'\<rparr>) env ?ctx query order_id
      allow (run_created env ?ctx query audit) = finish env ?ctx BLOCKED m s1"
    by (rule b) simp
  show ?thesis
    unfolding run_def Let_def 1 2 by (simp add: finish_def)
qed

text \<open>
  What a verified answer must say, independently of how the runtime checks it: it is a success of the caller's
  workspace and tenant about the requested order, from a named source at a stated time, and its data name no other
  tenant.
\<close>

definition answers_for :: "identity_context \<Rightarrow> string \<Rightarrow> tool_result \<Rightarrow> bool" where
  "answers_for identity order r \<longleftrightarrow>
     tr_success r \<and> (tr_workspace_id r, tr_tenant_id r) = (Some (workspace_id identity), Some (tenant_id identity)) \<and>
     tr_external_ref r = Some order \<and> dget (result_data r) ''order_id'' = VStr order \<and>
     dget (result_data r) ''tenant_id'' \<in> {VNone, VStr (tenant_id identity)} \<and>
     (\<exists>source time. tr_source_id r = Some source \<and> \<not> blank source \<and> tr_observed_at r = Some time \<and> \<not> blank time)"

lemma provenance_answers_for: "provenance_verified identity order r \<Longrightarrow> answers_for identity order r"
  by (auto simp: provenance_verified_def answers_for_def nonblank_def split: option.splits)

text \<open>
  C1. The status of a run is decided by the gates and the verified answer of the gateway alone: a
  returned run is blocked exactly when a gate fails, failed exactly when the gateway's answer to the
  request does not pass provenance verification, and (partially) successful exactly when it does; the
  answer behind a success is one of the caller's workspace and tenant about the requested order; a
  successful result cites its source, observation time and order, and its message
  starts with the sentence built from the verified answer. The runtime never reports a cancelled run.
\<close>

theorem run_status_verified:
  assumes "run rt env query identity (Some oid) rq tr allow audit = (Inr res, audit')"
  shows "(rr_status res = BLOCKED) = (\<not> admitted (art_policy rt) query identity (Some oid)) \<and>
    (rr_status res = FAILED) =
      (admitted (art_policy rt) query identity (Some oid) \<and>
       (\<exists>r. art_call rt (tool_request (run_ctx_of env identity rq tr) oid) = Inr r \<and>
            \<not> provenance_verified identity (strip oid) r)) \<and>
    (rr_status res \<in> {SUCCEEDED, PARTIAL_SUCCESS}) =
      (admitted (art_policy rt) query identity (Some oid) \<and>
       (\<exists>r. art_call rt (tool_request (run_ctx_of env identity rq tr) oid) = Inr r \<and>
            provenance_verified identity (strip oid) r \<and> answers_for identity (strip oid) r \<and>
            startswith (rr_message res) (verified_message (strip oid) r) \<and>
            rr_source_id res = tr_source_id r \<and> rr_observed_at res = tr_observed_at r \<and>
            rr_external_ref res = Some (strip oid))) \<and>
    rr_status res \<noteq> CANCELLED"
proof -
  let ?ctx = "run_ctx_of env identity rq tr"
  let ?s = "run_created env ?ctx query audit"
  have body: "fst (run_body rt env ?ctx query (Some oid) allow ?s) = Inr res"
    using assms by (simp add: run_def Let_def)
  show ?thesis
  proof (cases "admitted (art_policy rt) query identity (Some oid)")
    case False
    then obtain m s1 where "run_body rt env ?ctx query (Some oid) allow ?s = finish env ?ctx BLOCKED m s1"
      using run_body_blocked [of rt query ?ctx "Some oid" env allow ?s] by auto
    with body have "rr_status res = BLOCKED" by (auto simp: finish_def)
    with False show ?thesis by simp
  next
    case True
    then obtain q s1 where rb: "run_body rt env ?ctx query (Some oid) allow ?s = run_tool rt env ?ctx q oid allow s1"
      using run_body_admitted [of rt query ?ctx "Some oid" ?s env allow thesis] by auto
    show ?thesis
    proof (cases "art_call rt (tool_request ?ctx oid)")
      case (Inl e)
      with rb body show ?thesis by (simp add: run_tool_raises)
    next
      case (Inr r)
      show ?thesis
      proof (cases "provenance_verified identity (strip oid) r")
        case False
        then obtain m where "run_tool rt env ?ctx q oid allow s1 =
            finish env ?ctx FAILED m (tool_completed rt env ?ctx (strip oid) r s1)"
          using run_tool_unverified [OF Inr, of env q allow s1 thesis] by auto
        with rb body have "rr_status res = FAILED" by (auto simp: finish_def)
        with True False Inr show ?thesis by simp
      next
        case prov: True
        have "rr_status res \<in> {SUCCEEDED, PARTIAL_SUCCESS} \<and>
            startswith (rr_message res) (verified_message (strip oid) r) \<and>
            rr_source_id res = tr_source_id r \<and> rr_observed_at res = tr_observed_at r \<and>
            rr_external_ref res = Some (strip oid)"
          by (rule run_tool_verified [OF Inr]) (use prov rb body in simp_all)
        with True prov provenance_answers_for [OF prov] Inr show ?thesis by auto
      qed
    qed
  qed
qed

text \<open>
  C4. Consent and minimal disclosure: the external model is never called without the caller's consent,
  nor for a request that did not pass the gates, nor on an answer that failed provenance verification.
  In each of these cases the result and the audit trail of the run do not depend on what the model would
  answer.
\<close>

theorem run_model_needs_consent_and_evidence:
  assumes "\<not> allow \<or> \<not> admitted (art_policy rt) query identity (Some oid) \<or>
     (\<forall>r. art_call rt (tool_request (run_ctx_of env identity rq tr) oid) = Inr r \<longrightarrow>
          \<not> provenance_verified identity (strip oid) r)"
  shows "run (with_complete f rt) env query identity (Some oid) rq tr allow audit =
    run rt env query identity (Some oid) rq tr allow audit"
proof -
  let ?ctx = "run_ctx_of env identity rq tr"
  let ?s = "run_created env ?ctx query audit"
  have "run_body (with_complete f rt) env ?ctx query (Some oid) allow ?s =
      run_body rt env ?ctx query (Some oid) allow ?s"
  proof (cases "admitted (art_policy rt) query identity (Some oid)")
    case False
    then show ?thesis
      using run_body_blocked [of rt query ?ctx "Some oid" env allow ?s] by auto
  next
    case True
    then obtain q s1 where
      "\<And>rt'. art_policy rt' = art_policy rt \<Longrightarrow>
         run_body rt' env ?ctx query (Some oid) allow ?s = run_tool rt' env ?ctx q oid allow s1"
      using run_body_admitted [of rt query ?ctx "Some oid" ?s env allow thesis] by auto
    moreover have "run_tool (with_complete f rt) env ?ctx q oid allow s1 = run_tool rt env ?ctx q oid allow s1"
      using assms True by (cases allow) (auto simp: run_tool_no_consent intro!: run_tool_unverified_model)
    ultimately show ?thesis by simp
  qed
  then show ?thesis by (simp add: run_def)
qed

text \<open>
  C5. The audit trail of a returned run is complete and scoped: the log only grows; the new events start
  with \<^verbatim>\<open>run.created\<close> and end with the one terminal event, whose type is the status that is returned; and
  every one of them carries the request, trace and run identifiers of the call, the caller's workspace
  and the caller's tenant.
\<close>

theorem run_audit_trail:
  assumes "run rt env query identity order_id rq tr allow audit = (Inr res, audit')"
  shows "\<exists>e0 es e. audit' = fold audit_append (e0 # es @ [e]) audit \<and> ev_type e0 = ''run.created'' \<and>
    ev_type e = ''run.'' @ run_status_value (rr_status res) \<and>
    list_all (ctx_event (run_ctx_of env identity rq tr)) (e0 # es @ [e]) \<and>
    list_all (\<lambda>x. \<not> terminal x) (e0 # es) \<and>
    rr_run_id res = rc_run_id (run_ctx_of env identity rq tr)"
proof -
  let ?ctx = "run_ctx_of env identity rq tr"
  let ?s = "run_created env ?ctx query audit"
  obtain e0 where e0: "fst ?s = audit_append e0 audit" "ev_type e0 = ''run.created''" "ctx_event ?ctx e0"
    by (simp add: run_created_def emit_def ctx_event_def)
  have "\<not> terminal e0"
    unfolding terminal_def e0(2) by (rule not_terminal_type) simp
  have "ended ?ctx ?s (run_body rt env ?ctx query order_id allow ?s)"
    by (rule ended_run_body)
  with assms obtain s' e where s': "steps ?ctx ?s s'" "audit' = audit_append e (fst s')" "ctx_event ?ctx e"
      "ev_type e = ''run.'' @ run_status_value (rr_status res)" "rr_run_id res = rc_run_id ?ctx"
    by (auto simp: run_def Let_def ended_def)
  then obtain es where "fst s' = fold audit_append es (fst ?s)" "\<forall>e\<in>set es. ctx_event ?ctx e \<and> \<not> terminal e"
    by (auto simp: steps_def)
  with s' e0 \<open>\<not> terminal e0\<close> show ?thesis
    by (intro exI [of _ e0] exI [of _ es] exI [of _ e]) (auto simp: list_all_iff)
qed

text \<open>
  A run always returns when its collaborators behave: if the gateway returns and the model provider
  raises nothing but its own error, then \<^verbatim>\<open>run\<close> returns a result; a failing trace exporter and a failing
  model never turn a verified answer into an exception.
\<close>

lemma run_returns:
  assumes "\<exists>r. art_call rt (tool_request (run_ctx_of env identity rq tr) oid) = Inr r"
    and "\<forall>mp q ev a b c x. art_model rt = Some mp \<longrightarrow> mp_complete mp q ev a b c \<noteq> Other_exception x"
  shows "\<exists>res audit'. run rt env query identity (Some oid) rq tr allow audit = (Inr res, audit')"
proof -
  let ?ctx = "run_ctx_of env identity rq tr"
  let ?s = "run_created env ?ctx query audit"
  obtain r where r: "art_call rt (tool_request ?ctx oid) = Inr r" using assms(1) by blast
  have ms: "\<exists>sm s'. model_step rt env ?ctx q (strip oid) allow r s = (Inr sm, s')" for q s
    using assms(2) unfolding model_step_def model_failed_def Let_def
    by (auto split: option.split provider_outcome.split)
  have rt: "\<exists>res. fst (run_tool rt env ?ctx q oid allow s) = Inr res" for q s
    using ms [of q "tool_completed rt env ?ctx (strip oid) r s"] r
    by (cases "tr_success r"; cases "provenance_verified (rc_identity ?ctx) (strip oid) r")
      (auto simp: run_tool_def Let_def finish_def)
  have "\<exists>res. fst (run_body rt env ?ctx query (Some oid) allow ?s) = Inr res"
  proof (cases "admitted (art_policy rt) query identity (Some oid)")
    case False
    then show ?thesis
      using run_body_blocked [of rt query ?ctx "Some oid" env allow ?s] by (auto simp: finish_def)
  next
    case True
    then obtain q s1 where "run_body rt env ?ctx query (Some oid) allow ?s = run_tool rt env ?ctx q oid allow s1"
      using run_body_admitted [of rt query ?ctx "Some oid" ?s env allow thesis] by auto
    with rt show ?thesis by simp
  qed
  then show ?thesis by (simp add: run_def Let_def)
qed

section \<open>The runtime over the in-memory gateway\<close>

definition with_gateway :: "in_memory_gateway \<Rightarrow> string \<Rightarrow> agent_runtime \<Rightarrow> agent_runtime" where
  "with_gateway g now rt = rt\<lparr>art_call := \<lambda>request. Inr (in_memory_call g now request)\<rparr>"

lemma with_gateway_simps [simp]:
  "art_policy (with_gateway g now rt) = art_policy rt" "art_exporter (with_gateway g now rt) = art_exporter rt"
  "art_model (with_gateway g now rt) = art_model rt"
  "art_call (with_gateway g now rt) request = Inr (in_memory_call g now request)"
  by (simp_all add: with_gateway_def)

lemma model_step_with_gateway [simp]:
  "model_step (with_gateway g now rt) env ctx q requested allow r s = model_step rt env ctx q requested allow r s"
  unfolding model_step_def model_failed_def with_gateway_simps by (rule refl)

lemma tool_completed_with_gateway [simp]:
  "tool_completed (with_gateway g now rt) env ctx requested r s = tool_completed rt env ctx requested r s"
  by (simp add: tool_completed_def)

lemma run_tool_with_gateway_cong:
  assumes "in_memory_call g now (tool_request ctx oid) = in_memory_call g' now (tool_request ctx oid)"
  shows "run_tool (with_gateway g now rt) env ctx q oid allow s = run_tool (with_gateway g' now rt) env ctx q oid allow s"
  using assms by (simp add: run_tool_def Let_def)

text \<open>
  C3. End-to-end tenant isolation: over the in-memory ERP, the result and the audit trail of a run are
  unchanged when every order of every other tenant is removed from the order book. No response, message
  or audit event can reveal whether another tenant has an order with the requested identifier.
\<close>

theorem run_tenant_noninterference:
  "run (with_gateway (only_tenant (tenant_id identity) g) now rt) env query identity order_id rq tr allow audit =
   run (with_gateway g now rt) env query identity order_id rq tr allow audit"
proof -
  let ?ctx = "run_ctx_of env identity rq tr"
  have "in_memory_call (only_tenant (tenant_id identity) g) now (tool_request ?ctx oid) =
      in_memory_call g now (tool_request ?ctx oid)" for oid
    using in_memory_call_only_tenant [of "tool_request ?ctx oid" g now] by (simp add: tool_request_def)
  then have "run_tool (with_gateway (only_tenant (tenant_id identity) g) now rt) env ?ctx q oid allow s =
      run_tool (with_gateway g now rt) env ?ctx q oid allow s" for q oid s
    by (rule run_tool_with_gateway_cong)
  then show ?thesis
    by (simp add: run_def run_body_def Let_def split: option.split)
qed

lemma found_order_tool_request:
  "found_order g (tool_request ctx oid) x order \<longleftrightarrow>
     x = strip oid \<and> map_of (mg_definitions g) tool_name \<noteq> None \<and> order_id_pattern (strip oid) \<and>
     map_of (mg_orders g) (tenant_id (rc_identity ctx), x) = Some order"
  by (auto simp: found_order_def tool_request_def order_schema_def)

lemma map_of_VStr: "map_of (map (map_prod id VStr) order) k = map_option VStr (map_of order k)"
  by (induction order) auto

lemma dget_order: "dget (map (map_prod id VStr) order) k = str_or_none (map_of order k)"
  by (simp add: dget_def map_of_VStr str_or_none_def split: option.split)

lemma provenance_order_result:
  assumes "map_of order ''order_id'' = Some oid" "map_of order ''status'' = Some st" "\<not> blank st"
    "length st \<le> 256" "map_of order ''tenant_id'' \<in> {None, Some (tenant_id (tc_identity request))}" "\<not> blank now"
  shows "provenance_verified (tc_identity request) oid (order_result request now oid order)"
  using assms by (auto simp: provenance_verified_def order_result_def result_data_def dget_order nonblank_def
      returned_status_def str_or_none_def max_status_length_def is_space_def code_def)

text \<open>
  The order-status flow works: over the in-memory ERP with no model configured, an admitted request
  for a well-formed order id that exists under the caller's tenant, with a non-blank status of at most 256
  characters, succeeds, and the message tells the order's status and the observation time.
\<close>

lemma run_order_status:
  assumes "admitted (art_policy rt) query identity (Some oid)" "art_model rt = None"
    and "map_of (mg_definitions g) ''erp.get_order_status'' \<noteq> None" "order_id_pattern (strip oid)"
    and "map_of (mg_orders g) (tenant_id identity, strip oid) = Some order"
    and "map_of order ''order_id'' = Some (strip oid)" "map_of order ''status'' = Some st" "\<not> blank st"
    and "length st \<le> 256" "map_of order ''tenant_id'' \<in> {None, Some (tenant_id identity)}" "\<not> blank now"
  shows "\<exists>res audit'. run (with_gateway g now rt) env query identity (Some oid) rq tr allow audit = (Inr res, audit') \<and>
    rr_status res = SUCCEEDED \<and> rr_external_ref res = Some (strip oid) \<and>
    rr_message res = ''Order '' @ strip oid @ '' is '' @ st @ ''. Observed at '' @ now @ ''.''"
proof -
  let ?ctx = "run_ctx_of env identity rq tr" and ?rt = "with_gateway g now rt"
  let ?res = "order_result (tool_request ?ctx oid) now (strip oid) order"
  have call: "in_memory_call g now (tool_request ?ctx oid) = ?res"
    by (rule in_memory_call_found) (use assms(3-5) in \<open>simp add: found_order_tool_request tool_name_def\<close>)
  have prov: "provenance_verified identity (strip oid) ?res"
    using provenance_order_result [of order "strip oid" st "tool_request ?ctx oid" now] assms(6-11)
    by (simp add: tool_request_def)
  have msg: "verified_message (strip oid) ?res = ''Order '' @ strip oid @ '' is '' @ st @ ''. Observed at '' @ now @ ''.''"
    using assms(7) by (simp add: verified_message_def returned_status_def result_data_def order_result_def
        dget_order str_or_none_def)
  obtain q s1 where "run_body ?rt env ?ctx query (Some oid) allow (run_created env ?ctx query audit) =
      run_tool ?rt env ?ctx q oid allow s1"
    using run_body_admitted [of ?rt query ?ctx "Some oid" "run_created env ?ctx query audit" env allow thesis] assms(1)
    by auto
  moreover have "tr_success ?res" "tr_external_ref ?res = Some (strip oid)" by (simp_all add: order_result_def)
  ultimately show ?thesis
    using call prov msg assms(2) by (simp add: run_def Let_def run_tool_def model_step_def)
qed


section \<open>A concrete call\<close>

text \<open>
  A support agent of tenant \<^verbatim>\<open>t1\<close> asks for an order of its own tenant; the model provider that is
  configured always fails. The witnesses evaluate the definitions on this call.
\<close>

definition demo_identity :: identity_context where
  "demo_identity = \<lparr>user_id = ''u1'', workspace_id = ''w1'', tenant_id = ''t1'', role = ''support''\<rparr>"

definition demo_order :: "(string, string) dict" where
  "demo_order = [(''order_id'', ''SO-1''), (''status'', ''open'')]"

definition demo_gateway :: in_memory_gateway where
  "demo_gateway = in_memory_gateway_init [((''t1'', ''SO-1''), demo_order)]"

definition demo_model :: model_provider where
  "demo_model = \<lparr>mp_provider_id = ''p'', mp_model = ''m'',
     mp_complete = \<lambda>_ _ _ _ _. Model_provider_error ''ModelProviderError''\<rparr>"

definition demo_rt :: agent_runtime where
  "demo_rt = with_gateway demo_gateway ''2026''
     \<lparr>art_policy = policy_engine_init (mg_definitions demo_gateway) None,
      art_call = \<lambda>_. Inl ''ConnectionError'', art_exporter = None, art_model = Some demo_model\<rparr>"

definition demo_env :: call_env where
  "demo_env = \<lparr>ce_request_uuid = ''1'', ce_trace_uuid = ''2'', ce_run_uuid = ''3'', ce_utc = \<lambda>_. ''2026'',
     ce_sha256 = id, ce_tool_span = ''s'', ce_tool_started = 0, ce_tool_ended = 1, ce_model_span = ''m'',
     ce_model_started = 1, ce_model_ended = 2\<rparr>"

definition demo_audit :: audit_log where
  "demo_audit = \<lparr>al_events = [], al_store = None\<rparr>"

lemma demo_policy [simp]: "art_policy demo_rt = policy_engine_init (mg_definitions demo_gateway) None"
  by (simp add: demo_rt_def)

lemma demo_admitted:
  "admitted (policy_engine_init (mg_definitions demo_gateway) None) (VStr ''Where?'') demo_identity (Some '' SO-1'')"
  by (simp add: admitted_def nonblank_def is_space_def code_def authorize_def complete_identity_def demo_identity_def
      demo_gateway_def in_memory_gateway_init_def policy_engine_init_def default_role_allowlist_def tool_name_def)

lemma demo_blocked:
  "\<not> admitted (policy_engine_init (mg_definitions demo_gateway) None) (VStr ''Where?'') demo_identity None"
  by (simp add: admitted_def nonblank_def)

lemma demo_call: "art_call demo_rt request = Inr (in_memory_call demo_gateway ''2026'' request)"
  by (simp add: demo_rt_def)

lemma demo_model_simp: "art_model demo_rt = Some demo_model"
  by (simp add: demo_rt_def)

lemma demo_run_returns:
  "\<exists>res audit'. run demo_rt demo_env (VStr ''Where?'') demo_identity (Some '' SO-1'') None None True demo_audit = (Inr res, audit')"
proof -
  have "\<exists>res. fst (run_tool demo_rt demo_env ctx q oid True s) = Inr res" for ctx q oid s
    by (simp add: run_tool_def demo_call Let_def model_step_def demo_model_simp demo_model_def model_failed_def finish_def)
  moreover obtain q s1 where
    "run_body demo_rt demo_env (run_ctx_of demo_env demo_identity None None) (VStr ''Where?'') (Some '' SO-1'') True
       (run_created demo_env (run_ctx_of demo_env demo_identity None None) (VStr ''Where?'') demo_audit) =
     run_tool demo_rt demo_env (run_ctx_of demo_env demo_identity None None) q '' SO-1'' True s1"
    using demo_admitted run_body_admitted [of demo_rt "VStr ''Where?''" "run_ctx_of demo_env demo_identity None None"
        "Some '' SO-1''" "run_created demo_env (run_ctx_of demo_env demo_identity None None) (VStr ''Where?'') demo_audit"
        demo_env True thesis] by auto
  ultimately show ?thesis by (simp add: run_def Let_def)
qed

theorem run_blocked_before_tools_witness:
  "run (demo_rt\<lparr>art_call := \<lambda>_. Inl ''ConnectionError'', art_exporter := None, art_model := None\<rparr>) demo_env
     (VStr ''Where?'') demo_identity None None None True demo_audit =
   run demo_rt demo_env (VStr ''Where?'') demo_identity None None None True demo_audit"
  using run_blocked_before_tools [of demo_rt "VStr ''Where?''" demo_identity None demo_env None None True demo_audit]
    demo_blocked by simp

theorem run_status_verified_witness:
  "\<exists>res audit'. run demo_rt demo_env (VStr ''Where?'') demo_identity (Some '' SO-1'') None None True demo_audit =
     (Inr res, audit') \<and> rr_status res \<noteq> BLOCKED \<and> rr_status res \<noteq> CANCELLED"
  using demo_run_returns run_status_verified [of demo_rt demo_env "VStr ''Where?''" demo_identity "'' SO-1''" None None
      True demo_audit] demo_admitted by auto

theorem run_model_needs_consent_and_evidence_witness:
  "run (with_complete (\<lambda>_ _ _ _ _. Not_a_completion) demo_rt) demo_env (VStr ''Where?'') demo_identity
     (Some '' SO-1'') None None False demo_audit =
   run demo_rt demo_env (VStr ''Where?'') demo_identity (Some '' SO-1'') None None False demo_audit"
  by (rule run_model_needs_consent_and_evidence) simp

theorem run_audit_trail_witness:
  "\<exists>res audit' e0 es e. run demo_rt demo_env (VStr ''Where?'') demo_identity (Some '' SO-1'') None None True demo_audit =
     (Inr res, audit') \<and> audit' = fold audit_append (e0 # es @ [e]) demo_audit \<and> ev_type e0 = ''run.created'' \<and>
     ev_type e = ''run.'' @ run_status_value (rr_status res)"
  using demo_run_returns run_audit_trail [of demo_rt demo_env "VStr ''Where?''" demo_identity "Some '' SO-1''" None None
      True demo_audit] by metis

lemma run_returns_witness:
  "\<exists>res audit'. run demo_rt demo_env (VStr ''Where?'') demo_identity (Some '' SO-1'') None None True demo_audit = (Inr res, audit')"
  by (rule run_returns) (simp_all add: demo_call demo_model_simp demo_model_def)

lemma run_order_status_witness:
  "\<exists>res audit'. run (with_gateway demo_gateway ''2026'' (demo_rt\<lparr>art_model := None\<rparr>)) demo_env (VStr ''Where?'')
     demo_identity (Some '' SO-1'') None None True demo_audit = (Inr res, audit') \<and> rr_status res = SUCCEEDED \<and>
     rr_external_ref res = Some (strip '' SO-1'') \<and>
     rr_message res = ''Order '' @ strip '' SO-1'' @ '' is '' @ ''open'' @ ''. Observed at '' @ ''2026'' @ ''.''"
  by (rule run_order_status [where order = demo_order])
    (use demo_admitted in \<open>simp, simp_all add: demo_gateway_def in_memory_gateway_init_def demo_identity_def demo_order_def
      order_id_pattern_def match_head_tail_def is_digit_def is_upper_def code_def is_space_def strip_def\<close>)

end
