(* ===== verification/Schedule_Worker.thy ===== *)
theory Schedule_Worker
  imports Job_Queue Scheduler_Core Agent_Runtime
begin

text \<open>
  The scheduled path through the platform: the producer \<^verbatim>\<open>services/scheduler/main.py\<close> that turns a due
  slot into a queue job, the job payload and its checks in \<^verbatim>\<open>services/worker/executor.py\<close>, the executor
  that runs the agent for a job, and \<^verbatim>\<open>_consume_job\<close> of \<^verbatim>\<open>services/worker/main.py\<close>, which composes the
  queue's run claims with the scheduler. \<open>getenv\<close> is the process environment; a datetime is the record of
  the theory \<^verbatim>\<open>Py_Datetime\<close>, so an aware datetime keeps its own offset. What the worker prints is left out.
\<close>

datatype worker_error =
    WorkerConfigurationError string
  | WorkerExecutionError string
  | AgentException string
  | WorkerQueue queue_error
  | WorkerSchedule schedule_error
  | WorkerRuntimeError string

section \<open>Identity and schedule checks\<close>

definition bootstrap_identity :: identity_context where
  "bootstrap_identity = \<lparr>user_id = ''demo-user'', workspace_id = ''demo-workspace'',
     tenant_id = ''demo-tenant'', role = ''customer''\<rparr>"

definition safe_identity_value :: "string \<Rightarrow> bool" where
  "safe_identity_value s = match_head_tail is_alnum
     (\<lambda>c. is_alnum c \<or> c \<in> {CHR ''.'', CHR ''_'', CHR '':'', CHR ''@'', CHR ''/'', CHR ''-''}) 0 255 s"

definition worker_roles :: "string list" where
  "worker_roles = [''support'', ''sales'', ''manager'', ''admin'']"

definition getenv_or :: "(string \<Rightarrow> string option) \<Rightarrow> string \<Rightarrow> string \<Rightarrow> string" where
  "getenv_or getenv name dflt = (case getenv name of None \<Rightarrow> dflt | Some v \<Rightarrow> v)"

definition build_worker_identity ::
    "(string \<Rightarrow> string option) \<Rightarrow> string option \<Rightarrow> (worker_error, identity_context) result" where
  "build_worker_identity getenv platform_env =
     (let resolved = lower (or_default platform_env (getenv_or getenv ''AGENT_PLATFORM_ENV'' ''development'')) in
      if resolved \<notin> {''staging'', ''production''} then Inr bootstrap_identity
      else
        let u = strip (getenv_or getenv ''AGENT_WORKER_USER_ID'' []);
            w = strip (getenv_or getenv ''AGENT_WORKER_WORKSPACE_ID'' []);
            t = strip (getenv_or getenv ''AGENT_WORKER_TENANT_ID'' []);
            r = lower (strip (getenv_or getenv ''AGENT_WORKER_ROLE'' []))
        in if u = [] \<or> w = [] \<or> t = [] \<or> r = []
           then Inl (WorkerConfigurationError (''staging and production require AGENT_WORKER_USER_ID, '' @
             ''AGENT_WORKER_WORKSPACE_ID, AGENT_WORKER_TENANT_ID and AGENT_WORKER_ROLE''))
           else if \<not> safe_identity_value u \<or> \<not> safe_identity_value w \<or> \<not> safe_identity_value t \<or> \<not> safe_identity_value r
           then Inl (WorkerConfigurationError ''worker identity contains an invalid value'')
           else if r \<notin> set worker_roles
           then Inl (WorkerConfigurationError ''AGENT_WORKER_ROLE is not allowed for scheduled runs'')
           else Inr \<lparr>user_id = u, workspace_id = w, tenant_id = t, role = r\<rparr>)"

definition blank_option :: "string option \<Rightarrow> bool" where
  "blank_option x = (case x of None \<Rightarrow> True | Some s \<Rightarrow> blank s)"

definition validate_agent_schedule :: "schedule_definition \<Rightarrow> (worker_error, unit) result" where
  "validate_agent_schedule d =
     (if sd_agent d \<noteq> agent_id
      then Inl (WorkerConfigurationError ''scheduled Agent is not registered in this worker image'')
      else if blank_option (sd_query d)
      then Inl (WorkerConfigurationError ''scheduled Agent requires run.query'')
      else if blank_option (sd_order_id d)
      then Inl (WorkerConfigurationError ''customer-service-agent requires run.order_id'')
      else Inr ())"

section \<open>Job payloads\<close>

text \<open>\<^verbatim>\<open>datetime.isoformat()\<close> of an aware value: the wall clock and the offset with its own precision.\<close>

definition iso_wall :: "int \<Rightarrow> string" where
  "iso_wall t = (case days2ymd (nat (t div day_us)) of
     (y, m, d) \<Rightarrow> pad 4 y @ ''-'' @ pad 2 m @ ''-'' @ pad 2 d @ ''T'' @ iso_time (nat (t mod day_us)))"

definition offset_text :: "int \<Rightarrow> string" where
  "offset_text off =
     (let n = nat \<bar>off\<bar> in
      (if off < 0 then ''-'' else ''+'') @ pad 2 (n div 3600000000) @ '':'' @ pad 2 (n div 60000000 mod 60) @
      (if n mod 60000000 = 0 then []
       else '':'' @ pad 2 (n div 1000000 mod 60) @ (if n mod 1000000 = 0 then [] else ''.'' @ pad 6 (n mod 1000000))))"

definition isoformat :: "datetime \<Rightarrow> string" where
  "isoformat d = iso_wall (dt_wall d) @ (case dt_offset d of None \<Rightarrow> [] | Some off \<Rightarrow> offset_text off)"

definition expected_fields :: "schedule_definition \<Rightarrow> pydict" where
  "expected_fields d =
     [(''kind'', VStr ''scheduled_agent''), (''schedule_id'', VStr (sd_id d)),
      (''schedule_version'', VStr (sd_version d)), (''agent'', VStr (sd_agent d)),
      (''permissions_mode'', VStr (sd_permissions_mode d)), (''query'', str_or_none (sd_query d)),
      (''order_id'', str_or_none (sd_order_id d)),
      (''allow_external_processing'', VBool (sd_allow_external_processing d))]"

definition build_schedule_job_payload ::
    "schedule_definition \<Rightarrow> datetime \<Rightarrow> (worker_error, pydict) result" where
  "build_schedule_job_payload d at_time =
     (if dt_offset at_time = None
      then Inl (WorkerConfigurationError ''scheduled job timestamp must include a timezone'')
      else Inr
        [(''kind'', VStr ''scheduled_agent''), (''schedule_id'', VStr (sd_id d)),
         (''schedule_version'', VStr (sd_version d)), (''agent'', VStr (sd_agent d)),
         (''scheduled_at'', VStr (isoformat at_time)),
         (''permissions_mode'', VStr (sd_permissions_mode d)), (''query'', str_or_none (sd_query d)),
         (''order_id'', str_or_none (sd_order_id d)),
         (''allow_external_processing'', VBool (sd_allow_external_processing d))])"

text \<open>The payload has exactly the expected keys, and each expected value (\<^verbatim>\<open>1 == True\<close> as in Python).\<close>

definition reviewed_payload :: "pydict \<Rightarrow> schedule_definition \<Rightarrow> bool" where
  "reviewed_payload payload d \<longleftrightarrow>
     set (map fst payload) = insert ''scheduled_at'' (set (map fst (expected_fields d))) \<and>
     list_all (\<lambda>(k, v). scalar_eq (dget payload k) v) (expected_fields d)"

definition validate_schedule_job_payload ::
    "pydict \<Rightarrow> schedule_definition \<Rightarrow> (worker_error, datetime) result" where
  "validate_schedule_job_payload payload d =
     (if \<not> reviewed_payload payload d
      then Inl (WorkerConfigurationError ''queued job does not match the reviewed schedule definition'')
      else (case as_str (dget payload ''scheduled_at'') of
          None \<Rightarrow> Inl (WorkerConfigurationError ''queued job scheduled_at is invalid'')
        | Some s \<Rightarrow>
            if length s > 64 then Inl (WorkerConfigurationError ''queued job scheduled_at is invalid'')
            else (case fromiso s of
                None \<Rightarrow> Inl (WorkerConfigurationError ''queued job scheduled_at is invalid'')
              | Some t \<Rightarrow>
                  if dt_offset t = None
                  then Inl (WorkerConfigurationError ''queued job scheduled_at must include a timezone'')
                  else Inr t)))"

section \<open>The executor\<close>

text \<open>The state of the executor is the audit log and the number of runs so far; each run has its environment.\<close>

type_synonym exec_state = "audit_log \<times> nat"

definition schedule_execute ::
    "agent_runtime \<Rightarrow> (nat \<Rightarrow> call_env) \<Rightarrow> (string \<Rightarrow> string) \<Rightarrow> identity_context \<Rightarrow> schedule_definition \<Rightarrow> string \<Rightarrow>
     exec_state \<Rightarrow> (worker_error, string) result \<times> exec_state" where
  "schedule_execute rt env sha identity d key s =
     (case validate_agent_schedule d of
        Inl e \<Rightarrow> (Inl e, s)
      | Inr _ \<Rightarrow>
          let digest = sha key in
          (case run rt (env (snd s)) (VStr (or_default (sd_query d) [])) identity (sd_order_id d)
              (Some (''schedule-request-'' @ take 32 digest)) (Some (''schedule-trace-'' @ take 32 digest))
              (sd_allow_external_processing d) (fst s) of
             (Inl exc, audit) \<Rightarrow> (Inl (AgentException exc), (audit, Suc (snd s)))
           | (Inr result, audit) \<Rightarrow>
               if rr_status result \<noteq> SUCCEEDED
               then (Inl (WorkerExecutionError ''scheduled Agent did not produce verified success''), (audit, Suc (snd s)))
               else (Inr (rr_message result), (audit, Suc (snd s)))))"

text \<open>The scheduler sees an exception of its executor as a failed attempt.\<close>

definition agent_executor ::
    "agent_runtime \<Rightarrow> (nat \<Rightarrow> call_env) \<Rightarrow> (string \<Rightarrow> string) \<Rightarrow> identity_context \<Rightarrow> exec_state executor" where
  "agent_executor rt env sha identity d key s =
     (case schedule_execute rt env sha identity d key s of
        (Inl _, s') \<Rightarrow> (None, s') | (Inr m, s') \<Rightarrow> (Some m, s'))"

definition distributed_dry_run :: "'w executor" where
  "distributed_dry_run d key w = (Some (''distributed dry-run agent='' @ sd_agent d @ '' idempotency_key='' @ key), w)"

definition preview_dry_run :: "'w executor" where
  "preview_dry_run d key w =
     (Some (''dry-run agent='' @ sd_agent d @ '' idempotency_key='' @ key @ '' permissions='' @ sd_permissions_mode d), w)"

section \<open>Producing and consuming\<close>

text \<open>The producer: \<open>now\<close> is \<^verbatim>\<open>datetime.now(UTC)\<close>.\<close>

definition enqueue_due ::
    "'r redis_client \<Rightarrow> (string \<Rightarrow> string) \<Rightarrow> (pyfloat \<Rightarrow> string) \<Rightarrow> string \<Rightarrow> string \<Rightarrow> string \<Rightarrow> tzdata \<Rightarrow> schedule_definition \<Rightarrow> instant \<Rightarrow>
     redis_queue \<Rightarrow> 'r \<Rightarrow> (worker_error, bool) result \<times> redis_queue \<times> 'r" where
  "enqueue_due c sha fr uid t1 t2 tz d now q r =
     (case scheduled_for tz d now of
        Inl e \<Rightarrow> (Inl (WorkerSchedule e), q, r)
      | Inr None \<Rightarrow> (Inr False, q, r)
      | Inr (Some slot) \<Rightarrow>
          (case build_schedule_job_payload d \<lparr>dt_wall = now, dt_offset = Some 0\<rparr> of
             Inl e \<Rightarrow> (Inl e, q, r)
           | Inr payload \<Rightarrow>
               (case enqueue_once c sha fr uid t1 t2 payload (slot_key (sd_id d) slot) (30 * 86400) q r of
                  (Inl e, q1, r1) \<Rightarrow> (Inl (WorkerQueue e), q1, r1)
                | (Inr job_opt, q1, r1) \<Rightarrow> (Inr (job_opt \<noteq> None), q1, r1))))"

record ('r, 'w) worker_state =
  ws_server :: 'r
  ws_scheduler :: scheduler
  ws_world :: 'w

text \<open>\<^verbatim>\<open>max(60, min(max_runtime_seconds + 30, 86400))\<close>, and the exit status.\<close>

definition run_lease :: "schedule_definition \<Rightarrow> int" where
  "run_lease d = max 60 (min (sd_max_runtime_seconds d + 30) 86400)"

definition exit_status :: "schedule_run \<Rightarrow> nat" where
  "exit_status r = (if sn_status r \<in> {S_SUCCEEDED, S_SKIPPED, S_PAUSED, S_EXPIRED} then 0 else 1)"

definition acknowledge ::
    "'r redis_client \<Rightarrow> redis_queue \<Rightarrow> job \<Rightarrow> nat \<Rightarrow> ('r, 'w) worker_state \<Rightarrow> (worker_error, nat) result \<times> ('r, 'w) worker_state" where
  "acknowledge c q j status s =
     (case ack c q j (ws_server s) of
        (Inl e, r') \<Rightarrow> (Inl (WorkerQueue e), s\<lparr>ws_server := r'\<rparr>)
      | (Inr _, r') \<Rightarrow> (Inr status, s\<lparr>ws_server := r'\<rparr>))"

definition trigger_job ::
    "tzdata \<Rightarrow> trigger_env \<Rightarrow> schedule_definition \<Rightarrow> instant \<Rightarrow> 'w executor \<Rightarrow> ('r, 'w) worker_state \<Rightarrow>
     (schedule_error, schedule_run) result \<times> ('r, 'w) worker_state" where
  "trigger_job tz env d now ex s =
     (case trigger tz None env (sd_id d) now ex False False (ws_scheduler s) (ws_world s) of
        (res, sch, w) \<Rightarrow> (res, s\<lparr>ws_scheduler := sch, ws_world := w\<rparr>))"

definition consume_slot ::
    "'r redis_client \<Rightarrow> (string \<Rightarrow> string) \<Rightarrow> (nat \<Rightarrow> 'r \<Rightarrow> 'r) \<Rightarrow> string \<Rightarrow> tzdata \<Rightarrow> trigger_env \<Rightarrow> redis_queue \<Rightarrow> schedule_definition \<Rightarrow>
     job \<Rightarrow> instant \<Rightarrow> instant \<Rightarrow> 'w executor \<Rightarrow> ('r, 'w) worker_state \<Rightarrow> (worker_error, nat) result \<times> ('r, 'w) worker_state" where
  "consume_slot c sha interfere token tz env q d j now slot ex s =
     (case claim_run c sha interfere token (slot_key (sd_id d) slot) (run_lease d) 86400 q (ws_server s) of
        (Inl e, r1) \<Rightarrow> (Inl (WorkerQueue e), s\<lparr>ws_server := r1\<rparr>)
      | (Inr claim, r1) \<Rightarrow>
          let s1 = s\<lparr>ws_server := r1\<rparr> in
          if cl_status claim \<noteq> Claimed then acknowledge c q j 0 s1
          else (case cl_token claim of
              None \<Rightarrow> (Inl (WorkerRuntimeError ''Redis returned a claimed run without a token''), s1)
            | Some tok \<Rightarrow>
                (case trigger_job tz env d now ex s1 of
                   (Inl e, s2) \<Rightarrow> (Inl (WorkerSchedule e), s2)
                 | (Inr run_rec, s2) \<Rightarrow>
                     (case complete_run c sha (sn_idempotency_key run_rec) tok 86400 q (ws_server s2) of
                        (Inl e, r3) \<Rightarrow> (Inl (WorkerQueue e), s2\<lparr>ws_server := r3\<rparr>)
                      | (Inr _, r3) \<Rightarrow> acknowledge c q j (exit_status run_rec) (s2\<lparr>ws_server := r3\<rparr>)))))"

definition consume_job ::
    "'r redis_client \<Rightarrow> (string \<Rightarrow> string) \<Rightarrow> (nat \<Rightarrow> 'r \<Rightarrow> 'r) \<Rightarrow> string \<Rightarrow> tzdata \<Rightarrow> trigger_env \<Rightarrow> redis_queue \<Rightarrow> schedule_definition \<Rightarrow>
     job \<Rightarrow> 'w executor \<Rightarrow> ('r, 'w) worker_state \<Rightarrow> (worker_error, nat) result \<times> ('r, 'w) worker_state" where
  "consume_job c sha interfere token tz env q d j ex s =
     (case validate_schedule_job_payload (jb_payload j) d of
        Inl e \<Rightarrow> (Inl e, s)
      | Inr queued \<Rightarrow>
          let now = dt_wall queued - the (dt_offset queued) in
          (case scheduled_for tz d now of
             Inl e \<Rightarrow> (Inl (WorkerSchedule e), s)
           | Inr None \<Rightarrow>
               (case trigger_job tz env d now ex s of
                  (Inl e, s1) \<Rightarrow> (Inl (WorkerSchedule e), s1)
                | (Inr run_rec, s1) \<Rightarrow> acknowledge c q j (exit_status run_rec) s1)
           | Inr (Some slot) \<Rightarrow> consume_slot c sha interfere token tz env q d j now slot ex s))"

section \<open>Properties\<close>

lemma iso_utc_wall: "iso_utc t = iso_wall t @ ''+00:00''"
  by (simp add: iso_utc_def iso_wall_def split: prod.splits)

lemma length_iso_utc: "length (iso_utc t) \<le> 64"
  by (simp add: iso_utc_def iso_time_def split: prod.splits)

lemma isoformat_utc: "isoformat \<lparr>dt_wall = t, dt_offset = Some 0\<rparr> = iso_utc t"
proof -
  have "pad 2 0 = ''00''" by code_simp
  then have "offset_text 0 = ''+00:00''" by (simp add: offset_text_def)
  then show ?thesis by (simp add: isoformat_def iso_utc_wall)
qed

lemma scalar_eq_refl [simp]:
  "scalar_eq (VStr s) (VStr s)" "scalar_eq (VBool b) (VBool b)" "scalar_eq (str_or_none x) (str_or_none x)"
  by (simp_all add: str_or_none_def split: option.split)

lemma payload_round_trip:
  assumes "valid_instant t" "build_schedule_job_payload d \<lparr>dt_wall = t, dt_offset = Some 0\<rparr> = Inr payload"
  shows "validate_schedule_job_payload payload d = Inr \<lparr>dt_wall = t, dt_offset = Some 0\<rparr>"
proof -
  have p: "payload = [(''kind'', VStr ''scheduled_agent''), (''schedule_id'', VStr (sd_id d)),
         (''schedule_version'', VStr (sd_version d)), (''agent'', VStr (sd_agent d)),
         (''scheduled_at'', VStr (iso_utc t)),
         (''permissions_mode'', VStr (sd_permissions_mode d)), (''query'', str_or_none (sd_query d)),
         (''order_id'', str_or_none (sd_order_id d)),
         (''allow_external_processing'', VBool (sd_allow_external_processing d))]"
    using assms(2) by (simp add: build_schedule_job_payload_def isoformat_utc)
  have "set (map fst payload) = insert ''scheduled_at'' (set (map fst (expected_fields d)))"
    by (auto simp: p expected_fields_def)
  moreover have "list_all (\<lambda>(k, v). scalar_eq (dget payload k) v) (expected_fields d)"
    by (simp add: p expected_fields_def)
  ultimately have "reviewed_payload payload d" by (simp add: reviewed_payload_def)
  moreover have "dget payload ''scheduled_at'' = VStr (iso_utc t)" by (simp add: p)
  ultimately show ?thesis
    using length_iso_utc [of t] fromiso_iso_utc [OF assms(1)] by (simp add: validate_schedule_job_payload_def)
qed

text \<open>
  Round trip of a job: the payload that the producer builds for a schedule is accepted by the worker for
  the same reviewed definition, and gives back the instant it was built for.\<close>

lemma schedule_payload_round_trip:
  assumes "valid_instant t" "build_schedule_job_payload d \<lparr>dt_wall = t, dt_offset = Some 0\<rparr> = Inr payload"
  shows "validate_schedule_job_payload payload d = Inr \<lparr>dt_wall = t, dt_offset = Some 0\<rparr>"
  using assms by (rule payload_round_trip)

lemma schedule_payload_round_trip_witness:
  "\<exists>payload. build_schedule_job_payload demo_interval \<lparr>dt_wall = epoch, dt_offset = Some 0\<rparr> = Inr payload \<and>
     validate_schedule_job_payload payload demo_interval = Inr \<lparr>dt_wall = epoch, dt_offset = Some 0\<rparr>"
proof -
  obtain payload where p: "build_schedule_job_payload demo_interval \<lparr>dt_wall = epoch, dt_offset = Some 0\<rparr> = Inr payload"
    by (simp add: build_schedule_job_payload_def)
  have "valid_instant epoch" by (simp add: valid_instant_def epoch_def day_us_def)
  then show ?thesis using schedule_payload_round_trip [OF _ p] p by blast
qed

text \<open>
  What an accepted payload must say: every reviewed field, and nothing more than those and the time. So a
  writer to the queue chooses the time of a run and none of its inputs.
\<close>

lemma validate_schedule_job_payload_fields:
  assumes "validate_schedule_job_payload payload d = Inr t"
  shows "reviewed_payload payload d" "dt_offset t \<noteq> None" "fromiso s = Some t \<or> dget payload ''scheduled_at'' \<noteq> VStr s"
  using assms by (auto simp: validate_schedule_job_payload_def split: if_splits option.splits)



text \<open>
  A job whose slot another worker has claimed or completed is dropped: the executor is not called, the
  scheduler and the world are left as they were, and the job is acknowledged.\<close>

lemma consume_dedupes:
  assumes "redis_keys c kv" "validate_schedule_job_payload (jb_payload j) d = Inr queued"
    and "scheduled_for tz d (dt_wall queued - the (dt_offset queued)) = Inr (Some slot)"
    and "kv (ws_server s) (run_state_key sha q (slot_key (sd_id d) slot)) \<noteq> None"
    and "consume_job c sha (\<lambda>_ r. r) token tz env q d j ex s = (res, s')"
  shows "ws_world s' = ws_world s \<and> ws_scheduler s' = ws_scheduler s \<and> (\<forall>status. res = Inr status \<longrightarrow> status = 0)"
proof -
  obtain cl r1 where cl: "claim_run c sha (\<lambda>_ r. r) token (slot_key (sd_id d) slot) (run_lease d) 86400 q (ws_server s) = (cl, r1)"
    by fastforce
  have "cl_status x \<noteq> Claimed" if "cl = Inr x" for x
    using claim_run_effect(2) [OF assms(1) cl that] assms(4) by auto
  then show ?thesis
    using assms(2,3,5) cl
    by (auto simp: consume_job_def consume_slot_def acknowledge_def Let_def split: sum.splits prod.splits if_splits)
qed

definition demo_job :: job where
  "demo_job = \<lparr>jb_id = ''j'', jb_payload = projr (build_schedule_job_payload demo_interval \<lparr>dt_wall = epoch, dt_offset = Some 0\<rparr>),
     jb_enqueued_at = ''t'', jb_receipt = Some ''1-0''\<rparr>"

definition demo_worker :: "((string, string) dict, unit) worker_state" where
  "demo_worker = \<lparr>ws_server = [(run_state_key id toy_queue (slot_key ''s1'' epoch), ''completed'')],
     ws_scheduler = demo_scheduler demo_interval, ws_world = ()\<rparr>"

lemma epoch_valid: "valid_instant epoch"
  by (simp add: valid_instant_def epoch_def day_us_def)

lemma iso_utc_epoch: "iso_utc epoch = ''1970-01-01T00:00:00+00:00''"
proof -
  have "pad 4 1970 = ''1970''" "pad 2 1 = ''01''" "pad 2 0 = ''00''" "month_day False 1 0 = (1, 1)" by code_simp+
  then show ?thesis
    by (simp add: iso_utc_def epoch_def days2ymd_def iso_time_def day_us_def is_leap_def Let_def)
qed

lemma demo_id: "sd_id demo_interval = ''s1''"
  by (simp add: demo_interval_def)

lemma demo_payload: "build_schedule_job_payload demo_interval \<lparr>dt_wall = epoch, dt_offset = Some 0\<rparr> = Inr (jb_payload demo_job)"
  by (simp add: demo_job_def build_schedule_job_payload_def)

lemma demo_job_payload: "validate_schedule_job_payload (jb_payload demo_job) demo_interval = Inr \<lparr>dt_wall = epoch, dt_offset = Some 0\<rparr>"
  by (rule payload_round_trip [OF epoch_valid demo_payload])

lemma consume_dedupes_witness:
  "ws_scheduler (snd (consume_job toy_redis id (\<lambda>_ r. r) ''tok'' demo_tz demo_tenv toy_queue demo_interval demo_job demo_ex demo_worker)) =
     demo_scheduler demo_interval"
proof -
  let ?c = "consume_job toy_redis id (\<lambda>_ r. r) ''tok'' demo_tz demo_tenv toy_queue demo_interval demo_job demo_ex demo_worker"
  have "map_of (ws_server demo_worker) (run_state_key id toy_queue (slot_key (sd_id demo_interval) epoch)) \<noteq> None"
    by (simp add: demo_worker_def demo_id)
  then have "ws_scheduler (snd ?c) = ws_scheduler demo_worker"
    using consume_dedupes [where c = toy_redis and kv = map_of and d = demo_interval and s = demo_worker and slot = epoch and j = demo_job
        and tz = demo_tz and sha = id and q = toy_queue and res = "fst ?c" and s' = "snd ?c" and env = demo_tenv and ex = demo_ex
        and token = "''tok''", OF toy_redis_keys demo_job_payload] demo_slot(1) by simp
  then show ?thesis by (simp add: demo_worker_def)
qed

text \<open>
  The claim is taken under the key of the slot and completed under the key of the recorded run. A job of
  a schedule that is not read-only is recorded as blocked under the instant of the trigger: unless the two
  instants coincide, the completion finds no claim and the call ends in an error before the job is
  acknowledged, although the exit status was meant to report the blocked run.\<close>

lemma blocked_job_ends_in_error:
  assumes "redis_keys c kv" "validate_schedule_job_payload (jb_payload j) d = Inr queued"
    and "now = dt_wall queued - the (dt_offset queued)" "scheduled_for tz d now = Inr (Some slot)"
    and "map_of (sc_definitions (ws_scheduler s)) (sd_id d) = Some d" "sd_id d \<notin> sc_paused (ws_scheduler s)"
    and "sd_permissions_mode d \<noteq> ''read_only''"
    and "kv (ws_server s) (run_state_key sha q (slot_key (sd_id d) slot)) = None"
    and "\<forall>x. kv (ws_server s) x \<noteq> Some (running_value token)"
    and "run_state_key sha q (slot_key (sd_id d) now) \<noteq> run_state_key sha q (slot_key (sd_id d) slot)"
  shows "\<exists>e s'. consume_job c sha (\<lambda>_ r. r) token tz env q d j ex s = (Inl e, s') \<and> ws_world s' = ws_world s"
proof -
  let ?K = "run_state_key sha q" and ?key = "slot_key (sd_id d) slot"
  obtain cl r1 where cl: "claim_run c sha (\<lambda>_ r. r) token ?key (run_lease d) 86400 q (ws_server s) = (cl, r1)"
    by fastforce
  have call: "consume_job c sha (\<lambda>_ r. r) token tz env q d j ex s =
      consume_slot c sha (\<lambda>_ r. r) token tz env q d j now slot ex s"
    using assms(2-4) by (simp add: consume_job_def)
  show ?thesis
  proof (cases cl)
    case (Inl e)
    then show ?thesis by (simp add: call consume_slot_def cl)
  next
    case (Inr x)
    have st: "cl_status x = Claimed" using claim_run_effect(4) [OF assms(1) cl Inr assms(8)] .
    then have k: "cl_token x = Some token" "kv r1 = (kv (ws_server s))(?K ?key \<mapsto> running_value token)"
      using claim_run_effect(2) [OF assms(1) cl Inr] by auto
    obtain run_rec sch where t: "trigger tz None env (sd_id d) now ex False False (ws_scheduler s) (ws_world s) =
        (Inr run_rec, sch, ws_world s)" "sn_idempotency_key run_rec = slot_key (sd_id d) now"
      using assms(5-7) by (auto simp: trigger_def require_def record_run_def Let_def)
    obtain x2 r2 where c: "complete_run c sha (slot_key (sd_id d) now) token 86400 q r1 = (x2, r2)" by fastforce
    have "kv r1 (?K (slot_key (sd_id d) now)) \<noteq> Some (running_value token)"
      using k(2) assms(9,10) by simp
    then obtain e where "x2 = Inl e" using complete_run_effect(2) [OF assms(1) c] by (cases x2) auto
    then show ?thesis using c by (simp add: call consume_slot_def cl Inr st k(1) trigger_job_def t Let_def)
  qed
qed

text \<open>
  The producer enqueues a due slot at most once while the slot's marker lives, however often it polls and
  however many replicas poll: a poll that reports a job has set the marker, and a later poll of the same slot
  reports none and adds nothing.\<close>

lemma enqueue_due_once:
  assumes "redis_keys c kv" "enqueue_due c sha fr uid t1 t2 tz d now q r = (Inr True, q1, r1)"
    and "scheduled_for tz d now = Inr (Some slot)" "scheduled_for tz d now' = Inr (Some slot)"
    and "kv r2 (enqueue_state_key sha q2 (slot_key (sd_id d) slot)) = kv r1 (enqueue_state_key sha q (slot_key (sd_id d) slot))"
    and "enqueue_due c sha fr uid' t1' t2' tz d now' q2 r2 = (res, q3, r3)"
  shows "kv r3 = kv r2 \<and> res \<noteq> Inr True"
proof -
  let ?key = "slot_key (sd_id d) slot"
  obtain p where p: "build_schedule_job_payload d \<lparr>dt_wall = now, dt_offset = Some 0\<rparr> = Inr p"
    by (simp add: build_schedule_job_payload_def)
  obtain p' where p': "build_schedule_job_payload d \<lparr>dt_wall = now', dt_offset = Some 0\<rparr> = Inr p'"
    by (simp add: build_schedule_job_payload_def)
  obtain j where e: "enqueue_once c sha fr uid t1 t2 p ?key (30 * 86400) q r = (Inr (Some j), q1, r1)"
    using assms(2,3) p by (auto simp: enqueue_due_def split: prod.splits sum.splits option.splits)
  have key: "?key \<noteq> []" "length ?key \<le> 256"
    using e by (auto simp: enqueue_once_def split: if_splits)
  have "kv r1 (enqueue_state_key sha q ?key) = Some ''enqueued''"
    using enqueue_once_dedupes [OF assms(1) key _ _ e] by simp
  then have m: "kv r2 (enqueue_state_key sha q2 ?key) \<noteq> None" using assms(5) by simp
  obtain x where x: "enqueue_once c sha fr uid' t1' t2' p' ?key (30 * 86400) q2 r2 = (x, q3, r3)"
    and res: "res = (case x of Inl e \<Rightarrow> Inl (WorkerQueue e) | Inr jo \<Rightarrow> Inr (jo \<noteq> None))"
    using assms(4,6) p' by (auto simp: enqueue_due_def split: prod.splits sum.splits)
  show ?thesis
    using enqueue_once_dedupes [OF assms(1) key _ _ x] m by (auto simp: res split: sum.splits)
qed

lemma enqueue_due_once_witness:
  "\<exists>q1 r1. enqueue_due toy_redis id (\<lambda>_. []) ''u'' ''1'' ''2'' demo_tz demo_interval epoch toy_queue [] = (Inr True, q1, r1) \<and>
     fst (enqueue_due toy_redis id (\<lambda>_. []) ''v'' ''3'' ''4'' demo_tz demo_interval epoch toy_queue r1) \<noteq> Inr True"
proof -
  obtain q1 r1 where e: "enqueue_due toy_redis id (\<lambda>_. []) ''u'' ''1'' ''2'' demo_tz demo_interval epoch toy_queue [] = (Inr True, q1, r1)"
  proof -
    have "utf8_length (encoded_payload (\<lambda>_. []) (jb_payload demo_job)) \<le> 1000"
      unfolding demo_job_def build_schedule_job_payload_def demo_interval_def isoformat_utc iso_utc_epoch by code_simp
    then have "fst (enqueue_due toy_redis id (\<lambda>_. []) ''u'' ''1'' ''2'' demo_tz demo_interval epoch toy_queue []) = Inr True"
      by (simp add: enqueue_due_def demo_slot(1) demo_payload enqueue_once_def enqueue_def ensure_group_def slot_key_def
          iso_utc_epoch toy_redis_def toy_queue_def demo_id Let_def)
    then show ?thesis using that by (metis prod.collapse)
  qed
  moreover obtain res q3 r3 where "enqueue_due toy_redis id (\<lambda>_. []) ''v'' ''3'' ''4'' demo_tz demo_interval epoch toy_queue r1 = (res, q3, r3)"
    by (metis prod.collapse)
  ultimately show ?thesis
    using enqueue_due_once [OF toy_redis_keys e demo_slot(1) demo_slot(1) refl] by fastforce
qed

end
