(* ===== verification/Attachment_Stores.thy ===== *)
theory Attachment_Stores
  imports Runtime_Models Py_Datetime_Order
begin

text \<open>
  The attachment metadata of \<^verbatim>\<open>packages/attachments/service.py\<close> and its three stores: the in-memory
  dictionary, the SQLite table and the PostgreSQL table of \<^verbatim>\<open>packages/persistence/postgres.py\<close>. The protocol
  class \<^verbatim>\<open>AttachmentStore\<close> is the record \<open>attachment_ops\<close>, and the locale \<open>attachment_store\<close> states its contract
  over an abstract map from identifiers to records. The tables compare timestamps as text, in code point
  order (SQLite's \<^verbatim>\<open>BINARY\<close> and PostgreSQL's \<^verbatim>\<open>C\<close> collation), the dictionary compares instants.
\<close>

section \<open>Records\<close>

datatype attachment_error =
    AttachmentError string
  | AttachmentNotFound string
  | MalwareDetected string
  | MalwareScanUnavailable string
  | AttachmentUncaught string

record attachment_record =
  att_id :: string
  att_workspace_id :: string
  att_tenant_id :: string
  att_user_id :: string
  att_filename :: string
  att_content_type :: string
  att_image_format :: string
  att_size_bytes :: int
  att_sha256 :: string
  att_width :: int
  att_height :: int
  att_storage_path :: string
  att_created_at :: string

definition attachment_as_dict :: "attachment_record \<Rightarrow> pydict" where
  "attachment_as_dict r =
     [(''id'', VStr (att_id r)), (''workspace_id'', VStr (att_workspace_id r)), (''tenant_id'', VStr (att_tenant_id r)),
      (''user_id'', VStr (att_user_id r)), (''filename'', VStr (att_filename r)),
      (''content_type'', VStr (att_content_type r)), (''image_format'', VStr (att_image_format r)),
      (''size_bytes'', VInt (att_size_bytes r)), (''sha256'', VStr (att_sha256 r)), (''width'', VInt (att_width r)),
      (''height'', VInt (att_height r)), (''created_at'', VStr (att_created_at r))]"

text \<open>The three identity columns that every scoped statement compares: workspace, tenant and user.\<close>

type_synonym scope = "string \<times> string \<times> string"

definition record_scope :: "attachment_record \<Rightarrow> scope" where
  "record_scope r = (att_workspace_id r, att_tenant_id r, att_user_id r)"

definition parse_timestamp :: "string \<Rightarrow> (attachment_error, instant) result" where
  "parse_timestamp v =
     (case fromiso v of
        None \<Rightarrow> Inl (AttachmentError ''attachment timestamp is invalid'')
      | Some d \<Rightarrow>
          let t = dt_wall d - (case dt_offset d of None \<Rightarrow> 0 | Some off \<Rightarrow> off) in
          if valid_instant t then Inr t else Inl (AttachmentUncaught ''OverflowError''))"

record 's attachment_ops =
  ao_create :: "attachment_record \<Rightarrow> 's \<Rightarrow> (attachment_error, 's) result"
  ao_get :: "string \<Rightarrow> scope \<Rightarrow> 's \<Rightarrow> attachment_record option"
  ao_list :: "scope \<Rightarrow> 's \<Rightarrow> attachment_record list"
  ao_delete :: "string \<Rightarrow> scope \<Rightarrow> 's \<Rightarrow> attachment_record option \<times> 's"
  ao_list_before :: "instant \<Rightarrow> 's \<Rightarrow> (attachment_error, attachment_record list) result"

section \<open>InMemoryAttachmentStore\<close>

type_synonym memory_attachments = "(string, attachment_record) dict"

definition memory_attachments_init :: memory_attachments where
  "memory_attachments_init = []"

definition mem_att_create :: "attachment_record \<Rightarrow> memory_attachments \<Rightarrow> (attachment_error, memory_attachments) result" where
  "mem_att_create r s =
     (if map_of s (att_id r) \<noteq> None then Inl (AttachmentError ''attachment id already exists'')
      else Inr (AList.update (att_id r) r s))"

definition mem_att_get :: "string \<Rightarrow> scope \<Rightarrow> memory_attachments \<Rightarrow> attachment_record option" where
  "mem_att_get i sco s =
     (case map_of s i of None \<Rightarrow> None | Some r \<Rightarrow> if record_scope r \<noteq> sco then None else Some r)"

definition mem_att_list :: "scope \<Rightarrow> memory_attachments \<Rightarrow> attachment_record list" where
  "mem_att_list sco s = filter (\<lambda>r. record_scope r = sco) (map snd s)"

definition mem_att_delete :: "string \<Rightarrow> scope \<Rightarrow> memory_attachments \<Rightarrow> attachment_record option \<times> memory_attachments" where
  "mem_att_delete i sco s =
     (case mem_att_get i sco s of None \<Rightarrow> (None, s) | Some r \<Rightarrow> (Some r, AList.delete i s))"

fun older_than :: "instant \<Rightarrow> attachment_record list \<Rightarrow> (attachment_error, attachment_record list) result" where
  "older_than cutoff [] = Inr []"
| "older_than cutoff (r # rs) =
     (case parse_timestamp (att_created_at r) of
        Inl e \<Rightarrow> Inl e
      | Inr t \<Rightarrow> (case older_than cutoff rs of
            Inl e \<Rightarrow> Inl e
          | Inr kept \<Rightarrow> Inr (if t < cutoff then r # kept else kept)))"

definition mem_att_list_before :: "instant \<Rightarrow> memory_attachments \<Rightarrow> (attachment_error, attachment_record list) result" where
  "mem_att_list_before cutoff s = older_than cutoff (map snd s)"

definition memory_attachment_ops :: "memory_attachments attachment_ops" where
  "memory_attachment_ops = \<lparr>ao_create = mem_att_create, ao_get = mem_att_get, ao_list = mem_att_list,
     ao_delete = mem_att_delete, ao_list_before = mem_att_list_before\<rparr>"

section \<open>SQLiteAttachmentStore\<close>

text \<open>
  The table in row order. An \<^verbatim>\<open>INSERT\<close> fails on a duplicate \<^verbatim>\<open>id\<close> or \<^verbatim>\<open>storage_path\<close> and on an integer outside the
  column's range: 64 bits in SQLite, 32 bits for \<^verbatim>\<open>INTEGER\<close> in PostgreSQL. The order of rows with equal
  timestamps is not specified by SQL; the lists here fix one.
\<close>

type_synonym attachment_table = "attachment_record list"

definition integers_fit :: "nat \<Rightarrow> attachment_record \<Rightarrow> bool" where
  "integers_fit w r \<longleftrightarrow> (\<forall>i \<in> {att_size_bytes r, att_width r, att_height r}. - (2 ^ (w - 1)) \<le> i \<and> i < 2 ^ (w - 1))"

definition unique_violation :: "attachment_record \<Rightarrow> attachment_table \<Rightarrow> bool" where
  "unique_violation r rows \<longleftrightarrow> list_ex (\<lambda>q. att_id q = att_id r \<or> att_storage_path q = att_storage_path r) rows"

definition sqlite_att_create :: "attachment_record \<Rightarrow> attachment_table \<Rightarrow> (attachment_error, attachment_table) result" where
  "sqlite_att_create r rows =
     (if \<not> integers_fit 64 r then Inl (AttachmentUncaught ''OverflowError'')
      else if unique_violation r rows then Inl (AttachmentUncaught ''IntegrityError'')
      else Inr (rows @ [r]))"

definition sqlite_att_get :: "string \<Rightarrow> scope \<Rightarrow> attachment_table \<Rightarrow> attachment_record option" where
  "sqlite_att_get i sco rows = find (\<lambda>r. att_id r = i \<and> record_scope r = sco) rows"

definition sqlite_att_list :: "scope \<Rightarrow> attachment_table \<Rightarrow> attachment_record list" where
  "sqlite_att_list sco rows = rev (sort_key att_created_at (filter (\<lambda>r. record_scope r = sco) rows))"

definition sqlite_att_delete :: "string \<Rightarrow> scope \<Rightarrow> attachment_table \<Rightarrow> attachment_record option \<times> attachment_table" where
  "sqlite_att_delete i sco rows =
     (case sqlite_att_get i sco rows of None \<Rightarrow> (None, rows) | Some r \<Rightarrow> (Some r, filter (\<lambda>q. att_id q \<noteq> i) rows))"

definition sqlite_att_list_before :: "instant \<Rightarrow> attachment_table \<Rightarrow> (attachment_error, attachment_record list) result" where
  "sqlite_att_list_before cutoff rows =
     Inr (sort_key att_created_at (filter (\<lambda>r. att_created_at r < iso_utc cutoff) rows))"

definition sqlite_attachment_ops :: "attachment_table attachment_ops" where
  "sqlite_attachment_ops = \<lparr>ao_create = sqlite_att_create, ao_get = sqlite_att_get, ao_list = sqlite_att_list,
     ao_delete = sqlite_att_delete, ao_list_before = sqlite_att_list_before\<rparr>"

section \<open>PostgresAttachmentStore\<close>

definition pg_att_create :: "attachment_record \<Rightarrow> attachment_table \<Rightarrow> (attachment_error, attachment_table) result" where
  "pg_att_create r rows =
     (if \<not> integers_fit 32 r then Inl (AttachmentUncaught ''NumericValueOutOfRange'')
      else if unique_violation r rows then Inl (AttachmentUncaught ''UniqueViolation'')
      else Inr (rows @ [r]))"

definition pg_att_get :: "string \<Rightarrow> scope \<Rightarrow> attachment_table \<Rightarrow> attachment_record option" where
  "pg_att_get i sco rows = find (\<lambda>r. att_id r = i \<and> record_scope r = sco) rows"

definition pg_att_list :: "scope \<Rightarrow> attachment_table \<Rightarrow> attachment_record list" where
  "pg_att_list sco rows = rev (sort_key att_created_at (filter (\<lambda>r. record_scope r = sco) rows))"

definition pg_att_delete :: "string \<Rightarrow> scope \<Rightarrow> attachment_table \<Rightarrow> attachment_record option \<times> attachment_table" where
  "pg_att_delete i sco rows =
     (case pg_att_get i sco rows of
        None \<Rightarrow> (None, rows)
      | Some r \<Rightarrow> (Some r, filter (\<lambda>q. \<not> (att_id q = i \<and> record_scope q = sco)) rows))"

definition pg_att_list_before :: "instant \<Rightarrow> attachment_table \<Rightarrow> (attachment_error, attachment_record list) result" where
  "pg_att_list_before cutoff rows =
     Inr (sort_key att_created_at (filter (\<lambda>r. att_created_at r < iso_utc cutoff) rows))"

definition pg_attachment_ops :: "attachment_table attachment_ops" where
  "pg_attachment_ops = \<lparr>ao_create = pg_att_create, ao_get = pg_att_get, ao_list = pg_att_list,
     ao_delete = pg_att_delete, ao_list_before = pg_att_list_before\<rparr>"

section \<open>The contract of a store\<close>

text \<open>The service stamps a record with the current UTC time; \<open>created\<close> reads the stamp back.\<close>

definition stamped :: "attachment_record \<Rightarrow> bool" where
  "stamped r \<longleftrightarrow> (\<exists>t. valid_instant t \<and> att_created_at r = iso_utc t)"

definition created :: "attachment_record \<Rightarrow> instant" where
  "created r = projr (parse_timestamp (att_created_at r))"

lemma parse_timestamp_iso: "valid_instant t \<Longrightarrow> parse_timestamp (iso_utc t) = Inr t"
  by (simp add: parse_timestamp_def fromiso_iso_utc)

lemma stamped_created:
  assumes "stamped r"
  shows "parse_timestamp (att_created_at r) = Inr (created r)" "valid_instant (created r)" "att_created_at r = iso_utc (created r)"
  using assms by (auto simp: stamped_def created_def parse_timestamp_iso)

locale attachment_store =
  fixes ops :: "'s attachment_ops"
    and invar :: "'s \<Rightarrow> bool"
    and amap :: "'s \<Rightarrow> string \<Rightarrow> attachment_record option"
  assumes create_ok: "invar s \<Longrightarrow> stamped r \<Longrightarrow> ao_create ops r s = Inr s' \<Longrightarrow>
      invar s' \<and> amap s (att_id r) = None \<and> amap s' = (amap s)(att_id r \<mapsto> r)"
    and get_eq: "invar s \<Longrightarrow> ao_get ops i sco s =
      (case amap s i of None \<Rightarrow> None | Some r \<Rightarrow> if record_scope r = sco then Some r else None)"
    and list_set: "invar s \<Longrightarrow> set (ao_list ops sco s) = {r \<in> ran (amap s). record_scope r = sco}"
    and delete_eq: "invar s \<Longrightarrow> ao_delete ops i sco s = (rm, s') \<Longrightarrow>
      invar s' \<and> rm = ao_get ops i sco s \<and> amap s' = (if rm = None then amap s else (amap s)(i := None))"
    and before_eq: "invar s \<Longrightarrow> valid_instant cutoff \<Longrightarrow>
      \<exists>rs. ao_list_before ops cutoff s = Inr rs \<and> distinct (map att_id rs) \<and> set rs = {r \<in> ran (amap s). created r < cutoff}"
    and amap_ok: "invar s \<Longrightarrow> amap s i = Some r \<Longrightarrow> att_id r = i \<and> stamped r"

section \<open>The in-memory store meets the contract\<close>

definition mem_att_invar :: "memory_attachments \<Rightarrow> bool" where
  "mem_att_invar s \<longleftrightarrow> distinct (map fst s) \<and> (\<forall>i r. map_of s i = Some r \<longrightarrow> att_id r = i \<and> stamped r)"

lemma snd_set_ran: "distinct (map fst s) \<Longrightarrow> snd ` set s = ran (map_of s)"
  by (force simp: ran_def image_def map_of_eq_Some_iff)

lemma mem_att_ids:
  assumes "mem_att_invar s"
  shows "map att_id (map snd s) = map fst s"
proof -
  have "att_id r = i" if "(i, r) \<in> set s" for i r
    using assms that by (auto simp: mem_att_invar_def map_of_eq_Some_iff)
  then show ?thesis by (auto intro!: map_cong)
qed

lemma older_than_stamped:
  "(\<And>r. r \<in> set rs \<Longrightarrow> stamped r) \<Longrightarrow> older_than cutoff rs = Inr (filter (\<lambda>r. created r < cutoff) rs)"
proof (induction rs)
  case (Cons r rs)
  then have "stamped r" "older_than cutoff rs = Inr (filter (\<lambda>r. created r < cutoff) rs)" by simp_all
  then show ?case by (simp add: stamped_created(1))
qed simp

lemma mem_att_stamped: "mem_att_invar s \<Longrightarrow> r \<in> set (map snd s) \<Longrightarrow> stamped r"
  using snd_set_ran [of s] by (auto simp: mem_att_invar_def ran_def image_iff)

interpretation mem_att: attachment_store memory_attachment_ops mem_att_invar map_of
proof
  fix s r s' assume "mem_att_invar s" "stamped r" "ao_create memory_attachment_ops r s = Inr s'"
  then show "mem_att_invar s' \<and> map_of s (att_id r) = None \<and> map_of s' = (map_of s)(att_id r \<mapsto> r)"
    by (auto simp: memory_attachment_ops_def mem_att_create_def mem_att_invar_def distinct_map_fst_update
        simp del: not_None_eq split: if_splits)
next
  fix s i sco assume "mem_att_invar s"
  then show "ao_get memory_attachment_ops i sco s =
      (case map_of s i of None \<Rightarrow> None | Some r \<Rightarrow> if record_scope r = sco then Some r else None)"
    by (auto simp: memory_attachment_ops_def mem_att_get_def split: option.split)
next
  fix s sco assume "mem_att_invar s"
  then show "set (ao_list memory_attachment_ops sco s) = {r \<in> ran (map_of s). record_scope r = sco}"
    using snd_set_ran [of s] by (auto simp: memory_attachment_ops_def mem_att_list_def mem_att_invar_def)
next
  fix s i sco rm s' assume "mem_att_invar s" "ao_delete memory_attachment_ops i sco s = (rm, s')"
  then show "mem_att_invar s' \<and> rm = ao_get memory_attachment_ops i sco s \<and>
      map_of s' = (if rm = None then map_of s else (map_of s)(i := None))"
    by (auto simp: memory_attachment_ops_def mem_att_delete_def mem_att_invar_def distinct_delete split: option.splits if_splits)
next
  fix s cutoff assume inv: "mem_att_invar s"
  let ?rs = "filter (\<lambda>r. created r < cutoff) (map snd s)"
  have "older_than cutoff (map snd s) = Inr ?rs"
    by (rule older_than_stamped) (rule mem_att_stamped [OF inv])
  then have "ao_list_before memory_attachment_ops cutoff s = Inr ?rs"
    by (simp add: memory_attachment_ops_def mem_att_list_before_def)
  moreover have "distinct (map att_id ?rs)"
    using inv by (intro distinct_map_filter) (simp only: mem_att_ids [OF inv], simp add: mem_att_invar_def)
  moreover have "set ?rs = {r \<in> ran (map_of s). created r < cutoff}"
    using inv snd_set_ran [of s] by (auto simp: mem_att_invar_def)
  ultimately show "\<exists>rs. ao_list_before memory_attachment_ops cutoff s = Inr rs \<and> distinct (map att_id rs) \<and>
      set rs = {r \<in> ran (map_of s). created r < cutoff}" by blast
qed (simp add: mem_att_invar_def)

section \<open>The tables meet the contract\<close>

definition table_att_invar :: "attachment_table \<Rightarrow> bool" where
  "table_att_invar rows \<longleftrightarrow> distinct (map att_id rows) \<and> (\<forall>r\<in>set rows. stamped r)"

definition table_att_map :: "attachment_table \<Rightarrow> string \<Rightarrow> attachment_record option" where
  "table_att_map rows i = find (\<lambda>r. att_id r = i) rows"

lemma table_att_map_Some:
  "distinct (map att_id rows) \<Longrightarrow> table_att_map rows i = Some r \<longleftrightarrow> r \<in> set rows \<and> att_id r = i"
  by (induction rows) (auto simp: table_att_map_def)

lemma table_att_map_None: "table_att_map rows i = None \<longleftrightarrow> i \<notin> att_id ` set rows"
  by (auto simp: table_att_map_def find_None_iff)

lemma ran_table_att_map: "table_att_invar rows \<Longrightarrow> ran (table_att_map rows) = set rows"
  by (auto simp: ran_def table_att_map_Some table_att_invar_def)

lemma table_att_map_append:
  assumes "i \<notin> att_id ` set rows" "att_id r = i"
  shows "table_att_map (rows @ [r]) = (table_att_map rows)(i \<mapsto> r)"
  using assms by (induction rows) (auto simp: table_att_map_def fun_eq_iff)

lemma table_att_map_filter:
  "table_att_map (filter (\<lambda>q. att_id q \<noteq> i) rows) = (table_att_map rows)(i := None)"
  by (induction rows) (auto simp: table_att_map_def fun_eq_iff)

lemma table_att_get:
  assumes "table_att_invar rows"
  shows "sqlite_att_get i sco rows =
    (case table_att_map rows i of None \<Rightarrow> None | Some r \<Rightarrow> if record_scope r = sco then Some r else None)"
  using assms
proof (induction rows)
  case (Cons r rows)
  then have "att_id r = i \<Longrightarrow> find (\<lambda>q. att_id q = i \<and> record_scope q = sco) rows = None"
    by (auto simp: table_att_invar_def find_None_iff image_iff)
  then show ?case using Cons by (auto simp: sqlite_att_get_def table_att_map_def table_att_invar_def)
qed (simp add: sqlite_att_get_def table_att_map_def)

text \<open>The comparison of timestamps as text agrees with the comparison of instants.\<close>

lemma text_before:
  "stamped r \<Longrightarrow> valid_instant cutoff \<Longrightarrow> att_created_at r < iso_utc cutoff \<longleftrightarrow> created r < cutoff"
  using stamped_created [of r] iso_utc_less_iff by metis

lemma table_before:
  assumes "table_att_invar rows" "valid_instant cutoff"
  shows "\<exists>rs. sqlite_att_list_before cutoff rows = Inr rs \<and> distinct (map att_id rs) \<and>
    set rs = {r \<in> ran (table_att_map rows). created r < cutoff}"
proof -
  let ?kept = "filter (\<lambda>r. att_created_at r < iso_utc cutoff) rows"
  have "distinct (map att_id ?kept)" using assms by (intro distinct_map_filter) (simp add: table_att_invar_def)
  then have "distinct (map att_id (sort_key att_created_at ?kept))"
    by (metis distinct_map distinct_sort set_sort)
  moreover have "set ?kept = {r \<in> ran (table_att_map rows). created r < cutoff}"
    using assms text_before by (auto simp: ran_table_att_map table_att_invar_def)
  ultimately show ?thesis by (simp add: sqlite_att_list_before_def)
qed

lemma table_create:
  assumes "table_att_invar rows" "stamped r" "\<not> unique_violation r rows"
  shows "table_att_invar (rows @ [r]) \<and> table_att_map rows (att_id r) = None \<and>
    table_att_map (rows @ [r]) = (table_att_map rows)(att_id r \<mapsto> r)"
proof -
  have n: "att_id r \<notin> att_id ` set rows" using assms(3) by (auto simp: unique_violation_def list_ex_iff)
  then show ?thesis
    using assms by (auto simp: table_att_invar_def table_att_map_None table_att_map_append)
qed

lemma table_delete:
  assumes "table_att_invar rows" "sqlite_att_delete i sco rows = (rm, rows')"
  shows "table_att_invar rows' \<and> rm = sqlite_att_get i sco rows \<and>
    table_att_map rows' = (if rm = None then table_att_map rows else (table_att_map rows)(i := None))"
  using assms
  by (auto simp: sqlite_att_delete_def table_att_invar_def table_att_map_filter distinct_map_filter split: option.splits)

interpretation sqlite_att: attachment_store sqlite_attachment_ops table_att_invar table_att_map
proof
  fix s r s' assume "table_att_invar s" "stamped r" "ao_create sqlite_attachment_ops r s = Inr s'"
  then show "table_att_invar s' \<and> table_att_map s (att_id r) = None \<and> table_att_map s' = (table_att_map s)(att_id r \<mapsto> r)"
    using table_create by (auto simp: sqlite_attachment_ops_def sqlite_att_create_def split: if_splits)
next
  fix s i sco rm s' assume "table_att_invar s" "ao_delete sqlite_attachment_ops i sco s = (rm, s')"
  then show "table_att_invar s' \<and> rm = ao_get sqlite_attachment_ops i sco s \<and>
      table_att_map s' = (if rm = None then table_att_map s else (table_att_map s)(i := None))"
    using table_delete by (simp add: sqlite_attachment_ops_def)
next
  fix s i r assume "table_att_invar s" "table_att_map s i = Some r"
  then show "att_id r = i \<and> stamped r" by (simp add: table_att_invar_def table_att_map_Some)
next
  fix s cutoff assume "table_att_invar s" "valid_instant cutoff"
  then show "\<exists>rs. ao_list_before sqlite_attachment_ops cutoff s = Inr rs \<and> distinct (map att_id rs) \<and>
      set rs = {r \<in> ran (table_att_map s). created r < cutoff}"
    using table_before by (simp add: sqlite_attachment_ops_def)
qed (auto simp: sqlite_attachment_ops_def table_att_get sqlite_att_list_def ran_table_att_map)

text \<open>
  The PostgreSQL store runs the same statements but two: its \<^verbatim>\<open>DELETE\<close> repeats the scope, and its integer columns
  are narrower.
\<close>

lemma pg_att_delete_eq:
  assumes "table_att_invar rows"
  shows "pg_att_delete i sco rows = sqlite_att_delete i sco rows"
proof (cases "sqlite_att_get i sco rows")
  case (Some r)
  then have "r \<in> set rows" "att_id r = i" "record_scope r = sco" by (auto simp: sqlite_att_get_def find_Some_iff)
  then have "att_id q = i \<Longrightarrow> q \<in> set rows \<Longrightarrow> record_scope q = sco" for q
    using assms by (auto simp: table_att_invar_def distinct_map inj_on_def)
  then have "filter (\<lambda>q. \<not> (att_id q = i \<and> record_scope q = sco)) rows = filter (\<lambda>q. att_id q \<noteq> i) rows"
    by (intro filter_cong) auto
  then show ?thesis using Some by (simp add: pg_att_delete_def sqlite_att_delete_def pg_att_get_def sqlite_att_get_def)
qed (simp add: pg_att_delete_def sqlite_att_delete_def pg_att_get_def sqlite_att_get_def)

interpretation pg_att: attachment_store pg_attachment_ops table_att_invar table_att_map
proof
  fix s r s' assume "table_att_invar s" "stamped r" "ao_create pg_attachment_ops r s = Inr s'"
  then show "table_att_invar s' \<and> table_att_map s (att_id r) = None \<and> table_att_map s' = (table_att_map s)(att_id r \<mapsto> r)"
    using table_create by (auto simp: pg_attachment_ops_def pg_att_create_def split: if_splits)
next
  fix s i sco rm s' assume inv: "table_att_invar s" and d: "ao_delete pg_attachment_ops i sco s = (rm, s')"
  then have "sqlite_att_delete i sco s = (rm, s')" by (simp add: pg_attachment_ops_def pg_att_delete_eq)
  from table_delete [OF inv this]
  show "table_att_invar s' \<and> rm = ao_get pg_attachment_ops i sco s \<and>
      table_att_map s' = (if rm = None then table_att_map s else (table_att_map s)(i := None))"
    by (simp add: pg_attachment_ops_def pg_att_get_def sqlite_att_get_def)
next
  fix s i sco assume "table_att_invar s"
  then show "ao_get pg_attachment_ops i sco s =
      (case table_att_map s i of None \<Rightarrow> None | Some r \<Rightarrow> if record_scope r = sco then Some r else None)"
    using table_att_get by (simp add: pg_attachment_ops_def pg_att_get_def sqlite_att_get_def)
next
  fix s cutoff assume "table_att_invar s" "valid_instant cutoff"
  then show "\<exists>rs. ao_list_before pg_attachment_ops cutoff s = Inr rs \<and> distinct (map att_id rs) \<and>
      set rs = {r \<in> ran (table_att_map s). created r < cutoff}"
    using table_before by (simp add: pg_attachment_ops_def pg_att_list_before_def sqlite_att_list_before_def)
qed (auto simp: pg_attachment_ops_def pg_att_list_def ran_table_att_map table_att_map_Some table_att_invar_def)

section \<open>The stores are interchangeable\<close>

text \<open>
  A sequence of calls and what a caller can tell of it: whether a creation was accepted, which record was
  returned, and the set of records listed. The abstract store runs the calls on a map.
\<close>

datatype store_call =
    CallCreate attachment_record
  | CallGet string scope
  | CallList scope
  | CallDelete string scope
  | CallBefore instant

datatype observation = ObsAccepted bool | ObsRecord "attachment_record option" | ObsRecords "attachment_record set option"

fun observe :: "'s attachment_ops \<Rightarrow> store_call \<Rightarrow> 's \<Rightarrow> observation \<times> 's" where
  "observe ops (CallCreate r) s = (case ao_create ops r s of Inl _ \<Rightarrow> (ObsAccepted False, s) | Inr s' \<Rightarrow> (ObsAccepted True, s'))"
| "observe ops (CallGet i sco) s = (ObsRecord (ao_get ops i sco s), s)"
| "observe ops (CallList sco) s = (ObsRecords (Some (set (ao_list ops sco s))), s)"
| "observe ops (CallDelete i sco) s = (case ao_delete ops i sco s of (rm, s') \<Rightarrow> (ObsRecord rm, s'))"
| "observe ops (CallBefore t) s =
     (case ao_list_before ops t s of Inl _ \<Rightarrow> (ObsRecords None, s) | Inr rs \<Rightarrow> (ObsRecords (Some (set rs)), s))"

fun observe_all :: "'s attachment_ops \<Rightarrow> store_call list \<Rightarrow> 's \<Rightarrow> observation list" where
  "observe_all ops [] s = []"
| "observe_all ops (c # cs) s = (case observe ops c s of (x, s') \<Rightarrow> x # observe_all ops cs s')"

fun spec_observe :: "store_call \<Rightarrow> (string \<Rightarrow> attachment_record option) \<Rightarrow> observation \<times> (string \<Rightarrow> attachment_record option)" where
  "spec_observe (CallCreate r) m = (if m (att_id r) = None then (ObsAccepted True, m(att_id r \<mapsto> r)) else (ObsAccepted False, m))"
| "spec_observe (CallGet i sco) m = (ObsRecord (case m i of Some r \<Rightarrow> if record_scope r = sco then Some r else None | None \<Rightarrow> None), m)"
| "spec_observe (CallList sco) m = (ObsRecords (Some {r \<in> ran m. record_scope r = sco}), m)"
| "spec_observe (CallDelete i sco) m =
     (case m i of None \<Rightarrow> (ObsRecord None, m)
      | Some r \<Rightarrow> if record_scope r = sco then (ObsRecord (Some r), m(i := None)) else (ObsRecord None, m))"
| "spec_observe (CallBefore t) m = (ObsRecords (Some {r \<in> ran m. created r < t}), m)"

fun spec_observe_all :: "store_call list \<Rightarrow> (string \<Rightarrow> attachment_record option) \<Rightarrow> observation list" where
  "spec_observe_all [] m = []"
| "spec_observe_all (c # cs) m = (case spec_observe c m of (x, m') \<Rightarrow> x # spec_observe_all cs m')"

text \<open>
  The records that the service creates: stamped, with integers that fit the narrowest column, and with the
  identifier as the name of the stored file, up to its extension.
\<close>

definition path_id :: "string \<Rightarrow> string" where
  "path_id p = takeWhile (\<lambda>c. c \<noteq> CHR ''.'') (last (split_on CHR ''/'' p))"

definition storable :: "attachment_record \<Rightarrow> bool" where
  "storable r \<longleftrightarrow> stamped r \<and> integers_fit 32 r \<and> path_id (att_storage_path r) = att_id r"

fun call_ok :: "store_call \<Rightarrow> bool" where
  "call_ok (CallCreate r) = storable r"
| "call_ok (CallBefore t) = valid_instant t"
| "call_ok _ = True"

locale accepting_store = attachment_store +
  assumes create_accepts: "invar s \<Longrightarrow> (\<And>q. q \<in> ran (amap s) \<Longrightarrow> storable q) \<Longrightarrow> storable r \<Longrightarrow> amap s (att_id r) = None \<Longrightarrow>
      \<exists>s'. ao_create ops r s = Inr s'"
begin

lemma observe_refines:
  assumes "invar s" "\<forall>q\<in>ran (amap s). storable q" "call_ok c" "observe ops c s = (x, s')"
  shows "invar s'" "\<forall>q\<in>ran (amap s'). storable q" "spec_observe c (amap s) = (x, amap s')"
proof -
  have "invar s' \<and> (\<forall>q\<in>ran (amap s'). storable q) \<and> spec_observe c (amap s) = (x, amap s')"
  proof (cases c)
    case (CallCreate r)
    then have r: "storable r" "stamped r" using assms(3) by (auto simp: storable_def)
    show ?thesis
    proof (cases "ao_create ops r s")
      case (Inl e)
      then have "amap s (att_id r) \<noteq> None" using create_accepts [OF assms(1) _ r(1)] assms(2) by fastforce
      then show ?thesis using assms Inl CallCreate by auto
    next
      case (Inr t)
      then have "x = ObsAccepted True" "s' = t" using assms(4) CallCreate by auto
      then show ?thesis using create_ok [OF assms(1) r(2) Inr] r(1) assms(2) CallCreate by (auto simp: ran_def)
    qed
  next
    case (CallDelete i sco)
    then obtain rm where d: "ao_delete ops i sco s = (rm, s')" "x = ObsRecord rm"
      using assms(4) by (auto split: prod.splits)
    from delete_eq [OF assms(1) d(1)] show ?thesis
      using get_eq [OF assms(1), of i sco] assms(2) d(2) CallDelete
      by (auto simp: ran_def split: option.splits if_splits)
  next
    case (CallBefore t)
    then show ?thesis using before_eq [OF assms(1), of t] assms by auto
  qed (use assms get_eq list_set in auto)
  then show "invar s'" "\<forall>q\<in>ran (amap s'). storable q" "spec_observe c (amap s) = (x, amap s')" by auto
qed

lemma observe_all_refines:
  assumes "invar s" "\<forall>q\<in>ran (amap s). storable q" "list_all call_ok cs"
  shows "observe_all ops cs s = spec_observe_all cs (amap s)"
  using assms
proof (induction cs arbitrary: s)
  case (Cons c cs)
  obtain x s' where o: "observe ops c s = (x, s')" by fastforce
  from Cons.prems(3) have "call_ok c" by simp
  from observe_refines [OF Cons.prems(1,2) this o] Cons show ?case by (simp add: o)
qed simp

end

lemma storable_path: "storable q \<Longrightarrow> storable r \<Longrightarrow> att_storage_path q = att_storage_path r \<Longrightarrow> att_id q = att_id r"
  by (simp add: storable_def)

lemma integers_fit_64: "integers_fit 32 r \<Longrightarrow> integers_fit 64 r"
  by (auto simp: integers_fit_def)

lemma no_unique_violation:
  assumes "table_att_invar rows" "\<And>q. q \<in> ran (table_att_map rows) \<Longrightarrow> storable q" "storable r" "table_att_map rows (att_id r) = None"
  shows "\<not> unique_violation r rows"
proof -
  have "att_id q \<noteq> att_id r \<and> att_storage_path q \<noteq> att_storage_path r" if q: "q \<in> set rows" for q
  proof -
    have "storable q" using q assms(1,2) by (simp add: ran_table_att_map)
    moreover have "att_id q \<noteq> att_id r" using q assms(4) by (metis imageI table_att_map_None)
    ultimately show ?thesis using storable_path [OF _ assms(3)] by blast
  qed
  then show ?thesis by (auto simp: unique_violation_def list_ex_iff)
qed

interpretation mem_accepting: accepting_store memory_attachment_ops mem_att_invar map_of
  by unfold_locales (simp add: memory_attachment_ops_def mem_att_create_def)

interpretation sqlite_accepting: accepting_store sqlite_attachment_ops table_att_invar table_att_map
  by unfold_locales
    (simp add: sqlite_attachment_ops_def sqlite_att_create_def no_unique_violation integers_fit_64 storable_def)

interpretation pg_accepting: accepting_store pg_attachment_ops table_att_invar table_att_map
  by unfold_locales (simp add: pg_attachment_ops_def pg_att_create_def no_unique_violation storable_def)


definition demo_attachment :: attachment_record where
  "demo_attachment = \<lparr>att_id = ''a1'', att_workspace_id = ''w1'', att_tenant_id = ''t1'', att_user_id = ''u1'',
     att_filename = ''x.png'', att_content_type = ''image/png'', att_image_format = ''PNG'', att_size_bytes = 3,
     att_sha256 = ''h'', att_width = 1, att_height = 1, att_storage_path = ''d/a1.png'', att_created_at = iso_utc 0\<rparr>"

lemma demo_storable: "storable demo_attachment"
proof -
  have "valid_instant 0" by (simp add: valid_instant_def day_us_def)
  moreover have "path_id ''d/a1.png'' = ''a1''" by code_simp
  ultimately show ?thesis by (auto simp: storable_def stamped_def demo_attachment_def integers_fit_def)
qed


end
