(* ===== verification/Outbound_Adapters.thy ===== *)
theory Outbound_Adapters
  imports Model_Providers Mcp_Gateway Trace_Records Claims_Auth
begin

text \<open>
  The outbound adapters that a deployment configures beside the model and vision providers: the OTLP/HTTP trace exporter
  of \<^verbatim>\<open>packages/observability/tracing.py\<close>, and the constructor and the health probe of the MCP client in
  \<^verbatim>\<open>packages/agent_runtime/mcp_http.py\<close>. The HTTP transport and SHA-256 are parameters.
\<close>

section \<open>OtlpHttpTraceExporter\<close>

record otlp_exporter =
  ox_endpoint :: string
  ox_bearer_token :: "string option"
  ox_timeout_seconds :: pyfloat
  ox_max_bytes :: int

definition otlp_init ::
    "ip6_parser \<Rightarrow> string \<Rightarrow> string list \<Rightarrow> string option \<Rightarrow> pyfloat \<Rightarrow> int \<Rightarrow> (string, otlp_exporter) result" where
  "otlp_init ip6 endpoint allowed bearer timeout max_bytes =
     (if timeout_invalid timeout 60 then Inl ''trace exporter timeout is invalid''
      else if max_bytes \<le> 0 \<or> max_bytes > 1024 * 1024 then Inl ''trace exporter payload bound is invalid''
      else if (case bearer of None \<Rightarrow> False | Some t \<Rightarrow> blank t \<or> length t > 4096) then Inl ''trace exporter bearer token is invalid''
      else (case validated_https_endpoint ip6 endpoint allowed ''trace exporter'' ''/v1/traces'' of
          Inl e \<Rightarrow> Inl e
        | Inr url \<Rightarrow> Inr \<lparr>ox_endpoint = url, ox_bearer_token = bearer, ox_timeout_seconds = timeout, ox_max_bytes = max_bytes\<rparr>))"

definition lower_hex :: "char \<Rightarrow> bool" where
  "lower_hex c \<longleftrightarrow> is_digit c \<or> (97 \<le> code c \<and> code c \<le> 102)"

definition otlp_id :: "(string \<Rightarrow> string) \<Rightarrow> string \<Rightarrow> nat \<Rightarrow> string" where
  "otlp_id sha v n =
     (let normalized = lower v in
      if length normalized = n \<and> list_all lower_hex normalized then normalized else take n (sha (utf8_encode v)))"

fun otlp_attribute :: "string \<times> pyval \<Rightarrow> pyval" where
  "otlp_attribute (k, VBool b) = VDict [(''key'', VStr k), (''value'', VDict [(''boolValue'', VBool b)])]"
| "otlp_attribute (k, VInt i) = VDict [(''key'', VStr k), (''value'', VDict [(''intValue'', VInt i)])]"
| "otlp_attribute (k, v) = VDict [(''key'', VStr k), (''value'', VDict [(''stringValue'', v)])]"

definition otlp_span :: "(string \<Rightarrow> string) \<Rightarrow> trace_record \<Rightarrow> pydict" where
  "otlp_span sha r =
     [(''traceId'', VStr (otlp_id sha (tr_trace_id r) 32)),
      (''spanId'', VStr (otlp_id sha (tr_span_id r) 16)),
      (''parentSpanId'', VStr (case tr_parent_span_id r of None \<Rightarrow> [] | Some p \<Rightarrow> if p = [] then [] else otlp_id sha p 16)),
      (''name'', VStr (tr_name r)), (''kind'', VInt 1),
      (''startTimeUnixNano'', VInt (tr_start r)), (''endTimeUnixNano'', VInt (tr_end r)),
      (''attributes'', VList (map otlp_attribute (sort_key fst (tr_attributes r))))]"

definition otlp_document :: "(string \<Rightarrow> string) \<Rightarrow> trace_record \<Rightarrow> pyval" where
  "otlp_document sha r =
     VDict [(''resourceSpans'', VList [VDict
       [(''resource'', VDict [(''attributes'', VList [otlp_attribute (''service.name'', VStr ''enterprise-ai-copilot'')])]),
        (''scopeSpans'', VList [VDict
          [(''scope'', VDict [(''name'', VStr ''enterprise-ai-copilot'')]), (''spans'', VList [VDict (otlp_span sha r)])]])]])]"

text \<open>\<^const>\<open>Inl\<close> is the \<^verbatim>\<open>TraceExportError\<close> of a payload above the bound.\<close>

definition otlp_payload :: "(string \<Rightarrow> string) \<Rightarrow> (pyfloat \<Rightarrow> string) \<Rightarrow> otlp_exporter \<Rightarrow> trace_record \<Rightarrow> (string, string) result" where
  "otlp_payload sha fr x r =
     (let encoded = utf8_encode (json_dumps fr (otlp_document sha r)) in
      if int (length encoded) > ox_max_bytes x then Inl ''trace payload exceeds configured bound'' else Inr encoded)"

definition otlp_request :: "otlp_exporter \<Rightarrow> string \<Rightarrow> http_request" where
  "otlp_request x body =
     \<lparr>hr_url = ox_endpoint x,
      hr_headers = [(''Content-Type'', ''application/json''), (''Accept'', ''application/json'')] @
        (case ox_bearer_token x of None \<Rightarrow> [] | Some t \<Rightarrow> if t = [] then [] else [(''Authorization'', ''Bearer '' @ t)]),
      hr_body = body\<rparr>"

text \<open>
  What the transport does: a status, one of the exceptions that are caught, or another exception. The result is the class of
  the exception that \<^verbatim>\<open>export\<close> raises.
\<close>

datatype http_outcome = Status int | Failed | Escapes string

definition otlp_export ::
    "(http_request \<Rightarrow> http_outcome) \<Rightarrow> (string \<Rightarrow> string) \<Rightarrow> (pyfloat \<Rightarrow> string) \<Rightarrow> otlp_exporter \<Rightarrow> trace_record \<Rightarrow> string option" where
  "otlp_export send sha fr x r =
     (case otlp_payload sha fr x r of
        Inl _ \<Rightarrow> Some ''TraceExportError''
      | Inr body \<Rightarrow> (case send (otlp_request x body) of
            Failed \<Rightarrow> Some ''TraceExportError''
          | Escapes e \<Rightarrow> Some e
          | Status n \<Rightarrow> if 200 \<le> n \<and> n < 300 then None else Some ''TraceExportError''))"

text \<open>\<open>time_ns\<close> is \<^verbatim>\<open>time.time_ns()\<close>.\<close>

definition new_span_id :: "(string \<Rightarrow> string) \<Rightarrow> int \<Rightarrow> string" where
  "new_span_id sha time_ns = take 16 (sha (int_str time_ns))"

section \<open>InMemoryTraceExporter\<close>

definition memory_export :: "trace_record \<Rightarrow> trace_record list \<Rightarrow> trace_record list" where
  "memory_export r records = records @ [r]"

section \<open>StreamableHttpMcpGateway\<close>

definition mcp_http_init ::
    "ip6_parser \<Rightarrow> string \<Rightarrow> (string, tool_definition) dict \<Rightarrow> string list \<Rightarrow> string option \<Rightarrow> pyfloat \<Rightarrow> (string, remote_gateway) result" where
  "mcp_http_init ip6 endpoint definitions allowed bearer timeout =
     (if timeout_invalid timeout 120 then Inl ''MCP timeout must be between 0 and 120 seconds''
      else (case validated_https_endpoint ip6 endpoint allowed ''MCP'' ''/'' of
          Inl e \<Rightarrow> Inl e
        | Inr url \<Rightarrow> Inr \<lparr>rg_endpoint = url, rg_definitions = definitions, rg_bearer_token = bearer\<rparr>))"

text \<open>The answer to the \<^verbatim>\<open>GET\<close> probe; \<open>Rejected\<close> is an \<^verbatim>\<open>HTTPError\<close> with its code.\<close>

datatype probe_outcome = Answered int | Rejected int | Unreachable

definition mcp_http_health :: "(string \<Rightarrow> (string, string) dict \<Rightarrow> probe_outcome) \<Rightarrow> remote_gateway \<Rightarrow> (string, string) dict" where
  "mcp_http_health get g =
     (let healthy = (case get (rg_endpoint g) (remote_headers g) of
          Answered n \<Rightarrow> 200 \<le> n \<and> n < 300 | Rejected n \<Rightarrow> n = 405 | Unreachable \<Rightarrow> False)
      in [(''server_id'', ''remote-mcp''), (''transport'', ''streamable_http''), (''status'', if healthy then ''healthy'' else ''unhealthy'')])"

section \<open>Properties\<close>

lemma otlp_id_hex:
  assumes "\<And>s. n \<le> length (sha s) \<and> list_all lower_hex (sha s)"
  shows "length (otlp_id sha v n) = n \<and> list_all lower_hex (otlp_id sha v n)"
  using assms by (auto simp: otlp_id_def Let_def list_all_iff dest: in_set_takeD)

text \<open>
  What the trace exporter sends: whatever the identifiers of an accepted span record, the identifiers of the exported
  span are lower-case hexadecimal of exactly the lengths that OTLP prescribes, its attributes are those of the record
  in key order, the body is at most the configured number of bytes, and it goes to the approved endpoint; a record above
  the bound is refused without sending anything, and every failure of the transport that the code foresees is the one
  error the runtime absorbs.\<close>

lemma otlp_export_bounded:
  assumes "otlp_init ip6 endpoint allowed bearer timeout max_bytes = Inr x" "\<forall>s. length (sha s) = 64 \<and> list_all lower_hex (sha s)"
  shows "length (otlp_id sha (tr_trace_id r) 32) = 32 \<and> list_all lower_hex (otlp_id sha (tr_trace_id r) 32) \<and>
    length (otlp_id sha (tr_span_id r) 16) = 16 \<and> list_all lower_hex (otlp_id sha (tr_span_id r) 16) \<and>
    (\<forall>body. otlp_payload sha fr x r = Inr body \<longrightarrow> int (length body) \<le> max_bytes \<and>
       otlp_export send sha fr x r = (case send (otlp_request x body) of
         Status n \<Rightarrow> if 200 \<le> n \<and> n < 300 then None else Some ''TraceExportError'' | Failed \<Rightarrow> Some ''TraceExportError'' | Escapes e \<Rightarrow> Some e) \<and>
       validated_https_endpoint ip6 endpoint allowed ''trace exporter'' ''/v1/traces'' = Inr (hr_url (otlp_request x body))) \<and>
    (\<forall>msg. otlp_payload sha fr x r = Inl msg \<longrightarrow> otlp_export send sha fr x r = Some ''TraceExportError'')"
proof -
  from assms(1) have x: "ox_max_bytes x = max_bytes" "validated_https_endpoint ip6 endpoint allowed ''trace exporter'' ''/v1/traces'' = Inr (ox_endpoint x)"
    by (auto simp: otlp_init_def split: if_splits sum.splits)
  have ids: "length (otlp_id sha v n) = n \<and> list_all lower_hex (otlp_id sha v n)" if "n \<le> 64" for v n
    using that assms(2) by (intro otlp_id_hex) auto
  have "otlp_payload sha fr x r = Inr body \<Longrightarrow> int (length body) \<le> max_bytes" for body
    using x(1) by (auto simp: otlp_payload_def Let_def split: if_splits)
  moreover have "hr_url (otlp_request x body) = ox_endpoint x" for body by (simp add: otlp_request_def)
  ultimately show ?thesis using ids x(2) by (auto simp: otlp_export_def split: http_outcome.splits)
qed

text \<open>An accepted MCP endpoint is a validated one, and the probe is healthy only for an answer or the 405 of a POST-only server.\<close>

lemma mcp_http_init_Inr:
  "mcp_http_init ip6 endpoint definitions allowed bearer timeout = Inr g \<Longrightarrow>
     validated_https_endpoint ip6 endpoint allowed ''MCP'' ''/'' = Inr (rg_endpoint g) \<and> rg_definitions g = definitions \<and> \<not> timeout_invalid timeout 120"
  by (auto simp: mcp_http_init_def split: if_splits sum.splits)

lemma mcp_http_healthy_iff:
  "map_of (mcp_http_health get g) ''status'' = Some ''healthy'' \<longleftrightarrow>
     (\<exists>n. get (rg_endpoint g) (remote_headers g) = Answered n \<and> 200 \<le> n \<and> n < 300) \<or> get (rg_endpoint g) (remote_headers g) = Rejected 405"
  by (auto simp: mcp_http_health_def Let_def split: probe_outcome.splits)

text \<open>A time-out that is not a number passes the check of its range.\<close>

lemma nan_timeout_accepted: "\<not> timeout_invalid NaN limit"
  by (simp add: timeout_invalid_def num_less_def)

end
