(* ===== verification/Run_Service.thy ===== *)
theory Run_Service
  imports Agent_Runtime
begin

text \<open>
  Durable run records: the stores of \<^verbatim>\<open>packages/agent_runtime/runs.py\<close> (SQLite) and of
  \<^verbatim>\<open>packages/persistence/postgres.py\<close> (PostgreSQL), and the \<^verbatim>\<open>RunService\<close> of \<^verbatim>\<open>services/api/app.py\<close>
  with its in-process caches. A table row is the stored run itself: the status column round-trips
  through \<^const>\<open>run_status_of\<close>, and reading a row turns an empty idempotency key into \<^verbatim>\<open>None\<close>.
\<close>

record stored_run =
  sr_result :: run_result
  sr_identity :: identity_context
  sr_idempotency_key :: "string option"

type_synonym run_table = "stored_run list"

text \<open>\<^verbatim>\<open>_from_row\<close> of a row written from \<open>r\<close>; \<^const>\<open>None\<close> would be the \<^verbatim>\<open>ValueError\<close> of \<^verbatim>\<open>RunStatus(...)\<close>.\<close>

definition run_from_row :: "stored_run \<Rightarrow> stored_run" where
  "run_from_row r =
     r\<lparr>sr_result := (sr_result r)\<lparr>rr_status := the (run_status_of (run_status_value (rr_status (sr_result r))))\<rparr>,
       sr_idempotency_key := (case sr_idempotency_key r of None \<Rightarrow> None | Some k \<Rightarrow> if k = [] then None else Some k)\<rparr>"

definition run_key_conflict :: "stored_run \<Rightarrow> stored_run \<Rightarrow> bool" where
  "run_key_conflict a b \<longleftrightarrow> sr_idempotency_key a \<noteq> None \<and> sr_idempotency_key b = sr_idempotency_key a \<and>
     sr_identity b = sr_identity a"

definition run_id_conflict :: "stored_run \<Rightarrow> stored_run \<Rightarrow> bool" where
  "run_id_conflict a b \<longleftrightarrow> rr_run_id (sr_result b) = rr_run_id (sr_result a)"

text \<open>\<^verbatim>\<open>execute(SELECT ... WHERE).fetchone()\<close>.\<close>

definition find_run :: "(stored_run \<Rightarrow> bool) \<Rightarrow> run_table \<Rightarrow> stored_run option" where
  "find_run p t = map_option run_from_row (find p t)"

record 's run_ops =
  ro_save :: "stored_run \<Rightarrow> 's \<Rightarrow> (string, stored_run option \<times> 's) result"
  ro_get :: "string \<Rightarrow> identity_context \<Rightarrow> 's \<Rightarrow> stored_run option"
  ro_find_idempotent :: "identity_context \<Rightarrow> string \<Rightarrow> 's \<Rightarrow> stored_run option"

section \<open>SQLiteRunStore\<close>

definition sqlite_run_save :: "stored_run \<Rightarrow> run_table \<Rightarrow> (string, stored_run option \<times> run_table) result" where
  "sqlite_run_save r t =
     (if list_ex (\<lambda>x. run_id_conflict r x \<or> run_key_conflict r x) t then Inl ''IntegrityError''
      else Inr (Some r, t @ [r]))"

definition sqlite_run_get :: "string \<Rightarrow> identity_context \<Rightarrow> run_table \<Rightarrow> stored_run option" where
  "sqlite_run_get run_id identity = find_run (\<lambda>x. rr_run_id (sr_result x) = run_id \<and>
     user_id (sr_identity x) = user_id identity \<and> workspace_id (sr_identity x) = workspace_id identity \<and>
     tenant_id (sr_identity x) = tenant_id identity \<and> role (sr_identity x) = role identity)"

definition sqlite_run_find_idempotent :: "identity_context \<Rightarrow> string \<Rightarrow> run_table \<Rightarrow> stored_run option" where
  "sqlite_run_find_idempotent identity key = find_run (\<lambda>x. user_id (sr_identity x) = user_id identity \<and>
     workspace_id (sr_identity x) = workspace_id identity \<and> tenant_id (sr_identity x) = tenant_id identity \<and>
     role (sr_identity x) = role identity \<and> sr_idempotency_key x = Some key)"

definition sqlite_run_ops :: "run_table run_ops" where
  "sqlite_run_ops = \<lparr>ro_save = sqlite_run_save, ro_get = sqlite_run_get, ro_find_idempotent = sqlite_run_find_idempotent\<rparr>"

section \<open>PostgresRunStore\<close>

definition pg_run_get :: "string \<Rightarrow> identity_context \<Rightarrow> run_table \<Rightarrow> stored_run option" where
  "pg_run_get run_id identity t = find_run (\<lambda>x. rr_run_id (sr_result x) = run_id \<and> sr_identity x = identity) t"

definition pg_run_find_idempotent :: "identity_context \<Rightarrow> string \<Rightarrow> run_table \<Rightarrow> stored_run option" where
  "pg_run_find_idempotent identity key t = find_run (\<lambda>x. sr_identity x = identity \<and> sr_idempotency_key x = Some key) t"

text \<open>
  With a key, the insert is \<^verbatim>\<open>ON CONFLICT (workspace_id, tenant_id, user_id, role, idempotency_key) DO NOTHING\<close>
  and the row that holds the key afterwards is returned; any other conflict is raised after a rollback.
\<close>

definition pg_run_save :: "stored_run \<Rightarrow> run_table \<Rightarrow> (string, stored_run option \<times> run_table) result" where
  "pg_run_save r t =
     (case (case sr_idempotency_key r of None \<Rightarrow> None | Some k \<Rightarrow> if k = [] then None else Some k) of
        None \<Rightarrow>
          if list_ex (\<lambda>x. run_id_conflict r x \<or> run_key_conflict r x) t then Inl ''UniqueViolation''
          else Inr (Some r, t @ [r])
      | Some k \<Rightarrow>
          if list_ex (run_key_conflict r) t
          then Inr (Some (case pg_run_find_idempotent (sr_identity r) k t of None \<Rightarrow> r | Some x \<Rightarrow> x), t)
          else if list_ex (run_id_conflict r) t then Inl ''UniqueViolation''
          else let t' = t @ [r]
               in Inr (Some (case pg_run_find_idempotent (sr_identity r) k t' of None \<Rightarrow> r | Some x \<Rightarrow> x), t'))"

definition pg_run_ops :: "run_table run_ops" where
  "pg_run_ops = \<lparr>ro_save = pg_run_save, ro_get = pg_run_get, ro_find_idempotent = pg_run_find_idempotent\<rparr>"

section \<open>RunService\<close>

record run_request =
  rq_query :: string
  rq_order_id :: "string option"
  rq_allow_external_processing :: bool

type_synonym run_key = "string \<times> string \<times> string \<times> string \<times> string"

record 's run_service =
  rs_runs :: "(string, stored_run) dict"
  rs_idempotency :: "(run_key, string) dict"
  rs_store :: 's
  rs_audit :: audit_log

definition run_service_init :: "'s \<Rightarrow> audit_log \<Rightarrow> 's run_service" where
  "run_service_init store audit = \<lparr>rs_runs = [], rs_idempotency = [], rs_store = store, rs_audit = audit\<rparr>"

definition run_key :: "identity_context \<Rightarrow> string \<Rightarrow> run_key" where
  "run_key i k = (workspace_id i, tenant_id i, user_id i, role i, k)"

text \<open>The cached or stored result of an earlier run with the same key, if there is one.\<close>

definition replay ::
    "identity_context \<Rightarrow> string \<Rightarrow> 's run_service \<Rightarrow>
     ((string, run_result) result \<times> 's run_service) option" where
  "replay identity k s =
     (case map_of (rs_idempotency s) (run_key identity k) of
        Some rid \<Rightarrow>
          if rid \<noteq> [] then
            Some (case map_of (rs_runs s) rid of None \<Rightarrow> Inl ''KeyError'' | Some st \<Rightarrow> Inr (sr_result st), s)
          else None
      | None \<Rightarrow> None)"

definition replay_stored ::
    "'s run_ops option \<Rightarrow> identity_context \<Rightarrow> string \<Rightarrow> 's run_service \<Rightarrow>
     ((string, run_result) result \<times> 's run_service) option" where
  "replay_stored store identity k s =
     (case store of None \<Rightarrow> None
      | Some ops \<Rightarrow>
          (case ro_find_idempotent ops identity k (rs_store s) of
             None \<Rightarrow> None
           | Some st \<Rightarrow> Some (Inr (sr_result st),
               s\<lparr>rs_runs := AList.update (rr_run_id (sr_result st)) st (rs_runs s),
                 rs_idempotency := AList.update (run_key identity k) (rr_run_id (sr_result st)) (rs_idempotency s)\<rparr>)))"

text \<open>The run itself, the durable save and the caches.\<close>

definition execute_new ::
    "'s run_ops option \<Rightarrow> agent_runtime \<Rightarrow> call_env \<Rightarrow> run_request \<Rightarrow> identity_context \<Rightarrow> string option \<Rightarrow>
     string option \<Rightarrow> string option \<Rightarrow> 's run_service \<Rightarrow> (string, run_result) result \<times> 's run_service" where
  "execute_new store rt env request identity key request_id trace_id s =
     (case run rt env (VStr (rq_query request)) identity (rq_order_id request) request_id trace_id
             (rq_allow_external_processing request) (rs_audit s) of
        (Inl e, audit) \<Rightarrow> (Inl e, s\<lparr>rs_audit := audit\<rparr>)
      | (Inr result, audit) \<Rightarrow>
          let s1 = s\<lparr>rs_audit := audit\<rparr>;
              stored = \<lparr>sr_result = result, sr_identity = identity, sr_idempotency_key = key\<rparr>
          in case (case store of None \<Rightarrow> Inr (None, rs_store s1) | Some ops \<Rightarrow> ro_save ops stored (rs_store s1)) of
               Inl e \<Rightarrow> (Inl e, s1)
             | Inr (persisted, store') \<Rightarrow>
                 let stored = (case persisted of None \<Rightarrow> stored | Some p \<Rightarrow> p);
                     result = sr_result stored;
                     s2 = s1\<lparr>rs_store := store',
                             rs_runs := AList.update (rr_run_id result) stored (rs_runs s1)\<rparr>
                 in (Inr result,
                     case key of None \<Rightarrow> s2
                     | Some k \<Rightarrow> if k = [] then s2
                         else s2\<lparr>rs_idempotency := AList.update (run_key identity k) (rr_run_id result) (rs_idempotency s2)\<rparr>))"

definition execute ::
    "'s run_ops option \<Rightarrow> agent_runtime \<Rightarrow> call_env \<Rightarrow> run_request \<Rightarrow> identity_context \<Rightarrow> string option \<Rightarrow>
     string option \<Rightarrow> string option \<Rightarrow> 's run_service \<Rightarrow> (string, run_result) result \<times> 's run_service" where
  "execute store rt env request identity key request_id trace_id s =
     (case key of None \<Rightarrow> execute_new store rt env request identity key request_id trace_id s
      | Some k \<Rightarrow>
          if k = [] then execute_new store rt env request identity key request_id trace_id s
          else case replay identity k s of
            Some out \<Rightarrow> out
          | None \<Rightarrow> (case replay_stored store identity k s of
              Some out \<Rightarrow> out
            | None \<Rightarrow> execute_new store rt env request identity key request_id trace_id s))"

definition run_get ::
    "'s run_ops option \<Rightarrow> string \<Rightarrow> identity_context \<Rightarrow> 's run_service \<Rightarrow> stored_run option \<times> 's run_service" where
  "run_get store run_id identity s =
     (let (stored, s1) =
        (case map_of (rs_runs s) run_id of
           Some st \<Rightarrow> (Some st, s)
         | None \<Rightarrow> (case store of None \<Rightarrow> (None, s)
             | Some ops \<Rightarrow> (case ro_get ops run_id identity (rs_store s) of
                 None \<Rightarrow> (None, s)
               | Some st \<Rightarrow> (Some st, s\<lparr>rs_runs := AList.update run_id st (rs_runs s)\<rparr>))))
      in (case stored of None \<Rightarrow> None
          | Some st \<Rightarrow> if (workspace_id (sr_identity st), tenant_id (sr_identity st), user_id (sr_identity st)) =
               (workspace_id identity, tenant_id identity, user_id identity) then Some st else None, s1))"

text \<open>\<^verbatim>\<open>_result_response\<close>: the HTTP status of a run.\<close>

definition result_response :: "run_result \<Rightarrow> nat" where
  "result_response r = (case rr_status r of SUCCEEDED \<Rightarrow> 200 | BLOCKED \<Rightarrow> 403 | CANCELLED \<Rightarrow> 409 | _ \<Rightarrow> 502)"


section \<open>The contract of a run store\<close>

lemma run_from_row_simps [simp]:
  "sr_result (run_from_row r) = sr_result r" "sr_identity (run_from_row r) = sr_identity r"
  by (simp_all add: run_from_row_def)

lemma run_from_row_key:
  "sr_idempotency_key (run_from_row r) = Some k \<longleftrightarrow> sr_idempotency_key r = Some k \<and> k \<noteq> []"
  by (auto simp: run_from_row_def split: option.splits)

lemma run_key_eq [simp]: "run_key i k = run_key i' k' \<longleftrightarrow> i = i' \<and> k = k'"
  by (auto simp: run_key_def intro: identity_context.equality)

definition holds_key :: "identity_context \<Rightarrow> string \<Rightarrow> stored_run \<Rightarrow> bool" where
  "holds_key i k x \<longleftrightarrow> sr_identity x = i \<and> sr_idempotency_key x = Some k"

definition holds_id :: "identity_context \<Rightarrow> string \<Rightarrow> stored_run \<Rightarrow> bool" where
  "holds_id i rid x \<longleftrightarrow> rr_run_id (sr_result x) = rid \<and> sr_identity x = i"

definition run_rows_ok :: "stored_run list \<Rightarrow> bool" where
  "run_rows_ok rows \<longleftrightarrow> distinct (map (rr_run_id \<circ> sr_result) rows) \<and> (\<forall>x\<in>set rows. rr_run_id (sr_result x) \<noteq> [])"

locale run_store =
  fixes ops :: "'s run_ops"
    and rows :: "'s \<Rightarrow> stored_run list"
  assumes get_eq: "ro_get ops rid i s = find (holds_id i rid) (rows s)"
    and find_eq: "k \<noteq> [] \<Longrightarrow> ro_find_idempotent ops i k s = find (holds_key i k) (rows s)"
    and save_cases: "ro_save ops r s = Inr (persisted, s') \<Longrightarrow> \<exists>p. persisted = Some p \<and>
      (rows s' = rows s \<and> (\<exists>k. k \<noteq> [] \<and> sr_idempotency_key r = Some k \<and> find (holds_key (sr_identity r) k) (rows s) = Some p) \<or>
       rows s' = rows s @ [run_from_row r] \<and> sr_result p = sr_result r \<and>
         (\<forall>x\<in>set (rows s). rr_run_id (sr_result x) \<noteq> rr_run_id (sr_result r)) \<and>
         (\<forall>k x. sr_idempotency_key r = Some k \<and> k \<noteq> [] \<and> x \<in> set (rows s) \<longrightarrow> \<not> holds_key (sr_identity r) k x))"

lemma find_map_row: "find p (map f xs) = map_option f (find (p \<circ> f) xs)"
  by (induction xs) auto

lemma holds_key_from_row: "holds_key i k (run_from_row x) \<longleftrightarrow> sr_identity x = i \<and> sr_idempotency_key x = Some k \<and> k \<noteq> []"
  by (simp add: holds_key_def run_from_row_key)

lemma identity_fields:
  "user_id a = user_id b \<and> workspace_id a = workspace_id b \<and> tenant_id a = tenant_id b \<and> role a = role b \<longleftrightarrow> a = (b :: identity_context)"
  by (auto intro: identity_context.equality)

lemma run_find_eq:
  assumes "k \<noteq> []"
  shows "find_run (\<lambda>x. sr_identity x = i \<and> sr_idempotency_key x = Some k) t = find (holds_key i k) (map run_from_row t)"
  using assms by (simp add: find_run_def find_map_row comp_def holds_key_from_row)

lemma run_get_eq:
  "find_run (\<lambda>x. rr_run_id (sr_result x) = rid \<and> sr_identity x = i) t = find (holds_id i rid) (map run_from_row t)"
  by (simp add: find_run_def find_map_row comp_def holds_id_def)

lemma sqlite_run_find_eq:
  "sqlite_run_find_idempotent i k = find_run (\<lambda>x. sr_identity x = i \<and> sr_idempotency_key x = Some k)"
  unfolding sqlite_run_find_idempotent_def using identity_fields by metis

lemma sqlite_run_get_eq: "sqlite_run_get rid i = find_run (\<lambda>x. rr_run_id (sr_result x) = rid \<and> sr_identity x = i)"
  unfolding sqlite_run_get_def using identity_fields by metis

lemma no_key_conflict:
  "\<not> list_ex (run_key_conflict r) t \<longleftrightarrow>
     (\<forall>k x. sr_idempotency_key r = Some k \<and> x \<in> set t \<longrightarrow> \<not> (sr_identity x = sr_identity r \<and> sr_idempotency_key x = Some k))"
  by (auto simp: list_ex_iff run_key_conflict_def)

interpretation sqlite_runs: run_store sqlite_run_ops "map run_from_row"
proof unfold_locales
  fix r t persisted t'
  assume "ro_save sqlite_run_ops r t = Inr (persisted, t')"
  then have "persisted = Some r" "t' = t @ [r]" and c: "\<not> list_ex (\<lambda>x. run_id_conflict r x \<or> run_key_conflict r x) t"
    by (auto simp: sqlite_run_ops_def sqlite_run_save_def split: if_splits)
  moreover from c have "\<forall>x\<in>set t. rr_run_id (sr_result x) \<noteq> rr_run_id (sr_result r)" "\<not> list_ex (run_key_conflict r) t"
    by (auto simp: list_ex_iff run_id_conflict_def)
  ultimately show "\<exists>p. persisted = Some p \<and>
      (map run_from_row t' = map run_from_row t \<and> (\<exists>k. k \<noteq> [] \<and> sr_idempotency_key r = Some k \<and>
         find (holds_key (sr_identity r) k) (map run_from_row t) = Some p) \<or>
       map run_from_row t' = map run_from_row t @ [run_from_row r] \<and> sr_result p = sr_result r \<and>
         (\<forall>x\<in>set (map run_from_row t). rr_run_id (sr_result x) \<noteq> rr_run_id (sr_result r)) \<and>
         (\<forall>k x. sr_idempotency_key r = Some k \<and> k \<noteq> [] \<and> x \<in> set (map run_from_row t) \<longrightarrow> \<not> holds_key (sr_identity r) k x))"
    unfolding no_key_conflict by (auto simp: holds_key_from_row)
qed (simp_all add: sqlite_run_ops_def sqlite_run_find_eq sqlite_run_get_eq run_find_eq run_get_eq)

lemma find_append_none: "(\<forall>x\<in>set xs. \<not> P x) \<Longrightarrow> find P (xs @ ys) = find P ys"
  by (induction xs) auto

lemma pg_run_save_cases:
  assumes "pg_run_save r t = Inr (persisted, t')"
  shows "\<exists>p. persisted = Some p \<and>
      (map run_from_row t' = map run_from_row t \<and> (\<exists>k. k \<noteq> [] \<and> sr_idempotency_key r = Some k \<and>
         find (holds_key (sr_identity r) k) (map run_from_row t) = Some p) \<or>
       map run_from_row t' = map run_from_row t @ [run_from_row r] \<and> sr_result p = sr_result r \<and>
         (\<forall>x\<in>set (map run_from_row t). rr_run_id (sr_result x) \<noteq> rr_run_id (sr_result r)) \<and>
         (\<forall>k x. sr_idempotency_key r = Some k \<and> k \<noteq> [] \<and> x \<in> set (map run_from_row t) \<longrightarrow> \<not> holds_key (sr_identity r) k x))"
proof (cases "\<exists>k. sr_idempotency_key r = Some k \<and> k \<noteq> []")
  case False
  then have n: "(case sr_idempotency_key r of None \<Rightarrow> None | Some k \<Rightarrow> if k = [] then None else Some k) = None"
    by (auto split: option.split)
  with assms have "persisted = Some r" "t' = t @ [r]" and "\<not> list_ex (\<lambda>x. run_id_conflict r x \<or> run_key_conflict r x) t"
    by (auto simp: pg_run_save_def split: if_splits)
  then show ?thesis using False by (auto simp: list_ex_iff run_id_conflict_def)
next
  case True
  then obtain k where k: "sr_idempotency_key r = Some k" "k \<noteq> []" by blast
  show ?thesis
  proof (cases "list_ex (run_key_conflict r) t")
    case True
    then obtain x where "x \<in> set t" "holds_key (sr_identity r) k (run_from_row x)"
      using k by (auto simp: list_ex_iff run_key_conflict_def holds_key_from_row)
    then have "find (holds_key (sr_identity r) k) (map run_from_row t) \<noteq> None"
      by (auto simp: find_None_iff)
    with True assms k show ?thesis
      by (auto simp: pg_run_save_def pg_run_find_idempotent_def run_find_eq)
  next
    case False
    with assms k have t': "t' = t @ [r]" "\<not> list_ex (run_id_conflict r) t"
      by (auto simp: pg_run_save_def Let_def split: if_splits)
    have none: "\<forall>x\<in>set (map run_from_row t). \<not> holds_key (sr_identity r) k x"
      using False k by (auto simp: list_ex_iff run_key_conflict_def holds_key_from_row)
    have "pg_run_find_idempotent (sr_identity r) k (t @ [r]) = Some (run_from_row r)"
      using k find_append_none [OF none, of "[run_from_row r]"]
      by (simp add: pg_run_find_idempotent_def run_find_eq holds_key_from_row)
    with assms k False t' have "persisted = Some (run_from_row r)"
      by (simp add: pg_run_save_def Let_def)
    then show ?thesis using t' none k by (auto simp: list_ex_iff run_id_conflict_def)
  qed
qed

interpretation pg_runs: run_store pg_run_ops "map run_from_row"
  by unfold_locales
    (simp_all add: pg_run_ops_def pg_run_find_idempotent_def pg_run_get_def run_find_eq run_get_eq pg_run_save_cases
      del: set_map)


section \<open>The caches agree with the store\<close>

text \<open>
  Every cached key names a cached run whose result is the one the store holds under that key. This is
  what makes replays independent of which process answers them.
\<close>

definition coherent :: "'s run_ops \<Rightarrow> 's run_service \<Rightarrow> bool" where
  "coherent ops s \<longleftrightarrow> (\<forall>i k rid. k \<noteq> [] \<and> map_of (rs_idempotency s) (run_key i k) = Some rid \<longrightarrow>
     rid \<noteq> [] \<and> (\<exists>st x. map_of (rs_runs s) rid = Some st \<and> ro_find_idempotent ops i k (rs_store s) = Some x \<and>
       sr_result st = sr_result x \<and> rr_run_id (sr_result x) = rid))"

lemma coherent_init [simp]: "coherent ops (run_service_init store audit)"
  by (simp add: coherent_def run_service_init_def)

lemma coherentD:
  "coherent ops s \<Longrightarrow> k \<noteq> [] \<Longrightarrow> map_of (rs_idempotency s) (run_key i k) = Some rid \<Longrightarrow>
   rid \<noteq> [] \<and> (\<exists>st x. map_of (rs_runs s) rid = Some st \<and> ro_find_idempotent ops i k (rs_store s) = Some x \<and>
       sr_result st = sr_result x \<and> rr_run_id (sr_result x) = rid)"
  by (simp add: coherent_def)

lemma find_append: "find P (xs @ ys) = (case find P xs of Some x \<Rightarrow> Some x | None \<Rightarrow> find P ys)"
  by (induction xs) auto

lemma find_SomeD': "find P xs = Some x \<Longrightarrow> x \<in> set xs \<and> P x"
  by (induction xs) (auto split: if_splits)

lemma distinct_id_unique:
  assumes "distinct (map f xs)" "x \<in> set xs" "y \<in> set xs" "f x = f y"
  shows "x = y"
  using assms by (meson distinct_map inj_onD)

lemma run_id_nonempty:
  assumes "run rt env q i oid rq tr allow audit = (Inr res, audit')"
  shows "rr_run_id res \<noteq> []"
proof -
  have "ended (run_ctx_of env i rq tr) (run_created env (run_ctx_of env i rq tr) q audit)
      (run_body rt env (run_ctx_of env i rq tr) q oid allow (run_created env (run_ctx_of env i rq tr) q audit))"
    by (rule ended_run_body)
  with assms have "rr_run_id res = rc_run_id (run_ctx_of env i rq tr)"
    by (auto simp: run_def Let_def ended_def)
  then show ?thesis by (simp add: run_ctx_of_def)
qed

context run_store
begin

lemma save_keeps_key:
  assumes "ro_save ops r s = Inr (persisted, s')" "k \<noteq> []" "ro_find_idempotent ops i k s = Some x"
  shows "ro_find_idempotent ops i k s' = Some x"
  using save_cases [OF assms(1)] assms(2,3) by (auto simp: find_eq find_append)

lemma save_holds_key:
  assumes "ro_save ops r s = Inr (persisted, s')" "k \<noteq> []" "sr_idempotency_key r = Some k"
  shows "\<exists>p x. persisted = Some p \<and> ro_find_idempotent ops (sr_identity r) k s' = Some x \<and> sr_result x = sr_result p"
proof -
  have "holds_key (sr_identity r) k (run_from_row r)" using assms by (simp add: holds_key_from_row)
  with save_cases [OF assms(1)] assms(2,3) show ?thesis
    by (fastforce simp: find_eq find_append_none)
qed

lemma save_rows_ok:
  assumes "ro_save ops r s = Inr (persisted, s')" "run_rows_ok (rows s)" "rr_run_id (sr_result r) \<noteq> []"
  shows "run_rows_ok (rows s')"
  using save_cases [OF assms(1)] assms(2,3) by (fastforce simp: run_rows_ok_def)

lemma find_in_rows: "k \<noteq> [] \<Longrightarrow> ro_find_idempotent ops i k s = Some x \<Longrightarrow> x \<in> set (rows s) \<and> holds_key i k x"
  by (auto simp: find_eq dest: find_SomeD')

text \<open>The run that a save leaves under its identifier is the only one stored with that identifier.\<close>

lemma save_result_unique:
  assumes sv: "ro_save ops r s = Inr (Some p, s')" and ok: "run_rows_ok (rows s)"
    and f: "k \<noteq> []" "ro_find_idempotent ops i k s = Some x" and id: "rr_run_id (sr_result x) = rr_run_id (sr_result p)"
  shows "sr_result x = sr_result p"
proof -
  have x: "x \<in> set (rows s)" using find_in_rows [OF f] by blast
  from save_cases [OF sv] consider "p \<in> set (rows s)"
    | "sr_result p = sr_result r" "\<forall>x\<in>set (rows s). rr_run_id (sr_result x) \<noteq> rr_run_id (sr_result r)"
    by (auto dest: find_SomeD')
  then show ?thesis
  proof cases
    case 1
    with x id ok distinct_id_unique [of "rr_run_id \<circ> sr_result" "rows s" x p] show ?thesis
      by (simp add: run_rows_ok_def)
  qed (use x id in auto)
qed

lemma coherent_replay_stored:
  assumes coh: "coherent ops s" and ok: "run_rows_ok (rows (rs_store s))" and k: "k \<noteq> []"
    and r: "replay_stored (Some ops) i k s = Some (res, s')"
  shows "coherent ops s' \<and> rs_store s' = rs_store s \<and> rs_audit s' = rs_audit s"
proof -
  obtain x where x: "ro_find_idempotent ops i k (rs_store s) = Some x"
    and s': "s' = s\<lparr>rs_runs := AList.update (rr_run_id (sr_result x)) x (rs_runs s),
       rs_idempotency := AList.update (run_key i k) (rr_run_id (sr_result x)) (rs_idempotency s)\<rparr>"
    using r by (auto simp: replay_stored_def split: option.splits)
  have x_in: "x \<in> set (rows (rs_store s))" using find_in_rows [OF k x] by blast
  have "coherent ops s'" unfolding coherent_def
  proof (intro allI impI)
    fix j l rid
    assume a: "l \<noteq> [] \<and> map_of (rs_idempotency s') (run_key j l) = Some rid"
    show "rid \<noteq> [] \<and> (\<exists>st y. map_of (rs_runs s') rid = Some st \<and> ro_find_idempotent ops j l (rs_store s') = Some y \<and>
       sr_result st = sr_result y \<and> rr_run_id (sr_result y) = rid)"
    proof (cases "j = i \<and> l = k")
      case True
      with a s' x x_in ok show ?thesis by (auto simp: run_rows_ok_def)
    next
      case False
      with a s' have old: "map_of (rs_idempotency s) (run_key j l) = Some rid" by (auto split: if_splits)
      from coherentD [OF coh _ old] a obtain st y where y: "rid \<noteq> []" "map_of (rs_runs s) rid = Some st"
        "ro_find_idempotent ops j l (rs_store s) = Some y" "sr_result st = sr_result y" "rr_run_id (sr_result y) = rid"
        by blast
      have "y \<in> set (rows (rs_store s))" using find_in_rows [OF _ y(3)] a by blast
      with x_in y(5) ok distinct_id_unique [of "rr_run_id \<circ> sr_result" "rows (rs_store s)" y x]
      have "rid = rr_run_id (sr_result x) \<longrightarrow> y = x" by (auto simp: run_rows_ok_def)
      with y s' show ?thesis by auto
    qed
  qed
  with s' show ?thesis by simp
qed

lemma execute_new_cases:
  assumes "execute_new (Some ops) rt env request i key rq tr s = (Inr res, s')"
  obtains audit p r store where
    "run rt env (VStr (rq_query request)) i (rq_order_id request) rq tr (rq_allow_external_processing request) (rs_audit s) = (Inr (sr_result r), audit)"
    "sr_identity r = i" "sr_idempotency_key r = key" "ro_save ops r (rs_store s) = Inr (Some p, store)" "res = sr_result p"
    "rs_store s' = store" "rs_audit s' = audit" "map_of (rs_runs s') = (map_of (rs_runs s))(rr_run_id (sr_result p) \<mapsto> p)"
    "map_of (rs_idempotency s') = (case key of None \<Rightarrow> map_of (rs_idempotency s)
       | Some k \<Rightarrow> if k = [] then map_of (rs_idempotency s)
           else (map_of (rs_idempotency s))(run_key i k \<mapsto> rr_run_id (sr_result p)))"
proof -
  obtain out audit where r: "run rt env (VStr (rq_query request)) i (rq_order_id request) rq tr
      (rq_allow_external_processing request) (rs_audit s) = (out, audit)" by (rule prod.exhaust)
  with assms obtain result where out: "out = Inr result" by (cases out) (auto simp: execute_new_def)
  let ?r = "\<lparr>sr_result = result, sr_identity = i, sr_idempotency_key = key\<rparr>"
  have "\<exists>persisted store. ro_save ops ?r (rs_store s) = Inr (persisted, store)"
    using assms r out by (cases "ro_save ops ?r (rs_store s)") (auto simp: execute_new_def Let_def)
  then obtain p store where sv: "ro_save ops ?r (rs_store s) = Inr (Some p, store)" using save_cases by blast
  show thesis
    by (rule that [of ?r audit p store]) (use assms r out sv in \<open>auto simp: execute_new_def Let_def split: option.splits\<close>)
qed

lemma coherent_execute_new:
  assumes coh: "coherent ops s" and ok: "run_rows_ok (rows (rs_store s))"
    and e: "execute_new (Some ops) rt env request i key rq tr s = (Inr res, s')"
  shows "coherent ops s' \<and> run_rows_ok (rows (rs_store s'))"
proof -
  obtain audit p r store where c:
    "run rt env (VStr (rq_query request)) i (rq_order_id request) rq tr (rq_allow_external_processing request) (rs_audit s) = (Inr (sr_result r), audit)"
    "sr_identity r = i" "sr_idempotency_key r = key" "ro_save ops r (rs_store s) = Inr (Some p, store)"
    "rs_store s' = store" "map_of (rs_runs s') = (map_of (rs_runs s))(rr_run_id (sr_result p) \<mapsto> p)"
    "map_of (rs_idempotency s') = (case key of None \<Rightarrow> map_of (rs_idempotency s)
       | Some k \<Rightarrow> if k = [] then map_of (rs_idempotency s)
           else (map_of (rs_idempotency s))(run_key i k \<mapsto> rr_run_id (sr_result p)))"
    by (rule execute_new_cases [OF e])
  have rid: "rr_run_id (sr_result r) \<noteq> []" by (rule run_id_nonempty [OF c(1)])
  have ok': "run_rows_ok (rows store)" by (rule save_rows_ok [OF c(4) ok rid])
  have "coherent ops s'" unfolding coherent_def
  proof (intro allI impI)
    fix j l rid'
    assume a: "l \<noteq> [] \<and> map_of (rs_idempotency s') (run_key j l) = Some rid'"
    show "rid' \<noteq> [] \<and> (\<exists>st y. map_of (rs_runs s') rid' = Some st \<and> ro_find_idempotent ops j l (rs_store s') = Some y \<and>
       sr_result st = sr_result y \<and> rr_run_id (sr_result y) = rid')"
    proof (cases "j = i \<and> key = Some l")
      case True
      from save_holds_key [OF c(4) _ , of l] True a c(2,3) obtain y where
        y: "ro_find_idempotent ops i l store = Some y" "sr_result y = sr_result p" by auto
      then have "y \<in> set (rows store)" using find_in_rows a by blast
      with ok' y(2) have "rr_run_id (sr_result p) \<noteq> []" by (auto simp: run_rows_ok_def)
      with True a c y show ?thesis by auto
    next
      case False
      with a c(7) have old: "map_of (rs_idempotency s) (run_key j l) = Some rid'"
        by (auto split: option.splits if_splits)
      from coherentD [OF coh _ old] a obtain st y where y: "rid' \<noteq> []" "map_of (rs_runs s) rid' = Some st"
        "ro_find_idempotent ops j l (rs_store s) = Some y" "sr_result st = sr_result y" "rr_run_id (sr_result y) = rid'"
        by blast
      moreover have "ro_find_idempotent ops j l store = Some y" using save_keeps_key [OF c(4) _ y(3)] a by blast
      moreover have "rid' = rr_run_id (sr_result p) \<longrightarrow> sr_result y = sr_result p"
        using save_result_unique [OF c(4) ok _ y(3)] a y(5) by blast
      ultimately show ?thesis using c by auto
    qed
  qed
  with ok' c(5) show ?thesis by simp
qed

lemma execute_coherent:
  assumes coh: "coherent ops s" and ok: "run_rows_ok (rows (rs_store s))" and k: "k \<noteq> []"
    and e: "execute (Some ops) rt env request i (Some k) rq tr s = (Inr res, s')"
  shows "coherent ops s' \<and> run_rows_ok (rows (rs_store s')) \<and>
    (\<exists>x. ro_find_idempotent ops i k (rs_store s') = Some x \<and> sr_result x = res)"
proof (cases "map_of (rs_idempotency s) (run_key i k)")
  case (Some rid)
  with coherentD [OF coh k Some] e k coh ok show ?thesis by (auto simp: execute_def replay_def)
next
  case None
  then have r: "replay i k s = None" by (simp add: replay_def)
  show ?thesis
  proof (cases "replay_stored (Some ops) i k s")
    case (Some out)
    with e r k have "replay_stored (Some ops) i k s = Some (Inr res, s')" by (simp add: execute_def)
    with coherent_replay_stored [OF coh ok k this] ok show ?thesis
      by (auto simp: replay_stored_def split: option.splits)
  next
    case none: None
    with e r k have n: "execute_new (Some ops) rt env request i (Some k) rq tr s = (Inr res, s')"
      by (simp add: execute_def)
    obtain audit p q store where c: "sr_identity q = i" "sr_idempotency_key q = Some k"
      "ro_save ops q (rs_store s) = Inr (Some p, store)" "res = sr_result p" "rs_store s' = store"
      by (rule execute_new_cases [OF n])
    with save_holds_key [OF c(3) k] coherent_execute_new [OF coh ok n] show ?thesis by auto
  qed
qed

text \<open>Once a key is stored, every coherent process answers it with the stored result and runs nothing.\<close>

lemma execute_replays:
  assumes coh: "coherent ops s" and k: "k \<noteq> []" and x: "ro_find_idempotent ops i k (rs_store s) = Some x"
  shows "\<exists>s'. execute (Some ops) rt env request i (Some k) rq tr s = (Inr (sr_result x), s') \<and>
    rs_store s' = rs_store s \<and> rs_audit s' = rs_audit s"
proof (cases "map_of (rs_idempotency s) (run_key i k)")
  case (Some rid)
  with coherentD [OF coh k Some] x k show ?thesis by (auto simp: execute_def replay_def)
next
  case None
  with x k show ?thesis by (simp add: execute_def replay_def replay_stored_def)
qed

end


section \<open>Properties\<close>

lemma sql_run_store: "ops \<in> {sqlite_run_ops, pg_run_ops} \<Longrightarrow> run_store ops (map run_from_row)"
  using sqlite_runs.run_store_axioms pg_runs.run_store_axioms by auto

text \<open>
  C30. Idempotent execution survives restarts and replicas: once a request with an idempotency key has
  returned a result, every process whose caches agree with the store (in particular the same one, a
  restarted one with empty caches, and another replica) answers each further request of that identity with
  that key, whatever its body, by the same result, without running the agent: the store and the audit log
  are unchanged.
\<close>

theorem execute_idempotent:
  assumes "ops \<in> {sqlite_run_ops, pg_run_ops}" "coherent ops s" "run_rows_ok (map run_from_row (rs_store s))" "k \<noteq> []"
    and "execute (Some ops) rt env request identity (Some k) rq tr s = (Inr res, s1)"
    and "coherent ops s2" "rs_store s2 = rs_store s1"
  shows "\<exists>s3. execute (Some ops) rt' env' request' identity (Some k) rq' tr' s2 = (Inr res, s3) \<and>
    rs_store s3 = rs_store s2 \<and> rs_audit s3 = rs_audit s2"
proof -
  note store = sql_run_store [OF assms(1)]
  obtain x where "ro_find_idempotent ops identity k (rs_store s2) = Some x" "sr_result x = res"
    using run_store.execute_coherent [OF store assms(2-5)] assms(7) by auto
  with run_store.execute_replays [OF store assms(6,4)] show ?thesis by blast
qed

text \<open>
  The caches stay in agreement with the store: every successful execution with a key keeps each cached
  key pointing to a cached run whose result is the stored one, and keeps the run identifiers of the store
  distinct and non-empty.
\<close>

lemma execute_keeps_coherence:
  assumes "ops \<in> {sqlite_run_ops, pg_run_ops}" "coherent ops s" "run_rows_ok (map run_from_row (rs_store s))" "k \<noteq> []"
    and "execute (Some ops) rt env request identity (Some k) rq tr s = (Inr res, s')"
  shows "coherent ops s' \<and> run_rows_ok (map run_from_row (rs_store s'))"
  using run_store.execute_coherent [OF sql_run_store [OF assms(1)] assms(2-5)] by blast

text \<open>
  Racing replicas: if another replica has stored a run under the key after this one looked for it, the
  PostgreSQL store keeps the first run and this replica returns the first result; its own duplicate run is
  not stored. The SQLite store raises instead, and leaves the table unchanged.
\<close>

lemma racing_runs_first_wins:
  assumes "k \<noteq> []" "ro_find_idempotent pg_run_ops identity k (rs_store s) = Some first"
    and "run rt env (VStr (rq_query request)) identity (rq_order_id request) rq tr (rq_allow_external_processing request)
      (rs_audit s) = (Inr res, audit)"
  shows "(\<exists>s'. execute_new (Some pg_run_ops) rt env request identity (Some k) rq tr s = (Inr (sr_result first), s') \<and>
      rs_store s' = rs_store s) \<and>
    execute_new (Some sqlite_run_ops) rt env request identity (Some k) rq tr s =
      (Inl ''IntegrityError'', s\<lparr>rs_audit := audit\<rparr>)"
proof -
  let ?r = "\<lparr>sr_result = res, sr_identity = identity, sr_idempotency_key = Some k\<rparr>"
  have find: "pg_run_find_idempotent identity k (rs_store s) = Some first"
    using assms(2) by (simp add: pg_run_ops_def)
  then obtain x where x: "x \<in> set (rs_store s)" "sr_identity x = identity" "sr_idempotency_key x = Some k"
    by (auto simp: pg_run_find_idempotent_def find_run_def dest: find_SomeD')
  then have "run_key_conflict ?r x" by (simp add: run_key_conflict_def)
  with x(1) have c: "list_ex (run_key_conflict ?r) (rs_store s)"
    "list_ex (\<lambda>x. run_id_conflict ?r x \<or> run_key_conflict ?r x) (rs_store s)" by (auto simp: list_ex_iff)
  have "pg_run_save ?r (rs_store s) = Inr (Some first, rs_store s)"
    using c(1) find assms(1) by (simp add: pg_run_save_def)
  moreover have "sqlite_run_save ?r (rs_store s) = Inl ''IntegrityError''"
    using c(2) by (simp add: sqlite_run_save_def)
  ultimately show ?thesis
    using assms(1,3) by (simp add: execute_new_def Let_def pg_run_ops_def sqlite_run_ops_def)
qed

text \<open>
  Who may read a run, exactly: a run found in the process cache is returned when workspace, tenant and
  user are those of the caller, whatever the caller's role; a run that is only in the store is returned when
  all four identity fields are the caller's. No other run is ever returned.
\<close>

lemma run_get_scope:
  assumes "ops \<in> {sqlite_run_ops, pg_run_ops}"
  shows "(fst (run_get (Some ops) run_id identity s) = Some st) =
    (case map_of (rs_runs s) run_id of
       Some cached \<Rightarrow> st = cached \<and> workspace_id (sr_identity st) = workspace_id identity \<and>
         tenant_id (sr_identity st) = tenant_id identity \<and> user_id (sr_identity st) = user_id identity
     | None \<Rightarrow> find (holds_id identity run_id) (map run_from_row (rs_store s)) = Some st)"
  using run_store.get_eq [OF sql_run_store [OF assms], of run_id identity "rs_store s"]
  by (auto simp: run_get_def holds_id_def split: option.splits dest!: find_SomeD' [of "holds_id identity run_id"])

section \<open>A concrete service\<close>

definition demo_service :: "run_table run_service" where
  "demo_service = run_service_init [] demo_audit"

definition demo_run_request :: run_request where
  "demo_run_request = \<lparr>rq_query = ''Where?'', rq_order_id = Some '' SO-1'', rq_allow_external_processing = True\<rparr>"

lemma demo_service_ok: "coherent ops demo_service" "run_rows_ok (map run_from_row (rs_store demo_service))"
  "map_of (rs_idempotency demo_service) x = None" "rs_store demo_service = []" "rs_audit demo_service = demo_audit"
  by (simp_all add: demo_service_def run_rows_ok_def run_service_init_def) (simp add: coherent_def)

lemma demo_execute:
  obtains res s1 where
    "execute (Some sqlite_run_ops) demo_rt demo_env demo_run_request demo_identity (Some ''k'') None None demo_service = (Inr res, s1)"
proof -
  obtain r a where "run demo_rt demo_env (VStr ''Where?'') demo_identity (Some '' SO-1'') None None True demo_audit = (Inr r, a)"
    using demo_run_returns by blast
  then have "\<exists>res s1. execute_new (Some sqlite_run_ops) demo_rt demo_env demo_run_request demo_identity (Some ''k'') None None
      demo_service = (Inr res, s1)"
    by (simp add: execute_new_def demo_run_request_def demo_service_ok Let_def sqlite_run_ops_def sqlite_run_save_def)
  moreover have "replay demo_identity ''k'' demo_service = None" "replay_stored (Some sqlite_run_ops) demo_identity ''k'' demo_service = None"
    by (simp_all add: replay_def replay_stored_def demo_service_ok sqlite_run_ops_def sqlite_run_find_idempotent_def find_run_def)
  ultimately show thesis using that by (auto simp: execute_def)
qed

theorem execute_idempotent_witness:
  "\<exists>res s1 s3. execute (Some sqlite_run_ops) demo_rt demo_env demo_run_request demo_identity (Some ''k'') None None demo_service = (Inr res, s1) \<and>
     execute (Some sqlite_run_ops) demo_rt demo_env demo_run_request demo_identity (Some ''k'') None None
       (run_service_init (rs_store s1) demo_audit) = (Inr res, s3) \<and> rs_audit s3 = demo_audit"
proof -
  obtain res s1 where e: "execute (Some sqlite_run_ops) demo_rt demo_env demo_run_request demo_identity (Some ''k'') None None demo_service = (Inr res, s1)"
    by (rule demo_execute)
  from execute_idempotent [OF _ demo_service_ok(1,2) _ e, of "run_service_init (rs_store s1) demo_audit" demo_rt demo_env demo_run_request None None]
  have "\<exists>s3. execute (Some sqlite_run_ops) demo_rt demo_env demo_run_request demo_identity (Some ''k'') None None
      (run_service_init (rs_store s1) demo_audit) = (Inr res, s3) \<and> rs_audit s3 = demo_audit"
    by (auto simp: run_service_init_def coherent_init [unfolded run_service_init_def])
  with e show ?thesis by blast
qed

lemma execute_keeps_coherence_witness:
  "\<exists>res s1. execute (Some sqlite_run_ops) demo_rt demo_env demo_run_request demo_identity (Some ''k'') None None demo_service = (Inr res, s1) \<and>
     coherent sqlite_run_ops s1"
proof -
  obtain res s1 where e: "execute (Some sqlite_run_ops) demo_rt demo_env demo_run_request demo_identity (Some ''k'') None None demo_service = (Inr res, s1)"
    by (rule demo_execute)
  from execute_keeps_coherence [OF _ demo_service_ok(1,2) _ e] e show ?thesis by auto
qed

lemma racing_runs_first_wins_witness:
  "\<exists>first s'. execute_new (Some pg_run_ops) demo_rt demo_env demo_run_request demo_identity (Some ''k'') None None
     (run_service_init [first] demo_audit) = (Inr (sr_result first), s') \<and> rs_store s' = [first]"
proof -
  obtain r a where r: "run demo_rt demo_env (VStr ''Where?'') demo_identity (Some '' SO-1'') None None True demo_audit = (Inr r, a)"
    using demo_run_returns by blast
  let ?first = "\<lparr>sr_result = r, sr_identity = demo_identity, sr_idempotency_key = Some ''k''\<rparr>"
  have "ro_find_idempotent pg_run_ops demo_identity ''k'' (rs_store (run_service_init [?first] demo_audit)) = Some ?first"
    by (simp add: pg_run_ops_def pg_run_find_idempotent_def find_run_def run_service_init_def run_from_row_def)
  from racing_runs_first_wins [OF _ this, of demo_rt demo_env demo_run_request None None r a] r
  show ?thesis by (intro exI [of _ ?first]) (auto simp: demo_run_request_def run_service_init_def)
qed

lemma run_get_scope_witness:
  "\<exists>st. fst (run_get (Some sqlite_run_ops) ''run-3'' (demo_identity\<lparr>role := ''admin''\<rparr>)
     \<lparr>rs_runs = [(''run-3'', st)], rs_idempotency = [], rs_store = [], rs_audit = demo_audit\<rparr>) = Some st \<and> role (sr_identity st) = ''support''"
proof -
  let ?st = "\<lparr>sr_result = undefined, sr_identity = demo_identity, sr_idempotency_key = None\<rparr>"
  have "fst (run_get (Some sqlite_run_ops) ''run-3'' (demo_identity\<lparr>role := ''admin''\<rparr>)
     \<lparr>rs_runs = [(''run-3'', ?st)], rs_idempotency = [], rs_store = [], rs_audit = demo_audit\<rparr>) = Some ?st"
    by (subst run_get_scope) simp_all
  then show ?thesis by (intro exI [of _ ?st]) (simp add: demo_identity_def)
qed

end
