(* ===== verification/Approval_Stores.thy ===== *)
theory Approval_Stores
  imports Runtime_Models Py_Json Py_Datetime
begin

text \<open>
  The durable approval records of \<^verbatim>\<open>packages/agent_runtime/approvals.py\<close> and their three stores: the
  in-memory dictionaries, the SQLite table and the PostgreSQL table of
  \<^verbatim>\<open>packages/persistence/postgres.py\<close>. A row keeps the record (the JSON text of its arguments is
  represented by its decoded value) and the token hash column. The protocol class \<^verbatim>\<open>ApprovalStore\<close>
  is the record type \<open>approval_ops\<close> of operations, and the locale \<open>approval_store\<close> states its contract
  over an abstract map from identifiers to records.
\<close>

definition PENDING :: string where "PENDING = ''pending''"
definition APPROVED :: string where "APPROVED = ''approved''"
definition REJECTED :: string where "REJECTED = ''rejected''"
definition EXPIRED :: string where "EXPIRED = ''expired''"

lemma status_distinct [simp]:
  "PENDING \<noteq> APPROVED" "PENDING \<noteq> REJECTED" "PENDING \<noteq> EXPIRED" "APPROVED \<noteq> REJECTED" "APPROVED \<noteq> EXPIRED"
  "REJECTED \<noteq> EXPIRED" "APPROVED \<noteq> PENDING" "REJECTED \<noteq> PENDING" "EXPIRED \<noteq> PENDING" "REJECTED \<noteq> APPROVED"
  "EXPIRED \<noteq> APPROVED" "EXPIRED \<noteq> REJECTED"
  by (simp_all add: PENDING_def APPROVED_def REJECTED_def EXPIRED_def)

record approval_record =
  ap_id :: string
  ap_requester :: identity_context
  ap_tool_name :: string
  ap_arguments :: pydict
  ap_arguments_hash :: string
  ap_risk :: tool_risk
  ap_idempotency_key :: "string option"
  ap_requested_at :: string
  ap_expires_at :: string
  ap_status :: string
  ap_approver_user_id :: "string option"
  ap_decided_at :: "string option"

text \<open>\<^verbatim>\<open>as_dict\<close>: the public view; the requester and the idempotency key are left out.\<close>

definition approval_as_dict :: "approval_record \<Rightarrow> pydict" where
  "approval_as_dict r =
     [(''id'', VStr (ap_id r)), (''tool_name'', VStr (ap_tool_name r)), (''arguments'', VDict (ap_arguments r)),
      (''arguments_hash'', VStr (ap_arguments_hash r)), (''risk'', VStr (risk_value (ap_risk r))),
      (''status'', VStr (ap_status r)), (''requested_at'', VStr (ap_requested_at r)),
      (''expires_at'', VStr (ap_expires_at r)), (''approver_user_id'', str_or_none (ap_approver_user_id r)),
      (''decided_at'', str_or_none (ap_decided_at r))]"

datatype approval_error =
    ApprovalError string
  | ApprovalNotFound string
  | PyError string

definition in_scope :: "string \<Rightarrow> string \<Rightarrow> approval_record \<Rightarrow> bool" where
  "in_scope ws t r \<longleftrightarrow> workspace_id (ap_requester r) = ws \<and> tenant_id (ap_requester r) = t"

definition decided ::
    "string \<Rightarrow> string option \<Rightarrow> string \<Rightarrow> approval_record \<Rightarrow> approval_record" where
  "decided status approver decided_at r =
     r\<lparr>ap_status := status, ap_approver_user_id := approver, ap_decided_at := Some decided_at\<rparr>"

definition canon_args :: "approval_record \<Rightarrow> approval_record" where
  "canon_args r = r\<lparr>ap_arguments := canon_dict (ap_arguments r)\<rparr>"

text \<open>\<^verbatim>\<open>str(row[0]) if row and row[0] else None\<close>: an empty text is no hash.\<close>

definition nonempty :: "string option \<Rightarrow> string option" where
  "nonempty x = (case x of None \<Rightarrow> None | Some s \<Rightarrow> if s = [] then None else Some s)"

record 's approval_ops =
  op_create :: "approval_record \<Rightarrow> 's \<Rightarrow> (approval_error, 's) result"
  op_get :: "string \<Rightarrow> string \<Rightarrow> string \<Rightarrow> 's \<Rightarrow> approval_record option"
  op_list :: "string \<Rightarrow> string \<Rightarrow> string option \<Rightarrow> 's \<Rightarrow> approval_record list"
  op_find_idempotent :: "string \<Rightarrow> string \<Rightarrow> string \<Rightarrow> string \<Rightarrow> 's \<Rightarrow> approval_record option"
  op_decide :: "string \<Rightarrow> string \<Rightarrow> string \<Rightarrow> string \<Rightarrow> string option \<Rightarrow> string \<Rightarrow> string option \<Rightarrow> 's \<Rightarrow>
     approval_record option \<times> 's"
  op_token_hash :: "string \<Rightarrow> string \<Rightarrow> string \<Rightarrow> 's \<Rightarrow> string option"

section \<open>InMemoryApprovalStore\<close>

record memory_approvals =
  ma_records :: "(string, approval_record) dict"
  ma_token_hashes :: "(string, string) dict"

definition memory_approvals_init :: memory_approvals where
  "memory_approvals_init = \<lparr>ma_records = [], ma_token_hashes = []\<rparr>"

definition mem_create :: "approval_record \<Rightarrow> memory_approvals \<Rightarrow> (approval_error, memory_approvals) result" where
  "mem_create r s =
     (if map_of (ma_records s) (ap_id r) \<noteq> None then Inl (ApprovalError ''approval id already exists'')
      else Inr (s\<lparr>ma_records := AList.update (ap_id r) r (ma_records s)\<rparr>))"

definition mem_get :: "string \<Rightarrow> string \<Rightarrow> string \<Rightarrow> memory_approvals \<Rightarrow> approval_record option" where
  "mem_get i ws t s = (case map_of (ma_records s) i of None \<Rightarrow> None
     | Some r \<Rightarrow> if in_scope ws t r then Some r else None)"

definition mem_list :: "string \<Rightarrow> string \<Rightarrow> string option \<Rightarrow> memory_approvals \<Rightarrow> approval_record list" where
  "mem_list ws t status s =
     filter (\<lambda>r. in_scope ws t r \<and> (case status of None \<Rightarrow> True | Some x \<Rightarrow> ap_status r = x))
       (map snd (ma_records s))"

definition mem_find_idempotent ::
    "string \<Rightarrow> string \<Rightarrow> string \<Rightarrow> string \<Rightarrow> memory_approvals \<Rightarrow> approval_record option" where
  "mem_find_idempotent ws t u key s =
     find (\<lambda>r. in_scope ws t r \<and> user_id (ap_requester r) = u \<and> ap_idempotency_key r = Some key)
       (map snd (ma_records s))"

definition mem_decide ::
    "string \<Rightarrow> string \<Rightarrow> string \<Rightarrow> string \<Rightarrow> string option \<Rightarrow> string \<Rightarrow> string option \<Rightarrow> memory_approvals \<Rightarrow>
     approval_record option \<times> memory_approvals" where
  "mem_decide i ws t status approver decided_at token_hash s =
     (case mem_get i ws t s of
        None \<Rightarrow> (None, s)
      | Some r \<Rightarrow>
          if ap_status r \<noteq> PENDING then (None, s)
          else let updated = decided status approver decided_at r;
                   s1 = s\<lparr>ma_records := AList.update i updated (ma_records s)\<rparr>
               in (Some updated,
                   case nonempty token_hash of None \<Rightarrow> s1
                   | Some h \<Rightarrow> s1\<lparr>ma_token_hashes := AList.update i h (ma_token_hashes s1)\<rparr>))"

definition mem_token_hash :: "string \<Rightarrow> string \<Rightarrow> string \<Rightarrow> memory_approvals \<Rightarrow> string option" where
  "mem_token_hash i ws t s = (case mem_get i ws t s of None \<Rightarrow> None | Some _ \<Rightarrow> map_of (ma_token_hashes s) i)"

definition memory_approval_ops :: "memory_approvals approval_ops" where
  "memory_approval_ops = \<lparr>op_create = mem_create, op_get = mem_get, op_list = mem_list,
     op_find_idempotent = mem_find_idempotent, op_decide = mem_decide, op_token_hash = mem_token_hash\<rparr>"

section \<open>SQLiteApprovalStore\<close>

record approval_row =
  row_record :: approval_record
  row_token_hash :: "string option"

type_synonym approval_table = "approval_row list"

text \<open>
  The key constraints of the table: \<^verbatim>\<open>id TEXT PRIMARY KEY\<close> and
  \<^verbatim>\<open>UNIQUE(workspace_id, tenant_id, requester_user_id, idempotency_key)\<close>, in which NULLs are distinct.
\<close>

definition same_idempotency :: "approval_record \<Rightarrow> approval_record \<Rightarrow> bool" where
  "same_idempotency a b \<longleftrightarrow>
     in_scope (workspace_id (ap_requester a)) (tenant_id (ap_requester a)) b \<and>
     user_id (ap_requester b) = user_id (ap_requester a) \<and>
     ap_idempotency_key a \<noteq> None \<and> ap_idempotency_key b = ap_idempotency_key a"

definition key_conflict :: "approval_record \<Rightarrow> approval_row \<Rightarrow> bool" where
  "key_conflict r row \<longleftrightarrow> ap_id (row_record row) = ap_id r \<or> same_idempotency r (row_record row)"

text \<open>\<^verbatim>\<open>SELECT ... WHERE\<close> and \<^verbatim>\<open>fetchone\<close>.\<close>

definition select_where :: "(approval_row \<Rightarrow> bool) \<Rightarrow> approval_table \<Rightarrow> approval_record list" where
  "select_where p rows = map row_record (filter p rows)"

definition fetchone :: "'a list \<Rightarrow> 'a option" where
  "fetchone xs = (case xs of [] \<Rightarrow> None | x # _ \<Rightarrow> Some x)"

text \<open>\<^verbatim>\<open>ORDER BY requested_at DESC\<close>; rows with equal time keep their order in the table.\<close>

definition order_desc :: "approval_record list \<Rightarrow> approval_record list" where
  "order_desc rs = rev (sort_key ap_requested_at (rev rs))"

definition sqlite_create :: "approval_record \<Rightarrow> approval_table \<Rightarrow> (approval_error, approval_table) result" where
  "sqlite_create r rows =
     (if list_ex (key_conflict r) rows
      then Inl (ApprovalError ''approval id or idempotency key already exists'')
      else Inr (rows @ [\<lparr>row_record = (canon_args r)\<lparr>ap_approver_user_id := None, ap_decided_at := None\<rparr>,
                         row_token_hash = None\<rparr>]))"

definition sqlite_get :: "string \<Rightarrow> string \<Rightarrow> string \<Rightarrow> approval_table \<Rightarrow> approval_record option" where
  "sqlite_get i ws t rows =
     fetchone (select_where (\<lambda>row. ap_id (row_record row) = i \<and> in_scope ws t (row_record row)) rows)"

definition sqlite_list :: "string \<Rightarrow> string \<Rightarrow> string option \<Rightarrow> approval_table \<Rightarrow> approval_record list" where
  "sqlite_list ws t status rows =
     order_desc (select_where (\<lambda>row. in_scope ws t (row_record row) \<and>
       (case status of None \<Rightarrow> True | Some x \<Rightarrow> ap_status (row_record row) = x)) rows)"

definition sqlite_find_idempotent ::
    "string \<Rightarrow> string \<Rightarrow> string \<Rightarrow> string \<Rightarrow> approval_table \<Rightarrow> approval_record option" where
  "sqlite_find_idempotent ws t u key rows =
     fetchone (select_where (\<lambda>row. in_scope ws t (row_record row) \<and> user_id (ap_requester (row_record row)) = u \<and>
       ap_idempotency_key (row_record row) = Some key) rows)"

text \<open>The rows an \<^verbatim>\<open>UPDATE\<close> of \<^verbatim>\<open>decide\<close> touches, and its effect on the table.\<close>

definition decide_row :: "string \<Rightarrow> string \<Rightarrow> string \<Rightarrow> approval_row \<Rightarrow> bool" where
  "decide_row i ws t row \<longleftrightarrow>
     ap_id (row_record row) = i \<and> in_scope ws t (row_record row) \<and> ap_status (row_record row) = PENDING"

definition update_row ::
    "string \<Rightarrow> string option \<Rightarrow> string \<Rightarrow> string option \<Rightarrow> approval_row \<Rightarrow> approval_row" where
  "update_row status approver decided_at token_hash row =
     \<lparr>row_record = decided status approver decided_at (row_record row), row_token_hash = token_hash\<rparr>"

definition sqlite_decide ::
    "string \<Rightarrow> string \<Rightarrow> string \<Rightarrow> string \<Rightarrow> string option \<Rightarrow> string \<Rightarrow> string option \<Rightarrow> approval_table \<Rightarrow>
     approval_record option \<times> approval_table" where
  "sqlite_decide i ws t status approver decided_at token_hash rows =
     (let rowcount = length (filter (decide_row i ws t) rows);
          rows' = map (\<lambda>row. if decide_row i ws t row then update_row status approver decided_at token_hash row
                             else row) rows
      in if rowcount \<noteq> 1 then (None, rows') else (sqlite_get i ws t rows', rows'))"

definition sqlite_token_hash :: "string \<Rightarrow> string \<Rightarrow> string \<Rightarrow> approval_table \<Rightarrow> string option" where
  "sqlite_token_hash i ws t rows =
     (case fetchone (filter (\<lambda>row. ap_id (row_record row) = i \<and> in_scope ws t (row_record row)) rows) of
        None \<Rightarrow> None | Some row \<Rightarrow> nonempty (row_token_hash row))"

definition sqlite_approval_ops :: "approval_table approval_ops" where
  "sqlite_approval_ops = \<lparr>op_create = sqlite_create, op_get = sqlite_get, op_list = sqlite_list,
     op_find_idempotent = sqlite_find_idempotent, op_decide = sqlite_decide, op_token_hash = sqlite_token_hash\<rparr>"


section \<open>PostgresApprovalStore\<close>

definition pg_find :: "(approval_row \<Rightarrow> bool) \<Rightarrow> approval_table \<Rightarrow> approval_record option" where
  "pg_find p rows = fetchone (select_where p rows)"

text \<open>Every exception of the \<^verbatim>\<open>INSERT\<close> is rolled back and becomes an \<^verbatim>\<open>ApprovalError\<close>.\<close>

definition pg_create :: "approval_record \<Rightarrow> approval_table \<Rightarrow> (approval_error, approval_table) result" where
  "pg_create r rows =
     (if (\<exists>row\<in>set rows. key_conflict r row)
      then Inl (ApprovalError ''approval id or idempotency key already exists'')
      else Inr (rows @ [\<lparr>row_record = (canon_args r)\<lparr>ap_approver_user_id := None, ap_decided_at := None\<rparr>,
                         row_token_hash = None\<rparr>]))"

definition pg_get :: "string \<Rightarrow> string \<Rightarrow> string \<Rightarrow> approval_table \<Rightarrow> approval_record option" where
  "pg_get i ws t = pg_find (\<lambda>row. ap_id (row_record row) = i \<and> in_scope ws t (row_record row))"

definition pg_list :: "string \<Rightarrow> string \<Rightarrow> string option \<Rightarrow> approval_table \<Rightarrow> approval_record list" where
  "pg_list ws t status rows =
     (let scope = (\<lambda>row. in_scope ws t (row_record row));
          clauses = (case status of None \<Rightarrow> scope | Some x \<Rightarrow> (\<lambda>row. scope row \<and> ap_status (row_record row) = x))
      in order_desc (select_where clauses rows))"

definition pg_find_idempotent ::
    "string \<Rightarrow> string \<Rightarrow> string \<Rightarrow> string \<Rightarrow> approval_table \<Rightarrow> approval_record option" where
  "pg_find_idempotent ws t u key =
     pg_find (\<lambda>row. in_scope ws t (row_record row) \<and> user_id (ap_requester (row_record row)) = u \<and>
       ap_idempotency_key (row_record row) = Some key)"

definition pg_decide ::
    "string \<Rightarrow> string \<Rightarrow> string \<Rightarrow> string \<Rightarrow> string option \<Rightarrow> string \<Rightarrow> string option \<Rightarrow> approval_table \<Rightarrow>
     approval_record option \<times> approval_table" where
  "pg_decide i ws t status approver decided_at token_hash rows =
     (let changed = length (filter (decide_row i ws t) rows);
          rows' = map (\<lambda>row. if decide_row i ws t row then update_row status approver decided_at token_hash row
                             else row) rows
      in (if changed = 1 then pg_get i ws t rows' else None, rows'))"

definition pg_token_hash :: "string \<Rightarrow> string \<Rightarrow> string \<Rightarrow> approval_table \<Rightarrow> string option" where
  "pg_token_hash i ws t rows =
     (case fetchone (map row_token_hash
         (filter (\<lambda>row. ap_id (row_record row) = i \<and> in_scope ws t (row_record row)) rows)) of
        None \<Rightarrow> None | Some column \<Rightarrow> nonempty column)"

definition pg_approval_ops :: "approval_table approval_ops" where
  "pg_approval_ops = \<lparr>op_create = pg_create, op_get = pg_get, op_list = pg_list,
     op_find_idempotent = pg_find_idempotent, op_decide = pg_decide, op_token_hash = pg_token_hash\<rparr>"

section \<open>The contract of an approval store\<close>

definition fresh_record :: "approval_record \<Rightarrow> bool" where
  "fresh_record r \<longleftrightarrow> canon_args r = r \<and> ap_approver_user_id r = None \<and> ap_decided_at r = None"

type_synonym approval_map = "string \<rightharpoonup> approval_record \<times> string option"

definition decidable :: "approval_map \<Rightarrow> string \<Rightarrow> string \<Rightarrow> string \<Rightarrow> approval_record \<Rightarrow> bool" where
  "decidable m i ws t r \<longleftrightarrow> (\<exists>h. m i = Some (r, h)) \<and> in_scope ws t r \<and> ap_status r = PENDING"

locale approval_store =
  fixes ops :: "'s approval_ops"
    and invar :: "'s \<Rightarrow> bool"
    and amap :: "'s \<Rightarrow> approval_map"
  assumes create_ok: "invar s \<Longrightarrow> fresh_record r \<Longrightarrow> op_create ops r s = Inr s' \<Longrightarrow>
      invar s' \<and> amap s (ap_id r) = None \<and> amap s' = (amap s)(ap_id r \<mapsto> (r, None))"
    and create_err: "invar s \<Longrightarrow> op_create ops r s = Inl e \<Longrightarrow> (\<exists>m. e = ApprovalError m) \<and>
      (amap s (ap_id r) \<noteq> None \<or> (\<exists>i r' h. amap s i = Some (r', h) \<and> same_idempotency r r'))"
    and get_eq: "invar s \<Longrightarrow> op_get ops i ws t s =
      (case amap s i of None \<Rightarrow> None | Some (r, h) \<Rightarrow> if in_scope ws t r then Some r else None)"
    and list_set: "invar s \<Longrightarrow> set (op_list ops ws t wanted s) =
      {r. (\<exists>i h. amap s i = Some (r, h)) \<and> in_scope ws t r \<and> wanted \<in> {None, Some (ap_status r)}}"
    and find_some: "invar s \<Longrightarrow> op_find_idempotent ops ws t u key s = Some r \<Longrightarrow>
      (\<exists>i h. amap s i = Some (r, h)) \<and> in_scope ws t r \<and> user_id (ap_requester r) = u \<and> ap_idempotency_key r = Some key"
    and find_none: "invar s \<Longrightarrow> op_find_idempotent ops ws t u key s = None \<Longrightarrow> amap s i = Some (r, h) \<Longrightarrow>
      in_scope ws t r \<Longrightarrow> user_id (ap_requester r) = u \<Longrightarrow> ap_idempotency_key r \<noteq> Some key"
    and decide_ok: "invar s \<Longrightarrow> decidable (amap s) i ws t r \<Longrightarrow> status \<noteq> PENDING \<Longrightarrow>
      \<exists>s'. op_decide ops i ws t status approver dt token s = (Some (decided status approver dt r), s') \<and>
        invar s' \<and> amap s' = (amap s)(i \<mapsto> (decided status approver dt r, nonempty token))"
    and decide_refused: "invar s \<Longrightarrow> \<nexists>r. decidable (amap s) i ws t r \<Longrightarrow>
      op_decide ops i ws t status approver dt token s = (None, s)"
    and token_eq: "invar s \<Longrightarrow> op_token_hash ops i ws t s =
      (case amap s i of None \<Rightarrow> None | Some (r, h) \<Rightarrow> if in_scope ws t r then h else None)"
    and amap_id: "invar s \<Longrightarrow> amap s i = Some (r, h) \<Longrightarrow> ap_id r = i"
    and pending_no_token: "invar s \<Longrightarrow> amap s i = Some (r, h) \<Longrightarrow> ap_status r = PENDING \<Longrightarrow> h = None"

section \<open>The in-memory store meets the contract\<close>

definition memory_invar :: "memory_approvals \<Rightarrow> bool" where
  "memory_invar s \<longleftrightarrow> distinct (map fst (ma_records s)) \<and>
     (\<forall>i r. map_of (ma_records s) i = Some r \<longrightarrow>
        ap_id r = i \<and> (ap_status r = PENDING \<longrightarrow> map_of (ma_token_hashes s) i = None)) \<and>
     (\<forall>i. map_of (ma_records s) i = None \<longrightarrow> map_of (ma_token_hashes s) i = None)"

definition memory_amap :: "memory_approvals \<Rightarrow> approval_map" where
  "memory_amap s i = map_option (\<lambda>r. (r, map_of (ma_token_hashes s) i)) (map_of (ma_records s) i)"

lemma memory_amap_Some [simp]:
  "memory_amap s i = Some (r, h) \<longleftrightarrow> map_of (ma_records s) i = Some r \<and> map_of (ma_token_hashes s) i = h"
  by (auto simp: memory_amap_def)

lemma memory_amap_None [simp]: "memory_amap s i = None \<longleftrightarrow> map_of (ma_records s) i = None"
  by (simp add: memory_amap_def)

lemma snd_set_map_of:
  "distinct (map fst al) \<Longrightarrow> v \<in> snd ` set al \<longleftrightarrow> (\<exists>k. map_of al k = Some v)"
  by (force simp: image_iff)

lemma find_SomeD: "find P xs = Some x \<Longrightarrow> x \<in> set xs \<and> P x"
  by (induction xs) (auto split: if_splits)

declare map_of_eq_Some_iff [simp del] Some_eq_map_of_iff [simp del]

lemma decided_simps [simp]:
  "ap_id (decided st ap dt r) = ap_id r" "ap_requester (decided st ap dt r) = ap_requester r"
  "ap_tool_name (decided st ap dt r) = ap_tool_name r" "ap_arguments (decided st ap dt r) = ap_arguments r"
  "ap_arguments_hash (decided st ap dt r) = ap_arguments_hash r" "ap_status (decided st ap dt r) = st"
  "ap_expires_at (decided st ap dt r) = ap_expires_at r" "ap_risk (decided st ap dt r) = ap_risk r"
  "ap_approver_user_id (decided st ap dt r) = ap" "ap_decided_at (decided st ap dt r) = Some dt"
  "ap_idempotency_key (decided st ap dt r) = ap_idempotency_key r" "ap_requested_at (decided st ap dt r) = ap_requested_at r"
  by (simp_all add: decided_def)

lemma in_scope_decided [simp]: "in_scope ws t (decided st ap dt r) = in_scope ws t r"
  by (simp add: in_scope_def)

lemma mem_decide_ok:
  assumes "memory_invar s" "decidable (memory_amap s) i ws t r" "status \<noteq> PENDING"
  shows "\<exists>s'. mem_decide i ws t status approver dt token s = (Some (decided status approver dt r), s') \<and>
    memory_invar s' \<and> memory_amap s' = (memory_amap s)(i \<mapsto> (decided status approver dt r, nonempty token))"
proof -
  have r: "map_of (ma_records s) i = Some r" "in_scope ws t r" "ap_status r = PENDING" "map_of (ma_token_hashes s) i = None" "ap_id r = i"
    using assms by (auto simp: decidable_def memory_invar_def)
  let ?s' = "case nonempty token of None \<Rightarrow> s\<lparr>ma_records := AList.update i (decided status approver dt r) (ma_records s)\<rparr>
    | Some h \<Rightarrow> s\<lparr>ma_records := AList.update i (decided status approver dt r) (ma_records s),
        ma_token_hashes := AList.update i h (ma_token_hashes s)\<rparr>"
  have "mem_decide i ws t status approver dt token s = (Some (decided status approver dt r), ?s')"
    using r by (simp add: mem_decide_def mem_get_def Let_def split: option.split)
  moreover have "memory_invar ?s'"
    using assms(1,3) r by (auto simp: memory_invar_def distinct_update split: option.split)
  moreover have "memory_amap ?s' = (memory_amap s)(i \<mapsto> (decided status approver dt r, nonempty token))"
    using r by (auto simp: memory_amap_def fun_eq_iff split: option.split)
  ultimately show ?thesis by blast
qed

interpretation mem_approvals: approval_store memory_approval_ops memory_invar memory_amap
proof unfold_locales
  fix s :: memory_approvals and r s'
  assume inv: "memory_invar s" and "fresh_record r" and c: "op_create memory_approval_ops r s = Inr s'"
  have new: "map_of (ma_records s) (ap_id r) = None" "s' = s\<lparr>ma_records := AList.update (ap_id r) r (ma_records s)\<rparr>"
    using c by (auto simp: memory_approval_ops_def mem_create_def split: if_splits)
  then have tok: "map_of (ma_token_hashes s) (ap_id r) = None" using inv by (simp add: memory_invar_def)
  have "memory_invar s'" using inv tok unfolding memory_invar_def new(2) by (simp add: distinct_update)
  moreover have "memory_amap s' = (memory_amap s)(ap_id r \<mapsto> (r, None))"
    using tok by (intro ext) (simp add: memory_amap_def new(2))
  ultimately show "memory_invar s' \<and> memory_amap s (ap_id r) = None \<and> memory_amap s' = (memory_amap s)(ap_id r \<mapsto> (r, None))"
    using new(1) by simp
next
  fix s :: memory_approvals and i ws t status approver dt token
  assume "memory_invar s" "\<nexists>r. decidable (memory_amap s) i ws t r"
  then show "op_decide memory_approval_ops i ws t status approver dt token s = (None, s)"
    by (auto simp: memory_approval_ops_def mem_decide_def mem_get_def decidable_def split: option.split)
next
  fix s :: memory_approvals and ws t u key r
  assume inv: "memory_invar s" and f: "op_find_idempotent memory_approval_ops ws t u key s = Some r"
  from f have "r \<in> snd ` set (ma_records s)" "in_scope ws t r" "user_id (ap_requester r) = u" "ap_idempotency_key r = Some key"
    by (auto simp: memory_approval_ops_def mem_find_idempotent_def dest: find_SomeD)
  then show "(\<exists>i h. memory_amap s i = Some (r, h)) \<and> in_scope ws t r \<and> user_id (ap_requester r) = u \<and> ap_idempotency_key r = Some key"
    using inv by (auto simp: memory_invar_def snd_set_map_of)
next
  show "\<exists>s'. op_decide memory_approval_ops i ws t status approver dt token s = (Some (decided status approver dt r), s') \<and>
      memory_invar s' \<and> memory_amap s' = (memory_amap s)(i \<mapsto> (decided status approver dt r, nonempty token))"
    if "memory_invar s" "decidable (memory_amap s) i ws t r" "status \<noteq> PENDING"
    for s i ws t r status approver dt token
    using mem_decide_ok [OF that] by (simp add: memory_approval_ops_def)
next
  fix s :: memory_approvals and ws t wanted
  assume "memory_invar s"
  then have "(\<exists>i h. memory_amap s i = Some (r, h)) \<longleftrightarrow> r \<in> snd ` set (ma_records s)" for r
    by (simp add: memory_invar_def snd_set_map_of)
  then show "set (op_list memory_approval_ops ws t wanted s) =
      {r. (\<exists>i h. memory_amap s i = Some (r, h)) \<and> in_scope ws t r \<and> wanted \<in> {None, Some (ap_status r)}}"
    by (cases wanted) (auto simp: memory_approval_ops_def mem_list_def)
qed (auto simp: memory_approval_ops_def mem_create_def mem_get_def mem_find_idempotent_def mem_token_hash_def
    memory_invar_def memory_amap_def find_None_iff snd_set_map_of
    split: option.splits if_splits dest: map_of_SomeD)


section \<open>The SQL stores meet the contract\<close>

definition row_of :: "string \<Rightarrow> approval_table \<Rightarrow> approval_row option" where
  "row_of i rows = find (\<lambda>row. ap_id (row_record row) = i) rows"

definition table_invar :: "approval_table \<Rightarrow> bool" where
  "table_invar rows \<longleftrightarrow> distinct (map (ap_id \<circ> row_record) rows) \<and>
     (\<forall>row\<in>set rows. ap_status (row_record row) = PENDING \<longrightarrow> nonempty (row_token_hash row) = None)"

definition table_amap :: "approval_table \<Rightarrow> approval_map" where
  "table_amap rows i = map_option (\<lambda>row. (row_record row, nonempty (row_token_hash row))) (row_of i rows)"

lemma row_of_in_set: "row_of i rows = Some row \<Longrightarrow> row \<in> set rows \<and> ap_id (row_record row) = i"
  by (auto simp: row_of_def dest: find_SomeD)

lemma row_of_iff:
  "distinct (map (ap_id \<circ> row_record) rows) \<Longrightarrow>
   row_of i rows = Some row \<longleftrightarrow> row \<in> set rows \<and> ap_id (row_record row) = i"
  by (induction rows) (auto simp: row_of_def image_iff)

lemma filter_row_of:
  "distinct (map (ap_id \<circ> row_record) rows) \<Longrightarrow>
   filter (\<lambda>row. ap_id (row_record row) = i \<and> P row) rows =
     (case row_of i rows of None \<Rightarrow> [] | Some row \<Rightarrow> if P row then [row] else [])"
proof (induction rows)
  case (Cons row rows)
  show ?case
  proof (cases "ap_id (row_record row) = i")
    case True
    with Cons.prems have "filter (\<lambda>row. ap_id (row_record row) = i \<and> P row) rows = []"
      by (auto simp: filter_empty_conv image_iff)
    with True show ?thesis by (simp add: row_of_def)
  qed (use Cons in \<open>simp add: row_of_def\<close>)
qed (simp add: row_of_def)

lemma row_of_append: "row_of i (rows @ [row]) =
   (case row_of i rows of None \<Rightarrow> if ap_id (row_record row) = i then Some row else None | Some x \<Rightarrow> Some x)"
  by (induction rows) (auto simp: row_of_def)

lemma row_of_map: "(\<And>row. ap_id (row_record (f row)) = ap_id (row_record row)) \<Longrightarrow>
   row_of i (map f rows) = map_option f (row_of i rows)"
  by (induction rows) (auto simp: row_of_def)

lemma row_of_None: "row_of i rows = None \<longleftrightarrow> (\<forall>row\<in>set rows. ap_id (row_record row) \<noteq> i)"
  by (auto simp: row_of_def find_None_iff)

lemma table_amap_Some:
  "table_amap rows i = Some (r, h) \<longleftrightarrow>
     (\<exists>row. row_of i rows = Some row \<and> row_record row = r \<and> nonempty (row_token_hash row) = h)"
  by (auto simp: table_amap_def)

lemma table_records:
  assumes "table_invar rows"
  shows "(\<exists>i h. table_amap rows i = Some (r, h)) \<longleftrightarrow> r \<in> row_record ` set rows"
  using assms by (auto simp: table_amap_Some table_invar_def row_of_iff image_iff)

lemma fetchone_select: "fetchone (select_where P rows) = Some r \<Longrightarrow> \<exists>row\<in>set rows. P row \<and> row_record row = r"
  by (induction rows) (auto simp: fetchone_def select_where_def split: if_splits)

lemma sqlite_get_eq:
  assumes "table_invar rows"
  shows "sqlite_get i ws t rows =
    (case table_amap rows i of None \<Rightarrow> None | Some (r, h) \<Rightarrow> if in_scope ws t r then Some r else None)"
  using assms
  by (simp add: sqlite_get_def select_where_def table_invar_def filter_row_of table_amap_def fetchone_def
      split: option.split)

lemma sqlite_token_hash_eq:
  assumes "table_invar rows"
  shows "sqlite_token_hash i ws t rows =
    (case table_amap rows i of None \<Rightarrow> None | Some (r, h) \<Rightarrow> if in_scope ws t r then h else None)"
  using assms
  by (simp add: sqlite_token_hash_def table_invar_def filter_row_of table_amap_def fetchone_def split: option.split)

lemma sqlite_create_ok:
  assumes "table_invar rows" "fresh_record r" "sqlite_create r rows = Inr rows'"
  shows "table_invar rows' \<and> table_amap rows (ap_id r) = None \<and> table_amap rows' = (table_amap rows)(ap_id r \<mapsto> (r, None))"
proof -
  have rec: "(canon_args r)\<lparr>ap_approver_user_id := None, ap_decided_at := None\<rparr> = r"
    using assms(2) by (simp add: fresh_record_def)
  have rows': "rows' = rows @ [\<lparr>row_record = r, row_token_hash = None\<rparr>]" and "\<not> list_ex (key_conflict r) rows"
    using assms(3) by (auto simp: sqlite_create_def rec split: if_splits)
  then have new: "\<forall>row\<in>set rows. ap_id (row_record row) \<noteq> ap_id r"
    by (auto simp: list_ex_iff key_conflict_def)
  then have none: "row_of (ap_id r) rows = None" by (simp add: row_of_None)
  have "table_invar rows'"
    using assms(1) new unfolding table_invar_def rows' by (auto simp: nonempty_def)
  moreover have "table_amap rows' = (table_amap rows)(ap_id r \<mapsto> (r, None))"
    using none by (intro ext) (auto simp: table_amap_def rows' row_of_append nonempty_def split: option.split)
  ultimately show ?thesis using none by (simp add: table_amap_def)
qed

lemma decide_rows:
  assumes "table_invar rows"
  shows "filter (decide_row i ws t) rows =
    (case row_of i rows of None \<Rightarrow> [] | Some row \<Rightarrow>
       if in_scope ws t (row_record row) \<and> ap_status (row_record row) = PENDING then [row] else [])"
  using assms filter_row_of [of rows i "\<lambda>row. in_scope ws t (row_record row) \<and> ap_status (row_record row) = PENDING"]
  by (simp add: decide_row_def [abs_def] table_invar_def)

lemma sqlite_decide_ok:
  assumes inv: "table_invar rows" and dec: "decidable (table_amap rows) i ws t r" and st: "status \<noteq> PENDING"
  shows "\<exists>rows'. sqlite_decide i ws t status approver dt token rows = (Some (decided status approver dt r), rows') \<and>
    table_invar rows' \<and> table_amap rows' = (table_amap rows)(i \<mapsto> (decided status approver dt r, nonempty token))"
proof -
  let ?f = "\<lambda>row. if decide_row i ws t row then update_row status approver dt token row else row"
  obtain row where row: "row_of i rows = Some row" "row_record row = r" "in_scope ws t r" "ap_status r = PENDING"
    using dec by (auto simp: decidable_def table_amap_Some)
  have id: "ap_id r = i" using row_of_in_set [OF row(1)] row(2) by simp
  have f_id: "ap_id (row_record (?f x)) = ap_id (row_record x)" for x by (simp add: update_row_def)
  have ids: "map (ap_id \<circ> row_record) (map ?f rows) = map (ap_id \<circ> row_record) rows"
    by (simp add: f_id [simplified])
  have inv': "table_invar (map ?f rows)"
    unfolding table_invar_def ids using inv st by (auto simp: table_invar_def update_row_def)
  have amap: "table_amap (map ?f rows) = (table_amap rows)(i \<mapsto> (decided status approver dt r, nonempty token))"
  proof (rule ext)
    fix j
    have m: "row_of j (map ?f rows) = map_option ?f (row_of j rows)" by (rule row_of_map) (rule f_id)
    show "table_amap (map ?f rows) j = ((table_amap rows)(i \<mapsto> (decided status approver dt r, nonempty token))) j"
    proof (cases "j = i")
      case True
      have "decide_row i ws t row" using row id by (simp add: decide_row_def)
      then show ?thesis using True row(1,2) unfolding table_amap_def m by (simp add: update_row_def)
    next
      case False
      then have "map_option ?f (row_of j rows) = row_of j rows"
        using row_of_in_set [of j rows] by (cases "row_of j rows") (simp_all add: decide_row_def)
      with False show ?thesis by (simp add: table_amap_def m)
    qed
  qed
  have "length (filter (decide_row i ws t) rows) = 1" using row by (simp add: decide_rows [OF inv])
  then have "sqlite_decide i ws t status approver dt token rows = (sqlite_get i ws t (map ?f rows), map ?f rows)"
    by (simp add: sqlite_decide_def Let_def)
  moreover have "sqlite_get i ws t (map ?f rows) = Some (decided status approver dt r)"
    using row(3) by (simp add: sqlite_get_eq [OF inv'] amap)
  ultimately show ?thesis using inv' amap by (intro exI [of _ "map ?f rows"]) simp
qed

lemma sqlite_decide_refused:
  assumes "table_invar rows" "\<nexists>r. decidable (table_amap rows) i ws t r"
  shows "sqlite_decide i ws t status approver dt token rows = (None, rows)"
proof -
  have "filter (decide_row i ws t) rows = []"
    using assms by (auto simp: decide_rows decidable_def table_amap_Some split: option.split)
  moreover from this have "map (\<lambda>row. if decide_row i ws t row then f row else row) rows = rows" for f
    by (intro map_idI) (auto simp: filter_empty_conv)
  ultimately show ?thesis by (simp add: sqlite_decide_def Let_def)
qed

interpretation sqlite_approvals: approval_store sqlite_approval_ops table_invar table_amap
proof unfold_locales
  fix s r e
  assume "table_invar s" "op_create sqlite_approval_ops r s = Inl e"
  then have e: "e = ApprovalError ''approval id or idempotency key already exists''" and "\<exists>row\<in>set s. key_conflict r row"
    by (auto simp: sqlite_approval_ops_def sqlite_create_def list_ex_iff split: if_splits)
  then obtain row where row: "row \<in> set s" "ap_id (row_record row) = ap_id r \<or> same_idempotency r (row_record row)"
    by (auto simp: key_conflict_def)
  moreover have "table_amap s (ap_id (row_record row)) = Some (row_record row, nonempty (row_token_hash row))"
    using \<open>table_invar s\<close> row by (auto simp: table_amap_Some row_of_iff table_invar_def)
  ultimately show "(\<exists>m. e = ApprovalError m) \<and>
      (table_amap s (ap_id r) \<noteq> None \<or> (\<exists>i r' h. table_amap s i = Some (r', h) \<and> same_idempotency r r'))"
    using e by (metis option.simps(3))
next
  fix s ws t wanted
  assume "table_invar s"
  then show "set (op_list sqlite_approval_ops ws t wanted s) =
      {r. (\<exists>i h. table_amap s i = Some (r, h)) \<and> in_scope ws t r \<and> wanted \<in> {None, Some (ap_status r)}}"
    unfolding table_records [OF \<open>table_invar s\<close>]
    by (cases wanted) (auto simp: sqlite_approval_ops_def sqlite_list_def order_desc_def select_where_def)
next
  fix s ws t u key r
  assume "table_invar s" "op_find_idempotent sqlite_approval_ops ws t u key s = Some r"
  then show "(\<exists>i h. table_amap s i = Some (r, h)) \<and> in_scope ws t r \<and> user_id (ap_requester r) = u \<and>
      ap_idempotency_key r = Some key"
    unfolding table_records [OF \<open>table_invar s\<close>]
    by (auto simp: sqlite_approval_ops_def sqlite_find_idempotent_def dest!: fetchone_select)
next
  fix s ws t u key i r h
  assume "table_invar s" "op_find_idempotent sqlite_approval_ops ws t u key s = None" "table_amap s i = Some (r, h)"
    "in_scope ws t r" "user_id (ap_requester r) = u"
  then show "ap_idempotency_key r \<noteq> Some key"
    by (auto simp: sqlite_approval_ops_def sqlite_find_idempotent_def fetchone_def select_where_def filter_empty_conv
        table_amap_Some split: list.splits dest!: row_of_in_set)
next
  show "ap_id r = i" if "table_amap s i = Some (r, h)" for s i r h
    using that by (auto simp: table_amap_Some dest: row_of_in_set)
  show "h = None" if "table_invar s" "table_amap s i = Some (r, h)" "ap_status r = PENDING" for s i r h
    using that by (auto simp: table_amap_Some table_invar_def dest: row_of_in_set)
qed (simp_all add: sqlite_approval_ops_def sqlite_create_ok sqlite_get_eq sqlite_token_hash_eq sqlite_decide_ok
    sqlite_decide_refused)

lemma fetchone_map: "fetchone (map f xs) = map_option f (fetchone xs)"
  by (cases xs) (auto simp: fetchone_def)

lemma pg_approval_ops_eq: "pg_approval_ops = sqlite_approval_ops"
proof -
  have "pg_create = sqlite_create"
    by (intro ext) (simp add: pg_create_def sqlite_create_def list_ex_iff)
  moreover have get: "pg_get = sqlite_get"
    by (intro ext) (simp add: pg_get_def pg_find_def sqlite_get_def)
  moreover have "pg_list = sqlite_list"
    by (intro ext) (simp add: pg_list_def sqlite_list_def split: option.split)
  moreover have "pg_find_idempotent = sqlite_find_idempotent"
    by (intro ext) (simp add: pg_find_idempotent_def pg_find_def sqlite_find_idempotent_def)
  moreover have "pg_decide = sqlite_decide"
    by (intro ext) (simp add: pg_decide_def sqlite_decide_def Let_def get)
  moreover have "pg_token_hash = sqlite_token_hash"
    by (intro ext) (simp add: pg_token_hash_def sqlite_token_hash_def fetchone_map split: option.split)
  ultimately show ?thesis by (simp add: pg_approval_ops_def sqlite_approval_ops_def)
qed


interpretation pg_approvals: approval_store pg_approval_ops table_invar table_amap
  unfolding pg_approval_ops_eq by (rule sqlite_approvals.approval_store_axioms)

end
