(* ===== verification/Approval_Service.thy ===== *)
theory Approval_Service
  imports Approval_Stores
begin

text \<open>
  \<^verbatim>\<open>ApprovalService\<close> of \<^verbatim>\<open>packages/agent_runtime/approvals.py\<close>, over any store of the record type
  \<^typ>\<open>'s approval_ops\<close>. What a call reads from its environment is an \<open>approval_env\<close>: SHA-256, the text of
  floats, the identifier and the token drawn by the call, and the successive readings of the clock
  (when the request is made, in \<^verbatim>\<open>_not_expired\<close>, for the \<^verbatim>\<open>decided_at\<close> of an expiry and of a decision).
  An operation returns its value or exception and the store after the call: reading an overdue pending
  record writes its expiry even when the caller then raises.
\<close>

record approval_env =
  ae_sha256 :: "string \<Rightarrow> string"
  ae_float_repr :: "pyfloat \<Rightarrow> string"
  ae_uuid :: string
  ae_token :: string
  ae_request_now :: instant
  ae_check_now :: instant
  ae_expire_now :: instant
  ae_decide_now :: instant
  ae_count_now :: "nat \<Rightarrow> instant"

definition approval_scope :: "identity_context \<Rightarrow> approval_error option" where
  "approval_scope i =
     (if list_all (\<lambda>v. \<not> blank v \<and> length v \<le> 256) [user_id i, workspace_id i, tenant_id i, role i] then None
      else Some (ApprovalError ''authenticated identity scope is invalid''))"

definition canonical_arguments :: "approval_env \<Rightarrow> pydict \<Rightarrow> string" where
  "canonical_arguments env arguments = json_dumps (ae_float_repr env) (canon (VDict arguments))"

definition arguments_digest :: "approval_env \<Rightarrow> pydict \<Rightarrow> (approval_error, string) result" where
  "arguments_digest env arguments =
     (let canonical = canonical_arguments env arguments in
      if utf8_length canonical > 100000 then Inl (ApprovalError ''approval arguments are too large'')
      else Inr (ae_sha256 env canonical))"

definition hash_token :: "approval_env \<Rightarrow> string \<Rightarrow> string" where
  "hash_token env token = (if token = [] \<or> length token > 512 then [] else ae_sha256 env token)"

text \<open>
  \<^verbatim>\<open>_not_expired\<close>: an unreadable time raises \<^verbatim>\<open>ValueError\<close>, comparing a naive one raises \<^verbatim>\<open>TypeError\<close>.
\<close>

definition not_expired :: "instant \<Rightarrow> approval_record \<Rightarrow> (approval_error, bool) result" where
  "not_expired now r = (case fromiso (ap_expires_at r) of
       None \<Rightarrow> Inl (PyError ''ValueError'')
     | Some d \<Rightarrow> (case dt_instant d of None \<Rightarrow> Inl (PyError ''TypeError'') | Some e \<Rightarrow> Inr (now < e)))"

definition expire_if_needed ::
    "'s approval_ops \<Rightarrow> approval_env \<Rightarrow> approval_record \<Rightarrow> 's \<Rightarrow> (approval_error, approval_record) result \<times> 's" where
  "expire_if_needed ops env r s =
     (if ap_status r \<noteq> PENDING then (Inr r, s)
      else case not_expired (ae_check_now env) r of
        Inl e \<Rightarrow> (Inl e, s)
      | Inr True \<Rightarrow> (Inr r, s)
      | Inr False \<Rightarrow>
          (case op_decide ops (ap_id r) (workspace_id (ap_requester r)) (tenant_id (ap_requester r)) EXPIRED None
                  (iso_utc (ae_expire_now env)) None s of
             (Some updated, s') \<Rightarrow> (Inr updated, s')
           | (None, s') \<Rightarrow> (Inr r, s')))"

definition approval_request ::
    "'s approval_ops \<Rightarrow> approval_env \<Rightarrow> identity_context \<Rightarrow> string \<Rightarrow> pydict \<Rightarrow> tool_risk \<Rightarrow> string option \<Rightarrow> int \<Rightarrow>
     's \<Rightarrow> (approval_error, approval_record) result \<times> 's" where
  "approval_request ops env requester tool arguments risk key ttl s =
     (case approval_scope requester of Some e \<Rightarrow> (Inl e, s) | None \<Rightarrow>
      if tool = [] \<or> length tool > 256 \<or> risk = READ
      then (Inl (ApprovalError ''only registered high-risk operations require approval''), s)
      else if (case key of None \<Rightarrow> False | Some k \<Rightarrow> blank k \<or> length k > 200)
      then (Inl (ApprovalError ''idempotency key must be 1-200 characters''), s)
      else if ttl < 60 \<or> ttl > 86400
      then (Inl (ApprovalError ''approval TTL must be between 60 and 86400 seconds''), s)
      else case (case key of None \<Rightarrow> None
                 | Some k \<Rightarrow> op_find_idempotent ops (workspace_id requester) (tenant_id requester) (user_id requester) k s) of
        Some existing \<Rightarrow> (Inr existing, s)
      | None \<Rightarrow>
          (case arguments_digest env arguments of
             Inl e \<Rightarrow> (Inl e, s)
           | Inr digest \<Rightarrow>
               if \<not> valid_instant (ae_request_now env + ttl * 1000000) then (Inl (PyError ''OverflowError''), s)
               else
                 let r = \<lparr>ap_id = ae_uuid env, ap_requester = requester, ap_tool_name = tool,
                          ap_arguments = canon_dict arguments, ap_arguments_hash = digest, ap_risk = risk,
                          ap_idempotency_key = key, ap_requested_at = iso_utc (ae_request_now env),
                          ap_expires_at = iso_utc (ae_request_now env + ttl * 1000000), ap_status = PENDING,
                          ap_approver_user_id = None, ap_decided_at = None\<rparr>
                 in (case op_create ops r s of Inl e \<Rightarrow> (Inl e, s) | Inr s' \<Rightarrow> (Inr r, s'))))"

definition approval_list ::
    "'s approval_ops \<Rightarrow> identity_context \<Rightarrow> string option \<Rightarrow> 's \<Rightarrow> (approval_error, approval_record list) result" where
  "approval_list ops identity status s =
     (case approval_scope identity of Some e \<Rightarrow> Inl e
      | None \<Rightarrow> Inr (op_list ops (workspace_id identity) (tenant_id identity) status s))"

definition approval_get ::
    "'s approval_ops \<Rightarrow> approval_env \<Rightarrow> identity_context \<Rightarrow> string \<Rightarrow> 's \<Rightarrow>
     (approval_error, approval_record) result \<times> 's" where
  "approval_get ops env identity i s =
     (case approval_scope identity of Some e \<Rightarrow> (Inl e, s) | None \<Rightarrow>
      case op_get ops i (workspace_id identity) (tenant_id identity) s of
        None \<Rightarrow> (Inl (ApprovalNotFound ''approval was not found''), s)
      | Some r \<Rightarrow> expire_if_needed ops env r s)"

text \<open>The common part of \<^verbatim>\<open>approve\<close> and \<^verbatim>\<open>reject\<close> up to the pending check.\<close>

definition approver_role :: "identity_context \<Rightarrow> bool" where
  "approver_role i \<longleftrightarrow> role i \<in> {''admin'', ''manager''}"

definition approval_approve ::
    "'s approval_ops \<Rightarrow> approval_env \<Rightarrow> identity_context \<Rightarrow> string \<Rightarrow> 's \<Rightarrow>
     (approval_error, approval_record \<times> string) result \<times> 's" where
  "approval_approve ops env approver i s =
     (case approval_scope approver of Some e \<Rightarrow> (Inl e, s) | None \<Rightarrow>
      if \<not> approver_role approver
      then (Inl (ApprovalError ''only manager or admin can approve high-risk actions''), s)
      else case approval_get ops env approver i s of
        (Inl e, s1) \<Rightarrow> (Inl e, s1)
      | (Inr r, s1) \<Rightarrow>
          if ap_status r \<noteq> PENDING then (Inl (ApprovalError ''approval is no longer pending''), s1)
          else (case op_decide ops i (workspace_id approver) (tenant_id approver) APPROVED (Some (user_id approver))
                       (iso_utc (ae_decide_now env)) (Some (hash_token env (ae_token env))) s1 of
              (None, s2) \<Rightarrow> (Inl (ApprovalError ''approval changed before it could be approved''), s2)
            | (Some updated, s2) \<Rightarrow> (Inr (updated, ae_token env), s2)))"

definition approval_reject ::
    "'s approval_ops \<Rightarrow> approval_env \<Rightarrow> identity_context \<Rightarrow> string \<Rightarrow> 's \<Rightarrow>
     (approval_error, approval_record) result \<times> 's" where
  "approval_reject ops env approver i s =
     (case approval_scope approver of Some e \<Rightarrow> (Inl e, s) | None \<Rightarrow>
      if \<not> approver_role approver
      then (Inl (ApprovalError ''only manager or admin can reject high-risk actions''), s)
      else case approval_get ops env approver i s of
        (Inl e, s1) \<Rightarrow> (Inl e, s1)
      | (Inr r, s1) \<Rightarrow>
          if ap_status r \<noteq> PENDING then (Inl (ApprovalError ''approval is no longer pending''), s1)
          else (case op_decide ops i (workspace_id approver) (tenant_id approver) REJECTED (Some (user_id approver))
                       (iso_utc (ae_decide_now env)) None s1 of
              (None, s2) \<Rightarrow> (Inl (ApprovalError ''approval changed before it could be rejected''), s2)
            | (Some updated, s2) \<Rightarrow> (Inr updated, s2)))"

definition approval_verify ::
    "'s approval_ops \<Rightarrow> approval_env \<Rightarrow> identity_context \<Rightarrow> string \<Rightarrow> string \<Rightarrow> string \<Rightarrow> pydict \<Rightarrow> 's \<Rightarrow>
     (approval_error, bool) result \<times> 's" where
  "approval_verify ops env identity i token tool arguments s =
     (case approval_get ops env identity i s of
        (Inl e, s1) \<Rightarrow> (Inl e, s1)
      | (Inr r, s1) \<Rightarrow>
          if ap_status r \<noteq> APPROVED \<or> ap_tool_name r \<noteq> tool then (Inr False, s1)
          else (case arguments_digest env arguments of
              Inl e \<Rightarrow> (Inl e, s1)
            | Inr digest \<Rightarrow>
                if ap_arguments_hash r \<noteq> digest then (Inr False, s1)
                else (case op_token_hash ops i (workspace_id identity) (tenant_id identity) s1 of
                    None \<Rightarrow> (Inr False, s1)
                  | Some h \<Rightarrow> (Inr (h = hash_token env token), s1))))"

text \<open>\<^verbatim>\<open>pending_count\<close>: the \<open>k\<close>-th record is compared with the \<open>k\<close>-th reading of the clock.\<close>

fun count_live :: "approval_env \<Rightarrow> nat \<Rightarrow> approval_record list \<Rightarrow> (approval_error, nat) result" where
  "count_live env k [] = Inr 0"
| "count_live env k (r # rs) =
     (case not_expired (ae_count_now env k) r of
        Inl e \<Rightarrow> Inl e
      | Inr b \<Rightarrow> (case count_live env (Suc k) rs of Inl e \<Rightarrow> Inl e | Inr n \<Rightarrow> Inr ((if b then 1 else 0) + n)))"

definition pending_count ::
    "'s approval_ops \<Rightarrow> approval_env \<Rightarrow> identity_context \<Rightarrow> 's \<Rightarrow> (approval_error, nat) result" where
  "pending_count ops env identity s =
     (case approval_list ops identity (Some PENDING) s of Inl e \<Rightarrow> Inl e | Inr rs \<Rightarrow> count_live env 0 rs)"

section \<open>The state machine\<close>

text \<open>One call of the service, by any caller with any arguments, as a step of the store.\<close>

inductive approval_step :: "'s approval_ops \<Rightarrow> 's \<Rightarrow> 's \<Rightarrow> bool" for ops where
  request: "approval_request ops env requester tool arguments risk key ttl s = (res, s') \<Longrightarrow> approval_step ops s s'"
| get: "approval_get ops env identity i s = (res, s') \<Longrightarrow> approval_step ops s s'"
| approve: "approval_approve ops env approver i s = (res', s') \<Longrightarrow> approval_step ops s s'"
| reject: "approval_reject ops env approver i s = (res, s') \<Longrightarrow> approval_step ops s s'"
| verify: "approval_verify ops env identity i token tool arguments s = (res'', s') \<Longrightarrow> approval_step ops s s'"

text \<open>
  How the stored records may change: every record stays, and either it is unchanged or it was pending and
  is now decided; only an approval leaves a token hash.
\<close>

definition record_evolves :: "approval_record \<times> string option \<Rightarrow> approval_record \<times> string option \<Rightarrow> bool" where
  "record_evolves old new \<longleftrightarrow> new = old \<or>
     (ap_status (fst old) = PENDING \<and>
      (\<exists>status approver dt. status \<in> {APPROVED, REJECTED, EXPIRED} \<and> fst new = decided status approver dt (fst old) \<and>
        (snd new \<noteq> None \<longrightarrow> status = APPROVED)))"

definition evolves :: "approval_map \<Rightarrow> approval_map \<Rightarrow> bool" where
  "evolves m m' \<longleftrightarrow> (\<forall>i old. m i = Some old \<longrightarrow> (\<exists>new. m' i = Some new \<and> record_evolves old new))"

lemma record_evolves_final: "record_evolves old new \<Longrightarrow> ap_status (fst old) \<noteq> PENDING \<Longrightarrow> new = old"
  by (auto simp: record_evolves_def)

lemma record_evolves_decided: "record_evolves old new \<Longrightarrow> new \<noteq> old \<Longrightarrow> ap_status (fst new) \<noteq> PENDING"
  by (auto simp: record_evolves_def)

lemma record_evolves_trans: "record_evolves a b \<Longrightarrow> record_evolves b c \<Longrightarrow> record_evolves a c"
  using record_evolves_final [of b c] record_evolves_decided [of a b] by (cases "b = a") auto

lemma evolves_refl [simp]: "evolves m m"
  by (simp add: evolves_def record_evolves_def)

lemma evolves_trans [trans]: "evolves a b \<Longrightarrow> evolves b c \<Longrightarrow> evolves a c"
  unfolding evolves_def using record_evolves_trans by blast

lemma evolves_create: "m i = None \<Longrightarrow> evolves m (m(i \<mapsto> x))"
  by (auto simp: evolves_def record_evolves_def)

lemma evolves_decide:
  "m i = Some (r, h) \<Longrightarrow> ap_status r = PENDING \<Longrightarrow> status \<in> {APPROVED, REJECTED, EXPIRED} \<Longrightarrow>
   (tok \<noteq> None \<longrightarrow> status = APPROVED) \<Longrightarrow> evolves m (m(i \<mapsto> (decided status approver dt r, tok)))"
  by (auto simp: evolves_def record_evolves_def)

lemma nonempty_None [simp]: "nonempty None = None"
  by (simp add: nonempty_def)


context approval_store
begin

lemma get_Some_iff:
  "invar s \<Longrightarrow> op_get ops i ws t s = Some r \<longleftrightarrow> (\<exists>h. amap s i = Some (r, h)) \<and> in_scope ws t r"
  by (auto simp: get_eq split: option.split)

lemma approval_get_cases:
  assumes inv: "invar s" and g: "approval_get ops env identity i s = (res, s')"
  obtains (error) e where "res = Inl e" "s' = s"
  | (same) r h where "res = Inr r" "s' = s" "approval_scope identity = None" "amap s i = Some (r, h)"
      "in_scope (workspace_id identity) (tenant_id identity) r"
      "ap_status r = PENDING \<longrightarrow> not_expired (ae_check_now env) r = Inr True"
  | (expired) r where "res = Inr (decided EXPIRED None (iso_utc (ae_expire_now env)) r)" "approval_scope identity = None"
      "amap s i = Some (r, None)" "in_scope (workspace_id identity) (tenant_id identity) r" "ap_status r = PENDING"
      "not_expired (ae_check_now env) r = Inr False" "invar s'"
      "amap s' = (amap s)(i \<mapsto> (decided EXPIRED None (iso_utc (ae_expire_now env)) r, None))"
proof (cases "approval_scope identity")
  case (Some e)
  with g show thesis by (intro error) (auto simp: approval_get_def)
next
  case scope: None
  show thesis
  proof (cases "op_get ops i (workspace_id identity) (tenant_id identity) s")
    case None
    with g scope show thesis by (intro error) (auto simp: approval_get_def)
  next
    case (Some r)
    then obtain h where r: "amap s i = Some (r, h)" "in_scope (workspace_id identity) (tenant_id identity) r"
      using inv by (auto simp: get_Some_iff)
    have id: "ap_id r = i" by (rule amap_id [OF inv r(1)])
    have e: "expire_if_needed ops env r s = (res, s')" using g scope Some by (simp add: approval_get_def)
    show thesis
    proof (cases "ap_status r = PENDING")
      case False
      with e show thesis by (intro same [of r h]) (use scope r in \<open>auto simp: expire_if_needed_def\<close>)
    next
      case pend: True
      show thesis
      proof (cases "not_expired (ae_check_now env) r")
        case (Inl x)
        with e pend show thesis by (intro error) (auto simp: expire_if_needed_def)
      next
        case (Inr live)
        show thesis
        proof (cases live)
          case True
          with e Inr pend show thesis by (intro same [of r h]) (use scope r in \<open>auto simp: expire_if_needed_def\<close>)
        next
          case False
          have "decidable (amap s) i (workspace_id (ap_requester r)) (tenant_id (ap_requester r)) r"
            using r pend by (simp add: decidable_def in_scope_def)
          from decide_ok [OF inv this, of EXPIRED None "iso_utc (ae_expire_now env)" None]
          obtain s1 where "op_decide ops i (workspace_id (ap_requester r)) (tenant_id (ap_requester r)) EXPIRED None
              (iso_utc (ae_expire_now env)) None s = (Some (decided EXPIRED None (iso_utc (ae_expire_now env)) r), s1)"
              "invar s1" "amap s1 = (amap s)(i \<mapsto> (decided EXPIRED None (iso_utc (ae_expire_now env)) r, None))"
            by auto
          with e Inr False pend id pending_no_token [OF inv r(1)] r scope show thesis
            by (intro expired [of r]) (auto simp: expire_if_needed_def)
        qed
      qed
    qed
  qed
qed

lemma approval_get_evolves:
  assumes "invar s" "approval_get ops env identity i s = (res, s')"
  shows "invar s' \<and> evolves (amap s) (amap s')"
  using assms by (cases rule: approval_get_cases) (use assms(1) in \<open>simp_all add: evolves_decide\<close>)

lemma approval_approve_cases:
  assumes inv: "invar s" and a: "approval_approve ops env approver i s = (res, s')"
  obtains (refused) e where "res = Inl e" "invar s'" "evolves (amap s) (amap s')"
  | (approved) r where "res = Inr (decided APPROVED (Some (user_id approver)) (iso_utc (ae_decide_now env)) r, ae_token env)"
      "approval_scope approver = None" "approver_role approver" "amap s i = Some (r, None)"
      "in_scope (workspace_id approver) (tenant_id approver) r" "ap_status r = PENDING"
      "not_expired (ae_check_now env) r = Inr True" "invar s'"
      "amap s' = (amap s)(i \<mapsto> (decided APPROVED (Some (user_id approver)) (iso_utc (ae_decide_now env)) r,
         nonempty (Some (hash_token env (ae_token env)))))"
proof (cases "approval_scope approver = None \<and> approver_role approver")
  case False
  with a have "\<exists>e. res = Inl e \<and> s' = s" by (auto simp: approval_approve_def split: option.splits if_splits)
  with inv show thesis by (auto intro: refused)
next
  case True
  obtain got s1 where g: "approval_get ops env approver i s = (got, s1)" by (rule prod.exhaust)
  from inv g show thesis
  proof (cases rule: approval_get_cases)
    case (error e)
    with inv a True g show thesis by (intro refused) (auto simp: approval_approve_def)
  next
    case (expired r)
    with a True g approval_get_evolves [OF inv g] show thesis
      by (intro refused) (auto simp: approval_approve_def)
  next
    case (same r h)
    show thesis
    proof (cases "ap_status r = PENDING")
      case False
      with same a True g inv show thesis by (intro refused) (auto simp: approval_approve_def)
    next
      case pend: True
      have "decidable (amap s) i (workspace_id approver) (tenant_id approver) r"
        using same pend by (simp add: decidable_def)
      from decide_ok [OF inv this, of APPROVED "Some (user_id approver)" "iso_utc (ae_decide_now env)"
          "Some (hash_token env (ae_token env))"]
      show thesis
        using a True g same pend pending_no_token [OF inv same(4) pend]
        by (intro approved [of r]) (auto simp: approval_approve_def)
    qed
  qed
qed

lemma approval_reject_cases:
  assumes inv: "invar s" and a: "approval_reject ops env approver i s = (res, s')"
  obtains (refused) e where "res = Inl e" "invar s'" "evolves (amap s) (amap s')"
  | (rejected) r where "res = Inr (decided REJECTED (Some (user_id approver)) (iso_utc (ae_decide_now env)) r)"
      "approval_scope approver = None" "approver_role approver" "amap s i = Some (r, None)"
      "in_scope (workspace_id approver) (tenant_id approver) r" "ap_status r = PENDING"
      "not_expired (ae_check_now env) r = Inr True" "invar s'"
      "amap s' = (amap s)(i \<mapsto> (decided REJECTED (Some (user_id approver)) (iso_utc (ae_decide_now env)) r, None))"
proof (cases "approval_scope approver = None \<and> approver_role approver")
  case False
  with a have "\<exists>e. res = Inl e \<and> s' = s" by (auto simp: approval_reject_def split: option.splits if_splits)
  with inv show thesis by (auto intro: refused)
next
  case True
  obtain got s1 where g: "approval_get ops env approver i s = (got, s1)" by (rule prod.exhaust)
  from inv g show thesis
  proof (cases rule: approval_get_cases)
    case (error e)
    with inv a True g show thesis by (intro refused) (auto simp: approval_reject_def)
  next
    case (expired r)
    with a True g approval_get_evolves [OF inv g] show thesis
      by (intro refused) (auto simp: approval_reject_def)
  next
    case (same r h)
    show thesis
    proof (cases "ap_status r = PENDING")
      case False
      with same a True g inv show thesis by (intro refused) (auto simp: approval_reject_def)
    next
      case pend: True
      have "decidable (amap s) i (workspace_id approver) (tenant_id approver) r"
        using same pend by (simp add: decidable_def)
      from decide_ok [OF inv this, of REJECTED "Some (user_id approver)" "iso_utc (ae_decide_now env)" None]
      show thesis
        using a True g same pend pending_no_token [OF inv same(4) pend]
        by (intro rejected [of r]) (auto simp: approval_reject_def)
    qed
  qed
qed

lemma approval_verify_state:
  "approval_verify ops env identity i token tool arguments s = (res, s') \<Longrightarrow>
   s' = snd (approval_get ops env identity i s)"
  by (auto simp: approval_verify_def split: prod.splits sum.splits if_splits option.splits)

lemma approval_request_evolves:
  assumes "invar s" "approval_request ops env requester tool arguments risk key ttl s = (res, s')"
  shows "invar s' \<and> evolves (amap s) (amap s')"
proof (cases "s' = s")
  case False
  let ?r = "\<lparr>ap_id = ae_uuid env, ap_requester = requester, ap_tool_name = tool,
     ap_arguments = canon_dict arguments, ap_arguments_hash = ae_sha256 env (canonical_arguments env arguments), ap_risk = risk,
     ap_idempotency_key = key, ap_requested_at = iso_utc (ae_request_now env),
     ap_expires_at = iso_utc (ae_request_now env + ttl * 1000000), ap_status = PENDING,
     ap_approver_user_id = None, ap_decided_at = None\<rparr>"
  have "op_create ops ?r s = Inr s'"
    using assms(2) False
    by (auto simp: approval_request_def arguments_digest_def Let_def split: option.splits if_splits sum.splits)
  moreover have "fresh_record ?r" by (simp add: fresh_record_def canon_args_def)
  ultimately show ?thesis using create_ok [OF assms(1), of ?r s'] by (auto intro: evolves_create)
qed (use assms in simp)

lemma approval_step_evolves:
  assumes "invar s" "approval_step ops s s'"
  shows "invar s' \<and> evolves (amap s) (amap s')"
  using assms(2)
proof (cases rule: approval_step.cases)
  case request
  then show ?thesis using approval_request_evolves assms(1) by blast
next
  case get
  then show ?thesis using approval_get_evolves assms(1) by blast
next
  case (approve env approver i res)
  from assms(1) approve show ?thesis
    by (cases rule: approval_approve_cases) (simp_all add: evolves_decide)
next
  case (reject env approver i res)
  from assms(1) reject show ?thesis
    by (cases rule: approval_reject_cases) (simp_all add: evolves_decide)
next
  case (verify env identity i)
  then show ?thesis
    using approval_verify_state approval_get_evolves [OF assms(1)] by (metis prod.collapse)
qed

lemma approval_steps_evolve:
  assumes "(approval_step ops)\<^sup>*\<^sup>* s s'" "invar s"
  shows "invar s' \<and> evolves (amap s) (amap s')"
  using assms
proof (induction rule: rtranclp_induct)
  case (step s1 s2)
  then show ?case using approval_step_evolves [of s1 s2] evolves_trans by blast
qed simp


lemma verify_true_iff:
  assumes inv: "invar s"
  shows "fst (approval_verify ops env identity i token tool arguments s) = Inr True \<longleftrightarrow>
    approval_scope identity = None \<and> utf8_length (canonical_arguments env arguments) \<le> 100000 \<and>
    (\<exists>r. amap s i = Some (r, Some (hash_token env token)) \<and> in_scope (workspace_id identity) (tenant_id identity) r \<and>
       ap_status r = APPROVED \<and> ap_tool_name r = tool \<and>
       ap_arguments_hash r = ae_sha256 env (canonical_arguments env arguments))"
    (is "?v \<longleftrightarrow> ?rhs")
proof -
  obtain got s1 where g: "approval_get ops env identity i s = (got, s1)" by (rule prod.exhaust)
  from inv g show ?thesis
  proof (cases rule: approval_get_cases)
    case (error e)
    have "\<not> ?rhs"
    proof
      assume rhs: ?rhs
      then obtain r h where r: "op_get ops i (workspace_id identity) (tenant_id identity) s = Some r" "ap_status r = APPROVED"
        using inv by (auto simp: get_Some_iff)
      with rhs have "approval_get ops env identity i s = (Inr r, s)"
        by (simp add: approval_get_def expire_if_needed_def)
      with g error show False by simp
    qed
    moreover have "\<not> ?v" using g error by (simp add: approval_verify_def)
    ultimately show ?thesis by simp
  next
    case (expired r)
    then show ?thesis using g by (auto simp: approval_verify_def)
  next
    case (same r h)
    have "op_token_hash ops i (workspace_id identity) (tenant_id identity) s = h"
      using same by (simp add: token_eq [OF inv])
    with g same show ?thesis
      by (cases h) (auto simp: approval_verify_def arguments_digest_def Let_def)
  qed
qed

lemma verify_keeps_approved:
  assumes inv: "invar s" and v: "fst (approval_verify ops env identity i token tool arguments s) = Inr True"
  shows "approval_verify ops env identity i token tool arguments s = (Inr True, s)"
proof -
  obtain got s1 where g: "approval_get ops env identity i s = (got, s1)" by (rule prod.exhaust)
  obtain r h where r: "amap s i = Some (r, h)" "ap_status r = APPROVED" using v verify_true_iff [OF inv] by blast
  have "s1 = s" using inv g by (cases rule: approval_get_cases) (use r in auto)
  with g approval_verify_state v show ?thesis by (metis prod.collapse snd_conv)
qed

lemma request_created:
  assumes inv: "invar s" and scope: "approval_scope requester = None" and tool: "tool \<noteq> []" "length tool \<le> 256"
    and risk: "risk \<noteq> READ" and key: "\<forall>k. key = Some k \<longrightarrow> \<not> blank k \<and> length k \<le> 200"
    and ttl: "60 \<le> ttl" "ttl \<le> 86400" and time: "valid_instant (ae_request_now env + ttl * 1000000)"
    and size: "utf8_length (canonical_arguments env arguments) \<le> 100000"
    and new: "amap s (ae_uuid env) = None"
      "\<nexists>i r h k. amap s i = Some (r, h) \<and> in_scope (workspace_id requester) (tenant_id requester) r \<and>
         user_id (ap_requester r) = user_id requester \<and> key = Some k \<and> ap_idempotency_key r = Some k"
  shows "\<exists>r s'. approval_request ops env requester tool arguments risk key ttl s = (Inr r, s') \<and> invar s' \<and>
    ap_id r = ae_uuid env \<and> ap_requester r = requester \<and> ap_tool_name r = tool \<and> ap_status r = PENDING \<and>
    ap_idempotency_key r = key \<and> ap_risk r = risk \<and> ap_arguments r = canon_dict arguments \<and>
    ap_arguments_hash r = ae_sha256 env (canonical_arguments env arguments) \<and>
    ap_expires_at r = iso_utc (ae_request_now env + ttl * 1000000) \<and> amap s' = (amap s)(ap_id r \<mapsto> (r, None))"
proof -
  let ?r = "\<lparr>ap_id = ae_uuid env, ap_requester = requester, ap_tool_name = tool,
     ap_arguments = canon_dict arguments, ap_arguments_hash = ae_sha256 env (canonical_arguments env arguments), ap_risk = risk,
     ap_idempotency_key = key, ap_requested_at = iso_utc (ae_request_now env),
     ap_expires_at = iso_utc (ae_request_now env + ttl * 1000000), ap_status = PENDING,
     ap_approver_user_id = None, ap_decided_at = None\<rparr>"
  have find: "(case key of None \<Rightarrow> None | Some k \<Rightarrow> op_find_idempotent ops (workspace_id requester) (tenant_id requester)
      (user_id requester) k s) = None"
    using new(2) find_some [OF inv] by (cases key) (auto, metis not_Some_eq)
  have "\<exists>s'. op_create ops ?r s = Inr s'"
  proof (cases "op_create ops ?r s")
    case (Inl e)
    from create_err [OF inv Inl] new show ?thesis by (auto simp: same_idempotency_def)
  qed simp
  then obtain s' where s': "op_create ops ?r s = Inr s'" by blast
  moreover have "fresh_record ?r" by (simp add: fresh_record_def canon_args_def)
  ultimately have "invar s' \<and> amap s' = (amap s)(ap_id ?r \<mapsto> (?r, None))" using create_ok [OF inv] by blast
  moreover have "(case key of None \<Rightarrow> False | Some k \<Rightarrow> blank k \<or> length k > 200) = False"
    using key by (cases key) auto
  then have "approval_request ops env requester tool arguments risk key ttl s = (Inr ?r, s')"
    using scope tool risk ttl time size find s' by (simp add: approval_request_def arguments_digest_def Let_def not_less)
  ultimately show ?thesis by (intro exI [of _ ?r] exI [of _ s']) simp
qed

lemma request_repeat:
  assumes inv: "invar s" and req: "approval_request ops env requester tool arguments risk (Some k) ttl s = (Inr r, s')"
    and tool': "tool' \<noteq> []" "length tool' \<le> 256" "risk' \<noteq> READ" "60 \<le> ttl'" "ttl' \<le> 86400"
  shows "approval_request ops env' requester tool' arguments' risk' (Some k) ttl' s' = (Inr r, s')"
proof -
  let ?find = "op_find_idempotent ops (workspace_id requester) (tenant_id requester) (user_id requester) k"
  have ok: "approval_scope requester = None" "\<not> blank k" "length k \<le> 200"
    using req by (auto simp: approval_request_def split: option.splits if_splits)
  have "?find s' = Some r"
  proof (cases "?find s")
    case (Some old)
    with req show ?thesis by (auto simp: approval_request_def split: option.splits if_splits)
  next
    case None
    then have r: "op_create ops r s = Inr s'" "fresh_record r" "ap_requester r = requester" "ap_idempotency_key r = Some k"
      using req by (auto simp: approval_request_def arguments_digest_def Let_def fresh_record_def canon_args_def
          split: option.splits if_splits sum.splits)
    then have s': "invar s'" "amap s' = (amap s)(ap_id r \<mapsto> (r, None))" using create_ok [OF inv] by blast+
    show ?thesis
    proof (cases "?find s'")
      case none': None
      from find_none [OF s'(1) none', of "ap_id r" r None] r s'(2) show ?thesis by (simp add: in_scope_def)
    next
      case (Some r')
      from find_some [OF s'(1) Some] obtain i h where "amap s' i = Some (r', h)" and r':
        "in_scope (workspace_id requester) (tenant_id requester) r'" "user_id (ap_requester r') = user_id requester"
        "ap_idempotency_key r' = Some k" by blast
      then have "i \<noteq> ap_id r \<longrightarrow> amap s i = Some (r', h)" "i = ap_id r \<longrightarrow> r' = r" using s'(2) by auto
      with find_none [OF inv None _ r'(1,2)] r'(3) Some show ?thesis by auto
    qed
  qed
  with ok tool' show ?thesis by (simp add: approval_request_def)
qed

lemma not_expired_iso:
  "valid_instant e \<Longrightarrow> ap_expires_at r = iso_utc e \<Longrightarrow> not_expired now r = Inr (now < e)"
  by (simp add: not_expired_def fromiso_iso_utc dt_instant_def)

lemma approve_pending:
  assumes inv: "invar s" and r: "amap s i = Some (r, h)" "ap_status r = PENDING" "not_expired (ae_check_now env) r = Inr True"
    and a: "approval_scope approver = None" "approver_role approver" "in_scope (workspace_id approver) (tenant_id approver) r"
  shows "\<exists>s'. approval_approve ops env approver i s =
      (Inr (decided APPROVED (Some (user_id approver)) (iso_utc (ae_decide_now env)) r, ae_token env), s') \<and> invar s' \<and>
    amap s' = (amap s)(i \<mapsto> (decided APPROVED (Some (user_id approver)) (iso_utc (ae_decide_now env)) r,
         nonempty (Some (hash_token env (ae_token env)))))"
proof -
  have "approval_get ops env approver i s = (Inr r, s)"
    using inv r a by (simp add: approval_get_def get_eq expire_if_needed_def)
  moreover have "decidable (amap s) i (workspace_id approver) (tenant_id approver) r"
    using r a by (simp add: decidable_def)
  from decide_ok [OF inv this, of APPROVED "Some (user_id approver)" "iso_utc (ae_decide_now env)"
      "Some (hash_token env (ae_token env))"]
  obtain s' where "op_decide ops i (workspace_id approver) (tenant_id approver) APPROVED (Some (user_id approver))
      (iso_utc (ae_decide_now env)) (Some (hash_token env (ae_token env))) s =
      (Some (decided APPROVED (Some (user_id approver)) (iso_utc (ae_decide_now env)) r), s')" "invar s'"
    "amap s' = (amap s)(i \<mapsto> (decided APPROVED (Some (user_id approver)) (iso_utc (ae_decide_now env)) r,
         nonempty (Some (hash_token env (ae_token env)))))" by auto
  ultimately show ?thesis using a r by (intro exI [of _ s']) (simp add: approval_approve_def)
qed


lemma verify_approved:
  assumes inv: "invar s" and r: "amap s i = Some (r, Some h)" "ap_status r = APPROVED"
    and scope: "approval_scope identity = None" "in_scope (workspace_id identity) (tenant_id identity) r"
    and size: "utf8_length (canonical_arguments env arguments) \<le> 100000"
  shows "approval_verify ops env identity i token tool arguments s =
    (Inr (ap_tool_name r = tool \<and> ap_arguments_hash r = ae_sha256 env (canonical_arguments env arguments) \<and>
          h = hash_token env token), s)"
proof -
  have "approval_get ops env identity i s = (Inr r, s)"
    using inv r scope by (simp add: approval_get_def get_eq expire_if_needed_def)
  then show ?thesis
    using r scope size by (simp add: approval_verify_def arguments_digest_def token_eq [OF inv])
qed

lemma request_approve_verify:
  assumes inv: "invar s" and req: "approval_request ops env requester tool arguments risk key ttl s = (Inr r, s1)"
    and new: "amap s (ap_id r) = None" and early: "ae_check_now env' < ae_request_now env + ttl * 1000000"
    and a: "approval_scope approver = None" "approver_role approver" "workspace_id approver = workspace_id requester"
      "tenant_id approver = tenant_id requester"
    and tok: "ae_token env' \<noteq> []" "length (ae_token env') \<le> 512" "ae_sha256 env (ae_token env') \<noteq> []"
    and same: "ae_sha256 env' = ae_sha256 env" "ae_sha256 env'' = ae_sha256 env" "ae_float_repr env'' = ae_float_repr env"
  shows "\<exists>r' s2. approval_approve ops env' approver (ap_id r) s1 = (Inr (r', ae_token env'), s2) \<and>
    (\<forall>token' tool' arguments'. utf8_length (canonical_arguments env'' arguments') \<le> 100000 \<longrightarrow>
       fst (approval_verify ops env'' requester (ap_id r) token' tool' arguments' s2) =
       Inr (tool' = tool \<and> hash_token env token' = ae_sha256 env (ae_token env') \<and>
            ae_sha256 env (canonical_arguments env arguments') = ae_sha256 env (canonical_arguments env arguments)))"
proof -
  have scope: "approval_scope requester = None"
    using req by (auto simp: approval_request_def split: option.splits)
  have "op_find_idempotent ops (workspace_id requester) (tenant_id requester) (user_id requester) k s = None"
    if k: "key = Some k" for k
  proof (rule ccontr)
    assume "\<not> ?thesis"
    then obtain old where old: "op_find_idempotent ops (workspace_id requester) (tenant_id requester) (user_id requester) k s = Some old"
      by blast
    with req k have "old = r" by (auto simp: approval_request_def split: option.splits if_splits)
    with find_some [OF inv old] obtain i h where "amap s i = Some (r, h)" by blast
    with amap_id [OF inv this] new show False by simp
  qed
  then have r: "op_create ops r s = Inr s1" "fresh_record r" "ap_requester r = requester" "ap_tool_name r = tool"
      "ap_status r = PENDING" "ap_arguments_hash r = ae_sha256 env (canonical_arguments env arguments)"
      "ap_expires_at r = iso_utc (ae_request_now env + ttl * 1000000)" "valid_instant (ae_request_now env + ttl * 1000000)"
    using req by (auto simp: approval_request_def arguments_digest_def Let_def fresh_record_def canon_args_def
        split: option.splits if_splits sum.splits)
  have s1: "invar s1" "amap s1 (ap_id r) = Some (r, None)" using create_ok [OF inv r(2,1)] by auto
  have ne: "not_expired (ae_check_now env') r = Inr True" using not_expired_iso [OF r(8,7)] early by simp
  have "in_scope (workspace_id approver) (tenant_id approver) r" using a r(3) by (simp add: in_scope_def)
  from approve_pending [OF s1 r(5) ne a(1,2) this] obtain s2 where s2: "invar s2"
    "approval_approve ops env' approver (ap_id r) s1 =
      (Inr (decided APPROVED (Some (user_id approver)) (iso_utc (ae_decide_now env')) r, ae_token env'), s2)"
    "amap s2 (ap_id r) = Some (decided APPROVED (Some (user_id approver)) (iso_utc (ae_decide_now env')) r,
       Some (ae_sha256 env (ae_token env')))"
    using tok same by (auto simp: nonempty_def hash_token_def)
  have "canonical_arguments env'' x = canonical_arguments env x" "hash_token env'' t = hash_token env t" for x t
    using same by (simp_all add: canonical_arguments_def hash_token_def)
  then show ?thesis
    using verify_approved [OF s2(1,3) _ scope, where env = env''] s2(2) r(3,4,6) same(2) by (auto simp: in_scope_def)
qed

end

section \<open>Properties\<close>

lemma table_invar_Nil [simp]: "table_invar []"
  by (simp add: table_invar_def)

lemma sql_approval_store: "ops \<in> {sqlite_approval_ops, pg_approval_ops} \<Longrightarrow> approval_store ops table_invar table_amap"
  using sqlite_approvals.approval_store_axioms pg_approvals.approval_store_axioms by auto

text \<open>
  C11. The life cycle of an approval in the durable stores: whatever calls follow, in whatever order and by
  whomever, a stored approval is never lost and never edited except by one transition from pending to
  approved, rejected or expired, which sets the decision and nothing else; a decided approval never changes
  again, and a token hash appears only with an approval.
\<close>

theorem approval_life_cycle:
  assumes "ops \<in> {sqlite_approval_ops, pg_approval_ops}"
    and "(approval_step ops)\<^sup>*\<^sup>* [] s" "(approval_step ops)\<^sup>*\<^sup>* s s'" "table_amap s i = Some (r, h)"
  shows "table_amap s' i = Some (r, h) \<or>
    (ap_status r = PENDING \<and> (\<exists>status approver dt h'. status \<in> {APPROVED, REJECTED, EXPIRED} \<and>
       table_amap s' i = Some (decided status approver dt r, h') \<and> (h' \<noteq> None \<longrightarrow> status = APPROVED)))"
proof -
  note store = sql_approval_store [OF assms(1)]
  have "table_invar s"
    using approval_store.approval_steps_evolve [OF store assms(2)] by simp
  then have "evolves (table_amap s) (table_amap s')"
    using approval_store.approval_steps_evolve [OF store assms(3)] by simp
  then obtain new where "table_amap s' i = Some new" "record_evolves (r, h) new"
    using assms(4) unfolding evolves_def by blast
  then show ?thesis by (cases new) (auto simp: record_evolves_def)
qed

text \<open>
  C13. Separation of duties: approving succeeds only for a manager or admin with a valid identity in the
  workspace and tenant of the request, only while the record is pending and its expiry lies in the future;
  it then stores exactly the decided record with the hash of the returned token, and touches nothing else.
\<close>

theorem approval_approve_authorised:
  assumes "ops \<in> {sqlite_approval_ops, pg_approval_ops}" "table_invar s"
    and "approval_approve ops env approver i s = (Inr (r', token), s')"
  shows "role approver \<in> {''admin'', ''manager''} \<and> approval_scope approver = None \<and>
    (\<exists>r. table_amap s i = Some (r, None) \<and> ap_status r = PENDING \<and>
       workspace_id (ap_requester r) = workspace_id approver \<and> tenant_id (ap_requester r) = tenant_id approver \<and>
       not_expired (ae_check_now env) r = Inr True \<and>
       r' = decided APPROVED (Some (user_id approver)) (iso_utc (ae_decide_now env)) r \<and>
       table_amap s' = (table_amap s)(i \<mapsto> (r', nonempty (Some (hash_token env token)))))"
  by (rule approval_store.approval_approve_cases [OF sql_approval_store [OF assms(1)] assms(2,3)])
    (auto simp: approver_role_def in_scope_def)


text \<open>
  The approval flow works end to end on the in-memory store: a request that created its record can be
  approved before its expiry by any valid approver of the same workspace and tenant, and from then on
  verification for the requester answers yes exactly for the requested tool, arguments with the digest of
  the requested ones, and a token with the hash of the one that was returned.
\<close>

lemma approval_flow:
  assumes "memory_invar s" "approval_request memory_approval_ops env requester tool arguments risk key ttl s = (Inr r, s1)"
    and "memory_amap s (ap_id r) = None" "ae_check_now env' < ae_request_now env + ttl * 1000000"
    and "approval_scope approver = None" "approver_role approver" "workspace_id approver = workspace_id requester"
    and "tenant_id approver = tenant_id requester"
    and "ae_token env' \<noteq> []" "length (ae_token env') \<le> 512" "ae_sha256 env (ae_token env') \<noteq> []"
    and "ae_sha256 env' = ae_sha256 env" "ae_sha256 env'' = ae_sha256 env" "ae_float_repr env'' = ae_float_repr env"
  shows "\<exists>r' s2. approval_approve memory_approval_ops env' approver (ap_id r) s1 = (Inr (r', ae_token env'), s2) \<and>
    (\<forall>token' tool' arguments'. utf8_length (canonical_arguments env'' arguments') \<le> 100000 \<longrightarrow>
       fst (approval_verify memory_approval_ops env'' requester (ap_id r) token' tool' arguments' s2) =
       Inr (tool' = tool \<and> hash_token env token' = ae_sha256 env (ae_token env') \<and>
            ae_sha256 env (canonical_arguments env arguments') = ae_sha256 env (canonical_arguments env arguments)))"
  by (rule mem_approvals.request_approve_verify) (use assms in simp_all)

text \<open>
  Requests are idempotent: after a request with an idempotency key has returned a record, every further
  valid request of the same requester with that key, whatever its tool, arguments, risk and TTL, returns the
  same record and leaves the store unchanged.
\<close>

lemma approval_request_idempotent:
  assumes "ops \<in> {sqlite_approval_ops, pg_approval_ops}" "table_invar s"
    and "approval_request ops env requester tool arguments risk (Some k) ttl s = (Inr r, s')"
    and "tool' \<noteq> []" "length tool' \<le> 256" "risk' \<noteq> READ" "60 \<le> ttl'" "ttl' \<le> 86400"
  shows "approval_request ops env' requester tool' arguments' risk' (Some k) ttl' s' = (Inr r, s')"
  by (rule approval_store.request_repeat [OF sql_approval_store [OF assms(1)] assms(2-8)])

text \<open>
  An approved token does not expire and is not consumed: while the record stays approved, verification
  gives the same answer at every later time, however often it is asked, whatever the record's expiry.
\<close>

lemma approval_verify_ignores_expiry:
  assumes "table_invar s" "fst (approval_verify sqlite_approval_ops env identity i token tool arguments s) = Inr True"
  shows "approval_verify sqlite_approval_ops (env\<lparr>ae_check_now := later, ae_expire_now := later'\<rparr>) identity i token tool
    arguments s = (Inr True, s)"
proof (rule sqlite_approvals.verify_keeps_approved [OF assms(1)])
  have "canonical_arguments (env\<lparr>ae_check_now := later, ae_expire_now := later'\<rparr>) arguments = canonical_arguments env arguments"
    "hash_token (env\<lparr>ae_check_now := later, ae_expire_now := later'\<rparr>) token = hash_token env token"
    by (simp_all add: canonical_arguments_def hash_token_def)
  with assms(2) show "fst (approval_verify sqlite_approval_ops (env\<lparr>ae_check_now := later, ae_expire_now := later'\<rparr>)
      identity i token tool arguments s) = Inr True"
    by (simp add: sqlite_approvals.verify_true_iff [OF assms(1)])
qed


section \<open>A concrete approval\<close>

text \<open>A refund requested by a support agent and approved by a manager of the same tenant.\<close>

definition demo_aenv :: approval_env where
  "demo_aenv = \<lparr>ae_sha256 = id, ae_float_repr = \<lambda>_. ''0.0'', ae_uuid = ''a1'', ae_token = ''tok'', ae_request_now = 0,
     ae_check_now = 1, ae_expire_now = 2, ae_decide_now = 3, ae_count_now = \<lambda>_. 1\<rparr>"

definition demo_requester :: identity_context where
  "demo_requester = \<lparr>user_id = ''u1'', workspace_id = ''w1'', tenant_id = ''t1'', role = ''support''\<rparr>"

definition demo_approver :: identity_context where
  "demo_approver = \<lparr>user_id = ''m1'', workspace_id = ''w1'', tenant_id = ''t1'', role = ''manager''\<rparr>"

lemma demo_scopes: "approval_scope demo_requester = None" "approval_scope demo_approver = None" "approver_role demo_approver"
  by (simp_all add: approval_scope_def demo_requester_def demo_approver_def is_space_def code_def approver_role_def)

lemma demo_canonical: "canonical_arguments env [] = ''{}''"
  by (simp add: canonical_arguments_def)

lemma demo_size: "utf8_length (canonical_arguments env []) \<le> 100000"
  by (simp add: demo_canonical utf8_length_def code_def)

lemma demo_valid: "valid_instant (ae_request_now demo_aenv + 900 * 1000000)"
  by (simp add: valid_instant_def day_us_def demo_aenv_def)

lemma demo_key: "\<forall>k. Some ''k'' = Some k \<longrightarrow> \<not> blank k \<and> length k \<le> 200"
  by (simp add: is_space_def code_def)

lemma demo_requested:
  obtains r s1 where
    "approval_request sqlite_approval_ops demo_aenv demo_requester ''erp.refund'' [] WRITE (Some ''k'') 900 [] = (Inr r, s1)"
    "table_invar s1" "ap_id r = ''a1''" "ap_requester r = demo_requester" "ap_tool_name r = ''erp.refund''"
    "ap_status r = PENDING" "ap_arguments_hash r = ''{}''" "ap_expires_at r = iso_utc (ae_request_now demo_aenv + 900 * 1000000)"
    "table_amap s1 ''a1'' = Some (r, None)"
proof -
  have "table_amap [] = (\<lambda>_. None)" by (simp add: table_amap_def row_of_def fun_eq_iff)
  then have empty: "table_amap [] (ae_uuid demo_aenv) = None"
    "\<nexists>i r h k. table_amap [] i = Some (r, h) \<and> in_scope (workspace_id demo_requester) (tenant_id demo_requester) r \<and>
       user_id (ap_requester r) = user_id demo_requester \<and> Some ''k'' = Some k \<and> ap_idempotency_key r = Some k"
    by simp_all
  have "ae_uuid demo_aenv = ''a1''" "ae_sha256 demo_aenv = id" by (simp_all add: demo_aenv_def)
  with sqlite_approvals.request_created [OF table_invar_Nil demo_scopes(1) _ _ _ demo_key _ _ demo_valid demo_size empty,
      of "''erp.refund''" WRITE] that show thesis
    by (auto simp: demo_canonical)
qed

lemma demo_not_expired:
  "ap_expires_at r = iso_utc (ae_request_now demo_aenv + 900 * 1000000) \<Longrightarrow> not_expired (ae_check_now demo_aenv) r = Inr True"
  by (subst mem_approvals.not_expired_iso [OF demo_valid]) (simp_all add: demo_aenv_def)

lemma demo_in_scope: "ap_requester r = demo_requester \<Longrightarrow> in_scope (workspace_id demo_approver) (tenant_id demo_approver) r"
  by (simp add: in_scope_def demo_requester_def demo_approver_def)

lemma demo_approved:
  obtains r s1 s2 where
    "approval_request sqlite_approval_ops demo_aenv demo_requester ''erp.refund'' [] WRITE (Some ''k'') 900 [] = (Inr r, s1)"
    "table_invar s1" "table_amap s1 ''a1'' = Some (r, None)" "ap_status r = PENDING"
    "approval_approve sqlite_approval_ops demo_aenv demo_approver ''a1'' s1 = (Inr (decided APPROVED (Some ''m1'') (iso_utc 3) r, ''tok''), s2)"
    "table_invar s2"
    "fst (approval_verify sqlite_approval_ops demo_aenv demo_requester ''a1'' ''tok'' ''erp.refund'' [] s2) = Inr True"
proof -
  obtain r s1 where r: "approval_request sqlite_approval_ops demo_aenv demo_requester ''erp.refund'' [] WRITE (Some ''k'') 900 [] = (Inr r, s1)"
    "table_invar s1" "ap_id r = ''a1''" "ap_requester r = demo_requester" "ap_tool_name r = ''erp.refund''"
    "ap_status r = PENDING" "ap_arguments_hash r = ''{}''" "ap_expires_at r = iso_utc (ae_request_now demo_aenv + 900 * 1000000)"
    "table_amap s1 ''a1'' = Some (r, None)"
    by (rule demo_requested)
  obtain s2 where s2: "approval_approve sqlite_approval_ops demo_aenv demo_approver ''a1'' s1 =
      (Inr (decided APPROVED (Some ''m1'') (iso_utc 3) r, ''tok''), s2)" "table_invar s2"
    "table_amap s2 ''a1'' = Some (decided APPROVED (Some ''m1'') (iso_utc 3) r, Some ''tok'')"
    using sqlite_approvals.approve_pending [OF r(2,9,6) demo_not_expired [OF r(8)] demo_scopes(2,3) demo_in_scope [OF r(4)]]
    by (auto simp: demo_approver_def demo_aenv_def nonempty_def hash_token_def)
  have "hash_token demo_aenv ''tok'' = ''tok''" "ae_sha256 demo_aenv = id" by (simp_all add: hash_token_def demo_aenv_def)
  then have "fst (approval_verify sqlite_approval_ops demo_aenv demo_requester ''a1'' ''tok'' ''erp.refund'' [] s2) = Inr True"
    using sqlite_approvals.verify_true_iff [OF s2(2)] s2(3) r demo_scopes(1) demo_size
    by (simp add: demo_canonical in_scope_def)
  with r s2 that show thesis by blast
qed

theorem approval_life_cycle_witness:
  "\<exists>s s' r. (approval_step sqlite_approval_ops)\<^sup>*\<^sup>* [] s \<and> (approval_step sqlite_approval_ops)\<^sup>*\<^sup>* s s' \<and>
     table_amap s ''a1'' = Some (r, None) \<and> ap_status r = PENDING \<and>
     (table_amap s' ''a1'' = Some (r, None) \<or> (\<exists>status approver dt h'. status \<in> {APPROVED, REJECTED, EXPIRED} \<and>
       table_amap s' ''a1'' = Some (decided status approver dt r, h') \<and> (h' \<noteq> None \<longrightarrow> status = APPROVED)))"
proof -
  obtain r s1 s2 where r:
    "approval_request sqlite_approval_ops demo_aenv demo_requester ''erp.refund'' [] WRITE (Some ''k'') 900 [] = (Inr r, s1)"
    "table_amap s1 ''a1'' = Some (r, None)" "ap_status r = PENDING"
    "approval_approve sqlite_approval_ops demo_aenv demo_approver ''a1'' s1 = (Inr (decided APPROVED (Some ''m1'') (iso_utc 3) r, ''tok''), s2)"
    by (rule demo_approved)
  have "(approval_step sqlite_approval_ops)\<^sup>*\<^sup>* [] s1" "(approval_step sqlite_approval_ops)\<^sup>*\<^sup>* s1 s2"
    using approval_step.request [OF r(1)] approval_step.approve [OF r(4)] by blast+
  with r(2,3) approval_life_cycle [of sqlite_approval_ops s1 s2 "''a1''" r None] show ?thesis by blast
qed

theorem approval_approve_authorised_witness:
  "\<exists>s s' r' token. table_invar s \<and> approval_approve sqlite_approval_ops demo_aenv demo_approver ''a1'' s = (Inr (r', token), s') \<and>
     role demo_approver \<in> {''admin'', ''manager''} \<and>
     table_amap s' = (table_amap s)(''a1'' \<mapsto> (r', nonempty (Some (hash_token demo_aenv token))))"
proof -
  obtain r s1 s2 where r: "table_invar s1"
    "approval_approve sqlite_approval_ops demo_aenv demo_approver ''a1'' s1 = (Inr (decided APPROVED (Some ''m1'') (iso_utc 3) r, ''tok''), s2)"
    by (rule demo_approved)
  with approval_approve_authorised [of sqlite_approval_ops s1 demo_aenv demo_approver "''a1''"
      "decided APPROVED (Some ''m1'') (iso_utc 3) r" "''tok''" s2] show ?thesis by blast
qed


lemma approval_request_idempotent_witness:
  "\<exists>r s1. approval_request sqlite_approval_ops demo_aenv demo_requester ''erp.refund'' [] WRITE (Some ''k'') 900 [] = (Inr r, s1) \<and>
     approval_request sqlite_approval_ops demo_aenv demo_requester ''erp.delete'' [] DESTRUCTIVE (Some ''k'') 60 s1 = (Inr r, s1)"
proof -
  obtain r s1 where r: "approval_request sqlite_approval_ops demo_aenv demo_requester ''erp.refund'' [] WRITE (Some ''k'') 900 [] = (Inr r, s1)"
    by (rule demo_requested)
  from approval_request_idempotent [OF _ table_invar_Nil r, of "''erp.delete''" DESTRUCTIVE 60 demo_aenv "[]"] r
  show ?thesis by auto
qed

lemma approval_verify_ignores_expiry_witness:
  "\<exists>s. fst (approval_verify sqlite_approval_ops demo_aenv demo_requester ''a1'' ''tok'' ''erp.refund'' [] s) = Inr True \<and>
     approval_verify sqlite_approval_ops (demo_aenv\<lparr>ae_check_now := 999999999999, ae_expire_now := 0\<rparr>) demo_requester ''a1'' ''tok''
       ''erp.refund'' [] s = (Inr True, s)"
proof -
  obtain r s1 s2 where v: "table_invar s2"
    "fst (approval_verify sqlite_approval_ops demo_aenv demo_requester ''a1'' ''tok'' ''erp.refund'' [] s2) = Inr True"
    by (rule demo_approved)
  then show ?thesis
    using approval_verify_ignores_expiry [OF v, of 0 999999999999] by (intro exI [of _ s2] conjI)
qed

lemma approval_flow_witness:
  "\<exists>r s1 r' s2. approval_request memory_approval_ops demo_aenv demo_requester ''erp.refund'' [] WRITE None 900
       memory_approvals_init = (Inr r, s1) \<and>
     approval_approve memory_approval_ops demo_aenv demo_approver (ap_id r) s1 = (Inr (r', ''tok''), s2) \<and>
     fst (approval_verify memory_approval_ops demo_aenv demo_requester (ap_id r) ''tok'' ''erp.refund'' [] s2) = Inr True"
proof -
  have inv: "memory_invar memory_approvals_init" by (simp add: memory_invar_def memory_approvals_init_def)
  have empty: "memory_amap memory_approvals_init i = None" for i by (simp add: memory_approvals_init_def)
  have "\<exists>r s1. approval_request memory_approval_ops demo_aenv demo_requester ''erp.refund'' [] WRITE None 900
      memory_approvals_init = (Inr r, s1)"
    using mem_approvals.request_created [OF inv demo_scopes(1) _ _ _ _ _ _ demo_valid demo_size empty, of "''erp.refund''" WRITE None]
    by auto
  then obtain r s1 where r: "approval_request memory_approval_ops demo_aenv demo_requester ''erp.refund'' [] WRITE None 900
      memory_approvals_init = (Inr r, s1)" by blast
  have env: "ae_token demo_aenv = ''tok''" "ae_sha256 demo_aenv = id" "ae_check_now demo_aenv = 1" "ae_request_now demo_aenv = 0"
    "hash_token demo_aenv ''tok'' = ''tok''"
    by (simp_all add: demo_aenv_def hash_token_def)
  obtain r' s2 where s2: "approval_approve memory_approval_ops demo_aenv demo_approver (ap_id r) s1 = (Inr (r', ae_token demo_aenv), s2)"
    and v: "\<And>token' tool' arguments'. utf8_length (canonical_arguments demo_aenv arguments') \<le> 100000 \<Longrightarrow>
       fst (approval_verify memory_approval_ops demo_aenv demo_requester (ap_id r) token' tool' arguments' s2) =
       Inr (tool' = ''erp.refund'' \<and> hash_token demo_aenv token' = ae_sha256 demo_aenv (ae_token demo_aenv) \<and>
            ae_sha256 demo_aenv (canonical_arguments demo_aenv arguments') = ae_sha256 demo_aenv (canonical_arguments demo_aenv []))"
  proof -
    have "workspace_id demo_approver = workspace_id demo_requester" "tenant_id demo_approver = tenant_id demo_requester"
      by (simp_all add: demo_requester_def demo_approver_def)
    from approval_flow [OF inv r empty, of demo_aenv demo_approver demo_aenv, OF _ demo_scopes(2,3) this] that show thesis
      unfolding env by simp blast
  qed
  from v [OF demo_size, of "''tok''" "''erp.refund''"] s2 r env show ?thesis by auto
qed

end
