(* ===== verification/Rate_Limits.thy ===== *)
theory Rate_Limits
  imports Py_Prelude
begin

text \<open>
  The rate limiters of \<^verbatim>\<open>packages/agent_runtime/limits.py\<close>. Readings of \<^verbatim>\<open>time.monotonic()\<close> are exact
  rationals. The in-memory limiter keeps, for each key, the times of the accepted events still in the
  window; the Redis limiter runs a script in the server, whose commands are parameters.
\<close>

record rate_limiter =
  rl_max_events :: nat
  rl_window_seconds :: nat
  rl_events :: "(string, rat list) dict"

text \<open>\<^verbatim>\<open>InMemoryRateLimiter(...)\<close>; \<^const>\<open>None\<close> is the \<^verbatim>\<open>ValueError\<close>.\<close>

definition rate_limiter_init :: "int \<Rightarrow> int \<Rightarrow> rate_limiter option" where
  "rate_limiter_init max_events window =
     (if max_events \<le> 0 \<or> window \<le> 0 then None
      else Some \<lparr>rl_max_events = nat max_events, rl_window_seconds = nat window, rl_events = []\<rparr>)"

definition events_of :: "rate_limiter \<Rightarrow> string \<Rightarrow> rat list" where
  "events_of l key = (case map_of (rl_events l) key of None \<Rightarrow> [] | Some es \<Rightarrow> es)"

definition retry_after :: "rate_limiter \<Rightarrow> rat \<Rightarrow> rat \<Rightarrow> int" where
  "retry_after l now oldest = max 1 \<lfloor>oldest + of_nat (rl_window_seconds l) - now + 999 / 1000\<rfloor>"

definition check :: "rat \<Rightarrow> string \<Rightarrow> rate_limiter \<Rightarrow> (bool \<times> int) \<times> rate_limiter" where
  "check now key l =
     (let cutoff = now - of_nat (rl_window_seconds l);
          events = dropWhile (\<lambda>e. e \<le> cutoff) (events_of l key)
      in if length events \<ge> rl_max_events l
         then ((False, retry_after l now (hd events)), l\<lparr>rl_events := AList.update key events (rl_events l)\<rparr>)
         else ((True, 0), l\<lparr>rl_events := AList.update key (events @ [now]) (rl_events l)\<rparr>))"

text \<open>A sequence of calls, and the times at which the calls with one key were accepted.\<close>

fun check_all :: "(rat \<times> string) list \<Rightarrow> rate_limiter \<Rightarrow> bool list \<times> rate_limiter" where
  "check_all [] l = ([], l)"
| "check_all ((now, key) # calls) l =
     (let ((ok, _), l1) = check now key l; (oks, l2) = check_all calls l1 in (ok # oks, l2))"

definition accepted :: "string \<Rightarrow> (rat \<times> string) list \<Rightarrow> rate_limiter \<Rightarrow> rat list" where
  "accepted key calls l =
     map (fst \<circ> fst) (filter (\<lambda>((now, k), ok). ok \<and> k = key) (zip calls (fst (check_all calls l))))"

section \<open>RedisRateLimiter\<close>

record redis_limiter =
  xl_max_events :: nat
  xl_window_seconds :: nat
  xl_prefix :: string

definition redis_limiter_init :: "int \<Rightarrow> int \<Rightarrow> string \<Rightarrow> redis_limiter option" where
  "redis_limiter_init max_events window prefix =
     (if max_events \<le> 0 \<or> window \<le> 0 \<or> blank prefix then None
      else Some \<lparr>xl_max_events = nat max_events, xl_window_seconds = nat window, xl_prefix = strip prefix\<rparr>)"

text \<open>
  The script: \<open>incr k s\<close> is \<^verbatim>\<open>INCR\<close> (the new count and the state), \<open>expire k n s\<close> is \<^verbatim>\<open>EXPIRE\<close> and
  \<open>ttl k s\<close> is \<^verbatim>\<open>TTL\<close>.
\<close>

definition rate_script ::
    "(string \<Rightarrow> 'r \<Rightarrow> nat \<times> 'r) \<Rightarrow> (string \<Rightarrow> nat \<Rightarrow> 'r \<Rightarrow> 'r) \<Rightarrow> (string \<Rightarrow> 'r \<Rightarrow> int) \<Rightarrow>
     string \<Rightarrow> nat \<Rightarrow> nat \<Rightarrow> 'r \<Rightarrow> (int \<times> int) \<times> 'r" where
  "rate_script incr expire ttl key window limit s =
     (let (count, s1) = incr key s;
          s2 = (if count = 1 then expire key window s1 else s1)
      in if count > limit then ((0, ttl key s2), s2) else ((1, 0), s2))"

text \<open>\<^verbatim>\<open>check\<close>: \<open>eval\<close> is the client's call of the script, \<^const>\<open>None\<close> any exception it raises.\<close>

definition redis_check ::
    "(string \<Rightarrow> string) \<Rightarrow> (string \<Rightarrow> nat \<Rightarrow> nat \<Rightarrow> 'r \<Rightarrow> (int \<times> int) option \<times> 'r) \<Rightarrow> redis_limiter \<Rightarrow> string \<Rightarrow> 'r \<Rightarrow>
     (bool \<times> int) \<times> 'r" where
  "redis_check sha256 eval l key s =
     (let redis_key = xl_prefix l @ '':rate:'' @ sha256 key
      in case eval redis_key (xl_window_seconds l) (xl_max_events l) s of
           (None, s') \<Rightarrow> ((False, int (xl_window_seconds l)), s')
         | (Some (a, r), s') \<Rightarrow> ((a \<noteq> 0, if a \<noteq> 0 then 0 else max 1 r), s'))"

section \<open>The in-memory window\<close>

lemma events_of_update [simp]:
  "events_of (l\<lparr>rl_events := AList.update k es (rl_events l)\<rparr>) key = (if key = k then es else events_of l key)"
  by (simp add: events_of_def)

text \<open>
  \<open>spaced n w as\<close>: at each accepted event of the chronological list \<open>as\<close>, at most \<open>n\<close> events, itself
  included, lie in the window of length \<open>w\<close> that ends there.
\<close>

definition spaced :: "nat \<Rightarrow> rat \<Rightarrow> rat list \<Rightarrow> bool" where
  "spaced n w as \<longleftrightarrow> (\<forall>xs x ys. as = xs @ x # ys \<longrightarrow> length (filter (\<lambda>e. x - w < e) (xs @ [x])) \<le> n)"

lemma spaced_snoc:
  assumes "spaced n w as" "length (filter (\<lambda>e. x - w < e) (as @ [x])) \<le> n"
  shows "spaced n w (as @ [x])"
  unfolding spaced_def
proof (intro allI impI)
  fix xs y ys
  assume eq: "as @ [x] = xs @ y # ys"
  show "length (filter (\<lambda>e. y - w < e) (xs @ [y])) \<le> n"
  proof (cases ys rule: rev_cases)
    case Nil
    with eq assms(2) show ?thesis by simp
  next
    case (snoc zs z)
    with eq have "as = xs @ y # zs" by simp
    with assms(1) show ?thesis by (auto simp: spaced_def)
  qed
qed

lemma sorted_takeWhile_filter: "sorted xs \<Longrightarrow> filter (\<lambda>e. e \<le> c) xs = takeWhile (\<lambda>e. e \<le> c) (xs :: rat list)"
proof (induction xs)
  case (Cons a xs)
  then show ?case by (cases xs; cases "a \<le> c") auto
qed simp

lemma length_filter_le_filter: "(\<And>x. x \<in> set xs \<Longrightarrow> P x \<Longrightarrow> Q x) \<Longrightarrow> length (filter P xs) \<le> length (filter Q xs)"
  by (induction xs) auto

lemma spaced_window:
  assumes "spaced n w as" "sorted as"
  shows "length (filter (\<lambda>e. t - w < e \<and> e \<le> t) as) \<le> n"
proof -
  let ?p = "takeWhile (\<lambda>e. e \<le> t) as"
  have "filter (\<lambda>e. e \<le> t) as = ?p"
    using assms(2) sorted_takeWhile_filter by blast
  then have eq: "filter (\<lambda>e. t - w < e \<and> e \<le> t) as = filter (\<lambda>e. t - w < e) ?p"
    by (metis (no_types, lifting) filter_cong filter_filter)
  show ?thesis
  proof (cases ?p rule: rev_cases)
    case Nil
    then show ?thesis by (simp add: eq)
  next
    case (snoc xs x)
    then have "x \<le> t" by (metis in_set_conv_decomp set_takeWhileD)
    obtain ys where "as = ?p @ ys" by (metis takeWhile_dropWhile_id)
    then have "as = xs @ x # ys" using snoc by simp
    with assms(1) have "length (filter (\<lambda>e. x - w < e) (xs @ [x])) \<le> n" by (auto simp: spaced_def)
    moreover have "length (filter (\<lambda>e. t - w < e) (xs @ [x])) \<le> length (filter (\<lambda>e. x - w < e) (xs @ [x]))"
      using \<open>x \<le> t\<close> by (intro length_filter_le_filter) auto
    ultimately show ?thesis unfolding eq snoc by linarith
  qed
qed

text \<open>
  The state after a history: each key keeps the suffix of its accepted events that were inside the window
  at its last call; a later call at \<open>now\<close> looks at no fewer events than lie in its own window.
\<close>

definition limiter_inv :: "rate_limiter \<Rightarrow> rat \<Rightarrow> (string \<Rightarrow> rat list) \<Rightarrow> bool" where
  "limiter_inv l now hist \<longleftrightarrow> (\<forall>k. sorted (hist k) \<and> (\<forall>e\<in>set (hist k). e \<le> now) \<and>
     spaced (rl_max_events l) (of_nat (rl_window_seconds l)) (hist k) \<and>
     (\<exists>old. hist k = old @ events_of l k \<and> (\<forall>e\<in>set old. e \<le> now - of_nat (rl_window_seconds l))))"

lemma sorted_dropWhile_filter: "sorted xs \<Longrightarrow> dropWhile (\<lambda>e. e \<le> c) xs = filter (\<lambda>e. c < e) (xs :: rat list)"
proof (induction xs)
  case (Cons a xs)
  then show ?case by (cases "a \<le> c") (auto intro!: filter_True [symmetric])
qed simp

lemma check_keeps_inv:
  assumes inv: "limiter_inv l now hist" and le: "now \<le> now'" and c: "check now' key l = ((ok, r), l')"
  shows "limiter_inv l' now' (if ok then hist(key := hist key @ [now']) else hist) \<and>
    rl_max_events l' = rl_max_events l \<and> rl_window_seconds l' = rl_window_seconds l"
proof -
  let ?w = "of_nat (rl_window_seconds l) :: rat" and ?n = "rl_max_events l"
  let ?ev = "dropWhile (\<lambda>e. e \<le> now' - ?w) (events_of l key)"
  obtain old where old: "hist key = old @ events_of l key" "\<forall>e\<in>set old. e \<le> now - ?w"
    using inv unfolding limiter_inv_def by blast
  have srt: "sorted (hist key)" "\<forall>e\<in>set (hist key). e \<le> now'" "spaced ?n ?w (hist key)"
    using inv le by (force simp: limiter_inv_def)+
  then have ev: "?ev = filter (\<lambda>e. now' - ?w < e) (events_of l key)"
    using old(1) by (simp add: sorted_dropWhile_filter sorted_append)
  have "filter (\<lambda>e. now' - ?w < e) old = []" using old(2) le by (force simp: filter_empty_conv)
  then have win: "filter (\<lambda>e. now' - ?w < e) (hist key) = ?ev" unfolding old(1) ev by simp
  have keep: "\<exists>old'. hist key = old' @ ?ev \<and> (\<forall>e\<in>set old'. e \<le> now' - ?w)"
  proof (intro exI conjI)
    show "hist key = (old @ takeWhile (\<lambda>e. e \<le> now' - ?w) (events_of l key)) @ ?ev" using old(1) by simp
    show "\<forall>e\<in>set (old @ takeWhile (\<lambda>e. e \<le> now' - ?w) (events_of l key)). e \<le> now' - ?w"
      using old(2) le by (force dest: set_takeWhileD)
  qed
  have others: "sorted (hist k) \<and> (\<forall>e\<in>set (hist k). e \<le> now') \<and> spaced ?n ?w (hist k) \<and>
      (\<exists>old. hist k = old @ events_of l k \<and> (\<forall>e\<in>set old. e \<le> now' - ?w))" for k
    using inv le unfolding limiter_inv_def by (meson diff_right_mono order_trans)
  show ?thesis
  proof (cases "length ?ev \<ge> ?n")
    case True
    with c have "\<not> ok" "l' = l\<lparr>rl_events := AList.update key ?ev (rl_events l)\<rparr>"
      by (auto simp: check_def Let_def)
    then show ?thesis using others keep by (auto simp: limiter_inv_def)
  next
    case False
    with c have l': "ok" "l' = l\<lparr>rl_events := AList.update key (?ev @ [now']) (rl_events l)\<rparr>"
      by (auto simp: check_def Let_def)
    have "length (filter (\<lambda>e. now' - ?w < e) (hist key @ [now'])) \<le> ?n"
      unfolding filter_append win using False by (auto split: if_splits)
    then have "spaced ?n ?w (hist key @ [now'])" by (rule spaced_snoc [OF srt(3)])
    moreover have "sorted (hist key @ [now'])" using srt by (simp add: sorted_append)
    moreover obtain old' where "hist key @ [now'] = old' @ (?ev @ [now'])" "\<forall>e\<in>set old'. e \<le> now' - ?w"
      using keep by auto
    ultimately show ?thesis using l' others srt(2) by (auto simp: limiter_inv_def)
  qed
qed


lemma accepted_Cons:
  assumes "check now k l = ((ok, r), l1)"
  shows "accepted key ((now, k) # calls) l = (if ok \<and> k = key then [now] else []) @ accepted key calls l1"
  using assms by (simp add: accepted_def split: prod.split)

lemma accepted_Nil [simp]: "accepted key [] l = []"
  by (simp add: accepted_def)

lemma check_all_inv:
  "limiter_inv l now hist \<Longrightarrow> sorted (now # map fst calls) \<Longrightarrow>
   \<exists>now'. limiter_inv (snd (check_all calls l)) now' (\<lambda>k. hist k @ accepted k calls l) \<and>
     rl_max_events (snd (check_all calls l)) = rl_max_events l \<and>
     rl_window_seconds (snd (check_all calls l)) = rl_window_seconds l"
proof (induction calls arbitrary: l now hist)
  case (Cons call calls)
  obtain t k where call: "call = (t, k)" by (rule prod.exhaust)
  obtain ok r l1 where c: "check t k l = ((ok, r), l1)" by (metis prod.exhaust)
  let ?hist = "if ok then hist(k := hist k @ [t]) else hist"
  have inv1: "limiter_inv l1 t ?hist" "rl_max_events l1 = rl_max_events l" "rl_window_seconds l1 = rl_window_seconds l"
    using check_keeps_inv [OF Cons.prems(1) _ c] Cons.prems(2) call by auto
  moreover have "sorted (t # map fst calls)" using Cons.prems(2) call by simp
  moreover have "(\<lambda>key. ?hist key @ accepted key calls l1) = (\<lambda>key. hist key @ accepted key (call # calls) l)"
    by (auto simp: call accepted_Cons [OF c] fun_eq_iff)
  moreover have "snd (check_all (call # calls) l) = snd (check_all calls l1)"
    by (simp add: call c split: prod.split)
  ultimately show ?case using Cons.IH [of l1 t ?hist] by simp
qed auto

lemma limiter_inv_init: "limiter_inv \<lparr>rl_max_events = n, rl_window_seconds = w, rl_events = []\<rparr> now (\<lambda>_. [])"
  by (simp add: limiter_inv_def spaced_def events_of_def)

section \<open>Properties\<close>

text \<open>
  The in-memory limiter bounds every window: in any sequence of calls at non-decreasing times, and for
  every key and every instant, at most \<^verbatim>\<open>max_events\<close> calls with that key are accepted within the
  \<^verbatim>\<open>window_seconds\<close> that end at that instant.
\<close>

lemma rate_limit_bound:
  assumes "rate_limiter_init max_events window = Some l" "sorted (map fst calls)"
  shows "length (filter (\<lambda>e. t - of_int window < e \<and> e \<le> t) (accepted key calls l)) \<le> nat max_events"
proof -
  have l: "l = \<lparr>rl_max_events = nat max_events, rl_window_seconds = nat window, rl_events = []\<rparr>" "0 < window"
    using assms(1) by (auto simp: rate_limiter_init_def split: if_splits)
  define now where "now = (case calls of [] \<Rightarrow> 0 | c # _ \<Rightarrow> fst c)"
  have "sorted (now # map fst calls)" using assms(2) by (cases calls) (auto simp: now_def)
  from check_all_inv [OF limiter_inv_init this, of "nat max_events" "nat window"]
  obtain now' where "limiter_inv (snd (check_all calls l)) now' (\<lambda>k. [] @ accepted k calls l)"
    "rl_max_events (snd (check_all calls l)) = nat max_events" "rl_window_seconds (snd (check_all calls l)) = nat window"
    using l(1) by auto
  then have "spaced (nat max_events) (of_nat (nat window)) (accepted key calls l)" "sorted (accepted key calls l)"
    by (simp_all add: limiter_inv_def)
  moreover have "(of_nat (nat window) :: rat) = of_int window" using l(2) by simp
  ultimately show ?thesis using spaced_window by metis
qed

text \<open>
  A refused caller that waits gets through: when a call is refused with \<^verbatim>\<open>retry_after\<close> seconds, the
  next call with that key is accepted if it comes that many seconds, and one millisecond more, later. (The
  added 0.999 before truncation can round the wait down by less than a millisecond, not by more.)
\<close>

lemma rate_limit_retry:
  assumes "0 < rl_max_events l" "length (events_of l key) \<le> rl_max_events l"
    and "check now key l = ((False, r), l')" "now + of_int r + 1 / 1000 \<le> later"
  shows "1 \<le> r \<and> fst (check later key l') = (True, 0)"
proof -
  let ?w = "of_nat (rl_window_seconds l) :: rat"
  let ?ev = "dropWhile (\<lambda>e. e \<le> now - ?w) (events_of l key)"
  have c: "length ?ev \<ge> rl_max_events l" "r = retry_after l now (hd ?ev)"
      "l' = l\<lparr>rl_events := AList.update key ?ev (rl_events l)\<rparr>"
    using assms(3) by (auto simp: check_def Let_def split: if_splits)
  then obtain e es where ev: "?ev = e # es" using assms(1) by (cases ?ev) auto
  have "length ?ev \<le> rl_max_events l" using assms(2) length_dropWhile_le order_trans by blast
  then have short: "length es < rl_max_events l" using ev by simp
  have r: "\<lfloor>e + ?w - now + 999 / 1000\<rfloor> \<le> r" "1 \<le> r" using c(2) ev by (auto simp: retry_after_def)
  have "e + ?w - now + 999 / 1000 < of_int \<lfloor>e + ?w - now + 999 / 1000\<rfloor> + 1" by linarith
  also have "\<dots> \<le> of_int r + 1" using r(1) by simp
  finally have old: "e \<le> later - ?w" using assms(4) by (simp add: field_simps)
  have "length (dropWhile (\<lambda>x. x \<le> later - ?w) ?ev) \<le> length es"
    unfolding ev using old by (simp add: length_dropWhile_le)
  then have "length (dropWhile (\<lambda>x. x \<le> later - ?w) ?ev) < rl_max_events l" using short by simp
  then show ?thesis using r(2) by (simp add: check_def c(3) Let_def)
qed

text \<open>
  The Redis limiter fails closed, and its script counts: an exception of the client refuses the call for
  a full window; when the server answers with the script of the limiter, whose \<^verbatim>\<open>INCR\<close> returns one more
  than the count it found, the call is accepted exactly when fewer than \<^verbatim>\<open>max_events\<close> calls were counted
  in the running window, and a refusal never suggests less than one second.
\<close>

lemma redis_rate_limit:
  assumes "\<And>k s. fst (incr k s) = count k s + 1"
  shows "redis_check digest (\<lambda>k w n s. (None, s)) l key s = ((False, int (xl_window_seconds l)), s) \<and>
    (fst (fst (redis_check digest (\<lambda>k w n s. map_prod Some id (rate_script incr expire ttl k w n s)) l key s)) =
      (count (xl_prefix l @ '':rate:'' @ digest key) s < xl_max_events l)) \<and>
    (\<not> fst (fst (redis_check digest (\<lambda>k w n s. map_prod Some id (rate_script incr expire ttl k w n s)) l key s)) \<longrightarrow>
      1 \<le> snd (fst (redis_check digest (\<lambda>k w n s. map_prod Some id (rate_script incr expire ttl k w n s)) l key s)))"
proof -
  define k where "k = xl_prefix l @ '':rate:'' @ digest key"
  obtain s1 where i: "incr k s = (count k s + 1, s1)" using assms by (metis prod.collapse)
  show ?thesis unfolding redis_check_def Let_def k_def [symmetric] by (auto simp: rate_script_def i Let_def)
qed

section \<open>Concrete calls\<close>

definition demo_limiter :: rate_limiter where
  "demo_limiter = \<lparr>rl_max_events = 1, rl_window_seconds = 60, rl_events = []\<rparr>"

lemma rate_limit_bound_witness:
  "rate_limiter_init 1 60 = Some demo_limiter \<and> sorted (map fst [(0, ''k''), (30, ''k''), (61 :: rat, ''k'')]) \<and>
   length (filter (\<lambda>e. 61 - of_int 60 < e \<and> e \<le> 61) (accepted ''k'' [(0, ''k''), (30, ''k''), (61, ''k'')] demo_limiter)) \<le> 1"
proof -
  have l: "rate_limiter_init 1 60 = Some demo_limiter" by (simp add: rate_limiter_init_def demo_limiter_def)
  have s: "sorted (map fst [(0, ''k''), (30, ''k''), (61 :: rat, ''k'')])" by simp
  show ?thesis using rate_limit_bound [OF l s, of 61 "''k''"] l s by simp
qed

lemma rate_limit_retry_witness:
  "\<exists>r l'. check 30 ''k'' (snd (check 0 ''k'' demo_limiter)) = ((False, r), l') \<and> 1 \<le> r \<and> fst (check 61 ''k'' l') = (True, 0)"
proof -
  let ?l = "snd (check 0 ''k'' demo_limiter)"
  have l: "?l = \<lparr>rl_max_events = 1, rl_window_seconds = 60, rl_events = [(''k'', [0])]\<rparr>"
    by (simp add: check_def demo_limiter_def events_of_def)
  have c: "check 30 ''k'' ?l = ((False, 30), ?l)"
    unfolding l by (simp add: check_def events_of_def retry_after_def floor_eq_iff)
  have "1 \<le> (30::int) \<and> fst (check 61 ''k'' ?l) = (True, 0)"
    by (rule rate_limit_retry [OF _ _ c]) (simp_all add: l events_of_def)
  with c show ?thesis by blast
qed

lemma redis_rate_limit_witness:
  "fst (fst (redis_check id (\<lambda>k w n s. map_prod Some id (rate_script (\<lambda>k s. (s + 1, s + 1)) (\<lambda>k n s. s) (\<lambda>k s. 5) k w n s))
      \<lparr>xl_max_events = 2, xl_window_seconds = 60, xl_prefix = ''agent''\<rparr> ''user'' (1 :: nat)))"
  using redis_rate_limit [where incr = "\<lambda>k s. (s + 1, s + 1)" and count = "\<lambda>k s. s" and expire = "\<lambda>k n s. s" and ttl = "\<lambda>k s. 5"
      and digest = id and key = "''user''" and s = "1 :: nat"
      and l = "\<lparr>xl_max_events = 2, xl_window_seconds = 60, xl_prefix = ''agent''\<rparr>"]
  by simp

end
