(* ===== verification/Malware_Scanner.thy ===== *)
theory Malware_Scanner
  imports Attachment_Stores
begin

text \<open>
  The malware scanners of \<^verbatim>\<open>packages/attachments/service.py\<close>. The connection to \<^verbatim>\<open>clamd\<close> is a parameter: it is given
  the byte strings that are sent, in order, and answers with what one \<^verbatim>\<open>recv\<close> returns, or \<^const>\<open>None\<close> for an
  \<^verbatim>\<open>OSError\<close>. \<open>read_frames\<close> is the receiving side of the \<^verbatim>\<open>INSTREAM\<close> protocol.
\<close>

section \<open>Strict UTF-8\<close>

text \<open>
  \<^verbatim>\<open>bytes.decode("utf-8")\<close>: \<open>utf8_points need acc least s\<close> reads on with \<open>need\<close> continuation bytes missing of a code
  point that must be at least \<open>least\<close>. \<open>point_char\<close> keeps the Latin-1 range; beyond it, white space becomes a
  no-break space and any other code point an inverted exclamation mark, so that \<^verbatim>\<open>strip\<close> and searches for ASCII
  text behave as on the full text.
\<close>

fun utf8_points :: "nat \<Rightarrow> nat \<Rightarrow> nat \<Rightarrow> string \<Rightarrow> nat list option" where
  "utf8_points need acc least [] = (if need = 0 then Some [] else None)"
| "utf8_points need acc least (b # s) =
     (let n = code b in
      if need = 0 then
        (if n < 128 then map_option ((#) n) (utf8_points 0 0 0 s)
         else if 194 \<le> n \<and> n < 224 then utf8_points 1 (n - 192) 128 s
         else if 224 \<le> n \<and> n < 240 then utf8_points 2 (n - 224) 2048 s
         else if 240 \<le> n \<and> n < 245 then utf8_points 3 (n - 240) 65536 s
         else None)
      else if 128 \<le> n \<and> n < 192 then
        (let p = acc * 64 + (n - 128) in
         if need = 1 then
           (if least \<le> p \<and> \<not> (55296 \<le> p \<and> p \<le> 57343) \<and> p \<le> 1114111 then map_option ((#) p) (utf8_points 0 0 0 s) else None)
         else utf8_points (need - 1) p least s)
      else None)"

definition wide_space :: "nat \<Rightarrow> bool" where
  "wide_space p \<longleftrightarrow> p = 5760 \<or> (8192 \<le> p \<and> p \<le> 8202) \<or> p = 8232 \<or> p = 8233 \<or> p = 8239 \<or> p = 8287 \<or> p = 12288"

definition point_char :: "nat \<Rightarrow> char" where
  "point_char p = (if p < 256 then char_of p else if wide_space p then char_of (160 :: nat) else char_of (161 :: nat))"

definition utf8_decode :: "string \<Rightarrow> string option" where
  "utf8_decode s = map_option (map point_char) (utf8_points 0 0 0 s)"

section \<open>Scanners\<close>

type_synonym scanner = "string \<Rightarrow> string \<Rightarrow> (attachment_error, unit) result"

definition noop_scan :: scanner where
  "noop_scan data content_type = Inr ()"

record clamav_scanner =
  cs_host :: string
  cs_port :: int
  cs_timeout_seconds :: pyfloat

definition clamav_init :: "string \<Rightarrow> int \<Rightarrow> pyfloat \<Rightarrow> (string, clamav_scanner) result" where
  "clamav_init host port timeout =
     (if host = [] \<or> length host > 255 \<or> list_ex (\<lambda>c. code c = 13 \<or> code c = 10) host then Inl ''ClamAV host is invalid''
      else if port < 1 \<or> port > 65535 then Inl ''ClamAV port is invalid''
      else if timeout_invalid timeout 60 then Inl ''ClamAV timeout must be between 0 and 60 seconds''
      else Inr \<lparr>cs_host = host, cs_port = port, cs_timeout_seconds = timeout\<rparr>)"

definition chunk_size :: nat where
  "chunk_size = 64 * 1024"

function chunks :: "string \<Rightarrow> string list" where
  "chunks data = (if data = [] then [] else take chunk_size data # chunks (drop chunk_size data))"
  by pat_completeness auto
termination by (relation "measure length") (auto simp: chunk_size_def)

declare chunks.simps [simp del]

definition to_bytes4 :: "nat \<Rightarrow> string" where
  "to_bytes4 n = map char_of [n div 16777216 mod 256, n div 65536 mod 256, n div 256 mod 256, n mod 256]"

definition nul :: char where
  "nul = CHR 0x00"

definition clamav_messages :: "string \<Rightarrow> string list" where
  "clamav_messages data =
     [''zINSTREAM'' @ [nul]] @ map (\<lambda>c. to_bytes4 (length c) @ c) (chunks data) @ [[nul, nul, nul, nul]]"

definition clamav_reply :: "string \<Rightarrow> (attachment_error, unit) result" where
  "clamav_reply response =
     (case utf8_decode response of
        None \<Rightarrow> Inl (MalwareScanUnavailable ''malware scanner returned invalid data'')
      | Some t \<Rightarrow>
          let message = strip t in
          if endswith message ''stream: OK'' then Inr ()
          else if contains message ''FOUND'' then Inl (MalwareDetected ''malware scanner rejected the upload'')
          else Inl (MalwareScanUnavailable ''malware scanner did not confirm the upload''))"

definition clamav_scan :: "(string list \<Rightarrow> string option) \<Rightarrow> scanner" where
  "clamav_scan talk data content_type =
     (case talk (clamav_messages data) of
        None \<Rightarrow> Inl (MalwareScanUnavailable ''malware scanner is unavailable'')
      | Some response \<Rightarrow> clamav_reply response)"

definition clamav_healthcheck :: "(string list \<Rightarrow> string option) \<Rightarrow> bool" where
  "clamav_healthcheck talk =
     (case talk [''PING'' @ [nul]] of
        None \<Rightarrow> False
      | Some response \<Rightarrow> rev (dropWhile (\<lambda>c. c = nul \<or> code c = 13 \<or> code c = 10) (rev response)) = ''PONG'')"

section \<open>The receiving side\<close>

definition from_bytes4 :: "string \<Rightarrow> nat" where
  "from_bytes4 s = foldl (\<lambda>n c. n * 256 + code c) 0 s"

function read_frames :: "string \<Rightarrow> string option" where
  "read_frames s =
     (if length s < 4 then None
      else let n = from_bytes4 (take 4 s); rest = drop 4 s in
        if n = 0 then (if rest = [] then Some [] else None)
        else if length rest < n then None
        else map_option ((@) (take n rest)) (read_frames (drop n rest)))"
  by pat_completeness auto
termination by (relation "measure length") auto

declare read_frames.simps [simp del]

lemma length_to_bytes4 [simp]: "length (to_bytes4 n) = 4"
  by (simp add: to_bytes4_def)

lemma from_to_bytes4: "n < 4294967296 \<Longrightarrow> from_bytes4 (to_bytes4 n) = n"
proof -
  assume "n < 4294967296"
  then have "n div 16777216 < 256" by (simp add: less_mult_imp_div_less)
  moreover have "n div 16777216 * 256 + n div 65536 mod 256 = n div 65536"
    using div_mult_mod_eq [of "n div 65536" 256] by (simp add: div_mult2_eq [symmetric])
  moreover have "n div 65536 * 256 + n div 256 mod 256 = n div 256"
    using div_mult_mod_eq [of "n div 256" 256] by (simp add: div_mult2_eq [symmetric])
  moreover have "n div 256 * 256 + n mod 256 = n" by simp
  moreover have "code (char_of k) = k mod 256" for k by (simp add: code_def)
  ultimately show ?thesis by (simp add: from_bytes4_def to_bytes4_def)
qed

lemma read_frame:
  assumes "c \<noteq> []" "length c < 4294967296"
  shows "read_frames (to_bytes4 (length c) @ c @ s) = map_option ((@) c) (read_frames s)"
  using assms by (subst read_frames.simps) (simp add: from_to_bytes4)

lemma read_frames_end: "read_frames [nul, nul, nul, nul] = Some []"
  by (subst read_frames.simps) (simp add: from_bytes4_def nul_def code_def)

lemma read_frames_chunks:
  "read_frames (concat (map (\<lambda>c. to_bytes4 (length c) @ c) (chunks data)) @ [nul, nul, nul, nul]) = Some data"
proof (induction data rule: chunks.induct)
  case (1 data)
  show ?case
  proof (cases "data = []")
    case False
    then have c: "take chunk_size data \<noteq> []" "length (take chunk_size data) < 4294967296" by (auto simp: chunk_size_def)
    show ?thesis
      using 1 [OF False] read_frame [OF c] by (subst chunks.simps) (simp add: False)
  qed (simp add: chunks.simps read_frames_end)
qed

text \<open>
  Framing round trip: what \<^verbatim>\<open>clamd\<close> reads from the stream of an upload, after the command and up to the empty
  chunk, is exactly the uploaded content, for every length.\<close>

lemma clamav_framing_round_trip:
  "\<exists>frames. concat (clamav_messages data) = ''zINSTREAM'' @ [nul] @ frames \<and> read_frames frames = Some data"
  using read_frames_chunks [of data] by (simp add: clamav_messages_def)

text \<open>
  \<^verbatim>\<open>clamd\<close> answers a command with the prefix \<^verbatim>\<open>z\<close> by a text that a NUL terminates, as its documentation says. \<^verbatim>\<open>strip\<close>
  does not remove the NUL, so the confirmation of a clean upload is not recognised, while a detection is.
\<close>

lemma clamav_nul_reply_refused:
  "clamav_reply (''stream: OK'' @ [nul]) = Inl (MalwareScanUnavailable ''malware scanner did not confirm the upload'')"
  "clamav_reply ''stream: OK'' = Inr ()"
  by code_simp+

end
