(* ===== verification/Attachment_Service.thy ===== *)
theory Attachment_Service
  imports Attachment_Stores Blob_Stores Malware_Scanner
begin

text \<open>
  \<^verbatim>\<open>AttachmentService\<close> of \<^verbatim>\<open>packages/attachments/service.py\<close>: validation of uploads, storage of the bytes and of the
  metadata, scoped reads, deletion and the retention purge. The image library is a parameter \<open>image_open\<close> that says
  what opening and verifying the bytes gives; SHA-256, the identifiers and the clock are arguments. The state is
  the pair of the metadata store and the blob store.
\<close>

section \<open>Model\<close>

text \<open>
  \<open>ImageRejected\<close> is one of the exceptions that the source catches, \<open>ImageInfo\<close> carries the format (or an empty text)
  and the size, \<open>ImageUncaught\<close> is any other exception.
\<close>

datatype image_outcome = ImageRejected | ImageInfo string int int | ImageUncaught string

definition allowed_image_types :: "(string \<times> string \<times> string) list" where
  "allowed_image_types = [(''JPEG'', ''image/jpeg'', ''.jpg''), (''PNG'', ''image/png'', ''.png''),
     (''WEBP'', ''image/webp'', ''.webp''), (''GIF'', ''image/gif'', ''.gif'')]"

definition safe_identity_char :: "char \<Rightarrow> bool" where
  "safe_identity_char c \<longleftrightarrow> is_alnum c \<or> c = CHR ''.'' \<or> c = CHR ''_'' \<or> c = CHR '':'' \<or> c = CHR ''-''"

definition safe_identity :: "string \<Rightarrow> bool" where
  "safe_identity s \<longleftrightarrow> 1 \<le> length s \<and> length s \<le> 256 \<and> list_all safe_identity_char s"

record ('s, 'b) attachment_service =
  sv_store :: "'s attachment_ops"
  sv_blobs :: "'b blob_ops"
  sv_scan :: scanner
  sv_scanner_id :: string
  sv_max_bytes :: int
  sv_max_pixels :: int
  sv_retention_days :: int

record ('s, 'b) attachment_state =
  as_store :: 's
  as_blobs :: 'b

definition attachment_service_init ::
    "'s attachment_ops \<Rightarrow> 'b blob_ops \<Rightarrow> scanner \<Rightarrow> string \<Rightarrow> int \<Rightarrow> int \<Rightarrow> int \<Rightarrow> (string, ('s, 'b) attachment_service) result" where
  "attachment_service_init ops blobs scan scanner_id max_bytes max_pixels retention_days =
     (if max_bytes < 1 \<or> max_pixels < 1 \<or> retention_days < 0 then Inl ''attachment limits must be positive''
      else Inr \<lparr>sv_store = ops, sv_blobs = blobs, sv_scan = scan, sv_scanner_id = scanner_id, sv_max_bytes = max_bytes,
             sv_max_pixels = max_pixels, sv_retention_days = retention_days\<rparr>)"

definition retention_seconds :: "('s, 'b) attachment_service \<Rightarrow> int" where
  "retention_seconds sv = sv_retention_days sv * 86400"

definition requires_scan :: "('s, 'b) attachment_service \<Rightarrow> bool" where
  "requires_scan sv \<longleftrightarrow> sv_scanner_id sv \<noteq> ''disabled''"

text \<open>
  A component without a health check is skipped; \<^term>\<open>Some None\<close> is a check that raises.
\<close>

definition attachment_healthcheck :: "bool option option list \<Rightarrow> bool" where
  "attachment_healthcheck checks = list_all (\<lambda>c. c = None \<or> c = Some (Some True)) checks"

definition identity_scope :: "identity_context \<Rightarrow> scope" where
  "identity_scope i = (workspace_id i, tenant_id i, user_id i)"

definition att_scope_key :: "(string \<Rightarrow> string) \<Rightarrow> identity_context \<Rightarrow> string" where
  "att_scope_key sha i = sha (workspace_id i @ [nul] @ tenant_id i)"

definition validate_identity :: "identity_context \<Rightarrow> (attachment_error, unit) result" where
  "validate_identity i =
     (if \<not> safe_identity (user_id i) then Inl (AttachmentError ''invalid user_id in authenticated context'')
      else if \<not> safe_identity (workspace_id i) then Inl (AttachmentError ''invalid workspace_id in authenticated context'')
      else if \<not> safe_identity (tenant_id i) then Inl (AttachmentError ''invalid tenant_id in authenticated context'')
      else Inr ())"

definition scoped_record ::
    "('s, 'b) attachment_service \<Rightarrow> string \<Rightarrow> identity_context \<Rightarrow> ('s, 'b) attachment_state \<Rightarrow> (attachment_error, attachment_record) result" where
  "scoped_record sv i identity st =
     (case validate_identity identity of
        Inl e \<Rightarrow> Inl e
      | Inr _ \<Rightarrow> (case ao_get (sv_store sv) i (identity_scope identity) (as_store st) of
            None \<Rightarrow> Inl (AttachmentNotFound ''attachment was not found'')
          | Some r \<Rightarrow> Inr r))"

text \<open>\<^verbatim>\<open>Path(s).name\<close>: the last part, where empty parts and \<^verbatim>\<open>.\<close> do not count.\<close>

definition path_name :: "string \<Rightarrow> string" where
  "path_name s = (case rev (filter (\<lambda>p. p \<noteq> [] \<and> p \<noteq> ''.'') (split_on CHR ''/'' s)) of [] \<Rightarrow> [] | p # _ \<Rightarrow> p)"

definition filename_ok :: "string \<Rightarrow> bool" where
  "filename_ok s \<longleftrightarrow> s \<noteq> [] \<and> length s \<le> 255 \<and> \<not> list_ex (\<lambda>c. code c < 32 \<or> code c = 127) s \<and> path_name (to_slash s) = s"

definition check_image ::
    "(string \<Rightarrow> image_outcome) \<Rightarrow> ('s, 'b) attachment_service \<Rightarrow> string \<Rightarrow> string \<Rightarrow> (attachment_error, string \<times> string \<times> int \<times> int) result" where
  "check_image image_open sv content_type data =
     (case image_open data of
        ImageUncaught e \<Rightarrow> Inl (AttachmentUncaught e)
      | ImageRejected \<Rightarrow> Inl (AttachmentError ''file content is not a valid image'')
      | ImageInfo image_format width height \<Rightarrow>
          (case map_of allowed_image_types image_format of
             None \<Rightarrow> Inl (AttachmentError ''declared content type does not match image content'')
           | Some (ct, extension) \<Rightarrow>
               if ct \<noteq> content_type then Inl (AttachmentError ''declared content type does not match image content'')
               else if width < 1 \<or> height < 1 \<or> width * height > sv_max_pixels sv
               then Inl (AttachmentError (''image dimensions exceed the '' @ int_str (sv_max_pixels sv) @ '' pixel limit''))
               else Inr (image_format, extension, width, height)))"

definition check_upload ::
    "(string \<Rightarrow> image_outcome) \<Rightarrow> ('s, 'b) attachment_service \<Rightarrow> identity_context \<Rightarrow> string \<Rightarrow> string \<Rightarrow> string \<Rightarrow>
     (attachment_error, string \<times> string \<times> int \<times> int) result" where
  "check_upload image_open sv identity filename content_type data =
     (case validate_identity identity of
        Inl e \<Rightarrow> Inl e
      | Inr _ \<Rightarrow>
          if \<not> filename_ok filename then Inl (AttachmentError ''filename must be a single safe path component'')
          else if content_type \<notin> (fst \<circ> snd) ` set allowed_image_types
          then Inl (AttachmentError ''only JPEG, PNG, WebP and GIF images are supported'')
          else if data = [] then Inl (AttachmentError ''image content is empty'')
          else if int (length data) > sv_max_bytes sv
          then Inl (AttachmentError (''image exceeds the '' @ int_str (sv_max_bytes sv) @ '' byte limit''))
          else (case check_image image_open sv content_type data of
              Inl e \<Rightarrow> Inl e
            | Inr info \<Rightarrow> (case sv_scan sv data content_type of Inl e \<Rightarrow> Inl e | Inr _ \<Rightarrow> Inr info)))"

text \<open>\<open>uid\<close> is \<^verbatim>\<open>uuid.uuid4().hex\<close> and \<open>now\<close> the clock.\<close>

definition upload_record ::
    "(string \<Rightarrow> string) \<Rightarrow> string \<Rightarrow> instant \<Rightarrow> identity_context \<Rightarrow> string \<Rightarrow> string \<Rightarrow> string \<Rightarrow> string \<times> string \<times> int \<times> int \<Rightarrow> attachment_record" where
  "upload_record sha uid now identity filename content_type data info =
     (case info of (image_format, extension, width, height) \<Rightarrow>
        \<lparr>att_id = uid, att_workspace_id = workspace_id identity, att_tenant_id = tenant_id identity,
         att_user_id = user_id identity, att_filename = filename, att_content_type = content_type,
         att_image_format = image_format, att_size_bytes = int (length data), att_sha256 = sha data,
         att_width = width, att_height = height,
         att_storage_path = att_scope_key sha identity @ ''/'' @ uid @ extension, att_created_at = iso_utc now\<rparr>)"

text \<open>The clean-up of a failed upload: a storage error of the deletion is swallowed, any other is raised instead.\<close>

definition upload_cleanup ::
    "('s, 'b) attachment_service \<Rightarrow> string \<Rightarrow> attachment_error \<Rightarrow> ('s, 'b) attachment_state \<Rightarrow>
     (attachment_error, attachment_record) result \<times> ('s, 'b) attachment_state" where
  "upload_cleanup sv p e st =
     (case bo_delete (sv_blobs sv) p (as_blobs st) of
        (Inl (BlobUncaught m), b) \<Rightarrow> (Inl (AttachmentUncaught m), st\<lparr>as_blobs := b\<rparr>)
      | (_, b) \<Rightarrow> (Inl e, st\<lparr>as_blobs := b\<rparr>))"

definition upload_store ::
    "('s, 'b) attachment_service \<Rightarrow> attachment_record \<Rightarrow> string \<Rightarrow> ('s, 'b) attachment_state \<Rightarrow>
     (attachment_error, attachment_record) result \<times> ('s, 'b) attachment_state" where
  "upload_store sv r data st =
     (case bo_put (sv_blobs sv) (att_storage_path r) data (att_content_type r) (as_blobs st) of
        (Inl (BlobStorageError _), b) \<Rightarrow> (Inl (AttachmentError ''attachment content could not be stored''), st\<lparr>as_blobs := b\<rparr>)
      | (Inl (BlobUncaught m), b) \<Rightarrow> upload_cleanup sv (att_storage_path r) (AttachmentUncaught m) (st\<lparr>as_blobs := b\<rparr>)
      | (Inr _, b) \<Rightarrow> (case ao_create (sv_store sv) r (as_store st) of
            Inl e \<Rightarrow> upload_cleanup sv (att_storage_path r) e (st\<lparr>as_blobs := b\<rparr>)
          | Inr s \<Rightarrow> (Inr r, st\<lparr>as_store := s, as_blobs := b\<rparr>)))"

definition upload ::
    "(string \<Rightarrow> image_outcome) \<Rightarrow> (string \<Rightarrow> string) \<Rightarrow> string \<Rightarrow> instant \<Rightarrow> ('s, 'b) attachment_service \<Rightarrow> identity_context \<Rightarrow>
     string \<Rightarrow> string \<Rightarrow> string \<Rightarrow> ('s, 'b) attachment_state \<Rightarrow>
     (attachment_error, attachment_record) result \<times> ('s, 'b) attachment_state" where
  "upload image_open sha uid now sv identity filename content_type data st =
     (case check_upload image_open sv identity filename content_type data of
        Inl e \<Rightarrow> (Inl e, st)
      | Inr info \<Rightarrow> upload_store sv (upload_record sha uid now identity filename content_type data info) data st)"

definition attachment_list ::
    "('s, 'b) attachment_service \<Rightarrow> identity_context \<Rightarrow> ('s, 'b) attachment_state \<Rightarrow> (attachment_error, attachment_record list) result" where
  "attachment_list sv identity st =
     (case validate_identity identity of
        Inl e \<Rightarrow> Inl e
      | Inr _ \<Rightarrow> Inr (ao_list (sv_store sv) (identity_scope identity) (as_store st)))"

definition attachment_metadata ::
    "('s, 'b) attachment_service \<Rightarrow> identity_context \<Rightarrow> string \<Rightarrow> ('s, 'b) attachment_state \<Rightarrow> (attachment_error, attachment_record) result" where
  "attachment_metadata sv identity i st = scoped_record sv i identity st"

definition attachment_content ::
    "('s, 'b) attachment_service \<Rightarrow> identity_context \<Rightarrow> string \<Rightarrow> ('s, 'b) attachment_state \<Rightarrow>
     (attachment_error, attachment_record \<times> path) result" where
  "attachment_content sv identity i st =
     (case scoped_record sv i identity st of
        Inl e \<Rightarrow> Inl e
      | Inr r \<Rightarrow> (case bo_local_path (sv_blobs sv) of
            None \<Rightarrow> Inl (AttachmentError ''object-storage content must be read through the service'')
          | Some local_path \<Rightarrow> (case local_path (att_storage_path r) (as_blobs st) of
                Inl (BlobStorageError _) \<Rightarrow> Inl (AttachmentNotFound ''attachment content is unavailable'')
              | Inl (BlobUncaught m) \<Rightarrow> Inl (AttachmentUncaught m)
              | Inr p \<Rightarrow> Inr (r, p))))"

definition read_content ::
    "(string \<Rightarrow> string) \<Rightarrow> ('s, 'b) attachment_service \<Rightarrow> identity_context \<Rightarrow> string \<Rightarrow> ('s, 'b) attachment_state \<Rightarrow>
     (attachment_error, attachment_record \<times> string) result" where
  "read_content sha sv identity i st =
     (case scoped_record sv i identity st of
        Inl e \<Rightarrow> Inl e
      | Inr r \<Rightarrow> (case bo_read (sv_blobs sv) (att_storage_path r) (sv_max_bytes sv) (as_blobs st) of
            Inl (BlobStorageError _) \<Rightarrow> Inl (AttachmentNotFound ''attachment content is unavailable'')
          | Inl (BlobUncaught m) \<Rightarrow> Inl (AttachmentUncaught m)
          | Inr data \<Rightarrow>
              if int (length data) \<noteq> att_size_bytes r \<or> sha data \<noteq> att_sha256 r
              then Inl (AttachmentError ''attachment content failed integrity verification'')
              else Inr (r, data)))"

definition delete_attachment ::
    "('s, 'b) attachment_service \<Rightarrow> identity_context \<Rightarrow> string \<Rightarrow> ('s, 'b) attachment_state \<Rightarrow>
     (attachment_error, attachment_record) result \<times> ('s, 'b) attachment_state" where
  "delete_attachment sv identity i st =
     (case scoped_record sv i identity st of
        Inl e \<Rightarrow> (Inl e, st)
      | Inr r \<Rightarrow> (case bo_delete (sv_blobs sv) (att_storage_path r) (as_blobs st) of
            (Inl (BlobStorageError _), b) \<Rightarrow> (Inl (AttachmentError ''attachment could not be deleted''), st\<lparr>as_blobs := b\<rparr>)
          | (Inl (BlobUncaught m), b) \<Rightarrow> (Inl (AttachmentUncaught m), st\<lparr>as_blobs := b\<rparr>)
          | (Inr _, b) \<Rightarrow> (case ao_delete (sv_store sv) i (identity_scope identity) (as_store st) of
                (None, s) \<Rightarrow> (Inl (AttachmentNotFound ''attachment was not found''), st\<lparr>as_store := s, as_blobs := b\<rparr>)
              | (Some gone, s) \<Rightarrow> (Inr gone, st\<lparr>as_store := s, as_blobs := b\<rparr>))))"

fun purge_loop ::
    "('s, 'b) attachment_service \<Rightarrow> attachment_record list \<Rightarrow> ('s, 'b) attachment_state \<Rightarrow>
     (attachment_error, attachment_record list) result \<times> ('s, 'b) attachment_state" where
  "purge_loop sv [] st = (Inr [], st)"
| "purge_loop sv (r # rs) st =
     (case bo_delete (sv_blobs sv) (att_storage_path r) (as_blobs st) of
        (Inl (BlobStorageError _), b) \<Rightarrow> (Inl (AttachmentError ''expired attachment could not be deleted''), st\<lparr>as_blobs := b\<rparr>)
      | (Inl (BlobUncaught m), b) \<Rightarrow> (Inl (AttachmentUncaught m), st\<lparr>as_blobs := b\<rparr>)
      | (Inr _, b) \<Rightarrow> (case ao_delete (sv_store sv) (att_id r) (record_scope r) (as_store st) of (removed, s) \<Rightarrow>
            (case purge_loop sv rs (st\<lparr>as_store := s, as_blobs := b\<rparr>) of
               (Inl e, st') \<Rightarrow> (Inl e, st')
             | (Inr gone, st') \<Rightarrow> (Inr (case removed of None \<Rightarrow> gone | Some x \<Rightarrow> x # gone), st'))))"

text \<open>\<open>now\<close> is the time given or the clock; a cutoff before year 1 is an \<^verbatim>\<open>OverflowError\<close>.\<close>

definition purge_expired ::
    "('s, 'b) attachment_service \<Rightarrow> instant \<Rightarrow> ('s, 'b) attachment_state \<Rightarrow>
     (attachment_error, attachment_record list) result \<times> ('s, 'b) attachment_state" where
  "purge_expired sv now st =
     (if retention_seconds sv \<le> 0 then (Inr [], st)
      else let cutoff = now - retention_seconds sv * 1000000 in
        if \<not> valid_instant cutoff then (Inl (AttachmentUncaught ''OverflowError''), st)
        else (case ao_list_before (sv_store sv) cutoff (as_store st) of
            Inl e \<Rightarrow> (Inl e, st)
          | Inr expired \<Rightarrow> purge_loop sv expired st))"

section \<open>File names and storage paths\<close>

lemma split_on_to_slash_single:
  "CHR ''/'' \<notin> set s \<Longrightarrow> CHR 0x5C \<notin> set s \<Longrightarrow> to_slash s = s \<and> split_on CHR ''/'' s = [s]"
  by (auto simp: to_slash_def split_on_single intro!: map_idI)

lemma path_name_part: "path_name s \<noteq> [] \<Longrightarrow> path_name s \<in> set (split_on CHR ''/'' s) \<and> path_name s \<noteq> ''.''"
proof -
  assume ne: "path_name s \<noteq> []"
  let ?l = "rev (filter (\<lambda>p. p \<noteq> [] \<and> p \<noteq> ''.'') (split_on CHR ''/'' s))"
  obtain p ps where l: "?l = p # ps" using ne by (cases ?l) (auto simp: path_name_def)
  then have "p \<in> set ?l" by (metis list.set_intros(1))
  moreover have "path_name s = p" by (simp add: path_name_def l)
  ultimately show ?thesis by simp
qed

text \<open>
  The accepted file names are exactly the texts of one to 255 characters without control characters and
  separators, other than \<^verbatim>\<open>.\<close>; the parent directory \<^verbatim>\<open>..\<close> is one of them.
\<close>

lemma filename_ok_iff:
  "filename_ok s \<longleftrightarrow> s \<noteq> [] \<and> length s \<le> 255 \<and> (\<forall>c\<in>set s. 32 \<le> code c \<and> code c \<noteq> 127) \<and>
     CHR ''/'' \<notin> set s \<and> CHR 0x5C \<notin> set s \<and> s \<noteq> ''.''"
proof -
  have "path_name (to_slash s) = s \<longleftrightarrow> CHR ''/'' \<notin> set s \<and> CHR 0x5C \<notin> set s \<and> s \<noteq> ''.''" if "s \<noteq> []"
  proof
    assume p: "path_name (to_slash s) = s"
    then have m: "s \<in> set (split_on CHR ''/'' (to_slash s))" "s \<noteq> ''.''" using path_name_part [of "to_slash s"] that by auto
    then have "CHR ''/'' \<notin> set s" using split_on_no_sep by metis
    moreover have "CHR 0x5C \<notin> set s"
    proof
      assume b: "CHR 0x5C \<in> set s"
      then have "CHR ''/'' \<in> set (to_slash s)" by (force simp: to_slash_def)
      moreover have "CHR 0x5C \<notin> set (to_slash s)" by (auto simp: to_slash_def)
      moreover have "set s \<subseteq> set (to_slash s)" using m(1)
        by (metis split_on_subset)
      ultimately show False using b by blast
    qed
    ultimately show "CHR ''/'' \<notin> set s \<and> CHR 0x5C \<notin> set s \<and> s \<noteq> ''.''" using m(2) by blast
  next
    assume "CHR ''/'' \<notin> set s \<and> CHR 0x5C \<notin> set s \<and> s \<noteq> ''.''"
    then show "path_name (to_slash s) = s" using split_on_to_slash_single [of s] that by (simp add: path_name_def)
  qed
  then show ?thesis by (auto simp: filename_ok_def list_ex_iff not_less)
qed

lemma dot_dot_filename: "filename_ok ''..''"
  by (simp add: filename_ok_iff code_def)

definition hex_text :: "nat \<Rightarrow> string \<Rightarrow> bool" where
  "hex_text n s \<longleftrightarrow> length s = n \<and> list_all (\<lambda>c. is_digit c \<or> (97 \<le> code c \<and> code c \<le> 102)) s"

lemma hex_text_chars:
  assumes "hex_text n s"
  shows "c \<in> set s \<Longrightarrow> safe_key_char c" "CHR ''/'' \<notin> set s" "CHR ''.'' \<notin> set s"
proof -
  have h: "is_digit c \<or> (97 \<le> code c \<and> code c \<le> 102)" if "c \<in> set s" for c
    using assms that by (auto simp: hex_text_def list_all_iff)
  show "c \<in> set s \<Longrightarrow> safe_key_char c" using h [of c] by (auto simp: safe_key_char_def is_alnum_def is_lower_def)
  show "CHR ''/'' \<notin> set s" using h [of "CHR ''/''"] by (auto simp: is_digit_def code_def)
  show "CHR ''.'' \<notin> set s" using h [of "CHR ''.''"] by (auto simp: is_digit_def code_def)
qed

lemma extension_cases:
  "map_of allowed_image_types fmt = Some (ct, ext) \<Longrightarrow> ext \<in> {''.jpg'', ''.png'', ''.webp'', ''.gif''}"
  by (auto simp: allowed_image_types_def split: if_splits)

text \<open>The storage path of an upload is a valid key, and its file name gives back the identifier.\<close>

lemma storage_path_ok:
  assumes "hex_text 64 d" "hex_text 32 uid" "ext \<in> {''.jpg'', ''.png'', ''.webp'', ''.gif''}"
  shows "blob_key (d @ ''/'' @ uid @ ext)" "path_id (d @ ''/'' @ uid @ ext) = uid"
proof -
  have e: "CHR ''/'' \<notin> set ext" "\<forall>c\<in>set ext. safe_key_char c" "length ext \<le> 5" "takeWhile (\<lambda>c. c \<noteq> CHR ''.'') ext = []"
  proof -
    have "list_all (\<lambda>e. CHR ''/'' \<notin> set e \<and> list_all safe_key_char e \<and> length e \<le> 5 \<and> takeWhile (\<lambda>c. c \<noteq> CHR ''.'') e = [])
        [''.jpg'', ''.png'', ''.webp'', ''.gif'']" by code_simp
    moreover have "ext \<in> set [''.jpg'', ''.png'', ''.webp'', ''.gif'']" using assms(3) by simp
    ultimately have "CHR ''/'' \<notin> set ext \<and> list_all safe_key_char ext \<and> length ext \<le> 5 \<and> takeWhile (\<lambda>c. c \<noteq> CHR ''.'') ext = []"
      unfolding list_all_iff [where xs = "[''.jpg'', ''.png'', ''.webp'', ''.gif'']"] by (rule bspec)
    then show "CHR ''/'' \<notin> set ext" "\<forall>c\<in>set ext. safe_key_char c" "length ext \<le> 5" "takeWhile (\<lambda>c. c \<noteq> CHR ''.'') ext = []"
      by (auto simp: list_all_iff)
  qed
  have s: "split_on CHR ''/'' (d @ ''/'' @ uid @ ext) = [d, uid @ ext]"
    using hex_text_chars(2) [OF assms(1)] hex_text_chars(2) [OF assms(2)] e(1) by (simp add: split_on_append split_on_single)
  have l: "length d = 64" "length uid = 32" using assms by (simp_all add: hex_text_def)
  have ne: "uid \<noteq> []" "d \<noteq> []" using l by auto
  have u: "hd uid \<noteq> CHR ''.''" "hd d \<noteq> CHR ''/''"
    using hex_text_chars(3) [OF assms(2)] hex_text_chars(2) [OF assms(1)] hd_in_set [OF ne(1)] hd_in_set [OF ne(2)] by auto
  have "safe_key (d @ ''/'' @ uid @ ext)"
    using hex_text_chars(1) [OF assms(1)] hex_text_chars(1) [OF assms(2)] e(2,3) l
    by (auto simp: safe_key_def list_all_iff) (auto simp: safe_key_char_def)
  moreover have "\<not> startswith (d @ ''/'' @ uid @ ext) ''/''" using u ne by (cases d) (auto simp: startswith_def)
  moreover have "\<not> dot_part x" if "2 < length x" for x using that by (auto simp: dot_part_def)
  then have "\<not> dot_part d" "\<not> dot_part (uid @ ext)" using l by simp_all
  ultimately show "blob_key (d @ ''/'' @ uid @ ext)"
    using to_slash_fixed s u ne by (simp add: blob_key_def validate_key_Inr)
  show "path_id (d @ ''/'' @ uid @ ext) = uid"
  proof -
    have "takeWhile (\<lambda>c. c \<noteq> CHR ''.'') (uid @ ext) = uid @ takeWhile (\<lambda>c. c \<noteq> CHR ''.'') ext"
      by (rule takeWhile_append2) (use hex_text_chars(3) [OF assms(2)] in auto)
    then show ?thesis by (simp only: path_id_def s e(4) last.simps) simp
  qed
qed

section \<open>Behaviour over any store that meets the contract\<close>

definition stored_ok :: "attachment_record \<Rightarrow> bool" where
  "stored_ok r \<longleftrightarrow> blob_key (att_storage_path r) \<and> path_id (att_storage_path r) = att_id r"

lemma upload_record_simps [simp]:
  "att_id (upload_record sha uid now i fn ct d info) = uid" "record_scope (upload_record sha uid now i fn ct d info) = identity_scope i"
  "att_content_type (upload_record sha uid now i fn ct d info) = ct" "att_size_bytes (upload_record sha uid now i fn ct d info) = int (length d)"
  "att_sha256 (upload_record sha uid now i fn ct d info) = sha d" "att_created_at (upload_record sha uid now i fn ct d info) = iso_utc now"
  "att_filename (upload_record sha uid now i fn ct d info) = fn"
  by (auto simp: upload_record_def record_scope_def identity_scope_def split: prod.split)

lemma check_upload_Inr:
  assumes "check_upload img sv identity fn ct data = Inr info"
  shows "validate_identity identity = Inr ()" "filename_ok fn" "data \<noteq> []" "int (length data) \<le> sv_max_bytes sv"
    "sv_scan sv data ct = Inr ()" "check_image img sv ct data = Inr info"
  using assms by (auto simp: check_upload_def split: sum.splits if_splits)

lemma check_image_Inr:
  assumes "check_image img sv ct data = Inr (fmt, ext, w, h)"
  shows "img data = ImageInfo fmt w h" "map_of allowed_image_types fmt = Some (ct, ext)" "1 \<le> w" "1 \<le> h" "w * h \<le> sv_max_pixels sv"
  using assms by (auto simp: check_image_def split: image_outcome.splits option.splits if_splits)

lemma upload_record_stored:
  assumes "check_upload img sv identity fn ct data = Inr info" "hex_text 64 (att_scope_key sha identity)" "hex_text 32 uid"
  shows "stored_ok (upload_record sha uid now identity fn ct data info)"
proof -
  obtain fmt ext w h where info: "info = (fmt, ext, w, h)" by (cases info)
  have "ext \<in> {''.jpg'', ''.png'', ''.webp'', ''.gif''}"
    using check_image_Inr(2) [of img sv ct data fmt ext w h] check_upload_Inr(6) [OF assms(1)] info extension_cases by blast
  then show ?thesis using storage_path_ok [OF assms(2,3)] by (simp add: stored_ok_def upload_record_def info)
qed

context attachment_store
begin

lemma scoped_record_iff:
  assumes "sv_store sv = ops" "invar (as_store st)"
  shows "scoped_record sv i identity st = Inr r \<longleftrightarrow>
    validate_identity identity = Inr () \<and> amap (as_store st) i = Some r \<and> record_scope r = identity_scope identity"
  using assms by (auto simp: scoped_record_def get_eq split: sum.splits option.splits if_splits)

lemma upload_Inr:
  assumes "sv_store sv = ops" "invar (as_store st)" "valid_instant now"
    and "upload img sha uid now sv identity fn ct data st = (Inr r, st')"
  obtains info where "check_upload img sv identity fn ct data = Inr info" "r = upload_record sha uid now identity fn ct data info"
    "invar (as_store st')" "amap (as_store st) uid = None" "amap (as_store st') = (amap (as_store st))(uid \<mapsto> r)"
    "bo_put (sv_blobs sv) (att_storage_path r) data ct (as_blobs st) = (Inr (), as_blobs st')"
proof -
  obtain info where c: "check_upload img sv identity fn ct data = Inr info"
    using assms(4) by (auto simp: upload_def split: sum.splits)
  let ?r = "upload_record sha uid now identity fn ct data info"
  have u: "upload_store sv ?r data st = (Inr r, st')" using assms(4) by (simp add: upload_def c)
  obtain x b where p: "bo_put (sv_blobs sv) (att_storage_path ?r) data ct (as_blobs st) = (x, b)" by fastforce
  have nc: "fst (upload_cleanup sv q e t) \<noteq> Inr r" for q e t
    by (auto simp: upload_cleanup_def split: prod.splits sum.splits blob_error.splits)
  have x: "x = Inr ()" using u p nc by (auto simp: upload_store_def split: sum.splits blob_error.splits) (metis fst_conv)+
  then obtain s' where s': "ao_create ops ?r (as_store st) = Inr s'" "r = ?r" "st' = st\<lparr>as_store := s', as_blobs := b\<rparr>"
    using u p nc assms(1) by (auto simp: upload_store_def split: sum.splits) (metis fst_conv)
  have "stamped ?r" using assms(3) by (auto simp: stamped_def)
  from create_ok [OF assms(2) this s'(1)] show ?thesis using that [OF c s'(2)] s' p x by simp
qed

lemma upload_Inl:
  assumes "sv_store sv = ops" "blob_laws (sv_blobs sv) content" "hex_text 64 (att_scope_key sha identity)" "hex_text 32 uid"
    and "upload img sha uid now sv identity fn ct data st = (Inl e, st')"
  shows "as_store st' = as_store st"
    "blob_key k \<Longrightarrow> path_id k \<noteq> uid \<Longrightarrow> content (as_blobs st') k = content (as_blobs st) k"
proof -
  have cl: "as_store t' = as_store t \<and> (k' \<noteq> q \<longrightarrow> blob_key k' \<longrightarrow> blob_key q \<longrightarrow> content (as_blobs t') k' = content (as_blobs t) k')"
    if "upload_cleanup sv q err t = (res, t')" for q err t res t' k'
    using that blob_delete_lawD(1) [OF assms(2)]
    by (fastforce simp: upload_cleanup_def split: prod.splits sum.splits blob_error.splits)
  have "as_store st' = as_store st \<and> (blob_key k \<longrightarrow> path_id k \<noteq> uid \<longrightarrow> content (as_blobs st') k = content (as_blobs st) k)" for k
  proof (cases "check_upload img sv identity fn ct data")
    case (Inr info)
    let ?r = "upload_record sha uid now identity fn ct data info"
    have ok: "blob_key (att_storage_path ?r)" "path_id (att_storage_path ?r) = uid"
      using upload_record_stored [OF Inr assms(3,4)] by (simp_all add: stored_ok_def)
    obtain x b where p: "bo_put (sv_blobs sv) (att_storage_path ?r) data ct (as_blobs st) = (x, b)" by fastforce
    have f: "content b k = content (as_blobs st) k" if "blob_key k" "path_id k \<noteq> uid"
      using blob_put_lawD(1) [OF assms(2) p ok(1) that(1)] that(2) ok(2) by metis
    have u: "upload_store sv ?r data st = (Inl e, st')" using assms(5) by (simp add: upload_def Inr)
    then consider "st' = st\<lparr>as_blobs := b\<rparr>" | err where "upload_cleanup sv (att_storage_path ?r) err (st\<lparr>as_blobs := b\<rparr>) = (Inl e, st')"
      using p by (auto simp: upload_store_def split: sum.splits blob_error.splits)
    then show ?thesis
    proof cases
      case 2
      from cl [OF this, of k] show ?thesis using f ok by auto
    qed (use f in simp)
  qed (use assms(5) in \<open>simp add: upload_def\<close>)
  then show "as_store st' = as_store st" "blob_key k \<Longrightarrow> path_id k \<noteq> uid \<Longrightarrow> content (as_blobs st') k = content (as_blobs st) k"
    by blast+
qed

lemma delete_attachment_effect:
  assumes "sv_store sv = ops" "invar (as_store st)" "delete_attachment sv identity i st = (res, st')"
  shows "invar (as_store st')"
    "amap (as_store st') = amap (as_store st) \<or>
      (\<exists>r. amap (as_store st) i = Some r \<and> record_scope r = identity_scope identity \<and> amap (as_store st') = (amap (as_store st))(i := None))"
proof -
  have "as_store st' = as_store st \<or> (\<exists>rm. ao_delete ops i (identity_scope identity) (as_store st) = (rm, as_store st'))"
    using assms(1,3)
    by (auto simp: delete_attachment_def split: sum.splits prod.splits blob_error.splits option.splits)
  then consider "as_store st' = as_store st" | rm where "ao_delete ops i (identity_scope identity) (as_store st) = (rm, as_store st')"
    by blast
  then have "invar (as_store st') \<and> (amap (as_store st') = amap (as_store st) \<or>
      (\<exists>r. amap (as_store st) i = Some r \<and> record_scope r = identity_scope identity \<and> amap (as_store st') = (amap (as_store st))(i := None)))"
  proof cases
    case 2
    from delete_eq [OF assms(2) this] show ?thesis
      using get_eq [OF assms(2), of i "identity_scope identity"] by (auto split: option.splits if_splits)
  qed (use assms(2) in simp)
  then show "invar (as_store st')"
    "amap (as_store st') = amap (as_store st) \<or>
      (\<exists>r. amap (as_store st) i = Some r \<and> record_scope r = identity_scope identity \<and> amap (as_store st') = (amap (as_store st))(i := None))"
    by blast+
qed

lemma purge_loop_Inr:
  assumes "sv_store sv = ops" "blob_laws (sv_blobs sv) content" "invar (as_store st)" "distinct (map att_id rs)"
    and "\<forall>r\<in>set rs. amap (as_store st) (att_id r) = Some r \<and> blob_key (att_storage_path r)"
    and "purge_loop sv rs st = (Inr gone, st')"
  shows "gone = rs \<and> invar (as_store st') \<and> amap (as_store st') = (amap (as_store st)) |` (- att_id ` set rs) \<and>
    (\<forall>k. blob_key k \<longrightarrow> content (as_blobs st') k = (if k \<in> att_storage_path ` set rs then None else content (as_blobs st) k))"
  using assms(3-6)
proof (induction rs arbitrary: st gone)
  case Nil
  then show ?case by simp
next
  case (Cons r rs)
  obtain b rm s gone' where d: "bo_delete (sv_blobs sv) (att_storage_path r) (as_blobs st) = (Inr (), b)"
      "ao_delete ops (att_id r) (record_scope r) (as_store st) = (rm, s)"
      "purge_loop sv rs (st\<lparr>as_store := s, as_blobs := b\<rparr>) = (Inr gone', st')"
      "gone = (case rm of None \<Rightarrow> gone' | Some x \<Rightarrow> x # gone')"
    using Cons.prems(4) assms(1) by (auto split: prod.splits sum.splits blob_error.splits)
  have r: "amap (as_store st) (att_id r) = Some r" "blob_key (att_storage_path r)" using Cons.prems(3) by simp_all
  have del: "invar s" "rm = Some r" "amap s = (amap (as_store st))(att_id r := None)"
    using delete_eq [OF Cons.prems(1) d(2)] get_eq [OF Cons.prems(1)] r(1) by simp_all
  have rest: "\<forall>q\<in>set rs. amap s (att_id q) = Some q \<and> blob_key (att_storage_path q)"
  proof
    fix q assume q: "q \<in> set rs"
    have "att_id r \<notin> att_id ` set rs" using Cons.prems(2) by simp
    then have "att_id q \<noteq> att_id r" using q by (metis imageI)
    then show "amap s (att_id q) = Some q \<and> blob_key (att_storage_path q)" using Cons.prems(3) q by (simp add: del(3))
  qed
  have "gone' = rs \<and> invar (as_store st') \<and> amap (as_store st') = amap s |` (- att_id ` set rs) \<and>
      (\<forall>k. blob_key k \<longrightarrow> content (as_blobs st') k = (if k \<in> att_storage_path ` set rs then None else content b k))"
    using Cons.IH [OF _ _ _ d(3)] del(1) rest Cons.prems(2) by simp
  moreover have "content b k = (if k = att_storage_path r then None else content (as_blobs st) k)" if "blob_key k" for k
    using blob_delete_lawD [OF assms(2) d(1) r(2)] that by auto
  moreover have "(m(i := None)) |` (- A) = m |` (- insert i A)" for m :: "string \<Rightarrow> attachment_record option" and i A
    by (auto simp: restrict_map_def)
  ultimately show ?case using d(4) del(2,3) by auto
qed

lemma purge_loop_invar:
  assumes "sv_store sv = ops" "invar (as_store st)" "purge_loop sv rs st = (res, st')"
  shows "invar (as_store st')"
  using assms(2,3)
proof (induction rs arbitrary: st st' res)
  case (Cons r rs)
  obtain x b where d: "bo_delete (sv_blobs sv) (att_storage_path r) (as_blobs st) = (x, b)" by fastforce
  obtain rm s where a: "ao_delete ops (att_id r) (record_scope r) (as_store st) = (rm, s)" by fastforce
  have s: "invar s" using delete_eq [OF Cons.prems(1) a] by simp
  obtain y st2 where l: "purge_loop sv rs (st\<lparr>as_store := s, as_blobs := b\<rparr>) = (y, st2)" by fastforce
  have "invar (as_store st2)" using Cons.IH [OF _ l] s by simp
  then show ?case using Cons.prems d a l assms(1) by (auto split: sum.splits blob_error.splits)
qed simp

lemma purge_expired_invar:
  assumes "sv_store sv = ops" "invar (as_store st)" "purge_expired sv now st = (res, st')"
  shows "invar (as_store st')"
  using assms purge_loop_invar [OF assms(1,2)] by (auto simp: purge_expired_def Let_def split: if_splits sum.splits)

lemma purge_expired_Inr:
  assumes "sv_store sv = ops" "blob_laws (sv_blobs sv) content" "invar (as_store st)" "0 < retention_seconds sv"
    and "\<forall>r\<in>ran (amap (as_store st)). stored_ok r" "cutoff = now - retention_seconds sv * 1000000"
    and "purge_expired sv now st = (Inr gone, st')"
  shows "set gone = {r \<in> ran (amap (as_store st)). created r < cutoff}"
    "ran (amap (as_store st')) = {r \<in> ran (amap (as_store st)). \<not> created r < cutoff}"
    "r \<in> ran (amap (as_store st)) \<Longrightarrow> content (as_blobs st') (att_storage_path r) =
      (if created r < cutoff then None else content (as_blobs st) (att_storage_path r))"
proof -
  let ?m = "amap (as_store st)"
  have v: "valid_instant cutoff" using assms(4,6,7) by (auto simp: purge_expired_def Let_def split: if_splits)
  obtain rs where rs: "ao_list_before ops cutoff (as_store st) = Inr rs" "distinct (map att_id rs)" "set rs = {r \<in> ran ?m. created r < cutoff}"
    using before_eq [OF assms(3) v] by blast
  have loop: "purge_loop sv rs st = (Inr gone, st')"
    using assms(1,4,6,7) v rs(1) by (simp add: purge_expired_def Let_def)
  have id: "r \<in> ran ?m \<Longrightarrow> ?m (att_id r) = Some r" for r using amap_ok [OF assms(3)] by (auto simp: ran_def)
  have same: "q = r" if q: "q \<in> ran ?m" "r \<in> ran ?m" "att_id q = att_id r" for q r
  proof -
    have "?m (att_id r) = Some q" using id [OF q(1)] unfolding q(3) .
    moreover have "?m (att_id r) = Some r" using id [OF q(2)] .
    ultimately show ?thesis by (metis option.inject)
  qed
  have "\<forall>r\<in>set rs. ?m (att_id r) = Some r \<and> blob_key (att_storage_path r)"
    using id assms(5) rs(3) by (auto simp: stored_ok_def)
  note L = purge_loop_Inr [OF assms(1-3) rs(2) this loop]
  show "set gone = {r \<in> ran ?m. created r < cutoff}" using L rs(3) by blast
  have m': "amap (as_store st') = ?m |` (- att_id ` set rs)" using L by blast
  have "r \<in> ran (amap (as_store st')) \<longleftrightarrow> r \<in> ran ?m \<and> r \<notin> set rs" for r
  proof
    assume "r \<in> ran (amap (as_store st'))"
    then obtain i where i: "?m i = Some r" "i \<notin> att_id ` set rs" by (auto simp: m' ran_def restrict_map_def split: if_splits)
    then have "att_id r = i" using amap_ok [OF assms(3)] by blast
    then show "r \<in> ran ?m \<and> r \<notin> set rs" using i by (auto intro: ranI)
  next
    assume r: "r \<in> ran ?m \<and> r \<notin> set rs"
    have "q = r" if "q \<in> set rs" "att_id q = att_id r" for q
      by (rule same) (use that rs(3) r in simp_all)
    then have "att_id r \<notin> att_id ` set rs" using r by (metis imageE)
    then have "amap (as_store st') (att_id r) = Some r" using id r by (simp add: m')
    then show "r \<in> ran (amap (as_store st'))" by (rule ranI)
  qed
  then show "ran (amap (as_store st')) = {r \<in> ran ?m. \<not> created r < cutoff}" using rs(3) by auto
  assume r: "r \<in> ran ?m"
  have "att_storage_path r \<in> att_storage_path ` set rs \<longleftrightarrow> r \<in> set rs"
  proof
    assume "att_storage_path r \<in> att_storage_path ` set rs"
    then obtain q where q: "q \<in> set rs" "att_storage_path q = att_storage_path r" by auto
    then have "q \<in> ran ?m" using rs(3) by blast
    then have "att_id q = att_id r" using q(2) bspec [OF assms(5), of q] bspec [OF assms(5) r] by (simp add: stored_ok_def)
    then show "r \<in> set rs" using same [OF \<open>q \<in> ran ?m\<close> r] q(1) by simp
  qed simp
  moreover have "blob_key (att_storage_path r)" using r assms(5) by (simp add: stored_ok_def)
  ultimately show "content (as_blobs st') (att_storage_path r) = (if created r < cutoff then None else content (as_blobs st) (att_storage_path r))"
    using L r rs(3) by simp
qed

end

section \<open>Properties\<close>

lemma sql_attachment_store:
  "ops \<in> {sqlite_attachment_ops, pg_attachment_ops} \<Longrightarrow> attachment_store ops table_att_invar table_att_map"
  using sqlite_att.attachment_store_axioms pg_att.attachment_store_axioms by auto


text \<open>
  An upload that is stored passed every check: its file name is a single path component, its declared type is the
  type of the image that the bytes decode to, its size and its pixels are within the limits, and the configured
  scanner accepted exactly these bytes.\<close>

lemma upload_checked:
  assumes "upload image_open sha uid now sv identity filename content_type data st = (Inr r, st')"
  shows "filename_ok filename \<and> data \<noteq> [] \<and> int (length data) \<le> sv_max_bytes sv \<and> sv_scan sv data content_type = Inr () \<and>
    (\<exists>fmt ext w h. image_open data = ImageInfo fmt w h \<and> (fmt, content_type, ext) \<in> set allowed_image_types \<and>
       1 \<le> w \<and> 1 \<le> h \<and> w * h \<le> sv_max_pixels sv)"
proof -
  obtain info where c: "check_upload image_open sv identity filename content_type data = Inr info"
    using assms by (auto simp: upload_def split: sum.splits)
  obtain fmt ext w h where "info = (fmt, ext, w, h)" by (cases info)
  with check_upload_Inr(6) [OF c] have i: "check_image image_open sv content_type data = Inr (fmt, ext, w, h)" by simp
  show ?thesis
    using check_upload_Inr(2-5) [OF c] check_image_Inr(1,3-5) [OF i] map_of_SomeD [OF check_image_Inr(2) [OF i]] by blast
qed

text \<open>
  C25. A failed upload leaves no trace in the metadata, and in the blob store it can have touched only the key of its
  own fresh identifier.\<close>

theorem failed_upload_clean:
  assumes "sv_store sv \<in> {sqlite_attachment_ops, pg_attachment_ops}" "blob_laws (sv_blobs sv) content"
    and "hex_text 64 (att_scope_key sha identity)" "hex_text 32 uid"
    and "upload image_open sha uid now sv identity filename content_type data st = (Inl e, st')"
  shows "as_store st' = as_store st \<and>
    (\<forall>k. blob_key k \<and> path_id k \<noteq> uid \<longrightarrow> content (as_blobs st') k = content (as_blobs st) k)"
  using attachment_store.upload_Inl [OF sql_attachment_store [OF assms(1)] refl assms(2-5)] by blast

text \<open>
  C20. Scope isolation: a listing gives exactly the records of the caller's workspace, tenant and user; a record or
  content that is returned belongs to that scope and the content matches its recorded digest and size; and a
  deletion, whatever its outcome, leaves the records of every other scope as they were.\<close>

theorem attachment_scope_isolation:
  assumes "sv_store sv \<in> {sqlite_attachment_ops, pg_attachment_ops}" "table_att_invar (as_store st)"
  shows "(\<forall>rs. attachment_list sv identity st = Inr rs \<longrightarrow>
      set rs = {r \<in> set (as_store st). record_scope r = identity_scope identity}) \<and>
    (\<forall>r. attachment_metadata sv identity i st = Inr r \<longrightarrow>
      r \<in> set (as_store st) \<and> att_id r = i \<and> record_scope r = identity_scope identity) \<and>
    (\<forall>r data. read_content sha sv identity i st = Inr (r, data) \<longrightarrow>
      record_scope r = identity_scope identity \<and> sha data = att_sha256 r \<and> int (length data) = att_size_bytes r) \<and>
    (\<forall>res st'. delete_attachment sv identity i st = (res, st') \<longrightarrow>
      {r \<in> set (as_store st'). record_scope r \<noteq> identity_scope identity} =
      {r \<in> set (as_store st). record_scope r \<noteq> identity_scope identity})"
proof -
  have L: "attachment_store (sv_store sv) table_att_invar table_att_map" using sql_attachment_store [OF assms(1)] .
  note ran = ran_table_att_map [OF assms(2)] and S = attachment_store.scoped_record_iff [OF L refl assms(2)]
  have mem: "table_att_map (as_store st) j = Some r \<longleftrightarrow> r \<in> set (as_store st) \<and> att_id r = j" for j r
    using assms(2) by (intro table_att_map_Some) (simp add: table_att_invar_def)
  show ?thesis
  proof (intro conjI allI impI)
    fix rs assume "attachment_list sv identity st = Inr rs"
    then show "set rs = {r \<in> set (as_store st). record_scope r = identity_scope identity}"
      using attachment_store.list_set [OF L assms(2), of "identity_scope identity"] ran
      by (simp add: attachment_list_def split: sum.splits)
  next
    fix r assume "attachment_metadata sv identity i st = Inr r"
    then show "r \<in> set (as_store st)" "att_id r = i" "record_scope r = identity_scope identity"
      using S mem by (auto simp: attachment_metadata_def)
  next
    fix r data assume "read_content sha sv identity i st = Inr (r, data)"
    then show "record_scope r = identity_scope identity" "sha data = att_sha256 r" "int (length data) = att_size_bytes r"
      using S by (auto simp: read_content_def split: sum.splits blob_error.splits if_splits)
  next
    fix res st' assume d: "delete_attachment sv identity i st = (res, st')"
    note D = attachment_store.delete_attachment_effect [OF L refl assms(2) d]
    have "set (as_store st') = set (as_store st) \<or> (\<exists>r. table_att_map (as_store st) i = Some r \<and>
        record_scope r = identity_scope identity \<and> set (as_store st') = ran ((table_att_map (as_store st))(i := None)))"
      using D(2) ran ran_table_att_map [OF D(1)] by metis
    moreover have "x = r" if "r \<in> set (as_store st)" "x \<in> set (as_store st)" "att_id x = att_id r" for x r
      using that mem by (metis option.inject)
    ultimately show "{r \<in> set (as_store st'). record_scope r \<noteq> identity_scope identity} =
        {r \<in> set (as_store st). record_scope r \<noteq> identity_scope identity}"
      by (auto simp: ran_def mem split: if_splits)
  qed
qed

text \<open>
  C22. The purge removes exactly what has expired: when it returns, the records it reports are those created before the
  cutoff, the others are kept, and the content of a record is gone exactly when the record expired.\<close>

theorem purge_removes_exactly_expired:
  assumes "sv_store sv \<in> {sqlite_attachment_ops, pg_attachment_ops}" "blob_laws (sv_blobs sv) content"
    and "table_att_invar (as_store st)" "\<forall>r\<in>set (as_store st). stored_ok r" "0 < retention_seconds sv"
    and "purge_expired sv now st = (Inr gone, st')" "cutoff = now - retention_seconds sv * 1000000"
  shows "set gone = {r \<in> set (as_store st). created r < cutoff} \<and>
    set (as_store st') = {r \<in> set (as_store st). \<not> created r < cutoff} \<and>
    (\<forall>r\<in>set (as_store st). content (as_blobs st') (att_storage_path r) =
       (if created r < cutoff then None else content (as_blobs st) (att_storage_path r)))"
proof -
  have L: "attachment_store (sv_store sv) table_att_invar table_att_map" using sql_attachment_store [OF assms(1)] .
  note ran = ran_table_att_map [OF assms(3)]
  have ok: "\<forall>r\<in>ran (table_att_map (as_store st)). stored_ok r" using assms(4) ran by simp
  note P = attachment_store.purge_expired_Inr [OF L refl assms(2,3,5) ok assms(7,6)]
  have "table_att_invar (as_store st')"
    using attachment_store.purge_expired_invar [OF L refl assms(3,6)] .
  then show ?thesis using P ran by (simp add: ran_table_att_map)
qed

section \<open>Witnesses\<close>

text \<open>A service over the PostgreSQL table and the dictionary file system, an image of one pixel and a constant digest.\<close>

definition demo_digest :: string where "demo_digest = replicate 64 CHR ''0''"
definition demo_uid :: string where "demo_uid = replicate 32 CHR ''a''"

definition demo_att_service :: "(attachment_table, (path, string) dict) attachment_service" where
  "demo_att_service = \<lparr>sv_store = pg_attachment_ops, sv_blobs = filesystem_blob_ops toy_fs [''srv''] ''h'', sv_scan = noop_scan,
     sv_scanner_id = ''disabled'', sv_max_bytes = 10, sv_max_pixels = 10, sv_retention_days = 1\<rparr>"

definition demo_att_state :: "(attachment_table, (path, string) dict) attachment_state" where
  "demo_att_state = \<lparr>as_store = [], as_blobs = []\<rparr>"

definition demo_att_identity :: identity_context where
  "demo_att_identity = \<lparr>user_id = ''u1'', workspace_id = ''w1'', tenant_id = ''t1'', role = ''support''\<rparr>"

definition demo_image :: "string \<Rightarrow> image_outcome" where
  "demo_image data = (if data = ''png'' then ImageInfo ''PNG'' 1 1 else ImageRejected)"

lemma demo_att_simps:
  "sv_store demo_att_service \<in> {sqlite_attachment_ops, pg_attachment_ops}" "table_att_invar (as_store demo_att_state)"
  "hex_text 64 (att_scope_key (\<lambda>_. demo_digest) demo_att_identity)" "hex_text 32 demo_uid" "valid_instant 0"
  by (auto simp: demo_att_service_def table_att_invar_def demo_att_state_def hex_text_def att_scope_key_def demo_digest_def demo_uid_def
      list_all_iff is_digit_def code_def valid_instant_def day_us_def)

lemma demo_blob_laws: "blob_laws (sv_blobs demo_att_service) (fs_content map_of [''srv''])"
  using filesystem_blob_laws [OF toy_fs_frame toy_fs_works] by (simp add: demo_att_service_def)

lemma demo_check: "check_upload demo_image demo_att_service demo_att_identity ''x.png'' ''image/png'' ''png'' = Inr (''PNG'', ''.png'', 1, 1)"
  by code_simp

definition demo_uploaded :: attachment_record where
  "demo_uploaded = upload_record (\<lambda>_. demo_digest) demo_uid 0 demo_att_identity ''x.png'' ''image/png'' ''png'' (''PNG'', ''.png'', 1, 1)"

lemma demo_uploaded_ok: "stored_ok demo_uploaded" "stamped demo_uploaded" "created demo_uploaded = 0"
proof -
  show "stored_ok demo_uploaded"
    unfolding demo_uploaded_def by (rule upload_record_stored [OF demo_check demo_att_simps(3,4)])
  show "stamped demo_uploaded" "created demo_uploaded = 0"
    using demo_att_simps(5) parse_timestamp_iso [of 0] by (auto simp: stamped_def demo_uploaded_def created_def)
qed

lemma demo_put:
  "fst (bo_put (sv_blobs demo_att_service) (att_storage_path demo_uploaded) ''png'' ''image/png'' []) = Inr ()"
proof -
  have "blob_path toy_fs [''srv''] (att_storage_path demo_uploaded) [] = Inr ([''srv''] @ split_on CHR ''/'' (att_storage_path demo_uploaded))"
    using blob_path_key [OF toy_fs_works] demo_uploaded_ok(1) by (simp add: stored_ok_def)
  then show ?thesis
    by (simp add: demo_att_service_def filesystem_blob_ops_def fs_blob_put_def toy_fs_def Let_def)
qed

lemma demo_upload:
  "\<exists>st'. upload demo_image (\<lambda>_. demo_digest) demo_uid 0 demo_att_service demo_att_identity ''x.png'' ''image/png'' ''png'' demo_att_state =
     (Inr demo_uploaded, st')"
proof -
  obtain b where p: "bo_put (sv_blobs demo_att_service) (att_storage_path demo_uploaded) ''png'' ''image/png'' [] = (Inr (), b)"
    using demo_put by (metis prod.collapse)
  have "ao_create (sv_store demo_att_service) demo_uploaded [] = Inr [demo_uploaded]"
    by (simp add: demo_att_service_def pg_attachment_ops_def pg_att_create_def unique_violation_def integers_fit_def
        demo_uploaded_def upload_record_def)
  moreover have "att_content_type demo_uploaded = ''image/png''" by (simp add: demo_uploaded_def)
  ultimately show ?thesis
    using p by (simp add: upload_def demo_check upload_store_def demo_att_state_def flip: demo_uploaded_def)
qed


lemma upload_checked_witness:
  "filename_ok ''x.png'' \<and> sv_scan demo_att_service ''png'' ''image/png'' = Inr ()"
  using demo_upload upload_checked by blast

theorem failed_upload_clean_witness:
  "\<exists>st'. upload demo_image (\<lambda>_. demo_digest) demo_uid 0 demo_att_service demo_att_identity ''../x'' ''image/png'' ''png'' demo_att_state =
     (Inl (AttachmentError ''filename must be a single safe path component''), st') \<and> as_store st' = []"
proof -
  have "check_upload demo_image demo_att_service demo_att_identity ''../x'' ''image/png'' ''png'' =
      Inl (AttachmentError ''filename must be a single safe path component'')" by code_simp
  then have u: "upload demo_image (\<lambda>_. demo_digest) demo_uid 0 demo_att_service demo_att_identity ''../x'' ''image/png'' ''png'' demo_att_state =
     (Inl (AttachmentError ''filename must be a single safe path component''), demo_att_state)" by (simp add: upload_def)
  have kept: "as_store demo_att_state = as_store demo_att_state"
    by (rule conjunct1 [OF failed_upload_clean [OF demo_att_simps(1) demo_blob_laws demo_att_simps(3,4) u]])
  have "as_store demo_att_state = []" by (simp add: demo_att_state_def)
  with u show ?thesis by (intro exI conjI) (assumption, rule trans [OF kept])
qed

definition demo_full_state :: "(attachment_table, (path, string) dict) attachment_state" where
  "demo_full_state = \<lparr>as_store = [demo_uploaded], as_blobs = []\<rparr>"

lemma demo_full_invar: "table_att_invar (as_store demo_full_state)"
  using demo_uploaded_ok by (simp add: demo_full_state_def table_att_invar_def)

theorem attachment_scope_isolation_witness:
  "attachment_list demo_att_service demo_att_identity demo_full_state = Inr [demo_uploaded] \<and>
   record_scope demo_uploaded = identity_scope demo_att_identity"
proof -
  have s: "record_scope demo_uploaded = identity_scope demo_att_identity" by (simp add: demo_uploaded_def)
  have v: "validate_identity demo_att_identity = Inr ()" by code_simp
  have m: "attachment_metadata demo_att_service demo_att_identity demo_uid demo_full_state = Inr demo_uploaded"
    using s v by (simp add: attachment_metadata_def scoped_record_def demo_att_service_def pg_attachment_ops_def pg_att_get_def
        demo_full_state_def) (simp add: demo_uploaded_def)
  have "record_scope demo_uploaded = identity_scope demo_att_identity"
    using attachment_scope_isolation [OF demo_att_simps(1) demo_full_invar] m by blast
  then show ?thesis using v
    by (simp add: attachment_list_def demo_att_service_def pg_attachment_ops_def pg_att_list_def demo_full_state_def)
qed

theorem purge_removes_exactly_expired_witness:
  "\<exists>st'. purge_expired demo_att_service (2 * day_us) demo_full_state = (Inr [demo_uploaded], st') \<and> as_store st' = [] \<and>
     set [demo_uploaded] = {q \<in> set (as_store demo_full_state). created q < 2 * day_us - 86400 * 1000000}"
proof -
  have r: "retention_seconds demo_att_service = 86400" by (simp add: retention_seconds_def demo_att_service_def)
  have v: "valid_instant (2 * day_us - 86400 * 1000000)" by (simp add: valid_instant_def day_us_def)
  have "att_created_at demo_uploaded < iso_utc (2 * day_us - 86400 * 1000000)"
    using text_before [OF demo_uploaded_ok(2) v] demo_uploaded_ok(3) by (simp add: day_us_def)
  then have l: "ao_list_before (sv_store demo_att_service) (2 * day_us - 86400 * 1000000) [demo_uploaded] = Inr [demo_uploaded]"
    by (simp add: demo_att_service_def pg_attachment_ops_def pg_att_list_before_def)
  have k: "blob_path toy_fs [''srv''] (att_storage_path demo_uploaded) [] = Inr ([''srv''] @ split_on CHR ''/'' (att_storage_path demo_uploaded))"
    using blob_path_key [OF toy_fs_works] demo_uploaded_ok(1) by (simp add: stored_ok_def)
  then have d: "bo_delete (sv_blobs demo_att_service) (att_storage_path demo_uploaded) [] = (Inr (), [])"
    by (simp add: demo_att_service_def filesystem_blob_ops_def fs_blob_delete_def toy_fs_def)
  have "pg_att_delete (att_id demo_uploaded) (record_scope demo_uploaded) [demo_uploaded] = (Some demo_uploaded, [])"
    by (simp add: pg_att_delete_def pg_att_get_def)
  then have p: "purge_expired demo_att_service (2 * day_us) demo_full_state = (Inr [demo_uploaded], \<lparr>as_store = [], as_blobs = []\<rparr>)"
    using v l d by (simp add: purge_expired_def r Let_def demo_full_state_def)
      (simp add: demo_att_service_def pg_attachment_ops_def)
  have "set [demo_uploaded] = {q \<in> set (as_store demo_full_state). created q < 2 * day_us - retention_seconds demo_att_service * 1000000}"
    by (rule conjunct1 [OF purge_removes_exactly_expired [OF demo_att_simps(1) demo_blob_laws demo_full_invar _ _ p refl]])
      (use demo_uploaded_ok(1) r in \<open>simp_all add: demo_full_state_def\<close>)
  then have "set [demo_uploaded] = {q \<in> set (as_store demo_full_state). created q < 2 * day_us - 86400 * 1000000}"
    unfolding r .
  with p show ?thesis by (intro exI conjI) (assumption, rule attachment_state.simps(1), assumption)
qed

end
