(* ===== verification/Metrics_Registry.thy ===== *)
theory Metrics_Registry
  imports Py_Json "HOL-Library.Product_Lexorder"
begin

text \<open>
  The counters of \<^verbatim>\<open>packages/observability/metrics.py\<close> and their text exposition. The registry maps a metric name with
  its sorted labels to a count.
\<close>

type_synonym metric_key = "string \<times> (string \<times> string) list"
type_synonym metrics = "(metric_key, int) dict"

definition metrics_init :: metrics where
  "metrics_init = []"

definition name_start :: "char \<Rightarrow> bool" where
  "name_start c \<longleftrightarrow> is_lower c \<or> is_upper c \<or> c = CHR ''_''"

definition safe_metric_name :: "string \<Rightarrow> bool" where
  "safe_metric_name s \<longleftrightarrow>
     (case s of [] \<Rightarrow> False | c # cs \<Rightarrow> (name_start c \<or> c = CHR '':'') \<and> list_all (\<lambda>x. name_start x \<or> is_digit x \<or> x = CHR '':'') cs)"

definition safe_label :: "string \<Rightarrow> bool" where
  "safe_label s \<longleftrightarrow> (case s of [] \<Rightarrow> False | c # cs \<Rightarrow> name_start c \<and> list_all (\<lambda>x. name_start x \<or> is_digit x) cs)"

definition increment :: "string \<Rightarrow> (string, string) dict \<Rightarrow> int \<Rightarrow> metrics \<Rightarrow> (string, metrics) result" where
  "increment name labels value m =
     (if \<not> safe_metric_name name \<or> value < 1 then Inl ''metric name and value are invalid''
      else if \<not> list_all (\<lambda>(k, v). safe_label k \<and> length v \<le> 100) labels then Inl ''metric label is invalid''
      else let key = (name, sort labels)
           in Inr (AList.update key ((case map_of m key of None \<Rightarrow> 0 | Some n \<Rightarrow> n) + value) m))"

definition escape_label :: "string \<Rightarrow> string" where
  "escape_label s = concat (map (\<lambda>c. if c = CHR 92 then [CHR 92, CHR 92] else if c = CHR 34 then [CHR 92, CHR 34] else [c]) s)"

definition metric_line :: "metric_key \<times> int \<Rightarrow> string" where
  "metric_line entry =
     (case entry of ((name, labels), value) \<Rightarrow>
        let rendered = join '','' (map (\<lambda>(k, v). k @ ''='' @ [CHR 34] @ escape_label v @ [CHR 34]) labels)
        in if rendered \<noteq> [] then name @ ''{'' @ rendered @ ''} '' @ int_str value else name @ '' '' @ int_str value)"

definition prometheus :: "metrics \<Rightarrow> string" where
  "prometheus m = concat (map (\<lambda>e. metric_line e @ [CHR 10]) (sort m))"

section \<open>Lemmas\<close>

text \<open>An accepted increment raises its own counter by the value and changes no other; a refused one changes nothing.\<close>

lemma increment_effect:
  assumes "increment name labels value m = Inr m'"
  shows "map_of m' (name, sort labels) = Some ((case map_of m (name, sort labels) of None \<Rightarrow> 0 | Some n \<Rightarrow> n) + value)"
    "key \<noteq> (name, sort labels) \<Longrightarrow> map_of m' key = map_of m key" "1 \<le> value"
  using assms by (auto simp: increment_def Let_def split: if_splits)

lemma increment_no_labels: "safe_metric_name name \<Longrightarrow> \<exists>m'. increment name [] 1 m = Inr m'"
  by (simp add: increment_def Let_def)

lemma increment_one_label:
  "safe_metric_name name \<Longrightarrow> safe_label k \<Longrightarrow> length v \<le> 100 \<Longrightarrow> \<exists>m'. increment name [(k, v)] 1 m = Inr m'"
  by (simp add: increment_def Let_def)

end
