(* ===== verification/Api_Handlers.thy ===== *)
theory Api_Handlers
  imports Run_Service Approval_Service Claims_Auth Rate_Limits Attachment_Service Model_Providers Metrics_Registry
begin

text \<open>
  The HTTP surface of \<^verbatim>\<open>services/api/app.py\<close>: authentication of a request, one definition per route handler, the
  two middlewares, and the checks that \<^verbatim>\<open>create_app\<close> makes on its configuration. A handler is a function of the
  configuration, of what the request reads from its environment (clocks, identifiers, the outcome of image decoding)
  and of the application state; it returns the reply and the new state. An \<^verbatim>\<open>HTTPException\<close> is the reply \<open>HttpError\<close>,
  an exception that no handler catches is \<open>ServerError\<close>, which the framework answers with status 500. Request bodies
  arrive validated; the field constraints of the body models are the predicates \<open>run_request_ok\<close> and so on.
\<close>

section \<open>Replies, configuration and state\<close>

datatype reply =
    Json nat pyval "(string, string) dict"
  | Content nat string string "(string, string) dict"
  | HttpError nat string "(string, string) dict"
  | ServerError string

record app_auth =
  aa_mode :: string
  aa_bearer_token :: "string option"
  aa_jwt :: "hs256_authenticator option"
  aa_oidc :: "jwks_config option"
  aa_platform_env :: string

record ('r, 'p, 's, 'b, 'l) api_config =
  ac_auth :: app_auth
  ac_provider_mode :: string
  ac_storage_mode :: string
  ac_runtime :: agent_runtime
  ac_definitions :: "(string, tool_definition) dict"
  ac_run_ops :: "'r run_ops option"
  ac_approvals :: "'p approval_ops option"
  ac_attachments :: "('s, 'b) attachment_service option"
  ac_object_storage :: string
  ac_vision :: "vision_provider option option"
  ac_upload_check :: "rat \<Rightarrow> string \<Rightarrow> 'l \<Rightarrow> (bool \<times> int) \<times> 'l"
  ac_analysis_check :: "rat \<Rightarrow> string \<Rightarrow> 'l \<Rightarrow> (bool \<times> int) \<times> 'l"
  ac_rate_limit_mode :: string
  ac_exporter :: "exporter option"

record ('r, 'p, 's, 'b, 'l) api_state =
  st_service :: "'r run_service"
  st_approvals :: 'p
  st_attachments :: "('s, 'b) attachment_state"
  st_limits :: 'l
  st_metrics :: metrics
  st_jwks :: jwks_state

text \<open>What one request reads: the headers, the identifiers the middleware set, and the environments of the components.\<close>

record api_request =
  rq_authorization :: "string option"
  rq_user_id :: "string option"
  rq_workspace_id :: "string option"
  rq_tenant_id :: "string option"
  rq_role :: "string option"
  rq_request_id :: string
  rq_trace_id :: string
  rq_event_uuid :: string
  rq_utc :: string
  rq_auth :: auth_env
  rq_hmac :: "string \<Rightarrow> string \<Rightarrow> string"
  rq_time :: rat
  rq_monotonic :: rat
  rq_call :: call_env
  rq_approval :: approval_env
  rq_sha256 :: "string \<Rightarrow> string"
  rq_image_open :: "string \<Rightarrow> image_outcome"
  rq_upload_uuid :: string
  rq_now :: instant
  rq_gateway_health :: "(string, string) dict"
  rq_model_health :: "(string, string) dict"

abbreviation st_audit :: "('r, 'p, 's, 'b, 'l) api_state \<Rightarrow> audit_log" where
  "st_audit st \<equiv> rs_audit (st_service st)"

definition set_audit :: "audit_log \<Rightarrow> ('r, 'p, 's, 'b, 'l) api_state \<Rightarrow> ('r, 'p, 's, 'b, 'l) api_state" where
  "set_audit a st = st\<lparr>st_service := (st_service st)\<lparr>rs_audit := a\<rparr>\<rparr>"

text \<open>\<^verbatim>\<open>{**d, **e}\<close>: a key of \<open>e\<close> replaces the value of the same key in \<open>d\<close>.\<close>

definition merge :: "pydict \<Rightarrow> pydict \<Rightarrow> pydict" where
  "merge d e = fold (\<lambda>(k, v). AList.update k v) e d"

section \<open>Request bodies\<close>

definition bounded :: "nat \<Rightarrow> nat \<Rightarrow> string option \<Rightarrow> bool" where
  "bounded lo hi x = (case x of None \<Rightarrow> True | Some s \<Rightarrow> lo \<le> length s \<and> length s \<le> hi)"

definition run_request_ok :: "run_request \<Rightarrow> bool" where
  "run_request_ok r \<longleftrightarrow> bounded 1 4000 (Some (rq_query r)) \<and> bounded 1 128 (rq_order_id r)"

record analysis_request =
  an_task :: string
  an_allow_external_processing :: bool
  an_prompt :: "string option"

definition analysis_request_ok :: "analysis_request \<Rightarrow> bool" where
  "analysis_request_ok r \<longleftrightarrow> an_task r \<in> {''describe'', ''ocr''} \<and> bounded 0 2000 (an_prompt r)"

record approval_create_request =
  acr_tool_name :: string
  acr_arguments :: pydict
  acr_idempotency_key :: "string option"
  acr_ttl_seconds :: int

definition approval_create_request_ok :: "approval_create_request \<Rightarrow> bool" where
  "approval_create_request_ok r \<longleftrightarrow> bounded 1 256 (Some (acr_tool_name r)) \<and> bounded 1 200 (acr_idempotency_key r) \<and>
     60 \<le> acr_ttl_seconds r \<and> acr_ttl_seconds r \<le> 86400"

section \<open>Payloads and events\<close>

definition run_payload :: "run_result \<Rightarrow> pyval" where
  "run_payload r =
     VDict [(''status'', VStr (run_status_value (rr_status r))), (''run_id'', VStr (rr_run_id r)),
       (''trace_id'', VStr (rr_trace_id r)), (''agent_id'', VStr (rr_agent_id r)), (''message'', VStr (rr_message r)),
       (''source_id'', str_or_none (rr_source_id r)), (''observed_at'', str_or_none (rr_observed_at r)),
       (''external_ref'', str_or_none (rr_external_ref r))]"

definition attachment_payload :: "attachment_record \<Rightarrow> pydict" where
  "attachment_payload r =
     [(''id'', VStr (att_id r)), (''filename'', VStr (att_filename r)), (''content_type'', VStr (att_content_type r)),
      (''image_format'', VStr (att_image_format r)), (''size_bytes'', VInt (att_size_bytes r)),
      (''sha256'', VStr (att_sha256 r)), (''width'', VInt (att_width r)), (''height'', VInt (att_height r)),
      (''created_at'', VStr (att_created_at r)),
      (''content_url'', VStr (''/api/v1/attachments/'' @ att_id r @ ''/content''))]"

definition record_attachment_event ::
    "api_request \<Rightarrow> string \<Rightarrow> identity_context \<Rightarrow> string \<Rightarrow> pydict \<Rightarrow> string option \<Rightarrow>
     ('r, 'p, 's, 'b, 'l) api_state \<Rightarrow> ('r, 'p, 's, 'b, 'l) api_state" where
  "record_attachment_event rq event_type identity attachment_id payload request_id st =
     set_audit (audit_append
       \<lparr>ev_type = event_type,
        ev_request_id = or_default request_id (''attachment-request-'' @ rq_event_uuid rq),
        ev_trace_id = ''attachment-trace-'' @ rq_event_uuid rq, ev_run_id = ''attachment-'' @ attachment_id,
        ev_workspace_id = workspace_id identity, ev_agent_id = ''web-console'',
        ev_payload = merge [(''attachment_id'', VStr attachment_id), (''tenant_id'', VStr (tenant_id identity))] payload,
        ev_created_at = rq_utc rq\<rparr> (st_audit st)) st"

definition record_approval_event ::
    "api_request \<Rightarrow> string \<Rightarrow> identity_context \<Rightarrow> string \<Rightarrow> pydict \<Rightarrow> string option \<Rightarrow>
     ('r, 'p, 's, 'b, 'l) api_state \<Rightarrow> ('r, 'p, 's, 'b, 'l) api_state" where
  "record_approval_event rq event_type identity approval_id payload request_id st =
     set_audit (audit_append
       \<lparr>ev_type = event_type,
        ev_request_id = or_default request_id (''approval-request-'' @ rq_event_uuid rq),
        ev_trace_id = ''approval-trace-'' @ rq_event_uuid rq, ev_run_id = ''approval-'' @ approval_id,
        ev_workspace_id = workspace_id identity, ev_agent_id = ''approval-service'',
        ev_payload = merge [(''approval_id'', VStr approval_id), (''tenant_id'', VStr (tenant_id identity))] payload,
        ev_created_at = rq_utc rq\<rparr> (st_audit st)) st"

text \<open>\<^verbatim>\<open>metrics_registry.increment(...)\<close> before a reply: an invalid metric would raise.\<close>

definition counted ::
    "string \<Rightarrow> (string, string) dict \<Rightarrow> reply \<times> ('r, 'p, 's, 'b, 'l) api_state \<Rightarrow> reply \<times> ('r, 'p, 's, 'b, 'l) api_state" where
  "counted name labels out =
     (case increment name labels 1 (st_metrics (snd out)) of
        Inl _ \<Rightarrow> (ServerError ''ValueError'', snd out)
      | Inr m \<Rightarrow> (fst out, (snd out)\<lparr>st_metrics := m\<rparr>))"

section \<open>Authentication\<close>

text \<open>
  The authentication part of \<^verbatim>\<open>create_app\<close>. An error is the \<^verbatim>\<open>ValueError\<close> raised by the function or by the constructor of
  the authenticator. \<open>env_platform\<close> is \<^verbatim>\<open>os.getenv("AGENT_PLATFORM_ENV", "development")\<close>.
\<close>

definition secured_env :: "string \<Rightarrow> bool" where
  "secured_env e \<longleftrightarrow> e \<in> {''staging'', ''production''}"

record auth_options =
  ao_bearer_token :: "string option"
  ao_jwt_secret :: "string option"
  ao_jwt_issuer :: "string option"
  ao_jwt_audience :: "string option"
  ao_oidc_issuer :: "string option"
  ao_oidc_audience :: "string option"
  ao_oidc_jwks_uri :: "string option"
  ao_oidc_allowed_hosts :: "string list"

definition text_or_empty :: "string option \<Rightarrow> string" where
  "text_or_empty x = or_default x []"

definition create_app_auth ::
    "auth_env \<Rightarrow> string \<Rightarrow> auth_options \<Rightarrow> string option \<Rightarrow> string \<Rightarrow> (string, app_auth \<times> jwks_state option) result" where
  "create_app_auth env mode opts platform_env env_platform =
     (if mode \<notin> {''bearer'', ''headers'', ''jwt_hs256'', ''oidc_jwks''}
      then Inl ''auth_mode must be bearer, jwt_hs256, oidc_jwks or headers''
      else let resolved = lower (or_default platform_env env_platform) in
        if secured_env resolved \<and> mode \<notin> {''jwt_hs256'', ''oidc_jwks''}
        then Inl ''staging and production require jwt_hs256 or oidc_jwks authentication''
        else let a = \<lparr>aa_mode = mode, aa_bearer_token = ao_bearer_token opts, aa_jwt = None, aa_oidc = None,
               aa_platform_env = resolved\<rparr> in
          if mode = ''jwt_hs256''
          then (case hs256_init (text_or_empty (ao_jwt_secret opts)) (ao_jwt_issuer opts) (ao_jwt_audience opts) of
              Inl e \<Rightarrow> Inl e
            | Inr j \<Rightarrow> Inr (a\<lparr>aa_jwt := Some j\<rparr>, None))
          else if mode = ''oidc_jwks''
          then (case jwks_init env (text_or_empty (ao_oidc_issuer opts)) (ao_oidc_audience opts) (ao_oidc_allowed_hosts opts)
                  (ao_oidc_jwks_uri opts) 5 300 default_claim_names None of
              Inl e \<Rightarrow> Inl e
            | Inr (c, js) \<Rightarrow> Inr (a\<lparr>aa_oidc := Some c\<rparr>, Some js))
          else Inr (a, None))"

definition header_identity :: "api_request \<Rightarrow> (reply, identity_context) result" where
  "header_identity rq =
     (case (rq_user_id rq, rq_workspace_id rq, rq_tenant_id rq, rq_role rq) of
        (Some u, Some w, Some t, Some r) \<Rightarrow>
          if blank u \<or> blank w \<or> blank t \<or> blank r
          then Inl (HttpError 401 ''authenticated identity and workspace scope are required'' [])
          else Inr \<lparr>user_id = u, workspace_id = w, tenant_id = t, role = r\<rparr>
      | _ \<Rightarrow> Inl (HttpError 401 ''authenticated identity and workspace scope are required'' []))"

definition auth_failed :: "string \<Rightarrow> auth_error \<Rightarrow> reply" where
  "auth_failed message e = (case e of AuthenticationError _ \<Rightarrow> HttpError 401 message [] | Uncaught x \<Rightarrow> ServerError x)"

text \<open>\<^verbatim>\<open>hmac.compare_digest\<close> on texts raises \<^verbatim>\<open>TypeError\<close> unless both are ASCII.\<close>

definition bearer_identity :: "app_auth \<Rightarrow> string option \<Rightarrow> (reply, identity_context) result" where
  "bearer_identity a authorization =
     (let token = text_or_empty (aa_bearer_token a); refused = HttpError 401 ''valid bearer authentication is required'' [] in
      if token = [] then Inl (HttpError 503 ''API bearer authentication is not configured'' [])
      else (case authorization of
          None \<Rightarrow> Inl refused
        | Some given \<Rightarrow>
            if \<not> ascii_text given \<or> \<not> ascii_text (''Bearer '' @ token) then Inl (ServerError ''TypeError'')
            else if given \<noteq> ''Bearer '' @ token then Inl refused
            else Inr \<lparr>user_id = ''demo-user'', workspace_id = ''demo-workspace'', tenant_id = ''demo-tenant'', role = ''customer''\<rparr>))"

definition request_identity :: "app_auth \<Rightarrow> api_request \<Rightarrow> jwks_state \<Rightarrow> (reply, identity_context) result \<times> jwks_state" where
  "request_identity a rq js =
     (if aa_mode a = ''headers'' then (header_identity rq, js)
      else if aa_mode a = ''jwt_hs256''
      then (case aa_jwt a of
          None \<Rightarrow> Inl (ServerError ''AttributeError'')
        | Some j \<Rightarrow> map_sum (auth_failed ''valid bearer authentication is required'') id
            (hs256_authenticate (ae_json_loads (rq_auth rq)) (rq_hmac rq) (rq_time rq) j (rq_authorization rq)), js)
      else if aa_mode a = ''oidc_jwks''
      then (case aa_oidc a of
          None \<Rightarrow> (Inl (ServerError ''AttributeError''), js)
        | Some c \<Rightarrow> (case jwks_authenticate (rq_auth rq) c js (rq_authorization rq) of
              (Inl e, js') \<Rightarrow> (Inl (auth_failed ''valid OIDC bearer authentication is required'' e), js')
            | (Inr i, js') \<Rightarrow> (Inr i, js')))
      else (bearer_identity a (rq_authorization rq), js))"

text \<open>\<^verbatim>\<open>Depends(request_identity)\<close>: the handler runs only with an identity.\<close>

definition authenticated ::
    "('r, 'p, 's, 'b, 'l) api_config \<Rightarrow> api_request \<Rightarrow>
     (identity_context \<Rightarrow> ('r, 'p, 's, 'b, 'l) api_state \<Rightarrow> reply \<times> ('r, 'p, 's, 'b, 'l) api_state) \<Rightarrow>
     ('r, 'p, 's, 'b, 'l) api_state \<Rightarrow> reply \<times> ('r, 'p, 's, 'b, 'l) api_state" where
  "authenticated cfg rq handler st =
     (case request_identity (ac_auth cfg) rq (st_jwks st) of
        (Inl reply, js) \<Rightarrow> (reply, st\<lparr>st_jwks := js\<rparr>)
      | (Inr identity, js) \<Rightarrow> handler identity (st\<lparr>st_jwks := js\<rparr>))"

section \<open>Runs\<close>

definition request_id_of :: "api_request \<Rightarrow> string option" where
  "request_id_of rq = Some (rq_request_id rq)"

definition api_create_run ::
    "('r, 'p, 's, 'b, 'l) api_config \<Rightarrow> api_request \<Rightarrow> run_request \<Rightarrow> string option \<Rightarrow> identity_context \<Rightarrow>
     ('r, 'p, 's, 'b, 'l) api_state \<Rightarrow> reply \<times> ('r, 'p, 's, 'b, 'l) api_state" where
  "api_create_run cfg rq request key identity st =
     (if (case key of None \<Rightarrow> False | Some k \<Rightarrow> blank k \<or> length k > 200)
      then (HttpError 422 ''Idempotency-Key must be 1-200 characters'' [], st)
      else (case execute (ac_run_ops cfg) (ac_runtime cfg) (rq_call rq) request identity key (request_id_of rq)
              (Some (rq_trace_id rq)) (st_service st) of
          (Inl e, s) \<Rightarrow> (ServerError e, st\<lparr>st_service := s\<rparr>)
        | (Inr result, s) \<Rightarrow> counted ''agent_runs_total'' [(''status'', run_status_value (rr_status result))]
            (Json (result_response result) (run_payload result) [], st\<lparr>st_service := s\<rparr>)))"

definition api_get_run ::
    "('r, 'p, 's, 'b, 'l) api_config \<Rightarrow> string \<Rightarrow> identity_context \<Rightarrow>
     ('r, 'p, 's, 'b, 'l) api_state \<Rightarrow> reply \<times> ('r, 'p, 's, 'b, 'l) api_state" where
  "api_get_run cfg run_id identity st =
     (case run_get (ac_run_ops cfg) run_id identity (st_service st) of
        (None, s) \<Rightarrow> (HttpError 404 ''run was not found'' [], st\<lparr>st_service := s\<rparr>)
      | (Some stored, s) \<Rightarrow> (Json 200 (run_payload (sr_result stored)) [], st\<lparr>st_service := s\<rparr>))"

definition event_payload :: "audit_event \<Rightarrow> pyval" where
  "event_payload e =
     VDict [(''event_type'', VStr (ev_type e)), (''request_id'', VStr (ev_request_id e)), (''trace_id'', VStr (ev_trace_id e)),
       (''run_id'', VStr (ev_run_id e)), (''workspace_id'', VStr (ev_workspace_id e)), (''agent_id'', VStr (ev_agent_id e)),
       (''payload'', VDict (ev_payload e)), (''created_at'', VStr (ev_created_at e))]"

definition api_get_events ::
    "('r, 'p, 's, 'b, 'l) api_config \<Rightarrow> string \<Rightarrow> identity_context \<Rightarrow>
     ('r, 'p, 's, 'b, 'l) api_state \<Rightarrow> reply \<times> ('r, 'p, 's, 'b, 'l) api_state" where
  "api_get_events cfg run_id identity st =
     (case run_get (ac_run_ops cfg) run_id identity (st_service st) of
        (None, s) \<Rightarrow> (HttpError 404 ''run was not found'' [], st\<lparr>st_service := s\<rparr>)
      | (Some stored, s) \<Rightarrow>
          (Json 200 (VDict [(''run_id'', VStr run_id), (''trace_id'', VStr (rr_trace_id (sr_result stored))),
             (''events'', VList (map event_payload
               (audit_list_events None (Some run_id) (Some (workspace_id identity)) (Some (tenant_id identity)) (rs_audit s))))]) [],
           st\<lparr>st_service := s\<rparr>))"

definition api_list_agents :: "identity_context \<Rightarrow> ('r, 'p, 's, 'b, 'l) api_state \<Rightarrow> reply \<times> ('r, 'p, 's, 'b, 'l) api_state" where
  "api_list_agents identity st =
     (Json 200 (VDict [(''agents'', VList [VDict [(''id'', VStr agent_id), (''version'', VStr ''0.2.0''),
        (''status'', VStr ''developer_preview''), (''skills'', VList [VStr ''order-status'']),
        (''tools'', VList [VStr tool_name])]])]) [], st)"

section \<open>Approvals\<close>

definition approvals_required ::
    "('r, 'p, 's, 'b, 'l) api_config \<Rightarrow> ('p approval_ops \<Rightarrow> reply \<times> ('r, 'p, 's, 'b, 'l) api_state) \<Rightarrow>
     ('r, 'p, 's, 'b, 'l) api_state \<Rightarrow> reply \<times> ('r, 'p, 's, 'b, 'l) api_state" where
  "approvals_required cfg body st =
     (case ac_approvals cfg of None \<Rightarrow> (HttpError 503 ''approval service is not configured'' [], st) | Some ops \<Rightarrow> body ops)"

text \<open>An exception of the approval service that the handler does not name: its class.\<close>

definition approval_uncaught :: "approval_error \<Rightarrow> reply" where
  "approval_uncaught e = ServerError (case e of ApprovalError _ \<Rightarrow> ''ApprovalError'' | ApprovalNotFound _ \<Rightarrow> ''ApprovalNotFound'' | PyError x \<Rightarrow> x)"

definition api_list_approvals ::
    "('r, 'p, 's, 'b, 'l) api_config \<Rightarrow> string option \<Rightarrow> identity_context \<Rightarrow>
     ('r, 'p, 's, 'b, 'l) api_state \<Rightarrow> reply \<times> ('r, 'p, 's, 'b, 'l) api_state" where
  "api_list_approvals cfg status identity st =
     approvals_required cfg (\<lambda>ops.
       if (case status of None \<Rightarrow> False | Some x \<Rightarrow> x \<notin> {PENDING, APPROVED, REJECTED, EXPIRED})
       then (HttpError 422 ''invalid approval status'' [], st)
       else (case approval_list ops identity status (st_approvals st) of
           Inl e \<Rightarrow> (approval_uncaught e, st)
         | Inr rs \<Rightarrow> (Json 200 (VDict [(''items'', VList (map (VDict \<circ> approval_as_dict) rs)),
             (''count'', VInt (int (length rs)))]) [], st))) st"

definition api_create_approval ::
    "('r, 'p, 's, 'b, 'l) api_config \<Rightarrow> api_request \<Rightarrow> approval_create_request \<Rightarrow> identity_context \<Rightarrow>
     ('r, 'p, 's, 'b, 'l) api_state \<Rightarrow> reply \<times> ('r, 'p, 's, 'b, 'l) api_state" where
  "api_create_approval cfg rq request identity st =
     approvals_required cfg (\<lambda>ops.
       case map_of (ac_definitions cfg) (acr_tool_name request) of
         None \<Rightarrow> (HttpError 404 ''tool is not registered'' [], st)
       | Some d \<Rightarrow>
           if td_risk d = READ then (HttpError 422 ''read operations do not require approval'' [], st)
           else let decision = authorize (art_policy (ac_runtime cfg)) identity (td_name d) None in
             if pd_outcome decision = ''deny''
             then (HttpError 403 ''the requester is not authorized for this tool'' [], st)
             else if pd_outcome decision \<noteq> ''approval_required''
             then (HttpError 422 ''the tool does not require an approval record'' [], st)
             else (case approval_request ops (rq_approval rq) identity (td_name d) (acr_arguments request) (td_risk d)
                     (acr_idempotency_key request) (acr_ttl_seconds request) (st_approvals st) of
                 (Inl (ApprovalError m), s) \<Rightarrow> (HttpError 422 m [], st\<lparr>st_approvals := s\<rparr>)
               | (Inl e, s) \<Rightarrow> (approval_uncaught e, st\<lparr>st_approvals := s\<rparr>)
               | (Inr r, s) \<Rightarrow>
                   (Json 201 (VDict (approval_as_dict r)) [],
                    record_approval_event rq ''approval.requested'' identity (ap_id r)
                      [(''tool'', VStr (ap_tool_name r)), (''risk'', VStr (risk_value (ap_risk r))),
                       (''arguments_hash'', VStr (ap_arguments_hash r))] (request_id_of rq) (st\<lparr>st_approvals := s\<rparr>)))) st"

text \<open>The \<^verbatim>\<open>except\<close> clauses shared by the two decisions.\<close>

definition decision_failed :: "approval_error \<Rightarrow> reply" where
  "decision_failed e =
     (case e of
        ApprovalNotFound _ \<Rightarrow> HttpError 404 ''approval was not found'' []
      | ApprovalError m \<Rightarrow> HttpError (if contains m ''only manager or admin'' then 403 else 409) m []
      | PyError x \<Rightarrow> ServerError x)"

definition api_approve ::
    "('r, 'p, 's, 'b, 'l) api_config \<Rightarrow> api_request \<Rightarrow> string \<Rightarrow> identity_context \<Rightarrow>
     ('r, 'p, 's, 'b, 'l) api_state \<Rightarrow> reply \<times> ('r, 'p, 's, 'b, 'l) api_state" where
  "api_approve cfg rq approval_id identity st =
     approvals_required cfg (\<lambda>ops.
       case approval_approve ops (rq_approval rq) identity approval_id (st_approvals st) of
         (Inl e, s) \<Rightarrow> (decision_failed e, st\<lparr>st_approvals := s\<rparr>)
       | (Inr (r, token), s) \<Rightarrow>
           (Json 200 (VDict (merge (approval_as_dict r) [(''approval_token'', VStr token)])) [(''Cache-Control'', ''private, no-store'')],
            record_approval_event rq ''approval.approved'' identity (ap_id r)
              [(''tool'', VStr (ap_tool_name r)), (''risk'', VStr (risk_value (ap_risk r)))] (request_id_of rq)
              (st\<lparr>st_approvals := s\<rparr>))) st"

definition api_reject ::
    "('r, 'p, 's, 'b, 'l) api_config \<Rightarrow> api_request \<Rightarrow> string \<Rightarrow> string option \<Rightarrow> identity_context \<Rightarrow>
     ('r, 'p, 's, 'b, 'l) api_state \<Rightarrow> reply \<times> ('r, 'p, 's, 'b, 'l) api_state" where
  "api_reject cfg rq approval_id reason identity st =
     approvals_required cfg (\<lambda>ops.
       case approval_reject ops (rq_approval rq) identity approval_id (st_approvals st) of
         (Inl e, s) \<Rightarrow> (decision_failed e, st\<lparr>st_approvals := s\<rparr>)
       | (Inr r, s) \<Rightarrow>
           (Json 200 (VDict (approval_as_dict r)) [],
            record_approval_event rq ''approval.rejected'' identity (ap_id r)
              [(''tool'', VStr (ap_tool_name r)), (''risk'', VStr (risk_value (ap_risk r))), (''reason'', str_or_none reason)]
              (request_id_of rq) (st\<lparr>st_approvals := s\<rparr>))) st"

section \<open>Attachments\<close>

definition attachments_required ::
    "('r, 'p, 's, 'b, 'l) api_config \<Rightarrow> (('s, 'b) attachment_service \<Rightarrow> reply \<times> ('r, 'p, 's, 'b, 'l) api_state) \<Rightarrow>
     ('r, 'p, 's, 'b, 'l) api_state \<Rightarrow> reply \<times> ('r, 'p, 's, 'b, 'l) api_state" where
  "attachments_required cfg body st =
     (case ac_attachments cfg of None \<Rightarrow> (HttpError 503 ''attachment storage is not configured'' [], st) | Some sv \<Rightarrow> body sv)"

definition attachment_uncaught :: "attachment_error \<Rightarrow> reply" where
  "attachment_uncaught e = ServerError (case e of AttachmentError _ \<Rightarrow> ''AttachmentError''
     | AttachmentNotFound _ \<Rightarrow> ''AttachmentNotFound'' | MalwareDetected _ \<Rightarrow> ''MalwareDetected''
     | MalwareScanUnavailable _ \<Rightarrow> ''MalwareScanUnavailable'' | AttachmentUncaught x \<Rightarrow> x)"

text \<open>
  The \<^verbatim>\<open>except\<close> clauses of the handlers that answer a missing attachment with 404 and any other error of the service with
  one status; the two scanner errors are subclasses of \<^verbatim>\<open>AttachmentError\<close>.
\<close>

definition attachment_failed :: "(string \<Rightarrow> reply) \<Rightarrow> attachment_error \<Rightarrow> reply" where
  "attachment_failed other e =
     (case e of
        AttachmentNotFound _ \<Rightarrow> HttpError 404 ''attachment was not found'' []
      | AttachmentError m \<Rightarrow> other m
      | MalwareDetected m \<Rightarrow> other m
      | MalwareScanUnavailable m \<Rightarrow> other m
      | AttachmentUncaught x \<Rightarrow> ServerError x)"

definition upload_failed :: "attachment_error \<Rightarrow> reply" where
  "upload_failed e =
     (case e of
        MalwareDetected m \<Rightarrow> HttpError 422 m []
      | MalwareScanUnavailable m \<Rightarrow> HttpError 503 m []
      | AttachmentError m \<Rightarrow> HttpError (if contains m ''limit'' then 413 else 415) m []
      | AttachmentNotFound _ \<Rightarrow> ServerError ''AttachmentNotFound''
      | AttachmentUncaught x \<Rightarrow> ServerError x)"

definition limiter_key :: "identity_context \<Rightarrow> string" where
  "limiter_key i = workspace_id i @ '':'' @ tenant_id i @ '':'' @ user_id i"

text \<open>A limiter check in front of a handler: the limiter's state changes either way.\<close>

definition rate_limited ::
    "(rat \<Rightarrow> string \<Rightarrow> 'l \<Rightarrow> (bool \<times> int) \<times> 'l) \<Rightarrow> api_request \<Rightarrow> identity_context \<Rightarrow> string \<Rightarrow>
     (('r, 'p, 's, 'b, 'l) api_state \<Rightarrow> reply \<times> ('r, 'p, 's, 'b, 'l) api_state) \<Rightarrow>
     ('r, 'p, 's, 'b, 'l) api_state \<Rightarrow> reply \<times> ('r, 'p, 's, 'b, 'l) api_state" where
  "rate_limited checker rq identity message body st =
     (case checker (rq_monotonic rq) (limiter_key identity) (st_limits st) of
        ((allowed, retry), l) \<Rightarrow>
          if \<not> allowed then (HttpError 429 message [(''Retry-After'', int_str retry)], st\<lparr>st_limits := l\<rparr>)
          else body (st\<lparr>st_limits := l\<rparr>))"

definition api_list_attachments ::
    "('r, 'p, 's, 'b, 'l) api_config \<Rightarrow> identity_context \<Rightarrow>
     ('r, 'p, 's, 'b, 'l) api_state \<Rightarrow> reply \<times> ('r, 'p, 's, 'b, 'l) api_state" where
  "api_list_attachments cfg identity st =
     attachments_required cfg (\<lambda>sv.
       case attachment_list sv identity (st_attachments st) of
         Inl e \<Rightarrow> (attachment_uncaught e, st)
       | Inr rs \<Rightarrow> (Json 200 (VDict [(''items'', VList (map (VDict \<circ> attachment_payload) rs)),
           (''count'', VInt (int (length rs)))]) [], st)) st"

text \<open>The body is read up to one byte more than the limit.\<close>

record upload_form =
  uf_filename :: "string option"
  uf_content_type :: "string option"
  uf_body :: string

definition api_upload ::
    "('r, 'p, 's, 'b, 'l) api_config \<Rightarrow> api_request \<Rightarrow> upload_form \<Rightarrow> identity_context \<Rightarrow>
     ('r, 'p, 's, 'b, 'l) api_state \<Rightarrow> reply \<times> ('r, 'p, 's, 'b, 'l) api_state" where
  "api_upload cfg rq form identity st =
     attachments_required cfg (\<lambda>sv. rate_limited (ac_upload_check cfg) rq identity ''image upload rate limit exceeded'' (\<lambda>st.
       case upload (rq_image_open rq) (rq_sha256 rq) (rq_upload_uuid rq) (rq_now rq) sv identity
              (or_default (uf_filename form) ''upload'') (text_or_empty (uf_content_type form))
              (take (nat (sv_max_bytes sv + 1)) (uf_body form)) (st_attachments st) of
         (Inl e, a) \<Rightarrow> (upload_failed e, st\<lparr>st_attachments := a\<rparr>)
       | (Inr r, a) \<Rightarrow> counted ''attachments_total'' [(''operation'', ''upload'')]
           (Json 201 (VDict (attachment_payload r)) [],
            record_attachment_event rq ''attachment.created'' identity (att_id r)
              [(''sha256'', VStr (att_sha256 r)), (''size_bytes'', VInt (att_size_bytes r)),
               (''content_type'', VStr (att_content_type r))] (request_id_of rq) (st\<lparr>st_attachments := a\<rparr>))) st) st"

definition api_get_attachment ::
    "('r, 'p, 's, 'b, 'l) api_config \<Rightarrow> string \<Rightarrow> identity_context \<Rightarrow>
     ('r, 'p, 's, 'b, 'l) api_state \<Rightarrow> reply \<times> ('r, 'p, 's, 'b, 'l) api_state" where
  "api_get_attachment cfg i identity st =
     attachments_required cfg (\<lambda>sv.
       case attachment_metadata sv identity i (st_attachments st) of
         Inl (AttachmentNotFound m) \<Rightarrow> (HttpError 404 ''attachment was not found'' [], st)
       | Inl e \<Rightarrow> (attachment_uncaught e, st)
       | Inr r \<Rightarrow> (Json 200 (VDict (attachment_payload r)) [], st)) st"

definition api_get_content ::
    "('r, 'p, 's, 'b, 'l) api_config \<Rightarrow> api_request \<Rightarrow> string \<Rightarrow> identity_context \<Rightarrow>
     ('r, 'p, 's, 'b, 'l) api_state \<Rightarrow> reply \<times> ('r, 'p, 's, 'b, 'l) api_state" where
  "api_get_content cfg rq i identity st =
     attachments_required cfg (\<lambda>sv.
       case read_content (rq_sha256 rq) sv identity i (st_attachments st) of
         Inl e \<Rightarrow> (attachment_failed (\<lambda>_. HttpError 503 ''attachment content is unavailable'' []) e, st)
       | Inr (r, data) \<Rightarrow> (Content 200 (att_content_type r) data
           [(''X-Content-Type-Options'', ''nosniff''), (''Cache-Control'', ''private, no-store'')], st)) st"

definition api_delete_attachment ::
    "('r, 'p, 's, 'b, 'l) api_config \<Rightarrow> api_request \<Rightarrow> string \<Rightarrow> identity_context \<Rightarrow>
     ('r, 'p, 's, 'b, 'l) api_state \<Rightarrow> reply \<times> ('r, 'p, 's, 'b, 'l) api_state" where
  "api_delete_attachment cfg rq i identity st =
     attachments_required cfg (\<lambda>sv.
       case delete_attachment sv identity i (st_attachments st) of
         (Inl e, a) \<Rightarrow> (attachment_failed (\<lambda>m. HttpError 409 m []) e, st\<lparr>st_attachments := a\<rparr>)
       | (Inr r, a) \<Rightarrow> counted ''attachments_total'' [(''operation'', ''delete'')]
           (Content 204 [] [] [],
            record_attachment_event rq ''attachment.deleted'' identity (att_id r)
              [(''sha256'', VStr (att_sha256 r)), (''size_bytes'', VInt (att_size_bytes r))] (request_id_of rq)
              (st\<lparr>st_attachments := a\<rparr>))) st"

definition vision_failed ::
    "api_request \<Rightarrow> analysis_request \<Rightarrow> identity_context \<Rightarrow> string \<Rightarrow> vision_error \<Rightarrow>
     ('r, 'p, 's, 'b, 'l) api_state \<Rightarrow> reply \<times> ('r, 'p, 's, 'b, 'l) api_state" where
  "vision_failed rq request identity i e st =
     (case e of
        VisionNotConfigured m \<Rightarrow> (HttpError 503 m [], st)
      | VisionConsentRequired m \<Rightarrow> (HttpError 403 m [], st)
      | VisionAnalysisError m \<Rightarrow>
          (HttpError 502 ''Vision/OCR provider did not return a verified result'' [],
           record_attachment_event rq ''attachment.analysis_failed'' identity i
             [(''task'', VStr (an_task request)), (''reason'', VStr m)] None st))"

definition api_analyze ::
    "('r, 'p, 's, 'b, 'l) api_config \<Rightarrow> api_request \<Rightarrow> string \<Rightarrow> analysis_request \<Rightarrow> identity_context \<Rightarrow>
     ('r, 'p, 's, 'b, 'l) api_state \<Rightarrow> reply \<times> ('r, 'p, 's, 'b, 'l) api_state" where
  "api_analyze cfg rq i request identity st =
     attachments_required cfg (\<lambda>sv.
       case ac_vision cfg of
         None \<Rightarrow> (HttpError 503 ''Vision/OCR provider is not configured'' [], st)
       | Some provider \<Rightarrow> rate_limited (ac_analysis_check cfg) rq identity ''image analysis rate limit exceeded'' (\<lambda>st.
           case read_content (rq_sha256 rq) sv identity i (st_attachments st) of
             Inl e \<Rightarrow> (attachment_failed (\<lambda>_. HttpError 503 ''attachment content is unavailable'' []) e, st)
           | Inr (r, data) \<Rightarrow>
               (case vision_analyze provider (rq_now rq) r (Some data) (an_task request) (an_prompt request)
                       (an_allow_external_processing request) of
                  Inl e \<Rightarrow> vision_failed rq request identity i e st
                | Inr result \<Rightarrow> counted ''attachments_total'' [(''operation'', ''analyze'')]
                    (Json 200 (VDict (merge [(''attachment_id'', VStr i)] (map (map_prod id VStr) (vision_result_as_dict result)))) [],
                     record_attachment_event rq ''attachment.analyzed'' identity i
                       [(''task'', VStr (vr_task result)), (''provider'', VStr (vr_provider result)),
                        (''model'', VStr (vr_model result)), (''observed_at'', VStr (vr_observed_at result)),
                        (''external_processing_consent'', VBool (an_allow_external_processing request)),
                        (''sha256'', VStr (att_sha256 r))] (request_id_of rq) st))) st) st"

section \<open>Dashboard, health and readiness\<close>

definition model_health :: "agent_runtime \<Rightarrow> (string, string) dict \<Rightarrow> (string, string) dict" where
  "model_health rt provider_health =
     (case art_model rt of
        None \<Rightarrow> [(''provider'', ''none''), (''model'', ''none''), (''status'', ''disabled'')]
      | Some _ \<Rightarrow> provider_health)"

definition dget_text :: "(string, string) dict \<Rightarrow> string \<Rightarrow> string \<Rightarrow> string" where
  "dget_text d k fallback = (case map_of d k of None \<Rightarrow> fallback | Some v \<Rightarrow> v)"

definition last_n :: "nat \<Rightarrow> 'a list \<Rightarrow> 'a list" where
  "last_n n xs = drop (length xs - n) xs"

definition dashboard_body ::
    "api_request \<Rightarrow> identity_context \<Rightarrow> attachment_record list \<Rightarrow> audit_event list \<Rightarrow> nat \<Rightarrow> pyval" where
  "dashboard_body rq identity records events pending =
     VDict [(''workspace_id'', VStr (workspace_id identity)), (''tenant_id'', VStr (tenant_id identity)),
       (''agents'', VList [VDict [(''id'', VStr agent_id), (''status'', VStr ''ready''), (''tool_count'', VInt 1)]]),
       (''mcp'', VList [VDict [(''id'', VStr (dget_text (rq_gateway_health rq) ''server_id'' ''mcp'')),
          (''status'', VStr (dget_text (rq_gateway_health rq) ''status'' ''unhealthy'')),
          (''transport'', VStr (dget_text (rq_gateway_health rq) ''transport'' ''unknown''))]]),
       (''approvals'', VDict [(''pending'', VInt (int pending)), (''mode'', VStr ''explicit_for_writes'')]),
       (''audit'', VDict [(''event_count'', VInt (int (length events))), (''recent'', VList (map (VStr \<circ> ev_type) (last_n 12 events)))]),
       (''attachments'', VDict [(''count'', VInt (int (length records))), (''items'', VList (map (VDict \<circ> attachment_payload) records))])]"

definition api_dashboard ::
    "('r, 'p, 's, 'b, 'l) api_config \<Rightarrow> api_request \<Rightarrow> identity_context \<Rightarrow>
     ('r, 'p, 's, 'b, 'l) api_state \<Rightarrow> reply \<times> ('r, 'p, 's, 'b, 'l) api_state" where
  "api_dashboard cfg rq identity st =
     attachments_required cfg (\<lambda>sv.
       case attachment_list sv identity (st_attachments st) of
         Inl e \<Rightarrow> (attachment_uncaught e, st)
       | Inr records \<Rightarrow>
           let events = audit_list_events None None (Some (workspace_id identity)) (Some (tenant_id identity)) (st_audit st)
           in (case (case ac_approvals cfg of None \<Rightarrow> Inr 0
                  | Some ops \<Rightarrow> pending_count ops (rq_approval rq) identity (st_approvals st)) of
                 Inl e \<Rightarrow> (approval_uncaught e, st)
               | Inr pending \<Rightarrow> (Json 200 (dashboard_body rq identity records events pending) [], st))) st"

definition api_metrics :: "identity_context \<Rightarrow> ('r, 'p, 's, 'b, 'l) api_state \<Rightarrow> reply \<times> ('r, 'p, 's, 'b, 'l) api_state" where
  "api_metrics identity st = (Content 200 ''text/plain; version=0.0.4'' (prometheus (st_metrics st)) [], st)"

definition configured :: "bool \<Rightarrow> string" where
  "configured b = (if b then ''configured'' else ''unavailable'')"

definition api_health :: "('r, 'p, 's, 'b, 'l) api_config \<Rightarrow> api_request \<Rightarrow> pyval" where
  "api_health cfg rq =
     (let health = model_health (ac_runtime cfg) (rq_model_health rq); attached = (\<lambda>f d. case ac_attachments cfg of None \<Rightarrow> d | Some sv \<Rightarrow> f sv)
      in VDict (map (map_prod id VStr)
        [(''status'', ''ok''), (''provider_mode'', ac_provider_mode cfg), (''storage_mode'', ac_storage_mode cfg),
         (''auth_mode'', aa_mode (ac_auth cfg)), (''attachments'', configured (ac_attachments cfg \<noteq> None)),
         (''object_storage'', attached (\<lambda>_. ac_object_storage cfg) ''unavailable''),
         (''malware_scanner'', attached sv_scanner_id ''unavailable''),
         (''attachment_retention_days'', attached (\<lambda>sv. int_str (sv_retention_days sv)) ''0''),
         (''rate_limit_mode'', ac_rate_limit_mode cfg), (''approvals'', configured (ac_approvals cfg \<noteq> None)),
         (''trace_exporter'', configured (ac_exporter cfg \<noteq> None)),
         (''model_provider'', dget_text health ''provider'' ''unknown''), (''model'', dget_text health ''model'' ''unknown''),
         (''model_status'', dget_text health ''status'' ''unknown'')]))"

text \<open>\<^verbatim>\<open>component_health\<close>: a component without a health check is healthy, a raising one is not.\<close>

definition component_health :: "probe \<Rightarrow> bool" where
  "component_health p = (case p of No_probe \<Rightarrow> True | Probe_returns b \<Rightarrow> b | Probe_raises \<Rightarrow> False)"

record probes =
  pr_attachments :: probe
  pr_audit :: probe
  pr_run_store :: probe
  pr_approval_store :: probe

definition ready_checks :: "('r, 'p, 's, 'b, 'l) api_config \<Rightarrow> api_request \<Rightarrow> probes \<Rightarrow> (string, bool) dict" where
  "ready_checks cfg rq pr =
     (let attachment_health = (ac_attachments cfg \<noteq> None \<and> component_health (pr_attachments pr));
          attached = (\<lambda>f. case ac_attachments cfg of None \<Rightarrow> False | Some sv \<Rightarrow> f sv)
      in [(''auth'', if secured_env (aa_platform_env (ac_auth cfg)) then aa_mode (ac_auth cfg) \<in> {''jwt_hs256'', ''oidc_jwks''} else True),
          (''provider'', map_of (rq_gateway_health rq) ''status'' = Some ''healthy''),
          (''model_provider'', map_of (model_health (ac_runtime cfg) (rq_model_health rq)) ''status'' = Some ''configured''),
          (''attachments'', attachment_health),
          (''object_storage'', ac_attachments cfg \<noteq> None \<and> ac_object_storage cfg = ''s3''),
          (''durable_runs'', ac_run_ops cfg \<noteq> None),
          (''approvals'', ac_approvals cfg \<noteq> None),
          (''persistent_storage'', ac_storage_mode cfg \<noteq> ''memory'' \<and> component_health (pr_audit pr) \<and>
             component_health (pr_run_store pr) \<and> component_health (pr_approval_store pr) \<and> attachment_health),
          (''malware_scanning'', attached requires_scan),
          (''attachment_retention'', attached (\<lambda>sv. retention_seconds sv > 0)),
          (''distributed_rate_limit'', ac_rate_limit_mode cfg = ''redis''),
          (''trace_exporter'', ac_exporter cfg \<noteq> None)])"

definition api_ready :: "('r, 'p, 's, 'b, 'l) api_config \<Rightarrow> api_request \<Rightarrow> probes \<Rightarrow> reply" where
  "api_ready cfg rq pr =
     (let checks = ready_checks cfg rq pr;
          ready = (if secured_env (aa_platform_env (ac_auth cfg)) then list_all snd checks else True)
      in Json (if ready then 200 else 503)
           (VDict [(''status'', VStr (if ready then ''ready'' else ''not_ready'')),
              (''checks'', VDict (map (map_prod id VBool) checks))]) [])"

section \<open>Routes\<close>

text \<open>The routes that need an identity, with their path parameters and bodies.\<close>

datatype api_call =
    ListAgents
  | Metrics
  | Dashboard
  | CreateRun run_request "string option"
  | GetRun string
  | GetEvents string
  | ListApprovals "string option"
  | CreateApproval approval_create_request
  | Approve string
  | Reject string "string option"
  | ListAttachments
  | Upload upload_form
  | GetAttachment string
  | GetContent string
  | DeleteAttachment string
  | Analyze string analysis_request

primrec dispatch ::
    "('r, 'p, 's, 'b, 'l) api_config \<Rightarrow> api_request \<Rightarrow> api_call \<Rightarrow> identity_context \<Rightarrow>
     ('r, 'p, 's, 'b, 'l) api_state \<Rightarrow> reply \<times> ('r, 'p, 's, 'b, 'l) api_state" where
  "dispatch cfg rq ListAgents = api_list_agents"
| "dispatch cfg rq Metrics = api_metrics"
| "dispatch cfg rq Dashboard = api_dashboard cfg rq"
| "dispatch cfg rq (CreateRun request key) = api_create_run cfg rq request key"
| "dispatch cfg rq (GetRun i) = api_get_run cfg i"
| "dispatch cfg rq (GetEvents i) = api_get_events cfg i"
| "dispatch cfg rq (ListApprovals status) = api_list_approvals cfg status"
| "dispatch cfg rq (CreateApproval request) = api_create_approval cfg rq request"
| "dispatch cfg rq (Approve i) = api_approve cfg rq i"
| "dispatch cfg rq (Reject i reason) = api_reject cfg rq i reason"
| "dispatch cfg rq ListAttachments = api_list_attachments cfg"
| "dispatch cfg rq (Upload form) = api_upload cfg rq form"
| "dispatch cfg rq (GetAttachment i) = api_get_attachment cfg i"
| "dispatch cfg rq (GetContent i) = api_get_content cfg rq i"
| "dispatch cfg rq (DeleteAttachment i) = api_delete_attachment cfg rq i"
| "dispatch cfg rq (Analyze i request) = api_analyze cfg rq i request"

definition handle ::
    "('r, 'p, 's, 'b, 'l) api_config \<Rightarrow> api_request \<Rightarrow> api_call \<Rightarrow>
     ('r, 'p, 's, 'b, 'l) api_state \<Rightarrow> reply \<times> ('r, 'p, 's, 'b, 'l) api_state" where
  "handle cfg rq c st = authenticated cfg rq (dispatch cfg rq c) st"

section \<open>Middlewares\<close>

text \<open>\<^verbatim>\<open>_SAFE_REQUEST_ID\<close>.\<close>

definition safe_request_id :: "string \<Rightarrow> bool" where
  "safe_request_id s \<longleftrightarrow> 1 \<le> length s \<and> length s \<le> 128 \<and> list_all (\<lambda>c. is_alnum c \<or> c \<in> {CHR ''.'', CHR ''_'', CHR '':'', CHR ''-''}) s"

definition resolve_request_id :: "string option \<Rightarrow> string \<Rightarrow> string" where
  "resolve_request_id header uuid =
     (let candidate = (case header of None \<Rightarrow> [] | Some h \<Rightarrow> h) in if safe_request_id candidate then candidate else ''req-'' @ uuid)"

text \<open>
  The size guard: \<^const>\<open>None\<close> lets the request pass. \<open>max_bytes\<close> is the limit of the attachment service, if there is one.
\<close>

definition size_guard :: "int option \<Rightarrow> string \<Rightarrow> string \<Rightarrow> string option \<Rightarrow> reply option" where
  "size_guard max_bytes meth path content_length =
     (case (max_bytes, content_length) of
        (Some limit, Some n) \<Rightarrow>
          if meth = ''POST'' \<and> path = ''/api/v1/attachments''
          then (case py_int n of
              None \<Rightarrow> Some (Json 400 (VDict [(''detail'', VStr ''invalid Content-Length'')]) [])
            | Some bytes \<Rightarrow>
                if bytes > limit + 1024 * 1024
                then Some (Json 413 (VDict [(''detail'', VStr ''multipart image request exceeds the configured size limit'')]) [])
                else None)
          else None
      | _ \<Rightarrow> None)"

text \<open>
  The observability wrapper after the inner application answered with a status, or raised (\<^const>\<open>None\<close>). It returns the
  request identifier header, or the exception that leaves the wrapper: that of the inner application or of the registry.
\<close>

record http_span =
  hs_method :: string
  hs_route :: "string option"
  hs_request_id :: string
  hs_trace_id :: string
  hs_span_id :: string
  hs_started :: int
  hs_ended :: int

definition http_trace :: "http_span \<Rightarrow> nat \<Rightarrow> trace_record" where
  "http_trace h status =
     \<lparr>tr_trace_id = hs_trace_id h, tr_span_id = hs_span_id h, tr_name = ''http.request'', tr_start = hs_started h,
      tr_end = hs_ended h, tr_parent_span_id = None,
      tr_attributes = [(''http_method'', VStr (hs_method h)),
        (''http_route'', VStr (case hs_route h of None \<Rightarrow> ''unmatched'' | Some r \<Rightarrow> if startswith r ''/'' then r else ''unmatched'')),
        (''http_status'', VInt (int status)), (''request_id'', VStr (hs_request_id h))]\<rparr>"

definition request_observability ::
    "exporter option \<Rightarrow> http_span \<Rightarrow> nat option \<Rightarrow> metrics \<Rightarrow> (string, string) result \<times> metrics" where
  "request_observability exporter h response m =
     (let status = (case response of None \<Rightarrow> 500 | Some n \<Rightarrow> n);
          labels = [(''method'', hs_method h), (''status'', int_str (int status))];
          after = (\<lambda>m1. case increment ''http_requests_total'' labels 1 m1 of
             Inl _ \<Rightarrow> (Inl ''ValueError'', m1)
           | Inr m2 \<Rightarrow> ((case response of None \<Rightarrow> Inl ''exception'' | Some _ \<Rightarrow> Inr (hs_request_id h)), m2))
      in (case (response, exporter) of
            (Some n, Some ex) \<Rightarrow>
              (case (case trace_post_init (http_trace h n) of Some e \<Rightarrow> Some e | None \<Rightarrow> ex (http_trace h n)) of
                 None \<Rightarrow> after m
               | Some _ \<Rightarrow> (case increment ''trace_export_failures_total'' [] 1 m of
                     Inl _ \<Rightarrow> (Inl ''ValueError'', m)
                   | Inr m1 \<Rightarrow> after m1))
          | _ \<Rightarrow> after m))"

end
