(* ===== verification/Api_Safety.thy ===== *)
theory Api_Safety
  imports Api_Handlers
begin

text \<open>
  What the HTTP surface guarantees as a whole. Each handler is shown to respect the tenants: it appends only events of
  the caller's workspace and tenant, and it changes no approval, attachment or stored run of another tenant. The laws
  of the three stores are those of the locales \<open>run_store\<close>, \<open>approval_store\<close> and \<open>attachment_store\<close>, joined in
  \<open>api_backend\<close>; the handlers' lemmas are proved there once and used on the SQLite and the PostgreSQL stores.
\<close>

section \<open>The audit log grows by events of the caller\<close>

definition scoped_event :: "identity_context \<Rightarrow> audit_event \<Rightarrow> bool" where
  "scoped_event i e \<longleftrightarrow> ev_workspace_id e = workspace_id i \<and> dget (ev_payload e) ''tenant_id'' = VStr (tenant_id i)"

definition audit_grows :: "identity_context \<Rightarrow> audit_log \<Rightarrow> audit_log \<Rightarrow> bool" where
  "audit_grows i a a' \<longleftrightarrow> (\<exists>es. a' = fold audit_append es a \<and> (\<forall>e\<in>set es. scoped_event i e))"

lemma audit_grows_refl [simp, intro]: "audit_grows i a a"
  unfolding audit_grows_def by (intro exI [of _ "[]"]) simp

lemma audit_grows_trans [trans]: "audit_grows i a b \<Longrightarrow> audit_grows i b c \<Longrightarrow> audit_grows i a c"
  unfolding audit_grows_def by (metis fold_append comp_apply set_append Un_iff)

lemma audit_grows_append: "scoped_event i e \<Longrightarrow> audit_grows i a (audit_append e a)"
  unfolding audit_grows_def by (intro exI [of _ "[e]"]) simp

text \<open>The run of the agent, also when a collaborator raises in the middle of it.\<close>

lemma steps_grows: "steps ctx s s' \<Longrightarrow> audit_grows (rc_identity ctx) (fst s) (fst s')"
  unfolding steps_def audit_grows_def ctx_event_def scoped_event_def by blast

lemma emit_grows:
  "dget p ''tenant_id'' = VStr (tenant_id (rc_identity ctx)) \<Longrightarrow> audit_grows (rc_identity ctx) (fst s) (fst (emit env ctx ty p s))"
  unfolding emit_def fst_conv by (rule audit_grows_append) (simp add: scoped_event_def)

lemma finish_grows: "audit_grows (rc_identity ctx) (fst s) (fst (snd (finish env ctx st m s)))"
  unfolding finish_def snd_conv by (rule emit_grows) simp

lemma run_tool_grows: "audit_grows (rc_identity ctx) (fst s) (fst (snd (run_tool rt env ctx q oid allow s)))"
proof (cases "art_call rt (tool_request ctx oid)")
  case (Inr r)
  let ?s2 = "tool_completed rt env ctx (strip oid) r s"
  obtain res s3 where m: "model_step rt env ctx q (strip oid) allow r ?s2 = (res, s3)" by (rule prod.exhaust)
  have s3: "audit_grows (rc_identity ctx) (fst ?s2) (fst s3)"
    using steps_grows [OF steps_model_step, of ctx ?s2 rt env q "strip oid" allow r] m by simp
  have "audit_grows (rc_identity ctx) (fst ?s2) (fst (snd (run_tool rt env ctx q oid allow s)))"
    using Inr m s3 finish_grows [of ctx ?s2]
    by (auto simp: run_tool_def Let_def split: sum.split intro: audit_grows_trans [OF s3 emit_grows])
  with steps_grows [OF steps_tool_completed] show ?thesis by (rule audit_grows_trans)
qed (simp add: run_tool_def)

lemma run_body_grows: "audit_grows (rc_identity ctx) (fst s) (fst (snd (run_body rt env ctx query order_id allow s)))"
proof -
  have p: "audit_grows (rc_identity ctx) (fst s) (fst (policy_decided env ctx d s))" for d
    by (rule steps_grows [OF steps_policy_decided])
  show ?thesis
    unfolding run_body_def Let_def
    by (auto simp: finish_grows split: option.split intro: audit_grows_trans [OF p finish_grows] audit_grows_trans [OF p run_tool_grows])
qed

lemma run_grows: "run rt env query i oid rq tr allow a = (res, a') \<Longrightarrow> audit_grows i a a'"
proof -
  assume r: "run rt env query i oid rq tr allow a = (res, a')"
  let ?ctx = "run_ctx_of env i rq tr"
  have "audit_grows i a (fst (run_created env ?ctx query a))"
    using emit_grows [of _ ?ctx "(a, 0)"] by (simp add: run_created_def)
  also have "audit_grows i \<dots> a'"
    using run_body_grows [of ?ctx "run_created env ?ctx query a" rt env query oid allow] r by (auto simp: run_def Let_def)
  finally show ?thesis .
qed

lemma execute_grows: "execute store rt env request i key rq tr s = (res, s') \<Longrightarrow> audit_grows i (rs_audit s) (rs_audit s')"
proof -
  have n: "audit_grows i (rs_audit s) (rs_audit s')" if "execute_new store rt env request i key rq tr s = (res, s')"
  proof -
    obtain out a where r: "run rt env (VStr (rq_query request)) i (rq_order_id request) rq tr
        (rq_allow_external_processing request) (rs_audit s) = (out, a)" by (rule prod.exhaust)
    have "rs_audit s' = a" using that r by (auto simp: execute_new_def Let_def split: sum.splits option.splits if_splits)
    with run_grows [OF r] show ?thesis by simp
  qed
  assume "execute store rt env request i key rq tr s = (res, s')"
  then consider "execute_new store rt env request i key rq tr s = (res, s')" | k where "replay i k s = Some (res, s')"
    | k where "replay_stored store i k s = Some (res, s')"
    by (auto simp: execute_def split: option.splits if_splits)
  then show ?thesis by cases (auto simp: n replay_def replay_stored_def split: option.splits if_splits)
qed

lemma run_get_audit [simp]: "rs_audit (snd (run_get store rid i s)) = rs_audit s"
  by (auto simp: run_get_def Let_def split: option.split prod.split)

section \<open>Records of other tenants\<close>

definition approvals_frame :: "identity_context \<Rightarrow> approval_map \<Rightarrow> approval_map \<Rightarrow> bool" where
  "approvals_frame i m m' \<longleftrightarrow>
     (\<forall>j r h. \<not> in_scope (workspace_id i) (tenant_id i) r \<longrightarrow> (m' j = Some (r, h)) = (m j = Some (r, h)))"

definition attachments_frame ::
    "identity_context \<Rightarrow> (string \<Rightarrow> attachment_record option) \<Rightarrow> (string \<Rightarrow> attachment_record option) \<Rightarrow> bool" where
  "attachments_frame i m m' \<longleftrightarrow> (\<forall>j r. record_scope r \<noteq> identity_scope i \<longrightarrow> (m' j = Some r) = (m j = Some r))"

definition runs_frame :: "identity_context \<Rightarrow> stored_run list \<Rightarrow> stored_run list \<Rightarrow> bool" where
  "runs_frame i rows rows' \<longleftrightarrow> filter (\<lambda>x. sr_identity x \<noteq> i) rows' = filter (\<lambda>x. sr_identity x \<noteq> i) rows"

lemma frames_refl [simp, intro]: "approvals_frame i m m" "attachments_frame i n n" "runs_frame i rs rs"
  by (simp_all add: approvals_frame_def attachments_frame_def runs_frame_def)

lemma approvals_frame_trans [trans]: "approvals_frame i a b \<Longrightarrow> approvals_frame i b c \<Longrightarrow> approvals_frame i a c"
  by (auto simp: approvals_frame_def)

lemma approvals_frame_upd:
  assumes "\<And>r h. m j = Some (r, h) \<Longrightarrow> in_scope (workspace_id i) (tenant_id i) r" "in_scope (workspace_id i) (tenant_id i) (fst x)"
  shows "approvals_frame i m (m(j \<mapsto> x))"
  using assms by (cases x) (auto simp: approvals_frame_def)

lemma in_scope_after_decision [simp]: "in_scope w t (decided status approver dt r) = in_scope w t r"
  by (simp add: in_scope_def decided_def)

lemma request_Inl: "approval_request ops env i tool arguments risk key ttl s = (Inl e, s') \<Longrightarrow> s' = s"
  by (auto simp: approval_request_def Let_def split: option.splits if_splits sum.splits)

context approval_store
begin

lemma decide_frame:
  assumes "invar s" "status \<noteq> PENDING" "op_decide ops j (workspace_id i) (tenant_id i) status approver dt token s = (x, s')"
  shows "invar s' \<and> approvals_frame i (amap s) (amap s')"
proof (cases "\<exists>r. decidable (amap s) j (workspace_id i) (tenant_id i) r")
  case True
  then obtain r where r: "decidable (amap s) j (workspace_id i) (tenant_id i) r" by blast
  from decide_ok [OF assms(1) r assms(2), of approver dt token] assms(3)
  have "invar s'" "amap s' = (amap s)(j \<mapsto> (decided status approver dt r, nonempty token))" by auto
  then show ?thesis using r by (auto simp: decidable_def intro!: approvals_frame_upd)
qed (use assms decide_refused [OF assms(1)] in auto)

lemma get_frame:
  assumes "invar s" "approval_get ops env i j s = (res, s')"
  shows "invar s' \<and> approvals_frame i (amap s) (amap s')"
  using assms by (cases rule: approval_get_cases) (use assms(1) in \<open>auto intro!: approvals_frame_upd\<close>)

lemma approve_frame:
  assumes "invar s" "approval_approve ops env i j s = (res, s')"
  shows "invar s' \<and> approvals_frame i (amap s) (amap s')"
proof -
  obtain g s1 where g: "approval_get ops env i j s = (g, s1)" by (rule prod.exhaust)
  note f = get_frame [OF assms(1) g]
  have "s' = s \<or> s' = s1 \<or> (\<exists>x. op_decide ops j (workspace_id i) (tenant_id i) APPROVED (Some (user_id i))
      (iso_utc (ae_decide_now env)) (Some (hash_token env (ae_token env))) s1 = (x, s'))"
    using assms(2) g by (auto simp: approval_approve_def split: option.splits if_splits sum.splits prod.splits)
  then show ?thesis using f assms(1) decide_frame [of s1 APPROVED j i] approvals_frame_trans by auto
qed

lemma reject_frame:
  assumes "invar s" "approval_reject ops env i j s = (res, s')"
  shows "invar s' \<and> approvals_frame i (amap s) (amap s')"
proof -
  obtain g s1 where g: "approval_get ops env i j s = (g, s1)" by (rule prod.exhaust)
  note f = get_frame [OF assms(1) g]
  have "s' = s \<or> s' = s1 \<or> (\<exists>x. op_decide ops j (workspace_id i) (tenant_id i) REJECTED (Some (user_id i))
      (iso_utc (ae_decide_now env)) None s1 = (x, s'))"
    using assms(2) g by (auto simp: approval_reject_def split: option.splits if_splits sum.splits prod.splits)
  then show ?thesis using f assms(1) decide_frame [of s1 REJECTED j i] approvals_frame_trans by auto
qed

lemma request_effect:
  assumes "invar s" "approval_request ops env i tool arguments risk key ttl s = (res, s')"
  shows "s' = s \<or> (\<exists>r. res = Inr r \<and> op_create ops r s = Inr s' \<and> fresh_record r \<and> ap_requester r = i \<and> ap_tool_name r = tool \<and>
     ap_risk r = risk \<and> ap_status r = PENDING \<and> ap_id r = ae_uuid env)"
  using assms(2)
  by (auto simp: approval_request_def Let_def fresh_record_def canon_args_def split: option.splits if_splits sum.splits)

lemma request_Inr:
  assumes "invar s" "approval_request ops env i tool arguments risk key ttl s = (Inr r, s')"
  shows "(\<exists>h. amap s' (ap_id r) = Some (r, h)) \<and> in_scope (workspace_id i) (tenant_id i) r \<and> user_id (ap_requester r) = user_id i"
proof (cases "\<exists>k. op_find_idempotent ops (workspace_id i) (tenant_id i) (user_id i) k s = Some r \<and> s' = s")
  case True
  then obtain k where f: "op_find_idempotent ops (workspace_id i) (tenant_id i) (user_id i) k s = Some r" "s' = s" by blast
  from find_some [OF assms(1) f(1)] obtain j h where "amap s j = Some (r, h)" "in_scope (workspace_id i) (tenant_id i) r"
    "user_id (ap_requester r) = user_id i" by blast
  then show ?thesis using amap_id [OF assms(1)] f(2) by blast
next
  case False
  then have "op_create ops r s = Inr s'" "fresh_record r" "ap_requester r = i"
    using assms(2)
    by (auto simp: approval_request_def Let_def fresh_record_def canon_args_def split: option.splits if_splits sum.splits)
  with create_ok [OF assms(1)] show ?thesis by (auto simp: in_scope_def)
qed

lemma request_frame:
  assumes "invar s" "approval_request ops env i tool arguments risk key ttl s = (res, s')"
  shows "invar s' \<and> approvals_frame i (amap s) (amap s')"
proof (cases "s' = s")
  case False
  then obtain r where r: "op_create ops r s = Inr s'" "fresh_record r" "ap_requester r = i"
    using request_effect [OF assms] by blast
  from create_ok [OF assms(1) r(2,1)] show ?thesis
    using r(3) by (auto simp: in_scope_def intro!: approvals_frame_upd)
qed (use assms(1) in simp)

end

context attachment_store
begin

lemma upload_frame:
  assumes "sv_store sv = ops" "invar (as_store s)" "valid_instant now" "upload img sha uid now sv i fn ct data s = (res, s')"
  shows "invar (as_store s') \<and> attachments_frame i (amap (as_store s)) (amap (as_store s'))"
proof (cases res)
  case (Inl e)
  have cl: "as_store t' = as_store t" if "upload_cleanup sv q err t = (res', t')" for q err t res' t'
    using that by (auto simp: upload_cleanup_def split: prod.splits sum.splits blob_error.splits)
  have "as_store s' = as_store s"
    using assms(4) Inl
    by (auto simp: upload_def upload_store_def dest!: cl split: sum.splits prod.splits blob_error.splits)
  then show ?thesis using assms(2) by simp
next
  case (Inr r)
  then obtain info where "r = upload_record sha uid now i fn ct data info" "invar (as_store s')" "amap (as_store s) uid = None"
    "amap (as_store s') = (amap (as_store s))(uid \<mapsto> r)"
    using upload_Inr [OF assms(1-3), of img sha uid i fn ct data r s'] assms(4) by blast
  then show ?thesis by (auto simp: attachments_frame_def)
qed

lemma delete_frame:
  assumes "sv_store sv = ops" "invar (as_store s)" "delete_attachment sv i j s = (res, s')"
  shows "invar (as_store s') \<and> attachments_frame i (amap (as_store s)) (amap (as_store s'))"
  using delete_attachment_effect [OF assms] by (auto simp: attachments_frame_def split: if_splits)

end

context run_store
begin

lemma execute_frame:
  assumes "execute (Some ops) rt env request i key rq tr s = (res, s')"
  shows "runs_frame i (rows (rs_store s)) (rows (rs_store s'))"
proof -
  have "rs_store s' = rs_store s \<or> (\<exists>r p. sr_identity r = i \<and> ro_save ops r (rs_store s) = Inr (p, rs_store s'))"
  proof (cases "execute_new (Some ops) rt env request i key rq tr s = (res, s')")
    case True
    show ?thesis
      using True by (auto simp: execute_new_def Let_def split: sum.splits prod.splits option.splits if_splits)
  next
    case False
    then show ?thesis using assms
      by (auto simp: execute_def replay_def replay_stored_def split: option.splits if_splits)
  qed
  then show ?thesis
  proof
    assume "\<exists>r p. sr_identity r = i \<and> ro_save ops r (rs_store s) = Inr (p, rs_store s')"
    then obtain r p where "sr_identity r = i" "ro_save ops r (rs_store s) = Inr (p, rs_store s')" by blast
    with save_cases [of r "rs_store s" p "rs_store s'"] show ?thesis by (auto simp: runs_frame_def)
  qed simp
qed

end

lemma run_get_store [simp]: "rs_store (snd (run_get store rid i s)) = rs_store s"
  by (auto simp: run_get_def Let_def split: option.split prod.split)

section \<open>Every handler respects the other tenants\<close>

lemma dget_merge: "k \<notin> fst ` set e \<Longrightarrow> dget (merge d e) k = dget d k"
proof (induction e arbitrary: d)
  case (Cons x e)
  then show ?case by (cases x) (auto simp: merge_def dget_def)
qed (simp add: merge_def)

lemma set_audit_simps [simp]:
  "st_audit (set_audit a st) = a" "st_approvals (set_audit a st) = st_approvals st"
  "st_attachments (set_audit a st) = st_attachments st" "rs_store (st_service (set_audit a st)) = rs_store (st_service st)"
  "st_metrics (set_audit a st) = st_metrics st" "st_limits (set_audit a st) = st_limits st" "st_jwks (set_audit a st) = st_jwks st"
  by (simp_all add: set_audit_def)

lemma record_event_simps [simp]:
  "st_approvals (record_attachment_event rq ty i j p r st) = st_approvals st"
  "st_attachments (record_attachment_event rq ty i j p r st) = st_attachments st"
  "rs_store (st_service (record_attachment_event rq ty i j p r st)) = rs_store (st_service st)"
  "st_approvals (record_approval_event rq ty i j p r st) = st_approvals st"
  "st_attachments (record_approval_event rq ty i j p r st) = st_attachments st"
  "rs_store (st_service (record_approval_event rq ty i j p r st)) = rs_store (st_service st)"
  by (simp_all add: record_attachment_event_def record_approval_event_def)

lemma record_attachment_event_appends:
  assumes "''tenant_id'' \<notin> fst ` set p"
  shows "\<exists>e. st_audit (record_attachment_event rq ty i j p r st) = audit_append e (st_audit st) \<and> ev_type e = ty \<and> scoped_event i e"
  unfolding record_attachment_event_def set_audit_simps
  by (intro exI conjI, rule refl) (simp_all add: scoped_event_def dget_merge [OF assms])

lemma record_approval_event_appends:
  assumes "''tenant_id'' \<notin> fst ` set p"
  shows "\<exists>e. st_audit (record_approval_event rq ty i j p r st) = audit_append e (st_audit st) \<and> ev_type e = ty \<and> scoped_event i e"
  unfolding record_approval_event_def set_audit_simps
  by (intro exI conjI, rule refl) (simp_all add: scoped_event_def dget_merge [OF assms])

lemma record_event_grows:
  assumes "''tenant_id'' \<notin> fst ` set p" "st_audit st = a"
  shows "audit_grows i a (st_audit (record_attachment_event rq ty i j p r st))"
    "audit_grows i a (st_audit (record_approval_event rq ty i j p r st))"
  using record_attachment_event_appends [OF assms(1), of rq ty i j r st] record_approval_event_appends [OF assms(1), of rq ty i j r st]
    assms(2) audit_grows_append by auto

text \<open>The metric of a reply changes the registry only.\<close>

lemma counted_simps [simp]:
  "st_audit (snd (counted n l out)) = st_audit (snd out)" "st_approvals (snd (counted n l out)) = st_approvals (snd out)"
  "st_attachments (snd (counted n l out)) = st_attachments (snd out)" "st_service (snd (counted n l out)) = st_service (snd out)"
  "st_limits (snd (counted n l out)) = st_limits (snd out)"
  by (auto simp: counted_def split: sum.split)

lemma counted_known:
  "name \<in> {''attachments_total'', ''agent_runs_total''} \<Longrightarrow> label \<in> {''operation'', ''status''} \<Longrightarrow> length v \<le> 100 \<Longrightarrow>
   fst (counted name [(label, v)] out) = fst out"
proof -
  assume "name \<in> {''attachments_total'', ''agent_runs_total''}" "label \<in> {''operation'', ''status''}" "length v \<le> 100"
  moreover have "safe_metric_name ''attachments_total''" "safe_metric_name ''agent_runs_total''" "safe_label ''operation''" "safe_label ''status''"
    by code_simp+
  ultimately show ?thesis by (auto simp: counted_def increment_def Let_def)
qed

locale api_backend =
  runs: run_store rops rows + approvals: approval_store aops ainvar amap + atts: attachment_store tops tinvar tmap
  for rops :: "'r run_ops" and rows and aops :: "'p approval_ops" and ainvar and amap
    and tops :: "'s attachment_ops" and tinvar and tmap
begin

definition backed :: "('r, 'p, 's, 'b, 'l) api_config \<Rightarrow> bool" where
  "backed cfg \<longleftrightarrow> ac_run_ops cfg = Some rops \<and> ac_approvals cfg \<in> {None, Some aops} \<and>
     (\<forall>sv. ac_attachments cfg = Some sv \<longrightarrow> sv_store sv = tops)"

definition state_ok :: "('r, 'p, 's, 'b, 'l) api_state \<Rightarrow> bool" where
  "state_ok st \<longleftrightarrow> ainvar (st_approvals st) \<and> tinvar (as_store (st_attachments st))"

definition isolates :: "identity_context \<Rightarrow> ('r, 'p, 's, 'b, 'l) api_state \<Rightarrow> ('r, 'p, 's, 'b, 'l) api_state \<Rightarrow> bool" where
  "isolates i st st' \<longleftrightarrow> state_ok st' \<and> audit_grows i (st_audit st) (st_audit st') \<and>
     approvals_frame i (amap (st_approvals st)) (amap (st_approvals st')) \<and>
     attachments_frame i (tmap (as_store (st_attachments st))) (tmap (as_store (st_attachments st'))) \<and>
     runs_frame i (rows (rs_store (st_service st))) (rows (rs_store (st_service st')))"

lemma isolates_refl: "state_ok st \<Longrightarrow> isolates i st st"
  by (simp add: isolates_def)

lemma isolates_create_run:
  assumes "backed cfg" "state_ok st"
  shows "isolates i st (snd (api_create_run cfg rq request key i st))"
proof -
  obtain res s where e: "execute (ac_run_ops cfg) (ac_runtime cfg) (rq_call rq) request i key (request_id_of rq)
      (Some (rq_trace_id rq)) (st_service st) = (res, s)" by (rule prod.exhaust)
  then have "runs_frame i (rows (rs_store (st_service st))) (rows (rs_store s))"
    using assms(1) runs.execute_frame by (auto simp: backed_def)
  with execute_grows [OF e] e assms(2) show ?thesis
    by (auto simp: api_create_run_def isolates_def state_ok_def split: sum.split)
qed

lemma isolates_approval:
  assumes "backed cfg" "state_ok st" "c \<in> {CreateApproval request, Approve j, Reject j reason}"
  shows "isolates i st (snd (dispatch cfg rq c i st))"
proof (cases "ac_approvals cfg")
  case None
  then show ?thesis using assms(2,3)
    by (auto simp: api_create_approval_def api_approve_def api_reject_def approvals_required_def isolates_refl)
next
  case (Some ops)
  then have ops: "ops = aops" using assms(1) by (auto simp: backed_def)
  have inv: "ainvar (st_approvals st)" "tinvar (as_store (st_attachments st))" using assms(2) by (auto simp: state_ok_def)
  obtain r1 s1 where a: "approval_approve aops (rq_approval rq) i j (st_approvals st) = (r1, s1)" by (rule prod.exhaust)
  obtain r2 s2 where b: "approval_reject aops (rq_approval rq) i j (st_approvals st) = (r2, s2)" by (rule prod.exhaust)
  have k: "isolates i st (snd (api_create_approval cfg rq request i st))"
  proof -
    show ?thesis
    proof (cases "map_of (ac_definitions cfg) (acr_tool_name request)")
      case None
      then show ?thesis using Some assms(2) by (simp add: api_create_approval_def approvals_required_def isolates_refl)
    next
      case d: (Some d)
      obtain res s where r: "approval_request aops (rq_approval rq) i (td_name d) (acr_arguments request) (td_risk d)
        (acr_idempotency_key request) (acr_ttl_seconds request) (st_approvals st) = (res, s)" by (rule prod.exhaust)
      show ?thesis
        using inv Some ops d r approvals.request_frame [OF inv(1) r]
        by (auto simp: api_create_approval_def approvals_required_def Let_def isolates_def state_ok_def record_event_grows
            split: sum.split approval_error.split)
    qed
  qed
  show ?thesis
    using assms(3) k approvals.approve_frame [OF inv(1) a] approvals.reject_frame [OF inv(1) b] a b inv Some ops
    by (auto simp: api_approve_def api_reject_def approvals_required_def isolates_def state_ok_def record_event_grows split: sum.split)
qed

lemma isolates_attachment:
  assumes "backed cfg" "state_ok st" "valid_instant (rq_now rq)" "c \<in> {Upload form, DeleteAttachment j, Analyze j request}"
  shows "isolates i st (snd (dispatch cfg rq c i st))"
proof (cases "ac_attachments cfg")
  case None
  then show ?thesis using assms(2,4)
    by (auto simp: api_upload_def api_delete_attachment_def api_analyze_def attachments_required_def isolates_refl)
next
  case (Some sv)
  then have sv: "sv_store sv = tops" using assms(1) by (auto simp: backed_def)
  have inv: "ainvar (st_approvals st)" "tinvar (as_store (st_attachments st))" using assms(2) by (auto simp: state_ok_def)
  obtain r1 s1 where u: "upload (rq_image_open rq) (rq_sha256 rq) (rq_upload_uuid rq) (rq_now rq) sv i
      (or_default (uf_filename form) ''upload'') (text_or_empty (uf_content_type form))
      (take (nat (sv_max_bytes sv + 1)) (uf_body form)) (st_attachments st) = (r1, s1)" by (rule prod.exhaust)
  obtain r2 s2 where d: "delete_attachment sv i j (st_attachments st) = (r2, s2)" by (rule prod.exhaust)
  have "isolates i st (snd (api_upload cfg rq form i st))"
    using u inv Some atts.upload_frame [OF sv inv(2) assms(3) u]
    by (auto simp: api_upload_def attachments_required_def rate_limited_def isolates_def state_ok_def record_event_grows
        split: sum.split prod.split)
  moreover have "isolates i st (snd (api_delete_attachment cfg rq j i st))"
    using d inv Some atts.delete_frame [OF sv inv(2) d]
    by (auto simp: api_delete_attachment_def attachments_required_def isolates_def state_ok_def record_event_grows split: sum.split)
  moreover have "isolates i st (snd (api_analyze cfg rq j request i st))"
    using inv Some
    by (auto simp: api_analyze_def attachments_required_def rate_limited_def vision_failed_def isolates_def state_ok_def
        record_event_grows split: sum.split prod.split option.split vision_error.split)
  ultimately show ?thesis using assms(4) by auto
qed

lemma isolates_read:
  assumes "state_ok st" "c \<in> {ListAgents, Metrics, Dashboard, GetRun j, GetEvents j, ListApprovals w, ListAttachments, GetAttachment j, GetContent j}"
  shows "isolates i st (snd (dispatch cfg rq c i st))"
proof -
  obtain x s where g: "run_get (ac_run_ops cfg) j i (st_service st) = (x, s)" by (rule prod.exhaust)
  have "rs_audit s = st_audit st" "rs_store s = rs_store (st_service st)"
    using run_get_audit [of "ac_run_ops cfg" j i "st_service st"] run_get_store [of "ac_run_ops cfg" j i "st_service st"] g by simp_all
  then have "isolates i st (snd (api_get_run cfg j i st))" "isolates i st (snd (api_get_events cfg j i st))"
    using assms(1) g by (auto simp: api_get_run_def api_get_events_def isolates_def state_ok_def split: option.split)
  moreover have "snd (api_dashboard cfg rq i st) = st" "snd (api_list_approvals cfg w i st) = st" "snd (api_list_attachments cfg i st) = st"
    "snd (api_get_attachment cfg j i st) = st" "snd (api_get_content cfg rq j i st) = st"
    by (auto simp: api_dashboard_def api_list_approvals_def api_list_attachments_def api_get_attachment_def api_get_content_def
        attachments_required_def approvals_required_def Let_def split: option.split sum.split attachment_error.split)
  ultimately show ?thesis
    using assms isolates_refl [OF assms(1), of i] by (auto simp: api_list_agents_def api_metrics_def)
qed

lemma dispatch_isolates:
  assumes "backed cfg" "state_ok st" "valid_instant (rq_now rq)"
  shows "isolates i st (snd (dispatch cfg rq c i st))"
proof (cases c)
  case (CreateRun request key)
  then show ?thesis using isolates_create_run [OF assms(1,2)] by simp
next
  case (CreateApproval request)
  then show ?thesis by (intro isolates_approval [OF assms(1,2), of _ request]) simp
next
  case (Approve j)
  then show ?thesis by (intro isolates_approval [OF assms(1,2), of _ _ j]) simp
next
  case (Reject j reason)
  then show ?thesis by (intro isolates_approval [OF assms(1,2), of _ _ j reason]) simp
next
  case (Upload form)
  then show ?thesis by (intro isolates_attachment [OF assms, of _ form]) simp
next
  case (DeleteAttachment j)
  then show ?thesis by (intro isolates_attachment [OF assms, of _ _ j]) simp
next
  case (Analyze j request)
  then show ?thesis by (intro isolates_attachment [OF assms, of _ _ j request]) simp
qed (use isolates_read [OF assms(2)] in blast)+

end

interpretation sqlite_api: api_backend sqlite_run_ops "map run_from_row" sqlite_approval_ops table_invar table_amap
  sqlite_attachment_ops table_att_invar table_att_map
  by (intro api_backend.intro sqlite_runs.run_store_axioms sqlite_approvals.approval_store_axioms sqlite_att.attachment_store_axioms)

interpretation pg_api: api_backend pg_run_ops "map run_from_row" pg_approval_ops table_invar table_amap
  pg_attachment_ops table_att_invar table_att_map
  by (intro api_backend.intro pg_runs.run_store_axioms pg_approvals.approval_store_axioms pg_att.attachment_store_axioms)

section \<open>The view of a tenant\<close>

text \<open>The audit events, approvals with their token hashes, attachments and stored runs of one tenant.\<close>

type_synonym ('b, 'l) sql_state = "(run_table, approval_table, attachment_table, 'b, 'l) api_state"
type_synonym ('b, 'l) sql_config = "(run_table, approval_table, attachment_table, 'b, 'l) api_config"

definition tenant_view :: "string \<Rightarrow> string \<Rightarrow> ('b, 'l) sql_state \<Rightarrow>
    audit_event list \<times> (approval_record \<times> string option) set \<times> attachment_record set \<times> stored_run list" where
  "tenant_view w t st =
     (audit_list_events None None (Some w) (Some t) (st_audit st),
      {(r, h). (\<exists>j. table_amap (st_approvals st) j = Some (r, h)) \<and> in_scope w t r},
      {r. (\<exists>j. table_att_map (as_store (st_attachments st)) j = Some r) \<and> att_workspace_id r = w \<and> att_tenant_id r = t},
      filter (\<lambda>x. workspace_id (sr_identity x) = w \<and> tenant_id (sr_identity x) = t) (map run_from_row (rs_store (st_service st))))"

text \<open>The stores are all SQLite or all PostgreSQL, as \<^verbatim>\<open>build_default_app\<close> chooses them.\<close>

definition sql_backed :: "('b, 'l) sql_config \<Rightarrow> bool" where
  "sql_backed cfg \<longleftrightarrow>
     (ac_run_ops cfg = Some sqlite_run_ops \<and> ac_approvals cfg = Some sqlite_approval_ops \<and>
        (\<forall>sv. ac_attachments cfg = Some sv \<longrightarrow> sv_store sv = sqlite_attachment_ops)) \<or>
     (ac_run_ops cfg = Some pg_run_ops \<and> ac_approvals cfg = Some pg_approval_ops \<and>
        (\<forall>sv. ac_attachments cfg = Some sv \<longrightarrow> sv_store sv = pg_attachment_ops))"

definition sql_ok :: "('b, 'l) sql_state \<Rightarrow> bool" where
  "sql_ok st \<longleftrightarrow> table_invar (st_approvals st) \<and> table_att_invar (as_store (st_attachments st))"

definition sql_isolates :: "identity_context \<Rightarrow> ('b, 'l) sql_state \<Rightarrow> ('b, 'l) sql_state \<Rightarrow> bool" where
  "sql_isolates i st st' \<longleftrightarrow> sql_ok st' \<and> audit_grows i (st_audit st) (st_audit st') \<and>
     approvals_frame i (table_amap (st_approvals st)) (table_amap (st_approvals st')) \<and>
     attachments_frame i (table_att_map (as_store (st_attachments st))) (table_att_map (as_store (st_attachments st'))) \<and>
     runs_frame i (map run_from_row (rs_store (st_service st))) (map run_from_row (rs_store (st_service st')))"

lemma sql_dispatch_isolates:
  assumes "sql_backed cfg" "sql_ok st" "valid_instant (rq_now rq)"
  shows "sql_isolates i st (snd (dispatch cfg rq c i st))"
proof -
  from assms(1) consider "sqlite_api.backed cfg" | "pg_api.backed cfg"
    by (auto simp: sql_backed_def sqlite_api.backed_def pg_api.backed_def)
  then show ?thesis
  proof cases
    case 1
    from sqlite_api.dispatch_isolates [OF this _ assms(3), of st i c] assms(2) show ?thesis
      by (simp add: sqlite_api.isolates_def sqlite_api.state_ok_def sql_isolates_def sql_ok_def)
  next
    case 2
    from pg_api.dispatch_isolates [OF this _ assms(3), of st i c] assms(2) show ?thesis
      by (simp add: pg_api.isolates_def pg_api.state_ok_def sql_isolates_def sql_ok_def)
  qed
qed

lemma filter_sort_key: "filter P (sort_key f xs) = sort_key f (filter P xs)"
  by (induction xs) (simp_all add: filter_insort_triv filter_insort)

lemma sqlite_list_append_other:
  assumes "\<not> (clause ws (Some (ev_workspace_id e)) \<and> clause tenant (ev_tenant_id e))"
  shows "sqlite_list_events tr rn ws tenant (sqlite_append e tb) = sqlite_list_events tr rn ws tenant tb"
  using assms by (auto simp: sqlite_list_events_def sqlite_append_def filter_sort_key)

lemma audit_view_append:
  assumes "scoped_event i e" "(w, t) \<noteq> (workspace_id i, tenant_id i)" "w \<noteq> []" "t \<noteq> []"
  shows "audit_list_events tr rn (Some w) (Some t) (audit_append e l) = audit_list_events tr rn (Some w) (Some t) l"
proof -
  have e: "ev_workspace_id e = workspace_id i" "dget (ev_payload e) ''tenant_id'' = VStr (tenant_id i)"
    using assms(1) by (auto simp: scoped_event_def)
  then have "\<not> (clause (Some w) (Some (ev_workspace_id e)) \<and> clause (Some t) (ev_tenant_id e))"
    using assms(2-4) by (auto simp: clause_def ev_tenant_id_def split: if_splits)
  from sqlite_list_append_other [OF this] show ?thesis
    using assms(2) e by (auto simp: audit_list_events_def audit_append_def matches_def split: option.split)
qed

lemma audit_view_grows:
  assumes "audit_grows i l l'" "(w, t) \<noteq> (workspace_id i, tenant_id i)" "w \<noteq> []" "t \<noteq> []"
  shows "audit_list_events tr rn (Some w) (Some t) l' = audit_list_events tr rn (Some w) (Some t) l"
proof -
  from assms(1) obtain es where "l' = fold audit_append es l" "\<forall>e\<in>set es. scoped_event i e"
    unfolding audit_grows_def by blast
  then show ?thesis
    by (induction es arbitrary: l) (simp_all add: audit_view_append [OF _ assms(2-4)])
qed

lemma runs_frame_view:
  assumes "runs_frame i rs rs'" "(w, t) \<noteq> (workspace_id i, tenant_id i)"
  shows "filter (\<lambda>x. workspace_id (sr_identity x) = w \<and> tenant_id (sr_identity x) = t) rs' =
    filter (\<lambda>x. workspace_id (sr_identity x) = w \<and> tenant_id (sr_identity x) = t) rs"
proof -
  let ?P = "\<lambda>x. workspace_id (sr_identity x) = w \<and> tenant_id (sr_identity x) = t"
  have split: "filter ?P xs = filter ?P (filter (\<lambda>x. sr_identity x \<noteq> i) xs)" for xs
    unfolding filter_filter by (rule filter_cong [OF refl]) (use assms(2) in auto)
  have "filter ?P rs' = filter ?P (filter (\<lambda>x. sr_identity x \<noteq> i) rs')" by (rule split)
  also have "\<dots> = filter ?P (filter (\<lambda>x. sr_identity x \<noteq> i) rs)" using assms(1) by (simp only: runs_frame_def)
  also have "\<dots> = filter ?P rs" by (rule split [symmetric])
  finally show ?thesis .
qed

lemma isolates_view:
  assumes "sql_isolates i st st'" "(w, t) \<noteq> (workspace_id i, tenant_id i)" "w \<noteq> []" "t \<noteq> []"
  shows "tenant_view w t st' = tenant_view w t st"
proof -
  have f: "approvals_frame i (table_amap (st_approvals st)) (table_amap (st_approvals st'))"
    "attachments_frame i (table_att_map (as_store (st_attachments st))) (table_att_map (as_store (st_attachments st')))"
    using assms(1) by (auto simp: sql_isolates_def)
  have "(table_amap (st_approvals st') j = Some (r, h)) = (table_amap (st_approvals st) j = Some (r, h))" if "in_scope w t r" for j r h
    using f(1) that assms(2) unfolding approvals_frame_def by (auto simp: in_scope_def)
  moreover have "(table_att_map (as_store (st_attachments st')) j = Some r) = (table_att_map (as_store (st_attachments st)) j = Some r)"
    if "att_workspace_id r = w" "att_tenant_id r = t" for j r
    using f(2) that assms(2) unfolding attachments_frame_def by (auto simp: record_scope_def identity_scope_def)
  ultimately show ?thesis
    using assms audit_view_grows [of i "st_audit st" "st_audit st'" w t] runs_frame_view [of i _ _ w t]
    by (auto simp: tenant_view_def sql_isolates_def)
qed

section \<open>Properties\<close>

lemma map_sum_Inl_iff: "map_sum f g z = Inl x \<longleftrightarrow> (\<exists>e. z = Inl e \<and> x = f e)"
  by (cases z) auto

lemma map_sum_id_Inr_iff: "map_sum f id z = Inr x \<longleftrightarrow> z = Inr x"
  by (cases z) auto

lemma create_app_auth_secured:
  assumes "create_app_auth env mode opts platform_env env_platform = Inr (a, js0)" "secured_env (aa_platform_env a)"
  shows "aa_mode a = ''jwt_hs256'' \<and> (\<exists>j. aa_jwt a = Some j \<and> 32 \<le> length (hs_secret j)) \<or>
      aa_mode a = ''oidc_jwks'' \<and> (\<exists>c. aa_oidc a = Some c)"
proof -
  consider (jwt) "mode = ''jwt_hs256''" | (oidc) "mode = ''oidc_jwks''" | (other) "mode \<notin> {''jwt_hs256'', ''oidc_jwks''}" by blast
  then show ?thesis
  proof cases
    case jwt
    with assms(1) show ?thesis by (auto simp: create_app_auth_def Let_def hs256_init_def split: if_splits)
  next
    case oidc
    with assms(1) show ?thesis by (auto simp: create_app_auth_def Let_def split: sum.splits)
  next
    case other
    with assms(1) have "aa_platform_env a = lower (or_default platform_env env_platform)"
      by (simp add: create_app_auth_def Let_def split: if_split_asm) (erule conjE, erule subst, simp)
    with assms other show ?thesis by (simp add: create_app_auth_def Let_def split: if_split_asm)
  qed
qed

lemma auth_failed_reply:
  "(\<exists>n m h. auth_failed message e = HttpError n m h \<and> n \<in> {401, 503}) \<or> (\<exists>x. auth_failed message e = ServerError x)"
  by (cases e) (simp_all add: auth_failed_def)

lemma request_identity_error:
  assumes "fst (request_identity a rq js) = Inl x"
  shows "(\<exists>n m h. x = HttpError n m h \<and> n \<in> {401, 503}) \<or> (\<exists>y. x = ServerError y)"
proof -
  consider (headers) "aa_mode a = ''headers''" | (jwt) "aa_mode a = ''jwt_hs256''" | (oidc) "aa_mode a = ''oidc_jwks''"
    | (bearer) "aa_mode a \<noteq> ''headers''" "aa_mode a \<noteq> ''jwt_hs256''" "aa_mode a \<noteq> ''oidc_jwks''" by blast
  then show ?thesis
  proof cases
    case headers
    with assms have "header_identity rq = Inl x" by (simp add: request_identity_def)
    then show ?thesis by (auto simp: header_identity_def split: option.splits if_splits)
  next
    case jwt
    with assms have "x = ServerError ''AttributeError'' \<or> (\<exists>message e. x = auth_failed message e)"
      by (auto simp: request_identity_def map_sum_Inl_iff split: option.splits)
    then show ?thesis using auth_failed_reply by blast
  next
    case oidc
    with assms have "x = ServerError ''AttributeError'' \<or> (\<exists>message e. x = auth_failed message e)"
      by (auto simp: request_identity_def split: option.splits sum.splits prod.splits)
    then show ?thesis using auth_failed_reply by blast
  next
    case bearer
    with assms have "bearer_identity a (rq_authorization rq) = Inl x" by (simp add: request_identity_def)
    then show ?thesis by (auto simp: bearer_identity_def Let_def split: option.splits if_splits)
  qed
qed

text \<open>The identity a request is handled with, if it is authenticated.\<close>

definition caller :: "('r, 'p, 's, 'b, 'l) api_config \<Rightarrow> api_request \<Rightarrow> ('r, 'p, 's, 'b, 'l) api_state \<Rightarrow> identity_context option" where
  "caller cfg rq st = (case fst (request_identity (ac_auth cfg) rq (st_jwks st)) of Inl _ \<Rightarrow> None | Inr i \<Rightarrow> Some i)"

lemma handle_caller:
  "caller cfg rq st = Some i \<Longrightarrow>
   handle cfg rq c st = dispatch cfg rq c i (st\<lparr>st_jwks := snd (request_identity (ac_auth cfg) rq (st_jwks st))\<rparr>)"
  "caller cfg rq st = None \<Longrightarrow>
   snd (handle cfg rq c st) = st\<lparr>st_jwks := snd (request_identity (ac_auth cfg) rq (st_jwks st))\<rparr>"
  by (auto simp: caller_def handle_def authenticated_def split: prod.splits sum.splits)

lemma tenant_view_jwks [simp]: "tenant_view w t (st\<lparr>st_jwks := js\<rparr>) = tenant_view w t st"
  by (simp add: tenant_view_def)

lemma sql_ok_jwks [simp]: "sql_ok (st\<lparr>st_jwks := js\<rparr>) = sql_ok st"
  by (simp add: sql_ok_def)

text \<open>Any sequence of requests in which no authenticated caller belongs to the tenant.\<close>

inductive foreign_requests :: "('b, 'l) sql_config \<Rightarrow> string \<Rightarrow> string \<Rightarrow> ('b, 'l) sql_state \<Rightarrow> ('b, 'l) sql_state \<Rightarrow> bool"
  for cfg w t st where
  none: "foreign_requests cfg w t st st"
| request: "foreign_requests cfg w t st s \<Longrightarrow> valid_instant (rq_now rq) \<Longrightarrow>
     (\<And>i. caller cfg rq s = Some i \<Longrightarrow> (w, t) \<noteq> (workspace_id i, tenant_id i)) \<Longrightarrow>
     foreign_requests cfg w t st (snd (handle cfg rq c s))"

lemma handle_keeps_view:
  assumes "sql_backed cfg" "sql_ok s" "valid_instant (rq_now rq)" "w \<noteq> []" "t \<noteq> []"
    and "\<And>i. caller cfg rq s = Some i \<Longrightarrow> (w, t) \<noteq> (workspace_id i, tenant_id i)"
  shows "sql_ok (snd (handle cfg rq c s)) \<and> tenant_view w t (snd (handle cfg rq c s)) = tenant_view w t s"
proof (cases "caller cfg rq s")
  case None
  then show ?thesis using assms(2) by (simp add: handle_caller(2))
next
  case (Some i)
  let ?s = "s\<lparr>st_jwks := snd (request_identity (ac_auth cfg) rq (st_jwks s))\<rparr>"
  have "sql_isolates i ?s (snd (handle cfg rq c s))"
    using sql_dispatch_isolates [OF assms(1) _ assms(3), of ?s i c] assms(2) by (simp add: handle_caller(1) [OF Some])
  with isolates_view [OF this assms(6) [OF Some] assms(4,5)] show ?thesis by (simp add: sql_isolates_def)
qed

text \<open>
  C6. Tenants are isolated across the whole HTTP surface: over the SQLite and the PostgreSQL stores, no sequence of
  requests by other tenants or by unauthenticated callers, to whatever routes and with whatever bodies, changes anything
  in a tenant's view, which is its audit trail, its approvals with their token hashes, its attachment records and its
  stored runs.\<close>

theorem api_tenant_isolation:
  assumes "sql_backed cfg" "sql_ok st" "w \<noteq> []" "t \<noteq> []" "foreign_requests cfg w t st st'"
  shows "tenant_view w t st' = tenant_view w t st"
proof -
  from assms(5) have "sql_ok st' \<and> tenant_view w t st' = tenant_view w t st"
  proof induction
    case none
    then show ?case using assms(2) by simp
  next
    case (request s rq c)
    then show ?case using handle_keeps_view [OF assms(1) _ request.hyps(2) assms(3,4), of s c] by simp
  qed
  then show ?thesis ..
qed

text \<open>
  C8. No effect without authentication, and every effect under the caller's name: a request that is not authenticated is
  answered with an error and changes nothing but the cache of signing keys; a request of an authenticated caller only
  ever appends to the audit log, and only events that carry the caller's workspace and tenant.\<close>

theorem requests_audited_under_caller:
  assumes "sql_backed cfg" "sql_ok st" "valid_instant (rq_now rq)" "handle cfg rq c st = (reply, st')"
  shows "(caller cfg rq st = None \<longrightarrow>
      (\<exists>js. st' = st\<lparr>st_jwks := js\<rparr>) \<and> ((\<exists>n m h. reply = HttpError n m h \<and> n \<in> {401, 503}) \<or> (\<exists>x. reply = ServerError x))) \<and>
    (\<forall>i. caller cfg rq st = Some i \<longrightarrow> (\<exists>es. st_audit st' = fold audit_append es (st_audit st) \<and>
      (\<forall>e\<in>set es. ev_workspace_id e = workspace_id i \<and> dget (ev_payload e) ''tenant_id'' = VStr (tenant_id i))))"
proof (intro conjI impI allI)
  assume none: "caller cfg rq st = None"
  then obtain js where "fst (request_identity (ac_auth cfg) rq (st_jwks st)) = Inl reply" "st' = st\<lparr>st_jwks := js\<rparr>"
    using assms(4) by (auto simp: caller_def handle_def authenticated_def split: prod.splits sum.splits)
  then show "\<exists>js. st' = st\<lparr>st_jwks := js\<rparr>"
    "(\<exists>n m h. reply = HttpError n m h \<and> n \<in> {401, 503}) \<or> (\<exists>x. reply = ServerError x)"
    using request_identity_error by blast+
next
  fix i assume i: "caller cfg rq st = Some i"
  let ?s = "st\<lparr>st_jwks := snd (request_identity (ac_auth cfg) rq (st_jwks st))\<rparr>"
  have "sql_isolates i ?s st'"
    using sql_dispatch_isolates [OF assms(1) _ assms(3), of ?s i c] assms(2,4) handle_caller(1) [OF i, of c] by simp
  then have "audit_grows i (st_audit st) (st_audit st')" by (simp add: sql_isolates_def)
  then show "\<exists>es. st_audit st' = fold audit_append es (st_audit st) \<and>
      (\<forall>e\<in>set es. ev_workspace_id e = workspace_id i \<and> dget (ev_payload e) ''tenant_id'' = VStr (tenant_id i))"
    by (auto simp: audit_grows_def scoped_event_def)
qed

text \<open>
  C7. In staging and production the identity comes from a verified token and from nothing else: an application that
  \<^verbatim>\<open>create_app\<close> accepted there authenticates with a signed token (an HS256 secret has at least 32 bytes), and the
  identity headers of the request make no difference.\<close>

theorem production_identity_from_token:
  assumes "create_app_auth env mode opts platform_env env_platform = Inr (a, js0)" "secured_env (aa_platform_env a)"
  shows "request_identity a (rq\<lparr>rq_user_id := u, rq_workspace_id := w, rq_tenant_id := t, rq_role := r\<rparr>) js = request_identity a rq js \<and>
    (\<forall>i. fst (request_identity a rq js) = Inr i \<longrightarrow>
       (\<exists>j. aa_jwt a = Some j \<and> 32 \<le> length (hs_secret j) \<and>
          hs256_authenticate (ae_json_loads (rq_auth rq)) (rq_hmac rq) (rq_time rq) j (rq_authorization rq) = Inr i) \<or>
       (\<exists>c. aa_oidc a = Some c \<and> fst (jwks_authenticate (rq_auth rq) c js (rq_authorization rq)) = Inr i))"
proof -
  have "aa_mode a = ''jwt_hs256'' \<and> (\<exists>j. aa_jwt a = Some j \<and> 32 \<le> length (hs_secret j)) \<or>
      aa_mode a = ''oidc_jwks'' \<and> (\<exists>c. aa_oidc a = Some c)"
    by (rule create_app_auth_secured [OF assms])
  then show ?thesis
  proof (elim disjE conjE exE)
    fix j assume "aa_mode a = ''jwt_hs256''" "aa_jwt a = Some j" "32 \<le> length (hs_secret j)"
    then show ?thesis by (simp add: request_identity_def map_sum_id_Inr_iff)
  next
    fix c assume "aa_mode a = ''oidc_jwks''" "aa_oidc a = Some c"
    then show ?thesis by (simp add: request_identity_def split: prod.split sum.split)
  qed
qed

text \<open>
  C26. An approval record is created through the API only where the policy asks for one: the answer is 201 only if the tool
  is registered with a risk other than read and the caller's role may use it; the record then stands in the store under
  the caller's workspace, tenant and user and one \<^verbatim>\<open>approval.requested\<close> event is appended. Every other answer leaves the
  whole state as it was.\<close>

theorem approval_creation_gated:
  assumes "sql_backed cfg" "sql_ok st" "api_create_approval cfg rq request i st = (reply, st')"
  shows "(\<exists>d r e. reply = Json 201 (VDict (approval_as_dict r)) [] \<and> map_of (ac_definitions cfg) (acr_tool_name request) = Some d \<and>
       td_risk d \<noteq> READ \<and> complete_identity i \<and> role_allows (art_policy (ac_runtime cfg)) (role i) (td_name d) \<and>
       (\<exists>h. table_amap (st_approvals st') (ap_id r) = Some (r, h)) \<and> in_scope (workspace_id i) (tenant_id i) r \<and>
       user_id (ap_requester r) = user_id i \<and> st_audit st' = audit_append e (st_audit st) \<and>
       ev_type e = ''approval.requested'' \<and> scoped_event i e) \<or>
    (st' = st \<and> (\<nexists>n b h. reply = Json n b h))"
proof -
  obtain ops where ops: "ac_approvals cfg = Some ops" "ops \<in> {sqlite_approval_ops, pg_approval_ops}"
    using assms(1) by (auto simp: sql_backed_def)
  note store = sql_approval_store [OF ops(2)]
  show ?thesis
  proof (cases "\<exists>d. map_of (ac_definitions cfg) (acr_tool_name request) = Some d \<and> td_risk d \<noteq> READ \<and>
      pd_outcome (authorize (art_policy (ac_runtime cfg)) i (td_name d) None) = ''approval_required''")
    case False
    then show ?thesis
      using assms(3) ops(1) authorize_outcomes [of "art_policy (ac_runtime cfg)" i _ None]
      by (auto simp: api_create_approval_def approvals_required_def Let_def split: option.splits if_splits)
  next
    case True
    then obtain d where d: "map_of (ac_definitions cfg) (acr_tool_name request) = Some d" "td_risk d \<noteq> READ"
      "pd_outcome (authorize (art_policy (ac_runtime cfg)) i (td_name d) None) = ''approval_required''" by blast
    obtain res s where r: "approval_request ops (rq_approval rq) i (td_name d) (acr_arguments request) (td_risk d)
      (acr_idempotency_key request) (acr_ttl_seconds request) (st_approvals st) = (res, s)" by (rule prod.exhaust)
    show ?thesis
    proof (cases res)
      case (Inl e)
      with r request_Inl [of ops] have "s = st_approvals st" by metis
      with assms(3) d r Inl ops(1) show ?thesis
        by (auto simp: api_create_approval_def approvals_required_def approval_uncaught_def split: approval_error.splits)
    next
      case (Inr x)
      from approval_store.request_Inr [OF store _ r [unfolded Inr]] assms(2)
      have x: "\<exists>h. table_amap s (ap_id x) = Some (x, h)" "in_scope (workspace_id i) (tenant_id i) x" "user_id (ap_requester x) = user_id i"
        by (auto simp: sql_ok_def)
      have st': "reply = Json 201 (VDict (approval_as_dict x)) []" "st' = record_approval_event rq ''approval.requested'' i (ap_id x)
          [(''tool'', VStr (ap_tool_name x)), (''risk'', VStr (risk_value (ap_risk x))), (''arguments_hash'', VStr (ap_arguments_hash x))]
          (request_id_of rq) (st\<lparr>st_approvals := s\<rparr>)"
        using assms(3) d r Inr ops(1) by (simp_all add: api_create_approval_def approvals_required_def)
      have "complete_identity i" "role_allows (art_policy (ac_runtime cfg)) (role i) (td_name d)"
        using d(3) by (auto simp: authorize_required_cases)
      moreover have "\<exists>e. st_audit st' = audit_append e (st_audit st) \<and> ev_type e = ''approval.requested'' \<and> scoped_event i e"
        using record_approval_event_appends [of "[(''tool'', VStr (ap_tool_name x)), (''risk'', VStr (risk_value (ap_risk x))),
          (''arguments_hash'', VStr (ap_arguments_hash x))]" rq "''approval.requested''" i "ap_id x" "request_id_of rq" "st\<lparr>st_approvals := s\<rparr>"]
        by (simp add: st')
      ultimately show ?thesis using d x st' by auto
    qed
  qed
qed

lemma upload_Inr_record:
  assumes "upload img sha uid now sv i fn ct data s = (Inr r, s')"
  shows "\<exists>info. check_upload img sv i fn ct data = Inr info \<and> r = upload_record sha uid now i fn ct data info"
proof -
  have nc: "fst (upload_cleanup sv q e t) \<noteq> Inr r" for q e t
    by (auto simp: upload_cleanup_def split: prod.splits sum.splits blob_error.splits)
  show ?thesis
    using assms nc
    by (auto simp: upload_def upload_store_def split: sum.splits prod.splits blob_error.splits) (metis fst_conv)+
qed

text \<open>
  C27. An upload through the API: when the rate limiter refuses, the answer is 429 with the seconds to wait and only the
  limiter's state has changed; the answer is 201 only when the limiter allowed the call and the whole body, never a
  truncated one, passed every check of the service, and then the size, the digest and the owner of the record are those
  of the request and one \<^verbatim>\<open>attachment.created\<close> event is appended; a body above the limit is never accepted.\<close>

theorem api_upload_guarded:
  assumes "ac_attachments cfg = Some sv" "0 \<le> sv_max_bytes sv" "api_upload cfg rq form i st = (reply, st')"
    and "ac_upload_check cfg (rq_monotonic rq) (limiter_key i) (st_limits st) = ((allowed, retry), l)"
  shows "(\<not> allowed \<longrightarrow> reply = HttpError 429 ''image upload rate limit exceeded'' [(''Retry-After'', int_str retry)] \<and>
      st' = st\<lparr>st_limits := l\<rparr>) \<and>
    (\<forall>body h. reply = Json 201 body h \<longrightarrow> allowed \<and> int (length (uf_body form)) \<le> sv_max_bytes sv \<and>
      sv_scan sv (uf_body form) (text_or_empty (uf_content_type form)) = Inr () \<and>
      (\<exists>r e. body = VDict (attachment_payload r) \<and> att_size_bytes r = int (length (uf_body form)) \<and>
         att_sha256 r = rq_sha256 rq (uf_body form) \<and> record_scope r = identity_scope i \<and>
         st_audit st' = audit_append e (st_audit st) \<and> ev_type e = ''attachment.created'' \<and> scoped_event i e))"
proof (cases allowed)
  case False
  then show ?thesis using assms by (auto simp: api_upload_def attachments_required_def rate_limited_def)
next
  case True
  let ?data = "take (nat (sv_max_bytes sv + 1)) (uf_body form)" and ?ct = "text_or_empty (uf_content_type form)"
  let ?fn = "or_default (uf_filename form) ''upload''"
  obtain res a where u: "upload (rq_image_open rq) (rq_sha256 rq) (rq_upload_uuid rq) (rq_now rq) sv i ?fn ?ct ?data (st_attachments st) = (res, a)"
    by (rule prod.exhaust)
  show ?thesis
  proof (cases res)
    case (Inl e)
    then have "reply = upload_failed e"
      using assms True u by (simp add: api_upload_def attachments_required_def rate_limited_def)
    then show ?thesis using True by (auto simp: upload_failed_def split: attachment_error.splits)
  next
    case (Inr r)
    obtain info where c: "check_upload (rq_image_open rq) sv i ?fn ?ct ?data = Inr info" "r = upload_record (rq_sha256 rq) (rq_upload_uuid rq) (rq_now rq) i ?fn ?ct ?data info"
      using u Inr upload_Inr_record by blast
    then have len: "int (length ?data) \<le> sv_max_bytes sv" and scan: "sv_scan sv ?data ?ct = Inr ()" by (auto dest: check_upload_Inr)
    then have full: "?data = uf_body form" using assms(2) by (cases "length (uf_body form) \<le> nat (sv_max_bytes sv + 1)") auto
    let ?rec = "record_attachment_event rq ''attachment.created'' i (att_id r)
              [(''sha256'', VStr (att_sha256 r)), (''size_bytes'', VInt (att_size_bytes r)),
               (''content_type'', VStr (att_content_type r))] (request_id_of rq) (st\<lparr>st_limits := l, st_attachments := a\<rparr>)"
    let ?out = "(Json 201 (VDict (attachment_payload r)) [], ?rec)"
    have counted: "counted ''attachments_total'' [(''operation'', ''upload'')] ?out = (reply, st')"
      using assms True u Inr by (simp add: api_upload_def attachments_required_def rate_limited_def)
    have st': "reply = Json 201 (VDict (attachment_payload r)) []" "st_audit st' = st_audit ?rec"
      using counted_known [of "''attachments_total''" "''operation''" "''upload''" ?out] counted_simps(1) [of "''attachments_total''" "[(''operation'', ''upload'')]" ?out]
      by (simp_all add: counted)
    obtain e where "st_audit st' = audit_append e (st_audit st)" "ev_type e = ''attachment.created''" "scoped_event i e"
      using st'(2) record_attachment_event_appends [of "[(''sha256'', VStr (att_sha256 r)), (''size_bytes'', VInt (att_size_bytes r)),
               (''content_type'', VStr (att_content_type r))]" rq "''attachment.created''" i "att_id r" "request_id_of rq" "st\<lparr>st_limits := l, st_attachments := a\<rparr>"]
      by auto
    then show ?thesis using True st'(1) len scan full c(2) by auto
  qed
qed

text \<open>
  The event view of a run: the events are only returned to the user who started the run, in its workspace and tenant,
  and they are exactly recorded events of that run, workspace and tenant.\<close>

lemma run_events_only_for_owner:
  assumes "api_get_events cfg run_id i st = (Json 200 body h, st')" "run_id \<noteq> []" "workspace_id i \<noteq> []"
  shows "\<exists>stored events. fst (run_get (ac_run_ops cfg) run_id i (st_service st)) = Some stored \<and>
    workspace_id (sr_identity stored) = workspace_id i \<and> tenant_id (sr_identity stored) = tenant_id i \<and>
    user_id (sr_identity stored) = user_id i \<and>
    body = VDict [(''run_id'', VStr run_id), (''trace_id'', VStr (rr_trace_id (sr_result stored))), (''events'', VList (map event_payload events))] \<and>
    (\<forall>e\<in>set events. ev_run_id e = run_id \<and> scoped_event i e)"
proof -
  obtain x s where g: "run_get (ac_run_ops cfg) run_id i (st_service st) = (x, s)" by (rule prod.exhaust)
  then obtain stored where stored: "x = Some stored" using assms(1) by (cases x) (auto simp: api_get_events_def)
  let ?events = "audit_list_events None (Some run_id) (Some (workspace_id i)) (Some (tenant_id i)) (rs_audit s)"
  have "body = VDict [(''run_id'', VStr run_id), (''trace_id'', VStr (rr_trace_id (sr_result stored))), (''events'', VList (map event_payload ?events))]"
    using assms(1) g stored by (simp add: api_get_events_def)
  moreover have "workspace_id (sr_identity stored) = workspace_id i \<and> tenant_id (sr_identity stored) = tenant_id i \<and> user_id (sr_identity stored) = user_id i"
    using g stored by (auto simp: run_get_def Let_def split: option.splits prod.splits if_splits)
  moreover have "ev_run_id e = run_id \<and> scoped_event i e" if "e \<in> set ?events" for e
    using that assms(2,3)
    by (auto simp: audit_list_events_def sqlite_list_events_def clause_def matches_def scoped_event_def split: option.splits)
  ultimately show ?thesis using g stored by auto
qed

section \<open>Reported statuses\<close>

text \<open>
  Two answers that do not tell the caller what happened. In bearer mode an \<^verbatim>\<open>Authorization\<close> header with a character
  outside ASCII makes \<^verbatim>\<open>hmac.compare_digest\<close> raise, so that the answer is 500 and not 401; and a failure to store the bytes of a
  valid image is answered with 415, the status of an unsupported media type.
\<close>

lemma bearer_non_ascii_raises:
  assumes "aa_mode a = ''bearer''" "aa_bearer_token a = Some token" "token \<noteq> []" "rq_authorization rq = Some given" "\<not> ascii_text given"
  shows "request_identity a rq js = (Inl (ServerError ''TypeError''), js)"
  using assms by (simp add: request_identity_def bearer_identity_def text_or_empty_def or_default_def)

lemma storage_failure_is_415:
  "upload_failed (AttachmentError ''attachment content could not be stored'') = HttpError 415 ''attachment content could not be stored'' []"
  by (simp add: upload_failed_def startswith_def)

section \<open>Concrete requests\<close>

definition demo_tools :: "(string, tool_definition) dict" where
  "demo_tools = [(''erp.refund'', \<lparr>td_name = ''erp.refund'', td_risk = WRITE, td_description = ''refund''\<rparr>)]"

definition demo_api :: "((path, string) dict, rate_limiter) sql_config" where
  "demo_api = \<lparr>ac_auth = \<lparr>aa_mode = ''headers'', aa_bearer_token = None, aa_jwt = None, aa_oidc = None, aa_platform_env = ''development''\<rparr>,
     ac_provider_mode = ''synthetic'', ac_storage_mode = ''postgres'',
     ac_runtime = demo_rt\<lparr>art_policy := policy_engine_init demo_tools (Some [(''support'', {''erp.refund''})])\<rparr>,
     ac_definitions = demo_tools, ac_run_ops = Some pg_run_ops, ac_approvals = Some pg_approval_ops,
     ac_attachments = Some demo_att_service, ac_object_storage = ''filesystem'', ac_vision = None,
     ac_upload_check = check, ac_analysis_check = check, ac_rate_limit_mode = ''in_memory'', ac_exporter = None\<rparr>"

definition demo_api_request :: api_request where
  "demo_api_request = \<lparr>rq_authorization = None, rq_user_id = Some ''u1'', rq_workspace_id = Some ''w1'', rq_tenant_id = Some ''t1'',
     rq_role = Some ''support'', rq_request_id = ''req'', rq_trace_id = ''trace'', rq_event_uuid = ''e1'', rq_utc = ''2026'',
     rq_auth = demo_oidc_env, rq_hmac = demo_hmac, rq_time = 0, rq_monotonic = 0, rq_call = demo_env, rq_approval = demo_aenv,
     rq_sha256 = \<lambda>_. demo_digest, rq_image_open = demo_image, rq_upload_uuid = demo_uid, rq_now = 0, rq_gateway_health = [],
     rq_model_health = []\<rparr>"

definition demo_api_state :: "((path, string) dict, rate_limiter) sql_state" where
  "demo_api_state = \<lparr>st_service = run_service_init [] (audit_log_of (Some empty_table) [demo_event ''t2'']), st_approvals = [],
     st_attachments = demo_att_state, st_limits = demo_limiter, st_metrics = [], st_jwks = demo_oidc_start\<rparr>"

definition demo_create :: approval_create_request where
  "demo_create = \<lparr>acr_tool_name = ''erp.refund'', acr_arguments = [], acr_idempotency_key = Some ''k'', acr_ttl_seconds = 900\<rparr>"

definition demo_form :: upload_form where
  "demo_form = \<lparr>uf_filename = Some ''x.png'', uf_content_type = Some ''image/png'', uf_body = ''png''\<rparr>"

lemma demo_api_ok: "sql_backed demo_api" "sql_ok demo_api_state" "valid_instant (rq_now demo_api_request)"
  by (auto simp: sql_backed_def demo_api_def demo_att_service_def sql_ok_def demo_api_state_def demo_att_state_def table_invar_def
      table_att_invar_def demo_api_request_def valid_instant_def day_us_def)

lemma demo_caller: "caller demo_api demo_api_request st = Some demo_identity"
  by (simp add: caller_def request_identity_def demo_api_def header_identity_def demo_api_request_def demo_identity_def is_space_def code_def)

theorem api_tenant_isolation_witness:
  "tenant_view ''w1'' ''t2'' (snd (handle demo_api demo_api_request (CreateApproval demo_create) demo_api_state)) =
   tenant_view ''w1'' ''t2'' demo_api_state"
proof -
  have "foreign_requests demo_api ''w1'' ''t2'' demo_api_state (snd (handle demo_api demo_api_request (CreateApproval demo_create) demo_api_state))"
    by (intro foreign_requests.intros demo_api_ok(3)) (simp add: demo_caller, simp add: demo_identity_def)
  then show ?thesis by (intro api_tenant_isolation [OF demo_api_ok(1,2)]) simp_all
qed

theorem requests_audited_under_caller_witness:
  "\<exists>es. st_audit (snd (handle demo_api demo_api_request (CreateApproval demo_create) demo_api_state)) =
     fold audit_append es (st_audit demo_api_state) \<and> list_all (\<lambda>e. ev_workspace_id e = ''w1'') es"
proof -
  have "\<exists>es. st_audit (snd (handle demo_api demo_api_request (CreateApproval demo_create) demo_api_state)) =
      fold audit_append es (st_audit demo_api_state) \<and>
      (\<forall>e\<in>set es. ev_workspace_id e = workspace_id demo_identity \<and> dget (ev_payload e) ''tenant_id'' = VStr (tenant_id demo_identity))"
    using requests_audited_under_caller [OF demo_api_ok, of "CreateApproval demo_create"] demo_caller [of demo_api_state] by (metis prod.collapse)
  then show ?thesis by (auto simp: list_all_iff demo_identity_def)
qed

definition demo_auth_options :: auth_options where
  "demo_auth_options = \<lparr>ao_bearer_token = None, ao_jwt_secret = Some (replicate 32 CHR ''s''), ao_jwt_issuer = None, ao_jwt_audience = None,
     ao_oidc_issuer = None, ao_oidc_audience = None, ao_oidc_jwks_uri = None, ao_oidc_allowed_hosts = []\<rparr>"

definition demo_app_auth :: app_auth where
  "demo_app_auth = \<lparr>aa_mode = ''jwt_hs256'', aa_bearer_token = None,
     aa_jwt = Some \<lparr>hs_secret = replicate 32 CHR ''s'', hs_issuer = None, hs_audience = None\<rparr>, aa_oidc = None, aa_platform_env = ''production''\<rparr>"

lemma demo_create_app: "create_app_auth demo_oidc_env ''jwt_hs256'' demo_auth_options (Some ''production'') [] = Inr (demo_app_auth, None)"
  by (simp add: create_app_auth_def demo_auth_options_def demo_app_auth_def text_or_empty_def or_default_def hs256_init_def utf8_encode_def
      code_def lower_def lower_char_def is_upper_def numeral_eq_Suc)

theorem production_identity_from_token_witness:
  "request_identity demo_app_auth (demo_api_request\<lparr>rq_user_id := Some ''admin'', rq_workspace_id := Some ''w9'', rq_tenant_id := Some ''t9'', rq_role := Some ''admin''\<rparr>) (st_jwks demo_api_state) =
   request_identity demo_app_auth demo_api_request (st_jwks demo_api_state)"
  by (rule conjunct1 [OF production_identity_from_token [OF demo_create_app]]) (simp add: demo_app_auth_def secured_env_def)

lemma demo_api_simps [simp]:
  "ac_approvals demo_api = Some pg_approval_ops" "ac_definitions demo_api = demo_tools" "ac_attachments demo_api = Some demo_att_service"
  "art_policy (ac_runtime demo_api) = policy_engine_init demo_tools (Some [(''support'', {''erp.refund''})])" "ac_upload_check demo_api = check"
  "rq_approval demo_api_request = demo_aenv" "st_approvals demo_api_state = []" "st_limits demo_api_state = demo_limiter"
  "acr_tool_name demo_create = ''erp.refund''" "acr_arguments demo_create = []" "acr_idempotency_key demo_create = Some ''k''"
  "acr_ttl_seconds demo_create = 900" "rq_monotonic demo_api_request = 0"
  by (simp_all add: demo_api_def demo_api_request_def demo_api_state_def demo_create_def)

theorem approval_creation_gated_witness:
  "\<exists>r e. fst (api_create_approval demo_api demo_api_request demo_create demo_requester demo_api_state) = Json 201 (VDict (approval_as_dict r)) [] \<and>
     st_audit (snd (api_create_approval demo_api demo_api_request demo_create demo_requester demo_api_state)) = audit_append e (st_audit demo_api_state) \<and>
     ev_type e = ''approval.requested'' \<and> scoped_event demo_requester e"
proof -
  obtain reply st' where a: "api_create_approval demo_api demo_api_request demo_create demo_requester demo_api_state = (reply, st')" by (rule prod.exhaust)
  obtain r s1 where r: "approval_request sqlite_approval_ops demo_aenv demo_requester ''erp.refund'' [] WRITE (Some ''k'') 900 [] = (Inr r, s1)"
    by (rule demo_requested)
  have "pd_outcome (authorize (policy_engine_init demo_tools (Some [(''support'', {''erp.refund''})])) demo_requester ''erp.refund'' None) = ''approval_required''"
    by (auto simp: authorize_required_cases complete_identity_def role_allows_def policy_engine_init_def demo_tools_def demo_requester_def
        is_space_def code_def)
  with a r have "\<exists>n b h. reply = Json n b h"
    by (auto simp: api_create_approval_def approvals_required_def demo_tools_def pg_approval_ops_eq Let_def)
  with approval_creation_gated [OF demo_api_ok(1,2) a] show ?thesis unfolding a by auto
qed

theorem api_upload_guarded_witness:
  "(\<exists>r e. fst (api_upload demo_api demo_api_request demo_form demo_att_identity demo_api_state) = Json 201 (VDict (attachment_payload r)) [] \<and>
      att_size_bytes r = 3 \<and> ev_type e = ''attachment.created'' \<and>
      st_audit (snd (api_upload demo_api demo_api_request demo_form demo_att_identity demo_api_state)) = audit_append e (st_audit demo_api_state))"
proof -
  let ?u = "api_upload demo_api demo_api_request demo_form demo_att_identity demo_api_state"
  obtain l where l: "check 0 (limiter_key demo_att_identity) demo_limiter = ((True, 0), l)"
    by (simp add: check_def demo_limiter_def events_of_def Let_def)
  obtain a where a: "upload demo_image (\<lambda>_. demo_digest) demo_uid 0 demo_att_service demo_att_identity ''x.png'' ''image/png'' ''png'' demo_att_state =
      (Inr demo_uploaded, a)" using demo_upload by blast
  have "take (nat (sv_max_bytes demo_att_service + 1)) ''png'' = ''png''" "st_attachments demo_api_state = demo_att_state"
    by (simp_all add: demo_att_service_def demo_api_state_def)
  with a l have r: "fst ?u = Json 201 (VDict (attachment_payload demo_uploaded)) []"
    by (simp add: api_upload_def attachments_required_def rate_limited_def demo_form_def demo_api_request_def text_or_empty_def or_default_def
        counted_known split del: if_split)
  have max: "0 \<le> sv_max_bytes demo_att_service" by (simp add: demo_att_service_def)
  obtain reply st' where u: "?u = (reply, st')" by (rule prod.exhaust)
  have check: "ac_upload_check demo_api (rq_monotonic demo_api_request) (limiter_key demo_att_identity) (st_limits demo_api_state) = ((True, 0), l)"
    using l by simp
  from api_upload_guarded [OF demo_api_simps(3) max u check]
  obtain r e where "VDict (attachment_payload demo_uploaded) = VDict (attachment_payload r)" "att_size_bytes r = int (length (uf_body demo_form))"
    "st_audit (snd ?u) = audit_append e (st_audit demo_api_state)" "ev_type e = ''attachment.created''"
    using r u by auto
  then show ?thesis using r by (intro exI [of _ r] exI [of _ e]) (simp add: demo_form_def)
qed

definition demo_stored_run :: stored_run where
  "demo_stored_run = \<lparr>sr_result = \<lparr>rr_status = BLOCKED, rr_run_id = ''run'', rr_trace_id = ''trace'', rr_agent_id = agent_id, rr_message = ''m'',
     rr_source_id = None, rr_observed_at = None, rr_external_ref = None\<rparr>, sr_identity = demo_identity, sr_idempotency_key = None\<rparr>"

definition demo_run_state :: "((path, string) dict, rate_limiter) sql_state" where
  "demo_run_state = demo_api_state\<lparr>st_service := \<lparr>rs_runs = [(''run'', demo_stored_run)], rs_idempotency = [], rs_store = [demo_stored_run],
     rs_audit = audit_log_of None [demo_event ''t1'', demo_event ''t2'']\<rparr>\<rparr>"

lemma run_events_only_for_owner_witness:
  "\<exists>events. fst (api_get_events demo_api ''run'' demo_identity demo_run_state) = Json 200 (VDict [(''run_id'', VStr ''run''),
       (''trace_id'', VStr ''trace''), (''events'', VList (map event_payload events))]) [] \<and>
     list_all (\<lambda>e. ev_run_id e = ''run'' \<and> scoped_event demo_identity e) events"
proof -
  have g: "run_get (ac_run_ops demo_api) ''run'' demo_identity (st_service demo_run_state) = (Some demo_stored_run, st_service demo_run_state)"
    by (simp add: run_get_def demo_run_state_def demo_stored_run_def)
  then have "\<exists>body. api_get_events demo_api ''run'' demo_identity demo_run_state = (Json 200 body [], demo_run_state)"
    by (simp add: api_get_events_def)
  then obtain body where e: "api_get_events demo_api ''run'' demo_identity demo_run_state = (Json 200 body [], demo_run_state)" by blast
  have "workspace_id demo_identity \<noteq> []" by (simp add: demo_identity_def)
  from run_events_only_for_owner [OF e _ this] g show ?thesis
    by (auto simp: e list_all_iff demo_stored_run_def)
qed

end
