(* ===== verification/Deployment_Config.thy ===== *)
theory Deployment_Config
  imports Outbound_Adapters Api_Safety
begin

text \<open>
  How a process is put together from its environment variables: \<^verbatim>\<open>services/bootstrap.py\<close> and \<^verbatim>\<open>build_default_app\<close> of
  \<^verbatim>\<open>services/api/app.py\<close>. The result is a record of what was configured, or the exception that stopped the start. Opening the
  databases, the S3 client and the Redis client are parameters that may fail; the paths of the database files are left out.
\<close>

section \<open>The environment\<close>

datatype config_error = ConfigRuntimeError string | ConfigValueError string | ConfigUncaught string

type_synonym environ = "string \<Rightarrow> string option"

definition getenv :: "environ \<Rightarrow> string \<Rightarrow> string \<Rightarrow> string" where
  "getenv env k d = (case env k of None \<Rightarrow> d | Some v \<Rightarrow> v)"

text \<open>\<^verbatim>\<open>os.getenv(k) or None\<close>.\<close>

definition getenv_or_none :: "environ \<Rightarrow> string \<Rightarrow> string option" where
  "getenv_or_none env k = (case env k of None \<Rightarrow> None | Some v \<Rightarrow> if v = [] then None else Some v)"

text \<open>Statements that raise, in sequence.\<close>

definition rbind :: "('e, 'a) result \<Rightarrow> ('a \<Rightarrow> ('e, 'b) result) \<Rightarrow> ('e, 'b) result" where
  "rbind m k = (case m of Inl e \<Rightarrow> Inl e | Inr x \<Rightarrow> k x)"

definition refuse_if :: "bool \<Rightarrow> string \<Rightarrow> (config_error, unit) result" where
  "refuse_if b msg = (if b then Inl (ConfigRuntimeError msg) else Inr ())"

definition constructed :: "(string, 'a) result \<Rightarrow> (config_error, 'a) result" where
  "constructed r = map_sum ConfigValueError id r"

definition to_int :: "string \<Rightarrow> (config_error, int) result" where
  "to_int s = (case py_int s of None \<Rightarrow> Inl (ConfigValueError ''invalid literal for int()'') | Some i \<Rightarrow> Inr i)"

text \<open>
  \<^verbatim>\<open>float(s)\<close>: an optional sign, then \<^verbatim>\<open>inf\<close>, \<^verbatim>\<open>infinity\<close>, \<^verbatim>\<open>nan\<close> or a decimal number with an optional exponent, in any case of
  letters and with surrounding white space. The value is the exact decimal, without rounding.
\<close>

definition decimal :: "string \<Rightarrow> rat option" where
  "decimal mantissa =
     (let (whole, frac) = partition_on CHR ''.'' mantissa;
          part = (\<lambda>s. if s = [] then Some 0 else digits_value 0 False s)
      in if whole = [] \<and> frac = [] then None
         else (case (part whole, part frac) of
             (Some a, Some b) \<Rightarrow> Some (of_nat a + of_nat b / 10 ^ length (filter is_digit frac))
           | _ \<Rightarrow> None))"

definition signed :: "string \<Rightarrow> bool \<times> string" where
  "signed s = (case s of [] \<Rightarrow> (False, []) | c # cs \<Rightarrow> if c = CHR ''-'' then (True, cs) else if c = CHR ''+'' then (False, cs) else (False, s))"

definition py_float :: "string \<Rightarrow> pyfloat option" where
  "py_float s =
     (let (negative, body) = signed (lower (strip s)) in
      if body = ''inf'' \<or> body = ''infinity'' then Some (if negative then NegInf else PosInf)
      else if body = ''nan'' then Some NaN
      else let (mantissa, expo) = partition_on CHR ''e'' body;
               (down, digits) = signed expo;
               scale = (if CHR ''e'' \<in> set body then map_option (\<lambda>n. if down then 1 / 10 ^ n else 10 ^ n) (digits_value 0 False digits) else Some 1)
           in (case (decimal mantissa, scale) of
                 (Some m, Some k) \<Rightarrow> Some (Finite ((if negative then - 1 else 1) * m * k))
               | _ \<Rightarrow> None))"

definition to_float :: "string \<Rightarrow> (config_error, pyfloat) result" where
  "to_float s = (case py_float s of None \<Rightarrow> Inl (ConfigValueError ''could not convert string to float'') | Some x \<Rightarrow> Inr x)"

text \<open>
  What the process reads beside the variables: the seed file of demo orders, the calls that open a database by its role, the
  S3 client and the Redis client.
\<close>

record deploy_env =
  de_environ :: environ
  de_auth :: auth_env
  de_seed :: "(string, string) dict list option"
  de_open_store :: "string \<Rightarrow> string \<Rightarrow> (config_error, unit) result"
  de_s3_client :: "string option \<Rightarrow> string option \<Rightarrow> (config_error, unit) result"
  de_redis :: "string \<Rightarrow> (config_error, unit) result"

abbreviation var :: "deploy_env \<Rightarrow> string \<Rightarrow> string \<Rightarrow> string" where
  "var de \<equiv> getenv (de_environ de)"

definition hosts :: "string \<Rightarrow> string list" where
  "hosts s = filter (\<lambda>h. h \<noteq> []) (map strip (split_on CHR '','' s))"

section \<open>services/bootstrap.py\<close>

definition resolved_env :: "deploy_env \<Rightarrow> string option \<Rightarrow> string" where
  "resolved_env de platform_env = lower (or_default platform_env (var de ''AGENT_PLATFORM_ENV'' ''development''))"

definition build_model_provider :: "deploy_env \<Rightarrow> string option \<Rightarrow> (config_error, openai_model option) result" where
  "build_model_provider de platform_env =
     (let endpoint = strip (var de ''AGENT_MODEL_ENDPOINT'' []);
          api_key = strip (var de ''AGENT_MODEL_API_KEY'' []);
          model = strip (var de ''AGENT_MODEL_NAME'' [])
      in if endpoint = [] \<and> api_key = [] \<and> model = []
         then if secured_env (resolved_env de platform_env)
              then Inl (ConfigRuntimeError ''staging and production require AGENT_MODEL_ENDPOINT, AGENT_MODEL_API_KEY and AGENT_MODEL_NAME'')
              else Inr None
         else if endpoint = [] \<or> api_key = [] \<or> model = []
         then Inl (ConfigRuntimeError ''AGENT_MODEL_ENDPOINT, AGENT_MODEL_API_KEY and AGENT_MODEL_NAME must be configured together'')
         else (case (py_float (var de ''AGENT_MODEL_TIMEOUT_SECONDS'' ''30''), py_int (var de ''AGENT_MODEL_MAX_OUTPUT_CHARS'' ''4000'')) of
             (Some timeout, Some max_output) \<Rightarrow>
               map_sum id Some (constructed (openai_model_init (ae_ip6 (de_auth de)) endpoint api_key model
                 (hosts (var de ''AGENT_MODEL_ALLOWED_HOSTS'' [])) timeout max_output))
           | _ \<Rightarrow> Inl (ConfigRuntimeError ''model timeout and output limit must be numeric'')))"

definition build_trace_exporter :: "deploy_env \<Rightarrow> string option \<Rightarrow> (config_error, otlp_exporter option) result" where
  "build_trace_exporter de platform_env =
     (let endpoint = strip (var de ''AGENT_TRACE_ENDPOINT'' []) in
      if endpoint = []
      then if secured_env (resolved_env de platform_env)
           then Inl (ConfigRuntimeError ''staging and production require AGENT_TRACE_ENDPOINT'') else Inr None
      else rbind (to_float (var de ''AGENT_TRACE_TIMEOUT_SECONDS'' ''5'')) (\<lambda>timeout.
        map_sum id Some (constructed (otlp_init (ae_ip6 (de_auth de)) endpoint (split_on CHR '','' (var de ''AGENT_TRACE_ALLOWED_HOSTS'' []))
          (getenv_or_none (de_environ de) ''AGENT_TRACE_BEARER_TOKEN'') timeout (64 * 1024)))))"

definition build_erp_tool_definitions :: "(string, tool_definition) dict" where
  "build_erp_tool_definitions =
     [(''erp.get_order_status'', \<lparr>td_name = ''erp.get_order_status'', td_risk = READ,
        td_description = ''Return a tenant-scoped ERP order status with provenance.''\<rparr>)]"

fun seed_orders :: "(string, string) dict list \<Rightarrow> (string \<times> string, (string, string) dict) dict \<Rightarrow>
    (config_error, (string \<times> string, (string, string) dict) dict) result" where
  "seed_orders [] acc = Inr acc"
| "seed_orders (row # rows) acc =
     (case (map_of row ''tenant_id'', map_of row ''order_id'') of
        (Some t, Some i) \<Rightarrow> seed_orders rows (AList.update (t, i) row acc)
      | _ \<Rightarrow> Inl (ConfigUncaught ''KeyError''))"

definition fallback_orders :: "(string \<times> string, (string, string) dict) dict" where
  "fallback_orders =
     [((''demo-tenant'', ''SO-1001''), [(''order_id'', ''SO-1001''), (''status'', ''in_transit''), (''customer_id'', ''CUS-001''),
        (''updated_at'', ''2026-08-19T08:00:00+08:00'')])]"

datatype gateway = InMemory in_memory_gateway | Remote remote_gateway

fun gateway_definitions :: "gateway \<Rightarrow> (string, tool_definition) dict" where
  "gateway_definitions (InMemory g) = mg_definitions g"
| "gateway_definitions (Remote g) = rg_definitions g"

text \<open>\<^verbatim>\<open>build_runtime\<close> without a model provider argument: the gateway and the configured model.\<close>

definition build_gateway :: "deploy_env \<Rightarrow> (config_error, gateway) result" where
  "build_gateway de =
     rbind (case de_seed de of Some rows \<Rightarrow> seed_orders rows [] | None \<Rightarrow> Inr fallback_orders) (\<lambda>orders.
     if lower (var de ''AGENT_PROVIDER_MODE'' ''synthetic'') = ''remote''
     then let endpoint = strip (var de ''AGENT_MCP_ENDPOINT'' []) in
       rbind (refuse_if (endpoint = []) ''AGENT_MCP_ENDPOINT is required when AGENT_PROVIDER_MODE=remote'') (\<lambda>_.
       rbind (to_float (var de ''AGENT_MCP_TIMEOUT_SECONDS'' ''10'')) (\<lambda>timeout.
       map_sum id Remote (constructed (mcp_http_init (ae_ip6 (de_auth de)) endpoint build_erp_tool_definitions
         (split_on CHR '','' (var de ''AGENT_MCP_ALLOWED_HOSTS'' [])) (getenv_or_none (de_environ de) ''AGENT_MCP_BEARER_TOKEN'') timeout))))
     else Inr (InMemory (in_memory_gateway_init orders)))"

definition build_runtime :: "deploy_env \<Rightarrow> (config_error, gateway \<times> openai_model option) result" where
  "build_runtime de =
     rbind (build_gateway de) (\<lambda>g. rbind (build_model_provider de None) (\<lambda>model. Inr (g, model)))"

section \<open>build_default_app\<close>

record deployment =
  dp_platform_env :: string
  dp_storage_mode :: string
  dp_database_url :: string
  dp_exporter :: "otlp_exporter option"
  dp_gateway :: gateway
  dp_model :: "openai_model option"
  dp_max_bytes :: int
  dp_max_pixels :: int
  dp_retention_days :: int
  dp_scanner :: "clamav_scanner option"
  dp_s3 :: "s3_store option"
  dp_redis_limits :: "(redis_limiter \<times> redis_limiter) option"
  dp_upload_rate_limit :: int
  dp_analysis_rate_limit :: int
  dp_rate_limit_mode :: string
  dp_vision :: "openai_vision option"
  dp_provider_mode :: string
  dp_auth :: app_auth
  dp_jwks :: "jwks_state option"

definition storage_config :: "deploy_env \<Rightarrow> string \<Rightarrow> (config_error, string \<times> string) result" where
  "storage_config de platform_env =
     (let storage_mode = lower (var de ''AGENT_STORAGE_MODE'' ''memory'');
          database_url = strip (var de ''AGENT_DATABASE_URL'' [])
      in rbind (refuse_if (storage_mode \<notin> {''memory'', ''sqlite'', ''postgres''}) ''AGENT_STORAGE_MODE must be memory, sqlite or postgres'') (\<lambda>_.
         rbind (refuse_if (storage_mode = ''postgres'' \<and> database_url = []) ''AGENT_DATABASE_URL is required when AGENT_STORAGE_MODE=postgres'') (\<lambda>_.
         rbind (refuse_if (secured_env platform_env \<and> storage_mode \<notin> {''sqlite'', ''postgres''})
           ''staging and production require AGENT_STORAGE_MODE=sqlite or postgres'') (\<lambda>_.
         Inr (storage_mode, database_url)))))"

record limits_config =
  lc_max_bytes :: int
  lc_max_pixels :: int
  lc_upload :: int
  lc_analysis :: int
  lc_retention_days :: int

definition limits_of :: "deploy_env \<Rightarrow> string \<Rightarrow> (config_error, limits_config) result" where
  "limits_of de platform_env =
     rbind (to_int (var de ''AGENT_ATTACHMENT_MAX_BYTES'' ''10485760'')) (\<lambda>max_bytes.
     rbind (to_int (var de ''AGENT_ATTACHMENT_MAX_PIXELS'' ''25000000'')) (\<lambda>max_pixels.
     rbind (to_int (var de ''AGENT_UPLOAD_RATE_LIMIT'' ''30'')) (\<lambda>upload.
     rbind (to_int (var de ''AGENT_ANALYSIS_RATE_LIMIT'' ''20'')) (\<lambda>analysis.
     rbind (to_int (var de ''AGENT_ATTACHMENT_RETENTION_DAYS'' (if secured_env platform_env then ''30'' else ''0''))) (\<lambda>retention.
     Inr \<lparr>lc_max_bytes = max_bytes, lc_max_pixels = max_pixels, lc_upload = upload, lc_analysis = analysis, lc_retention_days = retention\<rparr>)))))"

text \<open>\<^const>\<open>None\<close> is the \<^verbatim>\<open>NoopAttachmentScanner\<close>, whose identifier is \<^verbatim>\<open>disabled\<close>.\<close>

definition scanner_config :: "deploy_env \<Rightarrow> string \<Rightarrow> int \<Rightarrow> (config_error, clamav_scanner option) result" where
  "scanner_config de platform_env retention_days =
     (let mode = lower (var de ''AGENT_MALWARE_SCANNER'' ''disabled'');
          require_scan = (lower (var de ''AGENT_ATTACHMENT_REQUIRE_SCAN'' (if secured_env platform_env then ''true'' else ''false''))
            \<in> {''1'', ''true'', ''yes'', ''on''})
      in rbind (refuse_if (mode \<notin> {''disabled'', ''clamav''}) ''AGENT_MALWARE_SCANNER must be disabled or clamav'') (\<lambda>_.
         rbind (if mode = ''clamav''
                then rbind (to_int (var de ''AGENT_CLAMAV_PORT'' ''3310'')) (\<lambda>port.
                     rbind (to_float (var de ''AGENT_CLAMAV_TIMEOUT_SECONDS'' ''10'')) (\<lambda>timeout.
                     map_sum id Some (constructed (clamav_init (var de ''AGENT_CLAMAV_HOST'' ''127.0.0.1'') port timeout))))
                else Inr None) (\<lambda>scanner.
         rbind (refuse_if (require_scan \<and> scanner = None) ''production attachments require AGENT_MALWARE_SCANNER=clamav'') (\<lambda>_.
         rbind (refuse_if (secured_env platform_env \<and> retention_days \<le> 0) ''production attachments require a positive retention period'') (\<lambda>_.
         Inr scanner)))))"

definition s3_endpoint_refused :: "deploy_env \<Rightarrow> string list \<Rightarrow> parsed_url \<Rightarrow> bool" where
  "s3_endpoint_refused de allowed parsed \<longleftrightarrow>
     (let host = lower (pu_hostname parsed) in
      pu_scheme parsed \<noteq> ''https'' \<or> host = [] \<or> host \<notin> set allowed \<or> is_disallowed_host (ae_ip6 (de_auth de)) host \<or>
      pu_username parsed \<noteq> [] \<or> pu_password parsed \<noteq> [] \<or> pu_query parsed \<noteq> [] \<or> pu_fragment parsed \<noteq> [])"

definition s3_config :: "deploy_env \<Rightarrow> string \<Rightarrow> (config_error, s3_store) result" where
  "s3_config de platform_env =
     (let bucket = strip (var de ''AGENT_S3_BUCKET'' []);
          endpoint = strip (var de ''AGENT_S3_ENDPOINT'' []);
          allowed = map lower (hosts (var de ''AGENT_S3_ALLOWED_HOSTS'' []))
      in rbind (refuse_if (bucket = []) ''AGENT_S3_BUCKET is required when AGENT_ATTACHMENT_STORAGE=s3'') (\<lambda>_.
         rbind (refuse_if (secured_env platform_env \<and> endpoint = []) ''staging and production require an explicit AGENT_S3_ENDPOINT'') (\<lambda>_.
         rbind (refuse_if (secured_env platform_env \<and> allowed = []) ''staging and production require AGENT_S3_ALLOWED_HOSTS'') (\<lambda>_.
         rbind (if endpoint = [] then Inr ()
                else (case urlparse (ae_ip6 (de_auth de)) endpoint of
                    None \<Rightarrow> Inl (ConfigValueError ''Invalid IPv6 URL'')
                  | Some parsed \<Rightarrow> refuse_if (s3_endpoint_refused de allowed parsed) ''AGENT_S3_ENDPOINT must be HTTPS and match AGENT_S3_ALLOWED_HOSTS'')) (\<lambda>_.
         rbind (refuse_if (secured_env platform_env \<and> blank (var de ''AGENT_S3_KMS_KEY_ID'' [])) ''staging and production require AGENT_S3_KMS_KEY_ID'') (\<lambda>_.
         rbind (de_s3_client de (if endpoint = [] then None else Some endpoint) (getenv_or_none (de_environ de) ''AGENT_S3_REGION'')) (\<lambda>_.
         constructed (s3_init bucket (var de ''AGENT_S3_PREFIX'' ''attachments'') (getenv_or_none (de_environ de) ''AGENT_S3_KMS_KEY_ID'')))))))))"

definition blob_config :: "deploy_env \<Rightarrow> string \<Rightarrow> (config_error, s3_store option) result" where
  "blob_config de platform_env =
     (let storage = lower (var de ''AGENT_ATTACHMENT_STORAGE'' ''filesystem'') in
      rbind (refuse_if (storage \<notin> {''filesystem'', ''s3''}) ''AGENT_ATTACHMENT_STORAGE must be filesystem or s3'') (\<lambda>_.
      rbind (if storage = ''s3'' then map_sum id Some (s3_config de platform_env) else Inr None) (\<lambda>blobs.
      rbind (refuse_if (secured_env platform_env \<and> storage \<noteq> ''s3'') ''production attachments require AGENT_ATTACHMENT_STORAGE=s3'') (\<lambda>_.
      Inr blobs))))"

definition limiter_of :: "int \<Rightarrow> string \<Rightarrow> (config_error, redis_limiter) result" where
  "limiter_of n prefix = (case redis_limiter_init n 60 prefix of
     None \<Rightarrow> Inl (ConfigValueError ''rate limit values must be positive'') | Some l \<Rightarrow> Inr l)"

definition redis_config :: "deploy_env \<Rightarrow> string \<Rightarrow> limits_config \<Rightarrow> (config_error, (redis_limiter \<times> redis_limiter) option) result" where
  "redis_config de platform_env limits =
     (let url = strip (var de ''AGENT_REDIS_URL'' []) in
      rbind (refuse_if (secured_env platform_env \<and> url = []) ''production requires AGENT_REDIS_URL for distributed rate limiting'') (\<lambda>_.
      if url = [] then Inr None
      else rbind (de_redis de url) (\<lambda>_.
           rbind (limiter_of (lc_upload limits) ''agent:upload'') (\<lambda>up.
           rbind (limiter_of (lc_analysis limits) ''agent:analysis'') (\<lambda>an. Inr (Some (up, an)))))))"

definition vision_config :: "deploy_env \<Rightarrow> (config_error, openai_vision option) result" where
  "vision_config de =
     (let endpoint = strip (var de ''AGENT_VISION_ENDPOINT'' []); key = strip (var de ''AGENT_VISION_API_KEY'' []);
          model = strip (var de ''AGENT_VISION_MODEL'' [])
      in if endpoint = [] \<and> key = [] \<and> model = [] then Inr None
         else rbind (refuse_if (endpoint = [] \<or> key = [] \<or> model = []) ''Vision endpoint, API key and model must be configured together'') (\<lambda>_.
              rbind (to_float (var de ''AGENT_VISION_TIMEOUT_SECONDS'' ''30'')) (\<lambda>timeout.
              map_sum id Some (constructed (openai_vision_init (ae_ip6 (de_auth de)) endpoint key model
                (split_on CHR '','' (var de ''AGENT_VISION_ALLOWED_HOSTS'' [])) timeout)))))"

definition auth_options_of :: "deploy_env \<Rightarrow> auth_options" where
  "auth_options_of de =
     (let env = de_environ de in
      \<lparr>ao_bearer_token = env ''AGENT_API_TOKEN'', ao_jwt_secret = env ''AGENT_JWT_SECRET'', ao_jwt_issuer = env ''AGENT_JWT_ISSUER'',
       ao_jwt_audience = env ''AGENT_JWT_AUDIENCE'', ao_oidc_issuer = env ''AGENT_OIDC_ISSUER'', ao_oidc_audience = env ''AGENT_OIDC_AUDIENCE'',
       ao_oidc_jwks_uri = getenv_or_none env ''AGENT_OIDC_JWKS_URI'', ao_oidc_allowed_hosts = hosts (getenv env ''AGENT_OIDC_ALLOWED_HOSTS'' [])\<rparr>)"

definition auth_config :: "deploy_env \<Rightarrow> string \<Rightarrow> (config_error, app_auth \<times> jwks_state option) result" where
  "auth_config de platform_env =
     (let mode = var de ''AGENT_AUTH_MODE'' ''bearer'' in
      rbind (refuse_if (secured_env platform_env \<and> mode \<notin> {''jwt_hs256'', ''oidc_jwks''})
        ''staging and production require jwt_hs256 or oidc_jwks authentication'') (\<lambda>_.
      rbind (refuse_if (secured_env platform_env \<and> lower (var de ''AGENT_PROVIDER_MODE'' ''synthetic'') = ''synthetic'')
        ''staging and production require AGENT_PROVIDER_MODE=remote'') (\<lambda>_.
      constructed (create_app_auth (de_auth de) mode (auth_options_of de) (Some platform_env) (var de ''AGENT_PLATFORM_ENV'' ''development'')))))"

text \<open>The in-memory limiters of \<^verbatim>\<open>create_app\<close>, where no Redis limiter was passed.\<close>

definition local_limits_config :: "(redis_limiter \<times> redis_limiter) option \<Rightarrow> limits_config \<Rightarrow> (config_error, unit) result" where
  "local_limits_config redis limits =
     (if redis = None \<and> (rate_limiter_init (lc_upload limits) 60 = None \<or> rate_limiter_init (lc_analysis limits) 60 = None)
      then Inl (ConfigValueError ''rate limit values must be positive'') else Inr ())"

definition build_default_app :: "deploy_env \<Rightarrow> (config_error, deployment) result" where
  "build_default_app de =
     (let platform_env = lower (var de ''AGENT_PLATFORM_ENV'' ''development'') in
      rbind (storage_config de platform_env) (\<lambda>(storage_mode, database_url).
      rbind (de_open_store de storage_mode ''audit'') (\<lambda>_.
      rbind (build_trace_exporter de (Some platform_env)) (\<lambda>exporter.
      rbind (build_runtime de) (\<lambda>(g, model).
      rbind (limits_of de platform_env) (\<lambda>limits.
      rbind (scanner_config de platform_env (lc_retention_days limits)) (\<lambda>scanner.
      rbind (blob_config de platform_env) (\<lambda>s3.
      rbind (redis_config de platform_env limits) (\<lambda>redis.
      rbind (de_open_store de storage_mode ''attachments'') (\<lambda>_.
      rbind (if lc_max_bytes limits < 1 \<or> lc_max_pixels limits < 1 \<or> lc_retention_days limits < 0
             then Inl (ConfigValueError ''attachment limits must be positive'') else Inr ()) (\<lambda>_.
      rbind (vision_config de) (\<lambda>vision.
      rbind (de_open_store de storage_mode ''runs'') (\<lambda>_.
      rbind (de_open_store de storage_mode ''approvals'') (\<lambda>_.
      rbind (auth_config de platform_env) (\<lambda>(auth, jwks).
      rbind (local_limits_config redis limits) (\<lambda>_.
      Inr \<lparr>dp_platform_env = platform_env, dp_storage_mode = storage_mode, dp_database_url = database_url, dp_exporter = exporter,
           dp_gateway = g, dp_model = model, dp_max_bytes = lc_max_bytes limits, dp_max_pixels = lc_max_pixels limits,
           dp_retention_days = lc_retention_days limits, dp_scanner = scanner, dp_s3 = s3, dp_redis_limits = redis,
           dp_upload_rate_limit = lc_upload limits, dp_analysis_rate_limit = lc_analysis limits,
           dp_rate_limit_mode = (if redis = None then ''in_memory'' else ''redis''), dp_vision = vision,
           dp_provider_mode = var de ''AGENT_PROVIDER_MODE'' ''synthetic'', dp_auth = auth, dp_jwks = jwks\<rparr>))))))))))))))))"

section \<open>The application of a deployment\<close>

text \<open>
  The components that the handlers use, over the adapters' parameters: the transports, the decoders, the S3 client, the blob
  store of a directory, and the two kinds of rate limiter.
\<close>

record ('b, 'l) adapters =
  ad_remote :: "remote_request \<Rightarrow> string option"
  ad_remote_json :: "string \<Rightarrow> pyval option"
  ad_send :: transport
  ad_loads :: "string \<Rightarrow> json_outcome"
  ad_float :: "pyfloat \<Rightarrow> string"
  ad_otlp :: "http_request \<Rightarrow> http_outcome"
  ad_sha :: "string \<Rightarrow> string"
  ad_now :: string
  ad_get :: "string \<Rightarrow> (string, string) dict \<Rightarrow> probe_outcome"
  ad_s3 :: "'b s3_client"
  ad_directory :: "'b blob_ops"
  ad_clamav :: "clamav_scanner \<Rightarrow> string list \<Rightarrow> string option"
  ad_redis_check :: "redis_limiter \<Rightarrow> rat \<Rightarrow> string \<Rightarrow> 'l \<Rightarrow> (bool \<times> int) \<times> 'l"
  ad_local_check :: "int \<Rightarrow> rat \<Rightarrow> string \<Rightarrow> 'l \<Rightarrow> (bool \<times> int) \<times> 'l"

definition gateway_call :: "('b, 'l) adapters \<Rightarrow> gateway \<Rightarrow> tool_call_request \<Rightarrow> tool_result" where
  "gateway_call ad g request =
     (case g of InMemory m \<Rightarrow> in_memory_call m (ad_now ad) request
      | Remote r \<Rightarrow> remote_call (ad_remote ad) (ad_remote_json ad) r request)"

definition gateway_health :: "('b, 'l) adapters \<Rightarrow> gateway \<Rightarrow> (string, string) dict" where
  "gateway_health ad g = (case g of InMemory m \<Rightarrow> in_memory_health m | Remote r \<Rightarrow> mcp_http_health (ad_get ad) r)"

definition deployed_blobs :: "('b, 'l) adapters \<Rightarrow> deployment \<Rightarrow> 'b blob_ops" where
  "deployed_blobs ad d = (case dp_s3 d of Some s \<Rightarrow> s3_blob_ops (ad_s3 ad) s | None \<Rightarrow> ad_directory ad)"

definition deployed_attachments :: "('b, 'l) adapters \<Rightarrow> 's attachment_ops \<Rightarrow> deployment \<Rightarrow> (string, ('s, 'b) attachment_service) result" where
  "deployed_attachments ad ops d =
     attachment_service_init ops (deployed_blobs ad d)
       (case dp_scanner d of Some c \<Rightarrow> clamav_scan (ad_clamav ad c) | None \<Rightarrow> noop_scan)
       (case dp_scanner d of Some _ \<Rightarrow> ''clamav'' | None \<Rightarrow> ''disabled'')
       (dp_max_bytes d) (dp_max_pixels d) (dp_retention_days d)"

definition exporter_of :: "('b, 'l) adapters \<Rightarrow> otlp_exporter option \<Rightarrow> exporter option" where
  "exporter_of ad x = map_option (otlp_export (ad_otlp ad) (ad_sha ad) (ad_float ad)) x"

definition runtime_of :: "('b, 'l) adapters \<Rightarrow> gateway \<Rightarrow> openai_model option \<Rightarrow> otlp_exporter option \<Rightarrow> agent_runtime" where
  "runtime_of ad g model exporter =
     \<lparr>art_policy = policy_engine_init (gateway_definitions g) None,
      art_call = (\<lambda>request. Inr (gateway_call ad g request)),
      art_exporter = exporter_of ad exporter,
      art_model = map_option (openai_provider (ad_send ad) (ad_loads ad) (ad_float ad)) model\<rparr>"

definition deployed_app ::
    "('b, 'l) adapters \<Rightarrow> 'r run_ops \<Rightarrow> 'p approval_ops \<Rightarrow> ('s, 'b) attachment_service \<Rightarrow> deployment \<Rightarrow> ('r, 'p, 's, 'b, 'l) api_config" where
  "deployed_app ad runs approvals attachments d =
     \<lparr>ac_auth = dp_auth d, ac_provider_mode = dp_provider_mode d, ac_storage_mode = dp_storage_mode d, ac_runtime = runtime_of ad (dp_gateway d) (dp_model d) (dp_exporter d),
      ac_definitions = gateway_definitions (dp_gateway d), ac_run_ops = Some runs, ac_approvals = Some approvals,
      ac_attachments = Some attachments, ac_object_storage = bo_storage_id (deployed_blobs ad d),
      ac_vision = map_option (\<lambda>v. Some (openai_vision_provider (ad_send ad) (ad_loads ad) (ad_float ad) v)) (dp_vision d),
      ac_upload_check = (case dp_redis_limits d of Some (up, _) \<Rightarrow> ad_redis_check ad up | None \<Rightarrow> ad_local_check ad (dp_upload_rate_limit d)),
      ac_analysis_check = (case dp_redis_limits d of Some (_, an) \<Rightarrow> ad_redis_check ad an | None \<Rightarrow> ad_local_check ad (dp_analysis_rate_limit d)),
      ac_rate_limit_mode = dp_rate_limit_mode d, ac_exporter = exporter_of ad (dp_exporter d)\<rparr>"

text \<open>What a request sees of the health of the gateway and of the model.\<close>

definition deployed_request :: "('b, 'l) adapters \<Rightarrow> deployment \<Rightarrow> api_request \<Rightarrow> api_request" where
  "deployed_request ad d rq =
     rq\<lparr>rq_gateway_health := gateway_health ad (dp_gateway d),
        rq_model_health := (case dp_model d of None \<Rightarrow> [] | Some m \<Rightarrow> openai_model_health m)\<rparr>"

section \<open>What an accepted production configuration has\<close>

named_theorems config_simps \<open>when a step of the configuration is accepted\<close>

lemma rbind_Inr [config_simps]: "rbind m k = Inr y \<longleftrightarrow> (\<exists>x. m = Inr x \<and> k x = Inr y)"
  by (auto simp: rbind_def split: sum.splits)

lemma refuse_if_Inr [config_simps]: "refuse_if b msg = Inr u \<longleftrightarrow> \<not> b"
  by (simp add: refuse_if_def)

lemma map_sum_Inr [config_simps]: "map_sum id f r = Inr y \<longleftrightarrow> (\<exists>x. r = Inr x \<and> y = f x)"
  by (cases r) auto

lemma constructed_Inr [config_simps]: "constructed r = Inr y \<longleftrightarrow> r = Inr y"
  by (cases r) (auto simp: constructed_def)

lemma storage_config_Inr:
  "storage_config de p = Inr (mode, url) \<Longrightarrow> secured_env p \<Longrightarrow> mode \<noteq> ''memory'' \<and> (mode = ''postgres'' \<longrightarrow> url \<noteq> [])"
  by (auto simp: storage_config_def Let_def config_simps)

lemma build_trace_exporter_Inr:
  "build_trace_exporter de (Some p) = Inr x \<Longrightarrow> lower p = p \<Longrightarrow> secured_env p \<Longrightarrow> \<exists>e. x = Some e"
  by (auto simp: build_trace_exporter_def Let_def config_simps resolved_env_def or_default_def secured_env_def split: if_splits)

lemma build_model_provider_Inr:
  "build_model_provider de None = Inr x \<Longrightarrow> secured_env (lower (var de ''AGENT_PLATFORM_ENV'' ''development'')) \<Longrightarrow> \<exists>m. x = Some m"
  by (auto simp: build_model_provider_def Let_def config_simps resolved_env_def or_default_def split: if_splits option.splits prod.splits)

lemma limits_and_scanner_Inr:
  "scanner_config de p days = Inr s \<Longrightarrow> secured_env p \<Longrightarrow> 0 < days"
  by (auto simp: scanner_config_def Let_def config_simps)

lemma blob_config_Inr: "blob_config de p = Inr b \<Longrightarrow> secured_env p \<Longrightarrow> \<exists>s. b = Some s \<and> s3_config de p = Inr s"
  by (auto simp: blob_config_def Let_def config_simps split: if_splits)

lemma redis_config_Inr: "redis_config de p l = Inr r \<Longrightarrow> secured_env p \<Longrightarrow> \<exists>x. r = Some x"
  by (auto simp: redis_config_def Let_def config_simps split: if_splits)

lemma create_app_auth_mode:
  assumes "create_app_auth env mode opts p e = Inr (a, js)"
  shows "aa_mode a = mode \<and> aa_platform_env a = lower (or_default p e)"
proof -
  have "mode \<in> {''bearer'', ''headers'', ''jwt_hs256'', ''oidc_jwks''}"
    using assms by (rule_tac ccontr) (simp add: create_app_auth_def)
  then consider "mode = ''bearer''" | "mode = ''headers''" | "mode = ''jwt_hs256''" | "mode = ''oidc_jwks''" by blast
  then show ?thesis
    by cases (use assms in \<open>auto simp: create_app_auth_def Let_def split: if_splits sum.splits\<close>)
qed

lemma auth_config_Inr:
  assumes "auth_config de p = Inr (a, js)" "secured_env p" "lower p = p"
  shows "aa_mode a \<in> {''jwt_hs256'', ''oidc_jwks''} \<and> aa_platform_env a = p \<and> lower (var de ''AGENT_PROVIDER_MODE'' ''synthetic'') \<noteq> ''synthetic''"
proof -
  let ?mode = "var de ''AGENT_AUTH_MODE'' ''bearer''"
  from assms(1,2) have m: "?mode \<in> {''jwt_hs256'', ''oidc_jwks''}" and c: "create_app_auth (de_auth de) ?mode (auth_options_of de) (Some p)
      (var de ''AGENT_PLATFORM_ENV'' ''development'') = Inr (a, js)" and l: "lower (var de ''AGENT_PROVIDER_MODE'' ''synthetic'') \<noteq> ''synthetic''"
    unfolding auth_config_def Let_def rbind_Inr refuse_if_Inr constructed_Inr by blast+
  from assms(2) have "p \<noteq> []" by (auto simp: secured_env_def)
  with create_app_auth_mode [OF c] m l assms(3) show ?thesis by (simp add: or_default_def)
qed

text \<open>
  C9. An accepted production configuration leaves only live dependencies open: when \<^verbatim>\<open>build_default_app\<close> returns in staging or
  production, the application authenticates by token, keeps its runs, approvals and metadata in a database, its blobs in
  S3 under a key of a key-management service, limits rates in Redis, has a model provider and a trace exporter and a
  positive retention; so \<^verbatim>\<open>/ready\<close> answers 200 exactly when a malware scanner is configured and the gateway and the stores
  report that they are healthy.\<close>

theorem production_config_ready:
  assumes "build_default_app de = Inr d" "secured_env (dp_platform_env d)"
    and "deployed_attachments ad ops d = Inr attachments"
  shows "aa_mode (dp_auth d) \<in> {''jwt_hs256'', ''oidc_jwks''} \<and> dp_storage_mode d \<noteq> ''memory'' \<and>
    (\<exists>s. dp_s3 d = Some s \<and> s3_config de (dp_platform_env d) = Inr s) \<and> dp_redis_limits d \<noteq> None \<and> dp_model d \<noteq> None \<and>
    dp_exporter d \<noteq> None \<and> 0 < dp_retention_days d \<and>
    ((\<exists>body h. api_ready (deployed_app ad runs approvals attachments d) (deployed_request ad d rq) pr = Json 200 body h) \<longleftrightarrow>
       dp_scanner d \<noteq> None \<and> map_of (gateway_health ad (dp_gateway d)) ''status'' = Some ''healthy'' \<and>
       component_health (pr_attachments pr) \<and> component_health (pr_audit pr) \<and> component_health (pr_run_store pr) \<and>
       component_health (pr_approval_store pr))"
proof -
  let ?p = "lower (var de ''AGENT_PLATFORM_ENV'' ''development'')"
  from assms(1) have p: "dp_platform_env d = ?p"
    by (auto simp: build_default_app_def Let_def config_simps)
  with assms(2) have sec: "secured_env ?p" by simp
  from assms(1) obtain mode url x m l sc b r a js where steps:
      "storage_config de ?p = Inr (mode, url)" "build_trace_exporter de (Some ?p) = Inr x" "build_model_provider de None = Inr m"
      "scanner_config de ?p (lc_retention_days l) = Inr sc" "blob_config de ?p = Inr b" "redis_config de ?p l = Inr r" "auth_config de ?p = Inr (a, js)"
    and d: "dp_storage_mode d = mode" "dp_exporter d = x" "dp_model d = m" "dp_retention_days d = lc_retention_days l" "dp_scanner d = sc"
      "dp_s3 d = b" "dp_redis_limits d = r" "dp_rate_limit_mode d = (if r = None then ''in_memory'' else ''redis'')" "dp_auth d = a"
    by (auto simp: build_default_app_def build_runtime_def Let_def config_simps)
  have mode: "mode \<noteq> ''memory''" using storage_config_Inr [OF steps(1) sec] by simp
  obtain e where e: "x = Some e" using build_trace_exporter_Inr [OF steps(2) lower_idem sec] by blast
  obtain mo where mo: "m = Some mo" using build_model_provider_Inr [OF steps(3) sec] by blast
  have days: "0 < lc_retention_days l" using limits_and_scanner_Inr [OF steps(4) sec] .
  obtain s where s: "b = Some s" "s3_config de ?p = Inr s" using blob_config_Inr [OF steps(5) sec] by blast
  obtain rl where rl: "r = Some rl" using redis_config_Inr [OF steps(6) sec] by blast
  note auth = auth_config_Inr [OF steps(7) sec lower_idem]
  from assms(3) d have sv: "sv_scanner_id attachments = (case sc of Some _ \<Rightarrow> ''clamav'' | None \<Rightarrow> ''disabled'')" "sv_retention_days attachments = lc_retention_days l"
    by (auto simp: deployed_attachments_def attachment_service_init_def split: if_splits)
  have scan: "requires_scan attachments \<longleftrightarrow> sc \<noteq> None" by (cases sc) (simp_all add: requires_scan_def sv)
  have keep: "0 < retention_seconds attachments" using days sv(2) by (simp add: retention_seconds_def)
  have "list_all snd (ready_checks (deployed_app ad runs approvals attachments d) (deployed_request ad d rq) pr) \<longleftrightarrow>
      sc \<noteq> None \<and> map_of (gateway_health ad (dp_gateway d)) ''status'' = Some ''healthy'' \<and>
      component_health (pr_attachments pr) \<and> component_health (pr_audit pr) \<and> component_health (pr_run_store pr) \<and>
      component_health (pr_approval_store pr)"
    using auth mode scan keep
    by (simp add: ready_checks_def deployed_app_def deployed_request_def runtime_of_def exporter_of_def deployed_blobs_def
        model_health_def openai_model_health_def s3_blob_ops_def Let_def d e mo s rl del: insert_iff) blast
  moreover have "aa_platform_env (ac_auth (deployed_app ad runs approvals attachments d)) = ?p"
    using auth by (simp add: deployed_app_def d)
  ultimately show ?thesis
    using auth mode days s sec by (simp add: api_ready_def Let_def p d e mo rl)
qed

section \<open>A production environment\<close>

definition demo_environ :: "string \<Rightarrow> (string \<times> string) list" where
  "demo_environ provider_mode =
     [(''AGENT_PLATFORM_ENV'', ''production''), (''AGENT_STORAGE_MODE'', ''sqlite''),
      (''AGENT_TRACE_ENDPOINT'', ''https://mcp.example.com/t''), (''AGENT_TRACE_ALLOWED_HOSTS'', ''mcp.example.com''),
      (''AGENT_PROVIDER_MODE'', provider_mode), (''AGENT_MCP_ENDPOINT'', ''https://mcp.example.com/rpc''), (''AGENT_MCP_ALLOWED_HOSTS'', ''mcp.example.com''),
      (''AGENT_MODEL_ENDPOINT'', ''https://mcp.example.com/v1''), (''AGENT_MODEL_API_KEY'', ''k''), (''AGENT_MODEL_NAME'', ''m''),
      (''AGENT_MODEL_ALLOWED_HOSTS'', ''mcp.example.com''), (''AGENT_MALWARE_SCANNER'', ''clamav''), (''AGENT_ATTACHMENT_STORAGE'', ''s3''),
      (''AGENT_S3_BUCKET'', ''b''), (''AGENT_S3_ENDPOINT'', ''https://mcp.example.com''), (''AGENT_S3_ALLOWED_HOSTS'', ''mcp.example.com''),
      (''AGENT_S3_KMS_KEY_ID'', ''k''), (''AGENT_REDIS_URL'', ''redis://r''), (''AGENT_AUTH_MODE'', ''jwt_hs256''),
      (''AGENT_JWT_SECRET'', ''0123456789abcdef0123456789abcdef'')]"

definition demo_deploy :: "string \<Rightarrow> deploy_env" where
  "demo_deploy provider_mode =
     \<lparr>de_environ = map_of (demo_environ provider_mode), de_auth = demo_oidc_env, de_seed = None, de_open_store = \<lambda>_ _. Inr (),
      de_s3_client = \<lambda>_ _. Inr (), de_redis = \<lambda>_. Inr ()\<rparr>"

definition accepted_result :: "('e, 'a) result \<Rightarrow> bool" where
  "accepted_result r = (case r of Inl _ \<Rightarrow> False | Inr _ \<Rightarrow> True)"

definition demo_limits :: limits_config where
  "demo_limits = \<lparr>lc_max_bytes = 10485760, lc_max_pixels = 25000000, lc_upload = 30, lc_analysis = 20, lc_retention_days = 30\<rparr>"

lemma demo_limits_of: "limits_of (demo_deploy m) ''production'' = Inr demo_limits"
proof -
  have "py_int ''10485760'' = Some 10485760" "py_int ''25000000'' = Some 25000000" "py_int ''30'' = Some 30" "py_int ''20'' = Some 20"
    by (simp_all add: py_int_def strip_def is_space_def is_digit_def code_def Let_def)
  then show ?thesis
    by (simp add: limits_of_def to_int_def rbind_def getenv_def demo_deploy_def demo_environ_def demo_limits_def secured_env_def)
qed

lemma demo_stages_remote:
  "accepted_result (storage_config (demo_deploy ''remote'') ''production'')"
  "accepted_result (build_trace_exporter (demo_deploy ''remote'') (Some ''production''))"
  "accepted_result (build_gateway (demo_deploy ''remote''))"
  "accepted_result (build_model_provider (demo_deploy ''remote'') None)"
  "accepted_result (scanner_config (demo_deploy ''remote'') ''production'' 30)"
  "accepted_result (blob_config (demo_deploy ''remote'') ''production'')"
  "accepted_result (redis_config (demo_deploy ''remote'') ''production'' demo_limits)"
  "vision_config (demo_deploy ''remote'') = Inr None"
  "accepted_result (auth_config (demo_deploy ''remote'') ''production'')"
  by code_simp+

text \<open>Only the gateway and the check of the authentication read the provider mode.\<close>

lemma demo_live_fields:
  "k \<noteq> ''AGENT_PROVIDER_MODE'' \<Longrightarrow> de_environ (demo_deploy ''live'') k = de_environ (demo_deploy ''remote'') k"
  "de_auth (demo_deploy ''live'') = de_auth (demo_deploy ''remote'')" "de_seed (demo_deploy ''live'') = de_seed (demo_deploy ''remote'')"
  "de_open_store (demo_deploy ''live'') = de_open_store (demo_deploy ''remote'')" "de_s3_client (demo_deploy ''live'') = de_s3_client (demo_deploy ''remote'')"
  "de_redis (demo_deploy ''live'') = de_redis (demo_deploy ''remote'')"
  by (simp_all add: demo_deploy_def demo_environ_def)

lemma demo_live_stages:
  "storage_config (demo_deploy ''live'') p = storage_config (demo_deploy ''remote'') p"
  "build_trace_exporter (demo_deploy ''live'') q = build_trace_exporter (demo_deploy ''remote'') q"
  "build_model_provider (demo_deploy ''live'') q = build_model_provider (demo_deploy ''remote'') q"
  "scanner_config (demo_deploy ''live'') p n = scanner_config (demo_deploy ''remote'') p n"
  "blob_config (demo_deploy ''live'') p = blob_config (demo_deploy ''remote'') p"
  "redis_config (demo_deploy ''live'') p l = redis_config (demo_deploy ''remote'') p l"
  "vision_config (demo_deploy ''live'') = vision_config (demo_deploy ''remote'')"
  by (simp_all add: storage_config_def build_trace_exporter_def build_model_provider_def scanner_config_def blob_config_def s3_config_def s3_endpoint_refused_def
    redis_config_def vision_config_def resolved_env_def getenv_def getenv_or_none_def demo_live_fields Let_def cong: option.case_cong)

lemma demo_stages_live:
  "accepted_result (storage_config (demo_deploy ''live'') ''production'')"
  "accepted_result (build_trace_exporter (demo_deploy ''live'') (Some ''production''))"
  "accepted_result (build_gateway (demo_deploy ''live''))"
  "accepted_result (build_model_provider (demo_deploy ''live'') None)"
  "accepted_result (scanner_config (demo_deploy ''live'') ''production'' 30)"
  "accepted_result (blob_config (demo_deploy ''live'') ''production'')"
  "accepted_result (redis_config (demo_deploy ''live'') ''production'' demo_limits)"
  "vision_config (demo_deploy ''live'') = Inr None"
  "accepted_result (auth_config (demo_deploy ''live'') ''production'')"
  unfolding demo_live_stages by (rule demo_stages_remote | code_simp)+

lemma demo_scanner: "scanner_config (demo_deploy ''remote'') ''production'' 30 \<noteq> Inr None"
proof -
  have "(case scanner_config (demo_deploy ''remote'') ''production'' 30 of Inl _ \<Rightarrow> False | Inr x \<Rightarrow> \<not> Option.is_none x)" by code_simp
  then show ?thesis by auto
qed

lemma accepted_result_Inr: "accepted_result r \<Longrightarrow> \<exists>x. r = Inr x"
  by (cases r) (auto simp: accepted_result_def)

lemma demo_build:
  assumes "accepted_result (storage_config (demo_deploy m) ''production'')" "accepted_result (build_trace_exporter (demo_deploy m) (Some ''production''))"
    and "build_gateway (demo_deploy m) = Inr g" "accepted_result (build_model_provider (demo_deploy m) None)"
    and "accepted_result (scanner_config (demo_deploy m) ''production'' 30)" "accepted_result (blob_config (demo_deploy m) ''production'')"
    and "accepted_result (redis_config (demo_deploy m) ''production'' demo_limits)" "vision_config (demo_deploy m) = Inr None"
    and "accepted_result (auth_config (demo_deploy m) ''production'')"
  shows "\<exists>d. build_default_app (demo_deploy m) = Inr d \<and> dp_platform_env d = ''production'' \<and> dp_gateway d = g \<and> dp_max_bytes d = 10485760 \<and>
    dp_max_pixels d = 25000000 \<and> dp_retention_days d = 30 \<and> scanner_config (demo_deploy m) ''production'' 30 = Inr (dp_scanner d)"
proof -
  have p: "lower (getenv (de_environ (demo_deploy m)) ''AGENT_PLATFORM_ENV'' ''development'') = ''production''"
  proof -
    have "lower ''production'' = ''production''" by code_simp
    then show ?thesis by (simp add: demo_deploy_def demo_environ_def getenv_def)
  qed
  have o: "de_open_store (demo_deploy m) x y = Inr ()" for x y by (simp add: demo_deploy_def)
  obtain st ur ex mo sc b r a js where "storage_config (demo_deploy m) ''production'' = Inr (st, ur)"
      "build_trace_exporter (demo_deploy m) (Some ''production'') = Inr ex" "build_model_provider (demo_deploy m) None = Inr mo"
      "scanner_config (demo_deploy m) ''production'' 30 = Inr sc" "blob_config (demo_deploy m) ''production'' = Inr b"
      "redis_config (demo_deploy m) ''production'' demo_limits = Inr r" "auth_config (demo_deploy m) ''production'' = Inr (a, js)"
    using assms(1,2,4-7,9) accepted_result_Inr by (metis surj_pair)
  moreover have "local_limits_config x demo_limits = Inr ()" for x by (simp add: local_limits_config_def rate_limiter_init_def demo_limits_def)
  ultimately show ?thesis
    using assms(3,8) demo_limits_of [of m] by (simp add: build_default_app_def Let_def p o build_runtime_def rbind_def demo_limits_def)
qed

text \<open>Adapters over a dictionary of files and a rate limiter, with a gateway that answers.\<close>

definition demo_s3 :: "(path, string) dict s3_client" where
  "demo_s3 = \<lparr>s3_put = \<lambda>x f. (True, AList.update [so_key x] (so_body x) f), s3_get = \<lambda>_ k n f. map_option (take n) (map_of f [k]),
     s3_delete = \<lambda>_ k f. (True, AList.delete [k] f), s3_head = \<lambda>_ _. True\<rparr>"

definition demo_adapters :: "((path, string) dict, rate_limiter) adapters" where
  "demo_adapters = \<lparr>ad_remote = \<lambda>_. None, ad_remote_json = \<lambda>_. None, ad_send = \<lambda>_. None, ad_loads = \<lambda>_. JDecodeError, ad_float = \<lambda>_. [],
     ad_otlp = \<lambda>_. Status 200, ad_sha = \<lambda>s. s, ad_now = [], ad_get = \<lambda>_ _. Answered 200, ad_s3 = demo_s3,
     ad_directory = filesystem_blob_ops toy_fs [''srv''] ''h'', ad_clamav = \<lambda>_ _. None, ad_redis_check = \<lambda>_. check, ad_local_check = \<lambda>_. check\<rparr>"

definition demo_probes :: probes where
  "demo_probes = \<lparr>pr_attachments = Probe_returns True, pr_audit = Probe_returns True, pr_run_store = No_probe, pr_approval_store = Probe_returns True\<rparr>"

theorem production_config_ready_witness:
  "\<exists>d attachments body. build_default_app (demo_deploy ''remote'') = Inr d \<and> dp_model d \<noteq> None \<and> deployed_attachments demo_adapters pg_attachment_ops d = Inr attachments \<and>
     api_ready (deployed_app demo_adapters pg_run_ops pg_approval_ops attachments d) (deployed_request demo_adapters d demo_api_request) demo_probes = Json 200 body []"
proof -
  obtain g where g: "build_gateway (demo_deploy ''remote'') = Inr g" using demo_stages_remote(3) accepted_result_Inr by blast
  obtain d where d: "build_default_app (demo_deploy ''remote'') = Inr d" "dp_platform_env d = ''production''" "dp_max_bytes d = 10485760"
      "dp_max_pixels d = 25000000" "dp_retention_days d = 30" "dp_gateway d = g" "scanner_config (demo_deploy ''remote'') ''production'' 30 = Inr (dp_scanner d)"
    using demo_build [OF demo_stages_remote(1,2) g demo_stages_remote(4-9)] by blast
  then have sec: "secured_env (dp_platform_env d)" by (simp add: secured_env_def)
  obtain sv where sv: "deployed_attachments demo_adapters pg_attachment_ops d = Inr sv"
    using d by (simp add: deployed_attachments_def attachment_service_init_def)
  have sc: "dp_scanner d \<noteq> None" using d(7) demo_scanner by auto
  have "lower ''remote'' = ''remote''" by code_simp
  with g obtain r where "g = Remote r"
    by (auto simp: build_gateway_def config_simps Let_def demo_deploy_def demo_environ_def getenv_def split: if_splits)
  then have gw: "map_of (gateway_health demo_adapters (dp_gateway d)) ''status'' = Some ''healthy''"
    using d(6) by (simp add: gateway_health_def mcp_http_health_def demo_adapters_def)
  have pr: "component_health (pr_attachments demo_probes)" "component_health (pr_audit demo_probes)" "component_health (pr_run_store demo_probes)"
      "component_health (pr_approval_store demo_probes)" by (simp_all add: demo_probes_def component_health_def)
  note ready = production_config_ready [OF d(1) sec sv, of pg_run_ops pg_approval_ops demo_api_request demo_probes]
  from ready sc gw pr obtain body h where
    b: "api_ready (deployed_app demo_adapters pg_run_ops pg_approval_ops sv d) (deployed_request demo_adapters d demo_api_request) demo_probes = Json 200 body h"
    by blast
  then have "h = []" by (simp add: api_ready_def Let_def)
  with b d(1) sv ready show ?thesis by blast
qed

text \<open>
  The check of the provider mode only excludes \<^verbatim>\<open>synthetic\<close>, while every mode but \<^verbatim>\<open>remote\<close> runs on the synthetic orders: with the
  mode \<^verbatim>\<open>live\<close> a production start is accepted, serves the demo orders and reports its gateway as healthy.
\<close>

lemma misspelled_mode_serves_demo_orders:
  "\<exists>d. build_default_app (demo_deploy ''live'') = Inr d \<and> dp_platform_env d = ''production'' \<and>
     dp_gateway d = InMemory (in_memory_gateway_init fallback_orders) \<and> map_of (gateway_health ad (dp_gateway d)) ''status'' = Some ''healthy''"
proof -
  have "lower ''live'' = ''live''" by code_simp
  then have g: "build_gateway (demo_deploy ''live'') = Inr (InMemory (in_memory_gateway_init fallback_orders))"
    by (simp add: build_gateway_def rbind_def demo_deploy_def demo_environ_def getenv_def)
  from demo_build [OF demo_stages_live(1,2) g demo_stages_live(4-9)] show ?thesis
    by (auto simp: gateway_health_def in_memory_health_def)
qed

end
