(* ===== verification/Process_Loops.thy ===== *)
theory Process_Loops
  imports Schedule_Worker Deployment_Config Contract_Validation
begin

text \<open>
  The two long-running processes: \<^verbatim>\<open>main\<close> of \<^verbatim>\<open>services/worker/main.py\<close> and of \<^verbatim>\<open>services/scheduler/main.py\<close>, after their
  arguments are parsed. Their polling loops may run for ever, so they are partial functions into an option, where
  \<^const>\<open>None\<close> is a loop that does not end. \<open>stop n\<close> is whether the stop event is set when the loop is entered for the
  \<open>n\<close>-th time; what the processes print and an interrupt in the middle of an iteration are left out.
\<close>

section \<open>The consumer loop\<close>

datatype process_exit = Exit nat | Usage string | Crash string

text \<open>
  The parameters of a worker process: the Redis client, the decoders, the claim tokens and the other clients of the
  server, and the environment of each trigger.
\<close>

record 'r worker_host =
  wh_tz :: tzdata
  wh_client :: "'r redis_client"
  wh_loads :: "string \<Rightarrow> json_outcome"
  wh_rep :: "pyval \<Rightarrow> string"
  wh_float :: "pyfloat \<Rightarrow> string"
  wh_sha :: "string \<Rightarrow> string"
  wh_uid :: string
  wh_enqueued_at :: string
  wh_now :: instant
  wh_stop :: "nat \<Rightarrow> bool"
  wh_token :: "nat \<Rightarrow> string"
  wh_interfere :: "nat \<Rightarrow> nat \<Rightarrow> 'r \<Rightarrow> 'r"
  wh_trigger :: "nat \<Rightarrow> trigger_env"
  wh_run_env :: "nat \<Rightarrow> call_env"

partial_function (option) consume_loop ::
    "'r worker_host \<Rightarrow> int \<Rightarrow> bool \<Rightarrow> schedule_definition \<Rightarrow> 'w executor \<Rightarrow> nat \<Rightarrow> redis_queue \<Rightarrow> ('r, 'w) worker_state \<Rightarrow>
     ((worker_error, nat) result \<times> ('r, 'w) worker_state) option" where
  "consume_loop h block_seconds keep_going d ex n q s =
     (if wh_stop h n then Some (Inr 0, s)
      else (case receive (wh_client h) (wh_loads h) (wh_rep h) block_seconds q (ws_server s) of
          (Inl e, q1, r1) \<Rightarrow> Some (Inl (WorkerQueue e), s\<lparr>ws_server := r1\<rparr>)
        | (Inr None, q1, r1) \<Rightarrow>
            if keep_going then consume_loop h block_seconds keep_going d ex (Suc n) q1 (s\<lparr>ws_server := r1\<rparr>)
            else Some (Inr 0, s\<lparr>ws_server := r1\<rparr>)
        | (Inr (Some j), q1, r1) \<Rightarrow>
            (case consume_job (wh_client h) (wh_sha h) (wh_interfere h n) (wh_token h n) (wh_tz h) (wh_trigger h n) q1 d j ex (s\<lparr>ws_server := r1\<rparr>) of
               (Inl e, s1) \<Rightarrow> Some (Inl e, s1)
             | (Inr status, s1) \<Rightarrow>
                 if status \<noteq> 0 \<or> \<not> keep_going then Some (Inr status, s1)
                 else consume_loop h block_seconds keep_going d ex (Suc n) q1 s1)))"

section \<open>The worker process\<close>

record worker_args =
  wa_at :: "string option"
  wa_redis_url :: "string option"
  wa_queue_mode :: string
  wa_worker_id :: "string option"
  wa_block_seconds :: int
  wa_continuous :: bool
  wa_execution_mode :: "string option"

text \<open>\<^verbatim>\<open>except (ImportError, OSError, ValueError, RuntimeError)\<close>.\<close>

fun caught_exit :: "worker_error \<Rightarrow> process_exit" where
  "caught_exit (WorkerQueue (QueueUncaught e)) = Crash e"
| "caught_exit (WorkerSchedule (TypeError m)) = Crash ''TypeError''"
| "caught_exit (WorkerSchedule (KeyError m)) = Crash ''KeyError''"
| "caught_exit (AgentException e) = Crash e"
| "caught_exit _ = Exit 1"

fun config_exit :: "config_error \<Rightarrow> process_exit" where
  "config_exit (ConfigUncaught e) = Crash e"
| "config_exit _ = Exit 1"

fun uncaught_class :: "config_error \<Rightarrow> string" where
  "uncaught_class (ConfigRuntimeError _) = ''RuntimeError''"
| "uncaught_class (ConfigValueError _) = ''ValueError''"
| "uncaught_class (ConfigUncaught e) = e"

text \<open>The agent of the worker: the runtime over the configured gateway, under the configured identity.\<close>

definition worker_executor ::
    "deploy_env \<Rightarrow> ('b, 'l) adapters \<Rightarrow> 'r worker_host \<Rightarrow> string \<Rightarrow> (config_error, exec_state executor) result" where
  "worker_executor de ad h platform_env =
     rbind (build_trace_exporter de (Some platform_env)) (\<lambda>exporter.
     rbind (build_runtime de) (\<lambda>(g, model).
     case build_worker_identity (de_environ de) (Some platform_env) of
       Inl (WorkerConfigurationError m) \<Rightarrow> Inl (ConfigValueError m)
     | Inl _ \<Rightarrow> Inl (ConfigRuntimeError ''worker identity'')
     | Inr identity \<Rightarrow> Inr (agent_executor (runtime_of ad g model exporter) (wh_run_env h) (wh_sha h) identity)))"

definition trigger_time :: "'r worker_host \<Rightarrow> worker_args \<Rightarrow> datetime option" where
  "trigger_time h args =
     (case wa_at args of
        None \<Rightarrow> Some \<lparr>dt_wall = wh_now h, dt_offset = Some 0\<rparr>
      | Some t \<Rightarrow> if t = [] then Some \<lparr>dt_wall = wh_now h, dt_offset = Some 0\<rparr>
          else map_option (\<lambda>dt. if dt_offset dt = None then dt\<lparr>dt_offset := Some 0\<rparr> else dt) (fromiso t))"

definition enqueue_job ::
    "'r worker_host \<Rightarrow> string \<Rightarrow> schedule_definition \<Rightarrow> datetime \<Rightarrow> redis_queue \<Rightarrow> ('r, exec_state) worker_state \<Rightarrow> process_exit \<times> ('r, exec_state) worker_state" where
  "enqueue_job h mode d now q s =
     (case (if mode = ''agent'' then validate_agent_schedule d else Inr ()) of
        Inl e \<Rightarrow> (caught_exit e, s)
      | Inr _ \<Rightarrow> (case build_schedule_job_payload d now of
            Inl e \<Rightarrow> (caught_exit e, s)
          | Inr payload \<Rightarrow>
              (case enqueue (wh_client h) (wh_float h) (wh_uid h) (wh_enqueued_at h) (wh_enqueued_at h) payload q (ws_server s) of
                 (Inl e, _, r1) \<Rightarrow> (caught_exit (WorkerQueue e), s\<lparr>ws_server := r1\<rparr>)
               | (Inr _, _, r1) \<Rightarrow> (Exit 0, s\<lparr>ws_server := r1\<rparr>))))"

definition queue_worker ::
    "deploy_env \<Rightarrow> ('b, 'l) adapters \<Rightarrow> 'r worker_host \<Rightarrow> worker_args \<Rightarrow> string \<Rightarrow> string \<Rightarrow> schedule_definition \<Rightarrow> datetime \<Rightarrow>
     ('r, exec_state) worker_state \<Rightarrow> (process_exit \<times> ('r, exec_state) worker_state) option" where
  "queue_worker de ad h args platform_env mode d now s =
     (case de_redis de (or_default (wa_redis_url args) []) of Inl e \<Rightarrow> Some (config_exit e, s)
      | Inr _ \<Rightarrow> (case redis_queue_init ''agent:jobs'' ''agent-workers'' (wa_worker_id args) 60 (wh_uid h) of
            Inl e \<Rightarrow> Some (caught_exit (WorkerQueue e), s)
          | Inr q \<Rightarrow>
              if wa_queue_mode args = ''enqueue'' then Some (enqueue_job h mode d now q s)
              else (case (if mode = ''agent'' then worker_executor de ad h platform_env else Inr distributed_dry_run) of
                  Inl e \<Rightarrow> Some (config_exit e, s)
                | Inr ex \<Rightarrow>
                    map_option (\<lambda>(res, s1). (case res of Inl e \<Rightarrow> caught_exit e | Inr status \<Rightarrow> Exit status, s1))
                      (consume_loop h (wa_block_seconds args) (wa_continuous args) d ex 0 q s))))"

definition local_worker ::
    "deploy_env \<Rightarrow> ('b, 'l) adapters \<Rightarrow> 'r worker_host \<Rightarrow> string \<Rightarrow> string \<Rightarrow> schedule_definition \<Rightarrow> datetime \<Rightarrow>
     ('r, exec_state) worker_state \<Rightarrow> process_exit \<times> ('r, exec_state) worker_state" where
  "local_worker de ad h platform_env mode d now s =
     (case (if mode = ''agent'' then worker_executor de ad h platform_env else Inr preview_dry_run) of
        Inl e \<Rightarrow> (Crash (uncaught_class e), s)
      | Inr ex \<Rightarrow> (case trigger_job (wh_tz h) (wh_trigger h 0) d (dt_wall now - the (dt_offset now)) ex s of
            (Inl (ValueError m), s1) \<Rightarrow> (Crash ''ValueError'', s1)
          | (Inl (TypeError m), s1) \<Rightarrow> (Crash ''TypeError'', s1)
          | (Inl (KeyError m), s1) \<Rightarrow> (Crash ''KeyError'', s1)
          | (Inr r, s1) \<Rightarrow> (Exit (exit_status r), s1)))"

definition schedule_class :: "schedule_error \<Rightarrow> string" where
  "schedule_class e = (case e of ValueError _ \<Rightarrow> ''ValueError'' | TypeError _ \<Rightarrow> ''TypeError'' | KeyError _ \<Rightarrow> ''KeyError'')"

text \<open>\<open>document\<close> is the decoded schedule file; the state at the start holds no schedule.\<close>

definition worker_main ::
    "deploy_env \<Rightarrow> ('b, 'l) adapters \<Rightarrow> 'r worker_host \<Rightarrow> worker_args \<Rightarrow> pyval \<Rightarrow> 'r \<Rightarrow> exec_state \<Rightarrow>
     (process_exit \<times> ('r, exec_state) worker_state) option" where
  "worker_main de ad h args document r w =
     (let platform_env = lower (var de ''AGENT_PLATFORM_ENV'' ''development'');
          mode = or_default (wa_execution_mode args) (var de ''AGENT_WORKER_EXECUTION_MODE'' ''dry-run'');
          s = \<lparr>ws_server = r, ws_scheduler = scheduler_init, ws_world = w\<rparr>
      in if mode \<notin> {''dry-run'', ''agent''} then Some (Usage ''AGENT_WORKER_EXECUTION_MODE must be dry-run or agent'', s)
         else if secured_env platform_env \<and> mode \<noteq> ''agent'' then Some (Usage ''staging and production require --execution-mode agent'', s)
         else (case load_schedule (wh_rep h) document of Inl e \<Rightarrow> Some (Crash (schedule_class e), s)
           | Inr d \<Rightarrow> (case register (wh_tz h) d scheduler_init of Inl e \<Rightarrow> Some (Crash (schedule_class e), s)
             | Inr sch \<Rightarrow> (case trigger_time h args of None \<Rightarrow> Some (Crash ''ValueError'', s)
               | Some now \<Rightarrow>
                   let s1 = s\<lparr>ws_scheduler := sch\<rparr> in
                   if wa_queue_mode args \<noteq> ''dry-run''
                   then if or_default (wa_redis_url args) [] = [] then Some (Usage ''--redis-url is required for queue mode'', s1)
                        else queue_worker de ad h args platform_env mode d now s1
                   else Some (local_worker de ad h platform_env mode d now s1)))))"

section \<open>The producer process\<close>

definition worker_class :: "worker_error \<Rightarrow> string" where
  "worker_class e = (case e of
     WorkerConfigurationError _ \<Rightarrow> ''WorkerConfigurationError'' | WorkerExecutionError _ \<Rightarrow> ''WorkerExecutionError'' | AgentException x \<Rightarrow> x
   | WorkerQueue (QueueError _) \<Rightarrow> ''QueueError'' | WorkerQueue (QueueValueError _) \<Rightarrow> ''ValueError'' | WorkerQueue (QueueUncaught x) \<Rightarrow> x
   | WorkerSchedule x \<Rightarrow> schedule_class x | WorkerRuntimeError _ \<Rightarrow> ''RuntimeError'')"

text \<open>\<open>clock n\<close> is the time of the \<open>n\<close>-th poll; an exception of \<^verbatim>\<open>enqueue_due\<close> leaves the loop and the process.\<close>

partial_function (option) produce_loop ::
    "'r worker_host \<Rightarrow> (nat \<Rightarrow> instant) \<Rightarrow> bool \<Rightarrow> schedule_definition \<Rightarrow> nat \<Rightarrow> redis_queue \<Rightarrow> 'r \<Rightarrow> ((worker_error, unit) result \<times> 'r) option" where
  "produce_loop h clock once d n q r =
     (if wh_stop h n then Some (Inr (), r)
      else (case enqueue_due (wh_client h) (wh_sha h) (wh_float h) (wh_uid h) (wh_enqueued_at h) (wh_enqueued_at h) (wh_tz h) d (clock n) q r of
          (Inl e, q1, r1) \<Rightarrow> Some (Inl e, r1)
        | (Inr _, q1, r1) \<Rightarrow> if once then Some (Inr (), r1) else produce_loop h clock once d (Suc n) q1 r1))"

definition producer_main ::
    "deploy_env \<Rightarrow> 'r worker_host \<Rightarrow> (nat \<Rightarrow> instant) \<Rightarrow> string \<Rightarrow> int \<Rightarrow> bool \<Rightarrow> pyval \<Rightarrow> 'r \<Rightarrow> (process_exit \<times> 'r) option" where
  "producer_main de h clock redis_url interval_seconds once document r =
     (if interval_seconds \<le> 0 \<or> interval_seconds > 300 then Some (Usage ''--interval-seconds must be between 1 and 300'', r)
      else (case load_schedule (wh_rep h) document of Inl e \<Rightarrow> Some (Crash (schedule_class e), r)
        | Inr d \<Rightarrow> (case validate_agent_schedule d of Inl _ \<Rightarrow> Some (Crash ''WorkerConfigurationError'', r)
          | Inr _ \<Rightarrow> (case de_redis de redis_url of Inl e \<Rightarrow> Some (Crash (uncaught_class e), r)
            | Inr _ \<Rightarrow> (case redis_queue_init ''agent:jobs'' ''agent-workers'' (Some ''schedule-producer'') 60 (wh_uid h) of
                  Inl _ \<Rightarrow> Some (Crash ''ValueError'', r)
                | Inr q \<Rightarrow> map_option (\<lambda>(res, r1). (case res of Inl e \<Rightarrow> Crash (worker_class e) | Inr _ \<Rightarrow> Exit 0, r1))
                    (produce_loop h clock once d 0 q r))))))"

section \<open>The loops end\<close>

lemma consume_once_returns: "\<exists>res. consume_loop h b False d ex n q s = Some res"
  by (subst consume_loop.simps) (auto split: prod.splits sum.splits option.splits)

lemma consume_stopped_returns:
  assumes "wh_stop h (n + k)"
  shows "\<exists>res. consume_loop h b keep_going d ex n q s = Some res"
  using assms
proof (induction k arbitrary: n q s)
  case 0
  then show ?case by (subst consume_loop.simps) simp
next
  case (Suc k)
  have "\<exists>res. consume_loop h b keep_going d ex (Suc n) q' s' = Some res" for q' s'
    using Suc.prems by (intro Suc.IH) simp
  then show ?case
    by (subst consume_loop.simps) (auto split: prod.splits sum.splits option.splits)
qed

text \<open>A worker that keeps going reports success only because it was told to stop.\<close>

lemma consume_success_stopped:
  assumes "consume_loop h b keep_going d ex n q s = Some res" "keep_going" "fst res = Inr 0"
  shows "\<exists>m\<ge>n. wh_stop h m"
proof -
  have "keep_going \<longrightarrow> fst res = Inr 0 \<longrightarrow> (\<exists>m\<ge>n. wh_stop h m)"
  proof (rule consume_loop.raw_induct [where P = "\<lambda>h b k d ex n q s res. k \<longrightarrow> fst res = Inr 0 \<longrightarrow> (\<exists>m\<ge>n. wh_stop h m)", OF _ assms(1)])
    fix f h b k d ex n q s y
    assume IH: "\<And>h b k d ex n q s y. f h b k d ex n q s = Some y \<Longrightarrow> k \<longrightarrow> fst y = Inr 0 \<longrightarrow> (\<exists>m\<ge>n. wh_stop h m)"
      and eq: "(if wh_stop h n then Some (Inr 0, s)
        else case receive (wh_client h) (wh_loads h) (wh_rep h) b q (ws_server s) of
          (Inl e, q1, r1) \<Rightarrow> Some (Inl (WorkerQueue e), s\<lparr>ws_server := r1\<rparr>)
        | (Inr None, q1, r1) \<Rightarrow> if k then f h b k d ex (Suc n) q1 (s\<lparr>ws_server := r1\<rparr>) else Some (Inr 0, s\<lparr>ws_server := r1\<rparr>)
        | (Inr (Some j), q1, r1) \<Rightarrow>
            (case consume_job (wh_client h) (wh_sha h) (wh_interfere h n) (wh_token h n) (wh_tz h) (wh_trigger h n) q1 d j ex (s\<lparr>ws_server := r1\<rparr>) of
               (Inl e, s1) \<Rightarrow> Some (Inl e, s1)
             | (Inr status, s1) \<Rightarrow> if status \<noteq> 0 \<or> \<not> k then Some (Inr status, s1) else f h b k d ex (Suc n) q1 s1)) = Some y"
    have later: "f h b k d ex (Suc n) q' s' = Some y \<Longrightarrow> k \<longrightarrow> fst y = Inr 0 \<longrightarrow> (\<exists>m\<ge>n. wh_stop h m)" for q' s'
      using IH Suc_leD by blast
    obtain a q1 r1 where rc: "receive (wh_client h) (wh_loads h) (wh_rep h) b q (ws_server s) = (a, q1, r1)" by (metis prod_cases3)
    show "k \<longrightarrow> fst y = Inr 0 \<longrightarrow> (\<exists>m\<ge>n. wh_stop h m)"
    proof (cases "\<exists>j. a = Inr (Some j)")
      case True
      then obtain j where j: "a = Inr (Some j)" by blast
      obtain o' s1 where c: "consume_job (wh_client h) (wh_sha h) (wh_interfere h n) (wh_token h n) (wh_tz h) (wh_trigger h n) q1 d j ex (s\<lparr>ws_server := r1\<rparr>) = (o', s1)"
        by (rule prod.exhaust)
      show ?thesis using eq later by (cases o') (auto simp: rc j c split: if_splits)
    next
      case False
      with eq rc later show ?thesis by (auto split: if_splits sum.splits option.splits)
    qed
  qed
  with assms(2,3) show ?thesis by blast
qed

lemma caught_exit_nonzero: "caught_exit e \<noteq> Exit 0"
  by (cases e rule: caught_exit.cases) auto

lemma loop_exit_zero: "(case res of Inl e \<Rightarrow> caught_exit e | Inr status \<Rightarrow> Exit status) = Exit 0 \<longleftrightarrow> res = Inr 0"
  by (cases res) (simp_all add: caught_exit_nonzero)

lemma produce_stopped_returns:
  assumes "once \<or> wh_stop h (n + k)"
  shows "\<exists>res. produce_loop h clock once d n q r = Some res"
  using assms
proof (induction k arbitrary: n q r)
  case 0
  then show ?case by (subst produce_loop.simps) (auto split: prod.splits sum.splits)
next
  case (Suc k)
  have "\<exists>res. produce_loop h clock once d (Suc n) q' r' = Some res" for q' r'
    using Suc.prems by (intro Suc.IH) simp
  then show ?case by (subst produce_loop.simps) (auto split: prod.splits sum.splits)
qed

text \<open>
  C31. The processes end when they should: without \<^verbatim>\<open>--continuous\<close> the worker process always returns, and with it
  as soon as a stop is requested; the producer returns with \<^verbatim>\<open>--once\<close> or after an interrupt. A continuous queue worker
  that exits with success was told to stop: a failed job, a payload that is refused and a broken queue each end it with
  another status.\<close>

theorem processes_terminate:
  "(\<not> wa_continuous args \<or> (\<exists>m. wh_stop h m) \<longrightarrow> (\<exists>e s'. worker_main de ad h args document r w = Some (e, s'))) \<and>
   (once \<or> (\<exists>m. wh_stop h m) \<longrightarrow> (\<exists>e r'. producer_main de h clock redis_url interval once document r = Some (e, r'))) \<and>
   (\<forall>s'. wa_continuous args \<and> wa_queue_mode args = ''consume'' \<and>
      queue_worker de ad h args platform_env mode d now s = Some (Exit 0, s') \<longrightarrow> (\<exists>m. wh_stop h m))"
proof (intro conjI impI allI)
  assume "\<not> wa_continuous args \<or> (\<exists>m. wh_stop h m)"
  then have loop: "consume_loop h b (wa_continuous args) d ex 0 q s \<noteq> None" for b d q and ex :: "exec_state executor" and s
    using consume_once_returns consume_stopped_returns [of h 0] by (cases "wa_continuous args") fastforce+
  have "queue_worker de ad h args p mode d now s \<noteq> None" for p mode d now s
    by (simp add: queue_worker_def loop del: not_None_eq split: sum.splits)
  then have "worker_main de ad h args document r w \<noteq> None"
    by (simp add: worker_main_def Let_def del: not_None_eq split: sum.splits option.splits)
  then show "\<exists>e s'. worker_main de ad h args document r w = Some (e, s')" by auto
next
  assume "once \<or> (\<exists>m. wh_stop h m)"
  then have loop: "produce_loop h clock once d 0 q r \<noteq> None" for d q r
    using produce_stopped_returns [of once h 0] by fastforce
  have "producer_main de h clock redis_url interval once document r \<noteq> None"
    by (simp add: producer_main_def loop del: not_None_eq split: sum.splits)
  then show "\<exists>e r'. producer_main de h clock redis_url interval once document r = Some (e, r')" by auto
next
  fix s'
  assume a: "wa_continuous args \<and> wa_queue_mode args = ''consume'' \<and> queue_worker de ad h args platform_env mode d now s = Some (Exit 0, s')"
  have "config_exit e \<noteq> Exit 0" for e by (cases e) auto
  with a obtain q ex where "consume_loop h (wa_block_seconds args) True d ex 0 q s = Some (Inr 0, s')"
    by (auto simp: queue_worker_def caught_exit_nonzero loop_exit_zero split: sum.split_asm if_splits)
  from consume_success_stopped [OF this] show "\<exists>m. wh_stop h m" by auto
qed

section \<open>A concrete process\<close>

definition demo_host :: "(string, string) dict worker_host" where
  "demo_host = \<lparr>wh_tz = demo_tz, wh_client = toy_redis, wh_loads = \<lambda>_. JDecodeError, wh_rep = \<lambda>_. [], wh_float = \<lambda>_. [], wh_sha = id,
     wh_uid = ''u'', wh_enqueued_at = ''t'', wh_now = 0, wh_stop = \<lambda>n. n = 3, wh_token = \<lambda>_. ''tok'', wh_interfere = \<lambda>_ _ r. r,
     wh_trigger = \<lambda>_. demo_tenv, wh_run_env = \<lambda>_. demo_env\<rparr>"

definition demo_args :: worker_args where
  "demo_args = \<lparr>wa_at = None, wa_redis_url = Some ''redis://r'', wa_queue_mode = ''consume'', wa_worker_id = None, wa_block_seconds = 5,
     wa_continuous = True, wa_execution_mode = Some ''dry-run''\<rparr>"

theorem processes_terminate_witness:
  "wh_stop demo_host 3 \<and> (\<exists>e s'. worker_main (demo_deploy ''remote'') demo_adapters demo_host demo_args (VDict demo_schedule) [] (demo_audit, 0) = Some (e, s'))"
proof -
  have "wh_stop demo_host 3" by (simp add: demo_host_def)
  moreover have "\<exists>e s'. worker_main (demo_deploy ''remote'') demo_adapters demo_host demo_args (VDict demo_schedule) [] (demo_audit, 0) = Some (e, s')"
    by (rule conjunct1 [OF processes_terminate, THEN mp]) (use \<open>wh_stop demo_host 3\<close> in blast)
  ultimately show ?thesis by simp
qed

end
