(* ===== verification/Postgres_Audit.thy ===== *)
theory Postgres_Audit
  imports Audit_Log
begin

text \<open>
  The connection handling of \<^verbatim>\<open>packages/persistence/postgres.py\<close> and its \<^verbatim>\<open>PostgresAuditStore\<close>, the event
  store of the clustered deployment. The table is the \<^typ>\<open>audit_table\<close> of the SQLite store; the serial
  number of a row is drawn from a sequence that a rollback does not restore. The driver is a parameter:
  the result of \<^verbatim>\<open>psycopg.connect\<close>, the fate of a transaction, and \<open>jsonb\<close>, the text that the operator
  \<^verbatim>\<open>->>\<close> gives for a JSON value that is neither a string nor null.
\<close>

section \<open>Connections\<close>

datatype pg_error = PgValueError string | PgRuntimeError string | PgDriverError string

definition pg_connect :: "(string \<Rightarrow> 'e + 'c) option \<Rightarrow> string \<Rightarrow> pg_error + 'c" where
  "pg_connect psycopg url =
     (if blank url \<or> length url > 4096 then Inl (PgValueError ''PostgreSQL database URL is invalid'')
      else case psycopg of
        None \<Rightarrow> Inl (PgRuntimeError ''psycopg is required when AGENT_STORAGE_MODE=postgres'')
      | Some connect \<Rightarrow> (case connect url of
          Inl _ \<Rightarrow> Inl (PgRuntimeError ''PostgreSQL connection failed'')
        | Inr c \<Rightarrow> Inr c))"

text \<open>\<^verbatim>\<open>_PostgresStore.healthcheck\<close>: the row that \<^verbatim>\<open>SELECT 1\<close> fetched, or the exception.\<close>

definition pg_healthcheck :: "'e + pyval list option \<Rightarrow> bool" where
  "pg_healthcheck select_1 = (case select_1 of Inl _ \<Rightarrow> False | Inr row \<Rightarrow> row = Some [VInt 1])"

section \<open>The event table\<close>

text \<open>
  The constructor's statement \<^verbatim>\<open>UPDATE run_events SET tenant_id = payload_json::jsonb ->> 'tenant_id'\<close>
  for the rows without a tenant: unlike the SQLite migration it also takes blank strings and values
  that are not strings.
\<close>

definition jsonb_text :: "(pyval \<Rightarrow> string) \<Rightarrow> pyval \<Rightarrow> string option" where
  "jsonb_text jsonb v = (case v of VNone \<Rightarrow> None | VStr s \<Rightarrow> Some s | _ \<Rightarrow> Some (jsonb v))"

definition pg_repair_row :: "(pyval \<Rightarrow> string) \<Rightarrow> audit_row \<Rightarrow> audit_row" where
  "pg_repair_row jsonb r = (case ar_tenant_id r of
       Some _ \<Rightarrow> r
     | None \<Rightarrow> r\<lparr>ar_tenant_id := jsonb_text jsonb (dget (ev_payload (ar_event r)) ''tenant_id'')\<rparr>)"

definition pg_audit_initialize :: "(pyval \<Rightarrow> string) \<Rightarrow> audit_table \<Rightarrow> audit_table" where
  "pg_audit_initialize jsonb t = t\<lparr>at_rows := map (pg_repair_row jsonb) (at_rows t)\<rparr>"

text \<open>
  One \<^verbatim>\<open>append\<close>: the transaction commits, or it fails after (or before) the sequence was advanced and is
  rolled back; the exception is raised again.
\<close>

datatype pg_outcome = Committed | Failed_after_nextval string | Failed_before_nextval string

definition pg_audit_append ::
    "pg_outcome \<Rightarrow> audit_event \<Rightarrow> audit_table \<Rightarrow> (pg_error + unit) \<times> audit_table" where
  "pg_audit_append outcome e t = (case outcome of
       Committed \<Rightarrow> (Inr (),
         \<lparr>at_rows = at_rows t @ [\<lparr>ar_sequence = at_next t, ar_event = canon_event e,
                                  ar_tenant_id = ev_tenant_id e\<rparr>],
          at_next = Suc (at_next t)\<rparr>)
     | Failed_after_nextval x \<Rightarrow> (Inl (PgDriverError x), t\<lparr>at_next := Suc (at_next t)\<rparr>)
     | Failed_before_nextval x \<Rightarrow> (Inl (PgDriverError x), t))"

definition pg_audit_list_events ::
    "string option \<Rightarrow> string option \<Rightarrow> string option \<Rightarrow> string option \<Rightarrow> audit_table \<Rightarrow> audit_event list" where
  "pg_audit_list_events trace run ws tenant t =
     map ar_event (filter (\<lambda>r. clause trace (Some (ev_trace_id (ar_event r))) \<and>
         clause run (Some (ev_run_id (ar_event r))) \<and>
         clause ws (Some (ev_workspace_id (ar_event r))) \<and>
         clause tenant (ar_tenant_id r))
       (sort_key ar_sequence (at_rows t)))"

section \<open>The contract\<close>

lemma pg_append_committed: "snd (pg_audit_append Committed e t) = sqlite_append e t"
  by (simp add: pg_audit_append_def sqlite_append_def)

lemma pg_list_events_eq: "pg_audit_list_events a b c d t = sqlite_list_events a b c d t"
  by (simp add: pg_audit_list_events_def sqlite_list_events_def)

interpretation pg_events: event_store empty_table "\<lambda>e t. snd (pg_audit_append Committed e t)"
  pg_audit_list_events "\<lambda>t. map ar_event (at_rows t)" table_ok
  unfolding pg_append_committed pg_list_events_eq [abs_def]
  by (rule sqlite_events.event_store_axioms)

lemma pg_append_invar:
  "table_ok t \<Longrightarrow> distinct (map fst (ev_payload e)) \<Longrightarrow> table_ok (snd (pg_audit_append out e t))"
  using table_ok_append [of t e]
  by (cases out) (auto simp: pg_audit_append_def sqlite_append_def table_ok_def less_Suc_eq)

text \<open>
  A sequence of appends, some of which fail: a read returns exactly the committed events that match, in
  the order in which they were appended, although the failures leave gaps in the numbering.
\<close>

fun pg_appends :: "(pg_outcome \<times> audit_event) list \<Rightarrow> audit_table \<Rightarrow> audit_table" where
  "pg_appends [] t = t"
| "pg_appends ((out, e) # xs) t = pg_appends xs (snd (pg_audit_append out e t))"

lemma pg_appends_invar:
  "table_ok t \<Longrightarrow> \<forall>(out, e)\<in>set xs. distinct (map fst (ev_payload e)) \<Longrightarrow> table_ok (pg_appends xs t)"
  by (induction xs t rule: pg_appends.induct) (auto simp: pg_append_invar)

lemma pg_appends_events:
  "map ar_event (at_rows (pg_appends xs t)) =
     map ar_event (at_rows t) @ map (canon_event \<circ> snd) (filter (\<lambda>x. fst x = Committed) xs)"
  by (induction xs t rule: pg_appends.induct) (auto simp: pg_audit_append_def split: pg_outcome.splits)

lemma pg_reads_committed_events:
  assumes "\<forall>(out, e)\<in>set xs. distinct (map fst (ev_payload e))"
  shows "pg_audit_list_events tr run ws n (pg_appends xs empty_table) =
     filter (event_matches tr run ws n) (map (canon_event \<circ> snd) (filter (\<lambda>x. fst x = Committed) xs))"
  using pg_events.list_events_eq [OF pg_appends_invar [OF pg_events.invar_empty assms], of tr run ws n]
  by (simp add: pg_appends_events pg_events.events_empty)

section \<open>Databases written before the tenant column existed\<close>

text \<open>
  The two migrations may write different tenant columns, but the facade compares the tenant of the payload
  again: after either migration, a read for a tenant returns the same events.
\<close>

definition facade_view ::
    "string option \<Rightarrow> string option \<Rightarrow> string option \<Rightarrow> string \<Rightarrow> audit_table \<Rightarrow> audit_event list" where
  "facade_view tr run ws n t = audit_list_events tr run ws (Some n) \<lparr>al_events = [], al_store = Some t\<rparr>"

lemma facade_view_eq:
  "facade_view tr run ws n t =
     map ar_event (filter (\<lambda>r. event_matches tr run ws None (ar_event r) \<and> clause (Some n) (ar_tenant_id r) \<and>
         dget (ev_payload (ar_event r)) ''tenant_id'' = VStr n) (sort_key ar_sequence (at_rows t)))"
  by (auto simp: facade_view_def audit_list_events_def sqlite_list_events_def event_matches_def
      filter_map comp_def clause_def intro!: arg_cong [where f = "map ar_event"] filter_cong)

lemma sort_key_map:
  "(\<And>x. k (f x) = k x) \<Longrightarrow> sort_key k (map f xs) = map f (sort_key k xs)"
proof (induction xs)
  case (Cons x xs)
  have "insort_key k (f x) (map f ys) = map f (insort_key k x ys)" for ys
    by (induction ys) (auto simp: Cons.prems)
  with Cons show ?case by simp
qed simp

lemma migrations_agree:
  assumes "\<not> blank n"
  shows "facade_view tr run ws n (pg_audit_initialize jsonb t) = facade_view tr run ws n (ensure_tenant_column t)"
proof -
  have seq: "ar_sequence (pg_repair_row jsonb r) = ar_sequence r"
    and ev: "ar_event (pg_repair_row jsonb r) = ar_event r" for r
    by (auto simp: pg_repair_row_def split: option.splits)
  have ten: "clause (Some n) (ar_tenant_id (pg_repair_row jsonb r)) \<longleftrightarrow> clause (Some n) (ar_tenant_id (repair_tenant r))"
    if "dget (ev_payload (ar_event r)) ''tenant_id'' = VStr n" for r
    using that assms by (auto simp: pg_repair_row_def repair_tenant_def jsonb_text_def split: option.splits)
  show ?thesis
    by (auto simp: facade_view_eq pg_audit_initialize_def ensure_tenant_column_def sort_key_map seq ev
        filter_map comp_def ten intro!: arg_cong [where f = "map ar_event"] filter_cong)
qed

lemma pg_audit_initialize_idem:
  assumes "\<forall>r\<in>set (at_rows t). ar_tenant_id r \<noteq> None \<or> dget (ev_payload (ar_event r)) ''tenant_id'' = VNone"
  shows "pg_audit_initialize jsonb t = t"
proof -
  have "map (pg_repair_row jsonb) (at_rows t) = at_rows t"
    using assms by (intro map_idI) (auto simp: pg_repair_row_def jsonb_text_def split: option.splits)
  then show ?thesis by (simp add: pg_audit_initialize_def)
qed

end
