(* ===== verification/Production_Preflight.thy ===== *)
theory Production_Preflight
  imports Deployment_Config
begin

text \<open>
  The operator's check of a production environment, \<^verbatim>\<open>scripts/production_preflight.py\<close>: the static checks of the
  variables, the live probes, and the report with the exit status. The Redis client, the HTTP opener, the S3 client and the
  connection to clamd are parameters. The properties relate a passing report to the application that \<^const>\<open>build_default_app\<close>
  puts together from the same variables, and show that the report tells nothing of a secret but whether it is configured.
\<close>

section \<open>Checks\<close>

record preflight_check =
  ck_name :: string
  ck_status :: string
  ck_detail :: string

definition mk_check :: "string \<Rightarrow> bool \<Rightarrow> string \<Rightarrow> string \<Rightarrow> preflight_check" where
  "mk_check name ok yes no = \<lparr>ck_name = name, ck_status = (if ok then ''PASS'' else ''FAIL''), ck_detail = (if ok then yes else no)\<rparr>"

definition env_value :: "environ \<Rightarrow> string \<Rightarrow> string" where
  "env_value env name = strip (getenv env name [])"

definition placeholder :: "string \<Rightarrow> bool" where
  "placeholder v \<longleftrightarrow> v = [] \<or> contains (lower v) ''example.invalid'' \<or> contains (lower v) ''replace_''"

definition env_hosts :: "environ \<Rightarrow> string \<Rightarrow> string list" where
  "env_hosts env name = hosts (env_value env name)"

definition env_endpoint :: "ip6_parser \<Rightarrow> environ \<Rightarrow> string \<Rightarrow> string \<Rightarrow> string \<Rightarrow> string \<Rightarrow> (string, string) result" where
  "env_endpoint ip6 env name allowlist_name label default_path =
     (if placeholder (env_value env name) then Inl (name @ '' is missing or still contains an example value'')
      else validated_https_endpoint ip6 (env_value env name) (env_hosts env allowlist_name) label default_path)"

definition require_var :: "environ \<Rightarrow> string \<Rightarrow> preflight_check" where
  "require_var env name = mk_check name (\<not> placeholder (env_value env name)) ''configured'' ''missing or placeholder''"

text \<open>\<^verbatim>\<open>detail or "..."\<close>: the value itself is the detail, whatever the status.\<close>

definition value_check :: "string \<Rightarrow> bool \<Rightarrow> string \<Rightarrow> string \<Rightarrow> preflight_check" where
  "value_check name ok v missing = mk_check name ok (if v = [] then missing else v) (if v = [] then missing else v)"

definition network_check :: "string \<Rightarrow> string \<Rightarrow> (string, 'a) result \<Rightarrow> preflight_check" where
  "network_check name ok r = (case r of
     Inl e \<Rightarrow> \<lparr>ck_name = name, ck_status = ''FAIL'', ck_detail = e\<rparr>
   | Inr _ \<Rightarrow> \<lparr>ck_name = name, ck_status = ''PASS'', ck_detail = ok\<rparr>)"

abbreviation endpoint_ok :: string where
  "endpoint_ok \<equiv> ''HTTPS endpoint is public and allowlisted''"

section \<open>Static checks\<close>

text \<open>\<^const>\<open>Inl\<close> is the \<^verbatim>\<open>ValueError\<close> of \<^verbatim>\<open>urlparse\<close>, which nothing catches here.\<close>

definition database_dsn :: "ip6_parser \<Rightarrow> environ \<Rightarrow> (config_error, bool) result" where
  "database_dsn ip6 env =
     (let database_url = env_value env ''AGENT_DATABASE_URL'' in
      case urlparse ip6 database_url of
        None \<Rightarrow> Inl (ConfigValueError ''Invalid IPv6 URL'')
      | Some parsed \<Rightarrow> Inr (pu_scheme parsed \<in> {''postgres'', ''postgresql''} \<and> pu_hostname parsed \<noteq> [] \<and> \<not> placeholder database_url))"

definition storage_checks :: "ip6_parser \<Rightarrow> environ \<Rightarrow> (config_error, preflight_check list) result" where
  "storage_checks ip6 env =
     (let mode = lower (env_value env ''AGENT_STORAGE_MODE'') in
      if mode = ''postgres''
      then rbind (database_dsn ip6 env) (\<lambda>ok.
        Inr [require_var env ''AGENT_DATABASE_URL'',
             mk_check ''storage.postgres_url'' ok ''PostgreSQL DSN is configured'' ''AGENT_DATABASE_URL must be a non-placeholder PostgreSQL DSN''])
      else if mode = ''sqlite''
      then Inr [mk_check ''storage.sqlite_single_node'' True ''SQLite is explicitly selected; deployment is single-node only'' []]
      else Inr [mk_check ''storage.mode'' False [] ''production requires AGENT_STORAGE_MODE=postgres or sqlite''])"

definition platform_checks :: "environ \<Rightarrow> preflight_check list" where
  "platform_checks env =
     (let e = lower (env_value env ''AGENT_PLATFORM_ENV''); provider = env_value env ''AGENT_PROVIDER_MODE'' in
      [value_check ''platform.environment'' (e \<in> {''staging'', ''production''}) e ''AGENT_PLATFORM_ENV is missing'',
       value_check ''provider.remote'' (lower provider = ''remote'') provider ''AGENT_PROVIDER_MODE is missing''])"

definition adapter_checks :: "environ \<Rightarrow> preflight_check list" where
  "adapter_checks env = map (require_var env)
     [''AGENT_REDIS_URL'', ''AGENT_TRACE_ENDPOINT'', ''AGENT_TRACE_ALLOWED_HOSTS'', ''AGENT_MCP_ENDPOINT'', ''AGENT_MCP_ALLOWED_HOSTS'',
      ''AGENT_MCP_BEARER_TOKEN'', ''AGENT_MODEL_ENDPOINT'', ''AGENT_MODEL_API_KEY'', ''AGENT_MODEL_NAME'', ''AGENT_MODEL_ALLOWED_HOSTS'']"

definition vision_checks :: "ip6_parser \<Rightarrow> environ \<Rightarrow> preflight_check list" where
  "vision_checks ip6 env =
     (if list_ex (\<lambda>n. env_value env n \<noteq> []) [''AGENT_VISION_ENDPOINT'', ''AGENT_VISION_API_KEY'', ''AGENT_VISION_MODEL'']
      then map (require_var env) [''AGENT_VISION_ENDPOINT'', ''AGENT_VISION_API_KEY'', ''AGENT_VISION_MODEL'', ''AGENT_VISION_ALLOWED_HOSTS''] @
           [network_check ''network.vision'' endpoint_ok
              (env_endpoint ip6 env ''AGENT_VISION_ENDPOINT'' ''AGENT_VISION_ALLOWED_HOSTS'' ''Vision'' ''/chat/completions'')]
      else [\<lparr>ck_name = ''vision.optional'', ck_status = ''NOT_APPLICABLE'', ck_detail = ''Vision/OCR egress is disabled''\<rparr>])"

definition identity_checks :: "ip6_parser \<Rightarrow> environ \<Rightarrow> preflight_check list" where
  "identity_checks ip6 env =
     (let mode = lower (env_value env ''AGENT_AUTH_MODE'') in
      value_check ''identity.mode'' (mode \<in> {''oidc_jwks'', ''jwt_hs256''}) mode ''production requires oidc_jwks or jwt_hs256'' #
      (if mode = ''oidc_jwks''
       then map (require_var env) [''AGENT_OIDC_ISSUER'', ''AGENT_OIDC_AUDIENCE'', ''AGENT_OIDC_JWKS_URI'', ''AGENT_OIDC_ALLOWED_HOSTS''] @
            [network_check ''identity.endpoint_policy'' ''OIDC endpoints are HTTPS and allowlisted''
               (rbind (env_endpoint ip6 env ''AGENT_OIDC_ISSUER'' ''AGENT_OIDC_ALLOWED_HOSTS'' ''OIDC issuer'' ''/'') (\<lambda>_.
                env_endpoint ip6 env ''AGENT_OIDC_JWKS_URI'' ''AGENT_OIDC_ALLOWED_HOSTS'' ''OIDC JWKS'' ''/''))]
       else if mode = ''jwt_hs256''
       then let secret = env_value env ''AGENT_JWT_SECRET''; long_enough = utf8_length secret \<ge> 32 in
            [\<lparr>ck_name = ''identity.secret'', ck_status = (if long_enough \<and> \<not> placeholder secret then ''PASS'' else ''FAIL''),
              ck_detail = (if long_enough then ''HS256 secret length is acceptable'' else ''HS256 secret must be at least 32 bytes'')\<rparr>,
             require_var env ''AGENT_JWT_ISSUER'', require_var env ''AGENT_JWT_AUDIENCE'']
       else []))"

definition attachment_checks :: "environ \<Rightarrow> preflight_check list" where
  "attachment_checks env =
     (let storage = lower (env_value env ''AGENT_ATTACHMENT_STORAGE''); scanner = lower (env_value env ''AGENT_MALWARE_SCANNER'');
          retention = env_value env ''AGENT_ATTACHMENT_RETENTION_DAYS'';
          retention_ok = (case py_int retention of None \<Rightarrow> False | Some n \<Rightarrow> n > 0)
      in [value_check ''attachments.object_storage'' (storage = ''s3'') storage ''S3 storage is required'',
          value_check ''attachments.scanner'' (scanner = ''clamav'') scanner ''ClamAV is required'',
          value_check ''attachments.retention'' retention_ok retention ''positive retention is required''] @
         map (require_var env) [''AGENT_S3_BUCKET'', ''AGENT_S3_REGION'', ''AGENT_S3_KMS_KEY_ID'', ''AGENT_S3_ENDPOINT'', ''AGENT_S3_ALLOWED_HOSTS'',
           ''AGENT_CLAMAV_HOST'', ''AGENT_WORKER_USER_ID'', ''AGENT_WORKER_WORKSPACE_ID'', ''AGENT_WORKER_TENANT_ID'', ''AGENT_WORKER_ROLE''])"

definition endpoint_checks :: "ip6_parser \<Rightarrow> environ \<Rightarrow> preflight_check list" where
  "endpoint_checks ip6 env =
     [network_check ''network.MCP'' endpoint_ok (env_endpoint ip6 env ''AGENT_MCP_ENDPOINT'' ''AGENT_MCP_ALLOWED_HOSTS'' ''MCP'' ''/''),
      network_check ''network.model'' endpoint_ok (env_endpoint ip6 env ''AGENT_MODEL_ENDPOINT'' ''AGENT_MODEL_ALLOWED_HOSTS'' ''model'' ''/v1/chat/completions''),
      network_check ''network.trace exporter'' endpoint_ok (env_endpoint ip6 env ''AGENT_TRACE_ENDPOINT'' ''AGENT_TRACE_ALLOWED_HOSTS'' ''trace exporter'' ''/v1/traces''),
      network_check ''network.S3'' endpoint_ok (env_endpoint ip6 env ''AGENT_S3_ENDPOINT'' ''AGENT_S3_ALLOWED_HOSTS'' ''S3'' ''/'')]"

definition static_checks :: "ip6_parser \<Rightarrow> environ \<Rightarrow> (config_error, preflight_check list) result" where
  "static_checks ip6 env =
     rbind (storage_checks ip6 env) (\<lambda>storage.
     Inr (platform_checks env @ storage @ adapter_checks env @ vision_checks ip6 env @ identity_checks ip6 env @
          attachment_checks env @ endpoint_checks ip6 env))"

section \<open>Live checks\<close>

text \<open>
  What a probe does: it answers, it raises an exception of the class named that the script catches, or one that it does not.
\<close>

datatype 'a live = Answers 'a | Caught string | Escaping string

record live_env =
  le_redis :: "string \<Rightarrow> bool live"
  le_open :: "string \<Rightarrow> (string, string) dict \<Rightarrow> int live"
  le_s3_client :: "string \<Rightarrow> string option \<Rightarrow> (string, unit) result"
  le_head_bucket :: "string \<Rightarrow> bool"
  le_clamd :: "clamav_scanner \<Rightarrow> string list \<Rightarrow> string option"

definition live_http :: "live_env \<Rightarrow> string \<Rightarrow> string \<Rightarrow> string \<Rightarrow> (config_error, preflight_check) result" where
  "live_http le name endpoint bearer =
     (case le_open le endpoint ([(''Accept'', ''application/json'')] @
          (if bearer = [] then [] else [(''Authorization'', ''Bearer '' @ bearer)])) of
        Caught e \<Rightarrow> Inr (mk_check name False [] e)
      | Escaping e \<Rightarrow> Inl (ConfigUncaught e)
      | Answers status \<Rightarrow> Inr (mk_check name ((200 \<le> status \<and> status < 400) \<or> status = 405)
          (''HTTP '' @ int_str status) (''HTTP '' @ int_str status)))"

definition live_endpoint :: "ip6_parser \<Rightarrow> environ \<Rightarrow> live_env \<Rightarrow> string \<Rightarrow> string \<Rightarrow> string \<Rightarrow> string \<Rightarrow> string \<Rightarrow> string \<Rightarrow>
    (config_error, preflight_check) result" where
  "live_endpoint ip6 env le name endpoint_name allowlist_name label bearer_name default_path =
     (case env_endpoint ip6 env endpoint_name allowlist_name label default_path of
        Inl e \<Rightarrow> Inr (mk_check name False [] e)
      | Inr url \<Rightarrow> live_http le name url (env_value env bearer_name))"

definition live_redis :: "ip6_parser \<Rightarrow> environ \<Rightarrow> live_env \<Rightarrow> (config_error, preflight_check) result" where
  "live_redis ip6 env le =
     (let redis_url = env_value env ''AGENT_REDIS_URL''; failed = (\<lambda>e. mk_check ''live.redis'' False [] e) in
      case urlparse ip6 redis_url of
        None \<Rightarrow> Inr (failed ''ValueError'')
      | Some parsed \<Rightarrow>
          if pu_scheme parsed \<notin> {''redis'', ''rediss''} \<or> pu_hostname parsed = [] \<or> is_disallowed_host ip6 (pu_hostname parsed)
          then Inr (failed ''ValueError'')
          else (case le_redis le redis_url of
              Answers healthy \<Rightarrow> Inr (mk_check ''live.redis'' healthy ''PING response received'' ''PING response received'')
            | Caught e \<Rightarrow> Inr (failed e)
            | Escaping e \<Rightarrow> Inl (ConfigUncaught e)))"

definition or_none :: "string \<Rightarrow> string option" where
  "or_none s = (if s = [] then None else Some s)"

definition live_s3 :: "ip6_parser \<Rightarrow> environ \<Rightarrow> live_env \<Rightarrow> preflight_check" where
  "live_s3 ip6 env le =
     (let failed = (\<lambda>e. mk_check ''live.s3'' False [] e) in
      case env_endpoint ip6 env ''AGENT_S3_ENDPOINT'' ''AGENT_S3_ALLOWED_HOSTS'' ''S3'' ''/'' of
        Inl _ \<Rightarrow> failed ''ValueError''
      | Inr endpoint \<Rightarrow> (case le_s3_client le endpoint (or_none (env_value env ''AGENT_S3_REGION'')) of
          Inl e \<Rightarrow> failed e
        | Inr _ \<Rightarrow> (case s3_init (env_value env ''AGENT_S3_BUCKET'')
              (case or_none (env_value env ''AGENT_S3_PREFIX'') of None \<Rightarrow> ''attachments'' | Some p \<Rightarrow> p) (or_none (env_value env ''AGENT_S3_KMS_KEY_ID'')) of
            Inl _ \<Rightarrow> failed ''ValueError''
          | Inr st \<Rightarrow> mk_check ''live.s3'' (le_head_bucket le (st_bucket st)) ''HeadBucket response received'' ''bucket is unavailable'')))"

fun attachment_error_class :: "attachment_error \<Rightarrow> string" where
  "attachment_error_class (AttachmentError _) = ''AttachmentError''"
| "attachment_error_class (AttachmentNotFound _) = ''AttachmentNotFound''"
| "attachment_error_class (MalwareDetected _) = ''MalwareDetected''"
| "attachment_error_class (MalwareScanUnavailable _) = ''MalwareScanUnavailable''"
| "attachment_error_class (AttachmentUncaught e) = e"

definition live_clamav :: "environ \<Rightarrow> live_env \<Rightarrow> preflight_check" where
  "live_clamav env le =
     (let failed = (\<lambda>e. mk_check ''live.clamav'' False [] e); port = env_value env ''AGENT_CLAMAV_PORT'' in
      case py_int (if port = [] then ''3310'' else port) of
        None \<Rightarrow> failed ''ValueError''
      | Some n \<Rightarrow> (case clamav_init (env_value env ''AGENT_CLAMAV_HOST'') n (Finite 5) of
          Inl _ \<Rightarrow> failed ''ValueError''
        | Inr scanner \<Rightarrow> (case clamav_scan (le_clamd le scanner) ''enterprise-ai-copilot preflight'' ''text/plain'' of
            Inl e \<Rightarrow> failed (attachment_error_class e)
          | Inr _ \<Rightarrow> mk_check ''live.clamav'' True ''clamd accepted a bounded smoke payload'' [])))"

text \<open>An endpoint of the OIDC keys that is refused adds no check at all.\<close>

definition live_oidc :: "ip6_parser \<Rightarrow> environ \<Rightarrow> live_env \<Rightarrow> (config_error, preflight_check list) result" where
  "live_oidc ip6 env le =
     (case env_endpoint ip6 env ''AGENT_OIDC_JWKS_URI'' ''AGENT_OIDC_ALLOWED_HOSTS'' ''OIDC JWKS'' ''/'' of
        Inl _ \<Rightarrow> Inr []
      | Inr url \<Rightarrow> map_sum id (\<lambda>c. [c]) (live_http le ''live.oidc_jwks'' url []))"

definition live_checks :: "ip6_parser \<Rightarrow> environ \<Rightarrow> live_env \<Rightarrow> (config_error, preflight_check list) result" where
  "live_checks ip6 env le =
     rbind (live_redis ip6 env le) (\<lambda>redis.
     rbind (live_endpoint ip6 env le ''live.mcp'' ''AGENT_MCP_ENDPOINT'' ''AGENT_MCP_ALLOWED_HOSTS'' ''MCP'' ''AGENT_MCP_BEARER_TOKEN'' ''/'') (\<lambda>mcp.
     rbind (live_oidc ip6 env le) (\<lambda>oidc.
     rbind (live_endpoint ip6 env le ''live.model'' ''AGENT_MODEL_ENDPOINT'' ''AGENT_MODEL_ALLOWED_HOSTS'' ''model'' ''AGENT_MODEL_API_KEY'' ''/v1/chat/completions'') (\<lambda>model.
     rbind (live_endpoint ip6 env le ''live.trace'' ''AGENT_TRACE_ENDPOINT'' ''AGENT_TRACE_ALLOWED_HOSTS'' ''trace exporter'' ''AGENT_TRACE_BEARER_TOKEN'' ''/v1/traces'') (\<lambda>trace.
     Inr ([redis, mcp] @ oidc @ [model, trace, live_s3 ip6 env le, live_clamav env le]))))))"

section \<open>The report\<close>

definition checks_pass :: "preflight_check list \<Rightarrow> bool" where
  "checks_pass checks \<longleftrightarrow> list_all (\<lambda>c. ck_status c \<in> {''PASS'', ''NOT_APPLICABLE''}) checks"

definition pad :: "nat \<Rightarrow> string \<Rightarrow> string" where
  "pad n s = s @ replicate (n - length s) CHR '' ''"

datatype report = Json_report pyval | Text_report "string list"

definition report_status :: "preflight_check list \<Rightarrow> string" where
  "report_status checks = (if checks_pass checks then ''PASS'' else ''FAIL'')"

definition json_report :: "preflight_check list \<Rightarrow> pyval" where
  "json_report checks =
     VDict [(''status'', VStr (report_status checks)),
       (''checks'', VList (map (\<lambda>c. VDict [(''name'', VStr (ck_name c)), (''status'', VStr (ck_status c)), (''detail'', VStr (ck_detail c))]) checks))]"

definition text_report :: "preflight_check list \<Rightarrow> string list" where
  "text_report checks =
     map (\<lambda>c. pad 6 (ck_status c) @ '' '' @ ck_name c @ '': '' @ ck_detail c) checks @ [''production-preflight: '' @ report_status checks]"

definition preflight_main :: "ip6_parser \<Rightarrow> environ \<Rightarrow> live_env \<Rightarrow> bool \<Rightarrow> bool \<Rightarrow> (config_error, report \<times> int) result" where
  "preflight_main ip6 env le live json =
     rbind (static_checks ip6 env) (\<lambda>static.
     rbind (if live then live_checks ip6 env le else Inr []) (\<lambda>probes.
     let checks = static @ probes in
     Inr (if json then Json_report (json_report checks) else Text_report (text_report checks),
          if report_status checks = ''PASS'' then 0 else 1)))"

section \<open>A passing report and the application\<close>

lemma is_space_lower_char [simp]: "is_space (lower_char c) = is_space c"
  by (auto simp: lower_char_def is_space_def Let_def code_char_of split: if_splits)

lemma lower_strip: "lower (strip s) = strip (lower s)"
proof -
  have "dropWhile is_space (map lower_char t) = map lower_char (dropWhile is_space t)" for t
    by (simp add: dropWhile_map comp_def)
  then show ?thesis by (simp add: lower_def strip_def rev_map)
qed

lemma strip_Cons_space: "is_space x \<Longrightarrow> strip (x # s) = strip s"
  by (simp add: strip_def)

lemma strip_snoc_space: "is_space x \<Longrightarrow> strip (s @ [x]) = strip s"
  by (cases "\<forall>c\<in>set s. is_space c") (auto simp: strip_def dropWhile_append dest: set_dropWhileD)

lemma split_on_snoc: "x \<noteq> c \<Longrightarrow> split_on c (s @ [x]) = butlast (split_on c s) @ [last (split_on c s) @ [x]]"
  by (induction s) (auto split: list.splits)

lemma strip_parts_lead: "\<not> is_space c \<Longrightarrow> map strip (split_on c (dropWhile is_space s)) = map strip (split_on c s)"
  by (induction s) (auto simp: strip_Cons_space split: list.splits)

lemma strip_parts_trail: "\<not> is_space c \<Longrightarrow> map strip (split_on c (rev (dropWhile is_space (rev s)))) = map strip (split_on c s)"
proof (induction s rule: rev_induct)
  case (snoc x s)
  show ?case
  proof (cases "is_space x")
    case True
    with snoc.prems have "map strip (split_on c (s @ [x])) = map strip (butlast (split_on c s) @ [last (split_on c s)])"
      by (subst split_on_snoc) (auto simp: strip_snoc_space simp del: append_butlast_last_id)
    with True snoc show ?thesis by simp
  qed simp
qed simp

lemma hosts_strip: "hosts (strip s) = hosts s"
  using strip_parts_lead [of "CHR '',''" s] strip_parts_trail [of "CHR '',''" "dropWhile is_space s"]
  by (simp add: hosts_def strip_def is_space_def code_def)

lemma approved_hosts_hosts: "approved_hosts (hosts s) = approved_hosts (split_on CHR '','' s)"
proof -
  have "approved_hosts (filter (\<lambda>h. h \<noteq> []) (map strip xs)) = approved_hosts xs" for xs
    by (induction xs) (auto simp: approved_hosts_def blank_def)
  then show ?thesis by (simp add: hosts_def)
qed

text \<open>The endpoint that the preflight accepted is the one that an adapter's constructor computes from the raw allowlist.\<close>

lemma env_endpoint_eq:
  assumes "env_endpoint ip6 env name allow label path = Inr url"
  shows "validated_https_endpoint ip6 (strip (getenv env name [])) (split_on CHR '','' (getenv env allow [])) label path = Inr url"
  using assms unfolding env_endpoint_def env_value_def env_hosts_def hosts_strip validated_https_endpoint_def approved_hosts_hosts
  by (simp only: if_False split: if_splits) auto

lemma network_check_pass: "ck_status (network_check n ok r) \<in> {''PASS'', ''NOT_APPLICABLE''} \<longleftrightarrow> (\<exists>x. r = Inr x)"
  by (cases r) (simp_all add: network_check_def)

lemma value_check_pass: "ck_status (value_check n ok v d) \<in> {''PASS'', ''NOT_APPLICABLE''} \<longleftrightarrow> ok"
  by (simp add: value_check_def mk_check_def)

lemma preflight_pass:
  assumes "preflight_main ip6 env le live json = Inr (r, 0)"
  shows "lower (env_value env ''AGENT_PLATFORM_ENV'') \<in> {''staging'', ''production''}"
    and "lower (env_value env ''AGENT_PROVIDER_MODE'') = ''remote''"
    and "lower (env_value env ''AGENT_MALWARE_SCANNER'') = ''clamav''"
    and "\<exists>url. env_endpoint ip6 env ''AGENT_MCP_ENDPOINT'' ''AGENT_MCP_ALLOWED_HOSTS'' ''MCP'' ''/'' = Inr url"
    and "\<exists>url. env_endpoint ip6 env ''AGENT_TRACE_ENDPOINT'' ''AGENT_TRACE_ALLOWED_HOSTS'' ''trace exporter'' ''/v1/traces'' = Inr url"
proof -
  from assms obtain checks where "static_checks ip6 env = Inr checks" and p: "checks_pass checks"
    by (auto simp: preflight_main_def Let_def config_simps report_status_def checks_pass_def split: if_splits)
  then have "checks_pass (platform_checks env)" "checks_pass (attachment_checks env)" "checks_pass (endpoint_checks ip6 env)"
    by (auto simp: static_checks_def config_simps checks_pass_def)
  then show "lower (env_value env ''AGENT_PLATFORM_ENV'') \<in> {''staging'', ''production''}" "lower (env_value env ''AGENT_PROVIDER_MODE'') = ''remote''"
    "lower (env_value env ''AGENT_MALWARE_SCANNER'') = ''clamav''"
    "\<exists>url. env_endpoint ip6 env ''AGENT_MCP_ENDPOINT'' ''AGENT_MCP_ALLOWED_HOSTS'' ''MCP'' ''/'' = Inr url"
    "\<exists>url. env_endpoint ip6 env ''AGENT_TRACE_ENDPOINT'' ''AGENT_TRACE_ALLOWED_HOSTS'' ''trace exporter'' ''/v1/traces'' = Inr url"
    unfolding platform_checks_def attachment_checks_def endpoint_checks_def checks_pass_def Let_def list.pred_inject append_Cons
      value_check_pass network_check_pass by blast+
qed

lemma default_app_steps:
  assumes "build_default_app de = Inr d"
  shows "dp_platform_env d = lower (var de ''AGENT_PLATFORM_ENV'' ''development'')"
    and "build_trace_exporter de (Some (dp_platform_env d)) = Inr (dp_exporter d)"
    and "build_gateway de = Inr (dp_gateway d)"
    and "scanner_config de (dp_platform_env d) (dp_retention_days d) = Inr (dp_scanner d)"
  using assms by (auto simp: build_default_app_def build_runtime_def Let_def config_simps)


section \<open>A production environment that passes\<close>

definition preflight_environ :: "string \<Rightarrow> (string \<times> string) list" where
  "preflight_environ platform =
     (''AGENT_PLATFORM_ENV'', platform) # demo_environ ''remote'' @
     [(''AGENT_MCP_BEARER_TOKEN'', ''t''), (''AGENT_ATTACHMENT_RETENTION_DAYS'', ''30''), (''AGENT_S3_REGION'', ''eu''), (''AGENT_CLAMAV_HOST'', ''clamd''),
      (''AGENT_WORKER_USER_ID'', ''u''), (''AGENT_WORKER_WORKSPACE_ID'', ''w''), (''AGENT_WORKER_TENANT_ID'', ''t''), (''AGENT_WORKER_ROLE'', ''admin''),
      (''AGENT_JWT_ISSUER'', ''i''), (''AGENT_JWT_AUDIENCE'', ''a'')]"

definition preflight_deploy :: "string \<Rightarrow> deploy_env" where
  "preflight_deploy platform = (demo_deploy ''remote'')\<lparr>de_environ := map_of (preflight_environ platform)\<rparr>"

definition quiet_probes :: live_env where
  "quiet_probes = \<lparr>le_redis = \<lambda>_. Answers True, le_open = \<lambda>_ _. Answers 200, le_s3_client = \<lambda>_ _. Inr (), le_head_bucket = \<lambda>_. True,
     le_clamd = \<lambda>_ _. Some ''stream: OK''\<rparr>"

definition exit_status :: "(config_error, report \<times> int) result \<Rightarrow> int" where
  "exit_status r = (case r of Inl _ \<Rightarrow> 1 | Inr (_, n) \<Rightarrow> n)"

lemma preflight_demo_passes: "exit_status (preflight_main no_ip6 (map_of (preflight_environ ''production'')) quiet_probes False True) = 0"
  by code_simp

lemma preflight_padded_passes: "exit_status (preflight_main no_ip6 (map_of (preflight_environ ''production '')) quiet_probes False True) = 0"
  by code_simp

lemma exit_status_0: "exit_status r = 0 \<Longrightarrow> \<exists>x. r = Inr (x, 0)"
  by (auto simp: exit_status_def split: sum.splits prod.splits)

lemma preflight_limits: "limits_of (preflight_deploy platform) p = Inr demo_limits"
proof -
  have "py_int ''10485760'' = Some 10485760" "py_int ''25000000'' = Some 25000000" "py_int ''30'' = Some 30" "py_int ''20'' = Some 20"
    by (simp_all add: py_int_def strip_def is_space_def is_digit_def code_def Let_def)
  then show ?thesis
    by (simp add: limits_of_def to_int_def rbind_def getenv_def preflight_deploy_def preflight_environ_def demo_environ_def demo_limits_def)
qed

lemma stages_build:
  assumes "lower (var de ''AGENT_PLATFORM_ENV'' ''development'') = p" "\<forall>x y. de_open_store de x y = Inr ()"
    and "accepted_result (storage_config de p)" "accepted_result (build_trace_exporter de (Some p))" "accepted_result (build_gateway de)"
    and "accepted_result (build_model_provider de None)" "accepted_result (scanner_config de p 30)" "accepted_result (blob_config de p)"
    and "accepted_result (redis_config de p demo_limits)" "accepted_result (vision_config de)" "accepted_result (auth_config de p)"
    and "limits_of de p = Inr demo_limits"
  shows "\<exists>d. build_default_app de = Inr d \<and> dp_platform_env d = p"
proof -
  obtain st ur ex g mo sc b r v a js where "storage_config de p = Inr (st, ur)" "build_trace_exporter de (Some p) = Inr ex" "build_gateway de = Inr g"
      "build_model_provider de None = Inr mo" "scanner_config de p 30 = Inr sc" "blob_config de p = Inr b" "redis_config de p demo_limits = Inr r"
      "vision_config de = Inr v" "auth_config de p = Inr (a, js)"
    using assms(3-11) accepted_result_Inr by (metis surj_pair)
  moreover have "local_limits_config x demo_limits = Inr ()" for x by (simp add: local_limits_config_def rate_limiter_init_def demo_limits_def)
  ultimately show ?thesis
    using assms(1,2,12) by (simp add: build_default_app_def Let_def build_runtime_def rbind_def demo_limits_def)
qed

lemma preflight_stages:
  "accepted_result (build_gateway (preflight_deploy ''production''))"
  "accepted_result (build_model_provider (preflight_deploy ''production'') None)"
  "accepted_result (vision_config (preflight_deploy ''production''))"
  "accepted_result (storage_config (preflight_deploy ''production'') ''production'')"
  "accepted_result (build_trace_exporter (preflight_deploy ''production'') (Some ''production''))"
  "accepted_result (scanner_config (preflight_deploy ''production'') ''production'' 30)"
  "accepted_result (blob_config (preflight_deploy ''production'') ''production'')"
  "accepted_result (redis_config (preflight_deploy ''production'') ''production'' demo_limits)"
  "accepted_result (auth_config (preflight_deploy ''production'') ''production'')"
  by code_simp+

lemma preflight_stages_padded:
  "accepted_result (build_gateway (preflight_deploy ''production ''))"
  "accepted_result (build_model_provider (preflight_deploy ''production '') None)"
  "accepted_result (vision_config (preflight_deploy ''production ''))"
  "accepted_result (storage_config (preflight_deploy ''production '') ''production '')"
  "accepted_result (build_trace_exporter (preflight_deploy ''production '') (Some ''production ''))"
  "accepted_result (scanner_config (preflight_deploy ''production '') ''production '' 30)"
  "accepted_result (blob_config (preflight_deploy ''production '') ''production '')"
  "accepted_result (redis_config (preflight_deploy ''production '') ''production '' demo_limits)"
  "accepted_result (auth_config (preflight_deploy ''production '') ''production '')"
  by code_simp+

lemma preflight_platform:
  "lower (var (preflight_deploy ''production'') ''AGENT_PLATFORM_ENV'' ''development'') = ''production''"
  "lower (var (preflight_deploy ''production '') ''AGENT_PLATFORM_ENV'' ''development'') = ''production ''"
  "strip (var (preflight_deploy ''production'') ''AGENT_PLATFORM_ENV'' []) = var (preflight_deploy ''production'') ''AGENT_PLATFORM_ENV'' []"
  "strip (var (preflight_deploy ''production'') ''AGENT_PROVIDER_MODE'' []) = var (preflight_deploy ''production'') ''AGENT_PROVIDER_MODE'' []"
  by code_simp+

lemma preflight_opens: "\<forall>x y. de_open_store (preflight_deploy p) x y = Inr ()"
  by (simp add: preflight_deploy_def demo_deploy_def)

lemma preflight_env_of: "ae_ip6 (de_auth (preflight_deploy p)) = no_ip6" "de_environ (preflight_deploy p) = map_of (preflight_environ p)"
  by (simp_all add: preflight_deploy_def demo_deploy_def demo_oidc_env_def)


text \<open>
  The white space matters: the preflight strips the platform variable and the application does not, so a trailing blank passes
  the preflight while the application starts without the guards of production.
\<close>

lemma padded_environment_passes_unguarded:
  "\<exists>d. exit_status (preflight_main no_ip6 (map_of (preflight_environ ''production '')) quiet_probes False True) = 0 \<and>
     build_default_app (preflight_deploy ''production '') = Inr d \<and> \<not> secured_env (dp_platform_env d)"
proof -
  have "\<not> secured_env ''production ''" by code_simp
  then show ?thesis
    using stages_build [OF preflight_platform(2) preflight_opens preflight_stages_padded(4,5,1,2,6,7,8,3,9) preflight_limits] preflight_padded_passes by auto
qed

section \<open>What the report tells of secrets\<close>

definition secret_names :: "string list" where
  "secret_names = [''AGENT_MCP_BEARER_TOKEN'', ''AGENT_MODEL_API_KEY'', ''AGENT_VISION_API_KEY'', ''AGENT_JWT_SECRET'', ''AGENT_DATABASE_URL'',
     ''AGENT_REDIS_URL'', ''AGENT_S3_KMS_KEY_ID'', ''AGENT_TRACE_BEARER_TOKEN'', ''AGENT_API_TOKEN'']"

text \<open>
  C34. The report never prints secret values: the static report and its exit status depend on the tokens, keys and
  connection strings only through whether each of them is missing or a placeholder, whether the database address has the form of
  one, and whether the HS256 secret has 32 bytes. Two environments that agree on the other variables and on these facts
  get the same report, as text and as JSON.\<close>

theorem static_report_hides_secrets:
  assumes "\<forall>n. n \<notin> set secret_names \<longrightarrow> e1 n = e2 n"
    and "\<forall>n\<in>set secret_names. placeholder (env_value e1 n) = placeholder (env_value e2 n) \<and> (env_value e1 n = [] \<longleftrightarrow> env_value e2 n = [])"
    and "database_dsn ip6 e1 = database_dsn ip6 e2"
    and "32 \<le> utf8_length (env_value e1 ''AGENT_JWT_SECRET'') \<longleftrightarrow> 32 \<le> utf8_length (env_value e2 ''AGENT_JWT_SECRET'')"
  shows "preflight_main ip6 e1 le False json = preflight_main ip6 e2 le False json"
proof -
  have val: "env_value e1 n = env_value e2 n" if "n \<notin> set secret_names" for n
    using assms(1) that by (simp add: env_value_def getenv_def)
  have ph: "placeholder (env_value e1 n) = placeholder (env_value e2 n)" "env_value e1 n = [] \<longleftrightarrow> env_value e2 n = []" for n
    using assms(2) val [of n] by (cases "n \<in> set secret_names"; simp)+
  have req: "require_var e1 = require_var e2" by (rule ext) (simp add: require_var_def ph)
  have ep: "env_endpoint ip6 e1 n a l p = env_endpoint ip6 e2 n a l p" if "n \<notin> set secret_names" "a \<notin> set secret_names" for n a l p
    using that by (simp add: env_endpoint_def env_hosts_def val)
  have v: "env_value e1 ''AGENT_STORAGE_MODE'' = env_value e2 ''AGENT_STORAGE_MODE''" "env_value e1 ''AGENT_PLATFORM_ENV'' = env_value e2 ''AGENT_PLATFORM_ENV''"
    "env_value e1 ''AGENT_PROVIDER_MODE'' = env_value e2 ''AGENT_PROVIDER_MODE''" "env_value e1 ''AGENT_AUTH_MODE'' = env_value e2 ''AGENT_AUTH_MODE''"
    "env_value e1 ''AGENT_ATTACHMENT_STORAGE'' = env_value e2 ''AGENT_ATTACHMENT_STORAGE''" "env_value e1 ''AGENT_MALWARE_SCANNER'' = env_value e2 ''AGENT_MALWARE_SCANNER''"
    "env_value e1 ''AGENT_ATTACHMENT_RETENTION_DAYS'' = env_value e2 ''AGENT_ATTACHMENT_RETENTION_DAYS''"
    by (simp_all add: val secret_names_def)
  have "storage_checks ip6 e1 = storage_checks ip6 e2" by (simp add: storage_checks_def Let_def v req assms(3))
  moreover have "platform_checks e1 = platform_checks e2" by (simp add: platform_checks_def v)
  moreover have "adapter_checks e1 = adapter_checks e2" by (simp add: adapter_checks_def req)
  moreover have "vision_checks ip6 e1 = vision_checks ip6 e2" by (simp add: vision_checks_def req ep ph secret_names_def)
  moreover have "identity_checks ip6 e1 = identity_checks ip6 e2" by (simp add: identity_checks_def Let_def v req ep ph assms(4) secret_names_def)
  moreover have "attachment_checks e1 = attachment_checks e2" by (simp add: attachment_checks_def v req)
  moreover have "endpoint_checks ip6 e1 = endpoint_checks ip6 e2" by (simp add: endpoint_checks_def ep secret_names_def)
  ultimately show ?thesis by (simp add: preflight_main_def static_checks_def)
qed

definition with_secret :: "string \<Rightarrow> environ" where
  "with_secret s = (map_of (preflight_environ ''production''))(''AGENT_JWT_SECRET'' := Some s)"

theorem static_report_hides_secrets_witness:
  "preflight_main no_ip6 (with_secret ''0123456789abcdef0123456789abcdef'') quiet_probes False False =
   preflight_main no_ip6 (with_secret ''a much longer secret that nobody should be able to read'') quiet_probes False False"
proof (rule static_report_hides_secrets)
  show "\<forall>n. n \<notin> set secret_names \<longrightarrow> with_secret ''0123456789abcdef0123456789abcdef'' n = with_secret ''a much longer secret that nobody should be able to read'' n"
    by (simp add: with_secret_def secret_names_def)
  have "list_all (\<lambda>n. placeholder (env_value (with_secret ''0123456789abcdef0123456789abcdef'') n) =
        placeholder (env_value (with_secret ''a much longer secret that nobody should be able to read'') n) \<and>
      (env_value (with_secret ''0123456789abcdef0123456789abcdef'') n = [] \<longleftrightarrow>
       env_value (with_secret ''a much longer secret that nobody should be able to read'') n = [])) secret_names"
    by code_simp
  then show "\<forall>n\<in>set secret_names. placeholder (env_value (with_secret ''0123456789abcdef0123456789abcdef'') n) =
        placeholder (env_value (with_secret ''a much longer secret that nobody should be able to read'') n) \<and>
      (env_value (with_secret ''0123456789abcdef0123456789abcdef'') n = [] \<longleftrightarrow>
       env_value (with_secret ''a much longer secret that nobody should be able to read'') n = [])"
    by (simp add: list_all_iff)
  show "database_dsn no_ip6 (with_secret ''0123456789abcdef0123456789abcdef'') = database_dsn no_ip6 (with_secret ''a much longer secret that nobody should be able to read'')"
    by (simp add: database_dsn_def env_value_def getenv_def with_secret_def)
  show "32 \<le> utf8_length (env_value (with_secret ''0123456789abcdef0123456789abcdef'') ''AGENT_JWT_SECRET'') \<longleftrightarrow>
      32 \<le> utf8_length (env_value (with_secret ''a much longer secret that nobody should be able to read'') ''AGENT_JWT_SECRET'')"
    by code_simp
qed

section \<open>The live probes\<close>

text \<open>
  \<^verbatim>\<open>urllib\<close> raises \<^verbatim>\<open>HTTPError\<close> for every answer outside 200 to 299 (a redirect that the handler declines included), so
  the status 405 that the code means to accept is reported as a failure.
\<close>

definition urllib_open :: "int \<Rightarrow> int live" where
  "urllib_open status = (if 200 \<le> status \<and> status < 300 then Answers status else Caught ''HTTPError'')"

lemma live_http_405_fails:
  "le_open le endpoint = (\<lambda>_. urllib_open 405) \<Longrightarrow> live_http le name endpoint bearer = Inr (mk_check name False [] ''HTTPError'')"
  by (simp add: live_http_def urllib_open_def)

text \<open>
  The classes of \<^verbatim>\<open>redis.exceptions\<close> are no \<^verbatim>\<open>OSError\<close>: an unreachable Redis ends the script without a report.
\<close>

lemma live_redis_down_no_report:
  assumes "\<And>url. le_redis le url = Escaping ''ConnectionError''" "urlparse ip6 (env_value env ''AGENT_REDIS_URL'') = Some u"
    and "pu_scheme u \<in> {''redis'', ''rediss''}" "pu_hostname u \<noteq> []" "\<not> is_disallowed_host ip6 (pu_hostname u)"
  shows "live_checks ip6 env le = Inl (ConfigUncaught ''ConnectionError'')"
  using assms by (auto simp: live_checks_def live_redis_def rbind_def)

end
