(* ===== verification/Store_Rows.thy ===== *)
theory Store_Rows
  imports Run_Service Approval_Stores Attachment_Stores
begin

text \<open>
  The SQL rows behind the durable stores. The theories of the stores keep a table as a list of records; here a row is what the
  database holds, a value for every column name. A statement \<^verbatim>\<open>INSERT INTO t (columns) VALUES (...)\<close> pairs its column list with its
  values, \<^verbatim>\<open>SELECT columns\<close> reads the columns in the order of its own list, and \<^verbatim>\<open>_from_row\<close> decodes them by position. The lemmas show
  that each \<^verbatim>\<open>_from_row\<close> inverts its \<^verbatim>\<open>INSERT\<close>, so no two columns are exchanged between the three texts, and that the
  scoped statements over rows implement the operations of the stores over records. The SQLite and the PostgreSQL class of a
  store have the same column lists and decoders.
\<close>

section \<open>Rows\<close>

type_synonym row = "(string \<times> pyval) list"

definition insert_row :: "string list \<Rightarrow> pyval list \<Rightarrow> row" where
  "insert_row columns vals = zip columns vals"

definition select_columns :: "string list \<Rightarrow> row \<Rightarrow> pyval list" where
  "select_columns columns r = map (dget r) columns"

text \<open>\<^verbatim>\<open>str(v) if v is not None else None\<close> and \<^verbatim>\<open>str(v) if v else None\<close>.\<close>

definition opt_str :: "(pyval \<Rightarrow> string) \<Rightarrow> pyval \<Rightarrow> string option" where
  "opt_str rep v = (if v = VNone then None else Some (py_str rep v))"

definition truthy_str :: "(pyval \<Rightarrow> string) \<Rightarrow> pyval \<Rightarrow> string option" where
  "truthy_str rep v = (if truthy v then Some (py_str rep v) else None)"

text \<open>\<^verbatim>\<open>int(v)\<close> of a column; \<^const>\<open>None\<close> is the exception.\<close>

definition int_column :: "pyval \<Rightarrow> int option" where
  "int_column v = (case v of VInt i \<Rightarrow> Some i | VBool b \<Rightarrow> Some (if b then 1 else 0) | VStr s \<Rightarrow> py_int s | _ \<Rightarrow> None)"

section \<open>agent_runs\<close>

definition run_insert_columns :: "string list" where
  "run_insert_columns = [''run_id'', ''status'', ''trace_id'', ''agent_id'', ''message'', ''source_id'', ''observed_at'', ''external_ref'',
     ''user_id'', ''workspace_id'', ''tenant_id'', ''role'', ''idempotency_key'', ''created_at'']"

definition run_select_columns :: "string list" where
  "run_select_columns = [''run_id'', ''status'', ''trace_id'', ''agent_id'', ''message'', ''source_id'', ''observed_at'', ''external_ref'',
     ''user_id'', ''workspace_id'', ''tenant_id'', ''role'', ''idempotency_key'', ''created_at'']"

definition run_values :: "string \<Rightarrow> stored_run \<Rightarrow> pyval list" where
  "run_values now sr =
     (let result = sr_result sr; identity = sr_identity sr in
      [VStr (rr_run_id result), VStr (run_status_value (rr_status result)), VStr (rr_trace_id result), VStr (rr_agent_id result),
       VStr (rr_message result), str_or_none (rr_source_id result), str_or_none (rr_observed_at result), str_or_none (rr_external_ref result),
       VStr (user_id identity), VStr (workspace_id identity), VStr (tenant_id identity), VStr (role identity),
       str_or_none (sr_idempotency_key sr), VStr now])"

definition run_insert :: "string \<Rightarrow> stored_run \<Rightarrow> row" where
  "run_insert now sr = insert_row run_insert_columns (run_values now sr)"

definition run_of_columns :: "(pyval \<Rightarrow> string) \<Rightarrow> pyval list \<Rightarrow> (string, stored_run) result" where
  "run_of_columns rep r =
     (case run_status_of (py_str rep (r ! 1)) of
        None \<Rightarrow> Inl ''ValueError''
      | Some status \<Rightarrow> Inr
          \<lparr>sr_result = \<lparr>rr_status = status, rr_run_id = py_str rep (r ! 0), rr_trace_id = py_str rep (r ! 2), rr_agent_id = py_str rep (r ! 3),
              rr_message = py_str rep (r ! 4), rr_source_id = opt_str rep (r ! 5), rr_observed_at = opt_str rep (r ! 6), rr_external_ref = opt_str rep (r ! 7)\<rparr>,
           sr_identity = \<lparr>user_id = py_str rep (r ! 8), workspace_id = py_str rep (r ! 9), tenant_id = py_str rep (r ! 10), role = py_str rep (r ! 11)\<rparr>,
           sr_idempotency_key = truthy_str rep (r ! 12)\<rparr>)"

text \<open>\<^verbatim>\<open>WHERE a = %s AND b = %s ...\<close> on the columns, \<^verbatim>\<open>fetchone\<close>, and the decoder of the row.\<close>

definition row_matches :: "(string \<times> pyval) list \<Rightarrow> row \<Rightarrow> bool" where
  "row_matches conditions r \<longleftrightarrow> list_all (\<lambda>(c, v). dget r c = v) conditions"

definition fetch_one :: "(pyval list \<Rightarrow> ('e, 'a) result) \<Rightarrow> string list \<Rightarrow> (string \<times> pyval) list \<Rightarrow> row list \<Rightarrow> ('e, 'a option) result" where
  "fetch_one decode columns conditions rows =
     (case find (row_matches conditions) rows of None \<Rightarrow> Inr None | Some r \<Rightarrow> map_sum id Some (decode (select_columns columns r)))"

definition run_rows_get :: "(pyval \<Rightarrow> string) \<Rightarrow> string \<Rightarrow> identity_context \<Rightarrow> row list \<Rightarrow> (string, stored_run option) result" where
  "run_rows_get rep run_id identity = fetch_one (run_of_columns rep) run_select_columns
     [(''run_id'', VStr run_id), (''user_id'', VStr (user_id identity)), (''workspace_id'', VStr (workspace_id identity)),
      (''tenant_id'', VStr (tenant_id identity)), (''role'', VStr (role identity))]"

definition run_rows_find_idempotent :: "(pyval \<Rightarrow> string) \<Rightarrow> identity_context \<Rightarrow> string \<Rightarrow> row list \<Rightarrow> (string, stored_run option) result" where
  "run_rows_find_idempotent rep identity key = fetch_one (run_of_columns rep) run_select_columns
     [(''user_id'', VStr (user_id identity)), (''workspace_id'', VStr (workspace_id identity)),
      (''tenant_id'', VStr (tenant_id identity)), (''role'', VStr (role identity)), (''idempotency_key'', VStr key)]"

section \<open>approval_requests\<close>

definition approval_insert_columns :: "string list" where
  "approval_insert_columns = [''id'', ''workspace_id'', ''tenant_id'', ''requester_user_id'', ''requester_role'', ''tool_name'', ''arguments_json'',
     ''arguments_hash'', ''risk'', ''idempotency_key'', ''requested_at'', ''expires_at'', ''status'']"

definition approval_select_columns :: "string list" where
  "approval_select_columns = [''id'', ''workspace_id'', ''tenant_id'', ''requester_user_id'', ''requester_role'', ''tool_name'', ''arguments_json'',
     ''arguments_hash'', ''risk'', ''idempotency_key'', ''requested_at'', ''expires_at'', ''status'', ''approver_user_id'', ''decided_at'', ''token_hash'']"

text \<open>\<^verbatim>\<open>json.dumps(arguments, sort_keys=True, ...)\<close>; the columns that the \<^verbatim>\<open>INSERT\<close> does not name are NULL.\<close>

definition approval_values :: "(pyfloat \<Rightarrow> string) \<Rightarrow> approval_record \<Rightarrow> pyval list" where
  "approval_values fr r =
     [VStr (ap_id r), VStr (workspace_id (ap_requester r)), VStr (tenant_id (ap_requester r)), VStr (user_id (ap_requester r)), VStr (role (ap_requester r)),
      VStr (ap_tool_name r), VStr (json_dumps fr (canon (VDict (ap_arguments r)))), VStr (ap_arguments_hash r), VStr (risk_value (ap_risk r)),
      str_or_none (ap_idempotency_key r), VStr (ap_requested_at r), VStr (ap_expires_at r), VStr (ap_status r)]"

definition approval_insert :: "(pyfloat \<Rightarrow> string) \<Rightarrow> approval_record \<Rightarrow> row" where
  "approval_insert fr r = insert_row approval_insert_columns (approval_values fr r)"

text \<open>\<^verbatim>\<open>UPDATE approval_requests SET status = ?, approver_user_id = ?, decided_at = ?, token_hash = ?\<close>.\<close>

definition approval_update :: "string \<Rightarrow> string option \<Rightarrow> string \<Rightarrow> string option \<Rightarrow> row \<Rightarrow> row" where
  "approval_update status approver decided_at token_hash r =
     AList.update ''token_hash'' (str_or_none token_hash) (AList.update ''decided_at'' (VStr decided_at)
       (AList.update ''approver_user_id'' (str_or_none approver) (AList.update ''status'' (VStr status) r)))"

definition approval_of_columns :: "(pyval \<Rightarrow> string) \<Rightarrow> (string \<Rightarrow> pydict option) \<Rightarrow> pyval list \<Rightarrow> (string, approval_record) result" where
  "approval_of_columns rep loads r =
     (case loads (py_str rep (r ! 6)) of None \<Rightarrow> Inl ''ValueError'' | Some arguments \<Rightarrow>
      case tool_risk_of (py_str rep (r ! 8)) of None \<Rightarrow> Inl ''ValueError'' | Some risk \<Rightarrow> Inr
        \<lparr>ap_id = py_str rep (r ! 0),
         ap_requester = \<lparr>user_id = py_str rep (r ! 3), workspace_id = py_str rep (r ! 1), tenant_id = py_str rep (r ! 2), role = py_str rep (r ! 4)\<rparr>,
         ap_tool_name = py_str rep (r ! 5), ap_arguments = arguments, ap_arguments_hash = py_str rep (r ! 7), ap_risk = risk,
         ap_idempotency_key = opt_str rep (r ! 9), ap_requested_at = py_str rep (r ! 10), ap_expires_at = py_str rep (r ! 11),
         ap_status = py_str rep (r ! 12), ap_approver_user_id = opt_str rep (r ! 13), ap_decided_at = opt_str rep (r ! 14)\<rparr>)"

definition approval_rows_get ::
    "(pyval \<Rightarrow> string) \<Rightarrow> (string \<Rightarrow> pydict option) \<Rightarrow> string \<Rightarrow> string \<Rightarrow> string \<Rightarrow> row list \<Rightarrow> (string, approval_record option) result" where
  "approval_rows_get rep loads i ws t = fetch_one (approval_of_columns rep loads) approval_select_columns
     [(''id'', VStr i), (''workspace_id'', VStr ws), (''tenant_id'', VStr t)]"

section \<open>attachments\<close>

definition attachment_columns :: "string list" where
  "attachment_columns = [''id'', ''workspace_id'', ''tenant_id'', ''user_id'', ''filename'', ''content_type'', ''image_format'', ''size_bytes'', ''sha256'',
     ''width'', ''height'', ''storage_path'', ''created_at'']"

definition attachment_select_columns :: "string list" where
  "attachment_select_columns = [''id'', ''workspace_id'', ''tenant_id'', ''user_id'', ''filename'', ''content_type'', ''image_format'', ''size_bytes'', ''sha256'',
     ''width'', ''height'', ''storage_path'', ''created_at'']"

definition attachment_values :: "attachment_record \<Rightarrow> pyval list" where
  "attachment_values r =
     [VStr (att_id r), VStr (att_workspace_id r), VStr (att_tenant_id r), VStr (att_user_id r), VStr (att_filename r), VStr (att_content_type r),
      VStr (att_image_format r), VInt (att_size_bytes r), VStr (att_sha256 r), VInt (att_width r), VInt (att_height r), VStr (att_storage_path r), VStr (att_created_at r)]"

definition attachment_insert :: "attachment_record \<Rightarrow> row" where
  "attachment_insert r = insert_row attachment_columns (attachment_values r)"

definition attachment_of_columns :: "(pyval \<Rightarrow> string) \<Rightarrow> pyval list \<Rightarrow> (string, attachment_record) result" where
  "attachment_of_columns rep r =
     (case (int_column (r ! 7), int_column (r ! 9), int_column (r ! 10)) of
        (Some bytes, Some w, Some h) \<Rightarrow> Inr
          \<lparr>att_id = py_str rep (r ! 0), att_workspace_id = py_str rep (r ! 1), att_tenant_id = py_str rep (r ! 2), att_user_id = py_str rep (r ! 3),
           att_filename = py_str rep (r ! 4), att_content_type = py_str rep (r ! 5), att_image_format = py_str rep (r ! 6), att_size_bytes = bytes,
           att_sha256 = py_str rep (r ! 8), att_width = w, att_height = h, att_storage_path = py_str rep (r ! 11), att_created_at = py_str rep (r ! 12)\<rparr>
      | _ \<Rightarrow> Inl ''ValueError'')"

definition attachment_rows_get :: "(pyval \<Rightarrow> string) \<Rightarrow> string \<Rightarrow> scope \<Rightarrow> row list \<Rightarrow> (string, attachment_record option) result" where
  "attachment_rows_get rep i sco = (case sco of (ws, t, u) \<Rightarrow> fetch_one (attachment_of_columns rep) attachment_select_columns
     [(''id'', VStr i), (''workspace_id'', VStr ws), (''tenant_id'', VStr t), (''user_id'', VStr u)])"

section \<open>Codecs\<close>

text \<open>
  What a decoder promises: reading the selected columns of a written row gives the record, up to the normalisation \<open>norm\<close> (an empty
  idempotency key is none), for the records \<open>ok\<close> whose JSON text can be read back. Every scoped \<^verbatim>\<open>SELECT\<close> then returns the record that the same
  condition picks out of the records.
\<close>

locale row_codec =
  fixes encode :: "'a \<Rightarrow> row"
    and columns :: "string list"
    and decode :: "pyval list \<Rightarrow> ('e, 'b) result"
    and norm :: "'a \<Rightarrow> 'b"
    and ok :: "'a \<Rightarrow> bool"
  assumes decode_encode: "ok r \<Longrightarrow> decode (select_columns columns (encode r)) = Inr (norm r)"
begin

lemma fetch_one_encoded:
  "\<forall>r\<in>set rs. ok r \<Longrightarrow> fetch_one decode columns conditions (map encode rs) =
     Inr (map_option norm (find (\<lambda>r. row_matches conditions (encode r)) rs))"
  by (induction rs) (auto simp: fetch_one_def decode_encode)

end

lemma dget_simps [simp]:
  "dget ((k, v) # r) c = (if k = c then v else dget r c)" "dget [] c = VNone"
  by (simp_all add: dget_def)

lemma opt_str_or_none [simp]: "opt_str rep (str_or_none x) = x"
  by (cases x) (simp_all add: opt_str_def str_or_none_def)

lemma str_or_none_eq [simp]: "str_or_none x = VStr s \<longleftrightarrow> x = Some s"
  by (cases x) (simp_all add: str_or_none_def)

lemma truthy_str_or_none [simp]: "truthy_str rep (str_or_none x) = nonempty x"
  by (cases x) (simp_all add: truthy_str_def str_or_none_def nonempty_def)

lemma run_codec: "run_of_columns rep (select_columns run_select_columns (run_insert now sr)) = Inr (run_from_row sr)"
  by (simp add: run_of_columns_def select_columns_def run_select_columns_def run_insert_def insert_row_def run_insert_columns_def run_values_def
      Let_def run_from_row_def nonempty_def run_status_of_value)

interpretation run_rows: row_codec "\<lambda>sr. run_insert (now sr) sr" run_select_columns "run_of_columns rep" run_from_row "\<lambda>_. True"
  by unfold_locales (rule run_codec)

interpretation attachment_rows: row_codec attachment_insert attachment_select_columns "attachment_of_columns rep" "\<lambda>r. r" "\<lambda>_. True"
  by unfold_locales
    (simp add: attachment_of_columns_def select_columns_def attachment_select_columns_def attachment_insert_def insert_row_def attachment_columns_def
      attachment_values_def int_column_def)

text \<open>A row of \<^verbatim>\<open>approval_requests\<close> in any state, and its two origins: the \<^verbatim>\<open>INSERT\<close> and the \<^verbatim>\<open>UPDATE\<close> of a decision.\<close>

definition approval_full_row :: "(pyfloat \<Rightarrow> string) \<Rightarrow> approval_row \<Rightarrow> row" where
  "approval_full_row fr row = approval_insert fr (row_record row) @
     [(''approver_user_id'', str_or_none (ap_approver_user_id (row_record row))), (''decided_at'', str_or_none (ap_decided_at (row_record row))),
      (''token_hash'', str_or_none (row_token_hash row))]"

lemmas approval_row_defs = approval_full_row_def approval_insert_def insert_row_def approval_insert_columns_def approval_values_def select_columns_def
  approval_select_columns_def

lemma approval_insert_full:
  "ap_approver_user_id r = None \<Longrightarrow> ap_decided_at r = None \<Longrightarrow>
     select_columns approval_select_columns (approval_insert fr r) =
     select_columns approval_select_columns (approval_full_row fr \<lparr>row_record = r, row_token_hash = None\<rparr>)"
  by (simp add: approval_row_defs str_or_none_def)

lemma approval_update_full:
  "select_columns approval_select_columns (approval_update status approver decided_at token_hash (approval_full_row fr row)) =
     select_columns approval_select_columns (approval_full_row fr \<lparr>row_record = decided status approver decided_at (row_record row), row_token_hash = token_hash\<rparr>)"
  by (simp add: approval_row_defs approval_update_def decided_def str_or_none_def)

definition reads_back :: "(pyfloat \<Rightarrow> string) \<Rightarrow> (string \<Rightarrow> pydict option) \<Rightarrow> approval_row \<Rightarrow> bool" where
  "reads_back fr loads row \<longleftrightarrow> loads (json_dumps fr (canon (VDict (ap_arguments (row_record row))))) = Some (ap_arguments (row_record row))"

interpretation approval_rows: row_codec "approval_full_row fr" approval_select_columns "approval_of_columns rep loads" row_record "reads_back fr loads"
  by unfold_locales (simp add: approval_of_columns_def approval_row_defs reads_back_def)

lemma row_matches_Cons [simp]:
  "row_matches ((c, v) # cs) r \<longleftrightarrow> dget r c = v \<and> row_matches cs r" "row_matches [] r"
  by (simp_all add: row_matches_def)

lemma fetchone_map_filter: "fetchone (map f (filter p xs)) = map_option f (find p xs)"
  by (induction xs) (auto simp: fetchone_def)

lemma run_row_columns:
  "dget (run_insert now sr) ''run_id'' = VStr (rr_run_id (sr_result sr))" "dget (run_insert now sr) ''user_id'' = VStr (user_id (sr_identity sr))"
  "dget (run_insert now sr) ''workspace_id'' = VStr (workspace_id (sr_identity sr))" "dget (run_insert now sr) ''tenant_id'' = VStr (tenant_id (sr_identity sr))"
  "dget (run_insert now sr) ''role'' = VStr (role (sr_identity sr))" "dget (run_insert now sr) ''idempotency_key'' = str_or_none (sr_idempotency_key sr)"
  by (simp_all add: run_insert_def insert_row_def run_insert_columns_def run_values_def Let_def)

lemma approval_row_columns:
  "dget (approval_full_row fr row) ''id'' = VStr (ap_id (row_record row))"
  "dget (approval_full_row fr row) ''workspace_id'' = VStr (workspace_id (ap_requester (row_record row)))"
  "dget (approval_full_row fr row) ''tenant_id'' = VStr (tenant_id (ap_requester (row_record row)))"
  by (simp_all add: approval_row_defs)

lemma attachment_row_columns:
  "dget (attachment_insert r) ''id'' = VStr (att_id r)" "dget (attachment_insert r) ''workspace_id'' = VStr (att_workspace_id r)"
  "dget (attachment_insert r) ''tenant_id'' = VStr (att_tenant_id r)" "dget (attachment_insert r) ''user_id'' = VStr (att_user_id r)"
  by (simp_all add: attachment_insert_def insert_row_def attachment_columns_def attachment_values_def)

text \<open>
  C33. The SQL rows implement the stores. Over tables whose rows were written by the \<^verbatim>\<open>INSERT\<close> and \<^verbatim>\<open>UPDATE\<close> statements, every
  scoped \<^verbatim>\<open>SELECT\<close> with its \<^verbatim>\<open>_from_row\<close> raises nothing and returns what the store of records returns: the run of the caller's
  identity, the run of an idempotency key, the approval and the attachment of the scope, each with every field in its
  place. For approvals the JSON text of the arguments in the rows must read back.\<close>

theorem rows_implement_stores:
  assumes "\<forall>row\<in>set approvals. reads_back fr loads row"
  shows "run_rows_get rep i identity (map (\<lambda>sr. run_insert (now sr) sr) runs) = Inr (sqlite_run_get i identity runs) \<and>
    run_rows_find_idempotent rep identity key (map (\<lambda>sr. run_insert (now sr) sr) runs) = Inr (sqlite_run_find_idempotent identity key runs) \<and>
    approval_rows_get rep loads i ws t (map (approval_full_row fr) approvals) = Inr (pg_get i ws t approvals) \<and>
    attachment_rows_get rep i sco (map attachment_insert attachments) = Inr (pg_att_get i sco attachments)"
proof (intro conjI)
  have True: "\<forall>r\<in>set xs. True" for xs :: "'x list" by simp
  show "run_rows_get rep i identity (map (\<lambda>sr. run_insert (now sr) sr) runs) = Inr (sqlite_run_get i identity runs)"
    unfolding run_rows_get_def run_rows.fetch_one_encoded [OF True] by (simp add: sqlite_run_get_def find_run_def run_row_columns)
  show "run_rows_find_idempotent rep identity key (map (\<lambda>sr. run_insert (now sr) sr) runs) = Inr (sqlite_run_find_idempotent identity key runs)"
    unfolding run_rows_find_idempotent_def run_rows.fetch_one_encoded [OF True] by (simp add: sqlite_run_find_idempotent_def find_run_def run_row_columns)
  show "approval_rows_get rep loads i ws t (map (approval_full_row fr) approvals) = Inr (pg_get i ws t approvals)"
    unfolding approval_rows_get_def approval_rows.fetch_one_encoded [OF assms]
    by (simp add: pg_get_def pg_find_def select_where_def fetchone_map_filter approval_row_columns in_scope_def)
  show "attachment_rows_get rep i sco (map attachment_insert attachments) = Inr (pg_att_get i sco attachments)"
    unfolding attachment_rows_get_def pg_att_get_def
    by (cases sco) (simp add: attachment_rows.fetch_one_encoded attachment_row_columns record_scope_def option.map_ident)
qed

definition demo_row :: approval_row where
  "demo_row = \<lparr>row_record = \<lparr>ap_id = ''a1'', ap_requester = \<lparr>user_id = ''u'', workspace_id = ''w'', tenant_id = ''t'', role = ''customer''\<rparr>,
       ap_tool_name = ''erp.cancel'', ap_arguments = [(''order_id'', VStr ''SO-1'')], ap_arguments_hash = ''h'', ap_risk = WRITE,
       ap_idempotency_key = None, ap_requested_at = ''r'', ap_expires_at = ''e'', ap_status = PENDING, ap_approver_user_id = None, ap_decided_at = None\<rparr>,
     row_token_hash = None\<rparr>"

theorem rows_implement_stores_witness:
  "approval_rows_get (\<lambda>_. []) (\<lambda>_. Some [(''order_id'', VStr ''SO-1'')]) ''a1'' ''w'' ''t'' (map (approval_full_row (\<lambda>_. [])) [demo_row]) = Inr (Some (row_record demo_row))"
proof -
  have "\<forall>row\<in>set [demo_row]. reads_back (\<lambda>_. []) (\<lambda>_. Some [(''order_id'', VStr ''SO-1'')]) row"
    by (simp add: reads_back_def demo_row_def)
  note * = rows_implement_stores [OF this]
  have "approval_rows_get (\<lambda>_. []) (\<lambda>_. Some [(''order_id'', VStr ''SO-1'')]) ''a1'' ''w'' ''t'' (map (approval_full_row (\<lambda>_. [])) [demo_row]) =
      Inr (pg_get ''a1'' ''w'' ''t'' [demo_row])"
    using * by blast
  then show ?thesis by (simp add: pg_get_def pg_find_def select_where_def fetchone_def in_scope_def demo_row_def)
qed

end
