(* ===== verification/Database_Maintenance.thy ===== *)
theory Database_Maintenance
  imports Audit_Log Outbound_Endpoints Blob_Stores "HOL-Library.Product_Lexorder"
begin

text \<open>
  The maintenance scripts under \<^verbatim>\<open>scripts/\<close>: \<^verbatim>\<open>migrate_postgres.py\<close>, \<^verbatim>\<open>migrate.py\<close>, \<^verbatim>\<open>backup_sqlite.py\<close>, \<^verbatim>\<open>backup_postgres.py\<close> and
  \<^verbatim>\<open>generate_sbom.py\<close>. The database that executes a migration, the file system, SQLite's backup and integrity check, \<^verbatim>\<open>pg_dump\<close> and
  \<^verbatim>\<open>urllib.parse.unquote\<close> are parameters; what the scripts do with them, and in which order, is modelled.
\<close>

datatype maintenance_error = MaintValueError string | MaintRuntimeError string | MaintFileExists string | MaintUncaught string

section \<open>scripts/migrate_postgres.py\<close>

text \<open>
  The table \<^verbatim>\<open>schema_migrations\<close>, by the versions in the order of their insertion, and the rest of the database. A migration is
  its file stem and its text. The connection commits when the block returns and rolls back when it raises.
\<close>

record 's migrated_db =
  md_versions :: "string list"
  md_schema :: 's

fun pg_migrations :: "(string \<Rightarrow> 's \<Rightarrow> (string, 's) result) \<Rightarrow> (string \<times> string) list \<Rightarrow> 's migrated_db \<Rightarrow> (string, 's migrated_db) result" where
  "pg_migrations exec [] db = Inr db"
| "pg_migrations exec ((version, sql) # ms) db =
     (if version \<in> set (md_versions db) then pg_migrations exec ms db
      else (case exec sql (md_schema db) of
          Inl e \<Rightarrow> Inl e
        | Inr s \<Rightarrow> pg_migrations exec ms \<lparr>md_versions = md_versions db @ [version], md_schema = s\<rparr>))"

text \<open>The result is the exit status or the exception; \<^verbatim>\<open>parser.error\<close> exits with status 2.\<close>

definition migrate_postgres ::
    "bool \<Rightarrow> (string \<Rightarrow> 's \<Rightarrow> (string, 's) result) \<Rightarrow> (string \<times> string) list \<Rightarrow> string \<Rightarrow> 's migrated_db \<Rightarrow> (maintenance_error, int) result \<times> 's migrated_db" where
  "migrate_postgres psycopg exec migrations database_url db =
     (if blank database_url then (Inr 2, db)
      else if \<not> psycopg then (Inl (MaintRuntimeError ''psycopg is required for PostgreSQL migrations''), db)
      else if migrations = [] then (Inl (MaintRuntimeError ''no PostgreSQL migrations are present''), db)
      else (case pg_migrations exec migrations db of
          Inl e \<Rightarrow> (Inl (MaintUncaught e), db)
        | Inr db' \<Rightarrow> (Inr 0, db')))"

section \<open>scripts/migrate.py\<close>

text \<open>
  The SQLite database: whether \<^verbatim>\<open>run_events\<close> has the tenant column, its rows, and the rest. \<^verbatim>\<open>executescript\<close> commits, so what ran
  before an exception stays.
\<close>

record 's sqlite_db =
  sd_tenant_column :: bool
  sd_events :: audit_table
  sd_rest :: 's

definition non_idempotent_migrations :: "string list" where
  "non_idempotent_migrations = [''005_run_event_tenant_scope.sql'']"

fun sqlite_migrations :: "(string \<Rightarrow> 's sqlite_db \<Rightarrow> (string, unit) result \<times> 's sqlite_db) \<Rightarrow> (string \<times> string) list \<Rightarrow> 's sqlite_db \<Rightarrow>
    (string, unit) result \<times> 's sqlite_db" where
  "sqlite_migrations exec [] db = (Inr (), db)"
| "sqlite_migrations exec ((name, sql) # ms) db =
     (if name \<in> set non_idempotent_migrations \<and> sd_tenant_column db then sqlite_migrations exec ms db
      else (case exec sql db of (Inl e, db') \<Rightarrow> (Inl e, db') | (Inr _, db') \<Rightarrow> sqlite_migrations exec ms db'))"

text \<open>\<^verbatim>\<open>_ensure_audit_tenant_scope\<close>: the column is added when it is missing, with NULL in every row, and then filled from the payloads.\<close>

definition ensure_audit_tenant_scope :: "'s sqlite_db \<Rightarrow> 's sqlite_db" where
  "ensure_audit_tenant_scope db =
     (let events = (if sd_tenant_column db then sd_events db
          else (sd_events db)\<lparr>at_rows := map (\<lambda>r. r\<lparr>ar_tenant_id := None\<rparr>) (at_rows (sd_events db))\<rparr>)
      in db\<lparr>sd_tenant_column := True, sd_events := ensure_tenant_column events\<rparr>)"

definition migrate_sqlite ::
    "(string \<Rightarrow> 's sqlite_db \<Rightarrow> (string, unit) result \<times> 's sqlite_db) \<Rightarrow> (string \<times> string) list \<Rightarrow> 's sqlite_db \<Rightarrow> (maintenance_error, int) result \<times> 's sqlite_db" where
  "migrate_sqlite exec migrations db =
     (case sqlite_migrations exec migrations db of
        (Inl e, db') \<Rightarrow> (Inl (MaintUncaught e), db')
      | (Inr _, db') \<Rightarrow> (Inr 0, ensure_audit_tenant_scope db'))"

section \<open>scripts/backup_sqlite.py\<close>

text \<open>
  \<open>bf_check\<close> is the first row of \<^verbatim>\<open>PRAGMA integrity_check\<close> (\<^const>\<open>Inl\<close> a \<^verbatim>\<open>sqlite3.Error\<close>, \<^const>\<open>None\<close> no row), \<open>bf_backup\<close> the copy of an
  open database into another one.
\<close>

record 'f backup_fs =
  bf_resolve :: "path \<Rightarrow> 'f \<Rightarrow> path"
  bf_is_file :: "path \<Rightarrow> 'f \<Rightarrow> bool"
  bf_exists :: "path \<Rightarrow> 'f \<Rightarrow> bool"
  bf_check :: "path \<Rightarrow> 'f \<Rightarrow> (unit, string option) result"
  bf_mkdir_parent :: "path \<Rightarrow> 'f \<Rightarrow> (string, unit) result \<times> 'f"
  bf_backup :: "path \<Rightarrow> path \<Rightarrow> 'f \<Rightarrow> (string, unit) result \<times> 'f"

definition verify_database :: "'f backup_fs \<Rightarrow> path \<Rightarrow> 'f \<Rightarrow> bool \<times> string" where
  "verify_database fs p f =
     (if \<not> bf_is_file fs p f then (False, ''database does not exist'')
      else if bf_check fs p f = Inr (Some ''ok'') then (True, ''ok'')
      else (False, ''database integrity check failed''))"

definition backup_database :: "'f backup_fs \<Rightarrow> path \<Rightarrow> path \<Rightarrow> 'f \<Rightarrow> (maintenance_error, int) result \<times> 'f" where
  "backup_database fs source destination f =
     (if bf_resolve fs source f = bf_resolve fs destination f then (Inl (MaintValueError ''backup destination must differ from source''), f)
      else (case verify_database fs source f of
          (False, message) \<Rightarrow> (Inl (MaintValueError message), f)
        | (True, _) \<Rightarrow> (case bf_mkdir_parent fs destination f of
            (Inl e, f1) \<Rightarrow> (Inl (MaintUncaught e), f1)
          | (Inr _, f1) \<Rightarrow>
              if bf_exists fs destination f1 then (Inl (MaintFileExists ''backup destination already exists''), f1)
              else (case bf_backup fs source destination f1 of
                  (Inl e, f2) \<Rightarrow> (Inl (MaintUncaught e), f2)
                | (Inr _, f2) \<Rightarrow> (case verify_database fs destination f2 of
                      (False, message) \<Rightarrow> (Inl (MaintValueError message), f2)
                    | (True, _) \<Rightarrow> (Inr 0, f2))))))"

section \<open>scripts/backup_postgres.py\<close>

text \<open>The call of \<^verbatim>\<open>pg_dump\<close>: its arguments and the password in its environment.\<close>

record dump_call =
  dc_argv :: "string list"
  dc_password :: string

definition nul_char :: char where
  "nul_char = CHR 0x00"

definition dump_argv :: "string \<Rightarrow> int option \<Rightarrow> string \<Rightarrow> string \<Rightarrow> string \<Rightarrow> string list" where
  "dump_argv host port username database target =
     [''pg_dump'', ''--format=custom'', ''--no-owner'', ''--no-acl'', ''--host'', host, ''--port'',
      int_str (case port of None \<Rightarrow> 5432 | Some p \<Rightarrow> if p = 0 then 5432 else p), ''--username'', username, ''--dbname'', database, ''--file'', target]"

text \<open>The user, password and database of the URL.\<close>

definition dump_credentials :: "(string \<Rightarrow> string) \<Rightarrow> parsed_url \<Rightarrow> (maintenance_error, string \<times> string \<times> string) result" where
  "dump_credentials unquote parsed =
     (let username = unquote (pu_username parsed); password = unquote (pu_password parsed);
          database = dropWhile (\<lambda>c. c = CHR ''/'') (pu_path parsed)
      in if username = [] \<or> database = [] \<or> list_ex (\<lambda>v. nul_char \<in> set v) [username, password, database]
         then Inl (MaintValueError ''database URL is missing a safe user, password or database'') else Inr (username, password, database))"

text \<open>The call, once the port is read; an invalid port raises \<^verbatim>\<open>ValueError\<close>.\<close>

definition dump_call_of :: "(string \<Rightarrow> string) \<Rightarrow> parsed_url \<Rightarrow> string \<Rightarrow> (maintenance_error, dump_call) result" where
  "dump_call_of unquote parsed target =
     (case dump_credentials unquote parsed of Inl e \<Rightarrow> Inl e
      | Inr (username, password, database) \<Rightarrow> (case pu_port parsed of
          Inl _ \<Rightarrow> Inl (MaintUncaught ''ValueError'')
        | Inr port \<Rightarrow> Inr \<lparr>dc_argv = dump_argv (pu_hostname parsed) port username database target, dc_password = password\<rparr>))"

record 'f dump_env =
  du_exists :: "string \<Rightarrow> 'f \<Rightarrow> bool"
  du_pg_dump :: bool
  du_mkdir_parent :: "string \<Rightarrow> 'f \<Rightarrow> (string, unit) result \<times> 'f"
  du_run :: "dump_call \<Rightarrow> 'f \<Rightarrow> bool \<times> 'f"
  du_size :: "string \<Rightarrow> 'f \<Rightarrow> nat option"

definition run_dump :: "'f dump_env \<Rightarrow> dump_call \<Rightarrow> string \<Rightarrow> 'f \<Rightarrow> (maintenance_error, int) result \<times> 'f" where
  "run_dump du call target f =
     (case du_run du call f of
        (False, f') \<Rightarrow> (Inl (MaintRuntimeError ''pg_dump failed''), f')
      | (True, f') \<Rightarrow> (case du_size du target f' of
            Some (Suc _) \<Rightarrow> (Inr 0, f')
          | _ \<Rightarrow> (Inl (MaintRuntimeError ''pg_dump did not create a non-empty backup''), f')))"

definition backup_postgres :: "ip6_parser \<Rightarrow> (string \<Rightarrow> string) \<Rightarrow> 'f dump_env \<Rightarrow> string \<Rightarrow> string \<Rightarrow> 'f \<Rightarrow> (maintenance_error, int) result \<times> 'f" where
  "backup_postgres ip6 unquote du database_url target f =
     (case urlparse ip6 database_url of
        None \<Rightarrow> (Inl (MaintUncaught ''ValueError''), f)
      | Some parsed \<Rightarrow>
          if pu_scheme parsed \<notin> {''postgres'', ''postgresql''} \<or> pu_hostname parsed = []
          then (Inl (MaintValueError ''database URL must be a PostgreSQL DSN with a host''), f)
          else if du_exists du target f then (Inl (MaintFileExists ''backup destination already exists''), f)
          else if \<not> du_pg_dump du then (Inl (MaintRuntimeError ''pg_dump is required for PostgreSQL backups''), f)
          else (case dump_credentials unquote parsed of
              Inl e \<Rightarrow> (Inl e, f)
            | Inr _ \<Rightarrow> (case du_mkdir_parent du target f of
                (Inl e, f1) \<Rightarrow> (Inl (MaintUncaught e), f1)
              | (Inr _, f1) \<Rightarrow> (case dump_call_of unquote parsed target of
                    Inl e \<Rightarrow> (Inl e, f1)
                  | Inr call \<Rightarrow> run_dump du call target f1))))"

section \<open>scripts/generate_sbom.py\<close>

text \<open>A distribution: its metadata name, the name of the distribution and the version.\<close>

type_synonym distribution = "string option \<times> string \<times> string"

definition distribution_name :: "distribution \<Rightarrow> string" where
  "distribution_name d = (case d of (name, fallback, _) \<Rightarrow> case name of Some n \<Rightarrow> if n = [] then fallback else n | None \<Rightarrow> fallback)"

text \<open>\<^verbatim>\<open>list(dict.fromkeys(xs))\<close> keeps the first of equal elements.\<close>

definition unique_first :: "'a list \<Rightarrow> 'a list" where
  "unique_first xs = rev (remdups (rev xs))"

definition sbom_packages :: "distribution list \<Rightarrow> (string \<times> string) list" where
  "sbom_packages ds = unique_first (sort (map (\<lambda>d. (strip (distribution_name d), snd (snd d))) (filter (\<lambda>d. distribution_name d \<noteq> []) ds)))"

definition sbom_package :: "nat \<Rightarrow> string \<times> string \<Rightarrow> pyval" where
  "sbom_package index p =
     VDict [(''SPDXID'', VStr (''SPDXRef-Package-'' @ nat_digits index)), (''name'', VStr (fst p)), (''versionInfo'', VStr (snd p)),
       (''downloadLocation'', VStr ''NOASSERTION''), (''licenseConcluded'', VStr ''NOASSERTION''), (''licenseDeclared'', VStr ''NOASSERTION'')]"

definition build_document :: "distribution list \<Rightarrow> pydict" where
  "build_document ds =
     [(''spdxVersion'', VStr ''SPDX-2.3''), (''dataLicense'', VStr ''CC0-1.0''), (''SPDXID'', VStr ''SPDXRef-DOCUMENT''),
      (''name'', VStr ''enterprise-ai-copilot-python-environment''),
      (''documentNamespace'', VStr ''https://github.com/yoAkyoku/enterprise-ai-copilot/sbom''),
      (''creationInfo'', VDict [(''createdBy'', VList [VStr ''Tool: scripts/generate_sbom.py''])]),
      (''packages'', VList (map (\<lambda>(i, p). sbom_package i p) (enumerate 1 (sbom_packages ds))))]"

section \<open>Migrations are applied once\<close>

text \<open>
  The schema that results from executing the scripts of a list of versions in order.
\<close>

fun apply_versions :: "(string \<Rightarrow> 's \<Rightarrow> (string, 's) result) \<Rightarrow> (string \<times> string) list \<Rightarrow> string list \<Rightarrow> 's \<Rightarrow> 's option" where
  "apply_versions exec ms [] s = Some s"
| "apply_versions exec ms (v # vs) s =
     (case map_of ms v of None \<Rightarrow> None
      | Some sql \<Rightarrow> (case exec sql s of Inl _ \<Rightarrow> None | Inr s' \<Rightarrow> apply_versions exec ms vs s'))"

definition migrated :: "(string \<Rightarrow> 's \<Rightarrow> (string, 's) result) \<Rightarrow> (string \<times> string) list \<Rightarrow> 's \<Rightarrow> 's migrated_db \<Rightarrow> bool" where
  "migrated exec ms s0 db \<longleftrightarrow> distinct (md_versions db) \<and> set (md_versions db) \<subseteq> set (map fst ms) \<and>
     apply_versions exec ms (md_versions db) s0 = Some (md_schema db)"

lemma apply_versions_append:
  "apply_versions exec ms (vs @ ws) s = (case apply_versions exec ms vs s of None \<Rightarrow> None | Some s' \<Rightarrow> apply_versions exec ms ws s')"
  by (induction exec ms vs s rule: apply_versions.induct) (auto split: option.splits sum.splits)

lemma migrated_step:
  assumes "migrated exec ms s0 db" "version \<notin> set (md_versions db)" "map_of ms version = Some sql" "exec sql (md_schema db) = Inr s"
  shows "migrated exec ms s0 \<lparr>md_versions = md_versions db @ [version], md_schema = s\<rparr>"
  using assms by (auto simp: migrated_def apply_versions_append dest: map_of_SomeD intro: rev_image_eqI)

lemma pg_migrations_migrated:
  assumes "distinct (map fst ms)" "set xs \<subseteq> set ms" "migrated exec ms s0 db" "pg_migrations exec xs db = Inr db'"
  shows "migrated exec ms s0 db' \<and> set (md_versions db') = set (md_versions db) \<union> set (map fst xs)"
  using assms(2-)
proof (induction exec xs db rule: pg_migrations.induct)
  case (2 exec version sql xs db)
  have m: "map_of ms version = Some sql" using "2.prems"(1) assms(1) by simp
  show ?case
  proof (cases "version \<in> set (md_versions db)")
    case True
    with 2 show ?thesis by auto
  next
    case False
    with "2.prems"(3) obtain s where s: "exec sql (md_schema db) = Inr s"
      "pg_migrations exec xs \<lparr>md_versions = md_versions db @ [version], md_schema = s\<rparr> = Inr db'"
      by (auto split: sum.splits)
    from "2.IH"(2) [OF False s(1) _ _ s(2)] "2.prems"(1) migrated_step [OF "2.prems"(2) False m s(1)] show ?thesis by auto
  qed
qed simp

lemma pg_migrations_noop: "set (map fst xs) \<subseteq> set (md_versions db) \<Longrightarrow> pg_migrations exec xs db = Inr db"
  by (induction exec xs db rule: pg_migrations.induct) auto

text \<open>The runs of the script against one database, with whatever outcome, one after the other.\<close>

inductive migration_runs :: "(string \<Rightarrow> 's \<Rightarrow> (string, 's) result) \<Rightarrow> (string \<times> string) list \<Rightarrow> 's migrated_db \<Rightarrow> 's migrated_db \<Rightarrow> bool"
  for exec ms where
  start: "migration_runs exec ms db db"
| again: "migration_runs exec ms db db' \<Longrightarrow> migrate_postgres psycopg exec ms url db' = (r, db'') \<Longrightarrow> migration_runs exec ms db db''"

inductive_cases migration_runsE: "migration_runs exec ms db db'"

lemma migrate_postgres_cases:
  assumes "migrate_postgres psycopg exec ms url db = (r, db')"
  obtains "db' = db" "r \<noteq> Inr 0" | "pg_migrations exec ms db = Inr db'" "r = Inr 0"
  using assms by (auto simp: migrate_postgres_def split: if_splits sum.splits)

text \<open>
  C39. PostgreSQL migrations are applied once and as a whole. Over any sequence of runs of the script on a fresh database, failed
  ones included, no version is recorded twice, and the schema is what executing the scripts of the recorded versions once
  each, in the order of their recording, makes of the initial one; a run that fails leaves the database as it was; after a
  run that succeeds every migration is recorded, and running the script again changes nothing.\<close>

theorem migrations_applied_once:
  assumes "distinct (map fst ms)" "migration_runs exec ms \<lparr>md_versions = [], md_schema = s0\<rparr> db"
    and "migrate_postgres psycopg exec ms url db = (r, db')"
  shows "migrated exec ms s0 db' \<and> (r \<noteq> Inr 0 \<longrightarrow> db' = db) \<and>
    (r = Inr 0 \<longrightarrow> set (md_versions db') = set (map fst ms) \<and> migrate_postgres psycopg exec ms url db' = (Inr 0, db'))"
proof -
  have keep: "migrated exec ms s0 db2" if "migrated exec ms s0 db1" "migrate_postgres ps exec ms u db1 = (x, db2)" for ps u x db1 db2
    using that(2) by (rule migrate_postgres_cases) (use that(1) pg_migrations_migrated [OF assms(1) order.refl that(1)] in auto)
  have "migrated exec ms s0 db"
    using assms(2)
  proof (induction "\<lparr>md_versions = [], md_schema = s0\<rparr>" db rule: migration_runs.induct)
    case start
    then show ?case by (simp add: migrated_def)
  qed (rule keep)
  note m = this keep [OF this assms(3)]
  from assms(3) show ?thesis
  proof (rule migrate_postgres_cases)
    assume p: "pg_migrations exec ms db = Inr db'" "r = Inr 0"
    from pg_migrations_migrated [OF assms(1) order.refl m(1) p(1)] m(1)
    have all: "set (md_versions db') = set (map fst ms)" by (auto simp: migrated_def)
    then have "pg_migrations exec ms db' = Inr db'" by (intro pg_migrations_noop) simp
    with assms(3) p all m(2) show ?thesis by (auto simp: migrate_postgres_def split: if_splits sum.splits)
  qed (use m in auto)
qed

definition demo_exec :: "string \<Rightarrow> string list \<Rightarrow> (string, string list) result" where
  "demo_exec sql s = (if sql = ''bad'' then Inl ''SyntaxError'' else Inr (s @ [sql]))"

theorem migrations_applied_once_witness:
  "\<exists>db. migrate_postgres True demo_exec [(''001'', ''a''), (''002'', ''b'')] ''url'' \<lparr>md_versions = [], md_schema = []\<rparr> = (Inr 0, db) \<and>
     migrate_postgres True demo_exec [(''001'', ''a''), (''002'', ''b'')] ''url'' db = (Inr 0, db) \<and> md_schema db = [''a'', ''b'']"
proof -
  let ?ms = "[(''001'', ''a''), (''002'', ''b'')] :: (string \<times> string) list"
  let ?db = "\<lparr>md_versions = [''001'', ''002''], md_schema = [''a'', ''b'']\<rparr>"
  have run: "migrate_postgres True demo_exec ?ms ''url'' \<lparr>md_versions = [], md_schema = []\<rparr> = (Inr 0, ?db)"
    by (simp add: migrate_postgres_def demo_exec_def is_space_def code_def blank_def strip_def)
  have "distinct (map fst ?ms)" by simp
  from migrations_applied_once [OF this migration_runs.start run] run show ?thesis by auto
qed

section \<open>Backups\<close>

text \<open>
  \<open>fc f p\<close> is the content of the file at \<open>p\<close>. Creating directories changes no file, a backup only its destination.
\<close>

definition backup_frame :: "'f backup_fs \<Rightarrow> ('f \<Rightarrow> path \<Rightarrow> string option) \<Rightarrow> bool" where
  "backup_frame fs fc \<longleftrightarrow>
     (\<forall>p f. fc (snd (bf_mkdir_parent fs p f)) = fc f) \<and>
     (\<forall>a b f q. q \<noteq> b \<longrightarrow> fc (snd (bf_backup fs a b f)) q = fc f q) \<and>
     (\<forall>p f. fc f p \<noteq> None \<longrightarrow> bf_exists fs p f)"

lemma backup_never_overwrites:
  assumes "backup_frame fs fc" "backup_database fs source destination f = (r, f')"
  shows "(\<forall>q. q \<noteq> destination \<longrightarrow> fc f' q = fc f q) \<and> (fc f destination \<noteq> None \<longrightarrow> fc f' = fc f \<and> r \<noteq> Inr 0)"
proof -
  have mk: "fc f1 = fc f" if "bf_mkdir_parent fs destination f = (x, f1)" for x f1
  proof -
    have "fc (snd (bf_mkdir_parent fs destination f)) = fc f" using assms(1) by (simp add: backup_frame_def)
    with that show ?thesis by simp
  qed
  have bk: "fc f2 q = fc f1 q" if "bf_backup fs source destination f1 = (x, f2)" "q \<noteq> destination" for x f1 f2 q
  proof -
    have "fc (snd (bf_backup fs source destination f1)) q = fc f1 q" using assms(1) that(2) by (simp add: backup_frame_def)
    with that(1) show ?thesis by simp
  qed
  have ex: "fc f destination = None" if "bf_mkdir_parent fs destination f = (x, f1)" "\<not> bf_exists fs destination f1" for x f1
  proof -
    have "fc f1 destination = None" using assms(1) that(2) unfolding backup_frame_def by blast
    with mk [OF that(1)] show ?thesis by simp
  qed
  show ?thesis
    using assms(2) by (auto simp: backup_database_def mk bk dest: ex split: if_splits prod.splits sum.splits bool.splits)
qed

text \<open>A backup that succeeds has passed the integrity check, as its source had.\<close>

lemma backup_verified:
  "backup_database fs source destination f = (Inr 0, f') \<Longrightarrow>
     bf_check fs source f = Inr (Some ''ok'') \<and> bf_is_file fs destination f' \<and> bf_check fs destination f' = Inr (Some ''ok'')"
  by (auto simp: backup_database_def verify_database_def split: if_splits prod.splits sum.splits bool.splits)

text \<open>
  The password is no argument of the program: the arguments are a function of the part of the URL after the credentials, the user
  and the database.
\<close>

lemma hostinfo_after_at: "after_last CHR ''@'' n1 = after_last CHR ''@'' n2 \<Longrightarrow> hostinfo n1 = hostinfo n2"
  by (simp add: hostinfo_def)

lemma dump_argv_without_password:
  assumes "dump_call_of unquote u1 target = Inr c1" "dump_call_of unquote u2 target = Inr c2"
    and "after_last CHR ''@'' (pu_netloc u1) = after_last CHR ''@'' (pu_netloc u2)" "pu_username u1 = pu_username u2" "pu_path u1 = pu_path u2"
  shows "dc_argv c1 = dc_argv c2"
proof -
  have "pu_hostname u1 = pu_hostname u2" "pu_port u1 = pu_port u2"
    using hostinfo_after_at [OF assms(3)] by (simp_all add: pu_hostname_def pu_port_def)
  with assms show ?thesis
    by (auto simp: dump_call_of_def dump_credentials_def Let_def split: if_splits sum.splits)
qed

section \<open>The bill of materials\<close>

lemma unique_first: "distinct (unique_first xs)" "set (unique_first xs) = set xs"
  by (simp_all add: unique_first_def)

lemma sorted_unique_first: "sorted xs \<Longrightarrow> sorted (unique_first (xs :: 'a :: linorder list))"
proof (induction xs rule: rev_induct)
  case (snoc x xs)
  then have s: "sorted (unique_first xs)" and le: "\<forall>y\<in>set xs. y \<le> x" by (simp_all add: sorted_append)
  have "unique_first (xs @ [x]) = (if x \<in> set xs then unique_first xs else unique_first xs @ [x])"
    by (simp add: unique_first_def)
  with s le show ?case by (simp add: sorted_append unique_first)
qed (simp add: unique_first_def)

end
