(* ===== verification/Api_Acceptance.thy ===== *)
theory Api_Acceptance
  imports Deployment_Config
begin

text \<open>
  The acceptance probe of a deployed API, \<^verbatim>\<open>scripts/api_acceptance_smoke.py\<close>: the HTTP client, the configuration, the checks of
  readiness, scope and isolation, and the clean-up of the two attachments that it uploads. The deployed API is a parameter: a
  function of the request that changes a state of its own. The state of the probe keeps the requests that were sent with their
  outcomes, so that the theorems can say what the probe did whatever the API answered.
\<close>

section \<open>Errors, requests and state\<close>

text \<open>A \<^verbatim>\<open>ValueError\<close> and its subclasses are \<open>AccValueError\<close>; \<open>AccUncaught\<close> is an exception that the script does not name.\<close>

datatype acceptance_error = AcceptanceError string | AccValueError string | AccUncaught string

record principal =
  pr_name :: string
  pr_token :: string
  pr_workspace_id :: string
  pr_tenant_id :: string

record acc_response =
  resp_status :: int
  resp_body :: string

record acc_request =
  aq_method :: string
  aq_url :: string
  aq_headers :: "(string, string) dict"
  aq_body :: "string option"

record acc_client =
  ac_base_url :: string
  ac_timeout :: pyfloat

text \<open>
  What \<^verbatim>\<open>opener.open\<close> with \<^verbatim>\<open>response.read\<close> does: a response with its whole body, \<^verbatim>\<open>HTTPError\<close> (a status of 300 and more, redirects
  included), one of \<^verbatim>\<open>URLError\<close>, \<^verbatim>\<open>TimeoutError\<close> and \<^verbatim>\<open>OSError\<close>, or another exception, a \<^verbatim>\<open>ValueError\<close> or not (a body that ends too
  early raises \<^verbatim>\<open>http.client.IncompleteRead\<close>, which is none of those caught).
\<close>

datatype open_outcome = Opened int string | HttpError int | TransportError | Escaping bool string

text \<open>\<^verbatim>\<open>json.loads\<close> of bytes: a value, \<^verbatim>\<open>UnicodeDecodeError\<close> or \<^verbatim>\<open>JSONDecodeError\<close>, or another exception.\<close>

datatype loads_outcome = Loaded pyval | Undecodable | LoadsEscaping bool string

record 'w acc_env =
  ae_send :: "pyfloat \<Rightarrow> acc_request \<Rightarrow> 'w \<Rightarrow> open_outcome \<times> 'w"
  ae_token_hex :: "nat \<Rightarrow> nat \<Rightarrow> string"
  ae_loads :: "string \<Rightarrow> loads_outcome"
  ae_float_repr :: "pyfloat \<Rightarrow> string"

record 'w acc_state =
  as_world :: 'w
  as_drawn :: nat
  as_log :: "(acc_request \<times> open_outcome) list"

type_synonym ('w, 'a) acc = "'w acc_state \<Rightarrow> (acceptance_error, 'a) result \<times> 'w acc_state"

definition escaped :: "bool \<Rightarrow> string \<Rightarrow> acceptance_error" where
  "escaped value_error e = (if value_error then AccValueError e else AccUncaught e)"

text \<open>Statements in sequence, an exception ending the rest.\<close>

definition acc_bind :: "('w, 'a) acc \<Rightarrow> ('a \<Rightarrow> ('w, 'b) acc) \<Rightarrow> ('w, 'b) acc" where
  "acc_bind act k s = (case act s of (Inl e, s1) \<Rightarrow> (Inl e, s1) | (Inr x, s1) \<Rightarrow> k x s1)"

definition acc_lift :: "(acceptance_error, 'a) result \<Rightarrow> ('w, 'a) acc" where
  "acc_lift r s = (r, s)"

fun acc_seq :: "('w, unit) acc list \<Rightarrow> ('w, unit) acc" where
  "acc_seq [] s = (Inr (), s)"
| "acc_seq (act # acts) s = (case act s of (Inl e, s1) \<Rightarrow> (Inl e, s1) | (Inr _, s1) \<Rightarrow> acc_seq acts s1)"

text \<open>\<^verbatim>\<open>secrets.token_hex(n)\<close>: the number of draws so far selects the value.\<close>

definition token_hex :: "'w acc_env \<Rightarrow> nat \<Rightarrow> ('w, string) acc" where
  "token_hex ae n s = (Inr (ae_token_hex ae n (as_drawn s)), s\<lparr>as_drawn := as_drawn s + 1\<rparr>)"

section \<open>ApiClient\<close>

definition max_acceptance_bytes :: nat where
  "max_acceptance_bytes = 1024 * 1024"

definition api_client_init :: "ip6_parser \<Rightarrow> string \<Rightarrow> string list \<Rightarrow> pyfloat \<Rightarrow> (acceptance_error, acc_client) result" where
  "api_client_init ip6 base_url allowed_hosts timeout_seconds =
     (if timeout_invalid timeout_seconds 30 then Inl (AccValueError ''acceptance timeout must be between 0 and 30 seconds'')
      else (case validated_https_endpoint ip6 base_url allowed_hosts ''acceptance API'' ''/'' of
          Inl e \<Rightarrow> Inl (AccValueError e)
        | Inr url \<Rightarrow> Inr \<lparr>ac_base_url = rstrip_char CHR ''/'' url, ac_timeout = timeout_seconds\<rparr>))"

definition header_if :: "string \<Rightarrow> string option \<Rightarrow> (string, string) dict" where
  "header_if name value = (case value of None \<Rightarrow> [] | Some v \<Rightarrow> [(name, v)])"

text \<open>The response, or the exception, of what the opener did.\<close>

definition response_of :: "open_outcome \<Rightarrow> (acceptance_error, acc_response) result" where
  "response_of outcome = (case outcome of
       Opened status payload \<Rightarrow>
         if length (take (max_acceptance_bytes + 1) payload) > max_acceptance_bytes
         then Inl (AcceptanceError ''API response exceeded the acceptance size limit'')
         else Inr \<lparr>resp_status = status, resp_body = take (max_acceptance_bytes + 1) payload\<rparr>
     | HttpError status \<Rightarrow> Inr \<lparr>resp_status = status, resp_body = []\<rparr>
     | TransportError \<Rightarrow> Inl (AcceptanceError ''API request failed'')
     | Escaping value_error e \<Rightarrow> Inl (escaped value_error e))"

definition acc_send :: "'w acc_env \<Rightarrow> acc_client \<Rightarrow> acc_request \<Rightarrow> ('w, acc_response) acc" where
  "acc_send ae c q s =
     (case ae_send ae (ac_timeout c) q (as_world s) of
        (outcome, w) \<Rightarrow> (response_of outcome, s\<lparr>as_world := w, as_log := as_log s @ [(q, outcome)]\<rparr>))"

definition client_message ::
    "acc_client \<Rightarrow> string \<Rightarrow> string \<Rightarrow> string option \<Rightarrow> string option \<Rightarrow> string option \<Rightarrow> string option \<Rightarrow> string \<Rightarrow> acc_request" where
  "client_message c method path token body content_type idempotency_key request_id =
     \<lparr>aq_method = method, aq_url = ac_base_url c @ path,
      aq_headers = [(''Accept'', ''application/json''), (''X-Request-Id'', ''acceptance-'' @ request_id)]
        @ header_if ''Authorization'' (map_option (\<lambda>t. ''Bearer '' @ t) token)
        @ header_if ''Content-Type'' content_type @ header_if ''Idempotency-Key'' idempotency_key,
      aq_body = body\<rparr>"

definition client_request ::
    "'w acc_env \<Rightarrow> acc_client \<Rightarrow> string \<Rightarrow> string \<Rightarrow> string option \<Rightarrow> string option \<Rightarrow> string option \<Rightarrow> string option \<Rightarrow> ('w, acc_response) acc" where
  "client_request ae c method path token body content_type idempotency_key =
     (if \<not> startswith path ''/'' \<or> CHR ''?'' \<in> set path \<or> CHR ''#'' \<in> set path
      then acc_lift (Inl (AccValueError ''acceptance paths must be fixed origin-relative paths''))
      else acc_bind (token_hex ae 16) (\<lambda>request_id.
        acc_send ae c (client_message c method path token body content_type idempotency_key request_id)))"

text \<open>\<^verbatim>\<open>bytes.fromhex\<close> of an even number of hexadecimal digits.\<close>

definition hex_value :: "char \<Rightarrow> nat" where
  "hex_value c = (if is_digit c then code c - 48 else code c - 87)"

fun fromhex :: "string \<Rightarrow> string" where
  "fromhex (a # b # cs) = char_of (16 * hex_value a + hex_value b) # fromhex cs"
| "fromhex cs = []"

definition png :: string where
  "png = fromhex (''89504e470d0a1a0a0000000d49484452000000010000000108060000001f15c489''
     @ ''0000000d49444154789c6360000000020001e221bc33000000000049454e44ae426082'')"

definition crlf :: string where
  "crlf = [CHR 13, CHR 10]"

definition quoted :: "string \<Rightarrow> string" where
  "quoted s = [CHR 34] @ s @ [CHR 34]"

definition multipart_image :: "'w acc_env \<Rightarrow> ('w, string \<times> string) acc" where
  "multipart_image ae = acc_bind (token_hex ae 12) (\<lambda>t.
     let boundary = ''----enterprise-agent-acceptance-'' @ t in
     acc_lift (Inr
       (''--'' @ boundary @ crlf @ ''Content-Disposition: form-data; name='' @ quoted ''image'' @ ''; filename='' @ quoted ''acceptance.png'' @ crlf
          @ ''Content-Type: image/png'' @ crlf @ crlf @ png @ crlf @ ''--'' @ boundary @ ''--'' @ crlf,
        ''multipart/form-data; boundary='' @ boundary)))"


section \<open>Checks of a response and the configuration\<close>

definition acc_json :: "'w acc_env \<Rightarrow> acc_response \<Rightarrow> string \<Rightarrow> (acceptance_error, pydict) result" where
  "acc_json ae response label =
     (if resp_body response = [] then Inl (AcceptanceError (label @ '' returned an empty response''))
      else (case ae_loads ae (resp_body response) of
          Undecodable \<Rightarrow> Inl (AcceptanceError (label @ '' returned invalid JSON''))
        | LoadsEscaping value_error e \<Rightarrow> Inl (escaped value_error e)
        | Loaded (VDict d) \<Rightarrow> Inr d
        | Loaded _ \<Rightarrow> Inl (AcceptanceError (label @ '' returned an invalid JSON object''))))"

definition acc_expect :: "acc_response \<Rightarrow> int \<Rightarrow> string \<Rightarrow> (acceptance_error, unit) result" where
  "acc_expect response status label =
     (if resp_status response \<noteq> status
      then Inl (AcceptanceError (label @ '' returned HTTP '' @ int_str (resp_status response) @ '', expected '' @ int_str status)) else Inr ())"

definition acc_required :: "environ \<Rightarrow> string \<Rightarrow> nat \<Rightarrow> (acceptance_error, string) result" where
  "acc_required env name maximum =
     (let value = strip (getenv env name [])
      in if value = [] then Inl (AccValueError (name @ '' is required''))
         else if length value > maximum then Inl (AccValueError (name @ '' is too long'')) else Inr value)"

definition acc_principal :: "environ \<Rightarrow> string \<Rightarrow> string \<Rightarrow> (acceptance_error, principal) result" where
  "acc_principal env prefix name =
     rbind (acc_required env (prefix @ ''_BEARER_TOKEN'') 8192) (\<lambda>token.
     rbind (acc_required env (prefix @ ''_WORKSPACE_ID'') 256) (\<lambda>workspace.
     rbind (acc_required env (prefix @ ''_TENANT_ID'') 256) (\<lambda>tenant.
     Inr \<lparr>pr_name = name, pr_token = token, pr_workspace_id = workspace, pr_tenant_id = tenant\<rparr>)))"

definition load_configuration :: "ip6_parser \<Rightarrow> environ \<Rightarrow> (acceptance_error, acc_client \<times> principal \<times> principal \<times> string) result" where
  "load_configuration ip6 env =
     rbind (acc_required env ''AGENT_ACCEPTANCE_BASE_URL'' 2048) (\<lambda>base_url.
     let allowed_hosts = map strip (filter (\<lambda>h. \<not> blank h) (split_on CHR '','' (getenv env ''AGENT_ACCEPTANCE_ALLOWED_HOSTS'' []))) in
     rbind (case py_float (getenv env ''AGENT_ACCEPTANCE_TIMEOUT_SECONDS'' ''10'') of
         None \<Rightarrow> Inl (AccValueError ''AGENT_ACCEPTANCE_TIMEOUT_SECONDS must be numeric'') | Some t \<Rightarrow> Inr t) (\<lambda>timeout.
     rbind (acc_principal env ''AGENT_ACCEPTANCE_A'' ''principal-a'') (\<lambda>a.
     rbind (acc_principal env ''AGENT_ACCEPTANCE_B'' ''principal-b'') (\<lambda>b.
     if pr_token a = pr_token b then Inl (AccValueError ''acceptance principals must use different bearer tokens'')
     else if (pr_workspace_id a, pr_tenant_id a) = (pr_workspace_id b, pr_tenant_id b)
     then Inl (AccValueError ''acceptance principals must use different scopes'')
     else rbind (acc_required env ''AGENT_ACCEPTANCE_ORDER_ID'' 128) (\<lambda>order_id.
       rbind (api_client_init ip6 base_url allowed_hosts timeout) (\<lambda>client. Inr (client, a, b, order_id)))))))"

text \<open>\<^verbatim>\<open>_SAFE_RESOURCE_ID.fullmatch\<close>.\<close>

definition safe_resource_id :: "string \<Rightarrow> bool" where
  "safe_resource_id s \<longleftrightarrow> 1 \<le> length s \<and> length s \<le> 256 \<and> list_all (\<lambda>c. is_alnum c \<or> c \<in> set ''._:-'') s"

section \<open>The steps of the probe\<close>

definition acc_get :: "'w acc_env \<Rightarrow> acc_client \<Rightarrow> string \<Rightarrow> string option \<Rightarrow> ('w, acc_response) acc" where
  "acc_get ae c path token = client_request ae c ''GET'' path token None None None"

text \<open>A request whose status alone is checked.\<close>

definition acc_get_status :: "'w acc_env \<Rightarrow> acc_client \<Rightarrow> principal \<Rightarrow> string \<Rightarrow> int \<Rightarrow> string \<Rightarrow> ('w, unit) acc" where
  "acc_get_status ae c p path status label =
     acc_bind (acc_get ae c path (Some (pr_token p))) (\<lambda>response. acc_lift (acc_expect response status label))"

definition acc_checked :: "'w acc_env \<Rightarrow> acc_response \<Rightarrow> int \<Rightarrow> string \<Rightarrow> (acceptance_error, pydict) result" where
  "acc_checked ae response status label = rbind (acc_expect response status label) (\<lambda>_. acc_json ae response label)"

definition acc_dashboard :: "'w acc_env \<Rightarrow> acc_client \<Rightarrow> principal \<Rightarrow> ('w, unit) acc" where
  "acc_dashboard ae c p =
     (let label = ''dashboard.'' @ pr_name p in
      acc_bind (acc_get ae c ''/api/v1/dashboard'' (Some (pr_token p))) (\<lambda>response.
      acc_lift (rbind (acc_checked ae response 200 label) (\<lambda>payload.
        if dget payload ''workspace_id'' \<noteq> VStr (pr_workspace_id p) then Inl (AcceptanceError (label @ '' returned the wrong workspace''))
        else if dget payload ''tenant_id'' \<noteq> VStr (pr_tenant_id p) then Inl (AcceptanceError (label @ '' returned the wrong tenant''))
        else Inr ()))))"

text \<open>The identifier that an accepted upload returns.\<close>

definition uploaded_id :: "'w acc_env \<Rightarrow> string \<Rightarrow> acc_response \<Rightarrow> (acceptance_error, string) result" where
  "uploaded_id ae label response =
     rbind (acc_checked ae response 201 label) (\<lambda>payload.
       case dget payload ''id'' of
         VStr i \<Rightarrow> if safe_resource_id i then Inr i else Inl (AcceptanceError (label @ '' returned an invalid id''))
       | _ \<Rightarrow> Inl (AcceptanceError (label @ '' returned an invalid id'')))"

definition acc_upload :: "'w acc_env \<Rightarrow> acc_client \<Rightarrow> principal \<Rightarrow> ('w, string) acc" where
  "acc_upload ae c p =
     acc_bind (multipart_image ae) (\<lambda>(body, content_type).
     acc_bind (client_request ae c ''POST'' ''/api/v1/attachments'' (Some (pr_token p)) (Some body) (Some content_type) None) (\<lambda>response.
     acc_lift (uploaded_id ae (''attachment.upload.'' @ pr_name p) response)))"

fun item_ids :: "pyval list \<Rightarrow> string list" where
  "item_ids [] = []"
| "item_ids (VDict d # items) = (case dget d ''id'' of VStr i \<Rightarrow> i # item_ids items | _ \<Rightarrow> item_ids items)"
| "item_ids (_ # items) = item_ids items"

definition acc_list_ids :: "'w acc_env \<Rightarrow> acc_client \<Rightarrow> principal \<Rightarrow> ('w, string list) acc" where
  "acc_list_ids ae c p =
     (let label = ''attachment.list.'' @ pr_name p in
      acc_bind (acc_get ae c ''/api/v1/attachments'' (Some (pr_token p))) (\<lambda>response.
      acc_lift (rbind (acc_checked ae response 200 label) (\<lambda>payload.
        case dget payload ''items'' of VList items \<Rightarrow> Inr (item_ids items)
        | _ \<Rightarrow> Inl (AcceptanceError (label @ '' returned invalid items''))))))"

definition order_body :: "'w acc_env \<Rightarrow> string \<Rightarrow> string" where
  "order_body ae order_id = json_dumps_ascii (ae_float_repr ae)
     (VDict [(''query'', VStr ''Where is my order?''), (''order_id'', VStr order_id), (''allow_external_processing'', VBool False)])"

definition acc_run_order :: "'w acc_env \<Rightarrow> acc_client \<Rightarrow> principal \<Rightarrow> string \<Rightarrow> ('w, string) acc" where
  "acc_run_order ae c p order_id =
     acc_bind (token_hex ae 16) (\<lambda>key.
     acc_bind (client_request ae c ''POST'' ''/api/v1/runs'' (Some (pr_token p)) (Some (order_body ae order_id)) (Some ''application/json'')
       (Some (''acceptance-'' @ key))) (\<lambda>response.
     acc_lift (rbind (acc_checked ae response 200 ''run.erp'') (\<lambda>payload.
       if dget payload ''status'' \<noteq> VStr ''succeeded'' then Inl (AcceptanceError ''run.erp did not return succeeded'')
       else (case dget payload ''run_id'' of
           VStr i \<Rightarrow> if safe_resource_id i then Inr i else Inl (AcceptanceError ''run.erp returned an invalid run id'')
         | _ \<Rightarrow> Inl (AcceptanceError ''run.erp returned an invalid run id''))))))"

section \<open>run_acceptance\<close>

definition acc_probe :: "'w acc_env \<Rightarrow> acc_client \<Rightarrow> string \<Rightarrow> string \<Rightarrow> string \<Rightarrow> ('w, unit) acc" where
  "acc_probe ae c path label expected =
     acc_bind (acc_get ae c path None) (\<lambda>response.
     acc_lift (rbind (acc_checked ae response 200 label) (\<lambda>payload.
       if dget payload ''status'' \<noteq> VStr expected then Inl (AcceptanceError (label @ '' did not report '' @ expected)) else Inr ())))"

definition attachment_path :: "string \<Rightarrow> string" where
  "attachment_path i = ''/api/v1/attachments/'' @ i"

definition run_path :: "string \<Rightarrow> string" where
  "run_path i = ''/api/v1/runs/'' @ i"

definition owner_checks :: "'w acc_env \<Rightarrow> acc_client \<Rightarrow> principal \<Rightarrow> string \<Rightarrow> ('w, unit) acc list" where
  "owner_checks ae c p own_id =
     [acc_get_status ae c p (attachment_path own_id) 200 (''attachment.owner.'' @ pr_name p),
      acc_get_status ae c p (attachment_path own_id @ ''/content'') 200 (''attachment.content.'' @ pr_name p)]"

definition foreign_checks :: "'w acc_env \<Rightarrow> acc_client \<Rightarrow> principal \<Rightarrow> string \<Rightarrow> ('w, unit) acc list" where
  "foreign_checks ae c p foreign_id =
     [acc_get_status ae c p (attachment_path foreign_id) 404 (''attachment.cross_scope.'' @ pr_name p),
      acc_get_status ae c p (attachment_path foreign_id @ ''/content'') 404 (''attachment.cross_content.'' @ pr_name p)]"

text \<open>The body of \<^verbatim>\<open>try\<close> after the two uploads.\<close>

definition isolation_checks :: "'w acc_env \<Rightarrow> acc_client \<Rightarrow> principal \<Rightarrow> principal \<Rightarrow> string \<Rightarrow> string \<Rightarrow> ('w, unit) acc" where
  "isolation_checks ae c pa pb a b =
     acc_bind (acc_list_ids ae c pa) (\<lambda>ids_a.
     acc_bind (acc_list_ids ae c pb) (\<lambda>ids_b.
     if a \<notin> set ids_a \<or> b \<in> set ids_a then acc_lift (Inl (AcceptanceError ''attachment list leaked across principal scopes''))
     else if b \<notin> set ids_b \<or> a \<in> set ids_b then acc_lift (Inl (AcceptanceError ''attachment list did not preserve principal scopes''))
     else acc_seq (owner_checks ae c pa a @ owner_checks ae c pb b @ foreign_checks ae c pa b @ foreign_checks ae c pb a)))"

text \<open>The body of \<^verbatim>\<open>try\<close>, with the two variables as they stand when it ends.\<close>

definition acc_attachments :: "'w acc_env \<Rightarrow> acc_client \<Rightarrow> principal \<Rightarrow> principal \<Rightarrow> 'w acc_state \<Rightarrow>
    (acceptance_error, unit) result \<times> string option \<times> string option \<times> 'w acc_state" where
  "acc_attachments ae c pa pb s =
     (case acc_upload ae c pa s of
        (Inl e, s1) \<Rightarrow> (Inl e, None, None, s1)
      | (Inr a, s1) \<Rightarrow> (case acc_upload ae c pb s1 of
          (Inl e, s2) \<Rightarrow> (Inl e, Some a, None, s2)
        | (Inr b, s2) \<Rightarrow> (case isolation_checks ae c pa pb a b s2 of (r, s3) \<Rightarrow> (r, Some a, Some b, s3))))"

text \<open>The \<^verbatim>\<open>finally\<close> clause: the number of failed deletions, or an exception that it does not catch.\<close>

fun acc_cleanup :: "'w acc_env \<Rightarrow> acc_client \<Rightarrow> (principal \<times> string option) list \<Rightarrow> nat \<Rightarrow> ('w, nat) acc" where
  "acc_cleanup ae c [] failures s = (Inr failures, s)"
| "acc_cleanup ae c ((p, None) # todo) failures s = acc_cleanup ae c todo failures s"
| "acc_cleanup ae c ((p, Some i) # todo) failures s =
     (case client_request ae c ''DELETE'' (attachment_path i) (Some (pr_token p)) None None None s of
        (Inr response, s1) \<Rightarrow> acc_cleanup ae c todo (if resp_status response \<in> {204, 404} then failures else failures + 1) s1
      | (Inl (AcceptanceError _), s1) \<Rightarrow> acc_cleanup ae c todo (failures + 1) s1
      | (Inl e, s1) \<Rightarrow> (Inl e, s1))"

definition acc_isolated :: "'w acc_env \<Rightarrow> acc_client \<Rightarrow> principal \<Rightarrow> principal \<Rightarrow> ('w, unit) acc" where
  "acc_isolated ae c pa pb s =
     (case acc_attachments ae c pa pb s of (r, a, b, s1) \<Rightarrow>
      (case acc_cleanup ae c [(pa, a), (pb, b)] 0 s1 of
         (Inl e, s2) \<Rightarrow> (Inl e, s2)
       | (Inr failures, s2) \<Rightarrow> (case r of
             Inl e \<Rightarrow> (Inl e, s2)
           | Inr _ \<Rightarrow> (if failures \<noteq> 0 then Inl (AcceptanceError ''attachment cleanup did not complete'') else Inr (), s2))))"

definition passed :: "string \<Rightarrow> pyval" where
  "passed name = VDict [(''name'', VStr name), (''status'', VStr ''PASS'')]"

definition acceptance_schema :: string where
  "acceptance_schema = ''enterprise-ai-copilot/production-api-acceptance/v1''"

definition acceptance_report :: pydict where
  "acceptance_report = [(''schema'', VStr acceptance_schema), (''status'', VStr ''PASS''),
     (''checks'', VList (map passed [''api.health'', ''api.ready'', ''auth.scope'', ''erp.end_to_end_and_run_isolation'',
        ''attachment.tenant_isolation'', ''attachment.cleanup'']))]"

text \<open>The run and its two reads.\<close>

definition acc_run_scope :: "'w acc_env \<Rightarrow> acc_client \<Rightarrow> principal \<Rightarrow> principal \<Rightarrow> string \<Rightarrow> ('w, unit) acc" where
  "acc_run_scope ae c pa pb order_id =
     acc_bind (acc_run_order ae c pa order_id) (\<lambda>run_id.
     acc_seq [acc_get_status ae c pa (run_path run_id) 200 ''run.scope.owner'', acc_get_status ae c pb (run_path run_id) 404 ''run.scope.cross_tenant''])"

definition run_acceptance :: "'w acc_env \<Rightarrow> acc_client \<Rightarrow> principal \<Rightarrow> principal \<Rightarrow> string \<Rightarrow> ('w, pydict) acc" where
  "run_acceptance ae c pa pb order_id =
     acc_bind (acc_seq
       [acc_probe ae c ''/health'' ''api.health'' ''ok'', acc_probe ae c ''/ready'' ''api.ready'' ''ready'',
        acc_dashboard ae c pa, acc_dashboard ae c pb, acc_run_scope ae c pa pb order_id, acc_isolated ae c pa pb])
     (\<lambda>_. acc_lift (Inr acceptance_report))"

section \<open>main\<close>

text \<open>
  The exit status and the document that is printed and, with \<^verbatim>\<open>--json-out\<close>, written (\<open>write\<close>, which gives the exception of
  \<^verbatim>\<open>write_text\<close>). Only the two exceptions are turned into a report; without \<^verbatim>\<open>--confirm-live\<close> the parser exits with status 2.
\<close>

definition failure_report :: "string \<Rightarrow> pydict" where
  "failure_report error_type = [(''schema'', VStr acceptance_schema), (''status'', VStr ''FAIL''), (''error_type'', VStr error_type)]"

definition acc_finish :: "(string \<Rightarrow> pydict \<Rightarrow> string option) \<Rightarrow> string option \<Rightarrow> pydict \<Rightarrow> int \<Rightarrow> (acceptance_error, int \<times> pydict option) result" where
  "acc_finish write json_out document status =
     (case json_out of
        None \<Rightarrow> Inr (status, Some document)
      | Some p \<Rightarrow> (case write p document of None \<Rightarrow> Inr (status, Some document) | Some e \<Rightarrow> Inl (AccUncaught e)))"

definition acceptance_main ::
    "ip6_parser \<Rightarrow> 'w acc_env \<Rightarrow> environ \<Rightarrow> (string \<Rightarrow> pydict \<Rightarrow> string option) \<Rightarrow> bool \<Rightarrow> string option \<Rightarrow> ('w, int \<times> pydict option) acc" where
  "acceptance_main ip6 ae env write confirm_live json_out s =
     (if \<not> confirm_live then (Inr (2, None), s)
      else (case (case load_configuration ip6 env of
            Inl e \<Rightarrow> (Inl e, s)
          | Inr (client, a, b, order_id) \<Rightarrow> run_acceptance ae client a b order_id s) of
          (Inr report, s1) \<Rightarrow> (acc_finish write json_out report 0, s1)
        | (Inl (AcceptanceError _), s1) \<Rightarrow> (acc_finish write json_out (failure_report ''AcceptanceError'') 1, s1)
        | (Inl (AccValueError _), s1) \<Rightarrow> (acc_finish write json_out (failure_report ''ValueError'') 1, s1)
        | (Inl (AccUncaught e), s1) \<Rightarrow> (Inl (AccUncaught e), s1)))"


section \<open>What the probe sends\<close>

text \<open>
  \<open>logs P act\<close>: whatever happens, \<open>act\<close> only extends the log, by entries of which \<open>P\<close> holds.
\<close>

definition logs :: "(acc_request \<times> open_outcome \<Rightarrow> bool) \<Rightarrow> ('w, 'a) acc \<Rightarrow> bool" where
  "logs P act \<longleftrightarrow> (\<forall>s r s1. act s = (r, s1) \<longrightarrow> (\<exists>l. as_log s1 = as_log s @ l \<and> list_all P l))"

named_theorems logs_intros

lemma logsI: "(\<And>s r s1. act s = (r, s1) \<Longrightarrow> \<exists>l. as_log s1 = as_log s @ l \<and> list_all P l) \<Longrightarrow> logs P act"
  by (simp add: logs_def)

lemma logsD: "logs P act \<Longrightarrow> act s = (r, s1) \<Longrightarrow> \<exists>l. as_log s1 = as_log s @ l \<and> list_all P l"
  by (simp add: logs_def)

lemma logs_bind [logs_intros]:
  assumes "logs P act" and "\<And>x. logs P (k x)"
  shows "logs P (acc_bind act k)"
proof (rule logsI)
  fix s r s1 assume run: "acc_bind act k s = (r, s1)"
  obtain r0 s0 where act: "act s = (r0, s0)" by fastforce
  obtain l0 where l0: "as_log s0 = as_log s @ l0" "list_all P l0" using logsD [OF assms(1) act] by blast
  show "\<exists>l. as_log s1 = as_log s @ l \<and> list_all P l"
  proof (cases r0)
    case (Inl e)
    with run act l0 show ?thesis by (auto simp: acc_bind_def)
  next
    case (Inr x)
    with run act have "k x s0 = (r, s1)" by (simp add: acc_bind_def)
    from logsD [OF assms(2) this] l0 show ?thesis by (metis append_assoc list_all_append)
  qed
qed

lemma logs_lift [logs_intros]: "logs P (acc_lift r)"
  by (auto simp: logs_def acc_lift_def)

lemma logs_token [logs_intros]: "logs P (token_hex ae n)"
  by (auto simp: logs_def token_hex_def)

lemma logs_seq [logs_intros]: "(\<And>act. act \<in> set acts \<Longrightarrow> logs P act) \<Longrightarrow> logs P (acc_seq acts)"
proof (induction acts)
  case Nil
  show ?case by (auto simp: logs_def)
next
  case (Cons act acts)
  have "acc_seq (act # acts) = acc_bind act (\<lambda>_. acc_seq acts)"
    by (auto simp: acc_bind_def split: prod.splits sum.splits)
  with Cons show ?case by (auto intro: logs_bind)
qed

lemma logs_if [logs_intros]: "(b \<Longrightarrow> logs P x) \<Longrightarrow> (\<not> b \<Longrightarrow> logs P y) \<Longrightarrow> logs P (if b then x else y)"
  by simp

text \<open>A request of the probe: where it goes, for whom, and with which headers.\<close>

definition authorization :: "acc_request \<Rightarrow> string option" where
  "authorization q = map_of (aq_headers q) ''Authorization''"

definition bearer :: "principal \<Rightarrow> string" where
  "bearer p = ''Bearer '' @ pr_token p"

definition probe_headers :: "string list" where
  "probe_headers = [''Accept'', ''X-Request-Id'', ''Authorization'', ''Content-Type'', ''Idempotency-Key'']"

definition sent_as :: "acc_client \<Rightarrow> string \<Rightarrow> string \<Rightarrow> string option \<Rightarrow> acc_request \<Rightarrow> bool" where
  "sent_as c method path token q \<longleftrightarrow> aq_method q = method \<and> aq_url q = ac_base_url c @ path \<and> authorization q = map_option (\<lambda>t. ''Bearer '' @ t) token
     \<and> set (map fst (aq_headers q)) \<subseteq> set probe_headers"

definition fixed_path :: "string \<Rightarrow> bool" where
  "fixed_path path \<longleftrightarrow> startswith path ''/'' \<and> CHR ''?'' \<notin> set path \<and> CHR ''#'' \<notin> set path"

lemma client_message_sent: "sent_as c method path token (client_message c method path token body content_type key request_id)"
  by (auto simp: client_message_def sent_as_def authorization_def header_if_def probe_headers_def split: option.splits)

lemma client_request_sent:
  assumes "client_request ae c method path token body content_type key s = (r, s1)"
  shows "if fixed_path path then \<exists>q out. as_log s1 = as_log s @ [(q, out)] \<and> sent_as c method path token q \<and> r = response_of out \<and>
      (\<exists>w. out = fst (ae_send ae (ac_timeout c) q w))
    else s1 = s \<and> (\<exists>e. r = Inl (AccValueError e))"
proof (cases "fixed_path path")
  case True
  define q where "q = client_message c method path token body content_type key (ae_token_hex ae 16 (as_drawn s))"
  obtain out w where out: "ae_send ae (ac_timeout c) q (as_world s) = (out, w)" by fastforce
  with True assms have "as_log s1 = as_log s @ [(q, out)]" "r = response_of out"
    by (auto simp: client_request_def fixed_path_def acc_bind_def token_hex_def acc_send_def q_def)
  with True out show ?thesis
    using client_message_sent unfolding q_def by (metis fst_conv)
next
  case False
  with assms show ?thesis by (auto simp: client_request_def fixed_path_def acc_lift_def split: if_splits)
qed

lemma logs_request:
  assumes "\<And>q w. sent_as c method path token q \<Longrightarrow> P (q, fst (ae_send ae (ac_timeout c) q w))"
  shows "logs P (client_request ae c method path token body content_type key)"
proof (rule logsI)
  fix s r s1 assume "client_request ae c method path token body content_type key s = (r, s1)"
  from client_request_sent [OF this] assms show "\<exists>l. as_log s1 = as_log s @ l \<and> list_all P l"
    by (auto split: if_splits)
qed

lemma fixed_paths [simp]:
  "fixed_path ''/health''" "fixed_path ''/ready''" "fixed_path ''/api/v1/dashboard''" "fixed_path ''/api/v1/attachments''" "fixed_path ''/api/v1/runs''"
  by (simp_all add: fixed_path_def startswith_def)

lemma safe_resource_path [simp]:
  assumes "safe_resource_id i"
  shows "fixed_path (attachment_path i)" "fixed_path (attachment_path i @ ''/content'')" "fixed_path (run_path i)"
proof -
  have "CHR ''?'' \<notin> set i \<and> CHR ''#'' \<notin> set i"
    using assms by (auto simp: safe_resource_id_def list_all_iff is_alnum_def is_digit_def is_lower_def is_upper_def code_def)
  then show "fixed_path (attachment_path i)" "fixed_path (attachment_path i @ ''/content'')" "fixed_path (run_path i)"
    by (simp_all add: fixed_path_def attachment_path_def run_path_def startswith_def)
qed


lemmas probe_steps = acc_get_def acc_get_status_def acc_dashboard_def acc_list_ids_def acc_run_order_def acc_probe_def acc_run_scope_def
  owner_checks_def foreign_checks_def Let_def

lemma logs_get [logs_intros]:
  "(\<And>q w. sent_as c ''GET'' path token q \<Longrightarrow> P (q, fst (ae_send ae (ac_timeout c) q w))) \<Longrightarrow> logs P (acc_get ae c path token)"
  unfolding acc_get_def by (rule logs_request)

definition upload_of :: "acc_client \<Rightarrow> acc_request \<Rightarrow> bool" where
  "upload_of c q \<longleftrightarrow> aq_method q = ''POST'' \<and> aq_url q = ac_base_url c @ ''/api/v1/attachments''"

abbreviation no_upload :: "acc_client \<Rightarrow> acc_request \<times> open_outcome \<Rightarrow> bool" where
  "no_upload c \<equiv> \<lambda>(q, out). \<not> upload_of c q"

lemma get_no_upload [logs_intros]: "logs (no_upload c) (acc_get ae c path token)"
  by (rule logs_get) (simp add: sent_as_def upload_of_def)

lemma status_no_upload [logs_intros]: "logs (no_upload c) (acc_get_status ae c p path status label)"
  by (simp add: acc_get_status_def logs_intros)

lemma steps_no_upload:
  "logs (no_upload c) (acc_probe ae c path label expected)"
  "logs (no_upload c) (acc_dashboard ae c p)"
  "logs (no_upload c) (acc_list_ids ae c p)"
  by (simp_all add: acc_probe_def acc_dashboard_def acc_list_ids_def Let_def logs_intros)

lemma run_order_no_upload: "logs (no_upload c) (acc_run_order ae c p order_id)"
  unfolding acc_run_order_def by (intro logs_intros logs_request) (simp add: sent_as_def upload_of_def)

lemma run_scope_no_upload: "logs (no_upload c) (acc_run_scope ae c pa pb order_id)"
  unfolding acc_run_scope_def by (intro logs_intros run_order_no_upload) (auto intro: status_no_upload)

lemma isolation_no_upload: "logs (no_upload c) (isolation_checks ae c pa pb a b)"
  unfolding isolation_checks_def
  by (intro logs_intros steps_no_upload) (auto simp: owner_checks_def foreign_checks_def intro: status_no_upload)

section \<open>Clean-up\<close>

text \<open>The identifier that the answer to an upload names, if it is one that the probe accepts.\<close>

definition accepted_id :: "'w acc_env \<Rightarrow> open_outcome \<Rightarrow> string \<Rightarrow> bool" where
  "accepted_id ae out i \<longleftrightarrow> rbind (response_of out) (uploaded_id ae []) = Inr i"

lemma acc_checked_label: "acc_checked ae response status label = Inr d \<longleftrightarrow> acc_checked ae response status [] = Inr d"
  by (cases "ae_loads ae (resp_body response)") (simp_all add: acc_checked_def acc_expect_def acc_json_def rbind_def split: pyval.splits)

lemma uploaded_id_label: "uploaded_id ae label response = Inr i \<longleftrightarrow> uploaded_id ae [] response = Inr i"
proof -
  have "uploaded_id ae l response = Inr i \<longleftrightarrow> (\<exists>d. acc_checked ae response 201 l = Inr d \<and> dget d ''id'' = VStr i \<and> safe_resource_id i)" for l
    by (cases "acc_checked ae response 201 l") (auto simp: uploaded_id_def rbind_def split: pyval.splits)
  then show ?thesis by (simp add: acc_checked_label [of _ _ _ label])
qed

lemma uploaded_id_safe: "uploaded_id ae label response = Inr i \<Longrightarrow> safe_resource_id i"
  by (auto simp: uploaded_id_def rbind_def split: sum.splits pyval.splits if_splits)

lemma upload_sent:
  assumes "acc_upload ae c p s = (r, s1)"
  shows "\<exists>q out. as_log s1 = as_log s @ [(q, out)] \<and> upload_of c q \<and> authorization q = Some (bearer p) \<and> (\<forall>i. r = Inr i \<longleftrightarrow> accepted_id ae out i)"
proof -
  obtain body ct s0 r1 where m: "multipart_image ae s = (Inr (body, ct), s0)" and log: "as_log s0 = as_log s"
    and req: "client_request ae c ''POST'' ''/api/v1/attachments'' (Some (pr_token p)) (Some body) (Some ct) None s0 = (r1, s1)"
    and r: "r = rbind r1 (uploaded_id ae (''attachment.upload.'' @ pr_name p))"
    using assms by (auto simp: acc_upload_def acc_bind_def multipart_image_def token_hex_def acc_lift_def Let_def rbind_def split: prod.splits sum.splits)
  from client_request_sent [OF req] obtain q out where q: "as_log s1 = as_log s0 @ [(q, out)]" "sent_as c ''POST'' ''/api/v1/attachments'' (Some (pr_token p)) q"
    and r1: "r1 = response_of out" by auto
  have "r = Inr i \<longleftrightarrow> accepted_id ae out i" for i
    unfolding r r1 accepted_id_def rbind_def by (cases "response_of out") (simp, simp, rule uploaded_id_label)
  with q log show ?thesis
    by (intro exI [of _ q] exI [of _ out]) (simp add: sent_as_def upload_of_def bearer_def)
qed

definition deletion :: "acc_client \<Rightarrow> principal \<Rightarrow> string \<Rightarrow> acc_request \<Rightarrow> bool" where
  "deletion c p i q \<longleftrightarrow> aq_method q = ''DELETE'' \<and> aq_url q = ac_base_url c @ attachment_path i \<and> authorization q = Some (bearer p)"

fun escapes :: "open_outcome \<Rightarrow> bool" where
  "escapes (Escaping _ _) = True"
| "escapes _ = False"

lemma response_of_escapes: "response_of out = Inl e \<Longrightarrow> \<not> escapes out \<Longrightarrow> \<exists>m. e = AcceptanceError m"
  by (cases out) (auto simp: response_of_def split: if_splits)

lemma cleanup_deletes:
  assumes "acc_cleanup ae c todo n s = (r, s1)" and "\<forall>p i. (p, Some i) \<in> set todo \<longrightarrow> safe_resource_id i"
  shows "\<exists>l. as_log s1 = as_log s @ l \<and> (\<forall>(q, out)\<in>set l. aq_method q = ''DELETE'') \<and>
    ((\<forall>(q, out)\<in>set l. \<not> escapes out) \<longrightarrow> (\<forall>p i. (p, Some i) \<in> set todo \<longrightarrow> (\<exists>(q, out)\<in>set l. deletion c p i q)))"
  using assms
proof (induction ae c todo n s rule: acc_cleanup.induct)
  case (3 ae c p i todo n s)
  obtain r0 s0 where req: "client_request ae c ''DELETE'' (attachment_path i) (Some (pr_token p)) None None None s = (r0, s0)" by fastforce
  have "fixed_path (attachment_path i)" using 3(4) by simp
  with client_request_sent [OF req] obtain q out where q: "as_log s0 = as_log s @ [(q, out)]" "sent_as c ''DELETE'' (attachment_path i) (Some (pr_token p)) q"
    and r0: "r0 = response_of out" by auto
  have del: "deletion c p i q" using q(2) by (simp add: deletion_def sent_as_def bearer_def)
  have rest: ?case if "\<exists>l. as_log s1 = as_log s0 @ l \<and> (\<forall>(q, out)\<in>set l. aq_method q = ''DELETE'') \<and>
    ((\<forall>(q, out)\<in>set l. \<not> escapes out) \<longrightarrow> (\<forall>p i. (p, Some i) \<in> set todo \<longrightarrow> (\<exists>(q, out)\<in>set l. deletion c p i q)))"
  proof -
    from that obtain l where "as_log s1 = as_log s0 @ l" "\<forall>(q, out)\<in>set l. aq_method q = ''DELETE''"
      "(\<forall>(q, out)\<in>set l. \<not> escapes out) \<longrightarrow> (\<forall>p i. (p, Some i) \<in> set todo \<longrightarrow> (\<exists>(q, out)\<in>set l. deletion c p i q))" by blast
    with q del show ?thesis by (intro exI [of _ "(q, out) # l"]) (auto simp: sent_as_def)
  qed
  show ?case
  proof (cases r0)
    case (Inr response)
    from 3(2) [OF req [symmetric] Inr] 3(3,4) req Inr show ?thesis by (intro rest) auto
  next
    case (Inl e)
    show ?thesis
    proof (cases "escapes out")
      case True
      then have "\<exists>e. r0 = Inl e \<and> (\<forall>m. e \<noteq> AcceptanceError m)"
        unfolding r0 by (cases out) (auto simp: response_of_def escaped_def)
      with 3(3) req have "s1 = s0" by (auto split: acceptance_error.splits)
      with q True show ?thesis by (intro exI [of _ "[(q, out)]"]) (auto simp: sent_as_def)
    next
      case False
      then obtain m where "e = AcceptanceError m" using response_of_escapes Inl r0 by metis
      with 3(1) [OF req [symmetric]] 3(3,4) req Inl show ?thesis by (intro rest) auto
    qed
  qed
qed auto


lemma accepted_id_safe: "accepted_id ae out i \<Longrightarrow> safe_resource_id i"
  by (auto simp: accepted_id_def rbind_def dest: uploaded_id_safe split: sum.splits)

lemma accepted_id_unique: "accepted_id ae out i \<Longrightarrow> accepted_id ae out j \<Longrightarrow> i = j"
  by (simp add: accepted_id_def)

lemma attachments_uploads:
  assumes "acc_attachments ae c pa pb s = (r, a, b, s1)"
  shows "\<exists>l. as_log s1 = as_log s @ l \<and> (\<forall>(q, out)\<in>set l. upload_of c q \<longrightarrow> (\<forall>i. accepted_id ae out i \<longrightarrow>
      (authorization q = Some (bearer pa) \<and> a = Some i) \<or> (authorization q = Some (bearer pb) \<and> b = Some i)))
    \<and> (\<forall>i. a = Some i \<or> b = Some i \<longrightarrow> safe_resource_id i)"
proof -
  obtain ra sa where A: "acc_upload ae c pa s = (ra, sa)" by fastforce
  from upload_sent [OF A] obtain qa oa where qa: "as_log sa = as_log s @ [(qa, oa)]" "authorization qa = Some (bearer pa)" and ra: "\<And>i. ra = Inr i \<longleftrightarrow> accepted_id ae oa i"
    by blast
  show ?thesis
  proof (cases ra)
    case (Inl e)
    with assms A qa ra show ?thesis by (auto simp: acc_attachments_def)
  next
    case (Inr ia)
    then have ia: "accepted_id ae oa ia" using ra by simp
    obtain rb sb where B: "acc_upload ae c pb sa = (rb, sb)" by fastforce
    from upload_sent [OF B] obtain qb ob where qb: "as_log sb = as_log sa @ [(qb, ob)]" "authorization qb = Some (bearer pb)" and rb: "\<And>i. rb = Inr i \<longleftrightarrow> accepted_id ae ob i"
      by blast
    show ?thesis
    proof (cases rb)
      case (Inl e)
      with assms A B Inr qa qb ia rb show ?thesis
        by (intro exI [of _ "[(qa, oa), (qb, ob)]"]) (auto simp: acc_attachments_def dest: accepted_id_unique accepted_id_safe)
    next
      case B_id: (Inr ib)
      then have ib: "accepted_id ae ob ib" using rb by simp
      obtain ri si where I: "isolation_checks ae c pa pb ia ib sb = (ri, si)" by fastforce
      from logsD [OF isolation_no_upload I] obtain l where l: "as_log si = as_log sb @ l" "list_all (no_upload c) l" by blast
      with assms A B Inr B_id I qa qb ia ib show ?thesis
        by (intro exI [of _ "(qa, oa) # (qb, ob) # l"]) (auto simp: acc_attachments_def list_all_iff dest: accepted_id_unique accepted_id_safe)
    qed
  qed
qed

lemma isolated_cleans:
  assumes "acc_isolated ae c pa pb s = (r, s1)"
  shows "\<exists>l ld. as_log s1 = as_log s @ l @ ld \<and> (\<forall>(q, out)\<in>set ld. aq_method q = ''DELETE'') \<and>
    ((\<forall>(q, out)\<in>set ld. \<not> escapes out) \<longrightarrow> (\<forall>(q, out)\<in>set l. upload_of c q \<longrightarrow> (\<forall>i. accepted_id ae out i \<longrightarrow>
       (\<exists>p\<in>{pa, pb}. authorization q = Some (bearer p) \<and> (\<exists>(q', out')\<in>set ld. deletion c p i q')))))"
proof -
  obtain ra a b sa where A: "acc_attachments ae c pa pb s = (ra, a, b, sa)" by (metis prod_cases4)
  obtain rc sc where C: "acc_cleanup ae c [(pa, a), (pb, b)] 0 sa = (rc, sc)" by fastforce
  have s1: "s1 = sc" using assms A C by (auto simp: acc_isolated_def split: sum.splits)
  from attachments_uploads [OF A] obtain l where l: "as_log sa = as_log s @ l"
    and up: "\<forall>(q, out)\<in>set l. upload_of c q \<longrightarrow> (\<forall>i. accepted_id ae out i \<longrightarrow>
      (authorization q = Some (bearer pa) \<and> a = Some i) \<or> (authorization q = Some (bearer pb) \<and> b = Some i))"
    and safe: "\<forall>i. a = Some i \<or> b = Some i \<longrightarrow> safe_resource_id i" by blast
  have "\<forall>p i. (p, Some i) \<in> set [(pa, a), (pb, b)] \<longrightarrow> safe_resource_id i" using safe by auto
  from cleanup_deletes [OF C this] obtain ld where ld: "as_log sc = as_log sa @ ld" "\<forall>(q, out)\<in>set ld. aq_method q = ''DELETE''"
    and del: "(\<forall>(q, out)\<in>set ld. \<not> escapes out) \<longrightarrow> (\<forall>p i. (p, Some i) \<in> set [(pa, a), (pb, b)] \<longrightarrow> (\<exists>(q, out)\<in>set ld. deletion c p i q))" by blast
  have "\<exists>p\<in>{pa, pb}. authorization q = Some (bearer p) \<and> (\<exists>(q', out')\<in>set ld. deletion c p i q')"
    if "\<forall>(q, out)\<in>set ld. \<not> escapes out" "(q, out) \<in> set l" "upload_of c q" "accepted_id ae out i" for q out i
  proof -
    have "(authorization q = Some (bearer pa) \<and> a = Some i) \<or> (authorization q = Some (bearer pb) \<and> b = Some i)"
      using up that(2-4) by blast
    moreover have "\<And>p. (p, Some i) \<in> set [(pa, a), (pb, b)] \<Longrightarrow> \<exists>(q, out)\<in>set ld. deletion c p i q" using del that(1) by blast
    ultimately show ?thesis by (metis insertI1 insertI2 list.set_intros)
  qed
  with l ld s1 show ?thesis
    by (intro exI [of _ l] exI [of _ ld] conjI) (simp, blast, blast)
qed

text \<open>The steps before the uploads.\<close>

lemma acc_seq_append: "acc_seq (xs @ ys) s = (case acc_seq xs s of (Inl e, s1) \<Rightarrow> (Inl e, s1) | (Inr _, s1) \<Rightarrow> acc_seq ys s1)"
  by (induction xs arbitrary: s) (auto split: prod.splits sum.splits)

definition acc_before :: "'w acc_env \<Rightarrow> acc_client \<Rightarrow> principal \<Rightarrow> principal \<Rightarrow> string \<Rightarrow> ('w, unit) acc" where
  "acc_before ae c pa pb order_id = acc_seq [acc_probe ae c ''/health'' ''api.health'' ''ok'', acc_probe ae c ''/ready'' ''api.ready'' ''ready'',
     acc_dashboard ae c pa, acc_dashboard ae c pb, acc_run_scope ae c pa pb order_id]"

lemma before_no_upload: "logs (no_upload c) (acc_before ae c pa pb order_id)"
  unfolding acc_before_def by (rule logs_seq) (auto intro: steps_no_upload run_scope_no_upload)

lemma run_acceptance_phases:
  "run_acceptance ae c pa pb order_id s =
     (case acc_before ae c pa pb order_id s of
        (Inl e, s1) \<Rightarrow> (Inl e, s1)
      | (Inr _, s1) \<Rightarrow> (case acc_isolated ae c pa pb s1 of (Inl e, s2) \<Rightarrow> (Inl e, s2) | (Inr _, s2) \<Rightarrow> (Inr acceptance_report, s2)))"
  unfolding run_acceptance_def acc_before_def acc_bind_def acc_lift_def
  using acc_seq_append [of "[acc_probe ae c ''/health'' ''api.health'' ''ok'', acc_probe ae c ''/ready'' ''api.ready'' ''ready'',
     acc_dashboard ae c pa, acc_dashboard ae c pb, acc_run_scope ae c pa pb order_id]" "[acc_isolated ae c pa pb]" s]
  by (simp del: acc_seq.simps add: acc_seq.simps(1) acc_seq.simps(2) [of "acc_isolated ae c pa pb"] split: prod.splits sum.splits)



text \<open>A step of the probe that fails or succeeds, whatever the state: how a request and the checks of its response combine.\<close>

lemma fst_bind_lift: "fst (acc_bind act (\<lambda>x. acc_lift (f x)) s) = rbind (fst (act s)) f"
  by (auto simp: acc_bind_def acc_lift_def rbind_def split: prod.splits sum.splits)

lemma seq_succeeds: "(\<And>act s. act \<in> set acts \<Longrightarrow> fst (act s) = Inr ()) \<Longrightarrow> fst (acc_seq acts s) = Inr ()"
proof (induction acts arbitrary: s)
  case (Cons act acts)
  then have "fst (act s) = Inr ()" by simp
  then obtain s1 where "act s = (Inr (), s1)" by (metis prod.collapse)
  with Cons show ?case by simp
qed simp

text \<open>
  A property of log entries that holds of every request to the API under the token of one of the principals \<open>ps\<close> or under none, with the
  answer that the API gives, holds of the whole log.
\<close>

locale probe_log =
  fixes ae :: "'w acc_env" and c :: acc_client and ps :: "principal set" and P :: "acc_request \<times> open_outcome \<Rightarrow> bool"
  assumes entry: "token \<in> insert None (Some ` pr_token ` ps) \<Longrightarrow> sent_as c method path token q \<Longrightarrow> P (q, fst (ae_send ae (ac_timeout c) q w))"
begin

lemma request_logs: "token \<in> insert None (Some ` pr_token ` ps) \<Longrightarrow> logs P (client_request ae c method path token body content_type key)"
  by (rule logs_request) (rule entry)

lemma step_logs:
  assumes "p \<in> ps"
  shows "logs P (acc_get_status ae c p path status label)" "logs P (acc_upload ae c p)" "logs P (acc_list_ids ae c p)"
    "logs P (acc_dashboard ae c p)" "logs P (acc_run_order ae c p order_id)"
  unfolding acc_get_status_def acc_get_def acc_upload_def acc_list_ids_def acc_dashboard_def acc_run_order_def multipart_image_def Let_def
  using assms by (auto intro!: logs_intros request_logs split: prod.splits)

lemma probe_logs: "logs P (acc_probe ae c path label expected)"
  unfolding acc_probe_def acc_get_def by (intro logs_intros request_logs) simp

lemma before_logs: "{pa, pb} \<subseteq> ps \<Longrightarrow> logs P (acc_before ae c pa pb order_id)"
  unfolding acc_before_def acc_run_scope_def by (auto intro!: logs_intros step_logs probe_logs)

lemma isolation_checks_logs: "{pa, pb} \<subseteq> ps \<Longrightarrow> logs P (isolation_checks ae c pa pb a b)"
  unfolding isolation_checks_def by (intro logs_intros step_logs) (auto simp: owner_checks_def foreign_checks_def intro!: step_logs)


lemma cleanup_logs:
  assumes "fst ` set todo \<subseteq> ps"
  shows "logs P (acc_cleanup ae c todo n)"
  using assms
proof (induction todo arbitrary: n)
  case Nil
  show ?case by (auto simp: logs_def)
next
  case (Cons x todo)
  obtain p i where x: "x = (p, i)" by fastforce
  have IH: "logs P (acc_cleanup ae c todo m)" for m using Cons by simp
  show ?case
  proof (cases i)
    case None
    with Cons.IH [of n] Cons.prems x show ?thesis by (simp add: logs_def)
  next
    case (Some j)
    show ?thesis
    proof (rule logsI)
      fix s r s1 assume run: "acc_cleanup ae c (x # todo) n s = (r, s1)"
      obtain r0 s0 where req: "client_request ae c ''DELETE'' (attachment_path j) (Some (pr_token p)) None None None s = (r0, s0)" by fastforce
      obtain l where l: "as_log s0 = as_log s @ l" "list_all P l" 
        using logsD [OF request_logs req] Cons.prems x by auto
      have "s1 = s0 \<or> (\<exists>m. acc_cleanup ae c todo m s0 = (r, s1))"
        using run by (cases r0) (auto simp: x Some req split: acceptance_error.splits)
      then show "\<exists>l. as_log s1 = as_log s @ l \<and> list_all P l"
        using logsD [OF IH] l by (metis append_assoc list_all_append)
    qed
  qed
qed

lemma attachments_extend:
  assumes ps: "{pa, pb} \<subseteq> ps" and "acc_attachments ae c pa pb s = (r, a, b, s1)"
  shows "\<exists>l. as_log s1 = as_log (snd (acc_upload ae c pa s)) @ l \<and> list_all P l"
proof -
  obtain ra sa where A: "acc_upload ae c pa s = (ra, sa)" by fastforce
  obtain rb sb where B: "acc_upload ae c pb sa = (rb, sb)" by fastforce
  from logsD [OF step_logs(2) B] ps obtain lb where lb: "as_log sb = as_log sa @ lb" "list_all P lb" by auto
  show ?thesis
  proof (cases "\<exists>i j. ra = Inr i \<and> rb = Inr j")
    case True
    then obtain i j where ij: "ra = Inr i" "rb = Inr j" by blast
    obtain ri si where I: "isolation_checks ae c pa pb i j sb = (ri, si)" by fastforce
    from logsD [OF isolation_checks_logs [OF ps] I] obtain li where "as_log si = as_log sb @ li" "list_all P li" by blast
    with assms(2) A B I ij lb show ?thesis by (simp add: acc_attachments_def)
  next
    case False
    with assms(2) A B lb show ?thesis by (cases ra; cases rb) (auto simp: acc_attachments_def)
  qed
qed

lemma isolated_extend:
  assumes ps: "{pa, pb} \<subseteq> ps" and "acc_isolated ae c pa pb s = (r, s1)"
  shows "\<exists>l. as_log s1 = as_log (snd (acc_upload ae c pa s)) @ l \<and> list_all P l"
proof -
  obtain ra a b sa where A: "acc_attachments ae c pa pb s = (ra, a, b, sa)" by (metis prod_cases4)
  obtain rc sc where C: "acc_cleanup ae c [(pa, a), (pb, b)] 0 sa = (rc, sc)" by fastforce
  have s1: "s1 = sc" using assms(2) A C by (auto simp: acc_isolated_def split: sum.splits)
  have "\<exists>l. as_log sc = as_log sa @ l \<and> list_all P l" by (rule logsD [OF cleanup_logs C]) (use ps in simp)
  moreover have "\<exists>l. as_log sa = as_log (snd (acc_upload ae c pa s)) @ l \<and> list_all P l" by (rule attachments_extend [OF ps A])
  ultimately obtain l m where "as_log sc = as_log sa @ l" "list_all P l" "as_log sa = as_log (snd (acc_upload ae c pa s)) @ m" "list_all P m"
    by blast
  then show ?thesis unfolding s1 by (intro exI [of _ "m @ l"]) simp
qed

lemma isolated_logs:
  assumes ps: "{pa, pb} \<subseteq> ps"
  shows "logs P (acc_isolated ae c pa pb)"
proof (rule logsI)
  fix s r s1 assume run: "acc_isolated ae c pa pb s = (r, s1)"
  obtain ru su where U: "acc_upload ae c pa s = (ru, su)" by fastforce
  have "\<exists>l. as_log s1 = as_log su @ l \<and> list_all P l" using isolated_extend [OF ps run] by (simp add: U)
  moreover have "\<exists>l. as_log su = as_log s @ l \<and> list_all P l" by (rule logsD [OF step_logs(2) U]) (use ps in simp)
  ultimately obtain l m where "as_log s1 = as_log su @ l" "list_all P l" "as_log su = as_log s @ m" "list_all P m" by blast
  then show "\<exists>l. as_log s1 = as_log s @ l \<and> list_all P l" by (intro exI [of _ "m @ l"]) simp
qed

lemma acceptance_logs:
  assumes ps: "{pa, pb} \<subseteq> ps"
  shows "logs P (run_acceptance ae c pa pb order_id)"
proof -
  have "run_acceptance ae c pa pb order_id = acc_bind (acc_before ae c pa pb order_id) (\<lambda>_. acc_bind (acc_isolated ae c pa pb) (\<lambda>_. acc_lift (Inr acceptance_report)))"
    by (rule ext) (simp add: run_acceptance_phases acc_bind_def acc_lift_def split: prod.splits sum.splits)
  then show ?thesis by (simp add: logs_bind logs_lift before_logs [OF ps] isolated_logs [OF ps])
qed

end

text \<open>The requests of the probe go to the validated base URL, under one of the two tokens or none, and carry no identity header.\<close>

definition confined :: "acc_client \<Rightarrow> principal set \<Rightarrow> acc_request \<times> open_outcome \<Rightarrow> bool" where
  "confined c ps entry = (case entry of (q, out) \<Rightarrow> startswith (aq_url q) (ac_base_url c) \<and> authorization q \<in> insert None (Some ` bearer ` ps)
     \<and> set (map fst (aq_headers q)) \<subseteq> set probe_headers)"

interpretation extended: probe_log ae c ps "\<lambda>_. True"
  by unfold_locales simp

interpretation confined: probe_log ae c ps "confined c ps"
  by unfold_locales (auto simp: confined_def sent_as_def startswith_def bearer_def)

lemma acceptance_requests_confined:
  assumes "run_acceptance ae c pa pb order_id s = (r, s1)" and "as_log s = []" and "entry \<in> set (as_log s1)"
  shows "confined c {pa, pb} entry"
  using logsD [OF confined.acceptance_logs assms(1)] assms(2,3) by (auto simp: list_all_iff)

lemma accepted_upload_logged:
  assumes "acc_before ae c pa pb order_id s = (Inr u, s0)" and "acc_upload ae c pa s0 = (Inr i, su)"
    and "run_acceptance ae c pa pb order_id s = (r, s1)"
  shows "\<exists>q out. (q, out) \<in> set (as_log s1) \<and> upload_of c q \<and> authorization q = Some (bearer pa) \<and> accepted_id ae out i"
proof -
  obtain ri where "acc_isolated ae c pa pb s0 = (ri, s1)"
    using assms by (auto simp: run_acceptance_phases split: prod.splits sum.splits)
  from extended.isolated_extend [OF subset_refl this] assms(2) obtain l where "as_log s1 = as_log su @ l" by auto
  moreover obtain q out where "as_log su = as_log s0 @ [(q, out)]" "upload_of c q" "authorization q = Some (bearer pa)" "accepted_id ae out i"
    using upload_sent [OF assms(2)] by blast
  ultimately show ?thesis by (metis Un_iff list.set_intros(1) set_append)
qed


text \<open>A small API with two principals; the texts of its answers stand for their JSON values.\<close>

definition principal_a :: principal where
  "principal_a = \<lparr>pr_name = ''principal-a'', pr_token = ''ta'', pr_workspace_id = ''w1'', pr_tenant_id = ''t1''\<rparr>"

definition principal_b :: principal where
  "principal_b = \<lparr>pr_name = ''principal-b'', pr_token = ''tb'', pr_workspace_id = ''w2'', pr_tenant_id = ''t2''\<rparr>"

definition demo_client :: acc_client where
  "demo_client = \<lparr>ac_base_url = ''https://api'', ac_timeout = Finite 10\<rparr>"

definition demo_loads :: "string \<Rightarrow> loads_outcome" where
  "demo_loads s =
     (if s = ''health'' then Loaded (VDict [(''status'', VStr ''ok'')])
      else if s = ''ready'' then Loaded (VDict [(''status'', VStr ''ready'')])
      else if s = ''scope-a'' then Loaded (VDict [(''workspace_id'', VStr ''w1''), (''tenant_id'', VStr ''t1'')])
      else if s = ''scope-b'' then Loaded (VDict [(''workspace_id'', VStr ''w2''), (''tenant_id'', VStr ''t2'')])
      else if s = ''run'' then Loaded (VDict [(''status'', VStr ''succeeded''), (''run_id'', VStr ''r'')])
      else if s = ''a'' then Loaded (VDict [(''id'', VStr ''a'')])
      else Undecodable)"

text \<open>The upload of the second principal is lost, so that the probe fails half way.\<close>

definition demo_answer :: "string option \<Rightarrow> string \<Rightarrow> string \<Rightarrow> open_outcome" where
  "demo_answer token method url =
     (let is_a = (token = Some ''Bearer ta'') in
      if url = ''https://api/health'' then Opened 200 ''health''
      else if url = ''https://api/ready'' then Opened 200 ''ready''
      else if url = ''https://api/api/v1/dashboard'' then Opened 200 (if is_a then ''scope-a'' else ''scope-b'')
      else if url = ''https://api/api/v1/runs'' then Opened 200 ''run''
      else if url = ''https://api/api/v1/runs/r'' then (if is_a then Opened 200 ''run'' else HttpError 404)
      else if url = ''https://api/api/v1/attachments'' then (if is_a then Opened 201 ''a'' else TransportError)
      else Opened 204 [])"

definition demo_acceptance :: "unit acc_env" where
  "demo_acceptance = \<lparr>ae_send = (\<lambda>_ q w. (demo_answer (authorization q) (aq_method q) (aq_url q), w)),
     ae_token_hex = (\<lambda>n k. ''0''), ae_loads = demo_loads, ae_float_repr = (\<lambda>_. ''0'')\<rparr>"

definition demo_start :: "unit acc_state" where
  "demo_start = \<lparr>as_world = (), as_drawn = 0, as_log = []\<rparr>"

definition demo_probe :: "(acceptance_error, pydict) result \<times> unit acc_state" where
  "demo_probe = run_acceptance demo_acceptance demo_client principal_a principal_b ''O-1'' demo_start"

lemma demo_send [simp]: "ae_send demo_acceptance t q w = (demo_answer (authorization q) (aq_method q) (aq_url q), w)"
  by (simp add: demo_acceptance_def)

lemma demo_request:
  assumes "fixed_path path"
  shows "fst (client_request demo_acceptance demo_client method path token body content_type key s)
    = response_of (demo_answer (map_option (\<lambda>t. ''Bearer '' @ t) token) method (''https://api'' @ path))"
proof -
  obtain r s1 where req: "client_request demo_acceptance demo_client method path token body content_type key s = (r, s1)" by fastforce
  from client_request_sent [OF req] assms show ?thesis by (auto simp: req sent_as_def, simp add: demo_client_def)
qed

text \<open>The size check, for evaluation with binary numbers.\<close>

lemma response_of_code [code]:
  "response_of outcome = (case outcome of
       Opened status payload \<Rightarrow>
         if int (length payload) > 1048576 then Inl (AcceptanceError ''API response exceeded the acceptance size limit'')
         else Inr \<lparr>resp_status = status, resp_body = payload\<rparr>
     | HttpError status \<Rightarrow> Inr \<lparr>resp_status = status, resp_body = []\<rparr>
     | TransportError \<Rightarrow> Inl (AcceptanceError ''API request failed'')
     | Escaping value_error e \<Rightarrow> Inl (escaped value_error e))"
  by (auto simp: response_of_def max_acceptance_bytes_def split: open_outcome.splits)

lemma demo_steps:
  "fst (acc_probe demo_acceptance demo_client ''/health'' ''api.health'' ''ok'' s) = Inr ()"
  "fst (acc_probe demo_acceptance demo_client ''/ready'' ''api.ready'' ''ready'' s) = Inr ()"
  "fst (acc_dashboard demo_acceptance demo_client principal_a s) = Inr ()"
  "fst (acc_dashboard demo_acceptance demo_client principal_b s) = Inr ()"
  unfolding acc_probe_def acc_dashboard_def acc_get_def Let_def fst_bind_lift demo_request [OF fixed_paths(1)] demo_request [OF fixed_paths(2)]
    demo_request [OF fixed_paths(3)]
  by code_simp+

lemma demo_fst_bind: "fst (acc_bind (token_hex ae n) k s) = fst (k (ae_token_hex ae n (as_drawn s)) (s\<lparr>as_drawn := as_drawn s + 1\<rparr>))"
  by (simp add: acc_bind_def token_hex_def)

lemma demo_run_order: "fst (acc_run_order demo_acceptance demo_client principal_a ''O-1'' s) = Inr ''r''"
  unfolding acc_run_order_def demo_fst_bind fst_bind_lift demo_request [OF fixed_paths(5)] by code_simp

lemma demo_status:
  "fst (acc_get_status demo_acceptance demo_client principal_a (run_path ''r'') 200 label s) = Inr ()"
  "fst (acc_get_status demo_acceptance demo_client principal_b (run_path ''r'') 404 label s) = Inr ()"
proof -
  have "fixed_path (run_path ''r'')" by code_simp
  note req = demo_request [OF this]
  show "fst (acc_get_status demo_acceptance demo_client principal_a (run_path ''r'') 200 label s) = Inr ()"
    "fst (acc_get_status demo_acceptance demo_client principal_b (run_path ''r'') 404 label s) = Inr ()"
    unfolding acc_get_status_def acc_get_def fst_bind_lift req by (code_simp, code_simp)
qed

lemma demo_before: "fst (acc_before demo_acceptance demo_client principal_a principal_b ''O-1'' s) = Inr ()"
proof -
  have "fst (acc_run_scope demo_acceptance demo_client principal_a principal_b ''O-1'' s) = Inr ()" for s
  proof -
    obtain s1 where "acc_run_order demo_acceptance demo_client principal_a ''O-1'' s = (Inr ''r'', s1)"
      using demo_run_order by (metis prod.collapse)
    then show ?thesis unfolding acc_run_scope_def acc_bind_def by (auto simp del: acc_seq.simps intro!: seq_succeeds simp: demo_status)
  qed
  then show ?thesis unfolding acc_before_def by (auto simp del: acc_seq.simps intro!: seq_succeeds simp: demo_steps)
qed

lemma demo_upload_accepted: "fst (acc_upload demo_acceptance demo_client principal_a s) = Inr ''a''"
proof -
  have "acc_upload demo_acceptance demo_client principal_a s = acc_bind (multipart_image demo_acceptance) (\<lambda>(body, content_type).
     acc_bind (client_request demo_acceptance demo_client ''POST'' ''/api/v1/attachments'' (Some (pr_token principal_a)) (Some body) (Some content_type) None) (\<lambda>response.
     acc_lift (uploaded_id demo_acceptance (''attachment.upload.'' @ pr_name principal_a) response))) s"
    by (simp add: acc_upload_def)
  moreover have "fst (acc_bind (multipart_image demo_acceptance) (\<lambda>(body, content_type). k body content_type) s) = Inr ''a''"
    if "\<And>body content_type s. fst (k body content_type s) = Inr ''a''" for k :: "string \<Rightarrow> string \<Rightarrow> (unit, string) acc"
    using that by (simp add: multipart_image_def acc_bind_def token_hex_def acc_lift_def Let_def)
  moreover have "rbind (response_of (demo_answer (map_option (\<lambda>t. ''Bearer '' @ t) (Some (pr_token principal_a))) ''POST'' (''https://api'' @ ''/api/v1/attachments'')))
      (uploaded_id demo_acceptance (''attachment.upload.'' @ pr_name principal_a)) = Inr ''a''" by code_simp
  ultimately show ?thesis by (simp only: fst_bind_lift demo_request [OF fixed_paths(4)])
qed

interpretation quiet: probe_log demo_acceptance c ps "\<lambda>(q, out). \<not> escapes out"
  by unfold_locales (simp add: demo_answer_def Let_def)



section \<open>What a passing report means\<close>

text \<open>A request of a principal that was answered with a status.\<close>

definition observed :: "acc_client \<Rightarrow> string \<Rightarrow> string \<Rightarrow> principal \<Rightarrow> int \<Rightarrow> (acc_request \<times> open_outcome) list \<Rightarrow> bool" where
  "observed c method path p status entries \<longleftrightarrow> (\<exists>q out response. (q, out) \<in> set entries \<and> aq_method q = method \<and> aq_url q = ac_base_url c @ path \<and>
     authorization q = Some (bearer p) \<and> response_of out = Inr response \<and> resp_status response = status)"

lemma observed_append: "observed c method path p status l \<Longrightarrow> observed c method path p status (l @ l')"
  by (fastforce simp: observed_def)

lemma request_observed:
  assumes "client_request ae c method path (Some (pr_token p)) body content_type key s = (Inr response, s1)"
  shows "observed c method path p (resp_status response) (as_log s1)"
proof -
  from client_request_sent [OF assms] obtain q out where "as_log s1 = as_log s @ [(q, out)]" "sent_as c method path (Some (pr_token p)) q" "Inr response = response_of out"
    by (auto split: if_splits)
  then show ?thesis unfolding observed_def sent_as_def bearer_def by (intro exI [of _ q] exI [of _ out] exI [of _ response]) simp
qed

lemma status_observed:
  assumes "acc_get_status ae c p path status label s = (Inr u, s1)"
  shows "observed c ''GET'' path p status (as_log s1)"
proof -
  obtain response where "client_request ae c ''GET'' path (Some (pr_token p)) None None None s = (Inr response, s1)" "resp_status response = status"
    using assms by (auto simp: acc_get_status_def acc_get_def acc_bind_def acc_lift_def acc_expect_def split: prod.splits sum.splits if_splits)
  with request_observed show ?thesis by metis
qed

lemma seq_observed:
  assumes "acc_seq acts s = (Inr u, s1)" and "\<And>act. act \<in> set acts \<Longrightarrow> logs (\<lambda>_. True) act"
    and "acc_get_status ae c p path status label \<in> set acts"
  shows "observed c ''GET'' path p status (as_log s1)"
  using assms
proof (induction acts arbitrary: s)
  case (Cons act acts)
  obtain s0 where act: "act s = (Inr (), s0)" and rest: "acc_seq acts s0 = (Inr u, s1)"
    using Cons.prems(1) by (auto split: prod.splits sum.splits)
  have "logs (\<lambda>_. True) (acc_seq acts)" using Cons.prems(2) by (intro logs_seq) simp
  from logsD [OF this rest] obtain l where l: "as_log s1 = as_log s0 @ l" by blast
  show ?case
  proof (cases "acc_get_status ae c p path status label = act")
    case True
    with act have "observed c ''GET'' path p status (as_log s0)" by (auto intro: status_observed)
    then show ?thesis unfolding l by (rule observed_append)
  next
    case False
    with Cons.IH [OF rest] Cons.prems(2,3) show ?thesis by simp
  qed
qed simp


lemma cleanup_counts: "acc_cleanup ae c todo n s = (Inr m, s1) \<Longrightarrow> n \<le> m"
proof (induction todo arbitrary: n s)
  case (Cons x todo)
  obtain p i where x: "x = (p, i)" by fastforce
  show ?case
  proof (cases i)
    case None
    with Cons x show ?thesis by simp
  next
    case (Some j)
    with Cons.prems obtain k s0 where "acc_cleanup ae c todo k s0 = (Inr m, s1)" "n \<le> k"
      by (auto simp: x split: prod.splits sum.splits acceptance_error.splits if_splits)
    with Cons.IH show ?thesis by (meson le_trans)
  qed
qed simp

lemma cleanup_observed:
  assumes "acc_cleanup ae c todo n s = (Inr 0, s1)" and "(p, Some i) \<in> set todo"
  shows "observed c ''DELETE'' (attachment_path i) p 204 (as_log s1) \<or> observed c ''DELETE'' (attachment_path i) p 404 (as_log s1)"
  using assms
proof (induction ae c todo n s rule: acc_cleanup.induct)
  case (3 ae c p' j todo n s)
  obtain r0 s0 where req: "client_request ae c ''DELETE'' (attachment_path j) (Some (pr_token p')) None None None s = (r0, s0)" by fastforce
  obtain response where r0: "r0 = Inr response"
    using 3(3) req by (cases r0) (auto split: acceptance_error.splits dest: cleanup_counts)
  have ok: "resp_status response \<in> {204, 404}" and rest: "acc_cleanup ae c todo n s0 = (Inr 0, s1)"
    using 3(3) req r0 by (auto split: if_splits dest: cleanup_counts)
  have "logs (\<lambda>_. True) (acc_cleanup ae c todo n)" by (rule extended.cleanup_logs) (rule subset_refl)
  from logsD [OF this rest] obtain l where l: "as_log s1 = as_log s0 @ l" by blast
  show ?case
  proof (cases "(p, Some i) = (p', Some j)")
    case True
    with request_observed [OF req [unfolded r0]] ok show ?thesis unfolding l by (auto intro: observed_append)
  next
    case False
    with 3(2) [OF req [symmetric] r0] ok rest 3(4) show ?thesis by auto
  qed
qed auto

lemma accepted_upload_safe: "acc_upload ae c p s = (Inr i, s1) \<Longrightarrow> safe_resource_id i"
  using upload_sent accepted_id_safe by metis

text \<open>
  A report that passes rests on what was observed: the run of the first principal was read by it and hidden from the second,
  each attachment and its content were read by their owner and hidden from the other principal, the two identifiers differ, and both
  attachments were deleted or already gone.
\<close>

lemma acceptance_pass_observed:
  assumes "run_acceptance ae c pa pb order_id s = (Inr report, s1)"
  shows "\<exists>run_id a b. a \<noteq> b \<and> observed c ''GET'' (run_path run_id) pa 200 (as_log s1) \<and> observed c ''GET'' (run_path run_id) pb 404 (as_log s1) \<and>
    (\<forall>(own, other, i)\<in>{(pa, pb, a), (pb, pa, b)}. \<forall>path\<in>{attachment_path i, attachment_path i @ ''/content''}.
       observed c ''GET'' path own 200 (as_log s1) \<and> observed c ''GET'' path other 404 (as_log s1)) \<and>
    (\<forall>(own, i)\<in>{(pa, a), (pb, b)}. observed c ''DELETE'' (attachment_path i) own 204 (as_log s1) \<or> observed c ''DELETE'' (attachment_path i) own 404 (as_log s1))"
proof -
  obtain s0 where B: "acc_before ae c pa pb order_id s = (Inr (), s0)" and I: "acc_isolated ae c pa pb s0 = (Inr (), s1)"
    using assms by (auto simp: run_acceptance_phases split: prod.splits sum.splits)
  obtain sr run_id sq where S: "acc_run_order ae c pa order_id sr = (Inr run_id, sq)"
    and checks: "acc_seq [acc_get_status ae c pa (run_path run_id) 200 ''run.scope.owner'', acc_get_status ae c pb (run_path run_id) 404 ''run.scope.cross_tenant''] sq = (Inr (), s0)"
    using B by (auto simp: acc_before_def acc_run_scope_def acc_bind_def split: prod.splits sum.splits)
  obtain a sa b sb si where A: "acc_upload ae c pa s0 = (Inr a, sa)" "acc_upload ae c pb sa = (Inr b, sb)"
    and iso: "isolation_checks ae c pa pb a b sb = (Inr (), si)" and C: "acc_cleanup ae c [(pa, Some a), (pb, Some b)] 0 si = (Inr 0, s1)"
    using I by (auto simp: acc_isolated_def acc_attachments_def split: prod.splits sum.splits if_splits)
  obtain st where "a \<noteq> b" and seq: "acc_seq (owner_checks ae c pa a @ owner_checks ae c pb b @ foreign_checks ae c pa b @ foreign_checks ae c pb a) st = (Inr (), si)"
    using iso by (auto simp: isolation_checks_def acc_bind_def acc_lift_def split: prod.splits sum.splits if_splits)
  obtain l1 where l1: "as_log s1 = as_log s0 @ l1" using logsD [OF extended.isolated_logs [OF subset_refl] I] by blast
  have "logs (\<lambda>_. True) (acc_cleanup ae c [(pa, Some a), (pb, Some b)] 0)" by (rule extended.cleanup_logs) (rule subset_refl)
  from logsD [OF this C] obtain l2 where l2: "as_log s1 = as_log si @ l2" by blast
  have status: "logs (\<lambda>_. True) (acc_get_status ae c p path n label)" for p path n label by (rule extended.step_logs) (rule singletonI)
  have run: "observed c ''GET'' (run_path run_id) pa 200 (as_log s1)" "observed c ''GET'' (run_path run_id) pb 404 (as_log s1)"
    unfolding l1 by (rule observed_append, rule seq_observed [OF checks], auto intro: status)+
  have att: "observed c ''GET'' path p n (as_log s1)"
    if "acc_get_status ae c p path n label \<in> set (owner_checks ae c pa a @ owner_checks ae c pb b @ foreign_checks ae c pa b @ foreign_checks ae c pb a)" for path p n label
    unfolding l2 by (rule observed_append, rule seq_observed [OF seq _ that]) (auto simp: owner_checks_def foreign_checks_def intro: status)
  have del: "observed c ''DELETE'' (attachment_path i) p 204 (as_log s1) \<or> observed c ''DELETE'' (attachment_path i) p 404 (as_log s1)"
    if "(p, Some i) \<in> set [(pa, Some a), (pb, Some b)]" for p i by (rule cleanup_observed [OF C that])
  have read: "observed c ''GET'' (attachment_path a) pa 200 (as_log s1)"
    "observed c ''GET'' (attachment_path a @ ''/content'') pa 200 (as_log s1)"
    "observed c ''GET'' (attachment_path a) pb 404 (as_log s1)"
    "observed c ''GET'' (attachment_path a @ ''/content'') pb 404 (as_log s1)"
    "observed c ''GET'' (attachment_path b) pb 200 (as_log s1)"
    "observed c ''GET'' (attachment_path b @ ''/content'') pb 200 (as_log s1)"
    "observed c ''GET'' (attachment_path b) pa 404 (as_log s1)"
    "observed c ''GET'' (attachment_path b @ ''/content'') pa 404 (as_log s1)"
    by ((rule att [of pa "attachment_path a" 200 "''attachment.owner.'' @ pr_name pa"], simp only: owner_checks_def foreign_checks_def set_append set_simps Un_iff insert_iff simp_thms),
      (rule att [of pa "attachment_path a @ ''/content''" 200 "''attachment.content.'' @ pr_name pa"], simp only: owner_checks_def foreign_checks_def set_append set_simps Un_iff insert_iff simp_thms),
      (rule att [of pb "attachment_path a" 404 "''attachment.cross_scope.'' @ pr_name pb"], simp only: owner_checks_def foreign_checks_def set_append set_simps Un_iff insert_iff simp_thms),
      (rule att [of pb "attachment_path a @ ''/content''" 404 "''attachment.cross_content.'' @ pr_name pb"], simp only: owner_checks_def foreign_checks_def set_append set_simps Un_iff insert_iff simp_thms),
      (rule att [of pb "attachment_path b" 200 "''attachment.owner.'' @ pr_name pb"], simp only: owner_checks_def foreign_checks_def set_append set_simps Un_iff insert_iff simp_thms),
      (rule att [of pb "attachment_path b @ ''/content''" 200 "''attachment.content.'' @ pr_name pb"], simp only: owner_checks_def foreign_checks_def set_append set_simps Un_iff insert_iff simp_thms),
      (rule att [of pa "attachment_path b" 404 "''attachment.cross_scope.'' @ pr_name pa"], simp only: owner_checks_def foreign_checks_def set_append set_simps Un_iff insert_iff simp_thms),
      (rule att [of pa "attachment_path b @ ''/content''" 404 "''attachment.cross_content.'' @ pr_name pa"], simp only: owner_checks_def foreign_checks_def set_append set_simps Un_iff insert_iff simp_thms))
  have "observed c ''DELETE'' (attachment_path a) pa 204 (as_log s1) \<or> observed c ''DELETE'' (attachment_path a) pa 404 (as_log s1)"
    "observed c ''DELETE'' (attachment_path b) pb 204 (as_log s1) \<or> observed c ''DELETE'' (attachment_path b) pb 404 (as_log s1)"
    by (rule del, simp)+
  with \<open>a \<noteq> b\<close> run read show ?thesis by (intro exI [of _ run_id] exI [of _ a] exI [of _ b]) (simp only: ball_simps prod.case simp_thms not_False_eq_True)
qed


section \<open>Attachments that the probe leaves behind\<close>

text \<open>
  A deletion that ends in an exception other than \<^verbatim>\<open>AcceptanceError\<close> (a response cut off in the middle raises \<^verbatim>\<open>IncompleteRead\<close>) ends the
  clean-up: no request to delete the second attachment is sent.
\<close>

lemma escaping_deletion_skips_second:
  assumes "client_request ae c ''DELETE'' (attachment_path a) (Some (pr_token pa)) None None None s = (r, s1)"
    and "safe_resource_id a" and "as_log s1 = as_log s @ [(q, Escaping False e)]"
  shows "acc_cleanup ae c [(pa, Some a), (pb, Some b)] 0 s = (Inl (AccUncaught e), s1)"
  using client_request_sent [OF assms(1)] assms by (auto simp: response_of_def escaped_def)

text \<open>
  An upload that the API accepted but whose answer was lost or is unreadable is not deleted either, whatever the API did: the probe ends
  with the upload as its last request.
\<close>

lemma lost_upload_not_deleted:
  assumes "acc_upload ae c pa s = (Inl e, s1)"
  shows "acc_isolated ae c pa pb s = (Inl e, s1)" "\<exists>q out. as_log s1 = as_log s @ [(q, out)] \<and> upload_of c q"
  using assms upload_sent [OF assms] by (auto simp: acc_isolated_def acc_attachments_def)

end
