(* ===== verification/Connector_Smoke.thy ===== *)
theory Connector_Smoke
  imports Api_Acceptance
begin

text \<open>
  The live check of the configured providers, \<^verbatim>\<open>scripts/connector_smoke.py\<close>: each check builds an adapter from the variables of the process and calls
  it once with a synthetic payload. The adapters are those of the other theories, over the same parameters for their transports. An exception
  is the name of its class, which is all that the script prints of it.
\<close>

section \<open>The environment of a check\<close>

text \<open>\<open>se_uuid\<close> gives the values of \<^verbatim>\<open>uuid4().hex\<close> in their order within one check, \<open>se_now\<close> the time in seconds and \<open>se_now_iso\<close> its ISO text.\<close>

record ('b, 'l) smoke_env =
  se_deploy :: deploy_env
  se_adapters :: "('b, 'l) adapters"
  se_boto3 :: bool
  se_uuid :: "nat \<Rightarrow> string"
  se_now :: rat
  se_now_iso :: string

abbreviation smoke_var :: "('b, 'l) smoke_env \<Rightarrow> string \<Rightarrow> string \<Rightarrow> string" where
  "smoke_var se \<equiv> var (se_deploy se)"

abbreviation smoke_ip6 :: "('b, 'l) smoke_env \<Rightarrow> ip6_parser" where
  "smoke_ip6 se \<equiv> ae_ip6 (de_auth (se_deploy se))"

fun config_class :: "config_error \<Rightarrow> string" where
  "config_class (ConfigRuntimeError _) = ''RuntimeError''"
| "config_class (ConfigValueError _) = ''ValueError''"
| "config_class (ConfigUncaught e) = e"

fun blob_class :: "blob_error \<Rightarrow> string" where
  "blob_class (BlobStorageError _) = ''BlobStorageError''"
| "blob_class (BlobUncaught e) = e"

fun vision_class :: "vision_error \<Rightarrow> string" where
  "vision_class (VisionAnalysisError _) = ''VisionAnalysisError''"
| "vision_class (VisionNotConfigured _) = ''VisionNotConfigured''"
| "vision_class (VisionConsentRequired _) = ''VisionConsentRequired''"

definition smoke_fails :: "bool \<Rightarrow> (string, unit) result" where
  "smoke_fails b = (if b then Inl ''RuntimeError'' else Inr ())"

definition value_error :: "(string, 'a) result \<Rightarrow> (string, 'a) result" where
  "value_error r = map_sum (\<lambda>_. ''ValueError'') id r"

definition smoke_require :: "('b, 'l) smoke_env \<Rightarrow> string \<Rightarrow> (string, string) result" where
  "smoke_require se name = (let value = strip (smoke_var se name []) in if value = [] then Inl ''RuntimeError'' else Inr value)"

definition smoke_float :: "('b, 'l) smoke_env \<Rightarrow> string \<Rightarrow> string \<Rightarrow> (string, pyfloat) result" where
  "smoke_float se name fallback = map_sum config_class id (to_float (smoke_var se name fallback))"

definition smoke_order_id :: "('b, 'l) smoke_env \<Rightarrow> (string, string) result" where
  "smoke_order_id se = (let order_id = strip (smoke_var se ''AGENT_ACCEPTANCE_ORDER_ID'' ''SMOKE-0001'')
     in if order_id = [] \<or> length order_id > 128 then Inl ''RuntimeError'' else Inr order_id)"

definition smoke_id :: "('b, 'l) smoke_env \<Rightarrow> nat \<Rightarrow> string" where
  "smoke_id se n = ''smoke-'' @ se_uuid se n"

section \<open>The checks\<close>

definition smoke_model :: "('b, 'l) smoke_env \<Rightarrow> (string, unit) result" where
  "smoke_model se =
     rbind (map_sum config_class id (build_model_provider (se_deploy se) (Some (smoke_var se ''AGENT_PLATFORM_ENV'' ''development'')))) (\<lambda>provider.
     case provider of
       None \<Rightarrow> Inl ''RuntimeError''
     | Some p \<Rightarrow>
         rbind (map_sum (\<lambda>_. ''ModelProviderError'') id
           (model_complete (ad_send (se_adapters se)) (ad_loads (se_adapters se)) (ad_float (se_adapters se)) p
             ''Return a short confirmation that the provider smoke test ran.''
             [(''order_id'', ''SMOKE-0001''), (''status'', ''test_only''), (''source_id'', ''smoke-fixture''), (''observed_at'', se_now_iso se)]
             (smoke_id se 0) (smoke_id se 1) (smoke_id se 2))) (\<lambda>result.
         smoke_fails (case mc_text result of None \<Rightarrow> True | Some t \<Rightarrow> blank t)))"

definition smoke_identity :: "('b, 'l) smoke_env \<Rightarrow> (string, identity_context) result" where
  "smoke_identity se =
     rbind (smoke_require se ''AGENT_WORKER_USER_ID'') (\<lambda>u.
     rbind (smoke_require se ''AGENT_WORKER_WORKSPACE_ID'') (\<lambda>w.
     rbind (smoke_require se ''AGENT_WORKER_TENANT_ID'') (\<lambda>t.
     rbind (smoke_require se ''AGENT_WORKER_ROLE'') (\<lambda>r.
     Inr \<lparr>user_id = u, workspace_id = w, tenant_id = t, role = r\<rparr>))))"

definition smoke_tool_call :: "('b, 'l) smoke_env \<Rightarrow> identity_context \<Rightarrow> string \<Rightarrow> tool_call_request" where
  "smoke_tool_call se identity order_id =
     \<lparr>tc_request_id = smoke_id se 0, tc_trace_id = smoke_id se 1, tc_run_id = smoke_id se 2, tc_identity = identity,
      tc_tool_name = ''erp.get_order_status'', tc_arguments = [(''order_id'', VStr order_id)], tc_idempotency_key = smoke_id se 3\<rparr>"

definition filled :: "string option \<Rightarrow> bool" where
  "filled x \<longleftrightarrow> x \<noteq> None \<and> x \<noteq> Some []"

definition smoke_mcp :: "('b, 'l) smoke_env \<Rightarrow> (string, unit) result" where
  "smoke_mcp se =
     rbind (smoke_require se ''AGENT_MCP_ENDPOINT'') (\<lambda>endpoint.
     rbind (smoke_float se ''AGENT_MCP_TIMEOUT_SECONDS'' ''10'') (\<lambda>timeout.
     rbind (value_error (mcp_http_init (smoke_ip6 se) endpoint build_erp_tool_definitions (split_on CHR '','' (smoke_var se ''AGENT_MCP_ALLOWED_HOSTS'' []))
       (getenv_or_none (de_environ (se_deploy se)) ''AGENT_MCP_BEARER_TOKEN'') timeout)) (\<lambda>gateway.
     rbind (smoke_identity se) (\<lambda>identity.
     rbind (smoke_order_id se) (\<lambda>order_id.
     let result = remote_call (ad_remote (se_adapters se)) (ad_remote_json (se_adapters se)) gateway (smoke_tool_call se identity order_id)
     in smoke_fails (\<not> tr_success result \<or> \<not> (filled (tr_source_id result) \<and> filled (tr_observed_at result) \<and> filled (tr_external_ref result))))))))"

definition smoke_image :: string where
  "smoke_image = fromhex (''89504e470d0a1a0a0000000d49484452000000010000000108060000001f15c489''
     @ ''0000000d49444154789c6360000000020001e221bc33000000000049454e44ae426082'')"

definition smoke_vision :: "('b, 'l) smoke_env \<Rightarrow> (string, unit) result" where
  "smoke_vision se =
     rbind (smoke_require se ''AGENT_VISION_ENDPOINT'') (\<lambda>endpoint.
     rbind (smoke_require se ''AGENT_VISION_API_KEY'') (\<lambda>api_key.
     rbind (smoke_require se ''AGENT_VISION_MODEL'') (\<lambda>model.
     rbind (smoke_float se ''AGENT_VISION_TIMEOUT_SECONDS'' ''30'') (\<lambda>timeout.
     rbind (value_error (openai_vision_init (smoke_ip6 se) endpoint api_key model (split_on CHR '','' (smoke_var se ''AGENT_VISION_ALLOWED_HOSTS'' [])) timeout)) (\<lambda>p.
     rbind (map_sum vision_class id (vision_provider_analyze (ad_send (se_adapters se)) (ad_loads (se_adapters se)) (ad_float (se_adapters se)) p
       smoke_image ''image/png'' ''describe'' ''Return a short smoke-test confirmation.'')) (\<lambda>answer.
     smoke_fails (blank answer)))))))"

fun scan_class :: "attachment_error \<Rightarrow> string" where
  "scan_class (AttachmentError _) = ''AttachmentError''"
| "scan_class (AttachmentNotFound _) = ''AttachmentNotFound''"
| "scan_class (MalwareDetected _) = ''MalwareDetected''"
| "scan_class (MalwareScanUnavailable _) = ''MalwareScanUnavailable''"
| "scan_class (AttachmentUncaught e) = e"

definition smoke_clamav :: "('b, 'l) smoke_env \<Rightarrow> (string, unit) result" where
  "smoke_clamav se =
     rbind (smoke_require se ''AGENT_CLAMAV_HOST'') (\<lambda>host.
     rbind (map_sum config_class id (to_int (smoke_var se ''AGENT_CLAMAV_PORT'' ''3310''))) (\<lambda>port.
     rbind (smoke_float se ''AGENT_CLAMAV_TIMEOUT_SECONDS'' ''10'') (\<lambda>timeout.
     rbind (value_error (clamav_init host port timeout)) (\<lambda>scanner.
     map_sum scan_class id (clamav_scan (ad_clamav (se_adapters se) scanner) ''enterprise-ai-copilot connector smoke; no customer data'' ''text/plain'')))))"

definition smoke_trace_record :: "('b, 'l) smoke_env \<Rightarrow> trace_record" where
  "smoke_trace_record se =
     \<lparr>tr_trace_id = smoke_id se 0, tr_span_id = smoke_id se 1, tr_name = ''connector.smoke'', tr_start = \<lfloor>se_now se * 1000000000\<rfloor>,
      tr_end = \<lfloor>se_now se * 1000000000\<rfloor> + 1, tr_parent_span_id = None, tr_attributes = [(''smoke'', VBool True), (''environment'', VStr ''operator'')]\<rparr>"

definition smoke_trace :: "('b, 'l) smoke_env \<Rightarrow> (string, unit) result" where
  "smoke_trace se =
     rbind (smoke_require se ''AGENT_TRACE_ENDPOINT'') (\<lambda>endpoint.
     rbind (smoke_float se ''AGENT_TRACE_TIMEOUT_SECONDS'' ''5'') (\<lambda>timeout.
     rbind (value_error (otlp_init (smoke_ip6 se) endpoint (split_on CHR '','' (smoke_var se ''AGENT_TRACE_ALLOWED_HOSTS'' []))
       (getenv_or_none (de_environ (se_deploy se)) ''AGENT_TRACE_BEARER_TOKEN'') timeout (64 * 1024))) (\<lambda>exporter.
     case trace_post_init (smoke_trace_record se) of
       Some e \<Rightarrow> Inl e
     | None \<Rightarrow> (case otlp_export (ad_otlp (se_adapters se)) (ad_sha (se_adapters se)) (ad_float (se_adapters se)) exporter (smoke_trace_record se) of
           None \<Rightarrow> Inr () | Some e \<Rightarrow> Inl e))))"

text \<open>The store of the object-storage check: an endpoint is validated like the others, no endpoint is the default one of the library.\<close>

definition smoke_s3_store :: "('b, 'l) smoke_env \<Rightarrow> (string, s3_store) result" where
  "smoke_s3_store se =
     (if \<not> se_boto3 se then Inl ''ModuleNotFoundError''
      else rbind (smoke_require se ''AGENT_S3_BUCKET'') (\<lambda>bucket.
        rbind (case getenv_or_none (de_environ (se_deploy se)) ''AGENT_S3_ENDPOINT'' of
            None \<Rightarrow> Inr None
          | Some endpoint \<Rightarrow> map_sum (\<lambda>_. ''ValueError'') Some
              (validated_https_endpoint (smoke_ip6 se) endpoint (split_on CHR '','' (smoke_var se ''AGENT_S3_ALLOWED_HOSTS'' [])) ''S3'' ''/'')) (\<lambda>endpoint.
        rbind (map_sum config_class id (de_s3_client (se_deploy se) endpoint (getenv_or_none (de_environ (se_deploy se)) ''AGENT_S3_REGION''))) (\<lambda>_.
        value_error (s3_init bucket (smoke_var se ''AGENT_S3_PREFIX'' ''attachments'') (getenv_or_none (de_environ (se_deploy se)) ''AGENT_S3_KMS_KEY_ID''))))))"

definition smoke_key :: "('b, 'l) smoke_env \<Rightarrow> string" where
  "smoke_key se = ''connector-smoke/'' @ se_uuid se 0 @ ''.txt''"

definition smoke_bytes :: string where
  "smoke_bytes = ''enterprise-ai-copilot connector smoke''"

text \<open>The read with its comparison, and the deletion in \<^verbatim>\<open>finally\<close>, whose exception replaces that of the body.\<close>

definition smoke_s3_compare :: "'b s3_client \<Rightarrow> s3_store \<Rightarrow> string \<Rightarrow> 'b \<Rightarrow> (string, unit) result" where
  "smoke_s3_compare c st key b = rbind (map_sum blob_class id (s3_blob_read c st key 1024 b)) (\<lambda>data. smoke_fails (data \<noteq> smoke_bytes))"

definition smoke_s3 :: "('b, 'l) smoke_env \<Rightarrow> 'b \<Rightarrow> (string, unit) result \<times> 'b" where
  "smoke_s3 se b =
     (case smoke_s3_store se of
        Inl e \<Rightarrow> (Inl e, b)
      | Inr st \<Rightarrow> (case s3_blob_put (ad_s3 (se_adapters se)) st (smoke_key se) smoke_bytes ''text/plain'' b of
          (Inl e, b1) \<Rightarrow> (Inl (blob_class e), b1)
        | (Inr _, b1) \<Rightarrow> (case s3_blob_delete (ad_s3 (se_adapters se)) st (smoke_key se) b1 of
            (Inl e, b2) \<Rightarrow> (Inl (blob_class e), b2)
          | (Inr _, b2) \<Rightarrow> (smoke_s3_compare (ad_s3 (se_adapters se)) st (smoke_key se) b1, b2))))"

section \<open>main\<close>

datatype connector = C_model | C_mcp | C_vision | C_clamav | C_trace | C_s3

fun connector_name :: "connector \<Rightarrow> string" where
  "connector_name C_model = ''model''"
| "connector_name C_mcp = ''mcp''"
| "connector_name C_vision = ''vision''"
| "connector_name C_clamav = ''clamav''"
| "connector_name C_trace = ''trace''"
| "connector_name C_s3 = ''s3''"

definition all_connectors :: "connector list" where
  "all_connectors = [C_model, C_mcp, C_vision, C_clamav, C_trace, C_s3]"

fun smoke_check :: "('b, 'l) smoke_env \<Rightarrow> connector \<Rightarrow> 'b \<Rightarrow> (string, unit) result \<times> 'b" where
  "smoke_check se C_model b = (smoke_model se, b)"
| "smoke_check se C_mcp b = (smoke_mcp se, b)"
| "smoke_check se C_vision b = (smoke_vision se, b)"
| "smoke_check se C_clamav b = (smoke_clamav se, b)"
| "smoke_check se C_trace b = (smoke_trace se, b)"
| "smoke_check se C_s3 b = smoke_s3 se b"

text \<open>The printed lines, the exit status and the state of the bucket; each check has an environment of its own, with its own clock and identifiers.\<close>

fun smoke_run :: "(connector \<Rightarrow> ('b, 'l) smoke_env) \<Rightarrow> connector list \<Rightarrow> 'b \<Rightarrow> string list \<times> int \<times> 'b" where
  "smoke_run env [] b = ([''connector-smoke: PASS''], 0, b)"
| "smoke_run env (x # xs) b =
     (case smoke_check (env x) x b of
        (Inl e, b1) \<Rightarrow> ([connector_name x @ '': FAIL ('' @ e @ '')''], 1, b1)
      | (Inr _, b1) \<Rightarrow> (case smoke_run env xs b1 of (ls, status, b2) \<Rightarrow> ((connector_name x @ '': PASS'') # ls, status, b2)))"

text \<open>\<open>only\<close> is \<^verbatim>\<open>--only\<close>, \<^const>\<open>None\<close> the default \<^verbatim>\<open>all\<close>; without \<^verbatim>\<open>--confirm-live\<close> the parser exits with status 2.\<close>

definition smoke_main :: "(connector \<Rightarrow> ('b, 'l) smoke_env) \<Rightarrow> bool \<Rightarrow> connector option \<Rightarrow> 'b \<Rightarrow> string list \<times> int \<times> 'b" where
  "smoke_main env confirm_live only b =
     (if \<not> confirm_live then ([], 2, b)
      else smoke_run env (case only of None \<Rightarrow> all_connectors | Some x \<Rightarrow> [x]) b)"

section \<open>What a run leaves and reports\<close>

text \<open>
  The object-storage check touches no object but its own, under a key that is new for each run, and leaves none when it passes; a passing check
  has read back the bytes that it wrote.
\<close>

lemma smoke_s3_clean:
  assumes laws: "s3_laws (ad_s3 (se_adapters se)) objects" and run: "smoke_s3 se b = (r, b')" and st: "smoke_s3_store se = Inr st"
    and key: "object_key st (smoke_key se) = Inr k"
  shows "k' \<noteq> k \<Longrightarrow> objects b' bucket k' = objects b bucket k'" and "r = Inr () \<Longrightarrow> objects b' (st_bucket st) k = None"
proof -
  let ?c = "ad_s3 (se_adapters se)"
  note S = s3_lawsD [OF laws]
  define ob where "ob = \<lparr>so_bucket = st_bucket st, so_key = k, so_body = smoke_bytes, so_content_type = ''text/plain'',
      so_encryption = (if st_kms_key_id st \<noteq> None then ''aws:kms'' else ''AES256''), so_kms_key_id = st_kms_key_id st\<rparr>"
  obtain ok b1 where put: "s3_put ?c ob b = (ok, b1)" by fastforce
  obtain gone b2 where del: "s3_delete ?c (st_bucket st) k b1 = (gone, b2)" by fastforce
  have P: "s3_blob_put ?c st (smoke_key se) smoke_bytes ''text/plain'' b = (if ok then Inr () else Inl (BlobStorageError ''object-storage blob write failed''), b1)"
    unfolding s3_blob_put_def key sum.case ob_def [symmetric] put by (cases ok) simp_all
  have D: "s3_blob_delete ?c st (smoke_key se) b1 = (if gone then Inr () else Inl (BlobStorageError ''object-storage blob delete failed''), b2)"
    unfolding s3_blob_delete_def key sum.case del by (cases gone) simp_all
  have b': "b' = (if ok then b2 else b1)" and r: "r = Inr () \<Longrightarrow> ok \<and> gone"
    using run by (auto simp: smoke_s3_def st P D split: if_splits)
  show "objects b' bucket k' = objects b bucket k'" if "k' \<noteq> k"
    using S(1) [OF put, of k' bucket] S(4) [OF del that, of bucket] that by (simp add: b' ob_def)
  show "r = Inr () \<Longrightarrow> objects b' (st_bucket st) k = None"
    using r S(5) del by (auto simp: b')
qed

text \<open>
  The report: a passing run lists every selected check as passed; a failing one lists those before the first failure as passed, names
  the failed one with the class of its exception, and runs no later check.
\<close>

lemma smoke_report:
  assumes "smoke_run env xs b = (ls, status, b')"
  shows "(status = 0 \<and> ls = map (\<lambda>x. connector_name x @ '': PASS'') xs @ [''connector-smoke: PASS'']) \<or>
    (\<exists>before x after e b0. xs = before @ x # after \<and> status = 1 \<and> smoke_check (env x) x b0 = (Inl e, b') \<and>
       ls = map (\<lambda>x. connector_name x @ '': PASS'') before @ [connector_name x @ '': FAIL ('' @ e @ '')''])"
  using assms
proof (induction xs arbitrary: b ls)
  case (Cons x xs)
  obtain r b1 where check: "smoke_check (env x) x b = (r, b1)" by fastforce
  show ?case
  proof (cases r)
    case (Inl e)
    with Cons.prems check have "status = 1 \<and> b' = b1 \<and> ls = [connector_name x @ '': FAIL ('' @ e @ '')'']" by simp
    with check Inl show ?thesis by (intro disjI2 exI [of _ "[]"] exI [of _ x] exI [of _ xs] exI [of _ e] exI [of _ b]) simp
  next
    case (Inr u)
    obtain ls' st' b2 where rest: "smoke_run env xs b1 = (ls', st', b2)" by (metis prod_cases3)
    with Cons.prems check Inr have eq: "ls = (connector_name x @ '': PASS'') # ls'" "st' = status" "b2 = b'" by auto
    from Cons.IH [OF rest [unfolded eq(2,3)]] show ?thesis
    proof (elim disjE exE conjE)
      fix before y after e b0
      assume "xs = before @ y # after" "status = 1" "smoke_check (env y) y b0 = (Inl e, b')"
        "ls' = map (\<lambda>x. connector_name x @ '': PASS'') before @ [connector_name y @ '': FAIL ('' @ e @ '')'']"
      with eq show ?thesis by (intro disjI2 exI [of _ "x # before"] exI [of _ y] exI [of _ after] exI [of _ e] exI [of _ b0]) simp
    qed (use eq in simp)
  qed
qed simp

end
