(* ===== verification/Spec2Isabelle.thy ===== *)
theory Spec2Isabelle
  imports Scheduler_Core Release_Tools Process_Loops Postgres_Audit Production_Preflight Store_Rows Database_Maintenance Connector_Smoke
begin

text \<open>
  A verification of the enterprise AI copilot platform, the Python packages under \<^verbatim>\<open>src/packages\<close> and the processes under
  \<^verbatim>\<open>src/services\<close>: an agent that answers questions about orders from an ERP through tool calls, with policy checks,
  approvals, audit, attachments with image analysis, schedules, plugins, and the HTTP API, worker, scheduler and operator tools
  around them. The source is translated definition by definition; every function keeps its conditions, early returns and
  exceptions, and an exception is a value of a sum type (\<open>result\<close>).

  \<^bold>\<open>The parts and how they interact.\<close> A request reaches the HTTP API (\<^verbatim>\<open>services/api/app.py\<close>), which derives the caller's
  identity from a token, applies rate limits and calls one of: the run service, which replays a stored result or calls
  the agent runtime; the approval service; the attachment service and the vision adapter; the audit log. The runtime asks the
  policy engine, calls the MCP gateway, checks the provenance of the answer, may ask a model provider to phrase it, and
  appends events to the audit log and spans to the trace exporter. The scheduler process puts due slots on a Redis queue; the
  worker claims them, triggers the scheduler's state machine and runs the agent under a configured identity. Every
  outbound adapter first validates its endpoint. \<^verbatim>\<open>build_default_app\<close> and \<^verbatim>\<open>services/bootstrap.py\<close> put a process together
  from environment variables, and the preflight script checks the same variables beforehand.

  \<^bold>\<open>The theories.\<close>
  \<^item> \<open>Py_Prelude\<close>, \<open>Py_Json\<close>, \<open>Py_Base64\<close>, \<open>Py_Datetime\<close>, \<open>Py_Datetime_Order\<close>: the Python values, strings, numbers, JSON
    text, base64 and date-times that the source uses, with the lemmas and simplification rules that the components share.
  \<^item> \<open>Runtime_Models\<close> (\<^verbatim>\<open>models.py\<close>), \<open>Policy_Engine\<close> (\<^verbatim>\<open>policy.py\<close>), \<open>Mcp_Gateway\<close> (\<^verbatim>\<open>mcp.py\<close>, \<^verbatim>\<open>mcp_http.py\<close>; the locale
    \<open>mcp_gateway\<close> is the contract of both gateways), \<open>Trace_Records\<close> (\<^verbatim>\<open>tracing.py\<close>), \<open>Audit_Log\<close> (\<^verbatim>\<open>audit.py\<close>; locale
    \<open>event_store\<close>), \<open>Postgres_Audit\<close> (the event store of \<^verbatim>\<open>postgres.py\<close>, a second interpretation of it).
  \<^item> \<open>Agent_Runtime\<close> (\<^verbatim>\<open>runtime.py\<close>): the whole of \<^verbatim>\<open>AgentRuntime.run\<close> as one function of the request and of the answers of its
    collaborators. \<open>Run_Service\<close> (\<^verbatim>\<open>runs.py\<close>, \<^verbatim>\<open>RunService\<close>, the PostgreSQL run store; locale \<open>run_store\<close>).
  \<^item> \<open>Approval_Stores\<close> and \<open>Approval_Service\<close> (\<^verbatim>\<open>approvals.py\<close> and the PostgreSQL store; locale \<open>approval_store\<close> with three
    interpretations), \<open>Rate_Limits\<close> (\<^verbatim>\<open>limits.py\<close>).
  \<^item> \<open>Claims_Auth\<close> (\<^verbatim>\<open>auth.py\<close>: HS256 and OIDC tokens), \<open>Outbound_Endpoints\<close> (\<^verbatim>\<open>network.py\<close> with the part of \<^verbatim>\<open>urllib.parse\<close> and
    \<^verbatim>\<open>ipaddress\<close> it uses), \<open>Model_Providers\<close> (\<^verbatim>\<open>model.py\<close>, \<^verbatim>\<open>vision/service.py\<close>), \<open>Outbound_Adapters\<close> (the OTLP exporter, the
    constructor and health probe of the remote gateway), \<open>Metrics_Registry\<close> (\<^verbatim>\<open>metrics.py\<close>).
  \<^item> \<open>Attachment_Stores\<close>, \<open>Blob_Stores\<close>, \<open>Malware_Scanner\<close>, \<open>Attachment_Service\<close> (\<^verbatim>\<open>attachments/\<close> and the PostgreSQL store; locales
    \<open>attachment_store\<close> and \<open>accepting_store\<close>, each interpreted on the in-memory, SQLite and PostgreSQL store).
  \<^item> \<open>Cron_Expressions\<close>, \<open>Schedule_Definitions\<close>, \<open>Scheduler_Core\<close> (\<^verbatim>\<open>schedule.py\<close>), \<open>Job_Queue\<close> (\<^verbatim>\<open>queue.py\<close>; locale \<open>fifo_queue\<close>),
    \<open>Schedule_Worker\<close> (\<^verbatim>\<open>worker/executor.py\<close> and one job or poll of the two processes), \<open>Process_Loops\<close> (the \<^verbatim>\<open>main\<close> functions of
    worker and scheduler with their loops and exit codes).
  \<^item> \<open>Api_Handlers\<close> (the handlers of \<^verbatim>\<open>app.py\<close> as functions of a request record and the state of the application) and
    \<open>Api_Safety\<close> (sequences of requests; locale \<open>api_backend\<close>, interpreted on the SQLite and PostgreSQL backends).
  \<^item> \<open>Contract_Validation\<close> (\<^verbatim>\<open>contracts/validation.py\<close>), \<open>Plugin_Registry\<close> (\<^verbatim>\<open>plugins/registry.py\<close>), \<open>Deployment_Config\<close>
    (\<^verbatim>\<open>bootstrap.py\<close>, \<^verbatim>\<open>build_default_app\<close>), \<open>Production_Preflight\<close> (\<^verbatim>\<open>scripts/production_preflight.py\<close>), \<open>Release_Tools\<close>
    (\<^verbatim>\<open>services/cli.py\<close>, the release gate, the version check and the secret scan).
  \<^item> \<open>Store_Rows\<close>: the column lists, inserted values, row decoders and scoped statements of the run, approval and attachment tables
    (locale \<open>row_codec\<close>, interpreted on the three tables), refining the operations over records of the store theories.
    \<open>Database_Maintenance\<close>: the migration runners, the backups and the bill of materials under \<^verbatim>\<open>scripts/\<close>.
  \<^item> \<open>Api_Acceptance\<close> (\<^verbatim>\<open>scripts/api_acceptance_smoke.py\<close>: the probe of a deployed API, whose state keeps the requests sent with their outcomes;
    locale \<open>probe_log\<close> for what holds of all of them) and \<open>Connector_Smoke\<close> (\<^verbatim>\<open>scripts/connector_smoke.py\<close>, over the adapters of the other theories).

  \<^bold>\<open>State and operations.\<close> A class is a record of its attributes, a table is the list of its rows in the order of insertion
  with its constraints in the operations that insert, an in-process dictionary is an association list in insertion
  order. An operation takes the state and returns its result with the new state. Several processes that share Redis or a
  database are interleavings of operations: \<open>Job_Queue\<close> has an inductive step relation for workers that claim and
  complete runs, \<open>Approval_Service\<close> and \<open>Scheduler_Core\<close> have histories of operations, \<open>Api_Safety\<close> lists of requests.

  \<^bold>\<open>What the lemmas show.\<close> Of the runtime: the status is decided by the gates and the provenance check, a blocked
  request reaches no collaborator, other tenants' data do not influence a run, the model sees verified evidence with consent only, the
  trail of events is complete, and a run returns. Of the API: isolation of tenants over all sequences of requests,
  identities from verified tokens only in production, auditing under the caller, gated creation of approvals, bounded
  uploads. Of approvals: decided at most once, by an authorised role in time, and verified for exactly the approved call. Of tokens: exact
  acceptance, soundness of OIDC, round trips. Of attachments: scope, round trip, exact purge, clean failures, containment of
  paths, equality of the three stores. Of schedules: exact cron slots, at most one execution of a slot, bounded retries, claims and
  completion at most once across workers, termination of the processes. Of configuration: what an accepted production
  configuration guarantees, that a passing preflight vouches for the application started from the same variables and that its
  report hides secrets, that a schedule which passes the contract check loads, that installed plugins are the reviewed bytes and
  stay in the registry. Of the tables: rows decode to the records that were written, and statements over rows implement the stores; migrations
  are applied once however often they run, a backup never overwrites a file and keeps the password out of the arguments. Of the
  probes: the acceptance probe deletes what it uploaded, sends only to the validated host under its two tokens, and passes only on observed
  isolation; the connector check leaves no object behind. Lemmas that exhibit a defect or a divergence from the documentation stand with the component.

  \<^bold>\<open>Bounds and fuel.\<close> The cron search makes the source's own 60 * 24 * 366 steps. The retry loop recurses on the attempts left,
  \<^verbatim>\<open>retry_limit + 1\<close>. The loops that may run forever (consuming jobs, producing jobs) are \<^theory_text>\<open>partial_function\<close>s into \<open>option\<close>, and
  their termination under a stop request is a theorem. All other recursion is structural or has a measure.

  \<^bold>\<open>Parameters.\<close> SHA-256, HMAC, RSA, random identifiers and clocks; \<^verbatim>\<open>json.loads\<close>, the YAML and TOML readers and the \<^verbatim>\<open>repr\<close> of
  floats; time zone data; the Redis client, HTTP transports, clamd and S3 connections; the file system; PIL; the IPv6
  parser; git, the CSV reader, \<^verbatim>\<open>pg_dump\<close>, \<^verbatim>\<open>urllib.parse.unquote\<close> and the execution of a migration script; the deployed API of the acceptance
  probe. A theorem that relies on one of them says so in a hypothesis, and its witness gives an instance.

  \<^bold>\<open>Limits of the model.\<close> Strings are Latin-1 texts; floats are exact rationals with infinities and NaN, without rounding;
  dictionaries that are decoded from documents have string keys, and YAML dates do not occur; \<^verbatim>\<open>datetime.fromisoformat\<close> is
  modelled for the extended format. Locks are not modelled: an operation of a store or of a service under a lock is atomic.

  \<^bold>\<open>Not modelled.\<close> FastAPI routing, the parsing of request bodies by pydantic, static pages, uvicorn and argparse, which are
  library code around the handlers; the statements that create tables and indexes, and the closing of connections; the
  queue, scheduler and worker smoke tests under \<^verbatim>\<open>scripts/\<close> and the demonstration command \<^verbatim>\<open>services/api/main.py\<close>, which call modelled
  operations on fixed inputs and have no logic of their own.
\<close>

end
